(* ===== verification/Prelude.thy ===== *)
theory Prelude
  imports Main "HOL-Library.Word" "HOL-Library.Char_ord" "HOL-Library.List_Lexorder"
    "HOL-Library.AList"
begin

unbundle bit_operations_syntax

text \<open>
  Shared vocabulary of the development: bytes, thrown errors and results, the sequencing of
  operations that may throw after they changed the state, the JavaScript \<open>Map\<close> (an association
  list in insertion order), and the interfaces (locales) that several components implement.

  Strings are lists of characters. A character stands for a UTF-16 code unit below 256, so
  string length, slicing, \<open>charCodeAt\<close> and \<open>toLowerCase\<close> agree with the language on Latin-1
  text; that is also the range of the "binary strings" that \<open>btoa\<close> and \<open>atob\<close> exchange.
\<close>

section \<open>Types\<close>

type_synonym byte = "8 word"
type_synonym bytes = "byte list"

text \<open>
  What the code throws: a plain \<open>Error\<close> with its message, or the \<open>ApiError\<close> of
  \<open>api/http.ts\<close> with the HTTP status, the server's error code and the message. \<open>Diverged\<close> is
  not thrown by the code: it marks a loop that did not end within the fuel of the model, and no
  \<open>catch\<close> stops it.
\<close>

datatype err = JsError string | ApiErr int string string | Diverged

fun err_message :: "err \<Rightarrow> string" where
  "err_message (JsError m) = m"
| "err_message (ApiErr _ _ m) = m"
| "err_message Diverged = []"

type_synonym 'a result = "err + 'a"

section \<open>Collections of facts\<close>

named_theorems codec_simps "equations of the encoders and decoders"
named_theorems model_defs "definitions of the state operations, unfolded by the component proofs"

section \<open>Results\<close>

definition ok :: "'a result \<Rightarrow> bool" where
  "ok r = (case r of Inl _ \<Rightarrow> False | Inr _ \<Rightarrow> True)"

definition try_bind :: "'a result \<Rightarrow> ('a \<Rightarrow> 'b result) \<Rightarrow> 'b result" where
  "try_bind r f = (case r of Inl e \<Rightarrow> Inl e | Inr x \<Rightarrow> f x)"

lemma ok_simps [simp]: "ok (Inr x)" "\<not> ok (Inl e)"
  by (simp_all add: ok_def)

lemma try_bind_simps [simp]:
  "try_bind (Inl e) f = Inl e"
  "try_bind (Inr x) f = f x"
  by (simp_all add: try_bind_def)

lemma try_bind_Inr_iff: "try_bind r f = Inr y \<longleftrightarrow> (\<exists>x. r = Inr x \<and> f x = Inr y)"
  by (cases r) auto

lemma try_bind_InrE [elim!]:
  assumes "try_bind r f = Inr y"
  obtains x where "r = Inr x" and "f x = Inr y"
  using assms by (auto simp: try_bind_Inr_iff)

text \<open>
  A stateful step returns its result and the new state; the state changes made before a throw
  persist. \<open>then_ok\<close> is the sequential composition: the rest is skipped after a throw.
\<close>

definition then_ok :: "'a result \<times> 's \<Rightarrow> ('a \<Rightarrow> 's \<Rightarrow> 'b result \<times> 's) \<Rightarrow> 'b result \<times> 's" where
  "then_ok p f = (case fst p of Inl e \<Rightarrow> (Inl e, snd p) | Inr x \<Rightarrow> f x (snd p))"

lemma then_ok_simps [simp]:
  "then_ok (Inl e, s) f = (Inl e, s)"
  "then_ok (Inr x, s) f = f x s"
  by (simp_all add: then_ok_def)

text \<open>
  \<open>ret\<close> and \<open>throw\<close> leave the state alone, \<open>attempt\<close> is \<open>try ... catch\<close>, and \<open>for_each\<close> is the
  \<open>for ... of\<close> loop whose body may throw.
\<close>

definition ret :: "'a \<Rightarrow> 's \<Rightarrow> 'a result \<times> 's" where
  "ret x s = (Inr x, s)"

definition throw :: "err \<Rightarrow> 's \<Rightarrow> 'a result \<times> 's" where
  "throw e s = (Inl e, s)"

definition attempt :: "'a result \<times> 's \<Rightarrow> (err \<Rightarrow> 's \<Rightarrow> 'a result \<times> 's) \<Rightarrow> 'a result \<times> 's" where
  "attempt p handler = (case fst p of Inl e \<Rightarrow> if e = Diverged then p else handler e (snd p) | Inr x \<Rightarrow> p)"

fun for_each :: "('a \<Rightarrow> 's \<Rightarrow> unit result \<times> 's) \<Rightarrow> 'a list \<Rightarrow> 's \<Rightarrow> unit result \<times> 's" where
  "for_each f [] s = ret () s"
| "for_each f (x # xs) s = then_ok (f x s) (\<lambda>_. for_each f xs)"

lemma ret_simps [simp]: "fst (ret x s) = Inr x" "snd (ret x s) = s"
  by (simp_all add: ret_def)

lemma throw_simps [simp]: "fst (throw e s) = Inl e" "snd (throw e s) = s"
  by (simp_all add: throw_def)

lemma then_ok_ret [simp]: "then_ok (ret x s) f = f x s" "then_ok (throw e s) f = throw e s"
  by (simp_all add: ret_def throw_def)

lemma attempt_simps [simp]:
  "attempt (Inr x, s) h = (Inr x, s)" "attempt (ret x s) h = ret x s"
  "attempt (Inl (JsError m), s) h = h (JsError m) s"
  "attempt (Inl (ApiErr n c m), s) h = h (ApiErr n c m) s"
  "attempt (Inl Diverged, s) h = (Inl Diverged, s)"
  by (simp_all add: attempt_def ret_def)

lemma for_each_append:
  "for_each f (xs @ ys) s = then_ok (for_each f xs s) (\<lambda>_. for_each f ys)"
  by (induction xs arbitrary: s) (auto simp: then_ok_def ret_def split: sum.splits)

lemma then_ok_snd:
  "P (snd p) \<Longrightarrow> (\<And>x. fst p = Inr x \<Longrightarrow> P (snd (f x (snd p)))) \<Longrightarrow> P (snd (then_ok p f))"
  by (auto simp: then_ok_def split: sum.splits)

section \<open>Interfaces\<close>

text \<open>
  An encoder with its decoder: what was encoded decodes to itself. A fixed-width codec can be
  read off the front of a longer byte string, so concatenations of fixed-width fields are
  unambiguous.
\<close>

locale codec =
  fixes enc :: "'a \<Rightarrow> 'c list"
    and dec :: "'c list \<Rightarrow> 'a result"
    and valid :: "'a \<Rightarrow> bool"
  assumes dec_enc: "valid x \<Longrightarrow> dec (enc x) = Inr x"
begin

lemma enc_inject: "valid x \<Longrightarrow> valid y \<Longrightarrow> enc x = enc y \<longleftrightarrow> x = y"
  by (metis dec_enc sum.inject(2))

end

locale fixed_codec = codec enc dec valid
  for enc :: "'a \<Rightarrow> 'c list" and dec :: "'c list \<Rightarrow> 'a result" and valid :: "'a \<Rightarrow> bool" +
  fixes width :: nat
  assumes length_enc: "valid x \<Longrightarrow> length (enc x) = width"
begin

lemma take_enc: "valid x \<Longrightarrow> dec (take width (enc x @ r)) = Inr x"
  by (simp add: length_enc dec_enc)

lemma enc_append_inject:
  assumes "valid x" and "valid y"
  shows "enc x @ r = enc y @ s \<longleftrightarrow> x = y \<and> r = s"
  using assms by (auto simp: length_enc enc_inject)

end

text \<open>
  What a step may do to the state, as a relation between the state before and after. It is
  reflexive and transitive, so it passes through every composition the code uses: sequence,
  \<open>try ... catch\<close> and loops. The components show it for their primitive steps and get it for
  their handlers.
\<close>

locale frame =
  fixes R :: "'s \<Rightarrow> 's \<Rightarrow> bool"
  assumes R_refl: "R s s"
    and R_trans: "R s t \<Longrightarrow> R t u \<Longrightarrow> R s u"
begin

lemma frame_ret: "R s (snd (ret x s))"
  by (simp add: R_refl)

lemma frame_throw: "R s (snd (throw e s))"
  by (simp add: R_refl)

lemma frame_then_ok: "R s (snd p) \<Longrightarrow> (\<And>x t. R t (snd (f x t))) \<Longrightarrow> R s (snd (then_ok p f))"
  by (auto simp: then_ok_def split: sum.splits intro: R_trans)

lemma frame_attempt: "R s (snd p) \<Longrightarrow> (\<And>e t. R t (snd (h e t))) \<Longrightarrow> R s (snd (attempt p h))"
  by (auto simp: attempt_def split: sum.splits intro: R_trans)

lemma frame_for_each: "(\<And>x t. R t (snd (f x t))) \<Longrightarrow> R s (snd (for_each f xs s))"
  by (induction xs arbitrary: s) (auto simp: R_refl intro: frame_then_ok)

lemmas frame_intros = frame_ret frame_throw frame_then_ok frame_attempt frame_for_each

end

text \<open>
  A keyed store: the JavaScript \<open>Map\<close>s of \<open>state/model.ts\<close> and the object stores of
  \<open>store/db.ts\<close>. \<open>inv\<close> is what every store built by the operations satisfies.
\<close>

locale keyed_store =
  fixes get :: "'s \<Rightarrow> 'k \<Rightarrow> 'v option"
    and put :: "'k \<Rightarrow> 'v \<Rightarrow> 's \<Rightarrow> 's"
    and del :: "'k \<Rightarrow> 's \<Rightarrow> 's"
    and inv :: "'s \<Rightarrow> bool"
  assumes get_put: "inv s \<Longrightarrow> get (put k v s) k' = (if k' = k then Some v else get s k')"
    and get_del: "inv s \<Longrightarrow> get (del k s) k' = (if k' = k then None else get s k')"
    and inv_put: "inv s \<Longrightarrow> inv (put k v s)"
    and inv_del: "inv s \<Longrightarrow> inv (del k s)"
begin

lemma get_put_same: "inv s \<Longrightarrow> get (put k v s) k = Some v"
  by (simp add: get_put)

lemma get_put_other: "inv s \<Longrightarrow> k' \<noteq> k \<Longrightarrow> get (put k v s) k' = get s k'"
  by (simp add: get_put)

lemma put_del_commute: "inv s \<Longrightarrow> k \<noteq> k' \<Longrightarrow> get (put k v (del k' s)) = get (del k' (put k v s))"
  by (rule ext) (simp add: get_put get_del inv_put inv_del)

lemma put_idem: "inv s \<Longrightarrow> get (put k v (put k v' s)) = get (put k v s)"
  by (rule ext) (simp add: get_put inv_put)

end

section \<open>The JavaScript Map\<close>

text \<open>
  A \<open>Map\<close> iterates in insertion order and \<open>set\<close> on a key it already holds keeps the key's
  place: exactly the association-list update.
\<close>

type_synonym 'v jmap = "(string \<times> 'v) list"

abbreviation jget :: "'v jmap \<Rightarrow> string \<Rightarrow> 'v option" where
  "jget m k \<equiv> map_of m k"

abbreviation jset :: "string \<Rightarrow> 'v \<Rightarrow> 'v jmap \<Rightarrow> 'v jmap" where
  "jset k v m \<equiv> AList.update k v m"

abbreviation jdel :: "string \<Rightarrow> 'v jmap \<Rightarrow> 'v jmap" where
  "jdel k m \<equiv> AList.delete k m"

definition jmap_inv :: "'v jmap \<Rightarrow> bool" where
  "jmap_inv m = distinct (map fst m)"

interpretation jm: keyed_store "map_of" "AList.update :: string \<Rightarrow> 'v \<Rightarrow> 'v jmap \<Rightarrow> 'v jmap" AList.delete jmap_inv
  by unfold_locales (auto simp: jmap_inv_def update_conv' delete_conv' distinct_update distinct_delete)

end
