(* ===== verification/Types.thy ===== *)
theory Types
  imports Prelude
begin

text \<open>
  The wire types of \<open>web/src/api/types.ts\<close> and the stored types of \<open>web/src/store/db.ts\<close> and
  \<open>web/src/state/model.ts\<close>. Optional fields are options. A payload has been through
  \<open>JSON.parse\<close> with an unchecked cast: the fields the receiving code guards with \<open>typeof\<close>, or
  whose absence makes it throw, are options too; every other field has its declared type. \<open>Untyped\<close>
  is a value that has no string \<open>t\<close>, \<open>Other\<close> a tag the client does not know.
\<close>

section \<open>Conversations, members and messages on the wire\<close>

datatype role = Owner | Member
datatype kind = Direct | Group

record member_view =
  mv_id :: string
  mv_username :: string
  mv_display_name :: "string option"
  mv_role :: role
  mv_joined_seq :: int
  mv_sign_pub :: string
  mv_enc_pub :: string
  mv_is_bot :: "bool option"

record conversation_view =
  cv_id :: string
  cv_kind :: kind
  cv_created_by :: string
  cv_created_at :: int
  cv_last_seq :: int
  cv_read_seq :: int
  cv_joined_seq :: int
  cv_role :: role
  cv_retention_seconds :: "int option"
  cv_members :: "member_view list"

record message_view =
  m_conv_id :: string
  m_seq :: int
  m_sender_account :: string
  m_sender_device :: string
  m_client_msg_id :: string
  m_env :: string
  m_sig :: string
  m_server_ts :: int
  m_deleted_seq :: "int option"
  m_deleted_sender :: "string option"

record message_page =
  page_messages :: "message_view list"
  page_has_more :: bool

record user_view =
  u_id :: string
  u_username :: string
  u_display_name :: "string option"
  u_sign_pub :: string
  u_enc_pub :: string
  u_is_bot :: "bool option"

record send_result =
  sr_conv_id :: string
  sr_client_msg_id :: string
  sr_seq :: int
  sr_server_ts :: int
  sr_duplicate :: "bool option"
  sr_ephemeral :: "bool option"

datatype registration = Open | Invite | Closed

record server_settings =
  ss_registration :: registration
  ss_announcement :: string
  ss_allow_bots :: bool
  ss_max_attachment_bytes :: int
  ss_max_group_members :: int
  ss_retention_days :: int
  ss_user_directory :: bool

record visibility =
  v_find_me_in_search :: bool
  v_show_online :: bool
  v_allow_group_add :: bool

record event_payload =
  ev_kind :: string
  ev_conv_id :: "string option"
  ev_actor :: "string option"
  ev_account :: "string option"
  ev_seq :: "int option"
  ev_device_id :: "string option"
  ev_at :: "int option"
  ev_proof :: "string option"

section \<open>Payloads\<close>

record member_info =
  mi_id :: string
  mi_username :: string
  mi_sign_pub :: string
  mi_enc_pub :: string

record file_payload =
  fp_blob :: string
  fp_key :: string
  fp_nonce :: string
  fp_name :: string
  fp_mime :: "string option"
  fp_size :: int
  fp_thumb :: "string option"
  fp_width :: "int option"
  fp_height :: "int option"

text \<open>An ICE candidate is opaque to the client; it only forwards and applies it.\<close>

type_synonym ice = string

datatype call_signal =
    CallOffer string string "bool option" "ice list option"
  | CallAnswer string string "bool option" "ice list option"
  | CallVideo string bool
  | CallIce string "ice list"
  | CallReject string string
  | CallHangup string
  | CallShare string bool

datatype voice_signal =
    VoiceJoin string bool "bool option" "bool option"
  | VoiceHere string bool "bool option" "bool option"
  | VoiceShare string bool
  | VoiceCamera string bool
  | VoiceLeave string
  | VoiceOffer string string string
  | VoiceAnswer string string string
  | VoiceIce string string "ice list"

datatype payload =
    Text string "string option"
  | TextEdit "string option" "string option"
  | File file_payload
  | ConvCreate kind "string option" "member_info list option"
  | MemberAdd "member_info option" "member_info list option"
  | MemberRemove string "member_info list option"
  | ConvRename string
  | ConvRetention int
  | Call call_signal
  | Voice voice_signal
  | Other string
  | Untyped

fun call_tag :: "call_signal \<Rightarrow> string" where
  "call_tag (CallOffer _ _ _ _) = ''call.offer''"
| "call_tag (CallAnswer _ _ _ _) = ''call.answer''"
| "call_tag (CallVideo _ _) = ''call.video''"
| "call_tag (CallIce _ _) = ''call.ice''"
| "call_tag (CallReject _ _) = ''call.reject''"
| "call_tag (CallHangup _) = ''call.hangup''"
| "call_tag (CallShare _ _) = ''call.share''"

fun voice_tag :: "voice_signal \<Rightarrow> string" where
  "voice_tag (VoiceJoin _ _ _ _) = ''voice.join''"
| "voice_tag (VoiceHere _ _ _ _) = ''voice.here''"
| "voice_tag (VoiceShare _ _) = ''voice.share''"
| "voice_tag (VoiceCamera _ _) = ''voice.camera''"
| "voice_tag (VoiceLeave _) = ''voice.leave''"
| "voice_tag (VoiceOffer _ _ _) = ''voice.offer''"
| "voice_tag (VoiceAnswer _ _ _) = ''voice.answer''"
| "voice_tag (VoiceIce _ _ _) = ''voice.ice''"

text \<open>The field \<open>t\<close>, when it is a string.\<close>

fun payload_t :: "payload \<Rightarrow> string option" where
  "payload_t (Text _ _) = Some ''text''"
| "payload_t (TextEdit _ _) = Some ''text.edit''"
| "payload_t (File _) = Some ''file''"
| "payload_t (ConvCreate _ _ _) = Some ''conv.create''"
| "payload_t (MemberAdd _ _) = Some ''member.add''"
| "payload_t (MemberRemove _ _) = Some ''member.remove''"
| "payload_t (ConvRename _) = Some ''conv.rename''"
| "payload_t (ConvRetention _) = Some ''conv.retention''"
| "payload_t (Call c) = Some (call_tag c)"
| "payload_t (Voice v) = Some (voice_tag v)"
| "payload_t (Other s) = Some s"
| "payload_t Untyped = None"

section \<open>Stored types\<close>

record contact =
  ct_id :: string
  ct_username :: string
  ct_display_name :: "string option"
  ct_is_bot :: bool
  ct_sign_pub :: bytes
  ct_enc_pub :: bytes
  ct_verified :: bool
  ct_pending_keys :: "(bytes \<times> bytes) option"
  ct_first_seen :: int

record preview =
  lm_text :: string
  lm_ts :: int
  lm_sender :: string
  lm_seq :: "int option"

record conversation =
  c_id :: string
  c_kind :: kind
  c_name :: string
  c_created_by :: string
  c_created_at :: int
  c_role :: role
  c_joined_seq :: int
  c_last_seq :: int
  c_read_seq :: int
  c_synced_seq :: int
  c_server_members :: "string list"
  c_roster :: "string list option"
  c_roster_seq :: int
  c_retention_seconds :: int
  c_last_message :: "preview option"
  c_updated_at :: int
  c_removed :: bool

record stored_message =
  sm_conv_id :: string
  sm_seq :: int
  sm_client_msg_id :: string
  sm_sender :: string
  sm_sender_device :: string
  sm_ts :: int
  sm_server_ts :: int
  sm_payload :: "payload option"
  sm_error :: "string option"
  sm_edited :: bool

record session_info =
  si_account_id :: string
  si_device_id :: string
  si_username :: string
  si_token :: string
  si_is_admin :: bool

record pending_message =
  pm_client_msg_id :: string
  pm_conv_id :: string
  pm_payload :: payload
  pm_ts :: int
  pm_failed :: "string option"
  pm_uploading :: bool

end
