(* ===== verification/Db.thy ===== *)
theory Db
  imports Types
begin

text \<open>
  \<open>web/src/store/db.ts\<close>: the object stores in IndexedDB. A store keeps its records in key order with
  one record per key; \<open>getAll\<close> and the indexes return them in that order. Opening and upgrading the
  database is in \<open>Opening\<close>; requests that fail (a full disk) are not modelled.
\<close>

section \<open>Object stores\<close>

text \<open>The compound key \<open>[convId, seq]\<close>: arrays compare element by element, strings by code unit.\<close>

datatype message_key = MsgKey (mk_conv: string) (mk_seq: int)

instantiation message_key :: linorder
begin

definition less_eq_message_key :: "message_key \<Rightarrow> message_key \<Rightarrow> bool" where
  "less_eq_message_key a b \<longleftrightarrow> mk_conv a < mk_conv b \<or> mk_conv a = mk_conv b \<and> mk_seq a \<le> mk_seq b"

definition less_message_key :: "message_key \<Rightarrow> message_key \<Rightarrow> bool" where
  "less_message_key a b \<longleftrightarrow> mk_conv a < mk_conv b \<or> mk_conv a = mk_conv b \<and> mk_seq a < mk_seq b"

instance
  by standard (auto simp: less_eq_message_key_def less_message_key_def message_key.expand)

end

type_synonym ('k, 'v) store = "('k \<times> 'v) list"

fun sput :: "'k::linorder \<Rightarrow> 'v \<Rightarrow> ('k, 'v) store \<Rightarrow> ('k, 'v) store" where
  "sput k v [] = [(k, v)]"
| "sput k v ((k', v') # s) =
     (if k < k' then (k, v) # (k', v') # s else if k = k' then (k, v) # s else (k', v') # sput k v s)"

definition sdel :: "'k \<Rightarrow> ('k, 'v) store \<Rightarrow> ('k, 'v) store" where
  "sdel k s = filter (\<lambda>e. fst e \<noteq> k) s"

definition sget :: "('k, 'v) store \<Rightarrow> 'k \<Rightarrow> 'v option" where
  "sget s k = map_of s k"

definition get_all :: "('k, 'v) store \<Rightarrow> 'v list" where
  "get_all s = map snd s"

definition store_inv :: "('k::linorder, 'v) store \<Rightarrow> bool" where
  "store_inv s = sorted_wrt (<) (map fst s)"

lemma keys_sput: "fst ` set (sput k v s) = insert k (fst ` set s)"
proof (induction s)
  case Nil
  then show ?case by simp
next
  case (Cons e s)
  then show ?case by (cases e) (simp split: if_split, blast)
qed

lemma store_inv_sput: "store_inv s \<Longrightarrow> store_inv (sput k v s)"
proof (induction s)
  case Nil
  then show ?case by (simp add: store_inv_def)
next
  case (Cons e s)
  then have IH: "sorted_wrt (<) (map fst (sput k v s))" by (simp add: store_inv_def)
  show ?case
  proof (cases e)
    case (Pair k' v')
    with Cons.prems IH keys_sput [of k v s] show ?thesis
      by (auto simp: store_inv_def)
  qed
qed

lemma store_inv_sdel: "store_inv s \<Longrightarrow> store_inv (sdel k s)"
  by (induction s) (auto simp: store_inv_def sdel_def)

lemma sget_sput: "store_inv s \<Longrightarrow> sget (sput k v s) k' = (if k' = k then Some v else sget s k')"
  by (induction s) (auto simp: store_inv_def sget_def split: if_splits)

lemma sget_sdel: "sget (sdel k s) k' = (if k' = k then None else sget s k')"
  by (induction s) (auto simp: sget_def sdel_def)

interpretation os: keyed_store sget sput sdel store_inv
  by unfold_locales (auto simp: sget_sput sget_sdel store_inv_sput store_inv_sdel)

lemma store_inv_distinct: "store_inv s \<Longrightarrow> distinct (map fst s)"
  unfolding store_inv_def by (simp add: strict_sorted_iff)

lemma in_store_iff: "store_inv s \<Longrightarrow> (k, v) \<in> set s \<longleftrightarrow> sget s k = Some v"
  by (simp add: sget_def store_inv_distinct)

lemma set_sput: "store_inv s \<Longrightarrow> (k', v') \<in> set (sput k v s) \<longleftrightarrow> (if k' = k then v' = v else (k', v') \<in> set s)"
  by (auto simp: in_store_iff store_inv_sput sget_sput)

lemma set_sdel: "e \<in> set (sdel k s) \<longleftrightarrow> e \<in> set s \<and> fst e \<noteq> k"
  by (auto simp: sdel_def)

section \<open>The database\<close>

text \<open>The \<open>meta\<close> store holds the session and the secret keys of the signed-in account.\<close>

record db =
  db_session :: "session_info option"
  db_keys :: "(bytes \<times> bytes) option"
  db_contacts :: "(string, contact) store"
  db_conversations :: "(string, conversation) store"
  db_messages :: "(message_key, stored_message) store"

definition msg_key :: "stored_message \<Rightarrow> message_key" where
  "msg_key m = MsgKey (sm_conv_id m) (sm_seq m)"

definition put_contact :: "contact \<Rightarrow> db \<Rightarrow> db" where
  "put_contact c d = d\<lparr>db_contacts := sput (ct_id c) c (db_contacts d)\<rparr>"

definition all_contacts :: "db \<Rightarrow> contact list" where
  "all_contacts d = get_all (db_contacts d)"

definition put_conversation :: "conversation \<Rightarrow> db \<Rightarrow> db" where
  "put_conversation c d = d\<lparr>db_conversations := sput (c_id c) c (db_conversations d)\<rparr>"

definition all_conversations :: "db \<Rightarrow> conversation list" where
  "all_conversations d = get_all (db_conversations d)"

definition put_message :: "stored_message \<Rightarrow> db \<Rightarrow> db" where
  "put_message m d = d\<lparr>db_messages := sput (msg_key m) m (db_messages d)\<rparr>"

definition get_message :: "string \<Rightarrow> int \<Rightarrow> db \<Rightarrow> stored_message option" where
  "get_message conv_id seq d = sget (db_messages d) (MsgKey conv_id seq)"

definition message_by_client_id :: "string \<Rightarrow> string \<Rightarrow> string \<Rightarrow> db \<Rightarrow> stored_message option" where
  "message_by_client_id conv_id sender client_msg_id d =
     List.find (\<lambda>m. sm_conv_id m = conv_id \<and> sm_sender m = sender)
       (filter (\<lambda>m. sm_client_msg_id m = client_msg_id) (get_all (db_messages d)))"

definition delete_stored_message :: "string \<Rightarrow> int \<Rightarrow> db \<Rightarrow> db" where
  "delete_stored_message conv_id seq d = d\<lparr>db_messages := sdel (MsgKey conv_id seq) (db_messages d)\<rparr>"

definition messages_for :: "string \<Rightarrow> db \<Rightarrow> stored_message list" where
  "messages_for conv_id d = sort_key sm_seq (filter (\<lambda>m. sm_conv_id m = conv_id) (get_all (db_messages d)))"

definition all_messages :: "db \<Rightarrow> stored_message list" where
  "all_messages d = get_all (db_messages d)"

definition delete_messages_before :: "string \<Rightarrow> int \<Rightarrow> db \<Rightarrow> nat \<times> db" where
  "delete_messages_before conv_id server_ts d =
     fold (\<lambda>m (deleted, d). if sm_server_ts m < server_ts
             then (deleted + 1, delete_stored_message (sm_conv_id m) (sm_seq m) d) else (deleted, d))
       (filter (\<lambda>m. sm_conv_id m = conv_id) (get_all (db_messages d))) (0, d)"

definition clear_all :: "db \<Rightarrow> db" where
  "clear_all d = \<lparr>db_session = None, db_keys = None, db_contacts = [], db_conversations = [], db_messages = []\<rparr>"

section \<open>Facts\<close>

text \<open>Every store is ordered and every record is filed under its own key.\<close>

definition db_inv :: "db \<Rightarrow> bool" where
  "db_inv d \<longleftrightarrow> store_inv (db_contacts d) \<and> store_inv (db_conversations d) \<and> store_inv (db_messages d)
     \<and> (\<forall>(k, c) \<in> set (db_contacts d). k = ct_id c) \<and> (\<forall>(k, c) \<in> set (db_conversations d). k = c_id c)
     \<and> (\<forall>(k, m) \<in> set (db_messages d). k = msg_key m)"

lemma db_inv_put_contact: "db_inv d \<Longrightarrow> db_inv (put_contact c d)"
  by (auto simp: db_inv_def put_contact_def store_inv_sput set_sput split: if_splits)

lemma db_inv_put_conversation: "db_inv d \<Longrightarrow> db_inv (put_conversation c d)"
  by (auto simp: db_inv_def put_conversation_def store_inv_sput set_sput split: if_splits)

lemma db_inv_put_message: "db_inv d \<Longrightarrow> db_inv (put_message m d)"
  by (auto simp: db_inv_def put_message_def store_inv_sput set_sput split: if_splits)

lemma db_inv_delete: "db_inv d \<Longrightarrow> db_inv (delete_stored_message conv seq d)"
  by (auto simp: db_inv_def delete_stored_message_def store_inv_sdel set_sdel)

lemma db_inv_clear_all: "db_inv (clear_all d)"
  by (simp add: db_inv_def clear_all_def store_inv_def)

lemma get_message_put:
  "db_inv d \<Longrightarrow> get_message conv seq (put_message m d)
     = (if sm_conv_id m = conv \<and> sm_seq m = seq then Some m else get_message conv seq d)"
  by (auto simp: db_inv_def get_message_def put_message_def sget_sput msg_key_def)

lemma get_message_delete:
  "get_message conv seq (delete_stored_message conv' seq' d)
     = (if conv = conv' \<and> seq = seq' then None else get_message conv seq d)"
  by (simp add: get_message_def delete_stored_message_def sget_sdel)

lemma in_get_all_messages:
  assumes "db_inv d"
  shows "m \<in> set (get_all (db_messages d)) \<longleftrightarrow> get_message (sm_conv_id m) (sm_seq m) d = Some m"
proof -
  from assms have inv: "store_inv (db_messages d)" and keys: "\<forall>(k, m) \<in> set (db_messages d). k = msg_key m"
    by (simp_all add: db_inv_def)
  have "m \<in> set (get_all (db_messages d)) \<longleftrightarrow> (\<exists>k. (k, m) \<in> set (db_messages d))"
    by (auto simp: get_all_def image_iff Bex_def)
  also have "\<dots> \<longleftrightarrow> (msg_key m, m) \<in> set (db_messages d)" using keys by auto
  also have "\<dots> \<longleftrightarrow> get_message (sm_conv_id m) (sm_seq m) d = Some m"
    using inv by (simp add: in_store_iff get_message_def msg_key_def)
  finally show ?thesis .
qed

lemma set_messages_for:
  "db_inv d \<Longrightarrow> m \<in> set (messages_for conv d) \<longleftrightarrow> sm_conv_id m = conv \<and> get_message conv (sm_seq m) d = Some m"
  by (auto simp: messages_for_def in_get_all_messages)

lemma message_by_client_id_Some:
  "db_inv d \<Longrightarrow> message_by_client_id conv sender cid d = Some m \<Longrightarrow>
     sm_conv_id m = conv \<and> sm_sender m = sender \<and> sm_client_msg_id m = cid \<and> get_message conv (sm_seq m) d = Some m"
  unfolding message_by_client_id_def
  by (auto simp: find_Some_iff in_get_all_messages [symmetric] dest: nth_mem)

lemma sorted_messages_for: "sorted (map sm_seq (messages_for conv d))"
  by (simp add: messages_for_def)


lemma delete_fold:
  "get_message c s (snd (fold (\<lambda>m (n, d). if sm_server_ts m < t
      then (n + 1, delete_stored_message (sm_conv_id m) (sm_seq m) d) else (n, d)) L (n, d)))
   = (if \<exists>m \<in> set L. sm_server_ts m < t \<and> sm_conv_id m = c \<and> sm_seq m = s then None else get_message c s d)"
  by (induction L arbitrary: n d) (auto simp: get_message_delete)

lemma delete_fold_inv:
  "db_inv d \<Longrightarrow> db_inv (snd (fold (\<lambda>m (n, d). if sm_server_ts m < t
      then (n + 1, delete_stored_message (sm_conv_id m) (sm_seq m) d) else (n, d)) L (n, d)))"
  by (induction L arbitrary: n d) (auto simp: db_inv_delete)

lemma db_inv_delete_before: "db_inv d \<Longrightarrow> db_inv (snd (delete_messages_before conv t d))"
  unfolding delete_messages_before_def by (rule delete_fold_inv)

lemma delete_fold_frame:
  "db_session (snd (fold (\<lambda>m (n, d). if sm_server_ts m < t
      then (n + 1, delete_stored_message (sm_conv_id m) (sm_seq m) d) else (n, d)) L (n, d))) = db_session d"
  "db_contacts (snd (fold (\<lambda>m (n, d). if sm_server_ts m < t
      then (n + 1, delete_stored_message (sm_conv_id m) (sm_seq m) d) else (n, d)) L (n, d))) = db_contacts d"
  "db_conversations (snd (fold (\<lambda>m (n, d). if sm_server_ts m < t
      then (n + 1, delete_stored_message (sm_conv_id m) (sm_seq m) d) else (n, d)) L (n, d))) = db_conversations d"
  by (induction L arbitrary: n d) (auto simp: delete_stored_message_def)

lemma delete_before_frame:
  "db_session (snd (delete_messages_before conv t d)) = db_session d"
  "db_contacts (snd (delete_messages_before conv t d)) = db_contacts d"
  "db_conversations (snd (delete_messages_before conv t d)) = db_conversations d"
  unfolding delete_messages_before_def by (simp_all add: delete_fold_frame)

text \<open>Exactly the old messages of the conversation go.\<close>

lemma get_message_delete_before:
  assumes "db_inv d"
  shows "get_message c s (snd (delete_messages_before conv t d))
    = (case get_message c s d of None \<Rightarrow> None
       | Some m \<Rightarrow> if c = conv \<and> sm_server_ts m < t then None else Some m)"
proof -
  have key: "sm_conv_id m = c \<and> sm_seq m = s" if "get_message c s d = Some m" for m
    using assms that in_store_iff [of "db_messages d" "MsgKey c s" m]
    by (auto simp: db_inv_def get_message_def msg_key_def)
  have "(\<exists>m \<in> set (filter (\<lambda>m. sm_conv_id m = conv) (get_all (db_messages d))).
      sm_server_ts m < t \<and> sm_conv_id m = c \<and> sm_seq m = s)
    \<longleftrightarrow> c = conv \<and> (\<exists>m. get_message c s d = Some m \<and> sm_server_ts m < t)"
    using in_get_all_messages [OF assms] key by auto
  then show ?thesis
    unfolding delete_messages_before_def delete_fold by (auto split: option.splits)
qed

end
