(* ===== verification/Bytes.thy ===== *)
theory Bytes
  imports Prelude
begin

text \<open>
  \<open>web/src/crypto/bytes.ts\<close>: joining byte arrays, constant-time comparison, hexadecimal and
  base64. \<open>btoa\<close>, \<open>atob\<close>, \<open>parseInt\<close> and \<open>toString(16)\<close> are the language's and the
  browser's functions, written out as their standards define them.
\<close>

section \<open>Joining byte arrays\<close>

definition set_at :: "bytes \<Rightarrow> nat \<Rightarrow> bytes \<Rightarrow> bytes" where
  "set_at out off p = take off out @ p @ drop (off + length p) out"

fun concat_fill :: "bytes \<Rightarrow> nat \<Rightarrow> bytes list \<Rightarrow> bytes" where
  "concat_fill out off [] = out"
| "concat_fill out off (p # ps) = concat_fill (set_at out off p) (off + length p) ps"

definition concat_bytes :: "bytes list \<Rightarrow> bytes" where
  "concat_bytes parts = concat_fill (replicate (sum_list (map length parts)) 0) 0 parts"

lemma concat_fill_eq:
  "concat_fill (pre @ replicate (sum_list (map length ps)) 0) (length pre) ps = pre @ concat ps"
proof (induction ps arbitrary: pre)
  case Nil
  then show ?case by simp
next
  case (Cons p ps)
  have "set_at (pre @ replicate (length p + sum_list (map length ps)) 0) (length pre) p
      = (pre @ p) @ replicate (sum_list (map length ps)) 0"
    by (simp add: set_at_def replicate_add)
  with Cons.IH [of "pre @ p"] show ?case by simp
qed

lemma concat_bytes_eq [codec_simps]: "concat_bytes ps = concat ps"
  using concat_fill_eq [of "[]" ps] by (simp add: concat_bytes_def)

section \<open>Constant-time comparison\<close>

fun equal_loop :: "bytes \<Rightarrow> bytes \<Rightarrow> byte \<Rightarrow> byte" where
  "equal_loop (a # as) (b # bs) d = equal_loop as bs (d OR (a XOR b))"
| "equal_loop _ _ d = d"

definition equal_bytes :: "bytes \<Rightarrow> bytes \<Rightarrow> bool" where
  "equal_bytes a b = (if length a \<noteq> length b then False else equal_loop a b 0 = 0)"

lemma xor_eq_0_byte_iff: "(x XOR y) = (0 :: byte) \<longleftrightarrow> x = y"
  by (metis xor.assoc xor.left_neutral xor.right_neutral xor_self_eq)

lemma equal_loop_zero:
  "length a = length b \<Longrightarrow> equal_loop a b d = 0 \<longleftrightarrow> d = 0 \<and> a = b"
  by (induction a b d rule: equal_loop.induct) (auto simp: or_eq_0_iff xor_eq_0_byte_iff)

lemma equal_bytes_iff [simp]: "equal_bytes a b \<longleftrightarrow> a = b"
  by (auto simp: equal_bytes_def equal_loop_zero)

section \<open>Characters and bytes\<close>

definition char_byte :: "char \<Rightarrow> byte" where
  "char_byte c = word_of_nat (of_char c)"

definition byte_char :: "byte \<Rightarrow> char" where
  "byte_char w = char_of (unat w)"

lemma unat_byte_lt [simp]: "unat (w :: byte) < 256"
  using unsigned_less [of w] by simp

lemma char_byte_inverse [simp]: "char_byte (byte_char w) = w"
  by (simp add: char_byte_def byte_char_def)

lemma of_char_lt [simp]: "(of_char c :: nat) < 256"
  using nat_of_char_less_256 [of c] by simp

lemma byte_char_inverse [simp]: "byte_char (char_byte c) = c"
proof -
  have "unat (word_of_nat (of_char c) :: byte) = of_char c"
    by (simp add: unat_of_nat)
  then show ?thesis by (simp add: char_byte_def byte_char_def)
qed

section \<open>Hexadecimal\<close>

definition hex_digit :: "nat \<Rightarrow> char" where
  "hex_digit n = ''0123456789abcdef'' ! n"

text \<open>\<open>Number.prototype.toString(16)\<close> of a non-negative integer, and \<open>padStart\<close>.\<close>

fun to_string16 :: "nat \<Rightarrow> string" where
  "to_string16 n = (if n < 16 then [hex_digit n] else to_string16 (n div 16) @ [hex_digit (n mod 16)])"

declare to_string16.simps [simp del]

definition pad_start :: "nat \<Rightarrow> char \<Rightarrow> string \<Rightarrow> string" where
  "pad_start n c s = replicate (n - length s) c @ s"

fun bytes_to_hex :: "bytes \<Rightarrow> string" where
  "bytes_to_hex [] = []"
| "bytes_to_hex (x # xs) = pad_start 2 (CHR ''0'') (to_string16 (unat x)) @ bytes_to_hex xs"

text \<open>
  \<open>Number.parseInt(s, 16)\<close>: leading white space and one sign are skipped, then an optional
  \<open>0x\<close>; the longest run of hexadecimal digits is read and the rest of the string is ignored.
  \<open>None\<close> is \<open>NaN\<close>.
\<close>

definition hex_value :: "char \<Rightarrow> nat option" where
  "hex_value c = (let n = of_char c :: nat in
     if 48 \<le> n \<and> n \<le> 57 then Some (n - 48)
     else if 97 \<le> n \<and> n \<le> 102 then Some (n - 87)
     else if 65 \<le> n \<and> n \<le> 70 then Some (n - 55)
     else None)"

definition js_space :: "char \<Rightarrow> bool" where
  "js_space c = ((of_char c :: nat) \<in> {9, 10, 11, 12, 13, 32, 160})"

fun hex_prefix :: "nat option \<Rightarrow> string \<Rightarrow> nat option" where
  "hex_prefix acc [] = acc"
| "hex_prefix acc (c # cs) =
     (case hex_value c of
        None \<Rightarrow> acc
      | Some v \<Rightarrow> hex_prefix (Some (16 * (case acc of None \<Rightarrow> 0 | Some a \<Rightarrow> a) + v)) cs)"

definition strip_0x :: "string \<Rightarrow> string" where
  "strip_0x s = (case s of c # d # r \<Rightarrow> if c = CHR ''0'' \<and> d \<in> {CHR ''x'', CHR ''X''} then r else s | _ \<Rightarrow> s)"

definition parse_int16 :: "string \<Rightarrow> int option" where
  "parse_int16 s = (let t = dropWhile js_space s in
     case t of
       [] \<Rightarrow> None
     | c # r \<Rightarrow>
         (if c = CHR ''-'' then map_option (\<lambda>n. - int n) (hex_prefix None (strip_0x r))
          else if c = CHR ''+'' then map_option int (hex_prefix None (strip_0x r))
          else map_option int (hex_prefix None (strip_0x t))))"

fun hex_pairs :: "string \<Rightarrow> bytes result" where
  "hex_pairs (a # b # r) =
     (case parse_int16 [a, b] of
        None \<Rightarrow> Inl (JsError ''invalid hex'')
      | Some v \<Rightarrow> (case hex_pairs r of Inl e \<Rightarrow> Inl e | Inr bs \<Rightarrow> Inr (word_of_int v # bs)))"
| "hex_pairs _ = Inr []"

definition hex_to_bytes :: "string \<Rightarrow> bytes result" where
  "hex_to_bytes hex =
     (if length hex mod 2 \<noteq> 0 then Inl (JsError ''hex string has odd length'') else hex_pairs hex)"

lemma less_16_cases: "(n :: nat) < 16 \<Longrightarrow> n \<in> set [0..<16]"
  by simp

lemma hex_value_digit: "n < 16 \<Longrightarrow> hex_value (hex_digit n) = Some n"
proof -
  have "\<forall>n \<in> set [0..<16]. hex_value (hex_digit n) = Some n" by code_simp
  then show "n < 16 \<Longrightarrow> hex_value (hex_digit n) = Some n" using less_16_cases by blast
qed

lemma hex_digit_plain:
  "n < 16 \<Longrightarrow> \<not> js_space (hex_digit n) \<and> hex_digit n \<notin> {CHR ''-'', CHR ''+'', CHR ''x'', CHR ''X''}"
proof -
  have "\<forall>n \<in> set [0..<16]. \<not> js_space (hex_digit n)
      \<and> hex_digit n \<notin> {CHR ''-'', CHR ''+'', CHR ''x'', CHR ''X''}" by code_simp
  then show "n < 16 \<Longrightarrow> ?thesis" using less_16_cases by blast
qed

lemma hex_digit_chars: "n < 16 \<Longrightarrow> hex_digit n \<in> set ''0123456789abcdef''"
  unfolding hex_digit_def by (rule nth_mem) simp

lemma byte_div_16_lt [simp]: "unat (x :: byte) div 16 < 16"
  using unat_byte_lt [of x] by linarith

lemma hex_byte_digits:
  "pad_start 2 (CHR ''0'') (to_string16 (unat (x :: byte)))
     = [hex_digit (unat x div 16), hex_digit (unat x mod 16)]"
proof (cases "unat x < 16")
  case True
  then show ?thesis
    by (simp add: to_string16.simps [of "unat x"] pad_start_def hex_digit_def)
next
  case False
  then show ?thesis
    by (simp add: to_string16.simps [of "unat x"] to_string16.simps [of "unat x div 16"] pad_start_def)
qed

lemma length_bytes_to_hex [simp]: "length (bytes_to_hex b) = 2 * length b"
  by (induction b) (simp_all add: hex_byte_digits)

lemma bytes_to_hex_append [simp]: "bytes_to_hex (a @ b) = bytes_to_hex a @ bytes_to_hex b"
  by (induction a) simp_all

lemma set_bytes_to_hex: "set (bytes_to_hex b) \<subseteq> set ''0123456789abcdef''"
proof (induction b)
  case Nil
  then show ?case by simp
next
  case (Cons x xs)
  have "{hex_digit (unat x div 16), hex_digit (unat x mod 16)} \<subseteq> set ''0123456789abcdef''"
    using hex_digit_chars [OF byte_div_16_lt] hex_digit_chars [of "unat x mod 16"] by simp
  with Cons.IH show ?case by (simp add: hex_byte_digits)
qed

lemma parse_int16_digits:
  assumes "m < 16" and "n < 16"
  shows "parse_int16 [hex_digit m, hex_digit n] = Some (int (16 * m + n))"
  using hex_digit_plain [OF assms(1)] hex_digit_plain [OF assms(2)] assms
  by (simp add: parse_int16_def strip_0x_def hex_value_digit)

lemma hex_pairs_bytes_to_hex: "hex_pairs (bytes_to_hex b @ r) =
    (case hex_pairs r of Inl e \<Rightarrow> Inl e | Inr bs \<Rightarrow> Inr (b @ bs))"
proof (induction b)
  case Nil
  then show ?case by (simp split: sum.splits)
next
  case (Cons x xs)
  have "parse_int16 [hex_digit (unat x div 16), hex_digit (unat x mod 16)] = Some (int (unat x))"
    using parse_int16_digits [of "unat x div 16" "unat x mod 16"] by simp
  with Cons.IH show ?case
    by (simp add: hex_byte_digits split: sum.splits)
qed

lemma hex_to_bytes_bytes_to_hex [codec_simps]: "hex_to_bytes (bytes_to_hex b) = Inr b"
  using hex_pairs_bytes_to_hex [of b "[]"] by (simp add: hex_to_bytes_def)

section \<open>Base64\<close>

definition b64_char :: "nat \<Rightarrow> char" where
  "b64_char n = ''ABCDEFGHIJKLMNOPQRSTUVWXYZabcdefghijklmnopqrstuvwxyz0123456789+/'' ! n"

definition b64_value :: "char \<Rightarrow> nat option" where
  "b64_value c = (let n = of_char c :: nat in
     if 65 \<le> n \<and> n \<le> 90 then Some (n - 65)
     else if 97 \<le> n \<and> n \<le> 122 then Some (n - 71)
     else if 48 \<le> n \<and> n \<le> 57 then Some (n + 4)
     else if n = 43 then Some 62
     else if n = 47 then Some 63
     else None)"

text \<open>\<open>btoa\<close> on the code units of a binary string: groups of three, padded with \<open>=\<close>.\<close>

fun btoa :: "nat list \<Rightarrow> string" where
  "btoa [] = []"
| "btoa [x] = [b64_char (x div 4), b64_char (x mod 4 * 16), CHR ''='', CHR ''='']"
| "btoa [x, y] = [b64_char (x div 4), b64_char (x mod 4 * 16 + y div 16), b64_char (y mod 16 * 4), CHR ''='']"
| "btoa (x # y # z # r) = b64_char (x div 4) # b64_char (x mod 4 * 16 + y div 16)
     # b64_char (y mod 16 * 4 + z div 64) # b64_char (z mod 64) # btoa r"

text \<open>
  \<open>atob\<close> is the forgiving decoder of the WHATWG standard: ASCII white space is removed, one or
  two \<open>=\<close> are dropped when the length is a multiple of four, a length of 1 modulo 4 or a
  character outside the alphabet throws \<open>InvalidCharacterError\<close>, and the bits left over at the
  end are discarded.
\<close>

definition ascii_space :: "char \<Rightarrow> bool" where
  "ascii_space c = ((of_char c :: nat) \<in> {9, 10, 12, 13, 32})"

definition strip_pad :: "string \<Rightarrow> string" where
  "strip_pad s =
     (if length s mod 4 = 0 \<and> s \<noteq> [] \<and> last s = CHR ''=''
      then (let t = butlast s in if t \<noteq> [] \<and> last t = CHR ''='' then butlast t else t)
      else s)"

fun sextets :: "nat list \<Rightarrow> nat list" where
  "sextets (a # b # c # d # r) = (a * 4 + b div 16) # (b mod 16 * 16 + c div 4) # (c mod 4 * 64 + d) # sextets r"
| "sextets [a, b, c] = [a * 4 + b div 16, b mod 16 * 16 + c div 4]"
| "sextets [a, b] = [a * 4 + b div 16]"
| "sextets _ = []"

fun b64_values :: "string \<Rightarrow> nat list option" where
  "b64_values [] = Some []"
| "b64_values (c # cs) = (case b64_value c of None \<Rightarrow> None
     | Some v \<Rightarrow> (case b64_values cs of None \<Rightarrow> None | Some vs \<Rightarrow> Some (v # vs)))"

definition atob :: "string \<Rightarrow> nat list result" where
  "atob s = (let t = strip_pad (filter (\<lambda>c. \<not> ascii_space c) s) in
     if length t mod 4 = 1 then Inl (JsError ''InvalidCharacterError'')
     else (case b64_values t of
        None \<Rightarrow> Inl (JsError ''InvalidCharacterError'')
      | Some vs \<Rightarrow> Inr (sextets vs)))"

text \<open>
  \<open>b64encode\<close> builds the binary string in slices of \<open>0x8000\<close> bytes (the loop over \<open>i\<close>) before
  it calls \<open>btoa\<close>; \<open>b64decode\<close> copies the code units of \<open>atob\<close>'s result into bytes.
\<close>

function code_units_loop :: "bytes \<Rightarrow> nat \<Rightarrow> nat list" where
  "code_units_loop b i =
     (if i < length b then map unat (take 32768 (drop i b)) @ code_units_loop b (i + 32768) else [])"
  by pat_completeness auto
termination
  by (relation "measure (\<lambda>(b, i). length b - i)") auto

declare code_units_loop.simps [simp del]

definition b64encode :: "bytes \<Rightarrow> string" where
  "b64encode b = btoa (code_units_loop b 0)"

definition b64decode :: "string \<Rightarrow> bytes result" where
  "b64decode s = (case atob s of Inl e \<Rightarrow> Inl e | Inr bin \<Rightarrow> Inr (map word_of_nat bin))"

lemma code_units_loop_eq: "code_units_loop b i = map unat (drop i b)"
proof (induction b i rule: code_units_loop.induct)
  case (1 b i)
  show ?case
  proof (cases "i < length b")
    case True
    have "drop i b = take 32768 (drop i b) @ drop (i + 32768) b"
      by (metis add.commute append_take_drop_id drop_drop)
    with 1 True show ?thesis
      by (subst code_units_loop.simps) (metis map_append)
  next
    case False
    then show ?thesis by (subst code_units_loop.simps) simp
  qed
qed

lemma upt_64: "[0..<64] = [0 :: nat, 1, 2, 3, 4, 5, 6, 7, 8, 9, 10, 11, 12, 13, 14, 15,
    16, 17, 18, 19, 20, 21, 22, 23, 24, 25, 26, 27, 28, 29, 30, 31,
    32, 33, 34, 35, 36, 37, 38, 39, 40, 41, 42, 43, 44, 45, 46, 47,
    48, 49, 50, 51, 52, 53, 54, 55, 56, 57, 58, 59, 60, 61, 62, 63]"
  by code_simp

lemma b64_char_props:
  assumes "n < 64"
  shows "b64_value (b64_char n) = Some n \<and> \<not> ascii_space (b64_char n) \<and> b64_char n \<noteq> CHR ''=''"
proof -
  have "list_all (\<lambda>n. b64_value (b64_char n) = Some n \<and> \<not> ascii_space (b64_char n)
      \<and> b64_char n \<noteq> CHR ''='') [0..<64]"
    unfolding upt_64 by (simp add: b64_value_def b64_char_def ascii_space_def)
  with assms show ?thesis by (auto simp: list_all_iff)
qed

lemmas b64_char_value = b64_char_props [THEN conjunct1]

fun padded :: "nat list \<Rightarrow> string \<times> string" where
  "padded [] = ([], [])"
| "padded [x] = ([b64_char (x div 4), b64_char (x mod 4 * 16)], ''=='')"
| "padded [x, y] = ([b64_char (x div 4), b64_char (x mod 4 * 16 + y div 16), b64_char (y mod 16 * 4)], ''='')"
| "padded (x # y # z # r) = (b64_char (x div 4) # b64_char (x mod 4 * 16 + y div 16)
     # b64_char (y mod 16 * 4 + z div 64) # b64_char (z mod 64) # fst (padded r), snd (padded r))"

lemma btoa_padded: "btoa xs = fst (padded xs) @ snd (padded xs)"
  by (induction xs rule: btoa.induct) simp_all

lemma six_bit_bounds:
  fixes x y z :: nat
  assumes "x < 256" "y < 256" "z < 256"
  shows "x div 4 < 64" "x mod 4 * 16 < 64" "x mod 4 * 16 + y div 16 < 64"
    "y mod 16 * 4 < 64" "y mod 16 * 4 + z div 64 < 64" "z mod 64 < 64"
proof -
  have "y div 16 < 16" "z div 64 < 4" using assms by (simp_all add: less_mult_imp_div_less)
  moreover have "x mod 4 < 4" "y mod 16 < 16" by simp_all
  ultimately show "x mod 4 * 16 < 64" "x mod 4 * 16 + y div 16 < 64"
    "y mod 16 * 4 < 64" "y mod 16 * 4 + z div 64 < 64" by linarith+
qed (use assms in \<open>simp_all add: less_mult_imp_div_less\<close>)

lemma octet_sextets:
  fixes x y z :: nat
  assumes "x < 256" "y < 256" "z < 256"
  shows "x div 4 * 4 + (x mod 4 * 16) div 16 = x"
    "x div 4 * 4 + (x mod 4 * 16 + y div 16) div 16 = x"
    "(x mod 4 * 16 + y div 16) mod 16 * 16 + (y mod 16 * 4) div 4 = y"
    "(x mod 4 * 16 + y div 16) mod 16 * 16 + (y mod 16 * 4 + z div 64) div 4 = y"
    "(y mod 16 * 4 + z div 64) mod 4 * 64 + z mod 64 = z"
proof -
  have "y div 16 < 16" "z div 64 < 4" using assms by (simp_all add: less_mult_imp_div_less)
  then show "x div 4 * 4 + (x mod 4 * 16) div 16 = x"
    "x div 4 * 4 + (x mod 4 * 16 + y div 16) div 16 = x"
    "(x mod 4 * 16 + y div 16) mod 16 * 16 + (y mod 16 * 4) div 4 = y"
    "(x mod 4 * 16 + y div 16) mod 16 * 16 + (y mod 16 * 4 + z div 64) div 4 = y"
    "(y mod 16 * 4 + z div 64) mod 4 * 64 + z mod 64 = z"
    by simp_all
qed

lemma b64_values_padded:
  "list_all (\<lambda>x. x < 256) xs \<Longrightarrow> \<exists>vs. b64_values (fst (padded xs)) = Some vs \<and> sextets vs = xs"
proof (induction xs rule: btoa.induct)
  case 1
  then show ?case by simp
next
  case (2 x)
  then show ?case using six_bit_bounds [of x 0 0] octet_sextets [of x 0 0]
    by (simp add: b64_char_value)
next
  case (3 x y)
  then show ?case using six_bit_bounds [of x y 0] octet_sextets [of x y 0]
    by (simp add: b64_char_value)
next
  case (4 x y z r)
  then obtain vs where "b64_values (fst (padded r)) = Some vs" "sextets vs = r" by auto
  with 4(2) show ?case using six_bit_bounds [of x y z] octet_sextets [of x y z]
    by (simp add: b64_char_value del: mod_mult_self1 mod_mult_self2 mod_mult_self3 mod_mult_self4
        div_mult_self1 div_mult_self2 div_mult_self3 div_mult_self4)
qed

lemma padded_shape:
  "list_all (\<lambda>x. x < 256) xs \<Longrightarrow>
     list_all (\<lambda>c. \<not> ascii_space c \<and> c \<noteq> CHR ''='') (fst (padded xs))
     \<and> length (fst (padded xs)) mod 4 \<noteq> 1
     \<and> (length (fst (padded xs)) + length (snd (padded xs))) mod 4 = 0
     \<and> snd (padded xs) \<in> {[], ''='', ''==''}"
proof (induction xs rule: btoa.induct)
  case 1
  then show ?case by simp
next
  case (2 x)
  then show ?case using six_bit_bounds [of x 0 0] by (simp add: b64_char_props)
next
  case (3 x y)
  then show ?case using six_bit_bounds [of x y 0] by (simp add: b64_char_props)
next
  case (4 x y z r)
  then show ?case using six_bit_bounds [of x y z]
    by (simp add: b64_char_props)
qed

lemma strip_pad_pads:
  assumes "t \<noteq> [] \<Longrightarrow> last t \<noteq> CHR ''=''" and "(length t + length p) mod 4 = 0"
    and "p \<in> {[], ''='', ''==''}"
  shows "strip_pad (t @ p) = t"
proof -
  consider "p = []" | "p = ''=''" "t \<noteq> []" | "p = ''==''"
    using assms(2,3) by (cases "t = []") auto
  then show ?thesis
  proof cases
    case 1
    then show ?thesis using assms(1) by (auto simp: strip_pad_def)
  next
    case 2
    then show ?thesis using assms(1,2)
      by (simp add: strip_pad_def butlast_append del: mod_Suc mod_0_imp_dvd)
  next
    case 3
    then show ?thesis using assms(2)
      by (simp add: strip_pad_def butlast_append)
  qed
qed

lemma strip_pad_padded:
  assumes "list_all (\<lambda>x. x < 256) xs"
  shows "strip_pad (fst (padded xs) @ snd (padded xs)) = fst (padded xs)"
proof (rule strip_pad_pads)
  show "fst (padded xs) \<noteq> [] \<Longrightarrow> last (fst (padded xs)) \<noteq> CHR ''=''"
    using padded_shape [OF assms] last_in_set unfolding list_all_iff by blast
qed (use padded_shape [OF assms] in blast)+

lemma atob_btoa:
  assumes "list_all (\<lambda>x. x < 256) xs"
  shows "atob (btoa xs) = Inr xs"
proof -
  note shape = padded_shape [OF assms]
  have "filter (\<lambda>c. \<not> ascii_space c) (fst (padded xs)) = fst (padded xs)"
    using shape unfolding list_all_iff by (intro filter_True) blast
  moreover have "filter (\<lambda>c. \<not> ascii_space c) p = p" if "p \<in> {[], ''='', ''==''}" for p
    using that by (auto simp: ascii_space_def)
  ultimately have f: "filter (\<lambda>c. \<not> ascii_space c) (btoa xs) = fst (padded xs) @ snd (padded xs)"
    using shape by (simp only: btoa_padded filter_append)
  obtain vs where "b64_values (fst (padded xs)) = Some vs" "sextets vs = xs"
    using b64_values_padded [OF assms] by blast
  moreover have "length (fst (padded xs)) mod 4 \<noteq> 1" using shape by blast
  ultimately show ?thesis
    unfolding atob_def f Let_def strip_pad_padded [OF assms] by (simp only: if_False option.case)
qed

lemma b64decode_b64encode [codec_simps]: "b64decode (b64encode b) = Inr b"
proof -
  have "list_all (\<lambda>x. x < 256) (map unat b)" by (simp add: list_all_iff)
  then have "atob (b64encode b) = Inr (map unat b)"
    by (simp add: b64encode_def code_units_loop_eq atob_btoa)
  then show ?thesis by (simp add: b64decode_def comp_def)
qed

section \<open>The codecs of this module\<close>

interpretation hex: codec bytes_to_hex hex_to_bytes "\<lambda>_. True"
  by unfold_locales (simp add: hex_to_bytes_bytes_to_hex)

interpretation b64: codec b64encode b64decode "\<lambda>_. True"
  by unfold_locales (simp add: b64decode_b64encode)

text \<open>Lower-case hexadecimal text is a fixed point of decoding and encoding again.\<close>

definition lower_hex :: "char \<Rightarrow> bool" where
  "lower_hex c = (let n = of_char c :: nat in (48 \<le> n \<and> n \<le> 57) \<or> (97 \<le> n \<and> n \<le> 102))"

lemma lower_hex_digit:
  assumes "lower_hex c"
  obtains n where "n < 16" and "c = hex_digit n"
proof -
  have "c = char_of (of_char c :: nat)" by simp
  moreover have "\<exists>n < 16. char_of m = hex_digit n" if "(48 \<le> m \<and> m \<le> 57) \<or> (97 \<le> m \<and> m \<le> 102)" for m :: nat
  proof -
    have "m \<in> set ([48..<58] @ [97..<103])"
      using that by (simp only: set_append set_upt Un_iff atLeastLessThan_iff) linarith
    moreover have "\<forall>m \<in> set ([48..<58] @ [97..<103]). \<exists>n \<in> set [0..<16]. char_of m = hex_digit n"
      by code_simp
    ultimately show ?thesis by (metis atLeastLessThan_iff atLeastLessThan_upt)
  qed
  ultimately show ?thesis using assms that unfolding lower_hex_def Let_def by metis
qed

lemma hex_digit_lower: "n < 16 \<Longrightarrow> lower_hex (hex_digit n)"
proof -
  have "\<forall>n \<in> set [0..<16]. lower_hex (hex_digit n)" by code_simp
  then show "n < 16 \<Longrightarrow> lower_hex (hex_digit n)" using less_16_cases by blast
qed

lemma lower_hex_bytes_to_hex: "list_all lower_hex (bytes_to_hex b)"
  by (induction b) (simp_all add: hex_byte_digits hex_digit_lower)

lemma unat_byte_of_nat: "k < 256 \<Longrightarrow> unat (word_of_int (int k) :: byte) = k"
  by (simp add: unat_of_nat)

lemma hex_pairs_lower:
  assumes "list_all lower_hex s" and "length s = 2 * n"
  shows "\<exists>b. hex_pairs s = Inr b \<and> bytes_to_hex b = s \<and> length b = n"
  using assms
proof (induction n arbitrary: s)
  case 0
  then show ?case by simp
next
  case (Suc n)
  then obtain c d r where s: "s = c # d # r" and r: "length r = 2 * n"
    by (cases s; cases "tl s") auto
  from Suc.prems s obtain i j where ij: "i < 16" "c = hex_digit i" "j < 16" "d = hex_digit j"
    by (metis list.pred_inject(2) lower_hex_digit)
  from Suc s r obtain b where b: "hex_pairs r = Inr b" "bytes_to_hex b = r" "length b = n"
    by auto
  define w where "w = (word_of_int (int (16 * i + j)) :: byte)"
  have "unat w = 16 * i + j"
    unfolding w_def by (rule unat_byte_of_nat) (use ij in linarith)
  then have "unat w div 16 = i" "unat w mod 16 = j" using ij by simp_all
  moreover have "hex_pairs s = Inr (w # b)"
    using b ij unfolding s w_def by (simp only: hex_pairs.simps parse_int16_digits option.case sum.case)
  ultimately show ?case
    using b ij by (intro exI [of _ "w # b"]) (simp add: s hex_byte_digits)
qed

section \<open>UTF-8\<close>

text \<open>\<open>TextEncoder\<close> on code units below 256: one byte for ASCII, two bytes above.\<close>

fun utf8_encode :: "string \<Rightarrow> bytes" where
  "utf8_encode [] = []"
| "utf8_encode (c # cs) = (let n = of_char c :: nat in
     if n < 128 then [word_of_nat n] else [word_of_nat (192 + n div 64), word_of_nat (128 + n mod 64)])
     @ utf8_encode cs"

lemma utf8_encode_append [simp]: "utf8_encode (s @ t) = utf8_encode s @ utf8_encode t"
  by (induction s) simp_all

end
