(* ===== verification/Ids.thy ===== *)
theory Ids
  imports Bytes
begin

text \<open>
  \<open>web/src/crypto/ids.ts\<close>: identifiers are 16 bytes, written in JSON as lower-case UUID text.
\<close>

section \<open>Text functions of the language\<close>

definition lower_char :: "char \<Rightarrow> char" where
  "lower_char c = (let n = of_char c :: nat in
     if (65 \<le> n \<and> n \<le> 90) \<or> (192 \<le> n \<and> n \<le> 222 \<and> n \<noteq> 215) then char_of (n + 32) else c)"

definition to_lower_case :: "string \<Rightarrow> string" where
  "to_lower_case s = map lower_char s"

lemma length_to_lower_case [simp]: "length (to_lower_case s) = length s"
  by (simp add: to_lower_case_def)

section \<open>Identifiers\<close>

text \<open>
  The pattern: groups of 8, 4, 4, 4 and 12 lower-case hexadecimal digits joined by dashes,
  anchored at both ends.
\<close>

fun hex_groups :: "nat list \<Rightarrow> string \<Rightarrow> bool" where
  "hex_groups [] s = (s = [])"
| "hex_groups [n] s = (length s = n \<and> list_all lower_hex s)"
| "hex_groups (n # ns) s = (length (take n s) = n \<and> list_all lower_hex (take n s)
     \<and> (case drop n s of [] \<Rightarrow> False | c # r \<Rightarrow> c = CHR ''-'' \<and> hex_groups ns r))"

definition uuid_re :: "string \<Rightarrow> bool" where
  "uuid_re s = hex_groups [8, 4, 4, 4, 12] s"

definition uuid_to_bytes :: "string \<Rightarrow> bytes result" where
  "uuid_to_bytes ident =
     (let s = to_lower_case ident in
      if \<not> uuid_re s then Inl (JsError (''invalid uuid: '' @ ident))
      else hex_to_bytes (filter (\<lambda>c. c \<noteq> CHR ''-'') s))"

definition subarray :: "nat \<Rightarrow> nat \<Rightarrow> 'a list \<Rightarrow> 'a list" where
  "subarray a b xs = take (b - a) (drop a xs)"

definition bytes_to_uuid :: "bytes \<Rightarrow> string result" where
  "bytes_to_uuid b =
     (if length b \<noteq> 16 then Inl (JsError ''uuid must be 16 bytes'')
      else let h = bytes_to_hex b in
        Inr (subarray 0 8 h @ ''-'' @ subarray 8 12 h @ ''-'' @ subarray 12 16 h @ ''-'' @ subarray 16 20 h
          @ ''-'' @ drop 20 h))"

definition is_uuid :: "string \<Rightarrow> bool" where
  "is_uuid s = uuid_re (to_lower_case s)"

text \<open>The text of a 16-byte identifier, for the places where the length is known.\<close>

definition uuid_text :: "bytes \<Rightarrow> string" where
  "uuid_text b = (case bytes_to_uuid b of Inl _ \<Rightarrow> [] | Inr s \<Rightarrow> s)"

lemma length_subarray [simp]: "length (subarray a b xs) = min (b - a) (length xs - a)"
  by (simp add: subarray_def)

lemma subarray_append_eq: "a \<le> b \<Longrightarrow> subarray 0 a xs @ subarray a b xs = subarray 0 b xs"
  by (simp add: subarray_def flip: take_add)

lemma subarray_drop_eq: "subarray 0 a xs @ drop a xs = xs"
  by (simp add: subarray_def)

lemma set_subarray: "set (subarray a b xs) \<subseteq> set xs"
  unfolding subarray_def by (meson in_set_dropD in_set_takeD subsetI)

lemma lower_hex_props: "lower_hex c \<Longrightarrow> c \<noteq> CHR ''-'' \<and> lower_char c = c"
  by (auto simp: lower_hex_def lower_char_def Let_def)

lemma lower_hex_list: "list_all lower_hex s \<Longrightarrow> to_lower_case s = s \<and> filter (\<lambda>c. c \<noteq> CHR ''-'') s = s"
  unfolding to_lower_case_def list_all_iff
  by (auto intro!: map_idI filter_True dest: lower_hex_props)

lemma lower_hex_sub: "list_all lower_hex s \<Longrightarrow> set t \<subseteq> set s \<Longrightarrow> list_all lower_hex t"
  by (auto simp: list_all_iff)

lemma to_lower_case_append: "to_lower_case (s @ t) = to_lower_case s @ to_lower_case t"
  by (simp add: to_lower_case_def)

text \<open>A string of the five-group shape, in either direction.\<close>

definition dashed :: "string \<Rightarrow> string" where
  "dashed h = subarray 0 8 h @ ''-'' @ subarray 8 12 h @ ''-'' @ subarray 12 16 h @ ''-'' @ subarray 16 20 h @ ''-'' @ drop 20 h"

lemma dashed_undash:
  assumes "list_all lower_hex h" and "length h = 32"
  shows "filter (\<lambda>c. c \<noteq> CHR ''-'') (dashed h) = h" and "to_lower_case (dashed h) = dashed h"
    and "uuid_re (dashed h)"
proof -
  have sl: "list_all lower_hex (subarray a b h)" for a b
    using lower_hex_sub [OF assms(1) set_subarray] .
  have dr: "list_all lower_hex (drop 20 h)"
    using lower_hex_sub [OF assms(1) set_drop_subset] .
  have join: "subarray 0 8 h @ subarray 8 12 h @ subarray 12 16 h @ subarray 16 20 h @ drop 20 h = h"
    using subarray_append_eq [of 8 12 h] subarray_append_eq [of 12 16 h] subarray_append_eq [of 16 20 h]
      subarray_drop_eq [of 20 h] by (simp flip: append_assoc)
  show "filter (\<lambda>c. c \<noteq> CHR ''-'') (dashed h) = h"
    using sl [THEN lower_hex_list] dr [THEN lower_hex_list] join by (simp add: dashed_def)
  have "lower_char (CHR ''-'') = CHR ''-''" by (simp add: lower_char_def)
  then show "to_lower_case (dashed h) = dashed h"
    using sl [THEN lower_hex_list] dr [THEN lower_hex_list]
    by (simp add: dashed_def to_lower_case_append) (simp add: to_lower_case_def)
  show "uuid_re (dashed h)"
    using sl dr assms(2) by (simp add: uuid_re_def dashed_def)
qed

lemma bytes_to_uuid_dashed: "length b = 16 \<Longrightarrow> bytes_to_uuid b = Inr (dashed (bytes_to_hex b))"
  by (simp add: bytes_to_uuid_def dashed_def Let_def)

lemma uuid_to_bytes_dashed:
  assumes "length b = 16"
  shows "uuid_to_bytes (dashed (bytes_to_hex b)) = Inr b"
  using dashed_undash [OF lower_hex_bytes_to_hex, of b] assms
  by (simp add: uuid_to_bytes_def hex_to_bytes_bytes_to_hex)

lemma uuid_text_dashed: "length b = 16 \<Longrightarrow> uuid_text b = dashed (bytes_to_hex b)"
  by (simp add: uuid_text_def bytes_to_uuid_dashed)

lemma hex_groups_ConsE:
  assumes "hex_groups (n # m # ns) s"
  obtains g r where "s = g @ ''-'' @ r" and "length g = n" and "list_all lower_hex g"
    and "hex_groups (m # ns) r"
proof -
  from assms obtain c r where "drop n s = c # r" "c = CHR ''-''" "hex_groups (m # ns) r"
    "length (take n s) = n" "list_all lower_hex (take n s)"
    by (auto split: list.splits)
  then show ?thesis using that [of "take n s" r] by (metis append_Cons append_Nil append_take_drop_id)
qed

lemma hex_groups_split:
  assumes "hex_groups [8, 4, 4, 4, 12] s"
  obtains g1 g2 g3 g4 g5 where "s = g1 @ ''-'' @ g2 @ ''-'' @ g3 @ ''-'' @ g4 @ ''-'' @ g5"
    "length g1 = 8" "length g2 = 4" "length g3 = 4" "length g4 = 4" "length g5 = 12"
    "list_all lower_hex (g1 @ g2 @ g3 @ g4 @ g5)"
proof -
  from assms obtain g1 r1 where 1: "s = g1 @ ''-'' @ r1" "length g1 = 8" "list_all lower_hex g1"
    "hex_groups [4, 4, 4, 12] r1" by (rule hex_groups_ConsE)
  from 1(4) obtain g2 r2 where 2: "r1 = g2 @ ''-'' @ r2" "length g2 = 4" "list_all lower_hex g2"
    "hex_groups [4, 4, 12] r2" by (rule hex_groups_ConsE)
  from 2(4) obtain g3 r3 where 3: "r2 = g3 @ ''-'' @ r3" "length g3 = 4" "list_all lower_hex g3"
    "hex_groups [4, 12] r3" by (rule hex_groups_ConsE)
  from 3(4) obtain g4 r4 where 4: "r3 = g4 @ ''-'' @ r4" "length g4 = 4" "list_all lower_hex g4"
    "hex_groups [12] r4" by (rule hex_groups_ConsE)
  from 1 2 3 4 that [of g1 g2 g3 g4 r4] show ?thesis by simp
qed

lemma hex_groups_uuid:
  assumes "uuid_re s"
  obtains h where "s = dashed h" and "list_all lower_hex h" and "length h = 32"
proof -
  from assms obtain g1 g2 g3 g4 g5 where
    g: "s = g1 @ ''-'' @ g2 @ ''-'' @ g3 @ ''-'' @ g4 @ ''-'' @ g5"
    "length g1 = 8" "length g2 = 4" "length g3 = 4" "length g4 = 4" "length g5 = 12"
    "list_all lower_hex (g1 @ g2 @ g3 @ g4 @ g5)"
    unfolding uuid_re_def by (rule hex_groups_split)
  then have "s = dashed (g1 @ g2 @ g3 @ g4 @ g5)" by (simp add: dashed_def subarray_def)
  moreover have "length (g1 @ g2 @ g3 @ g4 @ g5) = 32" using g by simp
  ultimately show ?thesis using g(7) that by metis
qed

lemma uuid_to_bytes_Inr:
  assumes "uuid_to_bytes s = Inr b"
  shows "length b = 16" and "bytes_to_uuid b = Inr (to_lower_case s)"
proof -
  from assms have re: "uuid_re (to_lower_case s)"
    and hb: "hex_to_bytes (filter (\<lambda>c. c \<noteq> CHR ''-'') (to_lower_case s)) = Inr b"
    by (auto simp: uuid_to_bytes_def Let_def split: if_splits)
  from re obtain h where h: "to_lower_case s = dashed h" "list_all lower_hex h" "length h = 32"
    by (rule hex_groups_uuid)
  have "hex_pairs h = Inr b"
    using hb h dashed_undash(1) [OF h(2,3)] by (simp add: hex_to_bytes_def)
  moreover obtain b' where "hex_pairs h = Inr b'" "bytes_to_hex b' = h" "length b' = 16"
    using hex_pairs_lower [OF h(2), of 16] h(3) by auto
  ultimately have b: "bytes_to_hex b = h" "length b = 16" by simp_all
  then show "length b = 16" and "bytes_to_uuid b = Inr (to_lower_case s)"
    using h(1) by (simp_all add: bytes_to_uuid_dashed)
qed

lemma uuid_text_of_bytes: "uuid_to_bytes s = Inr b \<Longrightarrow> uuid_text b = to_lower_case s"
  by (simp add: uuid_text_def uuid_to_bytes_Inr)

interpretation uuid: codec uuid_text uuid_to_bytes "\<lambda>b. length b = 16"
  by unfold_locales (simp add: uuid_text_dashed uuid_to_bytes_dashed)

lemma is_uuid_iff: "is_uuid s \<longleftrightarrow> ok (uuid_to_bytes s)"
proof
  assume "is_uuid s"
  then have re: "uuid_re (to_lower_case s)" by (simp add: is_uuid_def)
  then obtain h where h: "to_lower_case s = dashed h" "list_all lower_hex h" "length h = 32"
    by (rule hex_groups_uuid)
  then obtain b where "hex_pairs h = Inr b" using hex_pairs_lower [OF h(2), of 16] by auto
  with re h show "ok (uuid_to_bytes s)"
    using dashed_undash(1) [OF h(2,3)] by (simp add: uuid_to_bytes_def hex_to_bytes_def)
next
  assume "ok (uuid_to_bytes s)"
  then show "is_uuid s" by (auto simp: is_uuid_def uuid_to_bytes_def Let_def split: if_splits)
qed

end
