(* ===== verification/English.thy ===== *)
theory English
  imports Prelude
begin

text \<open>
  The English texts, \<open>web/src/i18n/en.ts\<close>, section by section. The texts of the dictionaries are held as
  the UTF-8 bytes of the file: a character outside ASCII is written by its bytes (the ellipsis as
  E2 80 A6, the dash as E2 80 94). Keys and placeholder names are ASCII.
\<close>

type_synonym dict = "(string \<times> string) list"

definition en_common :: "(string \<times> string) list" where
  "en_common = [
     (''app_name'', ''Family Messenger''),
     (''loading'', ''Loading'' @ [CHR 0xE2, CHR 0x80, CHR 0xA6]),
     (''cancel'', ''Cancel''),
     (''close'', ''Close''),
     (''save'', ''Save''),
     (''create'', ''Create''),
     (''delete'', ''Delete''),
     (''copy'', ''Copy''),
     (''copied'', ''Copied''),
     (''back'', ''Back''),
     (''send'', ''Send''),
     (''dismiss'', ''dismiss''),
     (''yes'', ''Yes''),
     (''connecting'', ''Connecting'' @ [CHR 0xE2, CHR 0x80, CHR 0xA6]),
     (''offline'', ''Offline. Reconnecting'' @ [CHR 0xE2, CHR 0x80, CHR 0xA6]),
     (''error_network'', ''Cannot reach the server''),
     (''db_blocked'', ''Another tab of the messenger is still open with an older version. Close it and this page will carry on.''),
     (''e2e_hint'', ''End-to-end encrypted'')]"

definition en_login :: "(string \<times> string) list" where
  "en_login = [
     (''tagline'', ''End-to-end encrypted chat and calls''),
     (''tab_sign_in'', ''Sign in''),
     (''tab_create_account'', ''Create account''),
     (''username'', ''Username''),
     (''password'', ''Password''),
     (''invite_code'', ''Invite code''),
     (''invite_hint'', ''(required on this server)''),
     (''invite_scanned'', ''Invitation recognised''),
     (''from_qr'', ''from QR''),
     (''password_min'', ''at least {n} characters''),
     (''password_warning'', ''Your password unlocks your encryption keys on a new device. It cannot be reset and not even the administrator knows it: forget it and sign out everywhere, and the history stays on the server with nothing left to open it.''),
     (''password_change_warning'', ''The password is changed from here, and the old one is not needed '' @ [CHR 0xE2, CHR 0x80, CHR 0x94] @ '' being signed in on this device is the proof. Nobody can recover a forgotten one, the administrator included: forget it and sign out everywhere, and the history stays on the server with nothing left to open it.''),
     (''password_too_short'', ''Password must be at least {n} characters''),
     (''generating_keys'', ''Generating keys'' @ [CHR 0xE2, CHR 0x80, CHR 0xA6]),
     (''deriving_key'', ''Deriving password key (this takes a moment)'' @ [CHR 0xE2, CHR 0x80, CHR 0xA6]),
     (''registering'', ''Registering'' @ [CHR 0xE2, CHR 0x80, CHR 0xA6]),
     (''fetching_params'', ''Fetching account parameters'' @ [CHR 0xE2, CHR 0x80, CHR 0xA6]),
     (''signing_in'', ''Signing in'' @ [CHR 0xE2, CHR 0x80, CHR 0xA6]),
     (''key_unlock_failed'', ''The account keys could not be unlocked with this password''),
     (''weak_kdf'', ''This server asked for weaker password settings than the protocol allows. Refusing to sign in: it could be trying to learn your password.''),
     (''invite_required'', ''This server requires an invite code''),
     (''registration_closed'', ''Registration is closed on this server''),
     (''invalid_credentials'', ''Wrong username or password''),
     (''username_taken'', ''This username is already taken''),
     (''account_disabled'', ''This account has been disabled'')]"

definition en_sidebar :: "(string \<times> string) list" where
  "en_sidebar = [
     (''new_chat'', ''New chat''),
     (''settings'', ''Settings''),
     (''no_conversations'', ''No conversations yet. Start one with +.''),
     (''pinned_section'', ''Pinned''),
     (''all_chats_section'', ''All chats''),
     (''chat_actions'', ''Chat actions''),
     (''pin_chat'', ''Pin chat''),
     (''unpin_chat'', ''Unpin chat''),
     (''mute_chat'', ''Mute''),
     (''unmute_chat'', ''Unmute''),
     (''mark_read'', ''Mark as read''),
     (''delete_chat'', ''Delete chat''),
     (''confirm_delete_chat'', ''Leave this group?''),
     (''confirm_clear_chat'', ''Remove this chat from your list? The messages stay on the server and the chat comes back with the next message.''),
     (''direct_chat'', ''Direct chat''),
     (''group'', ''Group''),
     (''you'', ''you'')]"

definition en_new_conversation :: "(string \<times> string) list" where
  "en_new_conversation = [
     (''new_conversation'', ''New conversation''),
     (''direct'', ''Direct''),
     (''group_name'', ''Group name''),
     (''group_name_placeholder'', ''Weekend plans''),
     (''members'', ''Members''),
     (''members_hint'', ''(usernames, comma separated)''),
     (''creating'', ''Creating'' @ [CHR 0xE2, CHR 0x80, CHR 0xA6]),
     (''that_is_you'', ''That is you'')]"

definition en_chat :: "(string \<times> string) list" where
  "en_chat = [
     (''select_conversation'', ''Select a conversation or start a new one.''),
     (''write_message'', ''Write a message'' @ [CHR 0xE2, CHR 0x80, CHR 0xA6]),
     (''members_count'', ''{n} members''),
     (''unverified_members'', ''unverified members''),
     (''voice_call'', ''Voice call''),
     (''video_call'', ''Video call''),
     (''members_security'', ''Members and security''),
     (''sending'', ''sending'' @ [CHR 0xE2, CHR 0x80, CHR 0xA6]),
     (''failed'', ''failed: {reason}''),
     (''attach_file'', ''Attach a file''),
     (''drop_files_hint'', ''Drop files to send''),
     (''uploading'', ''Uploading {name}'' @ [CHR 0xE2, CHR 0x80, CHR 0xA6]),
     (''download'', ''Download''),
     (''open'', ''Open''),
     (''file_too_large'', ''The file exceeds the server limit of {mb} MB''),
     (''attachments_disabled'', ''Attachments are disabled on this server''),
     (''bot_notice'', ''This conversation includes a bot. Bots run on the server, so the server can read it.''),
     (''disappearing_badge'', ''messages disappear after {duration}''),
     (''edit'', ''Edit''),
     (''edited'', ''edited''),
     (''editing_message'', ''Editing message''),
     (''message_actions'', ''Message actions''),
     (''confirm_delete_message'', ''Delete this message for everyone?''),
     (''undecryptable'', ''Message from {user} could not be decrypted ({reason})''),
     (''unknown_payload'', ''unknown payload''),
     (''ev_started_chat'', ''{who} started the chat''),
     (''ev_created_group'', ''{who} created the group '' @ [CHR 0xE2, CHR 0x80, CHR 0x9C] @ ''{name}'' @ [CHR 0xE2, CHR 0x80, CHR 0x9D]),
     (''ev_created_group_unnamed'', ''{who} created the group''),
     (''ev_added'', ''{who} added {member}''),
     (''ev_left'', ''{who} left''),
     (''ev_removed'', ''{who} removed {member}''),
     (''ev_renamed'', ''{who} renamed the group to '' @ [CHR 0xE2, CHR 0x80, CHR 0x9C] @ ''{name}'' @ [CHR 0xE2, CHR 0x80, CHR 0x9D]),
     (''ev_retention_set'', ''{who} set messages to disappear after {duration}''),
     (''ev_retention_off'', ''{who} turned off disappearing messages''),
     (''preview_photo'', ''Photo''),
     (''preview_file'', ''File: {name}''),
     (''preview_chat_started'', ''Chat started''),
     (''preview_group_created'', ''Group created''),
     (''preview_joined'', ''{name} joined''),
     (''preview_left'', ''A member left''),
     (''preview_renamed'', ''Renamed to {name}''),
     (''preview_unreadable'', ''Unreadable message'')]"

definition en_member_panel :: "(string \<times> string) list" where
  "en_member_panel = [
     (''security'', ''Security''),
     (''safety_hint'', ''Compare safety numbers in person or over a call to be sure nobody, including the server, replaced someone'' @ [CHR 0xE2, CHR 0x80, CHR 0x99] @ ''s keys.''),
     (''verified'', ''verified''),
     (''not_in_roster'', ''not in signed roster''),
     (''keys_changed'', ''keys changed''),
     (''new_keys'', ''new:''),
     (''accept_new_keys'', ''Accept new keys''),
     (''i_verified'', ''I verified this safety number''),
     (''remove'', ''Remove''),
     (''username_to_add'', ''username to add''),
     (''add'', ''Add''),
     (''group_name_field'', ''group name''),
     (''rename'', ''Rename''),
     (''leave_group'', ''Leave group''),
     (''disappearing_messages'', ''Disappearing messages''),
     (''retention_off'', ''Off''),
     (''retention_owner_only'', ''Only the group owner can change the timer.''),
     (''duration_1h'', ''1 hour''),
     (''duration_1d'', ''1 day''),
     (''duration_1w'', ''1 week''),
     (''duration_30d'', ''30 days''),
     (''duration_custom'', ''{n} s''),
     (''bot'', ''bot'')]"

definition en_calls :: "(string \<times> string) list" where
  "en_calls = [
     (''calling'', ''Calling {peer}'' @ [CHR 0xE2, CHR 0x80, CHR 0xA6]),
     (''incoming_call'', ''{peer} is calling''),
     (''incoming_video_call'', ''Incoming video call from {peer}''),
     (''camera_on'', ''Camera on''),
     (''camera_off'', ''Camera off''),
     (''camera_failed'', ''The camera is not available''),
     (''call_connecting'', ''Connecting'' @ [CHR 0xE2, CHR 0x80, CHR 0xA6]),
     (''in_call'', ''In call with {peer} '' @ [CHR 0xC2, CHR 0xB7] @ '' {time}''),
     (''call_ended'', ''Call ended''),
     (''call_ended_reason'', ''Call ended: {reason}''),
     (''answer'', ''Answer''),
     (''decline'', ''Decline''),
     (''mute'', ''Mute''),
     (''unmute'', ''Unmute''),
     (''share_screen'', ''Share screen''),
     (''stop_sharing'', ''Stop sharing''),
     (''fullscreen'', ''Full screen''),
     (''exit_fullscreen'', ''Exit full screen''),
     (''hang_up'', ''Hang up''),
     (''already_in_call'', ''You are already in a call''),
     (''voice_channel'', ''Voice channel''),
     (''voice_title'', ''Voice channel '' @ [CHR 0xC2, CHR 0xB7] @ '' {group}''),
     (''voice_join'', ''Join voice''),
     (''voice_leave'', ''Leave channel''),
     (''voice_in_channel'', ''In the voice channel: {names}''),
     (''voice_empty'', ''Nobody is in the voice channel yet''),
     (''voice_joined_toast'', ''{who} joined the voice channel of {group}''),
     (''voice_mic_failed'', ''The microphone is not available''),
     (''voice_leave_first'', ''Leave the voice channel first''),
     (''voice_state_connecting'', ''connecting'' @ [CHR 0xE2, CHR 0x80, CHR 0xA6]),
     (''voice_state_connected'', ''connected''),
     (''voice_state_failed'', ''no connection, retrying'' @ [CHR 0xE2, CHR 0x80, CHR 0xA6]),
     (''grid_mode'', ''Grid''),
     (''speaker_mode'', ''Speaker''),
     (''screen_of'', ''{name}'' @ [CHR 0xE2, CHR 0x80, CHR 0x99] @ ''s screen''),
     (''speaking'', ''speaking''),
     (''pin_tile'', ''Pin''),
     (''unpin_tile'', ''Unpin''),
     (''voice_tiles'', ''{tiles} tiles '' @ [CHR 0xC2, CHR 0xB7] @ '' {people} in the channel''),
     (''voice_no_video'', ''Nobody has a camera or a screen on''),
     (''voice_all_screens'', ''All screens''),
     (''voice_waiting_video'', ''waiting for video'' @ [CHR 0xE2, CHR 0x80, CHR 0xA6]),
     (''screen_share_unavailable'', ''Screen sharing is not available in this browser''),
     (''screen_share_failed'', ''Could not share the screen''),
     (''call_interrupted'', ''Call connection interrupted'' @ [CHR 0xE2, CHR 0x80, CHR 0xA6]),
     (''reason_no_answer'', ''no answer''),
     (''reason_missed'', ''missed''),
     (''reason_declined'', ''declined''),
     (''reason_busy'', ''busy''),
     (''reason_answered_elsewhere'', ''answered on another device''),
     (''reason_declined_elsewhere'', ''declined on another device''),
     (''reason_connection_failed'', ''connection failed''),
     (''reason_could_not_start'', ''could not start the call''),
     (''reason_could_not_answer'', ''could not answer'')]"

definition en_settings :: "(string \<times> string) list" where
  "en_settings = [
     (''your_safety_number'', ''Your safety number''),
     (''safety_number_hint'', ''Read it out to the person you chat with, in person or on a call. If your codes match, nobody has slipped into the middle of your conversation.''),
     (''devices'', ''Devices''),
     (''this_device'', ''this device''),
     (''sign_out_device'', ''sign out''),
     (''notifications'', ''Notifications''),
     (''enabled'', ''enabled''),
     (''enable_notifications'', ''Enable notifications''),
     (''notifications_blocked'', ''Blocked in browser settings''),
     (''change_password'', ''Change password''),
     (''new_password'', ''new password''),
     (''repeat_password'', ''repeat the new password''),
     (''passwords_differ'', ''The new password was typed differently twice''),
     (''sign_out_other_devices'', ''Sign out of every other device''),
     (''changing_password'', ''Changing the password'' @ [CHR 0xE2, CHR 0x80, CHR 0xA6]),
     (''password_changed'', ''Password changed''),
     (''password_changed_signed_out'', ''Password changed; {n} other device(s) signed out''),
     (''password_changed_elsewhere'', ''The password of this account was just changed from another device. If that was not you, change it again here and sign the other devices out.''),
     (''challenge_expired'', ''That took too long. Please try again.''),
     (''invalid_signature'', ''This device could not prove it holds the account keys''),
     (''sign_out'', ''Sign out''),
     (''language'', ''Language''),
     (''search_placeholder'', ''Search chats, people, messages''),
     (''search_clear'', ''Clear the search''),
     (''filter_all'', ''All''),
     (''filter_chats'', ''Chats''),
     (''filter_people'', ''People''),
     (''filter_messages'', ''Messages''),
     (''search_group_chats'', ''Chats '' @ [CHR 0xC2, CHR 0xB7] @ '' {n}''),
     (''search_group_people'', ''People '' @ [CHR 0xC2, CHR 0xB7] @ '' {n}''),
     (''search_group_messages'', ''Messages '' @ [CHR 0xC2, CHR 0xB7] @ '' {n}''),
     (''search_write'', ''Message''),
     (''search_nothing_found'', ''Nothing found''),
     (''search_no_common'', ''no chats in common''),
     (''search_last_seen'', ''last seen {date}''),
     (''search_people_off'', ''The user list is off on this server: type the whole name.''),
     (''search_local_note'', ''Message search runs on your device: the server never sees the query.''),
     (''search_load_history'', ''Load the whole history''),
     (''search_load_history_hint'', ''Only what this device has decrypted is searched. Loading the rest may take a while.''),
     (''search_loading_history'', ''Loading the history'' @ [CHR 0xE2, CHR 0x80, CHR 0xA6] @ '' {done} of {total}''),
     (''dm_from_search_hint'', ''A direct chat starts from search: find a person and tap '' @ [CHR 0xE2, CHR 0x80, CHR 0x9C] @ ''Message'' @ [CHR 0xE2, CHR 0x80, CHR 0x9D] @ ''.''),
     (''visibility'', ''Visibility''),
     (''find_me_in_search'', ''Let people find me in search''),
     (''find_me_in_search_hint'', ''With this off you can still be reached by your exact name.''),
     (''show_online'', ''Show when I'm online''),
     (''allow_group_add'', ''Allow adding me to groups without an invitation''),
     (''new_group'', ''New group''),
     (''status_online'', ''online''),
     (''status_connecting'', ''connecting'' @ [CHR 0xE2, CHR 0x80, CHR 0xA6]),
     (''status_offline'', ''no connection''),
     (''ui_scale'', ''Text and interface size''),
     (''ui_scale_preview'', ''This is how messages will look''),
     (''ui_scale_sample'', ''A''),
     (''my_bots'', ''My bots''),
     (''admin_panel'', ''Admin panel''),
     (''server'', ''Server'')]"

definition en_bots :: "(string \<times> string) list" where
  "en_bots = [
     (''bots_intro'', ''Bots are accounts that talk to your webhook. The server holds their keys, so anything sent to a bot is readable by the server. Usernames must end with '' @ [CHR 0xE2, CHR 0x80, CHR 0x9C] @ ''bot'' @ [CHR 0xE2, CHR 0x80, CHR 0x9D] @ ''.''),
     (''bot_username'', ''Bot username''),
     (''bot_display_name'', ''Display name''),
     (''webhook_url'', ''Webhook URL''),
     (''webhook_hint'', ''Optional. Updates are POSTed here as JSON, signed with the webhook secret. Without it, poll GET /api/v1/bot/updates.''),
     (''webhook_none'', ''not set '' @ [CHR 0xC2, CHR 0xB7] @ '' poll GET /api/v1/bot/updates''),
     (''create_bot'', ''Create bot''),
     (''bot_credentials'', ''Bot credentials''),
     (''bot_credentials_hint'', ''Shown only once. Store them now.''),
     (''token'', ''Token''),
     (''webhook_secret'', ''Webhook secret''),
     (''rotate_credentials'', ''Rotate credentials''),
     (''delete_bot'', ''Delete bot''),
     (''chat_with_bot'', ''Open chat''),
     (''no_bots'', ''You have no bots yet.''),
     (''bots_disabled'', ''Bots are disabled on this server.''),
     (''bot_api_docs'', ''Bot API reference''),
     (''confirm_delete_bot'', ''Delete bot @'' @ ''{name}? Its conversations will lose it.'')]"

definition en_admin :: "(string \<times> string) list" where
  "en_admin = [
     (''tab_overview'', ''Overview''),
     (''tab_users'', ''Users''),
     (''tab_invites'', ''Invites''),
     (''tab_settings'', ''Settings''),
     (''stat_users'', ''Users''),
     (''stat_bots'', ''Bots''),
     (''stat_conversations'', ''Conversations''),
     (''stat_messages'', ''Messages''),
     (''stat_attachments'', ''Attachments''),
     (''stat_online'', ''Online devices''),
     (''stat_db'', ''Database''),
     (''stat_uptime'', ''Uptime''),
     (''stat_turn'', ''TURN''),
     (''stat_latest'', ''Latest release''),
     (''stat_of_devices'', ''of {n} devices''),
     (''stat_since'', ''since {date}''),
     (''up_to_date'', ''up to date''),
     (''not_checked_yet'', ''not checked yet''),
     (''update_server_hint'', ''Release {version} is available: run `family-messenger update` on the server (Docker: re-run the installer).''),
     (''release_page'', ''Release notes''),
     (''update_available'', ''A newer version ({version}) is available.''),
     (''reload_page'', ''Reload the page''),
     (''configured'', ''configured''),
     (''not_configured'', ''not configured''),
     (''download_backup'', ''Download backup''),
     (''backup_hint'', ''A full SQLite dump with the attachments''),
     (''search_users'', ''Search by username''),
     (''col_user'', ''User''),
     (''col_created'', ''Created''),
     (''col_last_seen'', ''Last seen''),
     (''col_devices'', ''Devices''),
     (''col_actions'', ''Actions''),
     (''flag_admin'', ''admin''),
     (''flag_disabled'', ''disabled''),
     (''flag_bot'', ''bot''),
     (''flag_online'', ''online''),
     (''owner_of'', ''owner: {owner}''),
     (''disable'', ''Disable''),
     (''enable'', ''Enable''),
     (''make_admin'', ''Make admin''),
     (''revoke_admin'', ''Revoke admin''),
     (''sign_out_everywhere'', ''Sign out everywhere''),
     (''confirm_delete_user'', ''Delete @'' @ ''{user}? Their devices, memberships and bots are removed.''),
     (''invite_count'', ''Count''),
     (''invite_note'', ''Note''),
     (''invite_expires_hours'', ''Expires in hours (0 = never)''),
     (''create_invites'', ''Create invites''),
     (''new_codes'', ''New codes''),
     (''show_qr_for_invites'', ''Show a QR code for every invitation''),
     (''invite_share_title'', ''Invite to the family''),
     (''invite_share_hint'', ''Show this code '' @ [CHR 0xE2, CHR 0x80, CHR 0x94] @ '' the phone camera opens registration with the server address and invitation already filled in.''),
     (''invite_expires_at'', ''valid until {date}''),
     (''copy_link'', ''Copy link''),
     (''share'', ''Share''),
     (''download_png'', ''Download PNG''),
     (''col_code'', ''Code''),
     (''col_used_by'', ''Used by''),
     (''col_expires'', ''Expires''),
     (''never'', ''never''),
     (''unused'', ''unused''),
     (''registration_mode'', ''Registration''),
     (''reg_open'', ''open''),
     (''reg_invite'', ''by invite''),
     (''reg_closed'', ''closed''),
     (''announcement'', ''Announcement (shown to everyone)''),
     (''max_attachment_mb'', ''Max attachment size, MB (0 disables attachments)''),
     (''retention_days'', ''Keep messages for days (0 = forever)''),
     (''allow_bots'', ''Users may create bots''),
     (''user_directory'', ''Show the user list and name suggestions to everyone''),
     (''more_users'', [CHR 0xE2, CHR 0x80, CHR 0xA6] @ ''and {n} more''),
     (''max_group_members'', ''Max group members''),
     (''settings_saved'', ''Settings saved'')]"

definition en :: dict where
  "en = en_common @ en_login @ en_sidebar @ en_new_conversation @ en_chat @ en_member_panel @ en_calls @ en_settings @ en_bots @ en_admin"

end
