(* ===== verification/Russian.thy ===== *)
theory Russian
  imports English
begin

text \<open>
  The Russian texts, \<open>web/src/i18n/ru.ts\<close>, in the sections of the English ones (a \<open>Partial<Dict>\<close>: the
  compiler does not ask for every key). Letters outside ASCII are written by their UTF-16 code units, which
  \<open>units\<close> turns into the UTF-8 bytes the texts are held in; the plain parts, the placeholders among them,
  are literals.
\<close>

definition unit_bytes :: "nat \<Rightarrow> string" where
  "unit_bytes u =
     (if u < 128 then [char_of u]
      else if u < 2048 then [char_of (192 + u div 64), char_of (128 + u mod 64)]
      else [char_of (224 + u div 4096), char_of (128 + u div 64 mod 64), char_of (128 + u mod 64)])"

fun units :: "nat list \<Rightarrow> string" where
  "units [] = []"
| "units (u # us) = unit_bytes u @ units us"

definition ru_common :: "(string \<times> string) list" where
  "ru_common = [
     (''app_name'', ''Family Messenger''),
     (''loading'', units [1047, 1072, 1075, 1088, 1091, 1079, 1082, 1072, 8230]),
     (''cancel'', units [1054, 1090, 1084, 1077, 1085, 1072]),
     (''close'', units [1047, 1072, 1082, 1088, 1099, 1090, 1100]),
     (''save'', units [1057, 1086, 1093, 1088, 1072, 1085, 1080, 1090, 1100]),
     (''create'', units [1057, 1086, 1079, 1076, 1072, 1090, 1100]),
     (''delete'', units [1059, 1076, 1072, 1083, 1080, 1090, 1100]),
     (''copy'', units [1050, 1086, 1087, 1080, 1088, 1086, 1074, 1072, 1090, 1100]),
     (''copied'', units [1057, 1082, 1086, 1087, 1080, 1088, 1086, 1074, 1072, 1085, 1086]),
     (''back'', units [1053, 1072, 1079, 1072, 1076]),
     (''send'', units [1054, 1090, 1087, 1088, 1072, 1074, 1080, 1090, 1100]),
     (''dismiss'', units [1089, 1082, 1088, 1099, 1090, 1100]),
     (''yes'', units [1044, 1072]),
     (''connecting'', units [1055, 1086, 1076, 1082, 1083, 1102, 1095, 1077, 1085, 1080, 1077, 8230]),
     (''offline'', units [1053, 1077, 1090, 32, 1089, 1074, 1103, 1079, 1080, 46, 32, 1055, 1077, 1088, 1077,
      1087, 1086, 1076, 1082, 1083, 1102, 1095, 1077, 1085, 1080, 1077, 8230]),
     (''error_network'', units [1057, 1077, 1088, 1074, 1077, 1088, 32, 1085, 1077, 1076, 1086, 1089, 1090,
      1091, 1087, 1077, 1085]),
     (''db_blocked'', units [1052, 1077, 1089, 1089, 1077, 1085, 1076, 1078, 1077, 1088, 32, 1086, 1090, 1082,
      1088, 1099, 1090, 32, 1074, 32, 1076, 1088, 1091, 1075, 1086, 1081, 32, 1074, 1082, 1083, 1072, 1076,
      1082, 1077, 32, 1089, 1086, 32, 1089, 1090, 1072, 1088, 1086, 1081, 32, 1074, 1077, 1088, 1089, 1080,
      1077, 1081, 46, 32, 1047, 1072, 1082, 1088, 1086, 1081, 1090, 1077, 32, 1077, 1105, 44, 32, 1080, 32,
      1101, 1090, 1072, 32, 1089, 1090, 1088, 1072, 1085, 1080, 1094, 1072, 32, 1087, 1088, 1086, 1076, 1086,
      1083, 1078, 1080, 1090, 32, 1079, 1072, 1075, 1088, 1091, 1079, 1082, 1091, 46]),
     (''e2e_hint'', units [1057, 1082, 1074, 1086, 1079, 1085, 1086, 1077, 32, 1096, 1080, 1092, 1088, 1086,
      1074, 1072, 1085, 1080, 1077])]"

definition ru_login :: "(string \<times> string) list" where
  "ru_login = [
     (''tagline'', units [1063, 1072, 1090, 32, 1080, 32, 1079, 1074, 1086, 1085, 1082, 1080, 32, 1089, 1086,
      32, 1089, 1082, 1074, 1086, 1079, 1085, 1099, 1084, 32, 1096, 1080, 1092, 1088, 1086, 1074, 1072, 1085,
      1080, 1077, 1084]),
     (''tab_sign_in'', units [1042, 1086, 1081, 1090, 1080]),
     (''tab_create_account'', units [1057, 1086, 1079, 1076, 1072, 1090, 1100, 32, 1072, 1082, 1082, 1072, 1091,
      1085, 1090]),
     (''username'', units [1048, 1084, 1103, 32, 1087, 1086, 1083, 1100, 1079, 1086, 1074, 1072, 1090, 1077,
      1083, 1103]),
     (''password'', units [1055, 1072, 1088, 1086, 1083, 1100]),
     (''invite_code'', units [1048, 1085, 1074, 1072, 1081, 1090, 45, 1082, 1086, 1076]),
     (''invite_hint'', units [40, 1085, 1091, 1078, 1077, 1085, 32, 1085, 1072, 32, 1101, 1090, 1086, 1084, 32,
      1089, 1077, 1088, 1074, 1077, 1088, 1077, 41]),
     (''invite_scanned'', units [1055, 1088, 1080, 1075, 1083, 1072, 1096, 1077, 1085, 1080, 1077, 32, 1088,
      1072, 1089, 1087, 1086, 1079, 1085, 1072, 1085, 1086]),
     (''from_qr'', units [1080, 1079, 32] @ ''QR''),
     (''password_min'', units [1085, 1077, 32, 1084, 1077, 1085, 1077, 1077, 32] @ ''{n}'' @ units [32, 1089,
      1080, 1084, 1074, 1086, 1083, 1086, 1074]),
     (''password_warning'', units [1055, 1072, 1088, 1086, 1083, 1100, 32, 1086, 1090, 1082, 1088, 1099, 1074,
      1072, 1077, 1090, 32, 1074, 1072, 1096, 1080, 32, 1082, 1083, 1102, 1095, 1080, 32, 1096, 1080, 1092,
      1088, 1086, 1074, 1072, 1085, 1080, 1103, 32, 1085, 1072, 32, 1085, 1086, 1074, 1086, 1084, 32, 1091,
      1089, 1090, 1088, 1086, 1081, 1089, 1090, 1074, 1077, 46, 32, 1057, 1073, 1088, 1086, 1089, 1080, 1090,
      1100, 32, 1077, 1075, 1086, 32, 1085, 1077, 1083, 1100, 1079, 1103, 44, 32, 1086, 1085, 32, 1085, 1077,
      1080, 1079, 1074, 1077, 1089, 1090, 1077, 1085, 32, 1076, 1072, 1078, 1077, 32, 1072, 1076, 1084, 1080,
      1085, 1080, 1089, 1090, 1088, 1072, 1090, 1086, 1088, 1091, 58, 32, 1079, 1072, 1073, 1091, 1076, 1077,
      1090, 1077, 32, 1080, 32, 1074, 1099, 1081, 1076, 1077, 1090, 1077, 32, 1089, 1086, 32, 1074, 1089, 1077,
      1093, 32, 1091, 1089, 1090, 1088, 1086, 1081, 1089, 1090, 1074, 32, 8212, 32, 1087, 1077, 1088, 1077,
      1087, 1080, 1089, 1082, 1072, 32, 1086, 1089, 1090, 1072, 1085, 1077, 1090, 1089, 1103, 32, 1085, 1072,
      32, 1089, 1077, 1088, 1074, 1077, 1088, 1077, 44, 32, 1085, 1086, 32, 1086, 1090, 1082, 1088, 1099, 1090,
      1100, 32, 1077, 1105, 32, 1073, 1091, 1076, 1077, 1090, 32, 1085, 1077, 1095, 1077, 1084, 46]),
     (''password_change_warning'', units [1055, 1072, 1088, 1086, 1083, 1100, 32, 1084, 1077, 1085, 1103, 1077,
      1090, 1089, 1103, 32, 1086, 1090, 1089, 1102, 1076, 1072, 44, 32, 1080, 32, 1089, 1090, 1072, 1088, 1099,
      1081, 32, 1076, 1083, 1103, 32, 1101, 1090, 1086, 1075, 1086, 32, 1085, 1077, 32, 1085, 1091, 1078, 1077,
      1085, 32, 8212, 32, 1076, 1086, 1082, 1072, 1079, 1072, 1090, 1077, 1083, 1100, 1089, 1090, 1074, 1086,
      1084, 32, 1089, 1083, 1091, 1078, 1080, 1090, 32, 1090, 1086, 44, 32, 1095, 1090, 1086, 32, 1074, 1099,
      32, 1091, 1078, 1077, 32, 1074, 1086, 1096, 1083, 1080, 32, 1085, 1072, 32, 1101, 1090, 1086, 1084, 32,
      1091, 1089, 1090, 1088, 1086, 1081, 1089, 1090, 1074, 1077, 46, 32, 1047, 1072, 1073, 1099, 1090, 1099,
      1081, 32, 1087, 1072, 1088, 1086, 1083, 1100, 32, 1085, 1077, 32, 1074, 1086, 1089, 1089, 1090, 1072,
      1085, 1086, 1074, 1080, 1090, 32, 1085, 1080, 1082, 1090, 1086, 44, 32, 1074, 1082, 1083, 1102, 1095,
      1072, 1103, 32, 1072, 1076, 1084, 1080, 1085, 1080, 1089, 1090, 1088, 1072, 1090, 1086, 1088, 1072, 58,
      32, 1077, 1089, 1083, 1080, 32, 1079, 1072, 1073, 1099, 1090, 1100, 32, 1077, 1075, 1086, 32, 1080, 32,
      1074, 1099, 1081, 1090, 1080, 32, 1089, 1086, 32, 1074, 1089, 1077, 1093, 32, 1091, 1089, 1090, 1088,
      1086, 1081, 1089, 1090, 1074, 44, 32, 1087, 1077, 1088, 1077, 1087, 1080, 1089, 1082, 1072, 32, 1086,
      1089, 1090, 1072, 1085, 1077, 1090, 1089, 1103, 32, 1085, 1072, 32, 1089, 1077, 1088, 1074, 1077, 1088,
      1077, 44, 32, 1085, 1086, 32, 1086, 1090, 1082, 1088, 1099, 1090, 1100, 32, 1077, 1105, 32, 1073, 1091,
      1076, 1077, 1090, 32, 1085, 1077, 1095, 1077, 1084, 46]),
     (''password_too_short'', units [1055, 1072, 1088, 1086, 1083, 1100, 32, 1076, 1086, 1083, 1078, 1077, 1085,
      32, 1073, 1099, 1090, 1100, 32, 1085, 1077, 32, 1082, 1086, 1088, 1086, 1095, 1077, 32] @ ''{n}'' @ units
      [32, 1089, 1080, 1084, 1074, 1086, 1083, 1086, 1074]),
     (''generating_keys'', units [1043, 1077, 1085, 1077, 1088, 1072, 1094, 1080, 1103, 32, 1082, 1083, 1102,
      1095, 1077, 1081, 8230]),
     (''deriving_key'', units [1042, 1099, 1095, 1080, 1089, 1083, 1077, 1085, 1080, 1077, 32, 1082, 1083, 1102,
      1095, 1072, 32, 1080, 1079, 32, 1087, 1072, 1088, 1086, 1083, 1103, 32, 40, 1101, 1090, 1086, 32, 1079,
      1072, 1081, 1084, 1105, 1090, 32, 1087, 1072, 1088, 1091, 32, 1089, 1077, 1082, 1091, 1085, 1076, 41,
      8230]),
     (''registering'', units [1056, 1077, 1075, 1080, 1089, 1090, 1088, 1072, 1094, 1080, 1103, 8230]),
     (''fetching_params'', units [1047, 1072, 1087, 1088, 1086, 1089, 32, 1087, 1072, 1088, 1072, 1084, 1077,
      1090, 1088, 1086, 1074, 32, 1072, 1082, 1082, 1072, 1091, 1085, 1090, 1072, 8230]),
     (''signing_in'', units [1042, 1093, 1086, 1076, 8230]),
     (''key_unlock_failed'', units [1053, 1077, 32, 1091, 1076, 1072, 1083, 1086, 1089, 1100, 32, 1086, 1090,
      1082, 1088, 1099, 1090, 1100, 32, 1082, 1083, 1102, 1095, 1080, 32, 1072, 1082, 1082, 1072, 1091, 1085,
      1090, 1072, 32, 1101, 1090, 1080, 1084, 32, 1087, 1072, 1088, 1086, 1083, 1077, 1084]),
     (''weak_kdf'', units [1057, 1077, 1088, 1074, 1077, 1088, 32, 1079, 1072, 1087, 1088, 1086, 1089, 1080,
      1083, 32, 1073, 1086, 1083, 1077, 1077, 32, 1089, 1083, 1072, 1073, 1099, 1077, 32, 1087, 1072, 1088,
      1072, 1084, 1077, 1090, 1088, 1099, 32, 1087, 1072, 1088, 1086, 1083, 1103, 44, 32, 1095, 1077, 1084, 32,
      1088, 1072, 1079, 1088, 1077, 1096, 1072, 1077, 1090, 32, 1087, 1088, 1086, 1090, 1086, 1082, 1086, 1083,
      46, 32, 1042, 1093, 1086, 1076, 32, 1086, 1090, 1084, 1077, 1085, 1105, 1085, 58, 32, 1090, 1072, 1082,
      32, 1086, 1085, 32, 1084, 1086, 1075, 32, 1073, 1099, 32, 1091, 1079, 1085, 1072, 1090, 1100, 32, 1074,
      1072, 1096, 32, 1087, 1072, 1088, 1086, 1083, 1100, 46]),
     (''invite_required'', units [1044, 1083, 1103, 32, 1088, 1077, 1075, 1080, 1089, 1090, 1088, 1072, 1094,
      1080, 1080, 32, 1085, 1072, 32, 1101, 1090, 1086, 1084, 32, 1089, 1077, 1088, 1074, 1077, 1088, 1077, 32,
      1085, 1091, 1078, 1077, 1085, 32, 1080, 1085, 1074, 1072, 1081, 1090, 45, 1082, 1086, 1076]),
     (''registration_closed'', units [1056, 1077, 1075, 1080, 1089, 1090, 1088, 1072, 1094, 1080, 1103, 32,
      1085, 1072, 32, 1101, 1090, 1086, 1084, 32, 1089, 1077, 1088, 1074, 1077, 1088, 1077, 32, 1079, 1072,
      1082, 1088, 1099, 1090, 1072]),
     (''invalid_credentials'', units [1053, 1077, 1074, 1077, 1088, 1085, 1086, 1077, 32, 1080, 1084, 1103, 32,
      1087, 1086, 1083, 1100, 1079, 1086, 1074, 1072, 1090, 1077, 1083, 1103, 32, 1080, 1083, 1080, 32, 1087,
      1072, 1088, 1086, 1083, 1100]),
     (''username_taken'', units [1069, 1090, 1086, 32, 1080, 1084, 1103, 32, 1091, 1078, 1077, 32, 1079, 1072,
      1085, 1103, 1090, 1086]),
     (''account_disabled'', units [1040, 1082, 1082, 1072, 1091, 1085, 1090, 32, 1086, 1090, 1082, 1083, 1102,
      1095, 1105, 1085, 32, 1072, 1076, 1084, 1080, 1085, 1080, 1089, 1090, 1088, 1072, 1090, 1086, 1088, 1086,
      1084])]"

definition ru_sidebar :: "(string \<times> string) list" where
  "ru_sidebar = [
     (''new_chat'', units [1053, 1086, 1074, 1099, 1081, 32, 1095, 1072, 1090]),
     (''settings'', units [1053, 1072, 1089, 1090, 1088, 1086, 1081, 1082, 1080]),
     (''no_conversations'', units [1055, 1086, 1082, 1072, 32, 1085, 1077, 1090, 32, 1095, 1072, 1090, 1086,
      1074, 46, 32, 1053, 1072, 1095, 1085, 1080, 1090, 1077, 32, 1085, 1086, 1074, 1099, 1081, 32, 1082, 1085,
      1086, 1087, 1082, 1086, 1081, 32, 43, 46]),
     (''pinned_section'', units [1047, 1072, 1082, 1088, 1077, 1087, 1083, 1105, 1085, 1085, 1099, 1077]),
     (''all_chats_section'', units [1042, 1089, 1077, 32, 1095, 1072, 1090, 1099]),
     (''chat_actions'', units [1044, 1077, 1081, 1089, 1090, 1074, 1080, 1103, 32, 1089, 32, 1095, 1072, 1090,
      1086, 1084]),
     (''pin_chat'', units [1047, 1072, 1082, 1088, 1077, 1087, 1080, 1090, 1100, 32, 1095, 1072, 1090]),
     (''unpin_chat'', units [1054, 1090, 1082, 1088, 1077, 1087, 1080, 1090, 1100]),
     (''mute_chat'', units [1041, 1077, 1079, 32, 1091, 1074, 1077, 1076, 1086, 1084, 1083, 1077, 1085, 1080,
      1081]),
     (''unmute_chat'', units [1057, 32, 1091, 1074, 1077, 1076, 1086, 1084, 1083, 1077, 1085, 1080, 1103, 1084,
      1080]),
     (''mark_read'', units [1055, 1088, 1086, 1095, 1080, 1090, 1072, 1085, 1086]),
     (''delete_chat'', units [1059, 1076, 1072, 1083, 1080, 1090, 1100, 32, 1095, 1072, 1090]),
     (''confirm_delete_chat'', units [1042, 1099, 1081, 1090, 1080, 32, 1080, 1079, 32, 1101, 1090, 1086, 1081,
      32, 1075, 1088, 1091, 1087, 1087, 1099, 63]),
     (''confirm_clear_chat'', units [1059, 1073, 1088, 1072, 1090, 1100, 32, 1101, 1090, 1086, 1090, 32, 1095,
      1072, 1090, 32, 1080, 1079, 32, 1089, 1087, 1080, 1089, 1082, 1072, 63, 32, 1057, 1086, 1086, 1073, 1097,
      1077, 1085, 1080, 1103, 32, 1086, 1089, 1090, 1072, 1085, 1091, 1090, 1089, 1103, 32, 1085, 1072, 32,
      1089, 1077, 1088, 1074, 1077, 1088, 1077, 44, 32, 1080, 32, 1095, 1072, 1090, 32, 1074, 1077, 1088, 1085,
      1105, 1090, 1089, 1103, 32, 1089, 1086, 32, 1089, 1083, 1077, 1076, 1091, 1102, 1097, 1080, 1084, 32,
      1089, 1086, 1086, 1073, 1097, 1077, 1085, 1080, 1077, 1084, 46]),
     (''direct_chat'', units [1051, 1080, 1095, 1085, 1099, 1081, 32, 1095, 1072, 1090]),
     (''group'', units [1043, 1088, 1091, 1087, 1087, 1072]),
     (''you'', units [1074, 1099])]"

definition ru_new_conversation :: "(string \<times> string) list" where
  "ru_new_conversation = [
     (''new_conversation'', units [1053, 1086, 1074, 1099, 1081, 32, 1095, 1072, 1090]),
     (''direct'', units [1051, 1080, 1095, 1085, 1099, 1081]),
     (''group_name'', units [1053, 1072, 1079, 1074, 1072, 1085, 1080, 1077, 32, 1075, 1088, 1091, 1087, 1087,
      1099]),
     (''group_name_placeholder'', units [1055, 1083, 1072, 1085, 1099, 32, 1085, 1072, 32, 1074, 1099, 1093,
      1086, 1076, 1085, 1099, 1077]),
     (''members'', units [1059, 1095, 1072, 1089, 1090, 1085, 1080, 1082, 1080]),
     (''members_hint'', units [40, 1080, 1084, 1077, 1085, 1072, 32, 1095, 1077, 1088, 1077, 1079, 32, 1079,
      1072, 1087, 1103, 1090, 1091, 1102, 41]),
     (''creating'', units [1057, 1086, 1079, 1076, 1072, 1085, 1080, 1077, 8230]),
     (''that_is_you'', units [1069, 1090, 1086, 32, 1074, 1099])]"

definition ru_chat :: "(string \<times> string) list" where
  "ru_chat = [
     (''select_conversation'', units [1042, 1099, 1073, 1077, 1088, 1080, 1090, 1077, 32, 1095, 1072, 1090, 32,
      1080, 1083, 1080, 32, 1089, 1086, 1079, 1076, 1072, 1081, 1090, 1077, 32, 1085, 1086, 1074, 1099, 1081,
      46]),
     (''write_message'', units [1053, 1072, 1087, 1080, 1096, 1080, 1090, 1077, 32, 1089, 1086, 1086, 1073,
      1097, 1077, 1085, 1080, 1077, 8230]),
     (''members_count'', units [1091, 1095, 1072, 1089, 1090, 1085, 1080, 1082, 1086, 1074, 58, 32] @ ''{n}''),
     (''unverified_members'', units [1085, 1077, 1087, 1088, 1086, 1074, 1077, 1088, 1077, 1085, 1085, 1099,
      1077, 32, 1091, 1095, 1072, 1089, 1090, 1085, 1080, 1082, 1080]),
     (''voice_call'', units [1043, 1086, 1083, 1086, 1089, 1086, 1074, 1086, 1081, 32, 1079, 1074, 1086, 1085,
      1086, 1082]),
     (''video_call'', units [1042, 1080, 1076, 1077, 1086, 1079, 1074, 1086, 1085, 1086, 1082]),
     (''members_security'', units [1059, 1095, 1072, 1089, 1090, 1085, 1080, 1082, 1080, 32, 1080, 32, 1073,
      1077, 1079, 1086, 1087, 1072, 1089, 1085, 1086, 1089, 1090, 1100]),
     (''sending'', units [1086, 1090, 1087, 1088, 1072, 1074, 1082, 1072, 8230]),
     (''failed'', units [1086, 1096, 1080, 1073, 1082, 1072, 58, 32] @ ''{reason}''),
     (''attach_file'', units [1055, 1088, 1080, 1082, 1088, 1077, 1087, 1080, 1090, 1100, 32, 1092, 1072, 1081,
      1083]),
     (''drop_files_hint'', units [1054, 1090, 1087, 1091, 1089, 1090, 1080, 1090, 1077, 32, 1092, 1072, 1081,
      1083, 1099, 44, 32, 1095, 1090, 1086, 1073, 1099, 32, 1086, 1090, 1087, 1088, 1072, 1074, 1080, 1090,
      1100]),
     (''uploading'', units [1047, 1072, 1075, 1088, 1091, 1079, 1082, 1072, 32] @ ''{name}'' @ units [8230]),
     (''download'', units [1057, 1082, 1072, 1095, 1072, 1090, 1100]),
     (''open'', units [1054, 1090, 1082, 1088, 1099, 1090, 1100]),
     (''file_too_large'', units [1060, 1072, 1081, 1083, 32, 1073, 1086, 1083, 1100, 1096, 1077, 32, 1083, 1080,
      1084, 1080, 1090, 1072, 32, 1089, 1077, 1088, 1074, 1077, 1088, 1072, 32, 40] @ ''{mb}'' @ units [32,
      1052, 1041, 41]),
     (''attachments_disabled'', units [1042, 1083, 1086, 1078, 1077, 1085, 1080, 1103, 32, 1086, 1090, 1082,
      1083, 1102, 1095, 1077, 1085, 1099, 32, 1085, 1072, 32, 1101, 1090, 1086, 1084, 32, 1089, 1077, 1088,
      1074, 1077, 1088, 1077]),
     (''bot_notice'', units [1042, 32, 1101, 1090, 1086, 1084, 32, 1095, 1072, 1090, 1077, 32, 1077, 1089, 1090,
      1100, 32, 1073, 1086, 1090, 46, 32, 1041, 1086, 1090, 1099, 32, 1088, 1072, 1073, 1086, 1090, 1072, 1102,
      1090, 32, 1085, 1072, 32, 1089, 1077, 1088, 1074, 1077, 1088, 1077, 44, 32, 1087, 1086, 1101, 1090, 1086,
      1084, 1091, 32, 1089, 1077, 1088, 1074, 1077, 1088, 32, 1084, 1086, 1078, 1077, 1090, 32, 1095, 1080,
      1090, 1072, 1090, 1100, 32, 1101, 1090, 1086, 1090, 32, 1095, 1072, 1090, 46]),
     (''disappearing_badge'', units [1089, 1086, 1086, 1073, 1097, 1077, 1085, 1080, 1103, 32, 1080, 1089, 1095,
      1077, 1079, 1072, 1102, 1090, 32, 1095, 1077, 1088, 1077, 1079, 32] @ ''{duration}''),
     (''edit'', units [1048, 1079, 1084, 1077, 1085, 1080, 1090, 1100]),
     (''edited'', units [1080, 1079, 1084, 1077, 1085, 1077, 1085, 1086]),
     (''editing_message'', units [1056, 1077, 1076, 1072, 1082, 1090, 1080, 1088, 1086, 1074, 1072, 1085, 1080,
      1077, 32, 1089, 1086, 1086, 1073, 1097, 1077, 1085, 1080, 1103]),
     (''message_actions'', units [1044, 1077, 1081, 1089, 1090, 1074, 1080, 1103, 32, 1089, 32, 1089, 1086,
      1086, 1073, 1097, 1077, 1085, 1080, 1077, 1084]),
     (''confirm_delete_message'', units [1059, 1076, 1072, 1083, 1080, 1090, 1100, 32, 1101, 1090, 1086, 32,
      1089, 1086, 1086, 1073, 1097, 1077, 1085, 1080, 1077, 32, 1091, 32, 1074, 1089, 1077, 1093, 63]),
     (''undecryptable'', units [1053, 1077, 32, 1091, 1076, 1072, 1083, 1086, 1089, 1100, 32, 1088, 1072, 1089,
      1096, 1080, 1092, 1088, 1086, 1074, 1072, 1090, 1100, 32, 1089, 1086, 1086, 1073, 1097, 1077, 1085, 1080,
      1077, 32, 1086, 1090, 32] @ ''{user}'' @ '' ('' @ ''{reason}'' @ '')''),
     (''unknown_payload'', units [1085, 1077, 1080, 1079, 1074, 1077, 1089, 1090, 1085, 1099, 1081, 32, 1092,
      1086, 1088, 1084, 1072, 1090]),
     (''ev_started_chat'', ''{who}'' @ units [32, 1085, 1072, 1095, 1072, 1083, 40, 1072, 41, 32, 1095, 1072,
      1090]),
     (''ev_created_group'', ''{who}'' @ units [32, 1089, 1086, 1079, 1076, 1072, 1083, 40, 1072, 41, 32, 1075,
      1088, 1091, 1087, 1087, 1091, 32, 171] @ ''{name}'' @ units [187]),
     (''ev_created_group_unnamed'', ''{who}'' @ units [32, 1089, 1086, 1079, 1076, 1072, 1083, 40, 1072, 41, 32,
      1075, 1088, 1091, 1087, 1087, 1091]),
     (''ev_added'', ''{who}'' @ units [32, 1076, 1086, 1073, 1072, 1074, 1080, 1083, 40, 1072, 41, 32] @
      ''{member}''),
     (''ev_left'', ''{who}'' @ units [32, 1074, 1099, 1096, 1077, 1083, 40, 1083, 1072, 41]),
     (''ev_removed'', ''{who}'' @ units [32, 1091, 1076, 1072, 1083, 1080, 1083, 40, 1072, 41, 32] @
      ''{member}''),
     (''ev_renamed'', ''{who}'' @ units [32, 1087, 1077, 1088, 1077, 1080, 1084, 1077, 1085, 1086, 1074, 1072,
      1083, 40, 1072, 41, 32, 1075, 1088, 1091, 1087, 1087, 1091, 32, 1074, 32, 171] @ ''{name}'' @ units [187]),
     (''ev_retention_set'', ''{who}'' @ units [32, 1074, 1082, 1083, 1102, 1095, 1080, 1083, 40, 1072, 41, 32,
      1080, 1089, 1095, 1077, 1079, 1072, 1102, 1097, 1080, 1077, 32, 1089, 1086, 1086, 1073, 1097, 1077, 1085,
      1080, 1103, 58, 32] @ ''{duration}''),
     (''ev_retention_off'', ''{who}'' @ units [32, 1074, 1099, 1082, 1083, 1102, 1095, 1080, 1083, 40, 1072, 41,
      32, 1080, 1089, 1095, 1077, 1079, 1072, 1102, 1097, 1080, 1077, 32, 1089, 1086, 1086, 1073, 1097, 1077,
      1085, 1080, 1103]),
     (''preview_photo'', units [1060, 1086, 1090, 1086]),
     (''preview_file'', units [1060, 1072, 1081, 1083, 58, 32] @ ''{name}''),
     (''preview_chat_started'', units [1063, 1072, 1090, 32, 1085, 1072, 1095, 1072, 1090]),
     (''preview_group_created'', units [1043, 1088, 1091, 1087, 1087, 1072, 32, 1089, 1086, 1079, 1076, 1072,
      1085, 1072]),
     (''preview_joined'', ''{name}'' @ units [32, 1087, 1088, 1080, 1089, 1086, 1077, 1076, 1080, 1085, 1080,
      1083, 1089, 1103, 40, 1072, 1089, 1100, 41]),
     (''preview_left'', units [1059, 1095, 1072, 1089, 1090, 1085, 1080, 1082, 32, 1074, 1099, 1096, 1077,
      1083]),
     (''preview_renamed'', units [1055, 1077, 1088, 1077, 1080, 1084, 1077, 1085, 1086, 1074, 1072, 1085, 1086,
      32, 1074, 32] @ ''{name}''),
     (''preview_unreadable'', units [1053, 1077, 1095, 1080, 1090, 1072, 1077, 1084, 1086, 1077, 32, 1089, 1086,
      1086, 1073, 1097, 1077, 1085, 1080, 1077])]"

definition ru_member_panel :: "(string \<times> string) list" where
  "ru_member_panel = [
     (''security'', units [1041, 1077, 1079, 1086, 1087, 1072, 1089, 1085, 1086, 1089, 1090, 1100]),
     (''safety_hint'', units [1057, 1088, 1072, 1074, 1085, 1080, 1090, 1077, 32, 1082, 1086, 1076, 1099, 32,
      1073, 1077, 1079, 1086, 1087, 1072, 1089, 1085, 1086, 1089, 1090, 1080, 32, 1083, 1080, 1095, 1085, 1086,
      32, 1080, 1083, 1080, 32, 1087, 1086, 32, 1079, 1074, 1086, 1085, 1082, 1091, 44, 32, 1095, 1090, 1086,
      1073, 1099, 32, 1091, 1073, 1077, 1076, 1080, 1090, 1100, 1089, 1103, 44, 32, 1095, 1090, 1086, 32, 1085,
      1080, 1082, 1090, 1086, 44, 32, 1074, 1082, 1083, 1102, 1095, 1072, 1103, 32, 1089, 1077, 1088, 1074,
      1077, 1088, 44, 32, 1085, 1077, 32, 1087, 1086, 1076, 1084, 1077, 1085, 1080, 1083, 32, 1082, 1083, 1102,
      1095, 1080, 46]),
     (''verified'', units [1087, 1088, 1086, 1074, 1077, 1088, 1077, 1085]),
     (''not_in_roster'', units [1085, 1077, 1090, 32, 1074, 32, 1087, 1086, 1076, 1087, 1080, 1089, 1072, 1085,
      1085, 1086, 1084, 32, 1089, 1086, 1089, 1090, 1072, 1074, 1077]),
     (''keys_changed'', units [1082, 1083, 1102, 1095, 1080, 32, 1080, 1079, 1084, 1077, 1085, 1080, 1083, 1080,
      1089, 1100]),
     (''new_keys'', units [1085, 1086, 1074, 1099, 1077, 58]),
     (''accept_new_keys'', units [1055, 1088, 1080, 1085, 1103, 1090, 1100, 32, 1085, 1086, 1074, 1099, 1077,
      32, 1082, 1083, 1102, 1095, 1080]),
     (''i_verified'', units [1071, 32, 1089, 1074, 1077, 1088, 1080, 1083, 40, 1072, 41, 32, 1082, 1086, 1076,
      32, 1073, 1077, 1079, 1086, 1087, 1072, 1089, 1085, 1086, 1089, 1090, 1080]),
     (''remove'', units [1059, 1076, 1072, 1083, 1080, 1090, 1100]),
     (''username_to_add'', units [1082, 1086, 1075, 1086, 32, 1076, 1086, 1073, 1072, 1074, 1080, 1090, 1100]),
     (''add'', units [1044, 1086, 1073, 1072, 1074, 1080, 1090, 1100]),
     (''group_name_field'', units [1085, 1072, 1079, 1074, 1072, 1085, 1080, 1077, 32, 1075, 1088, 1091, 1087,
      1087, 1099]),
     (''rename'', units [1055, 1077, 1088, 1077, 1080, 1084, 1077, 1085, 1086, 1074, 1072, 1090, 1100]),
     (''leave_group'', units [1042, 1099, 1081, 1090, 1080, 32, 1080, 1079, 32, 1075, 1088, 1091, 1087, 1087,
      1099]),
     (''disappearing_messages'', units [1048, 1089, 1095, 1077, 1079, 1072, 1102, 1097, 1080, 1077, 32, 1089,
      1086, 1086, 1073, 1097, 1077, 1085, 1080, 1103]),
     (''retention_off'', units [1042, 1099, 1082, 1083]),
     (''retention_owner_only'', units [1058, 1072, 1081, 1084, 1077, 1088, 32, 1084, 1086, 1078, 1077, 1090, 32,
      1084, 1077, 1085, 1103, 1090, 1100, 32, 1090, 1086, 1083, 1100, 1082, 1086, 32, 1074, 1083, 1072, 1076,
      1077, 1083, 1077, 1094, 32, 1075, 1088, 1091, 1087, 1087, 1099, 46]),
     (''duration_1h'', units [49, 32, 1095, 1072, 1089]),
     (''duration_1d'', units [49, 32, 1076, 1077, 1085, 1100]),
     (''duration_1w'', units [49, 32, 1085, 1077, 1076, 1077, 1083, 1103]),
     (''duration_30d'', units [51, 48, 32, 1076, 1085, 1077, 1081]),
     (''duration_custom'', ''{n}'' @ units [32, 1089]),
     (''bot'', units [1073, 1086, 1090])]"

definition ru_calls :: "(string \<times> string) list" where
  "ru_calls = [
     (''calling'', units [1047, 1074, 1086, 1085, 1080, 1084, 32] @ ''{peer}'' @ units [8230]),
     (''incoming_call'', ''{peer}'' @ units [32, 1079, 1074, 1086, 1085, 1080, 1090]),
     (''incoming_video_call'', units [1042, 1093, 1086, 1076, 1103, 1097, 1080, 1081, 32, 1074, 1080, 1076,
      1077, 1086, 1079, 1074, 1086, 1085, 1086, 1082, 32, 1086, 1090, 32] @ ''{peer}''),
     (''camera_on'', units [1042, 1082, 1083, 1102, 1095, 1080, 1090, 1100, 32, 1082, 1072, 1084, 1077, 1088,
      1091]),
     (''camera_off'', units [1042, 1099, 1082, 1083, 1102, 1095, 1080, 1090, 1100, 32, 1082, 1072, 1084, 1077,
      1088, 1091]),
     (''camera_failed'', units [1050, 1072, 1084, 1077, 1088, 1072, 32, 1085, 1077, 1076, 1086, 1089, 1090,
      1091, 1087, 1085, 1072]),
     (''call_connecting'', units [1057, 1086, 1077, 1076, 1080, 1085, 1077, 1085, 1080, 1077, 8230]),
     (''in_call'', units [1056, 1072, 1079, 1075, 1086, 1074, 1086, 1088, 32, 1089, 32] @ ''{peer}'' @ units
      [32, 183, 32] @ ''{time}''),
     (''call_ended'', units [1047, 1074, 1086, 1085, 1086, 1082, 32, 1079, 1072, 1074, 1077, 1088, 1096, 1105,
      1085]),
     (''call_ended_reason'', units [1047, 1074, 1086, 1085, 1086, 1082, 32, 1079, 1072, 1074, 1077, 1088, 1096,
      1105, 1085, 58, 32] @ ''{reason}''),
     (''answer'', units [1054, 1090, 1074, 1077, 1090, 1080, 1090, 1100]),
     (''decline'', units [1054, 1090, 1082, 1083, 1086, 1085, 1080, 1090, 1100]),
     (''mute'', units [1052, 1080, 1082, 1088, 1086, 1092, 1086, 1085, 32, 1074, 1099, 1082, 1083]),
     (''unmute'', units [1052, 1080, 1082, 1088, 1086, 1092, 1086, 1085, 32, 1074, 1082, 1083]),
     (''share_screen'', units [1055, 1086, 1082, 1072, 1079, 1072, 1090, 1100, 32, 1101, 1082, 1088, 1072,
      1085]),
     (''stop_sharing'', units [1054, 1089, 1090, 1072, 1085, 1086, 1074, 1080, 1090, 1100, 32, 1087, 1086, 1082,
      1072, 1079]),
     (''fullscreen'', units [1042, 1086, 32, 1074, 1077, 1089, 1100, 32, 1101, 1082, 1088, 1072, 1085]),
     (''exit_fullscreen'', units [1042, 1099, 1081, 1090, 1080, 32, 1080, 1079, 32, 1087, 1086, 1083, 1085,
      1086, 1075, 1086, 32, 1101, 1082, 1088, 1072, 1085, 1072]),
     (''hang_up'', units [1047, 1072, 1074, 1077, 1088, 1096, 1080, 1090, 1100]),
     (''already_in_call'', units [1042, 1099, 32, 1091, 1078, 1077, 32, 1074, 32, 1079, 1074, 1086, 1085, 1082,
      1077]),
     (''voice_channel'', units [1043, 1086, 1083, 1086, 1089, 1086, 1074, 1086, 1081, 32, 1082, 1072, 1085,
      1072, 1083]),
     (''voice_title'', units [1043, 1086, 1083, 1086, 1089, 1086, 1074, 1086, 1081, 32, 1082, 1072, 1085, 1072,
      1083, 32, 183, 32] @ ''{group}''),
     (''voice_join'', units [1042, 1086, 1081, 1090, 1080, 32, 1074, 32, 1075, 1086, 1083, 1086, 1089, 1086,
      1074, 1086, 1081]),
     (''voice_leave'', units [1055, 1086, 1082, 1080, 1085, 1091, 1090, 1100, 32, 1082, 1072, 1085, 1072, 1083]),
     (''voice_in_channel'', units [1042, 32, 1075, 1086, 1083, 1086, 1089, 1086, 1074, 1086, 1084, 32, 1082,
      1072, 1085, 1072, 1083, 1077, 58, 32] @ ''{names}''),
     (''voice_empty'', units [1042, 32, 1075, 1086, 1083, 1086, 1089, 1086, 1074, 1086, 1084, 32, 1082, 1072,
      1085, 1072, 1083, 1077, 32, 1087, 1086, 1082, 1072, 32, 1085, 1080, 1082, 1086, 1075, 1086]),
     (''voice_joined_toast'', ''{who}'' @ units [32, 1090, 1077, 1087, 1077, 1088, 1100, 32, 1074, 32, 1075,
      1086, 1083, 1086, 1089, 1086, 1074, 1086, 1084, 32, 1082, 1072, 1085, 1072, 1083, 1077, 32, 171] @
      ''{group}'' @ units [187]),
     (''voice_mic_failed'', units [1052, 1080, 1082, 1088, 1086, 1092, 1086, 1085, 32, 1085, 1077, 1076, 1086,
      1089, 1090, 1091, 1087, 1077, 1085]),
     (''voice_leave_first'', units [1057, 1085, 1072, 1095, 1072, 1083, 1072, 32, 1087, 1086, 1082, 1080, 1085,
      1100, 1090, 1077, 32, 1075, 1086, 1083, 1086, 1089, 1086, 1074, 1086, 1081, 32, 1082, 1072, 1085, 1072,
      1083]),
     (''voice_state_connecting'', units [1087, 1086, 1076, 1082, 1083, 1102, 1095, 1077, 1085, 1080, 1077,
      8230]),
     (''voice_state_connected'', units [1087, 1086, 1076, 1082, 1083, 1102, 1095, 1077, 1085, 1086]),
     (''voice_state_failed'', units [1085, 1077, 1090, 32, 1089, 1074, 1103, 1079, 1080, 44, 32, 1087, 1086,
      1074, 1090, 1086, 1088, 8230]),
     (''grid_mode'', units [1057, 1077, 1090, 1082, 1072]),
     (''speaker_mode'', units [1044, 1086, 1082, 1083, 1072, 1076, 1095, 1080, 1082]),
     (''screen_of'', units [1101, 1082, 1088, 1072, 1085, 32] @ ''{name}''),
     (''speaking'', units [1075, 1086, 1074, 1086, 1088, 1080, 1090]),
     (''pin_tile'', units [1047, 1072, 1082, 1088, 1077, 1087, 1080, 1090, 1100]),
     (''unpin_tile'', units [1054, 1090, 1082, 1088, 1077, 1087, 1080, 1090, 1100]),
     (''voice_tiles'', ''{tiles}'' @ units [32, 1087, 1083, 1080, 1090, 1086, 1082, 32, 183, 32] @ ''{people}''
      @ units [32, 1074, 32, 1082, 1072, 1085, 1072, 1083, 1077]),
     (''voice_no_video'', units [1053, 1080, 1082, 1090, 1086, 32, 1085, 1077, 32, 1074, 1082, 1083, 1102, 1095,
      1080, 1083, 32, 1082, 1072, 1084, 1077, 1088, 1091, 32, 1080, 32, 1085, 1077, 32, 1087, 1086, 1082, 1072,
      1079, 1099, 1074, 1072, 1077, 1090, 32, 1101, 1082, 1088, 1072, 1085]),
     (''voice_all_screens'', units [1042, 1089, 1077, 32, 1101, 1082, 1088, 1072, 1085, 1099]),
     (''voice_waiting_video'', units [1086, 1078, 1080, 1076, 1072, 1085, 1080, 1077, 32, 1074, 1080, 1076,
      1077, 1086, 8230]),
     (''screen_share_unavailable'', units [1044, 1077, 1084, 1086, 1085, 1089, 1090, 1088, 1072, 1094, 1080,
      1103, 32, 1101, 1082, 1088, 1072, 1085, 1072, 32, 1085, 1077, 1076, 1086, 1089, 1090, 1091, 1087, 1085,
      1072, 32, 1074, 32, 1101, 1090, 1086, 1084, 32, 1073, 1088, 1072, 1091, 1079, 1077, 1088, 1077]),
     (''screen_share_failed'', units [1053, 1077, 32, 1091, 1076, 1072, 1083, 1086, 1089, 1100, 32, 1087, 1086,
      1082, 1072, 1079, 1072, 1090, 1100, 32, 1101, 1082, 1088, 1072, 1085]),
     (''call_interrupted'', units [1057, 1074, 1103, 1079, 1100, 32, 1087, 1088, 1077, 1088, 1074, 1072, 1083,
      1072, 1089, 1100, 8230]),
     (''reason_no_answer'', units [1085, 1077, 1090, 32, 1086, 1090, 1074, 1077, 1090, 1072]),
     (''reason_missed'', units [1087, 1088, 1086, 1087, 1091, 1097, 1077, 1085]),
     (''reason_declined'', units [1086, 1090, 1082, 1083, 1086, 1085, 1105, 1085]),
     (''reason_busy'', units [1079, 1072, 1085, 1103, 1090, 1086]),
     (''reason_answered_elsewhere'', units [1087, 1088, 1080, 1085, 1103, 1090, 32, 1085, 1072, 32, 1076, 1088,
      1091, 1075, 1086, 1084, 32, 1091, 1089, 1090, 1088, 1086, 1081, 1089, 1090, 1074, 1077]),
     (''reason_declined_elsewhere'', units [1086, 1090, 1082, 1083, 1086, 1085, 1105, 1085, 32, 1085, 1072, 32,
      1076, 1088, 1091, 1075, 1086, 1084, 32, 1091, 1089, 1090, 1088, 1086, 1081, 1089, 1090, 1074, 1077]),
     (''reason_connection_failed'', units [1085, 1077, 32, 1091, 1076, 1072, 1083, 1086, 1089, 1100, 32, 1091,
      1089, 1090, 1072, 1085, 1086, 1074, 1080, 1090, 1100, 32, 1089, 1086, 1077, 1076, 1080, 1085, 1077, 1085,
      1080, 1077]),
     (''reason_could_not_start'', units [1085, 1077, 32, 1091, 1076, 1072, 1083, 1086, 1089, 1100, 32, 1085,
      1072, 1095, 1072, 1090, 1100, 32, 1079, 1074, 1086, 1085, 1086, 1082]),
     (''reason_could_not_answer'', units [1085, 1077, 32, 1091, 1076, 1072, 1083, 1086, 1089, 1100, 32, 1086,
      1090, 1074, 1077, 1090, 1080, 1090, 1100])]"

definition ru_settings :: "(string \<times> string) list" where
  "ru_settings = [
     (''your_safety_number'', units [1042, 1072, 1096, 32, 1082, 1086, 1076, 32, 1073, 1077, 1079, 1086, 1087,
      1072, 1089, 1085, 1086, 1089, 1090, 1080]),
     (''safety_number_hint'', units [1055, 1088, 1086, 1076, 1080, 1082, 1090, 1091, 1081, 1090, 1077, 32, 1077,
      1075, 1086, 32, 1089, 1086, 1073, 1077, 1089, 1077, 1076, 1085, 1080, 1082, 1091, 32, 1087, 1088, 1080,
      32, 1074, 1089, 1090, 1088, 1077, 1095, 1077, 32, 1080, 1083, 1080, 32, 1087, 1086, 32, 1090, 1077, 1083,
      1077, 1092, 1086, 1085, 1091, 46, 32, 1045, 1089, 1083, 1080, 32, 1082, 1086, 1076, 1099, 32, 1089, 1086,
      1074, 1087, 1072, 1083, 1080, 44, 32, 1074, 32, 1074, 1072, 1096, 1091, 32, 1087, 1077, 1088, 1077, 1087,
      1080, 1089, 1082, 1091, 32, 1085, 1080, 1082, 1090, 1086, 32, 1085, 1077, 32, 1074, 1089, 1090, 1088,
      1086, 1080, 1083, 1089, 1103, 46]),
     (''devices'', units [1059, 1089, 1090, 1088, 1086, 1081, 1089, 1090, 1074, 1072]),
     (''this_device'', units [1101, 1090, 1086, 32, 1091, 1089, 1090, 1088, 1086, 1081, 1089, 1090, 1074, 1086]),
     (''sign_out_device'', units [1074, 1099, 1081, 1090, 1080]),
     (''notifications'', units [1059, 1074, 1077, 1076, 1086, 1084, 1083, 1077, 1085, 1080, 1103]),
     (''enabled'', units [1074, 1082, 1083, 1102, 1095, 1077, 1085, 1099]),
     (''enable_notifications'', units [1042, 1082, 1083, 1102, 1095, 1080, 1090, 1100, 32, 1091, 1074, 1077,
      1076, 1086, 1084, 1083, 1077, 1085, 1080, 1103]),
     (''notifications_blocked'', units [1047, 1072, 1073, 1083, 1086, 1082, 1080, 1088, 1086, 1074, 1072, 1085,
      1099, 32, 1074, 32, 1085, 1072, 1089, 1090, 1088, 1086, 1081, 1082, 1072, 1093, 32, 1073, 1088, 1072,
      1091, 1079, 1077, 1088, 1072]),
     (''change_password'', units [1057, 1084, 1077, 1085, 1080, 1090, 1100, 32, 1087, 1072, 1088, 1086, 1083,
      1100]),
     (''new_password'', units [1085, 1086, 1074, 1099, 1081, 32, 1087, 1072, 1088, 1086, 1083, 1100]),
     (''repeat_password'', units [1087, 1086, 1074, 1090, 1086, 1088, 1080, 1090, 1077, 32, 1085, 1086, 1074,
      1099, 1081, 32, 1087, 1072, 1088, 1086, 1083, 1100]),
     (''passwords_differ'', units [1053, 1086, 1074, 1099, 1081, 32, 1087, 1072, 1088, 1086, 1083, 1100, 32,
      1074, 1074, 1077, 1076, 1105, 1085, 32, 1087, 1086, 45, 1088, 1072, 1079, 1085, 1086, 1084, 1091]),
     (''sign_out_other_devices'', units [1042, 1099, 1081, 1090, 1080, 32, 1085, 1072, 32, 1074, 1089, 1077,
      1093, 32, 1086, 1089, 1090, 1072, 1083, 1100, 1085, 1099, 1093, 32, 1091, 1089, 1090, 1088, 1086, 1081,
      1089, 1090, 1074, 1072, 1093]),
     (''changing_password'', units [1057, 1084, 1077, 1085, 1072, 32, 1087, 1072, 1088, 1086, 1083, 1103, 8230]),
     (''password_changed'', units [1055, 1072, 1088, 1086, 1083, 1100, 32, 1080, 1079, 1084, 1077, 1085, 1105,
      1085]),
     (''password_changed_signed_out'', units [1055, 1072, 1088, 1086, 1083, 1100, 32, 1080, 1079, 1084, 1077,
      1085, 1105, 1085, 59, 32, 1076, 1088, 1091, 1075, 1080, 1093, 32, 1091, 1089, 1090, 1088, 1086, 1081,
      1089, 1090, 1074, 32, 1086, 1090, 1082, 1083, 1102, 1095, 1077, 1085, 1086, 58, 32] @ ''{n}''),
     (''password_changed_elsewhere'', units [1055, 1072, 1088, 1086, 1083, 1100, 32, 1101, 1090, 1086, 1075,
      1086, 32, 1072, 1082, 1082, 1072, 1091, 1085, 1090, 1072, 32, 1090, 1086, 1083, 1100, 1082, 1086, 32,
      1095, 1090, 1086, 32, 1089, 1084, 1077, 1085, 1080, 1083, 1080, 32, 1089, 32, 1076, 1088, 1091, 1075,
      1086, 1075, 1086, 32, 1091, 1089, 1090, 1088, 1086, 1081, 1089, 1090, 1074, 1072, 46, 32, 1045, 1089,
      1083, 1080, 32, 1101, 1090, 1086, 32, 1073, 1099, 1083, 1080, 32, 1085, 1077, 32, 1074, 1099, 44, 32,
      1089, 1084, 1077, 1085, 1080, 1090, 1077, 32, 1077, 1075, 1086, 32, 1079, 1076, 1077, 1089, 1100, 32,
      1080, 32, 1074, 1099, 1081, 1076, 1080, 1090, 1077, 32, 1085, 1072, 32, 1086, 1089, 1090, 1072, 1083,
      1100, 1085, 1099, 1093, 32, 1091, 1089, 1090, 1088, 1086, 1081, 1089, 1090, 1074, 1072, 1093, 46]),
     (''challenge_expired'', units [1057, 1083, 1080, 1096, 1082, 1086, 1084, 32, 1076, 1086, 1083, 1075, 1086,
      46, 32, 1055, 1086, 1087, 1088, 1086, 1073, 1091, 1081, 1090, 1077, 32, 1077, 1097, 1105, 32, 1088, 1072,
      1079, 46]),
     (''invalid_signature'', units [1059, 1089, 1090, 1088, 1086, 1081, 1089, 1090, 1074, 1086, 32, 1085, 1077,
      32, 1089, 1084, 1086, 1075, 1083, 1086, 32, 1087, 1086, 1076, 1090, 1074, 1077, 1088, 1076, 1080, 1090,
      1100, 44, 32, 1095, 1090, 1086, 32, 1074, 1083, 1072, 1076, 1077, 1077, 1090, 32, 1082, 1083, 1102, 1095,
      1072, 1084, 1080, 32, 1072, 1082, 1082, 1072, 1091, 1085, 1090, 1072]),
     (''sign_out'', units [1042, 1099, 1081, 1090, 1080]),
     (''language'', units [1071, 1079, 1099, 1082]),
     (''search_placeholder'', units [1055, 1086, 1080, 1089, 1082, 32, 1095, 1072, 1090, 1086, 1074, 44, 32,
      1083, 1102, 1076, 1077, 1081, 44, 32, 1089, 1086, 1086, 1073, 1097, 1077, 1085, 1080, 1081]),
     (''search_clear'', units [1054, 1095, 1080, 1089, 1090, 1080, 1090, 1100, 32, 1087, 1086, 1080, 1089,
      1082]),
     (''filter_all'', units [1042, 1089, 1077]),
     (''filter_chats'', units [1063, 1072, 1090, 1099]),
     (''filter_people'', units [1051, 1102, 1076, 1080]),
     (''filter_messages'', units [1057, 1086, 1086, 1073, 1097, 1077, 1085, 1080, 1103]),
     (''search_group_chats'', units [1063, 1072, 1090, 1099, 32, 183, 32] @ ''{n}''),
     (''search_group_people'', units [1051, 1102, 1076, 1080, 32, 183, 32] @ ''{n}''),
     (''search_group_messages'', units [1057, 1086, 1086, 1073, 1097, 1077, 1085, 1080, 1103, 32, 183, 32] @
      ''{n}''),
     (''search_write'', units [1053, 1072, 1087, 1080, 1089, 1072, 1090, 1100]),
     (''search_nothing_found'', units [1053, 1080, 1095, 1077, 1075, 1086, 32, 1085, 1077, 32, 1085, 1072, 1081,
      1076, 1077, 1085, 1086]),
     (''search_no_common'', units [1085, 1077, 1090, 32, 1086, 1073, 1097, 1080, 1093, 32, 1095, 1072, 1090,
      1086, 1074]),
     (''search_last_seen'', units [1073, 1099, 1083, 40, 1072, 41, 32] @ ''{date}''),
     (''search_people_off'', units [1057, 1087, 1080, 1089, 1086, 1082, 32, 1087, 1086, 1083, 1100, 1079, 1086,
      1074, 1072, 1090, 1077, 1083, 1077, 1081, 32, 1085, 1072, 32, 1101, 1090, 1086, 1084, 32, 1089, 1077,
      1088, 1074, 1077, 1088, 1077, 32, 1074, 1099, 1082, 1083, 1102, 1095, 1077, 1085, 58, 32, 1085, 1072,
      1073, 1077, 1088, 1080, 1090, 1077, 32, 1080, 1084, 1103, 32, 1094, 1077, 1083, 1080, 1082, 1086, 1084,
      46]),
     (''search_local_note'', units [1055, 1086, 1080, 1089, 1082, 32, 1087, 1086, 32, 1089, 1086, 1086, 1073,
      1097, 1077, 1085, 1080, 1103, 1084, 32, 1080, 1076, 1105, 1090, 32, 1085, 1072, 32, 1091, 1089, 1090,
      1088, 1086, 1081, 1089, 1090, 1074, 1077, 58, 32, 1089, 1077, 1088, 1074, 1077, 1088, 32, 1079, 1072,
      1087, 1088, 1086, 1089, 1072, 32, 1085, 1077, 32, 1074, 1080, 1076, 1080, 1090, 46]),
     (''search_load_history'', units [1047, 1072, 1075, 1088, 1091, 1079, 1080, 1090, 1100, 32, 1074, 1089,
      1102, 32, 1080, 1089, 1090, 1086, 1088, 1080, 1102]),
     (''search_load_history_hint'', units [1048, 1097, 1077, 1084, 32, 1090, 1086, 1083, 1100, 1082, 1086, 32,
      1087, 1086, 32, 1090, 1086, 1084, 1091, 44, 32, 1095, 1090, 1086, 32, 1088, 1072, 1089, 1096, 1080, 1092,
      1088, 1086, 1074, 1072, 1085, 1086, 32, 1085, 1072, 32, 1101, 1090, 1086, 1084, 32, 1091, 1089, 1090,
      1088, 1086, 1081, 1089, 1090, 1074, 1077, 46, 32, 1047, 1072, 1075, 1088, 1091, 1079, 1082, 1072, 32,
      1086, 1089, 1090, 1072, 1083, 1100, 1085, 1086, 1075, 1086, 32, 1084, 1086, 1078, 1077, 1090, 32, 1079,
      1072, 1085, 1103, 1090, 1100, 32, 1074, 1088, 1077, 1084, 1103, 46]),
     (''search_loading_history'', units [1047, 1072, 1075, 1088, 1091, 1078, 1072, 1077, 1084, 32, 1080, 1089,
      1090, 1086, 1088, 1080, 1102, 8230, 32] @ ''{done}'' @ units [32, 1080, 1079, 32] @ ''{total}''),
     (''dm_from_search_hint'', units [1051, 1080, 1095, 1085, 1099, 1081, 32, 1095, 1072, 1090, 32, 1085, 1072,
      1095, 1080, 1085, 1072, 1077, 1090, 1089, 1103, 32, 1080, 1079, 32, 1087, 1086, 1080, 1089, 1082, 1072,
      58, 32, 1085, 1072, 1081, 1076, 1080, 1090, 1077, 32, 1095, 1077, 1083, 1086, 1074, 1077, 1082, 1072, 32,
      1080, 32, 1085, 1072, 1078, 1084, 1080, 1090, 1077, 32, 171, 1053, 1072, 1087, 1080, 1089, 1072, 1090,
      1100, 187]),
     (''visibility'', units [1042, 1080, 1076, 1080, 1084, 1086, 1089, 1090, 1100]),
     (''find_me_in_search'', units [1053, 1072, 1093, 1086, 1076, 1080, 1090, 1100, 32, 1084, 1077, 1085, 1103,
      32, 1074, 32, 1087, 1086, 1080, 1089, 1082, 1077]),
     (''find_me_in_search_hint'', units [1045, 1089, 1083, 1080, 32, 1074, 1099, 1082, 1083, 1102, 1095, 1080,
      1090, 1100, 44, 32, 1074, 1072, 1089, 32, 1074, 1089, 1105, 32, 1088, 1072, 1074, 1085, 1086, 32, 1085,
      1072, 1081, 1076, 1091, 1090, 32, 1087, 1086, 32, 1090, 1086, 1095, 1085, 1086, 1084, 1091, 32, 1080,
      1084, 1077, 1085, 1080, 46]),
     (''show_online'', units [1055, 1086, 1082, 1072, 1079, 1099, 1074, 1072, 1090, 1100, 44, 32, 1082, 1086,
      1075, 1076, 1072, 32, 1103, 32, 1074, 32, 1089, 1077, 1090, 1080]),
     (''allow_group_add'', units [1056, 1072, 1079, 1088, 1077, 1096, 1080, 1090, 1100, 32, 1076, 1086, 1073,
      1072, 1074, 1083, 1103, 1090, 1100, 32, 1084, 1077, 1085, 1103, 32, 1074, 32, 1075, 1088, 1091, 1087,
      1087, 1099, 32, 1073, 1077, 1079, 32, 1087, 1088, 1080, 1075, 1083, 1072, 1096, 1077, 1085, 1080, 1103]),
     (''new_group'', units [1053, 1086, 1074, 1072, 1103, 32, 1075, 1088, 1091, 1087, 1087, 1072]),
     (''status_online'', units [1085, 1072, 32, 1089, 1074, 1103, 1079, 1080]),
     (''status_connecting'', units [1087, 1086, 1076, 1082, 1083, 1102, 1095, 1077, 1085, 1080, 1077, 8230]),
     (''status_offline'', units [1085, 1077, 1090, 32, 1089, 1074, 1103, 1079, 1080]),
     (''ui_scale'', units [1056, 1072, 1079, 1084, 1077, 1088, 32, 1090, 1077, 1082, 1089, 1090, 1072, 32, 1080,
      32, 1080, 1085, 1090, 1077, 1088, 1092, 1077, 1081, 1089, 1072]),
     (''ui_scale_preview'', units [1058, 1072, 1082, 32, 1073, 1091, 1076, 1091, 1090, 32, 1074, 1099, 1075,
      1083, 1103, 1076, 1077, 1090, 1100, 32, 1089, 1086, 1086, 1073, 1097, 1077, 1085, 1080, 1103]),
     (''ui_scale_sample'', units [1040]),
     (''my_bots'', units [1052, 1086, 1080, 32, 1073, 1086, 1090, 1099]),
     (''admin_panel'', units [1040, 1076, 1084, 1080, 1085, 45, 1087, 1072, 1085, 1077, 1083, 1100]),
     (''server'', units [1057, 1077, 1088, 1074, 1077, 1088])]"

definition ru_bots :: "(string \<times> string) list" where
  "ru_bots = [
     (''bots_intro'', units [1041, 1086, 1090, 32, 8212, 32, 1101, 1090, 1086, 32, 1072, 1082, 1082, 1072, 1091,
      1085, 1090, 44, 32, 1082, 1086, 1090, 1086, 1088, 1099, 1081, 32, 1086, 1073, 1097, 1072, 1077, 1090,
      1089, 1103, 32, 1089, 32, 1074, 1072, 1096, 1080, 1084, 32, 1074, 1077, 1073, 1093, 1091, 1082, 1086,
      1084, 46, 32, 1045, 1075, 1086, 32, 1082, 1083, 1102, 1095, 1080, 32, 1093, 1088, 1072, 1085, 1080, 1090,
      32, 1089, 1077, 1088, 1074, 1077, 1088, 44, 32, 1087, 1086, 1101, 1090, 1086, 1084, 1091, 32, 1074, 1089,
      1105, 44, 32, 1095, 1090, 1086, 32, 1086, 1090, 1087, 1088, 1072, 1074, 1083, 1077, 1085, 1086, 32, 1073,
      1086, 1090, 1091, 44, 32, 1089, 1077, 1088, 1074, 1077, 1088, 32, 1084, 1086, 1078, 1077, 1090, 32, 1087,
      1088, 1086, 1095, 1080, 1090, 1072, 1090, 1100, 46, 32, 1048, 1084, 1103, 32, 1076, 1086, 1083, 1078,
      1085, 1086, 32, 1079, 1072, 1082, 1072, 1085, 1095, 1080, 1074, 1072, 1090, 1100, 1089, 1103, 32, 1085,
      1072, 32, 171] @ ''bot'' @ units [187, 46]),
     (''bot_username'', units [1048, 1084, 1103, 32, 1073, 1086, 1090, 1072]),
     (''bot_display_name'', units [1054, 1090, 1086, 1073, 1088, 1072, 1078, 1072, 1077, 1084, 1086, 1077, 32,
      1080, 1084, 1103]),
     (''webhook_url'', ''URL'' @ units [32, 1074, 1077, 1073, 1093, 1091, 1082, 1072]),
     (''webhook_hint'', units [1053, 1077, 1086, 1073, 1103, 1079, 1072, 1090, 1077, 1083, 1100, 1085, 1086, 46,
      32, 1057, 1102, 1076, 1072, 32, 1073, 1091, 1076, 1091, 1090, 32, 1087, 1088, 1080, 1093, 1086, 1076,
      1080, 1090, 1100, 32] @ ''POST'' @ units [45, 1079, 1072, 1087, 1088, 1086, 1089, 1099, 32, 1089, 32] @
      ''JSON'' @ units [44, 32, 1087, 1086, 1076, 1087, 1080, 1089, 1072, 1085, 1085, 1099, 1077, 32, 1089,
      1077, 1082, 1088, 1077, 1090, 1086, 1084, 46, 32, 1041, 1077, 1079, 32, 1074, 1077, 1073, 1093, 1091,
      1082, 1072, 32, 1084, 1086, 1078, 1085, 1086, 32, 1086, 1087, 1088, 1072, 1096, 1080, 1074, 1072, 1090,
      1100, 32] @ ''GET /api/v1/bot/updates.''),
     (''webhook_none'', units [1085, 1077, 32, 1079, 1072, 1076, 1072, 1085, 32, 183, 32, 1086, 1087, 1088,
      1086, 1089, 32] @ ''GET /api/v1/bot/updates''),
     (''create_bot'', units [1057, 1086, 1079, 1076, 1072, 1090, 1100, 32, 1073, 1086, 1090, 1072]),
     (''bot_credentials'', units [1059, 1095, 1105, 1090, 1085, 1099, 1077, 32, 1076, 1072, 1085, 1085, 1099,
      1077, 32, 1073, 1086, 1090, 1072]),
     (''bot_credentials_hint'', units [1055, 1086, 1082, 1072, 1079, 1099, 1074, 1072, 1102, 1090, 1089, 1103,
      32, 1086, 1076, 1080, 1085, 32, 1088, 1072, 1079, 46, 32, 1057, 1086, 1093, 1088, 1072, 1085, 1080, 1090,
      1077, 32, 1080, 1093, 32, 1089, 1077, 1081, 1095, 1072, 1089, 46]),
     (''token'', units [1058, 1086, 1082, 1077, 1085]),
     (''webhook_secret'', units [1057, 1077, 1082, 1088, 1077, 1090, 32, 1074, 1077, 1073, 1093, 1091, 1082,
      1072]),
     (''rotate_credentials'', units [1055, 1077, 1088, 1077, 1074, 1099, 1087, 1091, 1089, 1090, 1080, 1090,
      1100]),
     (''delete_bot'', units [1059, 1076, 1072, 1083, 1080, 1090, 1100, 32, 1073, 1086, 1090, 1072]),
     (''chat_with_bot'', units [1054, 1090, 1082, 1088, 1099, 1090, 1100, 32, 1095, 1072, 1090]),
     (''no_bots'', units [1059, 32, 1074, 1072, 1089, 32, 1087, 1086, 1082, 1072, 32, 1085, 1077, 1090, 32,
      1073, 1086, 1090, 1086, 1074, 46]),
     (''bots_disabled'', units [1041, 1086, 1090, 1099, 32, 1086, 1090, 1082, 1083, 1102, 1095, 1077, 1085,
      1099, 32, 1085, 1072, 32, 1101, 1090, 1086, 1084, 32, 1089, 1077, 1088, 1074, 1077, 1088, 1077, 46]),
     (''bot_api_docs'', units [1044, 1086, 1082, 1091, 1084, 1077, 1085, 1090, 1072, 1094, 1080, 1103, 32] @
      ''Bot API''),
     (''confirm_delete_bot'', units [1059, 1076, 1072, 1083, 1080, 1090, 1100, 32, 1073, 1086, 1090, 1072, 32,
      64] @ ''{name}'' @ units [63, 32, 1054, 1085, 32, 1080, 1089, 1095, 1077, 1079, 1085, 1077, 1090, 32,
      1080, 1079, 32, 1074, 1089, 1077, 1093, 32, 1095, 1072, 1090, 1086, 1074, 46])]"

definition ru_admin :: "(string \<times> string) list" where
  "ru_admin = [
     (''tab_overview'', units [1054, 1073, 1079, 1086, 1088]),
     (''tab_users'', units [1055, 1086, 1083, 1100, 1079, 1086, 1074, 1072, 1090, 1077, 1083, 1080]),
     (''tab_invites'', units [1048, 1085, 1074, 1072, 1081, 1090, 1099]),
     (''tab_settings'', units [1053, 1072, 1089, 1090, 1088, 1086, 1081, 1082, 1080]),
     (''stat_users'', units [1055, 1086, 1083, 1100, 1079, 1086, 1074, 1072, 1090, 1077, 1083, 1080]),
     (''stat_bots'', units [1041, 1086, 1090, 1099]),
     (''stat_conversations'', units [1063, 1072, 1090, 1099]),
     (''stat_messages'', units [1057, 1086, 1086, 1073, 1097, 1077, 1085, 1080, 1103]),
     (''stat_attachments'', units [1042, 1083, 1086, 1078, 1077, 1085, 1080, 1103]),
     (''stat_online'', units [1059, 1089, 1090, 1088, 1086, 1081, 1089, 1090, 1074, 32, 1086, 1085, 1083, 1072,
      1081, 1085]),
     (''stat_db'', units [1041, 1072, 1079, 1072, 32, 1076, 1072, 1085, 1085, 1099, 1093]),
     (''stat_uptime'', units [1040, 1087, 1090, 1072, 1081, 1084]),
     (''stat_turn'', ''TURN''),
     (''stat_latest'', units [1055, 1086, 1089, 1083, 1077, 1076, 1085, 1080, 1081, 32, 1088, 1077, 1083, 1080,
      1079]),
     (''stat_of_devices'', units [1080, 1079, 32] @ ''{n}'' @ units [32, 1091, 1089, 1090, 1088, 1086, 1081,
      1089, 1090, 1074]),
     (''stat_since'', units [1089, 32] @ ''{date}''),
     (''up_to_date'', units [1072, 1082, 1090, 1091, 1072, 1083, 1100, 1085, 1086]),
     (''not_checked_yet'', units [1077, 1097, 1105, 32, 1085, 1077, 32, 1087, 1088, 1086, 1074, 1077, 1088,
      1103, 1083, 1086, 1089, 1100]),
     (''update_server_hint'', units [1044, 1086, 1089, 1090, 1091, 1087, 1077, 1085, 32, 1088, 1077, 1083, 1080,
      1079, 32] @ ''{version}'' @ units [58, 32, 1074, 1099, 1087, 1086, 1083, 1085, 1080, 1090, 1077, 32, 1085,
      1072, 32, 1089, 1077, 1088, 1074, 1077, 1088, 1077, 32, 96] @ ''family-messenger update` (Docker'' @ units
      [58, 32, 1087, 1077, 1088, 1077, 1079, 1072, 1087, 1091, 1089, 1090, 1080, 1090, 1077, 32, 1091, 1089,
      1090, 1072, 1085, 1086, 1074, 1097, 1080, 1082, 41, 46]),
     (''release_page'', units [1054, 1087, 1080, 1089, 1072, 1085, 1080, 1077, 32, 1088, 1077, 1083, 1080, 1079,
      1072]),
     (''update_available'', units [1044, 1086, 1089, 1090, 1091, 1087, 1085, 1072, 32, 1085, 1086, 1074, 1072,
      1103, 32, 1074, 1077, 1088, 1089, 1080, 1103, 32, 40] @ ''{version}'' @ '').''),
     (''reload_page'', units [1054, 1073, 1085, 1086, 1074, 1080, 1090, 1100, 32, 1089, 1090, 1088, 1072, 1085,
      1080, 1094, 1091]),
     (''configured'', units [1085, 1072, 1089, 1090, 1088, 1086, 1077, 1085]),
     (''not_configured'', units [1085, 1077, 32, 1085, 1072, 1089, 1090, 1088, 1086, 1077, 1085]),
     (''download_backup'', units [1057, 1082, 1072, 1095, 1072, 1090, 1100, 32, 1073, 1101, 1082, 1072, 1087]),
     (''backup_hint'', units [1055, 1086, 1083, 1085, 1099, 1081, 32, 1076, 1072, 1084, 1087, 32] @ ''SQLite'' @
      units [32, 1080, 32, 1074, 1083, 1086, 1078, 1077, 1085, 1080, 1081]),
     (''search_users'', units [1055, 1086, 1080, 1089, 1082, 32, 1087, 1086, 32, 1080, 1084, 1077, 1085, 1080]),
     (''col_user'', units [1055, 1086, 1083, 1100, 1079, 1086, 1074, 1072, 1090, 1077, 1083, 1100]),
     (''col_created'', units [1057, 1086, 1079, 1076, 1072, 1085]),
     (''col_last_seen'', units [1041, 1099, 1083, 40, 1072, 41]),
     (''col_devices'', units [1059, 1089, 1090, 1088, 1086, 1081, 1089, 1090, 1074]),
     (''col_actions'', units [1044, 1077, 1081, 1089, 1090, 1074, 1080, 1103]),
     (''flag_admin'', units [1072, 1076, 1084, 1080, 1085]),
     (''flag_disabled'', units [1086, 1090, 1082, 1083, 1102, 1095, 1105, 1085]),
     (''flag_bot'', units [1073, 1086, 1090]),
     (''flag_online'', units [1086, 1085, 1083, 1072, 1081, 1085]),
     (''owner_of'', units [1074, 1083, 1072, 1076, 1077, 1083, 1077, 1094, 58, 32] @ ''{owner}''),
     (''disable'', units [1054, 1090, 1082, 1083, 1102, 1095, 1080, 1090, 1100]),
     (''enable'', units [1042, 1082, 1083, 1102, 1095, 1080, 1090, 1100]),
     (''make_admin'', units [1057, 1076, 1077, 1083, 1072, 1090, 1100, 32, 1072, 1076, 1084, 1080, 1085, 1086,
      1084]),
     (''revoke_admin'', units [1057, 1085, 1103, 1090, 1100, 32, 1072, 1076, 1084, 1080, 1085, 1072]),
     (''sign_out_everywhere'', units [1042, 1099, 1081, 1090, 1080, 32, 1074, 1077, 1079, 1076, 1077]),
     (''confirm_delete_user'', units [1059, 1076, 1072, 1083, 1080, 1090, 1100, 32, 64] @ ''{user}'' @ units
      [63, 32, 1059, 1089, 1090, 1088, 1086, 1081, 1089, 1090, 1074, 1072, 44, 32, 1091, 1095, 1072, 1089, 1090,
      1080, 1077, 32, 1074, 32, 1095, 1072, 1090, 1072, 1093, 32, 1080, 32, 1073, 1086, 1090, 1099, 32, 1073,
      1091, 1076, 1091, 1090, 32, 1091, 1076, 1072, 1083, 1077, 1085, 1099, 46]),
     (''invite_count'', units [1050, 1086, 1083, 1080, 1095, 1077, 1089, 1090, 1074, 1086]),
     (''invite_note'', units [1047, 1072, 1084, 1077, 1090, 1082, 1072]),
     (''invite_expires_hours'', units [1057, 1088, 1086, 1082, 32, 1076, 1077, 1081, 1089, 1090, 1074, 1080,
      1103, 44, 32, 1095, 1072, 1089, 1086, 1074, 32, 40, 48, 32, 61, 32, 1073, 1077, 1089, 1089, 1088, 1086,
      1095, 1085, 1086, 41]),
     (''create_invites'', units [1057, 1086, 1079, 1076, 1072, 1090, 1100, 32, 1080, 1085, 1074, 1072, 1081,
      1090, 1099]),
     (''new_codes'', units [1053, 1086, 1074, 1099, 1077, 32, 1082, 1086, 1076, 1099]),
     (''show_qr_for_invites'', units [1055, 1086, 1082, 1072, 1079, 1099, 1074, 1072, 1090, 1100, 32] @ ''QR'' @
      units [45, 1082, 1086, 1076, 32, 1076, 1083, 1103, 32, 1082, 1072, 1078, 1076, 1086, 1075, 1086, 32, 1087,
      1088, 1080, 1075, 1083, 1072, 1096, 1077, 1085, 1080, 1103]),
     (''invite_share_title'', units [1055, 1088, 1080, 1075, 1083, 1072, 1089, 1080, 1090, 1100, 32, 1074, 32,
      1089, 1077, 1084, 1100, 1102]),
     (''invite_share_hint'', units [1055, 1086, 1082, 1072, 1078, 1080, 1090, 1077, 32, 1101, 1090, 1086, 1090,
      32, 1082, 1086, 1076, 32, 8212, 32, 1082, 1072, 1084, 1077, 1088, 1072, 32, 1090, 1077, 1083, 1077, 1092,
      1086, 1085, 1072, 32, 1086, 1090, 1082, 1088, 1086, 1077, 1090, 32, 1088, 1077, 1075, 1080, 1089, 1090,
      1088, 1072, 1094, 1080, 1102, 32, 1089, 32, 1091, 1078, 1077, 32, 1087, 1086, 1076, 1089, 1090, 1072,
      1074, 1083, 1077, 1085, 1085, 1099, 1084, 1080, 32, 1072, 1076, 1088, 1077, 1089, 1086, 1084, 32, 1089,
      1077, 1088, 1074, 1077, 1088, 1072, 32, 1080, 32, 1087, 1088, 1080, 1075, 1083, 1072, 1096, 1077, 1085,
      1080, 1077, 1084, 46]),
     (''invite_expires_at'', units [1076, 1077, 1081, 1089, 1090, 1074, 1091, 1077, 1090, 32, 1076, 1086, 32] @
      ''{date}''),
     (''copy_link'', units [1050, 1086, 1087, 1080, 1088, 1086, 1074, 1072, 1090, 1100, 32, 1089, 1089, 1099,
      1083, 1082, 1091]),
     (''share'', units [1055, 1086, 1076, 1077, 1083, 1080, 1090, 1100, 1089, 1103]),
     (''download_png'', units [1057, 1082, 1072, 1095, 1072, 1090, 1100, 32] @ ''PNG''),
     (''col_code'', units [1050, 1086, 1076]),
     (''col_used_by'', units [1048, 1089, 1087, 1086, 1083, 1100, 1079, 1086, 1074, 1072, 1085]),
     (''col_expires'', units [1048, 1089, 1090, 1077, 1082, 1072, 1077, 1090]),
     (''never'', units [1085, 1080, 1082, 1086, 1075, 1076, 1072]),
     (''unused'', units [1085, 1077, 32, 1080, 1089, 1087, 1086, 1083, 1100, 1079, 1086, 1074, 1072, 1085]),
     (''registration_mode'', units [1056, 1077, 1075, 1080, 1089, 1090, 1088, 1072, 1094, 1080, 1103]),
     (''reg_open'', units [1086, 1090, 1082, 1088, 1099, 1090, 1072, 1103]),
     (''reg_invite'', units [1087, 1086, 32, 1080, 1085, 1074, 1072, 1081, 1090, 1091]),
     (''reg_closed'', units [1079, 1072, 1082, 1088, 1099, 1090, 1072]),
     (''announcement'', units [1054, 1073, 1098, 1103, 1074, 1083, 1077, 1085, 1080, 1077, 32, 40, 1074, 1080,
      1076, 1085, 1086, 32, 1074, 1089, 1077, 1084, 41]),
     (''max_attachment_mb'', units [1052, 1072, 1082, 1089, 46, 32, 1088, 1072, 1079, 1084, 1077, 1088, 32,
      1074, 1083, 1086, 1078, 1077, 1085, 1080, 1103, 44, 32, 1052, 1041, 32, 40, 48, 32, 8212, 32, 1074, 1083,
      1086, 1078, 1077, 1085, 1080, 1103, 32, 1086, 1090, 1082, 1083, 1102, 1095, 1077, 1085, 1099, 41]),
     (''retention_days'', units [1061, 1088, 1072, 1085, 1080, 1090, 1100, 32, 1089, 1086, 1086, 1073, 1097,
      1077, 1085, 1080, 1103, 32, 1076, 1085, 1077, 1081, 32, 40, 48, 32, 8212, 32, 1073, 1077, 1089, 1089,
      1088, 1086, 1095, 1085, 1086, 41]),
     (''allow_bots'', units [1055, 1086, 1083, 1100, 1079, 1086, 1074, 1072, 1090, 1077, 1083, 1080, 32, 1084,
      1086, 1075, 1091, 1090, 32, 1089, 1086, 1079, 1076, 1072, 1074, 1072, 1090, 1100, 32, 1073, 1086, 1090,
      1086, 1074]),
     (''user_directory'', units [1055, 1086, 1082, 1072, 1079, 1099, 1074, 1072, 1090, 1100, 32, 1074, 1089,
      1077, 1084, 32, 1089, 1087, 1080, 1089, 1086, 1082, 32, 1087, 1086, 1083, 1100, 1079, 1086, 1074, 1072,
      1090, 1077, 1083, 1077, 1081, 32, 1080, 32, 1087, 1086, 1076, 1089, 1082, 1072, 1079, 1082, 1080, 32,
      1080, 1084, 1105, 1085]),
     (''more_users'', units [8230, 1080, 32, 1077, 1097, 1105, 32] @ ''{n}''),
     (''max_group_members'', units [1052, 1072, 1082, 1089, 46, 32, 1091, 1095, 1072, 1089, 1090, 1085, 1080,
      1082, 1086, 1074, 32, 1074, 32, 1075, 1088, 1091, 1087, 1087, 1077]),
     (''settings_saved'', units [1053, 1072, 1089, 1090, 1088, 1086, 1081, 1082, 1080, 32, 1089, 1086, 1093,
      1088, 1072, 1085, 1077, 1085, 1099])]"

definition ru :: dict where
  "ru = ru_common @ ru_login @ ru_sidebar @ ru_new_conversation @ ru_chat @ ru_member_panel @ ru_calls @ ru_settings @ ru_bots @ ru_admin"

end
