(* ===== verification/Primitives.thy ===== *)
theory Primitives
  imports Bytes
begin

text \<open>
  \<open>web/src/crypto/primitives.ts\<close>: thin wrappers over third-party libraries. The libraries
  (\<open>@noble/curves\<close>, \<open>@noble/ciphers\<close>, \<open>@noble/hashes\<close>, \<open>hash-wasm\<close>) are not part of the
  repository: the record \<open>crypto\<close> is the parameter that stands for them, and \<open>crypto_laws\<close>
  names the documented behaviour of these algorithms on which some theorems rely.
\<close>

section \<open>The libraries as a parameter\<close>

record crypto =
  lib_ed_pub :: "bytes \<Rightarrow> bytes"
  lib_ed_sign :: "bytes \<Rightarrow> bytes \<Rightarrow> bytes"
  lib_ed_verify :: "bytes \<Rightarrow> bytes \<Rightarrow> bytes \<Rightarrow> bool result"
  lib_x_pub :: "bytes \<Rightarrow> bytes"
  lib_x_shared :: "bytes \<Rightarrow> bytes \<Rightarrow> bytes result"
  lib_aead_enc :: "bytes \<Rightarrow> bytes \<Rightarrow> bytes \<Rightarrow> bytes \<Rightarrow> bytes"
  lib_aead_dec :: "bytes \<Rightarrow> bytes \<Rightarrow> bytes \<Rightarrow> bytes \<Rightarrow> bytes result"
  lib_hkdf :: "bytes \<Rightarrow> bytes \<Rightarrow> bytes \<Rightarrow> nat \<Rightarrow> bytes"
  lib_sha256 :: "bytes \<Rightarrow> bytes"
  lib_argon2id :: "bytes \<Rightarrow> bytes \<Rightarrow> int \<Rightarrow> int \<Rightarrow> int \<Rightarrow> nat \<Rightarrow> bytes result"

section \<open>The wrappers\<close>

definition NONCE_SIZE :: nat where "NONCE_SIZE = 24"
definition TAG_SIZE :: nat where "TAG_SIZE = 16"
definition KEY_SIZE :: nat where "KEY_SIZE = 32"

lemmas sizes [simp] = NONCE_SIZE_def TAG_SIZE_def KEY_SIZE_def

definition sha256 :: "crypto \<Rightarrow> bytes \<Rightarrow> bytes" where
  "sha256 C m = lib_sha256 C m"

definition ed25519_public :: "crypto \<Rightarrow> bytes \<Rightarrow> bytes" where
  "ed25519_public C seed = lib_ed_pub C seed"

definition sign :: "crypto \<Rightarrow> bytes \<Rightarrow> bytes \<Rightarrow> bytes" where
  "sign C seed message = lib_ed_sign C message seed"

definition verify :: "crypto \<Rightarrow> bytes \<Rightarrow> bytes \<Rightarrow> bytes \<Rightarrow> bool" where
  "verify C public_key message signature =
     (if length signature \<noteq> 64 \<or> length public_key \<noteq> 32 then False
      else (case lib_ed_verify C signature message public_key of Inl _ \<Rightarrow> False | Inr b \<Rightarrow> b))"

definition x25519_public :: "crypto \<Rightarrow> bytes \<Rightarrow> bytes" where
  "x25519_public C priv = lib_x_pub C priv"

fun or_all :: "bytes \<Rightarrow> byte \<Rightarrow> byte" where
  "or_all [] acc = acc"
| "or_all (b # bs) acc = or_all bs (acc OR b)"

definition x25519_shared :: "crypto \<Rightarrow> bytes \<Rightarrow> bytes \<Rightarrow> bytes result" where
  "x25519_shared C priv pub = try_bind (lib_x_shared C priv pub) (\<lambda>ss.
     if or_all ss 0 = 0 then Inl (JsError ''invalid public key (low order point)'') else Inr ss)"

definition aead_encrypt :: "crypto \<Rightarrow> bytes \<Rightarrow> bytes \<Rightarrow> bytes \<Rightarrow> bytes \<Rightarrow> bytes" where
  "aead_encrypt C key nonce aad plaintext = lib_aead_enc C key nonce aad plaintext"

definition aead_decrypt :: "crypto \<Rightarrow> bytes \<Rightarrow> bytes \<Rightarrow> bytes \<Rightarrow> bytes \<Rightarrow> bytes result" where
  "aead_decrypt C key nonce aad ciphertext = lib_aead_dec C key nonce aad ciphertext"

definition hkdf_sha256 :: "crypto \<Rightarrow> bytes \<Rightarrow> bytes \<Rightarrow> string \<Rightarrow> nat \<Rightarrow> bytes" where
  "hkdf_sha256 C ikm salt info len = lib_hkdf C ikm salt (utf8_encode info) len"

record kdf_params =
  kdf_t :: int
  kdf_m :: int
  kdf_p :: int

definition argon2id_hash :: "crypto \<Rightarrow> string \<Rightarrow> bytes \<Rightarrow> kdf_params \<Rightarrow> nat \<Rightarrow> bytes result" where
  "argon2id_hash C password salt params len =
     lib_argon2id C (utf8_encode password) salt (kdf_t params) (kdf_m params) (kdf_p params) len"

section \<open>What the libraries guarantee\<close>

text \<open>
  Sizes of the outputs; an AEAD opens what it sealed and accepts no other ciphertext than the
  one it would have produced (XChaCha20-Poly1305 is deterministic given key, nonce and
  associated data); both parties of a key agreement with 32-byte private keys compute the same
  non-zero secret; a signature made with a 32-byte seed verifies under its public key.
\<close>

definition size_laws :: "crypto \<Rightarrow> bool" where
  "size_laws C \<longleftrightarrow> (\<forall>seed. length (lib_ed_pub C seed) = 32)
     \<and> (\<forall>m seed. length (lib_ed_sign C m seed) = 64)
     \<and> (\<forall>priv. length (lib_x_pub C priv) = 32)
     \<and> (\<forall>k n a p. length (lib_aead_enc C k n a p) = length p + 16)
     \<and> (\<forall>k s i l. length (lib_hkdf C k s i l) = l)
     \<and> (\<forall>m. length (lib_sha256 C m) = 32)"

definition signature_law :: "crypto \<Rightarrow> bool" where
  "signature_law C \<longleftrightarrow> (\<forall>m seed. length seed = 32 \<longrightarrow>
     lib_ed_verify C (lib_ed_sign C m seed) m (lib_ed_pub C seed) = Inr True)"

definition agreement_law :: "crypto \<Rightarrow> bool" where
  "agreement_law C \<longleftrightarrow> (\<forall>a b. length a = 32 \<longrightarrow> length b = 32 \<longrightarrow>
     (\<exists>ss. lib_x_shared C a (lib_x_pub C b) = Inr ss \<and> lib_x_shared C b (lib_x_pub C a) = Inr ss
        \<and> (\<exists>x \<in> set ss. x \<noteq> 0)))"

definition aead_law :: "crypto \<Rightarrow> bool" where
  "aead_law C \<longleftrightarrow> (\<forall>k n a p c. length k = 32 \<longrightarrow> length n = 24 \<longrightarrow>
     (lib_aead_dec C k n a c = Inr p \<longleftrightarrow> c = lib_aead_enc C k n a p))"

definition crypto_laws :: "crypto \<Rightarrow> bool" where
  "crypto_laws C \<longleftrightarrow> size_laws C \<and> signature_law C \<and> agreement_law C \<and> aead_law C"

lemma or_all_zero: "or_all bs acc = 0 \<longleftrightarrow> acc = 0 \<and> (\<forall>b \<in> set bs. b = 0)"
  by (induction bs arbitrary: acc) (auto simp: or_eq_0_iff)

lemma crypto_lengths:
  assumes "crypto_laws C"
  shows "length (ed25519_public C seed) = 32" and "length (sign C seed m) = 64"
    and "length (x25519_public C priv) = 32"
    and "length (aead_encrypt C k n a p) = length p + 16"
    and "length (hkdf_sha256 C ikm salt info l) = l"
    and "length (sha256 C m) = 32"
  using assms
  by (simp_all add: crypto_laws_def size_laws_def ed25519_public_def sign_def x25519_public_def
      aead_encrypt_def hkdf_sha256_def sha256_def)

lemma verify_sign:
  assumes "crypto_laws C" and "length seed = 32"
  shows "verify C (ed25519_public C seed) m (sign C seed m)"
proof -
  have "lib_ed_verify C (lib_ed_sign C m seed) m (lib_ed_pub C seed) = Inr True"
    using assms by (simp add: crypto_laws_def signature_law_def)
  then show ?thesis
    using crypto_lengths [OF assms(1)] by (simp add: verify_def sign_def ed25519_public_def)
qed

lemma aead_decrypt_iff:
  "crypto_laws C \<Longrightarrow> length k = 32 \<Longrightarrow> length n = 24 \<Longrightarrow>
     aead_decrypt C k n a c = Inr p \<longleftrightarrow> c = aead_encrypt C k n a p"
  by (simp add: crypto_laws_def aead_law_def aead_decrypt_def aead_encrypt_def)

lemma x25519_shared_agree:
  assumes "crypto_laws C" and "length a = 32" and "length b = 32"
  obtains ss where "x25519_shared C a (x25519_public C b) = Inr ss"
    and "x25519_shared C b (x25519_public C a) = Inr ss"
proof -
  from assms obtain ss where "lib_x_shared C a (lib_x_pub C b) = Inr ss"
    "lib_x_shared C b (lib_x_pub C a) = Inr ss" "\<exists>x \<in> set ss. x \<noteq> 0"
    unfolding crypto_laws_def agreement_law_def by blast
  then show ?thesis
    using that by (simp add: x25519_shared_def x25519_public_def or_all_zero)
qed

text \<open>A shared secret that is all zeros never leaves the wrapper.\<close>

lemma x25519_shared_nonzero: "x25519_shared C a b = Inr ss \<Longrightarrow> \<exists>x \<in> set ss. x \<noteq> 0"
  by (auto simp: x25519_shared_def or_all_zero split: if_splits)

text \<open>
  The contract of everything the client stores encrypted: opening with the right key and nonce
  returns exactly what was wrapped, and nothing else opens.
\<close>

locale aead_container =
  fixes wrap :: "crypto \<Rightarrow> bytes \<Rightarrow> bytes \<Rightarrow> 'a \<Rightarrow> bytes"
    and unwrap :: "crypto \<Rightarrow> bytes \<Rightarrow> bytes \<Rightarrow> bytes \<Rightarrow> 'a result"
  assumes unwrap_iff: "crypto_laws C \<Longrightarrow> length k = 32 \<Longrightarrow> length n = 24 \<Longrightarrow>
    unwrap C k n c = Inr p \<longleftrightarrow> c = wrap C k n p"
begin

lemma unwrap_wrap: "crypto_laws C \<Longrightarrow> length k = 32 \<Longrightarrow> length n = 24 \<Longrightarrow> unwrap C k n (wrap C k n p) = Inr p"
  by (simp add: unwrap_iff)

lemma wrap_inject:
  "crypto_laws C \<Longrightarrow> length k = 32 \<Longrightarrow> length n = 24 \<Longrightarrow> wrap C k n p = wrap C k n q \<longleftrightarrow> p = q"
  by (metis unwrap_wrap sum.inject(2))

lemma unwrap_tampered:
  "crypto_laws C \<Longrightarrow> length k = 32 \<Longrightarrow> length n = 24 \<Longrightarrow> c \<notin> range (wrap C k n) \<Longrightarrow> \<not> ok (unwrap C k n c)"
  by (cases "unwrap C k n c") (auto simp: unwrap_iff)

end

section \<open>A concrete instance of the parameter\<close>

text \<open>
  The laws can hold: these functions satisfy them. They have no cryptographic strength and only
  serve the closed examples of the development.
\<close>

definition fit :: "nat \<Rightarrow> bytes \<Rightarrow> bytes" where
  "fit n b = take n (b @ replicate n 0)"

definition demo_crypto :: crypto where
  "demo_crypto = \<lparr>
     lib_ed_pub = fit 32,
     lib_ed_sign = (\<lambda>m seed. fit 32 seed @ fit 32 m),
     lib_ed_verify = (\<lambda>sig m pub. Inr (sig = pub @ fit 32 m)),
     lib_x_pub = fit 32,
     lib_x_shared = (\<lambda>a b. Inr (map2 (\<lambda>x y. (x XOR y) OR 1) (fit 32 a) (fit 32 b))),
     lib_aead_enc = (\<lambda>k n a p. p @ fit 16 k),
     lib_aead_dec = (\<lambda>k n a c. if 16 \<le> length c \<and> drop (length c - 16) c = fit 16 k
        then Inr (take (length c - 16) c) else Inl (JsError ''invalid tag'')),
     lib_hkdf = (\<lambda>ikm salt info l. fit l ikm),
     lib_sha256 = fit 32,
     lib_argon2id = (\<lambda>pw salt t m p l. Inr (fit l (pw @ salt)))\<rparr>"

lemma length_fit [simp]: "length (fit n b) = n"
  by (simp add: fit_def)

lemma fit_idem [simp]: "length b = n \<Longrightarrow> fit n b = b"
  by (simp add: fit_def)

lemma map2_xor_or_commute:
  "map2 (\<lambda>x y. (x XOR y) OR (1 :: byte)) xs ys = map2 (\<lambda>x y. (x XOR y) OR 1) ys xs"
proof (induction xs arbitrary: ys)
  case Nil
  then show ?case by simp
next
  case (Cons x xs)
  then show ?case by (cases ys) (simp_all add: xor.commute)
qed

lemma demo_crypto_laws: "crypto_laws demo_crypto"
proof -
  have nz: "\<exists>v \<in> set (map2 (\<lambda>x y. (x XOR y) OR (1 :: byte)) xs ys). v \<noteq> 0"
    if "length xs = 32" "length ys = 32" for xs ys
  proof -
    from that obtain x xs' y ys' where "xs = x # xs'" "ys = y # ys'"
      by (cases xs; cases ys) auto
    then show ?thesis by (simp add: or_eq_0_iff)
  qed
  have "lib_aead_dec demo_crypto k n a c = Inr p \<longleftrightarrow> c = lib_aead_enc demo_crypto k n a p" for k n a c p
  proof
    assume "lib_aead_dec demo_crypto k n a c = Inr p"
    then show "c = lib_aead_enc demo_crypto k n a p"
      by (auto simp: demo_crypto_def split: if_splits) (metis append_take_drop_id)
  qed (simp add: demo_crypto_def)
  moreover have "\<exists>ss. lib_x_shared demo_crypto a (lib_x_pub demo_crypto b) = Inr ss
      \<and> lib_x_shared demo_crypto b (lib_x_pub demo_crypto a) = Inr ss \<and> (\<exists>x \<in> set ss. x \<noteq> 0)"
    if "length a = 32" "length b = 32" for a b
  proof (intro exI conjI)
    show "lib_x_shared demo_crypto a (lib_x_pub demo_crypto b) = Inr (map2 (\<lambda>x y. (x XOR y) OR 1) a b)"
      and "lib_x_shared demo_crypto b (lib_x_pub demo_crypto a) = Inr (map2 (\<lambda>x y. (x XOR y) OR 1) a b)"
      using that map2_xor_or_commute [of b a] by (simp_all add: demo_crypto_def)
    show "\<exists>x \<in> set (map2 (\<lambda>x y. (x XOR y) OR (1 :: byte)) a b). x \<noteq> 0" using that by (rule nz)
  qed
  ultimately show ?thesis
    unfolding crypto_laws_def size_laws_def signature_law_def agreement_law_def aead_law_def
    by (intro conjI allI impI) (simp_all add: demo_crypto_def)
qed

end
