(* ===== verification/Seal.thy ===== *)
theory Seal
  imports Primitives
begin

text \<open>
  \<open>web/src/crypto/seal.ts\<close>: a 32-byte message key encrypted to one account under a key agreed
  between a fresh ephemeral key pair and the recipient's encryption key.
\<close>

definition SEALED_KEY_SIZE :: nat where
  "SEALED_KEY_SIZE = 32 + KEY_SIZE + TAG_SIZE"

lemma SEALED_KEY_SIZE_eq [simp]: "SEALED_KEY_SIZE = 80"
  by (simp add: SEALED_KEY_SIZE_def)

definition ZERO_NONCE :: bytes where
  "ZERO_NONCE = replicate NONCE_SIZE 0"

definition seal_key :: "crypto \<Rightarrow> bytes \<Rightarrow> bytes \<Rightarrow> bytes \<Rightarrow> bytes" where
  "seal_key C ss eph_pub recipient_enc_pub =
     hkdf_sha256 C ss (concat_bytes [eph_pub, recipient_enc_pub]) ''msgr-seal-v1'' KEY_SIZE"

definition seal_with :: "crypto \<Rightarrow> bytes \<Rightarrow> bytes \<Rightarrow> bytes \<Rightarrow> bytes \<Rightarrow> bytes \<Rightarrow> bytes result" where
  "seal_with C eph_priv recipient_enc_pub conv_id recipient_account key =
     (let eph_pub = x25519_public C eph_priv in
      try_bind (x25519_shared C eph_priv recipient_enc_pub) (\<lambda>ss.
        let k = seal_key C ss eph_pub recipient_enc_pub in
        Inr (concat_bytes [eph_pub, aead_encrypt C k ZERO_NONCE (concat_bytes [conv_id, recipient_account]) key])))"

text \<open>\<open>seal\<close> draws the ephemeral key from the generator: it is an argument here.\<close>

definition seal :: "crypto \<Rightarrow> bytes \<Rightarrow> bytes \<Rightarrow> bytes \<Rightarrow> bytes \<Rightarrow> bytes \<Rightarrow> bytes result" where
  "seal C random32 recipient_enc_pub conv_id recipient_account key =
     seal_with C random32 recipient_enc_pub conv_id recipient_account key"

definition open_box :: "crypto \<Rightarrow> bytes \<Rightarrow> bytes \<Rightarrow> bytes \<Rightarrow> bytes \<Rightarrow> bytes result" where
  "open_box C enc_priv conv_id recipient_account box =
     (if length box \<noteq> SEALED_KEY_SIZE then Inl (JsError ''malformed sealed key'')
      else let eph_pub = take 32 box in
        try_bind (x25519_shared C enc_priv eph_pub) (\<lambda>ss.
          let k = seal_key C ss eph_pub (x25519_public C enc_priv) in
          aead_decrypt C k ZERO_NONCE (concat_bytes [conv_id, recipient_account]) (drop 32 box)))"

lemma length_ZERO_NONCE [simp]: "length ZERO_NONCE = 24"
  by (simp add: ZERO_NONCE_def)

lemma length_seal_key: "crypto_laws C \<Longrightarrow> length (seal_key C ss e r) = 32"
  by (simp add: seal_key_def crypto_lengths)

lemma length_seal_with:
  "crypto_laws C \<Longrightarrow> seal_with C e r c a key = Inr box \<Longrightarrow> length box = 48 + length key"
  by (auto simp: seal_with_def Let_def concat_bytes_eq crypto_lengths)

text \<open>Sealing to an account never fails, and its holder opens exactly the key that was sealed.\<close>

lemma seal_with_ok:
  assumes "crypto_laws C" and "length eph = 32" and "length priv = 32"
  obtains box where "seal_with C eph (x25519_public C priv) conv acct key = Inr box"
proof -
  from assms obtain ss where "x25519_shared C eph (x25519_public C priv) = Inr ss"
    by (rule x25519_shared_agree)
  with that show ?thesis by (simp add: seal_with_def Let_def)
qed

lemma open_box_seal_with:
  assumes laws: "crypto_laws C" and "length eph = 32" and "length priv = 32" and "length key = 32"
    and sealed: "seal_with C eph (x25519_public C priv) conv acct key = Inr box"
  shows "open_box C priv conv acct box = Inr key"
proof -
  obtain ss where ss: "x25519_shared C eph (x25519_public C priv) = Inr ss"
    "x25519_shared C priv (x25519_public C eph) = Inr ss"
    using laws assms(2,3) by (rule x25519_shared_agree)
  have "length box = 80" using length_seal_with [OF laws sealed] assms(4) by simp
  then show ?thesis
    using sealed ss laws
    by (auto simp: seal_with_def open_box_def Let_def concat_bytes_eq crypto_lengths
        aead_decrypt_iff length_seal_key)
qed

text \<open>
  The converse: whatever opens is the sealing of the result, under the same conversation and
  account. A box sealed for another conversation or another account is not accepted unless it is,
  byte for byte, the box of this one.
\<close>

lemma open_box_Inr:
  assumes laws: "crypto_laws C" and opened: "open_box C priv conv acct box = Inr key"
  obtains ss where "x25519_shared C priv (take 32 box) = Inr ss"
    and "box = take 32 box @ aead_encrypt C (seal_key C ss (take 32 box) (x25519_public C priv))
           ZERO_NONCE (conv @ acct) key"
    and "length key = 32"
proof -
  from opened obtain ss where len: "length box = 80" and ss: "x25519_shared C priv (take 32 box) = Inr ss"
    and dec: "aead_decrypt C (seal_key C ss (take 32 box) (x25519_public C priv)) ZERO_NONCE (conv @ acct)
        (drop 32 box) = Inr key"
    by (auto simp: open_box_def Let_def concat_bytes_eq split: if_splits)
  then have eq: "drop 32 box = aead_encrypt C (seal_key C ss (take 32 box) (x25519_public C priv))
      ZERO_NONCE (conv @ acct) key"
    using laws by (simp add: aead_decrypt_iff length_seal_key)
  then have "length (drop 32 box) = length key + 16" using laws by (simp add: crypto_lengths)
  then have "length key = 32" using len by simp
  moreover have "box = take 32 box @ drop 32 box" by simp
  ultimately show ?thesis using that ss eq by metis
qed

end
