(* ===== verification/Envelope.thy ===== *)
theory Envelope
  imports Seal Ids
begin

text \<open>
  \<open>web/src/crypto/envelope.ts\<close>: the binary envelope of every message. A fresh key encrypts the
  plaintext and is sealed to each recipient; the whole envelope is signed.
\<close>

section \<open>Constants and records\<close>

definition VERSION :: nat where "VERSION = 1"
definition FLAG_EPHEMERAL :: int where "FLAG_EPHEMERAL = 1"
definition FLAG_URGENT :: int where "FLAG_URGENT = 2"
definition MAX_RECIPIENTS :: nat where "MAX_RECIPIENTS = 100"
definition MAX_ENVELOPE_SIZE :: nat where "MAX_ENVELOPE_SIZE = 64 * 1024"
definition FIXED_HEADER :: nat where "FIXED_HEADER = 1 + 1 + 4 * 16 + 8 + 2"
definition RECIPIENT_ENTRY :: nat where "RECIPIENT_ENTRY = 16 + SEALED_KEY_SIZE"
definition MIN_ENVELOPE :: nat where
  "MIN_ENVELOPE = FIXED_HEADER + RECIPIENT_ENTRY + NONCE_SIZE + 4 + TAG_SIZE"

lemma envelope_sizes [simp]:
  "VERSION = 1" "MAX_RECIPIENTS = 100" "MAX_ENVELOPE_SIZE = 65536" "FIXED_HEADER = 76"
  "RECIPIENT_ENTRY = 96" "MIN_ENVELOPE = 216"
  by (simp_all add: VERSION_def MAX_RECIPIENTS_def MAX_ENVELOPE_SIZE_def FIXED_HEADER_def
      RECIPIENT_ENTRY_def MIN_ENVELOPE_def)

definition SIG_PREFIX :: bytes where
  "SIG_PREFIX = utf8_encode ''msgr-env-v1''"

record header =
  h_flags :: int
  h_conv :: string
  h_sender :: string
  h_device :: string
  h_msg_id :: string
  h_ts :: int

record recipient =
  rc_account :: string
  rc_enc_pub :: bytes

record sealed_recipient =
  sr_account :: string
  sr_key :: bytes

record parsed_envelope = header +
  pe_recipients :: "sealed_recipient list"
  pe_nonce :: bytes
  pe_ciphertext :: bytes
  pe_raw :: bytes
  pe_aad_len :: nat

record randomness =
  r_key :: bytes
  r_nonce :: bytes
  r_ephemeral :: "bytes list"

section \<open>Writing\<close>

text \<open>Big-endian integers of a \<open>DataView\<close>: \<open>setUint16\<close>, \<open>setUint32\<close> and \<open>setBigUint64\<close> wrap.\<close>

fun be_bytes :: "nat \<Rightarrow> nat \<Rightarrow> bytes" where
  "be_bytes 0 v = []"
| "be_bytes (Suc n) v = be_bytes n (v div 256) @ [word_of_nat v]"

fun be_value :: "nat \<Rightarrow> bytes \<Rightarrow> nat" where
  "be_value acc [] = acc"
| "be_value acc (b # bs) = be_value (acc * 256 + unat b) bs"

text \<open>
  One put_field at the running offset: \<open>buf.set\<close> throws a \<open>RangeError\<close> past the end of the buffer;
  the offset then advances by the field's declared width.
\<close>

definition put_field :: "nat \<Rightarrow> bytes \<Rightarrow> bytes \<times> nat \<Rightarrow> (bytes \<times> nat) result" where
  "put_field w p st = (if length (fst st) < snd st + length p then Inl (JsError ''offset is out of bounds'')
     else Inr (set_at (fst st) (snd st) p, snd st + w))"

definition write_uuid :: "string \<Rightarrow> bytes \<times> nat \<Rightarrow> (bytes \<times> nat) result" where
  "write_uuid ident st = try_bind (uuid_to_bytes ident) (\<lambda>b. put_field 16 b st)"

fun write_recipients ::
  "crypto \<Rightarrow> bytes \<Rightarrow> bytes \<Rightarrow> bytes list \<Rightarrow> recipient list \<Rightarrow> bytes \<times> nat \<Rightarrow> (bytes \<times> nat) result" where
  "write_recipients C conv key ephs [] st = Inr st"
| "write_recipients C conv key ephs (rc # rcs) st =
     try_bind (uuid_to_bytes (rc_account rc)) (\<lambda>account.
     try_bind (put_field 16 account st) (\<lambda>st1.
     try_bind (seal_with C (hd ephs) (rc_enc_pub rc) conv account key) (\<lambda>sealed.
     try_bind (put_field SEALED_KEY_SIZE sealed st1) (\<lambda>st2.
     write_recipients C conv key (tl ephs) rcs st2))))"

text \<open>The second half of the writes: from the timestamp to the signature over the filled buffer.\<close>

definition write_rest ::
  "crypto \<Rightarrow> bytes \<Rightarrow> header \<Rightarrow> recipient list \<Rightarrow> bytes \<Rightarrow> randomness \<Rightarrow> bytes \<Rightarrow> bytes \<times> nat \<Rightarrow> (bytes \<times> bytes) result" where
  "write_rest C seed hdr recipients plaintext r conv st0 =
     try_bind (put_field 8 (be_bytes 8 (nat (max 0 (h_ts hdr)))) st0) (\<lambda>st.
     try_bind (put_field 2 (be_bytes 2 (length recipients)) st) (\<lambda>st.
     try_bind (write_recipients C conv (r_key r) (r_ephemeral r) recipients st) (\<lambda>st.
     try_bind (put_field NONCE_SIZE (r_nonce r) st) (\<lambda>st.
     let aad = take (snd st) (fst st) in
     try_bind (put_field 4 (be_bytes 4 (length plaintext + TAG_SIZE)) st) (\<lambda>st.
     try_bind (put_field 0 (aead_encrypt C (r_key r) (r_nonce r) aad plaintext) st) (\<lambda>st.
     Inr (fst st, sign C seed (concat_bytes [SIG_PREFIX, fst st]))))))))"

definition encrypt_with ::
  "crypto \<Rightarrow> bytes \<Rightarrow> header \<Rightarrow> recipient list \<Rightarrow> bytes \<Rightarrow> randomness \<Rightarrow> (bytes \<times> bytes) result" where
  "encrypt_with C seed hdr recipients plaintext r =
     (let n = length recipients;
          total = FIXED_HEADER + n * RECIPIENT_ENTRY + NONCE_SIZE + 4 + length plaintext + TAG_SIZE in
      if n < 1 \<or> MAX_RECIPIENTS < n then Inl (JsError ''invalid recipient count'')
      else if length (r_ephemeral r) \<noteq> n then Inl (JsError ''ephemeral key count mismatch'')
      else if MAX_ENVELOPE_SIZE < total then Inl (JsError ''envelope too large'')
      else
        try_bind (put_field 1 [word_of_nat VERSION] (replicate total 0, 0)) (\<lambda>st.
        try_bind (put_field 1 [word_of_int (h_flags hdr)] st) (\<lambda>st.
        try_bind (uuid_to_bytes (h_conv hdr)) (\<lambda>conv.
        try_bind (put_field 16 conv st) (\<lambda>st.
        try_bind (write_uuid (h_sender hdr) st) (\<lambda>st.
        try_bind (write_uuid (h_device hdr) st) (\<lambda>st.
        try_bind (write_uuid (h_msg_id hdr) st) (\<lambda>st.
        write_rest C seed hdr recipients plaintext r conv st))))))))"

text \<open>
  \<open>encrypt\<close> draws the key, the nonce and one ephemeral key per recipient from the generator; the
  draws are arguments.
\<close>

definition encrypt ::
  "crypto \<Rightarrow> bytes \<Rightarrow> bytes \<Rightarrow> (nat \<Rightarrow> bytes) \<Rightarrow> bytes \<Rightarrow> header \<Rightarrow> recipient list \<Rightarrow> bytes \<Rightarrow> (bytes \<times> bytes) result" where
  "encrypt C random_key random_nonce random_eph seed hdr recipients plaintext =
     encrypt_with C seed hdr recipients plaintext
       \<lparr>r_key = random_key, r_nonce = random_nonce, r_ephemeral = map random_eph [0..<length recipients]\<rparr>"

definition verify_envelope :: "crypto \<Rightarrow> bytes \<Rightarrow> bytes \<Rightarrow> bytes \<Rightarrow> bool" where
  "verify_envelope C sender_sign_pub env sig = verify C sender_sign_pub (concat_bytes [SIG_PREFIX, env]) sig"

section \<open>Reading\<close>

text \<open>
  \<open>Number(bigint)\<close>: integers up to \<open>2 ^ 53\<close> are exact, larger ones are rounded to 53 significant
  bits, ties to even.
\<close>

definition round_bits :: "nat \<Rightarrow> nat \<Rightarrow> nat" where
  "round_bits k n = (let q = n div 2 ^ k; r = n mod 2 ^ k; h = 2 ^ (k - 1) in
     if h < r \<or> (r = h \<and> odd q) then (q + 1) * 2 ^ k else q * 2 ^ k)"

definition number_of_bigint :: "nat \<Rightarrow> int" where
  "number_of_bigint n = int (if n < 2 ^ 53 then n
     else round_bits (length (takeWhile (\<lambda>k. 2 ^ (53 + k) \<le> n) [0..<11])) n)"

fun parse_recipients :: "nat \<Rightarrow> bytes \<Rightarrow> nat \<Rightarrow> (sealed_recipient list \<times> nat) result" where
  "parse_recipients 0 env off = Inr ([], off)"
| "parse_recipients (Suc n) env off =
     try_bind (bytes_to_uuid (subarray off (off + 16) env)) (\<lambda>account.
     try_bind (parse_recipients n env (off + RECIPIENT_ENTRY)) (\<lambda>(rs, off').
     Inr (\<lparr>sr_account = account, sr_key = subarray (off + 16) (off + RECIPIENT_ENTRY) env\<rparr> # rs, off')))"

definition parse :: "bytes \<Rightarrow> parsed_envelope result" where
  "parse env =
     (if MAX_ENVELOPE_SIZE < length env then Inl (JsError ''envelope too large'')
      else if length env < MIN_ENVELOPE then Inl (JsError ''malformed envelope'')
      else if unat (env ! 0) \<noteq> VERSION then Inl (JsError ''unsupported envelope version'')
      else let n = be_value 0 (subarray 74 76 env) in
        if n < 1 \<or> MAX_RECIPIENTS < n then Inl (JsError ''invalid recipient count'')
        else if length env < FIXED_HEADER + n * RECIPIENT_ENTRY + NONCE_SIZE + 4 + TAG_SIZE
        then Inl (JsError ''malformed envelope'')
        else try_bind (parse_recipients n env FIXED_HEADER) (\<lambda>(recipients, off0).
          let nonce = subarray off0 (off0 + NONCE_SIZE) env;
              off1 = off0 + NONCE_SIZE;
              ct_len = be_value 0 (subarray off1 (off1 + 4) env);
              off2 = off1 + 4 in
          if ct_len < TAG_SIZE \<or> length env - off2 \<noteq> ct_len then Inl (JsError ''malformed envelope'')
          else
            try_bind (bytes_to_uuid (subarray 2 18 env)) (\<lambda>conv.
            try_bind (bytes_to_uuid (subarray 18 34 env)) (\<lambda>sender.
            try_bind (bytes_to_uuid (subarray 34 50 env)) (\<lambda>device.
            try_bind (bytes_to_uuid (subarray 50 66 env)) (\<lambda>msg_id.
            Inr \<lparr>h_flags = uint (env ! 1), h_conv = conv, h_sender = sender, h_device = device,
                 h_msg_id = msg_id, h_ts = number_of_bigint (be_value 0 (subarray 66 74 env)),
                 pe_recipients = recipients, pe_nonce = nonce, pe_ciphertext = drop off2 env,
                 pe_raw = env, pe_aad_len = off1\<rparr>))))))"

definition is_recipient :: "parsed_envelope \<Rightarrow> string \<Rightarrow> bool" where
  "is_recipient e account = list_ex (\<lambda>r. sr_account r = account) (pe_recipients e)"

definition decrypt :: "crypto \<Rightarrow> parsed_envelope \<Rightarrow> string \<Rightarrow> bytes \<Rightarrow> bytes result" where
  "decrypt C e account priv =
     (case List.find (\<lambda>r. sr_account r = account) (pe_recipients e) of
        None \<Rightarrow> Inl (JsError ''not a recipient of this envelope'')
      | Some rc \<Rightarrow>
          try_bind (uuid_to_bytes (h_conv e)) (\<lambda>conv.
          try_bind (uuid_to_bytes account) (\<lambda>acct.
          try_bind (open_box C priv conv acct (sr_key rc)) (\<lambda>key.
          aead_decrypt C key (pe_nonce e) (take (pe_aad_len e) (pe_raw e)) (pe_ciphertext e)))))"

section \<open>Big-endian fields\<close>

lemma be_value_append: "be_value acc (bs @ cs) = be_value (be_value acc bs) cs"
  by (induction bs arbitrary: acc) simp_all

lemma length_be_bytes [simp]: "length (be_bytes n v) = n"
  by (induction n arbitrary: v) simp_all

lemma be_value_be_bytes: "be_value 0 (be_bytes n v) = v mod 256 ^ n"
proof (induction n arbitrary: v)
  case 0
  then show ?case by simp
next
  case (Suc n)
  have "v mod 256 ^ Suc n = v div 256 mod 256 ^ n * 256 + v mod 256"
    using mod_mult2_eq [of v 256 "256 ^ n"] by simp
  with Suc show ?case by (simp add: be_value_append unat_of_nat)
qed

lemma be_value_less: "be_value acc bs < (acc + 1) * 256 ^ length bs"
proof (induction bs arbitrary: acc)
  case Nil
  then show ?case by simp
next
  case (Cons b bs)
  have "acc * 256 + unat b + 1 \<le> (acc + 1) * 256" using unat_byte_lt [of b] by (simp add: Suc_le_eq)
  then have le: "(acc * 256 + unat b + 1) * 256 ^ length bs \<le> (acc + 1) * 256 * 256 ^ length bs"
    by (rule mult_le_mono1)
  have "be_value acc (b # bs) < (acc * 256 + unat b + 1) * 256 ^ length bs"
    using Cons [of "acc * 256 + unat b"] by simp
  also note le
  finally show ?case by (simp add: mult.assoc distrib_right)
qed

lemma be_bytes_be_value_gen:
  "be_bytes (n + length bs) (be_value acc bs) = be_bytes n acc @ bs"
proof (induction bs arbitrary: acc n)
  case Nil
  then show ?case by simp
next
  case (Cons b bs)
  have "(acc * 256 + unat b) div 256 = acc" using unat_byte_lt [of b] by simp
  moreover have "(word_of_nat (acc * 256 + unat b) :: byte) = b"
  proof -
    have "(256 :: byte) = 0" by simp
    then show ?thesis by (simp only: of_nat_add of_nat_mult of_nat_numeral) simp
  qed
  ultimately show ?case using Cons [of "Suc n" "acc * 256 + unat b"] by simp
qed

lemma be_bytes_be_value: "length bs = n \<Longrightarrow> be_bytes n (be_value 0 bs) = bs"
  using be_bytes_be_value_gen [of 0 bs 0] by simp

text \<open>A big-endian field is a fixed-width codec on the values that fit.\<close>

definition be2_read :: "bytes \<Rightarrow> nat result" where
  "be2_read bs = Inr (be_value 0 bs)"

interpretation be16: fixed_codec "be_bytes 2" be2_read "\<lambda>v. v < 65536" 2
  by unfold_locales (simp_all add: be2_read_def be_value_be_bytes)

section \<open>Layout\<close>

text \<open>The bytes of the protocol's table, field after field.\<close>

definition header_bytes :: "int \<Rightarrow> bytes \<Rightarrow> bytes \<Rightarrow> bytes \<Rightarrow> bytes \<Rightarrow> int \<Rightarrow> nat \<Rightarrow> bytes" where
  "header_bytes flags conv sender device msg_id ts n =
     [1, word_of_int flags] @ conv @ sender @ device @ msg_id @ be_bytes 8 (nat (max 0 ts)) @ be_bytes 2 n"

definition entries_bytes :: "(bytes \<times> bytes) list \<Rightarrow> bytes" where
  "entries_bytes es = concat (map (\<lambda>(a, s). a @ s) es)"

definition layout :: "bytes \<Rightarrow> (bytes \<times> bytes) list \<Rightarrow> bytes \<Rightarrow> bytes \<Rightarrow> bytes" where
  "layout hb es nonce ct = hb @ entries_bytes es @ nonce @ be_bytes 4 (length ct) @ ct"

definition entries_wf :: "(bytes \<times> bytes) list \<Rightarrow> bool" where
  "entries_wf es = list_all (\<lambda>(a, s). length a = 16 \<and> length s = 80) es"

lemma length_entries: "entries_wf es \<Longrightarrow> length (entries_bytes es) = 96 * length es"
  by (induction es) (auto simp: entries_bytes_def entries_wf_def)

lemma entries_bytes_Cons [simp]: "entries_bytes ((a, s) # es) = a @ s @ entries_bytes es"
  by (simp add: entries_bytes_def)

lemma entries_bytes_Nil [simp]: "entries_bytes [] = []"
  by (simp add: entries_bytes_def)

lemma entries_wf_simps [simp]:
  "entries_wf []"
  "entries_wf ((a, s) # es) \<longleftrightarrow> length a = 16 \<and> length s = 80 \<and> entries_wf es"
  by (simp_all add: entries_wf_def)

section \<open>Writing follows the layout\<close>

definition buf_at :: "nat \<Rightarrow> bytes \<Rightarrow> bytes \<times> nat" where
  "buf_at tot d = (d @ replicate (tot - length d) 0, length d)"

lemma write_buf_at:
  "length p = w \<Longrightarrow> length d + w \<le> tot \<Longrightarrow> put_field w p (buf_at tot d) = Inr (buf_at tot (d @ p))"
  by (simp add: put_field_def buf_at_def set_at_def)

lemma write_buf_at_end:
  "length d + length p = tot \<Longrightarrow> put_field 0 p (buf_at tot d) = Inr (d @ p, length d)"
  by (simp add: put_field_def buf_at_def set_at_def)

fun seal_all ::
  "crypto \<Rightarrow> bytes \<Rightarrow> bytes \<Rightarrow> bytes list \<Rightarrow> recipient list \<Rightarrow> (bytes \<times> bytes) list result" where
  "seal_all C conv key ephs [] = Inr []"
| "seal_all C conv key ephs (rc # rcs) =
     try_bind (uuid_to_bytes (rc_account rc)) (\<lambda>account.
     try_bind (seal_with C (hd ephs) (rc_enc_pub rc) conv account key) (\<lambda>sealed.
     try_bind (seal_all C conv key (tl ephs) rcs) (\<lambda>es. Inr ((account, sealed) # es))))"

lemma seal_all_wf:
  "crypto_laws C \<Longrightarrow> length key = 32 \<Longrightarrow> seal_all C conv key ephs rcs = Inr es \<Longrightarrow>
     entries_wf es \<and> length es = length rcs"
  by (induction rcs arbitrary: ephs es) (auto simp: uuid_to_bytes_Inr(1) length_seal_with)

lemma write_recipients_eq:
  assumes laws: "crypto_laws C" and key: "length key = 32"
  shows "length d + 96 * length rcs \<le> tot \<Longrightarrow>
    write_recipients C conv key ephs rcs (buf_at tot d)
      = try_bind (seal_all C conv key ephs rcs) (\<lambda>es. Inr (buf_at tot (d @ entries_bytes es)))"
proof (induction rcs arbitrary: ephs d)
  case Nil
  then show ?case by simp
next
  case (Cons rc rcs)
  show ?case
  proof (cases "uuid_to_bytes (rc_account rc)")
    case (Inl e)
    then show ?thesis by simp
  next
    case (Inr a)
    then have a: "length a = 16" by (rule uuid_to_bytes_Inr)
    show ?thesis
    proof (cases "seal_with C (hd ephs) (rc_enc_pub rc) conv a key")
      case (Inl e)
      with Inr a Cons.prems show ?thesis by (simp add: write_buf_at)
    next
      case s: (Inr s)
      then have "length s = 80" using length_seal_with [OF laws s] key by simp
      with Inr s a Cons.prems Cons.IH [of "d @ a @ s" "tl ephs"] show ?thesis
        by (cases "seal_all C conv key (tl ephs) rcs") (simp_all add: write_buf_at)
    qed
  qed
qed

text \<open>
  The reference the routine is compared with: the same checks, then the envelope as one
  concatenation instead of writes into a buffer.
\<close>

definition encrypt_spec ::
  "crypto \<Rightarrow> bytes \<Rightarrow> header \<Rightarrow> recipient list \<Rightarrow> bytes \<Rightarrow> randomness \<Rightarrow> (bytes \<times> bytes) result" where
  "encrypt_spec C seed hdr rcs pt r =
     (if length rcs < 1 \<or> 100 < length rcs then Inl (JsError ''invalid recipient count'')
      else if length (r_ephemeral r) \<noteq> length rcs then Inl (JsError ''ephemeral key count mismatch'')
      else if 65536 < 120 + 96 * length rcs + length pt then Inl (JsError ''envelope too large'')
      else
        try_bind (uuid_to_bytes (h_conv hdr)) (\<lambda>conv.
        try_bind (uuid_to_bytes (h_sender hdr)) (\<lambda>sender.
        try_bind (uuid_to_bytes (h_device hdr)) (\<lambda>device.
        try_bind (uuid_to_bytes (h_msg_id hdr)) (\<lambda>msg_id.
        try_bind (seal_all C conv (r_key r) (r_ephemeral r) rcs) (\<lambda>es.
        let hb = header_bytes (h_flags hdr) conv sender device msg_id (h_ts hdr) (length rcs);
            env = layout hb es (r_nonce r)
              (aead_encrypt C (r_key r) (r_nonce r) (hb @ entries_bytes es @ r_nonce r) pt)
        in Inr (env, sign C seed (SIG_PREFIX @ env))))))))"

lemma write_uuid_buf_at:
  "length d + 16 \<le> tot \<Longrightarrow>
     write_uuid ident (buf_at tot d) = try_bind (uuid_to_bytes ident) (\<lambda>b. Inr (buf_at tot (d @ b)))"
  by (cases "uuid_to_bytes ident") (simp_all add: write_uuid_def write_buf_at uuid_to_bytes_Inr)

lemma try_bind_assoc: "try_bind (try_bind r f) g = try_bind r (\<lambda>x. try_bind (f x) g)"
  by (cases r) simp_all

lemma try_bind_cong: "(\<And>x. r = Inr x \<Longrightarrow> f x = g x) \<Longrightarrow> try_bind r f = try_bind r g"
  by (cases r) simp_all

lemma buf_at_sel: "fst (buf_at tot d) = d @ replicate (tot - length d) 0" "snd (buf_at tot d) = length d"
  by (simp_all add: buf_at_def)

text \<open>The envelope built from checked identifiers: seal the key to everybody, then lay out.\<close>

definition seal_and_lay_out ::
  "crypto \<Rightarrow> bytes \<Rightarrow> header \<Rightarrow> recipient list \<Rightarrow> bytes \<Rightarrow> randomness \<Rightarrow> bytes \<Rightarrow> bytes \<Rightarrow> (bytes \<times> bytes) result" where
  "seal_and_lay_out C seed hdr rcs pt r conv hb =
     try_bind (seal_all C conv (r_key r) (r_ephemeral r) rcs) (\<lambda>es.
       let env = layout hb es (r_nonce r)
             (aead_encrypt C (r_key r) (r_nonce r) (hb @ entries_bytes es @ r_nonce r) pt)
       in Inr (env, sign C seed (SIG_PREFIX @ env)))"

lemma write_rest_eq:
  assumes laws: "crypto_laws C" and key: "length (r_key r) = 32" and nonce: "length (r_nonce r) = 24"
    and ids: "length ids = 66" and tot: "tot = 120 + 96 * length rcs + length pt"
  shows "write_rest C seed hdr rcs pt r conv (buf_at tot ids) = seal_and_lay_out C seed hdr rcs pt r conv
    (ids @ be_bytes 8 (nat (max 0 (h_ts hdr))) @ be_bytes 2 (length rcs))"
proof -
  define hb where "hb = ids @ be_bytes 8 (nat (max 0 (h_ts hdr))) @ be_bytes 2 (length rcs)"
  have hb: "length hb = 76" using ids by (simp add: hb_def)
  have rc: "write_recipients C conv (r_key r) (r_ephemeral r) rcs (buf_at tot hb)
      = try_bind (seal_all C conv (r_key r) (r_ephemeral r) rcs) (\<lambda>es. Inr (buf_at tot (hb @ entries_bytes es)))"
    using hb by (intro write_recipients_eq laws key) (simp add: tot)
  have tail: "try_bind (put_field NONCE_SIZE (r_nonce r) (buf_at tot (hb @ entries_bytes es))) (\<lambda>st.
      let aad = take (snd st) (fst st) in
      try_bind (put_field 4 (be_bytes 4 (length pt + TAG_SIZE)) st) (\<lambda>st'.
      try_bind (put_field 0 (aead_encrypt C (r_key r) (r_nonce r) aad pt) st') (\<lambda>st''.
      Inr (fst st'', sign C seed (concat_bytes [SIG_PREFIX, fst st''])))))
    = (let env = layout hb es (r_nonce r) (aead_encrypt C (r_key r) (r_nonce r) (hb @ entries_bytes es @ r_nonce r) pt)
       in Inr (env, sign C seed (SIG_PREFIX @ env)))"
    if "length (entries_bytes es) = 96 * length rcs" for es
    using that nonce laws hb
    by (simp add: write_buf_at write_buf_at_end buf_at_sel tot layout_def concat_bytes_eq
        crypto_lengths Let_def)
  have "write_rest C seed hdr rcs pt r conv (buf_at tot ids) = try_bind
      (write_recipients C conv (r_key r) (r_ephemeral r) rcs (buf_at tot hb)) (\<lambda>st.
      try_bind (put_field NONCE_SIZE (r_nonce r) st) (\<lambda>st.
      let aad = take (snd st) (fst st) in
      try_bind (put_field 4 (be_bytes 4 (length pt + TAG_SIZE)) st) (\<lambda>st'.
      try_bind (put_field 0 (aead_encrypt C (r_key r) (r_nonce r) aad pt) st') (\<lambda>st''.
      Inr (fst st'', sign C seed (concat_bytes [SIG_PREFIX, fst st'']))))))"
    using ids by (simp add: write_rest_def write_buf_at tot hb_def Let_def)
  also have "\<dots> = seal_and_lay_out C seed hdr rcs pt r conv hb"
    unfolding rc seal_and_lay_out_def try_bind_assoc
    by (rule try_bind_cong) (use tail seal_all_wf [OF laws key] length_entries in simp)
  finally show ?thesis by (simp add: hb_def)
qed

lemma encrypt_with_eq:
  assumes laws: "crypto_laws C" and key: "length (r_key r) = 32" and nonce: "length (r_nonce r) = 24"
  shows "encrypt_with C seed hdr rcs pt r = encrypt_spec C seed hdr rcs pt r"
proof -
  define tot where "tot = 120 + 96 * length rcs + length pt"
  have start: "(replicate (FIXED_HEADER + length rcs * RECIPIENT_ENTRY + NONCE_SIZE + 4 + length pt + TAG_SIZE) 0, 0)
      = buf_at tot []"
    by (simp add: buf_at_def tot_def)
  let ?pre = "[1, word_of_int (h_flags hdr)] :: bytes"
  show ?thesis
  proof (cases "length rcs < 1 \<or> 100 < length rcs \<or> length (r_ephemeral r) \<noteq> length rcs \<or> 65536 < tot")
    case True
    then show ?thesis by (auto simp: encrypt_with_def encrypt_spec_def tot_def Let_def)
  next
    case False
    then have one: "1 \<le> length rcs" by linarith
    then have big: "216 \<le> tot" "\<not> 65416 < length rcs * 96 + length pt" "rcs \<noteq> []"
      using False unfolding tot_def by (linarith, linarith, auto)
    have unfolded: "encrypt_with C seed hdr rcs pt r = try_bind (uuid_to_bytes (h_conv hdr)) (\<lambda>conv.
        try_bind (put_field 16 conv (buf_at tot ?pre)) (\<lambda>st.
        try_bind (write_uuid (h_sender hdr) st) (\<lambda>st.
        try_bind (write_uuid (h_device hdr) st) (\<lambda>st.
        try_bind (write_uuid (h_msg_id hdr) st) (\<lambda>st.
        write_rest C seed hdr rcs pt r conv st)))))"
      unfolding encrypt_with_def Let_def [of "length rcs"] Let_def [of "_ + _"] start
      using False big by (simp add: write_buf_at tot_def [symmetric])
    have spec: "encrypt_spec C seed hdr rcs pt r = try_bind (uuid_to_bytes (h_conv hdr)) (\<lambda>conv.
        try_bind (uuid_to_bytes (h_sender hdr)) (\<lambda>sender.
        try_bind (uuid_to_bytes (h_device hdr)) (\<lambda>device.
        try_bind (uuid_to_bytes (h_msg_id hdr)) (\<lambda>msg_id.
        seal_and_lay_out C seed hdr rcs pt r conv
          (header_bytes (h_flags hdr) conv sender device msg_id (h_ts hdr) (length rcs))))))"
      using False big by (simp add: encrypt_spec_def seal_and_lay_out_def tot_def Let_def)
    show ?thesis
      unfolding unfolded spec
    proof (rule try_bind_cong, goal_cases)
      case (1 conv)
      then have "length conv = 16" by (rule uuid_to_bytes_Inr)
      then show ?case
        using big write_rest_eq [OF laws key nonce _ tot_def]
        by (cases "uuid_to_bytes (h_sender hdr)"; cases "uuid_to_bytes (h_device hdr)";
            cases "uuid_to_bytes (h_msg_id hdr)")
           (simp_all add: write_buf_at write_uuid_buf_at uuid_to_bytes_Inr(1) [of "h_sender hdr"]
              uuid_to_bytes_Inr(1) [of "h_device hdr"] uuid_to_bytes_Inr(1) [of "h_msg_id hdr"] header_bytes_def)
    qed
  qed
qed

lemma encrypt_with_Inr:
  assumes laws: "crypto_laws C" and key: "length (r_key r) = 32" and nonce: "length (r_nonce r) = 24"
    and enc: "encrypt_with C seed hdr rcs pt r = Inr (env, sig)"
  obtains conv sender device msg_id es hb where
    "uuid_to_bytes (h_conv hdr) = Inr conv" "uuid_to_bytes (h_sender hdr) = Inr sender"
    "uuid_to_bytes (h_device hdr) = Inr device" "uuid_to_bytes (h_msg_id hdr) = Inr msg_id"
    "seal_all C conv (r_key r) (r_ephemeral r) rcs = Inr es"
    "1 \<le> length rcs" "length rcs \<le> 100" "length (r_ephemeral r) = length rcs"
    "120 + 96 * length rcs + length pt \<le> 65536"
    "hb = header_bytes (h_flags hdr) conv sender device msg_id (h_ts hdr) (length rcs)"
    "env = layout hb es (r_nonce r)
       (aead_encrypt C (r_key r) (r_nonce r) (hb @ entries_bytes es @ r_nonce r) pt)"
    "sig = sign C seed (SIG_PREFIX @ env)"
proof -
  have spec: "encrypt_spec C seed hdr rcs pt r = Inr (env, sig)"
    using enc encrypt_with_eq [OF laws key nonce] by simp
  then have chk: "1 \<le> length rcs" "length rcs \<le> 100" "length (r_ephemeral r) = length rcs"
    "120 + 96 * length rcs + length pt \<le> 65536"
    unfolding encrypt_spec_def by (auto simp: not_less Suc_le_eq split: if_splits)
  from spec obtain conv sender device msg_id es where
    ids: "uuid_to_bytes (h_conv hdr) = Inr conv" "uuid_to_bytes (h_sender hdr) = Inr sender"
    "uuid_to_bytes (h_device hdr) = Inr device" "uuid_to_bytes (h_msg_id hdr) = Inr msg_id"
    "seal_all C conv (r_key r) (r_ephemeral r) rcs = Inr es"
    and out: "(let hb = header_bytes (h_flags hdr) conv sender device msg_id (h_ts hdr) (length rcs);
        env = layout hb es (r_nonce r)
          (aead_encrypt C (r_key r) (r_nonce r) (hb @ entries_bytes es @ r_nonce r) pt)
      in Inr (env, sign C seed (SIG_PREFIX @ env))) = (Inr (env, sig) :: (bytes \<times> bytes) result)"
    unfolding encrypt_spec_def by (auto split: if_splits)
  then show ?thesis
    using chk by (intro that [OF ids chk refl]) (auto simp: Let_def)
qed

section \<open>Reading the layout back\<close>

definition sealed_of :: "bytes \<times> bytes \<Rightarrow> sealed_recipient" where
  "sealed_of e = \<lparr>sr_account = uuid_text (fst e), sr_key = snd e\<rparr>"

lemma subarray_mid: "length pre = a \<Longrightarrow> length mid = b - a \<Longrightarrow> subarray a b (pre @ mid @ rest) = mid"
  by (simp add: subarray_def)

lemma parse_recipients_entries:
  assumes "entries_wf es"
  shows "parse_recipients (length es) (pre @ entries_bytes es @ rest) (length pre)
    = Inr (map sealed_of es, length pre + 96 * length es)"
  using assms
proof (induction es arbitrary: pre)
  case Nil
  then show ?case by simp
next
  case (Cons e es)
  obtain a s where e: "e = (a, s)" by (cases e)
  with Cons.prems have len: "length a = 16" "length s = 80" by simp_all
  then have "bytes_to_uuid a = Inr (uuid_text a)" by (simp add: bytes_to_uuid_dashed uuid_text_dashed)
  moreover have "parse_recipients (length es) (pre @ a @ s @ entries_bytes es @ rest) (length pre + 96)
      = Inr (map sealed_of es, length pre + 96 + 96 * length es)"
    using Cons.IH [of "pre @ a @ s"] Cons.prems len by (simp add: e)
  moreover have "subarray (length pre) (length pre + 16) (pre @ a @ s @ entries_bytes es @ rest) = a"
    and "subarray (length pre + 16) (length pre + 96) (pre @ a @ s @ entries_bytes es @ rest) = s"
    using len by (simp_all add: subarray_def)
  ultimately show ?case by (simp add: e sealed_of_def)
qed

text \<open>Every byte string of the protocol's layout, within its limits, parses to its fields.\<close>

definition parsed_of ::
  "byte \<Rightarrow> bytes \<Rightarrow> bytes \<Rightarrow> bytes \<Rightarrow> bytes \<Rightarrow> bytes \<Rightarrow> (bytes \<times> bytes) list \<Rightarrow> bytes \<Rightarrow> bytes \<Rightarrow> bytes \<Rightarrow> parsed_envelope" where
  "parsed_of flags conv sender device msg_id ts es nonce ct env =
     \<lparr>h_flags = uint flags, h_conv = uuid_text conv, h_sender = uuid_text sender,
      h_device = uuid_text device, h_msg_id = uuid_text msg_id, h_ts = number_of_bigint (be_value 0 ts),
      pe_recipients = map sealed_of es, pe_nonce = nonce, pe_ciphertext = ct, pe_raw = env,
      pe_aad_len = 100 + 96 * length es\<rparr>"

lemma bytes_to_uuid_16: "length b = 16 \<Longrightarrow> bytes_to_uuid b = Inr (uuid_text b)"
  by (simp add: bytes_to_uuid_dashed uuid_text_dashed)

lemma parse_layout:
  assumes ids: "length conv = 16" "length sender = 16" "length device = 16" "length msg_id = 16"
    and ts: "length ts = 8" and wf: "entries_wf es" and n: "1 \<le> length es" "length es \<le> 100"
    and nonce: "length nonce = 24" and ct: "16 \<le> length ct"
    and total: "104 + 96 * length es + length ct \<le> 65536"
    and hb: "hb = [1, flags] @ conv @ sender @ device @ msg_id @ ts @ be_bytes 2 (length es)"
    and env: "env = layout hb es nonce ct"
  shows "parse env = Inr (parsed_of flags conv sender device msg_id ts es nonce ct env)"
proof -
  have lh: "length hb = 76" using ids ts by (simp add: hb)
  have le: "length (entries_bytes es) = 96 * length es" using wf by (rule length_entries)
  have lenv: "length env = 104 + 96 * length es + length ct"
    using lh le nonce by (simp add: env layout_def)
  have n_read: "be_value 0 (subarray 74 76 env) = length es"
    using ids ts n by (simp add: env layout_def hb subarray_def be_value_be_bytes)
  have ct_read: "be_value 0 (subarray (100 + 96 * length es) (104 + 96 * length es) env) = length ct"
    using lh le nonce total by (simp add: env layout_def subarray_def be_value_be_bytes)
  have rcs: "parse_recipients (length es) env 76 = Inr (map sealed_of es, 76 + 96 * length es)"
    using parse_recipients_entries [OF wf, of hb] lh by (simp add: env layout_def)
  have fields: "env ! 0 = 1" "env ! 1 = flags" "subarray 2 18 env = conv" "subarray 18 34 env = sender"
    "subarray 34 50 env = device" "subarray 50 66 env = msg_id" "subarray 66 74 env = ts"
    using ids ts by (simp_all add: env layout_def hb subarray_def)
  have tail: "subarray (76 + 96 * length es) (100 + 96 * length es) env = nonce"
    "drop (104 + 96 * length es) env = ct"
    using lh le nonce by (simp_all add: env layout_def subarray_def)
  have chk: "\<not> 65536 < length env" "\<not> length env < 216" "\<not> length env < 76 + length es * 96 + 24 + 4 + 16"
    "length env - (104 + 96 * length es) = length ct"
    using lenv total n ct by linarith+
  show ?thesis
    unfolding parse_def parsed_of_def
    using chk n ct ids fields(2)
    by (auto simp: n_read fields tail rcs ct_read bytes_to_uuid_16 Let_def)
qed

fun chunk_entries :: "nat \<Rightarrow> nat \<Rightarrow> bytes \<Rightarrow> (bytes \<times> bytes) list" where
  "chunk_entries 0 off env = []"
| "chunk_entries (Suc n) off env =
     (subarray off (off + 16) env, subarray (off + 16) (off + 96) env) # chunk_entries n (off + 96) env"

lemma subarray_join: "a \<le> b \<Longrightarrow> b \<le> c \<Longrightarrow> subarray a b xs @ subarray b c xs = subarray a c xs"
proof -
  assume "a \<le> b" "b \<le> c"
  then have "drop b xs = drop (b - a) (drop a xs)" and "c - a = (b - a) + (c - b)" by simp_all
  then show ?thesis by (simp add: subarray_def take_add)
qed

lemma chunk_entries_spec:
  "off + 96 * n \<le> length env \<Longrightarrow> entries_wf (chunk_entries n off env) \<and> length (chunk_entries n off env) = n
     \<and> entries_bytes (chunk_entries n off env) = subarray off (off + 96 * n) env"
proof (induction n arbitrary: off)
  case 0
  then show ?case by (simp add: subarray_def)
next
  case (Suc n)
  then have IH: "entries_wf (chunk_entries n (off + 96) env)" "length (chunk_entries n (off + 96) env) = n"
    "entries_bytes (chunk_entries n (off + 96) env) = subarray (off + 96) (off + 96 * Suc n) env"
    using Suc.IH [of "off + 96"] by (simp_all add: add.assoc)
  have "subarray off (off + 16) env @ subarray (off + 16) (off + 96) env
      @ subarray (off + 96) (off + 96 * Suc n) env = subarray off (off + 96 * Suc n) env"
    by (simp add: subarray_join flip: append_assoc)
  with IH Suc.prems show ?case by simp
qed

lemma byte_1_iff: "unat (b :: byte) = 1 \<longleftrightarrow> b = 1"
  by (metis unat_1 word_unat_eq_iff)

lemma list_head2: "2 \<le> length xs \<Longrightarrow> xs = [xs ! 0, xs ! 1] @ subarray 2 (length xs) xs"
  by (cases xs; cases "tl xs") (simp_all add: subarray_def)

lemma parse_Inr:
  assumes "parse env = Inr e"
  obtains flags conv sender device msg_id ts es nonce ct where
    "length conv = 16" "length sender = 16" "length device = 16" "length msg_id = 16" "length ts = 8"
    "entries_wf es" "1 \<le> length es" "length es \<le> 100" "length nonce = 24" "16 \<le> length ct"
    "104 + 96 * length es + length ct \<le> 65536"
    "env = layout ([1, flags] @ conv @ sender @ device @ msg_id @ ts @ be_bytes 2 (length es)) es nonce ct"
    "e = parsed_of flags conv sender device msg_id ts es nonce ct env"
proof -
  define n where "n = be_value 0 (subarray 74 76 env)"
  define o1 where "o1 = 76 + 96 * n"
  define es where "es = chunk_entries n 76 env"
  define ct where "ct = drop (o1 + 28) env"
  have chk: "length env \<le> 65536" "216 \<le> length env" "env ! 0 = 1" "1 \<le> n" "n \<le> 100" "o1 + 44 \<le> length env"
    using assms unfolding parse_def byte_1_iff envelope_sizes n_def [symmetric] o1_def Let_def
    by (auto simp: not_less Suc_le_eq split: if_splits)
  have es: "entries_wf es" "length es = n" "entries_bytes es = subarray 76 o1 env"
    using chunk_entries_spec [of 76 n env] chk by (simp_all add: es_def o1_def)
  have whole: "take 76 env @ entries_bytes es @ drop o1 env = env"
  proof -
    have "take 76 env @ subarray 76 o1 env = take o1 env"
      using subarray_join [of 0 76 o1 env] by (simp add: subarray_def o1_def)
    then show ?thesis unfolding es by (metis append.assoc append_take_drop_id)
  qed
  have l76: "length (take 76 env) = 76" using chk by simp
  have "parse_recipients (length es) (take 76 env @ entries_bytes es @ drop o1 env) (length (take 76 env))
      = Inr (map sealed_of es, length (take 76 env) + 96 * length es)"
    by (rule parse_recipients_entries [OF es(1)])
  then have "parse_recipients n env 76 = Inr (map sealed_of es, o1)"
    unfolding whole l76 es(2) by (simp only: o1_def)
  then have ct_len: "be_value 0 (subarray (o1 + 24) (o1 + 28) env) = length ct \<and> 16 \<le> length ct"
    using assms chk unfolding parse_def envelope_sizes n_def [symmetric] Let_def
    by (auto simp: ct_def not_less add.commute split: if_splits)
  have ct_bytes: "be_bytes 4 (length ct) = subarray (o1 + 24) (o1 + 28) env"
    using ct_len be_bytes_be_value [of "subarray (o1 + 24) (o1 + 28) env" 4] chk by simp
  have n_bytes: "be_bytes 2 n = subarray 74 76 env"
    using be_bytes_be_value [of "subarray 74 76 env" 2] chk by (simp add: n_def)
  let ?s = "\<lambda>a b. subarray a b env"
  have "env = [env ! 0, env ! 1] @ ?s 2 18 @ ?s 18 34 @ ?s 34 50 @ ?s 50 66 @ ?s 66 74 @ ?s 74 76
      @ ?s 76 o1 @ ?s o1 (o1 + 24) @ ?s (o1 + 24) (o1 + 28) @ ct"
  proof -
    have "ct = ?s (o1 + 28) (length env)" by (simp add: ct_def subarray_def)
    then have "?s 2 18 @ ?s 18 34 @ ?s 34 50 @ ?s 50 66 @ ?s 66 74 @ ?s 74 76
      @ ?s 76 o1 @ ?s o1 (o1 + 24) @ ?s (o1 + 24) (o1 + 28) @ ct = ?s 2 (length env)"
      using chk by (simp add: subarray_join o1_def flip: append_assoc)
    then show ?thesis using list_head2 [of env] chk by simp
  qed
  then have env: "env = layout ([1, env ! 1] @ ?s 2 18 @ ?s 18 34 @ ?s 34 50 @ ?s 50 66 @ ?s 66 74
      @ be_bytes 2 (length es)) es (?s o1 (o1 + 24)) ct"
    using chk es by (simp add: layout_def n_bytes ct_bytes)
  have lens: "length (?s 2 18) = 16" "length (?s 18 34) = 16" "length (?s 34 50) = 16"
    "length (?s 50 66) = 16" "length (?s 66 74) = 8" "length (?s o1 (o1 + 24)) = 24"
    "104 + 96 * length es + length ct \<le> 65536"
    using chk es by (simp_all add: ct_def o1_def)
  have "parse env = Inr (parsed_of (env ! 1) (?s 2 18) (?s 18 34) (?s 34 50) (?s 50 66) (?s 66 74) es
      (?s o1 (o1 + 24)) ct env)"
    by (rule parse_layout [OF lens(1-5) es(1) _ _ lens(6) _ lens(7) refl env]) (use chk es ct_len in simp_all)
  with assms show ?thesis
    using that [OF lens(1-5) es(1) _ _ lens(6) _ lens(7) env] chk es ct_len by simp
qed

end
