(* ===== verification/Account.thy ===== *)
theory Account
  imports Primitives
begin

text \<open>
  \<open>web/src/crypto/account.ts\<close>: the account's long-term keys, the keys derived from the password,
  the encrypted key bundle the server keeps, and the message a signed-in device signs to change
  the password.
\<close>

section \<open>Keys\<close>

record account_keys =
  sign_seed :: bytes
  sign_pub :: bytes
  enc_priv :: bytes
  enc_pub :: bytes

definition SALT_SIZE :: nat where "SALT_SIZE = 16"
definition KEY_BUNDLE_SIZE :: nat where "KEY_BUNDLE_SIZE = NONCE_SIZE + 64 + TAG_SIZE"

lemma account_sizes [simp]: "SALT_SIZE = 16" "KEY_BUNDLE_SIZE = 104"
  by (simp_all add: SALT_SIZE_def KEY_BUNDLE_SIZE_def)

definition DEFAULT_KDF :: kdf_params where
  "DEFAULT_KDF = \<lparr>kdf_t = 3, kdf_m = 64 * 1024, kdf_p = 1\<rparr>"

definition BUNDLE_AAD :: bytes where
  "BUNDLE_AAD = utf8_encode ''msgr-keybundle-v1''"

definition keys_from_secrets :: "crypto \<Rightarrow> bytes \<Rightarrow> bytes \<Rightarrow> account_keys result" where
  "keys_from_secrets C seed priv =
     (if length seed \<noteq> 32 \<or> length priv \<noteq> 32 then Inl (JsError ''secrets must be 32 bytes'')
      else Inr \<lparr>sign_seed = seed, sign_pub = ed25519_public C seed,
                enc_priv = priv, enc_pub = x25519_public C priv\<rparr>)"

text \<open>The two draws of the random generator are arguments.\<close>

definition generate_keys :: "crypto \<Rightarrow> bytes \<Rightarrow> bytes \<Rightarrow> account_keys result" where
  "generate_keys C random_seed random_priv = keys_from_secrets C random_seed random_priv"

text \<open>The keys of an account as \<open>keys_from_secrets\<close> builds them.\<close>

definition keys_wf :: "crypto \<Rightarrow> account_keys \<Rightarrow> bool" where
  "keys_wf C k \<longleftrightarrow> keys_from_secrets C (sign_seed k) (enc_priv k) = Inr k"

section \<open>Password-derived keys\<close>

definition check_kdf_params :: "kdf_params \<Rightarrow> unit result" where
  "check_kdf_params params =
     (if kdf_t params < kdf_t DEFAULT_KDF \<or> kdf_m params < kdf_m DEFAULT_KDF
         \<or> kdf_p params \<noteq> kdf_p DEFAULT_KDF
      then Inl (JsError ''weak_kdf'') else Inr ())"

definition derive_keys :: "crypto \<Rightarrow> string \<Rightarrow> bytes \<Rightarrow> kdf_params \<Rightarrow> (bytes \<times> bytes) result" where
  "derive_keys C password salt params =
     try_bind (check_kdf_params params) (\<lambda>_.
       if length salt \<noteq> SALT_SIZE then Inl (JsError ''invalid salt'')
       else try_bind (argon2id_hash C password salt params 64) (\<lambda>out.
         Inr (take 32 out, take 32 (drop 32 out))))"

section \<open>The key bundle\<close>

definition seal_key_bundle :: "crypto \<Rightarrow> bytes \<Rightarrow> bytes \<Rightarrow> account_keys \<Rightarrow> bytes" where
  "seal_key_bundle C enc_key nonce keys =
     concat_bytes [nonce, aead_encrypt C enc_key nonce BUNDLE_AAD (concat_bytes [sign_seed keys, enc_priv keys])]"

definition new_key_bundle :: "crypto \<Rightarrow> bytes \<Rightarrow> bytes \<Rightarrow> account_keys \<Rightarrow> bytes" where
  "new_key_bundle C random_nonce enc_key keys = seal_key_bundle C enc_key random_nonce keys"

definition open_key_bundle :: "crypto \<Rightarrow> bytes \<Rightarrow> bytes \<Rightarrow> bytes \<Rightarrow> bytes \<Rightarrow> account_keys result" where
  "open_key_bundle C enc_key bundle spub epub =
     (if length bundle \<noteq> KEY_BUNDLE_SIZE then Inl (JsError ''malformed key bundle'')
      else try_bind (aead_decrypt C enc_key (take NONCE_SIZE bundle) BUNDLE_AAD (drop NONCE_SIZE bundle)) (\<lambda>secrets.
        try_bind (keys_from_secrets C (take 32 secrets) (take 32 (drop 32 secrets))) (\<lambda>keys.
          if \<not> equal_bytes (sign_pub keys) spub \<or> \<not> equal_bytes (enc_pub keys) epub
          then Inl (JsError ''key bundle does not match the public keys'')
          else Inr keys)))"

section \<open>Changing the password\<close>

definition PW_CHANGE_CHALLENGE_SIZE :: nat where "PW_CHANGE_CHALLENGE_SIZE = 32"

definition PW_CHANGE_PREFIX :: bytes where
  "PW_CHANGE_PREFIX = utf8_encode ''msgr-pwchange-v1''"

definition password_change_message ::
  "bytes \<Rightarrow> bytes \<Rightarrow> bytes \<Rightarrow> bytes \<Rightarrow> bytes \<Rightarrow> bytes \<Rightarrow> bool \<Rightarrow> bytes result" where
  "password_change_message challenge account_id device_id new_salt new_auth_key new_bundle sign_out_others =
     (if length challenge \<noteq> PW_CHANGE_CHALLENGE_SIZE \<or> length account_id \<noteq> 16 \<or> length device_id \<noteq> 16
         \<or> length new_salt \<noteq> SALT_SIZE \<or> length new_auth_key \<noteq> 32 \<or> length new_bundle \<noteq> KEY_BUNDLE_SIZE
      then Inl (JsError ''invalid password change input'')
      else Inr (concat_bytes [PW_CHANGE_PREFIX, challenge, account_id, device_id, new_salt, new_auth_key,
        new_bundle, [if sign_out_others then 1 else 0]]))"

definition sign_password_change ::
  "crypto \<Rightarrow> bytes \<Rightarrow> bytes \<Rightarrow> bytes \<Rightarrow> bytes \<Rightarrow> bytes \<Rightarrow> bytes \<Rightarrow> bytes \<Rightarrow> bool \<Rightarrow> bytes result" where
  "sign_password_change C seed challenge account_id device_id new_salt new_auth_key new_bundle sign_out_others =
     try_bind (password_change_message challenge account_id device_id new_salt new_auth_key new_bundle sign_out_others)
       (\<lambda>m. Inr (sign C seed m))"

section \<open>Facts\<close>

lemma keys_wfD:
  assumes "keys_wf C k"
  shows "length (sign_seed k) = 32" "length (enc_priv k) = 32"
    "sign_pub k = ed25519_public C (sign_seed k)" "enc_pub k = x25519_public C (enc_priv k)"
  using assms unfolding keys_wf_def keys_from_secrets_def
  by (auto split: if_splits) (metis account_keys.select_convs)+

lemma keys_from_secrets_wf: "keys_from_secrets C s p = Inr k \<Longrightarrow> keys_wf C k \<and> sign_seed k = s \<and> enc_priv k = p"
  by (auto simp: keys_wf_def keys_from_secrets_def split: if_splits)

definition wrap_secrets :: "crypto \<Rightarrow> bytes \<Rightarrow> bytes \<Rightarrow> bytes \<Rightarrow> bytes" where
  "wrap_secrets C k n p = aead_encrypt C k n BUNDLE_AAD p"

definition unwrap_secrets :: "crypto \<Rightarrow> bytes \<Rightarrow> bytes \<Rightarrow> bytes \<Rightarrow> bytes result" where
  "unwrap_secrets C k n c = aead_decrypt C k n BUNDLE_AAD c"

interpretation secrets: aead_container wrap_secrets unwrap_secrets
  by unfold_locales (simp add: wrap_secrets_def unwrap_secrets_def aead_decrypt_iff)

lemma seal_key_bundle_eq:
  "seal_key_bundle C ek nonce k = nonce @ wrap_secrets C ek nonce (sign_seed k @ enc_priv k)"
  by (simp add: seal_key_bundle_def wrap_secrets_def concat_bytes_eq)

lemma length_seal_key_bundle:
  assumes "crypto_laws C" and "keys_wf C k" and "length nonce = 24"
  shows "length (seal_key_bundle C ek nonce k) = KEY_BUNDLE_SIZE"
  using assms keys_wfD [OF assms(2)]
  by (simp add: seal_key_bundle_eq wrap_secrets_def crypto_lengths)

lemma open_key_bundle_pubs:
  assumes "open_key_bundle C ek bundle spub epub = Inr k"
  shows "sign_pub k = spub" and "enc_pub k = epub"
  using assms by (auto simp: open_key_bundle_def split: if_splits)

lemma open_key_bundle_Inr:
  assumes laws: "crypto_laws C" and ek: "length ek = 32"
    and opened: "open_key_bundle C ek bundle spub epub = Inr k"
  shows "keys_wf C k" and "sign_pub k = spub" and "enc_pub k = epub"
    and "bundle = seal_key_bundle C ek (take 24 bundle) k"
proof -
  from opened obtain secrets where len: "length bundle = 104"
    and dec: "unwrap_secrets C ek (take 24 bundle) (drop 24 bundle) = Inr secrets"
    and keys: "keys_from_secrets C (take 32 secrets) (take 32 (drop 32 secrets)) = Inr k"
    and pubs: "sign_pub k = spub" "enc_pub k = epub"
    by (auto simp: open_key_bundle_def unwrap_secrets_def split: if_splits)
  have eq: "drop 24 bundle = wrap_secrets C ek (take 24 bundle) secrets"
    using dec laws ek len by (simp add: secrets.unwrap_iff)
  then have "length (drop 24 bundle) = length secrets + 16"
    using laws by (simp add: wrap_secrets_def crypto_lengths)
  then have "length secrets = 64" using len by simp
  then have "sign_seed k @ enc_priv k = secrets"
    using keys_from_secrets_wf [OF keys] by simp
  then show "bundle = seal_key_bundle C ek (take 24 bundle) k"
    by (metis append_take_drop_id eq seal_key_bundle_eq)
  show "keys_wf C k" using keys_from_secrets_wf [OF keys] by blast
qed (rule open_key_bundle_pubs [OF opened])+

lemma open_seal_key_bundle:
  assumes laws: "crypto_laws C" and ek: "length ek = 32" and n: "length nonce = 24" and k: "keys_wf C k"
  shows "open_key_bundle C ek (seal_key_bundle C ek nonce k) (sign_pub k) (enc_pub k) = Inr k"
proof -
  note kl = keys_wfD [OF k]
  have "length (seal_key_bundle C ek nonce k) = 104"
    using length_seal_key_bundle [OF laws k n] by simp
  moreover have "unwrap_secrets C ek nonce (wrap_secrets C ek nonce (sign_seed k @ enc_priv k))
      = Inr (sign_seed k @ enc_priv k)"
    using laws ek n by (rule secrets.unwrap_wrap)
  moreover have "keys_from_secrets C (sign_seed k) (enc_priv k) = Inr k"
    using k by (simp add: keys_wf_def)
  ultimately show ?thesis
    using kl n unfolding open_key_bundle_def unwrap_secrets_def [symmetric]
    by (simp add: seal_key_bundle_eq unwrap_secrets_def)
qed

lemma derive_keys_Inr:
  assumes "derive_keys C pw salt params = Inr (ak, ek)"
  shows "3 \<le> kdf_t params" "65536 \<le> kdf_m params" "kdf_p params = 1" "length salt = 16"
    "\<exists>out. argon2id_hash C pw salt params 64 = Inr out \<and> ak = take 32 out \<and> ek = take 32 (drop 32 out)"
  using assms
  by (auto simp: derive_keys_def check_kdf_params_def DEFAULT_KDF_def split: if_splits)

lemma check_kdf_params_iff:
  "check_kdf_params params = Inr () \<longleftrightarrow> 3 \<le> kdf_t params \<and> 65536 \<le> kdf_m params \<and> kdf_p params = 1"
  by (auto simp: check_kdf_params_def DEFAULT_KDF_def)

text \<open>Every field of the signed message has a fixed size, so no two changes share a message.\<close>

lemma append_eq_same_length:
  "length a = length b \<Longrightarrow> a @ r = b @ s \<longleftrightarrow> a = b \<and> r = s"
  by simp

lemma password_change_message_inject:
  assumes "password_change_message c a d s k b f = Inr m"
    and "password_change_message c' a' d' s' k' b' f' = Inr m"
  shows "c = c' \<and> a = a' \<and> d = d' \<and> s = s' \<and> k = k' \<and> b = b' \<and> f = f'"
proof -
  from assms have len: "length c = length c'" "length a = length a'" "length d = length d'"
    "length s = length s'" "length k = length k'" "length b = length b'"
    by (auto simp: password_change_message_def PW_CHANGE_CHALLENGE_SIZE_def split: if_splits)
  from assms have "c @ a @ d @ s @ k @ b @ [if f then 1 else 0] = c' @ a' @ d' @ s' @ k' @ b' @ [if f' then 1 else (0 :: byte)]"
    by (auto simp: password_change_message_def concat_bytes_eq simp del: append_eq_append_conv split: if_splits)
  with len show ?thesis by (auto split: if_splits)
qed

lemma password_change_message_shape:
  assumes "password_change_message c a d s k b f = Inr m"
  shows "length m = 233" and "take 16 m = PW_CHANGE_PREFIX"
proof -
  have p: "length PW_CHANGE_PREFIX = 16" by (simp add: PW_CHANGE_PREFIX_def)
  then show "take 16 m = PW_CHANGE_PREFIX"
    using assms by (auto simp: password_change_message_def concat_bytes_eq split: if_splits)
  show "length m = 233"
    using assms p
    by (auto simp: password_change_message_def PW_CHANGE_CHALLENGE_SIZE_def concat_bytes_eq split: if_splits)
qed

end
