(* ===== verification/Model.thy ===== *)
theory Model
  imports Db I18n Envelope Account
begin

text \<open>
  \<open>web/src/state/model.ts\<close>: the reactive state of the client as one record, its accessors and the
  derived lists; and the surroundings of the client (libraries, server, generator) as a record of
  functions the definitions take as an argument.
\<close>

section \<open>State\<close>

text \<open>
  What the client asked of the server, in order. Responses depend on the whole history of requests,
  so a server may behave in any way.
\<close>

datatype http_request =
    RConversations
  | RConversation string
  | RMessages string int int
  | RSend string string string
  | RMarkRead string int
  | RDeleteMessage string int
  | RDeleteBlob string
  | RUser string
  | RCreateDirect string
  | RCreateGroup "string list"
  | RAddMember string string
  | RRemoveMember string string
  | RSetRetention string int
  | RUploadBlob string bytes
  | RDownloadBlob string

text \<open>
  The signals of \<open>model.ts\<close>, \<open>session.ts\<close> and \<open>chatPrefs.ts\<close>, the database, the chat preferences in
  local storage (by account), and what the client has
  produced: requests, signals handed to the call and voice handlers, notifications. The clock, the
  page's visibility and the permission to notify belong to the surroundings.
\<close>

record prefs =
  pr_pinned :: "string list"
  pr_muted :: "string list"
  pr_hidden :: "string list"

record app =
  a_session :: "session_info option"
  a_keys :: "account_keys option"
  a_conversations :: "conversation jmap"
  a_contacts :: "contact jmap"
  a_messages :: "stored_message list jmap"
  a_pending :: "pending_message list"
  a_selected :: "string option"
  a_syncing :: bool
  a_settings :: "server_settings option"
  a_visibility :: "visibility option"
  a_server_version :: string
  a_password_changed :: "int option"
  a_history :: "(nat \<times> nat) option"
  a_pinned :: "string list"
  a_muted :: "string list"
  a_hidden :: "string list"
  a_prefs :: "prefs jmap"
  a_db :: db
  a_dict :: dict
  a_now :: int
  a_visible :: bool
  a_may_notify :: bool
  a_requests :: "http_request list"
  a_draws :: nat
  a_signals :: "(string \<times> string \<times> string \<times> payload) list"
  a_notices :: "(string \<times> string \<times> string) list"

text \<open>
  The surroundings: the crypto libraries; \<open>JSON.parse\<close> after \<open>utf8Decode\<close> with the cast to a payload
  (\<open>None\<close> is \<open>null\<close> or another falsy value) and its inverse; one function per endpoint of
  \<open>api/http.ts\<close>; the generator, indexed by the number of draws so far.
\<close>

record world =
  w_crypto :: crypto
  w_read_payload :: "bytes \<Rightarrow> payload option result"
  w_write_payload :: "payload \<Rightarrow> bytes"
  w_conversations :: "http_request list \<Rightarrow> conversation_view list result"
  w_conversation :: "http_request list \<Rightarrow> string \<Rightarrow> conversation_view result"
  w_messages :: "http_request list \<Rightarrow> string \<Rightarrow> int \<Rightarrow> message_page result"
  w_send :: "http_request list \<Rightarrow> send_result result"
  w_done :: "http_request list \<Rightarrow> unit result"
  w_user :: "http_request list \<Rightarrow> string \<Rightarrow> user_view result"
  w_blob_id :: "http_request list \<Rightarrow> string result"
  w_blob :: "http_request list \<Rightarrow> string \<Rightarrow> bytes result"
  w_uuid :: "nat \<Rightarrow> string"
  w_key :: "nat \<Rightarrow> bytes"
  w_nonce :: "nat \<Rightarrow> bytes"
  w_ephemeral :: "nat \<Rightarrow> nat \<Rightarrow> bytes"

text \<open>The initial values of the signals, before anything was loaded.\<close>

definition initial_app :: app where
  "initial_app = \<lparr>a_session = None, a_keys = None, a_conversations = [], a_contacts = [], a_messages = [],
     a_pending = [], a_selected = None, a_syncing = False, a_settings = None, a_visibility = None,
     a_server_version = [], a_password_changed = None, a_history = None, a_pinned = [], a_muted = [],
     a_hidden = [], a_prefs = [],
     a_db = \<lparr>db_session = None, db_keys = None, db_contacts = [], db_conversations = [], db_messages = []\<rparr>,
     a_dict = en, a_now = 0, a_visible = False, a_may_notify = False, a_requests = [], a_draws = 0,
     a_signals = [], a_notices = []\<rparr>"

definition request :: "http_request \<Rightarrow> app \<Rightarrow> app" where
  "request r s = s\<lparr>a_requests := a_requests s @ [r]\<rparr>"

section \<open>Accessors\<close>

abbreviation conv_of :: "app \<Rightarrow> string \<Rightarrow> conversation option" where
  "conv_of s i \<equiv> jget (a_conversations s) i"

abbreviation contact_of :: "app \<Rightarrow> string \<Rightarrow> contact option" where
  "contact_of s i \<equiv> jget (a_contacts s) i"

abbreviation loaded_of :: "app \<Rightarrow> string \<Rightarrow> stored_message list option" where
  "loaded_of s i \<equiv> jget (a_messages s) i"

definition set_conversation :: "conversation \<Rightarrow> app \<Rightarrow> app" where
  "set_conversation c s = s\<lparr>a_conversations := jset (c_id c) c (a_conversations s)\<rparr>"

definition set_contact :: "contact \<Rightarrow> app \<Rightarrow> app" where
  "set_contact c s = s\<lparr>a_contacts := jset (ct_id c) c (a_contacts s)\<rparr>"

definition set_messages :: "string \<Rightarrow> stored_message list \<Rightarrow> app \<Rightarrow> app" where
  "set_messages conv_id list s = s\<lparr>a_messages := jset conv_id list (a_messages s)\<rparr>"

definition on_db :: "(db \<Rightarrow> db) \<Rightarrow> app \<Rightarrow> app" where
  "on_db f s = s\<lparr>a_db := f (a_db s)\<rparr>"

definition reset_state :: "app \<Rightarrow> app" where
  "reset_state s = s\<lparr>a_session := None, a_conversations := [], a_contacts := [], a_messages := [],
     a_pending := [], a_selected := None, a_settings := None, a_password_changed := None\<rparr>"

text \<open>\<open>APP_VERSION\<close> is fixed when the bundle is built.\<close>

definition update_available :: "string \<Rightarrow> app \<Rightarrow> bool" where
  "update_available app_version s \<longleftrightarrow> app_version \<noteq> ''dev'' \<and> a_server_version s \<noteq> []
     \<and> a_server_version s \<noteq> ''dev'' \<and> a_server_version s \<noteq> app_version"

section \<open>Derived values\<close>

definition sorted_conversations :: "app \<Rightarrow> conversation list" where
  "sorted_conversations s =
     sort_key (\<lambda>c. - c_updated_at c) (filter (\<lambda>c. \<not> c_removed c) (map snd (a_conversations s)))"

definition selected_conversation :: "app \<Rightarrow> conversation option" where
  "selected_conversation s = (case a_selected s of None \<Rightarrow> None | Some i \<Rightarrow> if i = [] then None else conv_of s i)"

definition other_member :: "conversation \<Rightarrow> string \<Rightarrow> string option" where
  "other_member c me =
     (case List.find (\<lambda>i. i \<noteq> me) (c_server_members c) of
        Some i \<Rightarrow> Some i
      | None \<Rightarrow> (case c_roster c of None \<Rightarrow> None | Some r \<Rightarrow> List.find (\<lambda>i. i \<noteq> me) r))"

definition conversation_title :: "app \<Rightarrow> conversation \<Rightarrow> string \<Rightarrow> string" where
  "conversation_title s c me =
     (if c_kind c = Direct then
        (case (case other_member c me of None \<Rightarrow> None | Some other \<Rightarrow> if other = [] then None else contact_of s other) of
           None \<Rightarrow> translate (a_dict s) ''direct_chat'' []
         | Some ct \<Rightarrow>
             (case ct_display_name ct of
                Some d \<Rightarrow> if ct_is_bot ct \<and> d \<noteq> [] then d else ct_username ct
              | None \<Rightarrow> ct_username ct))
      else if c_name c = [] then translate (a_dict s) ''group'' [] else c_name c)"

definition has_bot :: "app \<Rightarrow> conversation \<Rightarrow> bool" where
  "has_bot s c = list_ex (\<lambda>i. case contact_of s i of None \<Rightarrow> False | Some ct \<Rightarrow> ct_is_bot ct) (c_server_members c)"

definition username_of :: "app \<Rightarrow> string \<Rightarrow> string \<Rightarrow> string" where
  "username_of s i me =
     (if i = me then translate (a_dict s) ''you'' []
      else case contact_of s i of Some ct \<Rightarrow> ct_username ct | None \<Rightarrow> take 8 i)"

section \<open>Facts\<close>

lemma conv_of_set_conversation [simp]:
  "conv_of (set_conversation c s) i = (if i = c_id c then Some c else conv_of s i)"
  by (simp add: set_conversation_def update_conv')

lemma contact_of_set_contact [simp]:
  "contact_of (set_contact c s) i = (if i = ct_id c then Some c else contact_of s i)"
  by (simp add: set_contact_def update_conv')

lemma loaded_of_set_messages [simp]:
  "loaded_of (set_messages i l s) j = (if j = i then Some l else loaded_of s j)"
  by (simp add: set_messages_def update_conv')

text \<open>What each setter leaves alone.\<close>

lemma set_conversation_frame [simp]:
  "a_session (set_conversation c s) = a_session s" "a_keys (set_conversation c s) = a_keys s"
  "a_contacts (set_conversation c s) = a_contacts s" "a_messages (set_conversation c s) = a_messages s"
  "a_pending (set_conversation c s) = a_pending s" "a_db (set_conversation c s) = a_db s"
  "a_settings (set_conversation c s) = a_settings s" "a_now (set_conversation c s) = a_now s"
  "a_requests (set_conversation c s) = a_requests s" "a_signals (set_conversation c s) = a_signals s"
  "a_draws (set_conversation c s) = a_draws s" "a_selected (set_conversation c s) = a_selected s"
  by (simp_all add: set_conversation_def)

lemma set_contact_frame [simp]:
  "a_session (set_contact c s) = a_session s" "a_keys (set_contact c s) = a_keys s"
  "a_conversations (set_contact c s) = a_conversations s" "a_messages (set_contact c s) = a_messages s"
  "a_pending (set_contact c s) = a_pending s" "a_db (set_contact c s) = a_db s"
  "a_settings (set_contact c s) = a_settings s" "a_now (set_contact c s) = a_now s"
  "a_requests (set_contact c s) = a_requests s" "a_signals (set_contact c s) = a_signals s"
  "a_draws (set_contact c s) = a_draws s" "a_selected (set_contact c s) = a_selected s"
  by (simp_all add: set_contact_def)

lemma set_messages_frame [simp]:
  "a_session (set_messages i l s) = a_session s" "a_keys (set_messages i l s) = a_keys s"
  "a_conversations (set_messages i l s) = a_conversations s" "a_contacts (set_messages i l s) = a_contacts s"
  "a_pending (set_messages i l s) = a_pending s" "a_db (set_messages i l s) = a_db s"
  "a_settings (set_messages i l s) = a_settings s" "a_now (set_messages i l s) = a_now s"
  "a_requests (set_messages i l s) = a_requests s" "a_signals (set_messages i l s) = a_signals s"
  "a_draws (set_messages i l s) = a_draws s" "a_selected (set_messages i l s) = a_selected s"
  by (simp_all add: set_messages_def)

lemma on_db_frame [simp]:
  "a_session (on_db f s) = a_session s" "a_keys (on_db f s) = a_keys s"
  "a_conversations (on_db f s) = a_conversations s" "a_contacts (on_db f s) = a_contacts s"
  "a_messages (on_db f s) = a_messages s" "a_pending (on_db f s) = a_pending s"
  "a_db (on_db f s) = f (a_db s)" "a_settings (on_db f s) = a_settings s" "a_now (on_db f s) = a_now s"
  "a_requests (on_db f s) = a_requests s" "a_signals (on_db f s) = a_signals s"
  "a_draws (on_db f s) = a_draws s" "a_selected (on_db f s) = a_selected s"
  by (simp_all add: on_db_def)

lemma request_frame [simp]:
  "a_session (request r s) = a_session s" "a_keys (request r s) = a_keys s"
  "a_conversations (request r s) = a_conversations s" "a_contacts (request r s) = a_contacts s"
  "a_messages (request r s) = a_messages s" "a_pending (request r s) = a_pending s"
  "a_db (request r s) = a_db s" "a_settings (request r s) = a_settings s" "a_now (request r s) = a_now s"
  "a_requests (request r s) = a_requests s @ [r]" "a_signals (request r s) = a_signals s"
  "a_draws (request r s) = a_draws s" "a_selected (request r s) = a_selected s"
  by (simp_all add: request_def)

lemma sorted_conversations_order:
  "sorted (map (\<lambda>c. - c_updated_at c) (sorted_conversations s))"
  by (simp add: sorted_conversations_def)

lemma set_sorted_conversations:
  "jmap_inv (a_conversations s) \<Longrightarrow>
     c \<in> set (sorted_conversations s) \<longleftrightarrow> (\<exists>i. conv_of s i = Some c) \<and> \<not> c_removed c"
  by (force simp: sorted_conversations_def jmap_inv_def image_iff)

end
