(* ===== verification/Trust.thy ===== *)
theory Trust
  imports Model
begin

text \<open>
  Key pinning (\<open>observeKeys\<close>, \<open>memberInfoKeys\<close>, \<open>applyRoster\<close> of \<open>state/sync.ts\<close>; \<open>setVerified\<close> and
  \<open>acceptNewKeys\<close> of \<open>state/messaging.ts\<close>): the first keys seen for an account are pinned, different
  ones are only flagged, and the person has to accept them.
\<close>

section \<open>Operations\<close>

definition save_contact :: "contact \<Rightarrow> app \<Rightarrow> app" where
  "save_contact c s = on_db (put_contact c) (set_contact c s)"

text \<open>\<open>is_bot\<close> and \<open>display_name\<close> are the optional fields of \<open>extra\<close>.\<close>

definition observe_keys ::
  "string \<Rightarrow> string \<Rightarrow> bytes \<Rightarrow> bytes \<Rightarrow> bool option \<Rightarrow> string option \<Rightarrow> app \<Rightarrow> app" where
  "observe_keys ident username spub epub is_bot display_name s =
     (case contact_of s ident of
        None \<Rightarrow> save_contact \<lparr>ct_id = ident, ct_username = username, ct_display_name = display_name,
            ct_is_bot = (is_bot = Some True), ct_sign_pub = spub, ct_enc_pub = epub,
            ct_verified = False, ct_pending_keys = None, ct_first_seen = a_now s\<rparr> s
      | Some c \<Rightarrow>
          if \<not> equal_bytes (ct_sign_pub c) spub \<or> \<not> equal_bytes (ct_enc_pub c) epub then
            (case ct_pending_keys c of
               Some (ps, pe) \<Rightarrow>
                 if \<not> equal_bytes ps spub \<or> \<not> equal_bytes pe epub
                 then save_contact (c\<lparr>ct_pending_keys := Some (spub, epub)\<rparr>) s else s
             | None \<Rightarrow> save_contact (c\<lparr>ct_pending_keys := Some (spub, epub)\<rparr>) s)
          else
            let bt = (case is_bot of Some b \<Rightarrow> b | None \<Rightarrow> ct_is_bot c);
                display = (case display_name of Some d \<Rightarrow> Some d | None \<Rightarrow> ct_display_name c) in
            if ct_username c \<noteq> username \<or> ct_is_bot c \<noteq> bt \<or> ct_display_name c \<noteq> display
            then save_contact (c\<lparr>ct_username := username, ct_is_bot := bt, ct_display_name := display\<rparr>) s
            else s)"

definition member_info_keys :: "member_info \<Rightarrow> (bytes \<times> bytes) option" where
  "member_info_keys m =
     (case b64decode (mi_sign_pub m) of
        Inl _ \<Rightarrow> None
      | Inr spub \<Rightarrow>
          (case b64decode (mi_enc_pub m) of
             Inl _ \<Rightarrow> None
           | Inr epub \<Rightarrow> if length spub \<noteq> 32 \<or> length epub \<noteq> 32 then None else Some (spub, epub)))"

fun apply_roster :: "member_info list \<Rightarrow> app \<Rightarrow> string list \<times> app" where
  "apply_roster [] s = ([], s)"
| "apply_roster (m # ms) s =
     (case member_info_keys m of
        None \<Rightarrow> apply_roster ms s
      | Some (spub, epub) \<Rightarrow>
          if mi_id m = [] then apply_roster ms s
          else let (ids, s') = apply_roster ms (observe_keys (mi_id m) (mi_username m) spub epub None None s)
               in (mi_id m # ids, s'))"

definition set_verified :: "string \<Rightarrow> bool \<Rightarrow> app \<Rightarrow> app" where
  "set_verified contact_id verified s =
     (case contact_of s contact_id of None \<Rightarrow> s | Some c \<Rightarrow> save_contact (c\<lparr>ct_verified := verified\<rparr>) s)"

definition accept_new_keys :: "string \<Rightarrow> app \<Rightarrow> app" where
  "accept_new_keys contact_id s =
     (case contact_of s contact_id of
        None \<Rightarrow> s
      | Some c \<Rightarrow>
          (case ct_pending_keys c of
             None \<Rightarrow> s
           | Some (spub, epub) \<Rightarrow> save_contact
               (c\<lparr>ct_sign_pub := spub, ct_enc_pub := epub, ct_verified := False, ct_pending_keys := None\<rparr>) s))"

section \<open>What observing keys may change\<close>

text \<open>
  The trust relation between an earlier and a later state: every known contact is still known under
  the same pinned keys, with the same verification mark, and flagged keys stay flagged.
\<close>

definition pins_kept :: "app \<Rightarrow> app \<Rightarrow> bool" where
  "pins_kept s s' \<longleftrightarrow> (\<forall>i c. contact_of s i = Some c \<longrightarrow>
     (\<exists>c'. contact_of s' i = Some c' \<and> ct_sign_pub c' = ct_sign_pub c \<and> ct_enc_pub c' = ct_enc_pub c
        \<and> ct_verified c' = ct_verified c \<and> (ct_pending_keys c \<noteq> None \<longrightarrow> ct_pending_keys c' \<noteq> None)))"

lemma pins_kept_refl: "pins_kept s s"
  by (simp add: pins_kept_def)

lemma pins_kept_trans:
  assumes "pins_kept s t" and "pins_kept t u"
  shows "pins_kept s u"
  unfolding pins_kept_def
proof (intro allI impI)
  fix i c assume "contact_of s i = Some c"
  with assms(1) obtain c' where c': "contact_of t i = Some c'" "ct_sign_pub c' = ct_sign_pub c"
    "ct_enc_pub c' = ct_enc_pub c" "ct_verified c' = ct_verified c"
    "ct_pending_keys c \<noteq> None \<longrightarrow> ct_pending_keys c' \<noteq> None"
    unfolding pins_kept_def by blast
  with assms(2) obtain c'' where "contact_of u i = Some c''" "ct_sign_pub c'' = ct_sign_pub c'"
    "ct_enc_pub c'' = ct_enc_pub c'" "ct_verified c'' = ct_verified c'"
    "ct_pending_keys c' \<noteq> None \<longrightarrow> ct_pending_keys c'' \<noteq> None"
    unfolding pins_kept_def by blast
  with c' show "\<exists>c''. contact_of u i = Some c'' \<and> ct_sign_pub c'' = ct_sign_pub c
      \<and> ct_enc_pub c'' = ct_enc_pub c \<and> ct_verified c'' = ct_verified c
      \<and> (ct_pending_keys c \<noteq> None \<longrightarrow> ct_pending_keys c'' \<noteq> None)"
    by auto
qed

text \<open>Every contact is filed under its own id.\<close>

definition contacts_inv :: "app \<Rightarrow> bool" where
  "contacts_inv s \<longleftrightarrow> (\<forall>i c. contact_of s i = Some c \<longrightarrow> ct_id c = i)"

lemma contacts_inv_id: "contacts_inv s \<Longrightarrow> contact_of s i = Some c \<Longrightarrow> ct_id c = i"
  by (simp add: contacts_inv_def)

lemma contact_of_save [simp]: "contact_of (save_contact c s) i = (if i = ct_id c then Some c else contact_of s i)"
  by (simp add: save_contact_def)

lemma contacts_inv_save [simp]: "contacts_inv s \<Longrightarrow> contacts_inv (save_contact c s)"
  by (simp add: contacts_inv_def)

text \<open>Observing keys, contact by contact: only the observed contact can change, and how.\<close>

lemma observe_keys_contact:
  assumes "contacts_inv s"
  shows "contact_of (observe_keys i u sp ep bt disp s) j =
    (if j \<noteq> i then contact_of s j
     else case contact_of s i of
       None \<Rightarrow> Some \<lparr>ct_id = i, ct_username = u, ct_display_name = disp, ct_is_bot = (bt = Some True),
         ct_sign_pub = sp, ct_enc_pub = ep, ct_verified = False, ct_pending_keys = None, ct_first_seen = a_now s\<rparr>
     | Some c \<Rightarrow>
         if ct_sign_pub c = sp \<and> ct_enc_pub c = ep
         then Some (c\<lparr>ct_username := u, ct_is_bot := (case bt of Some b \<Rightarrow> b | None \<Rightarrow> ct_is_bot c),
           ct_display_name := (case disp of Some d \<Rightarrow> Some d | None \<Rightarrow> ct_display_name c)\<rparr>)
         else Some (c\<lparr>ct_pending_keys := Some (sp, ep)\<rparr>))"
proof (cases "contact_of s i")
  case None
  then show ?thesis by (simp add: observe_keys_def)
next
  case (Some c)
  then have "ct_id c = i" using assms by (simp add: contacts_inv_id)
  with Some show ?thesis
    by (auto simp: observe_keys_def equal_bytes_iff Let_def split: option.splits)
qed

lemma contacts_inv_observe: "contacts_inv s \<Longrightarrow> contacts_inv (observe_keys i u sp ep bt disp s)"
  unfolding observe_keys_def Let_def by (simp split: option.split prod.split if_split)

lemma pins_kept_observe: "contacts_inv s \<Longrightarrow> pins_kept s (observe_keys i u sp ep bt disp s)"
  unfolding pins_kept_def by (auto simp: observe_keys_contact split: option.splits)

text \<open>Together: the relation every handler of incoming traffic stays within.\<close>

definition trusts :: "app \<Rightarrow> app \<Rightarrow> bool" where
  "trusts s s' \<longleftrightarrow> (contacts_inv s \<longrightarrow> contacts_inv s' \<and> pins_kept s s')"

interpretation trust: frame trusts
  by unfold_locales (auto simp: trusts_def pins_kept_refl intro: pins_kept_trans)

lemma trusts_same_contacts: "a_contacts s' = a_contacts s \<Longrightarrow> trusts s s'"
  by (simp add: trusts_def contacts_inv_def pins_kept_def)

lemma trusts_observe: "trusts s (observe_keys i u sp ep bt disp s)"
  by (simp add: trusts_def contacts_inv_observe pins_kept_observe)

lemma trusts_apply_roster: "trusts s (snd (apply_roster ms s))"
proof (induction ms arbitrary: s)
  case Nil
  then show ?case by (simp add: trust.R_refl)
next
  case (Cons m ms)
  then show ?case
    by (auto simp: Let_def split: option.splits prod.splits intro: trust.R_trans [OF trusts_observe])
      (metis snd_conv trust.R_trans trusts_observe)
qed


section \<open>The trust state machine\<close>

text \<open>Everything that touches the contacts: two kinds of observation and two actions of the person.\<close>

datatype trust_op =
    Observe string string bytes bytes "bool option" "string option"
  | Roster "member_info list"
  | Verify string bool
  | Accept string

fun do_trust :: "trust_op \<Rightarrow> app \<Rightarrow> app" where
  "do_trust (Observe i u sp ep bt disp) s = observe_keys i u sp ep bt disp s"
| "do_trust (Roster ms) s = snd (apply_roster ms s)"
| "do_trust (Verify i v) s = set_verified i v s"
| "do_trust (Accept i) s = accept_new_keys i s"

inductive trust_run :: "app \<Rightarrow> trust_op list \<Rightarrow> app \<Rightarrow> bool" where
  trust_none: "trust_run s [] s"
| trust_step: "trust_run s ops t \<Longrightarrow> trust_run s (ops @ [oper]) (do_trust oper t)"

inductive_cases trust_run_NilE: "trust_run s [] t"

lemma contact_of_verify:
  "contacts_inv s \<Longrightarrow> contact_of (set_verified i v s) j = (if j = i
     then map_option (\<lambda>c. c\<lparr>ct_verified := v\<rparr>) (contact_of s i) else contact_of s j)"
  by (auto simp: set_verified_def contacts_inv_id split: option.split)

lemma contact_of_accept:
  "contacts_inv s \<Longrightarrow> contact_of (accept_new_keys i s) j = (if j = i
     then map_option (\<lambda>c. case ct_pending_keys c of None \<Rightarrow> c
       | Some (sp, ep) \<Rightarrow> c\<lparr>ct_sign_pub := sp, ct_enc_pub := ep, ct_verified := False, ct_pending_keys := None\<rparr>)
       (contact_of s i) else contact_of s j)"
  by (auto simp: accept_new_keys_def contacts_inv_id split: option.split)

lemma contacts_inv_do_trust: "contacts_inv s \<Longrightarrow> contacts_inv (do_trust oper s)"
  using trusts_apply_roster [of s]
  by (cases oper)
    (auto simp: contacts_inv_observe trusts_def set_verified_def accept_new_keys_def split: option.split prod.split)

lemma contacts_inv_run: "trust_run s ops t \<Longrightarrow> contacts_inv s \<Longrightarrow> contacts_inv t"
  by (induction rule: trust_run.induct) (auto simp: contacts_inv_do_trust)

text \<open>One step turns a verification mark on, or changes pinned keys, only if it is that person's action.\<close>

lemma new_contact_unverified:
  "contacts_inv s \<Longrightarrow> contact_of s i = None \<Longrightarrow> contact_of (observe_keys j u sp ep bt disp s) i = Some c \<Longrightarrow>
     \<not> ct_verified c"
  by (auto simp: observe_keys_contact split: if_splits)

lemma roster_contact_unverified:
  "contacts_inv s \<Longrightarrow> contact_of s i = None \<Longrightarrow> contact_of (snd (apply_roster ms s)) i = Some c \<Longrightarrow> \<not> ct_verified c"
proof (induction ms arbitrary: s)
  case Nil
  then show ?case by simp
next
  case (Cons m ms)
  show ?case
  proof (cases "member_info_keys m = None \<or> mi_id m = []")
    case True
    with Cons show ?thesis by (auto split: option.splits prod.splits)
  next
    case False
    then obtain sp ep where k: "member_info_keys m = Some (sp, ep)" "mi_id m \<noteq> []" by auto
    let ?t = "observe_keys (mi_id m) (mi_username m) sp ep None None s"
    have inv: "contacts_inv ?t" using Cons.prems by (simp add: contacts_inv_observe)
    have now: "contact_of (snd (apply_roster ms ?t)) i = Some c"
      using Cons.prems k by (simp add: Let_def split: prod.splits)
    show ?thesis
    proof (cases "contact_of ?t i")
      case None
      with Cons.IH inv now show ?thesis by blast
    next
      case (Some c0)
      then have "\<not> ct_verified c0" using new_contact_unverified Cons.prems by blast
      moreover have "trusts ?t (snd (apply_roster ms ?t))" by (rule trusts_apply_roster)
      ultimately show ?thesis using inv now Some by (fastforce simp: trusts_def pins_kept_def)
    qed
  qed
qed

definition same_pins :: "contact \<Rightarrow> contact \<Rightarrow> bool" where
  "same_pins c c' \<longleftrightarrow> ct_sign_pub c' = ct_sign_pub c \<and> ct_enc_pub c' = ct_enc_pub c"

lemma do_trust_verified:
  assumes inv: "contacts_inv s" and c': "contact_of (do_trust oper s) i = Some c'" and v: "ct_verified c'"
    and not: "oper \<noteq> Verify i True"
  shows "\<exists>c. contact_of s i = Some c \<and> ct_verified c \<and> same_pins c c'"
proof (cases oper)
  case (Observe j u sp ep bt disp)
  show ?thesis
  proof (cases "contact_of s i")
    case None
    with new_contact_unverified [OF inv] c' v Observe show ?thesis by fastforce
  next
    case (Some c)
    with pins_kept_observe [OF inv, of j u sp ep bt disp] c' v Observe show ?thesis
      by (fastforce simp: pins_kept_def same_pins_def)
  qed
next
  case (Roster ms)
  show ?thesis
  proof (cases "contact_of s i")
    case None
    with roster_contact_unverified [OF inv] c' v Roster show ?thesis by fastforce
  next
    case (Some c)
    with trusts_apply_roster [of s ms] inv c' v Roster show ?thesis
      by (fastforce simp: trusts_def pins_kept_def same_pins_def)
  qed
next
  case (Verify j w)
  with c' v not inv show ?thesis by (auto simp: contact_of_verify same_pins_def split: if_splits)
next
  case (Accept j)
  with c' v inv show ?thesis
    by (auto simp: contact_of_accept same_pins_def split: if_splits option.splits)
qed

text \<open>Trust on first use: observing keys for an account that is already known never changes the pinned
keys or the verification mark; different keys are kept aside as pending, and the first keys seen for
an unknown account are the ones pinned, unverified.\<close>

theorem observe_keys_pins:
  assumes "contacts_inv s"
  shows "\<exists>c'. contact_of (observe_keys i u sp ep bt disp s) i = Some c'
    \<and> (case contact_of s i of
         None \<Rightarrow> ct_sign_pub c' = sp \<and> ct_enc_pub c' = ep \<and> \<not> ct_verified c' \<and> ct_pending_keys c' = None
       | Some c \<Rightarrow> same_pins c c' \<and> ct_verified c' = ct_verified c
           \<and> ct_pending_keys c' = (if ct_sign_pub c = sp \<and> ct_enc_pub c = ep then ct_pending_keys c else Some (sp, ep)))
    \<and> (\<forall>j. j \<noteq> i \<longrightarrow> contact_of (observe_keys i u sp ep bt disp s) j = contact_of s j)"
  using assms by (auto simp: observe_keys_contact same_pins_def split: option.splits)

text \<open>C13: A verification mark never moves to other keys: after any run of observations, signed rosters,
verifications and key acceptances, a contact that is marked verified either was marked by the person
during the run, or was already marked at its start under exactly the same pinned keys.\<close>

theorem verified_keys_unchanged:
  assumes "trust_run s ops t" and "contacts_inv s" and "contact_of t i = Some c'" and "ct_verified c'"
    and "Verify i True \<notin> set ops"
  shows "\<exists>c. contact_of s i = Some c \<and> ct_verified c \<and> same_pins c c'"
  using assms
proof (induction arbitrary: c' rule: trust_run.induct)
  case (trust_none s)
  then show ?case by (auto simp: same_pins_def)
next
  case (trust_step s ops t oper)
  have "contacts_inv t" using contacts_inv_run trust_step.hyps trust_step.prems by blast
  then obtain c1 where c1: "contact_of t i = Some c1" "ct_verified c1" "same_pins c1 c'"
    using do_trust_verified [of t oper i c'] trust_step.prems by auto
  with trust_step.IH [of c1] trust_step.prems obtain c where
    "contact_of s i = Some c" "ct_verified c" "same_pins c c1" by auto
  with c1 show ?case by (auto simp: same_pins_def)
qed

text \<open>A flag is never withdrawn: once different keys were flagged, observing the pinned keys again leaves
the flag (and with it the block on sending) in place, and accepting is the only step that removes it,
by replacing the pinned keys with the flagged ones.\<close>

theorem flag_only_cleared_by_accepting:
  assumes "contacts_inv s" and "contact_of s i = Some c" and "ct_pending_keys c = Some k"
    and "contact_of (do_trust oper s) i = Some c'" and "ct_pending_keys c' = None"
  shows "oper = Accept i \<and> (ct_sign_pub c', ct_enc_pub c') = k"
proof (cases oper)
  case (Observe j u sp ep bt disp)
  with pins_kept_observe [OF assms(1), of j u sp ep bt disp] assms(2-5) show ?thesis
    by (fastforce simp: pins_kept_def)
next
  case (Roster ms)
  with trusts_apply_roster [of s ms] assms show ?thesis
    by (fastforce simp: trusts_def pins_kept_def)
next
  case (Verify j w)
  with assms show ?thesis by (auto simp: contact_of_verify split: if_splits)
next
  case (Accept j)
  with assms show ?thesis by (auto simp: contact_of_accept split: if_splits prod.splits)
qed

end
