(* ===== verification/ChatPrefs.thy ===== *)
theory ChatPrefs
  imports Model
begin

text \<open>
  \<open>web/src/state/chatPrefs.ts\<close>: pinned, muted and hidden chats, kept in this browser under a key per
  account. A JavaScript \<open>Set\<close> is a list without duplicates in insertion order. Local storage keeps
  the preferences as values (the JSON text is not modelled) and is available.
\<close>

definition no_prefs :: prefs where
  "no_prefs = \<lparr>pr_pinned = [], pr_muted = [], pr_hidden = []\<rparr>"

definition read_prefs :: "string \<Rightarrow> app \<Rightarrow> prefs" where
  "read_prefs account_id s = (case jget (a_prefs s) account_id of None \<Rightarrow> no_prefs | Some p \<Rightarrow> p)"

definition set_add :: "'a \<Rightarrow> 'a list \<Rightarrow> 'a list" where
  "set_add x xs = (if x \<in> set xs then xs else xs @ [x])"

definition set_delete :: "'a \<Rightarrow> 'a list \<Rightarrow> 'a list" where
  "set_delete x xs = filter (\<lambda>y. y \<noteq> x) xs"

definition set_of :: "'a list \<Rightarrow> 'a list" where
  "set_of xs = foldl (\<lambda>acc x. set_add x acc) [] xs"

text \<open>The effect that runs when the session changes.\<close>

definition load_prefs :: "app \<Rightarrow> app" where
  "load_prefs s =
     (let p = (case a_session s of
                 None \<Rightarrow> no_prefs
               | Some si \<Rightarrow> if si_account_id si = [] then no_prefs else read_prefs (si_account_id si) s)
      in s\<lparr>a_pinned := set_of (pr_pinned p), a_muted := set_of (pr_muted p), a_hidden := set_of (pr_hidden p)\<rparr>)"

definition save_prefs :: "app \<Rightarrow> app" where
  "save_prefs s =
     (case a_session s of
        None \<Rightarrow> s
      | Some si \<Rightarrow>
          if si_account_id si = [] then s
          else s\<lparr>a_prefs := jset (si_account_id si)
                 \<lparr>pr_pinned = a_pinned s, pr_muted = a_muted s, pr_hidden = a_hidden s\<rparr> (a_prefs s)\<rparr>)"

text \<open>\<open>toggle\<close> takes the signal as an argument: here its getter and its setter.\<close>

definition toggle ::
  "(app \<Rightarrow> string list) \<Rightarrow> (string list \<Rightarrow> app \<Rightarrow> app) \<Rightarrow> string \<Rightarrow> bool option \<Rightarrow> app \<Rightarrow> app" where
  "toggle get put conv_id on s =
     (let add = (case on of Some b \<Rightarrow> b | None \<Rightarrow> conv_id \<notin> set (get s)) in
      save_prefs (put (if add then set_add conv_id (get s) else set_delete conv_id (get s)) s))"

definition put_pinned :: "string list \<Rightarrow> app \<Rightarrow> app" where "put_pinned l s = s\<lparr>a_pinned := l\<rparr>"
definition put_muted :: "string list \<Rightarrow> app \<Rightarrow> app" where "put_muted l s = s\<lparr>a_muted := l\<rparr>"
definition put_hidden :: "string list \<Rightarrow> app \<Rightarrow> app" where "put_hidden l s = s\<lparr>a_hidden := l\<rparr>"

definition toggle_pinned :: "string \<Rightarrow> app \<Rightarrow> app" where
  "toggle_pinned conv_id s = toggle a_pinned put_pinned conv_id None s"

definition toggle_muted :: "string \<Rightarrow> app \<Rightarrow> app" where
  "toggle_muted conv_id s = toggle a_muted put_muted conv_id None s"

definition hide_chat :: "string \<Rightarrow> app \<Rightarrow> app" where
  "hide_chat conv_id s = toggle a_hidden put_hidden conv_id (Some True) s"

definition unhide_chat :: "string \<Rightarrow> app \<Rightarrow> app" where
  "unhide_chat conv_id s =
     (if conv_id \<notin> set (a_hidden s) then s else toggle a_hidden put_hidden conv_id (Some False) s)"

definition forget_chat :: "string \<Rightarrow> app \<Rightarrow> app" where
  "forget_chat conv_id s =
     toggle a_hidden put_hidden conv_id (Some False)
       (toggle a_muted put_muted conv_id (Some False)
         (toggle a_pinned put_pinned conv_id (Some False) s))"

section \<open>Facts\<close>

lemmas prefs_defs = toggle_def save_prefs_def put_pinned_def put_muted_def put_hidden_def Let_def

lemma set_set_add [simp]: "set (set_add x xs) = insert x (set xs)"
  by (auto simp: set_add_def)

lemma set_set_delete [simp]: "set (set_delete x xs) = set xs - {x}"
  by (auto simp: set_delete_def)

lemma distinct_set_add: "distinct xs \<Longrightarrow> distinct (set_add x xs)"
  by (simp add: set_add_def)

lemma distinct_set_delete: "distinct xs \<Longrightarrow> distinct (set_delete x xs)"
  by (simp add: set_delete_def)

lemma set_of_distinct: "distinct xs \<Longrightarrow> set_of xs = xs"
proof (induction xs rule: rev_induct)
  case Nil
  then show ?case by (simp add: set_of_def)
next
  case (snoc x xs)
  then show ?case by (simp add: set_of_def set_add_def)
qed

text \<open>The three sets have no duplicates, and what is stored for the signed-in account is what is shown.\<close>

definition prefs_inv :: "app \<Rightarrow> bool" where
  "prefs_inv s \<longleftrightarrow> distinct (a_pinned s) \<and> distinct (a_muted s) \<and> distinct (a_hidden s)
     \<and> (\<forall>si. a_session s = Some si \<longrightarrow> si_account_id si \<noteq> [] \<longrightarrow>
          read_prefs (si_account_id si) s = \<lparr>pr_pinned = a_pinned s, pr_muted = a_muted s, pr_hidden = a_hidden s\<rparr>)"

lemma prefs_inv_toggle:
  assumes "prefs_inv s"
  shows "prefs_inv (toggle a_pinned put_pinned i on s)" "prefs_inv (toggle a_muted put_muted i on s)"
    "prefs_inv (toggle a_hidden put_hidden i on s)"
  using assms
  by (auto simp: prefs_inv_def prefs_defs read_prefs_def update_conv' distinct_set_add distinct_set_delete
      split: option.splits)

lemma prefs_inv_ops:
  assumes "prefs_inv s"
  shows "prefs_inv (toggle_pinned i s)" "prefs_inv (toggle_muted i s)" "prefs_inv (hide_chat i s)"
    "prefs_inv (unhide_chat i s)" "prefs_inv (forget_chat i s)"
  using assms
  by (simp_all add: toggle_pinned_def toggle_muted_def hide_chat_def unhide_chat_def forget_chat_def prefs_inv_toggle)

lemma unhide_frame [simp]:
  "a_session (unhide_chat i s) = a_session s" "a_keys (unhide_chat i s) = a_keys s"
  "a_conversations (unhide_chat i s) = a_conversations s" "a_contacts (unhide_chat i s) = a_contacts s"
  "a_messages (unhide_chat i s) = a_messages s" "a_pending (unhide_chat i s) = a_pending s"
  "a_db (unhide_chat i s) = a_db s" "a_settings (unhide_chat i s) = a_settings s"
  "a_now (unhide_chat i s) = a_now s" "a_requests (unhide_chat i s) = a_requests s"
  "a_signals (unhide_chat i s) = a_signals s" "a_draws (unhide_chat i s) = a_draws s"
  "a_selected (unhide_chat i s) = a_selected s" "a_hidden (unhide_chat i s) = set_delete i (a_hidden s)"
  by (simp_all add: unhide_chat_def prefs_defs set_delete_def filter_id_conv split: option.split)
    (metis (mono_tags, lifting) filter_True)

text \<open>Chat preferences survive a reload: after any of the operations the three sets have no duplicates, and
loading the account's stored preferences again gives exactly the sets that are shown.\<close>

theorem prefs_reload:
  assumes "prefs_inv s" and "a_session s = Some si" and "si_account_id si \<noteq> []"
    and "t \<in> {toggle_pinned i s, toggle_muted i s, hide_chat i s, unhide_chat i s, forget_chat i s}"
  shows "prefs_inv t \<and> a_pinned (load_prefs t) = a_pinned t \<and> a_muted (load_prefs t) = a_muted t
    \<and> a_hidden (load_prefs t) = a_hidden t"
proof -
  have t: "prefs_inv t" using prefs_inv_ops [OF assms(1)] assms(4) by auto
  have "a_session t = Some si"
    using assms(2,4)
    by (auto simp: toggle_pinned_def toggle_muted_def hide_chat_def forget_chat_def prefs_defs)
  with t assms(3) show ?thesis by (simp add: load_prefs_def prefs_inv_def Let_def set_of_distinct)
qed

end
