(* ===== verification/Sync.thy ===== *)
theory Sync
  imports Trust ChatPrefs
begin

text \<open>
  \<open>web/src/state/sync.ts\<close>: turns what the server reports into local state. Every operation takes the
  surroundings and the state and returns its result with the new state; state changes made before a
  throw persist. Operations run one at a time: \<open>withLock\<close> only orders them. A page loop of
  \<open>backfill\<close> runs on fuel.
\<close>

section \<open>Requests\<close>

definition http_conversations :: "world \<Rightarrow> app \<Rightarrow> conversation_view list result \<times> app" where
  "http_conversations W s = (let s' = request RConversations s in (w_conversations W (a_requests s'), s'))"

definition http_conversation :: "world \<Rightarrow> string \<Rightarrow> app \<Rightarrow> conversation_view result \<times> app" where
  "http_conversation W ident s = (let s' = request (RConversation ident) s in (w_conversation W (a_requests s') ident, s'))"

definition http_messages :: "world \<Rightarrow> string \<Rightarrow> int \<Rightarrow> int \<Rightarrow> app \<Rightarrow> message_page result \<times> app" where
  "http_messages W conv_id after limit s =
     (let s' = request (RMessages conv_id after limit) s in (w_messages W (a_requests s') conv_id after, s'))"

section \<open>Conversations\<close>

definition persist_conversation :: "conversation \<Rightarrow> app \<Rightarrow> app" where
  "persist_conversation c s = on_db (put_conversation c) (set_conversation c s)"

definition observe_member :: "member_view \<Rightarrow> app \<Rightarrow> unit result \<times> app" where
  "observe_member m s =
     (case b64decode (mv_sign_pub m) of
        Inl e \<Rightarrow> throw e s
      | Inr spub \<Rightarrow>
          (case b64decode (mv_enc_pub m) of
             Inl e \<Rightarrow> throw e s
           | Inr epub \<Rightarrow> ret () (observe_keys (mv_id m) (mv_username m) spub epub
                 (Some (mv_is_bot m = Some True)) (mv_display_name m) s)))"

definition fresh_conversation :: "conversation_view \<Rightarrow> conversation" where
  "fresh_conversation cv =
     \<lparr>c_id = cv_id cv, c_kind = cv_kind cv, c_name = [], c_created_by = cv_created_by cv,
      c_created_at = cv_created_at cv, c_role = cv_role cv, c_joined_seq = cv_joined_seq cv,
      c_last_seq = cv_last_seq cv, c_read_seq = cv_read_seq cv, c_synced_seq = cv_joined_seq cv,
      c_server_members = [], c_roster = None, c_roster_seq = 0, c_retention_seconds = 0,
      c_last_message = None, c_updated_at = cv_created_at cv * 1000, c_removed = False\<rparr>"

definition merge_conversation :: "conversation_view \<Rightarrow> conversation \<Rightarrow> conversation" where
  "merge_conversation cv conv = conv\<lparr>c_kind := cv_kind cv, c_role := cv_role cv,
     c_joined_seq := cv_joined_seq cv, c_last_seq := max (c_last_seq conv) (cv_last_seq cv),
     c_read_seq := max (c_read_seq conv) (cv_read_seq cv), c_server_members := map mv_id (cv_members cv),
     c_retention_seconds := (case cv_retention_seconds cv of Some n \<Rightarrow> n | None \<Rightarrow> 0), c_removed := False\<rparr>"

definition upsert_from_server :: "conversation_view \<Rightarrow> app \<Rightarrow> conversation result \<times> app" where
  "upsert_from_server cv s =
     then_ok (for_each observe_member (cv_members cv) s) (\<lambda>_ s.
       let conv = merge_conversation cv
             (case conv_of s (cv_id cv) of Some existing \<Rightarrow> existing | None \<Rightarrow> fresh_conversation cv)
       in ret conv (persist_conversation conv s))"

definition refresh_conversation_inline :: "world \<Rightarrow> string \<Rightarrow> app \<Rightarrow> unit result \<times> app" where
  "refresh_conversation_inline W ident s =
     attempt (then_ok (http_conversation W ident s) (\<lambda>cv s. then_ok (upsert_from_server cv s) (\<lambda>_. ret ())))
       (\<lambda>e. ret ())"

section \<open>Retention\<close>

definition effective_retention :: "app \<Rightarrow> conversation \<Rightarrow> int" where
  "effective_retention s conv =
     (let global = (case a_settings s of None \<Rightarrow> 0 | Some x \<Rightarrow> ss_retention_days x) * 86400;
          r = c_retention_seconds conv
      in if global > 0 \<and> (r = 0 \<or> r > global) then global else r)"

definition is_expired :: "app \<Rightarrow> conversation \<Rightarrow> int \<Rightarrow> bool" where
  "is_expired s conv server_ts =
     (let r = effective_retention s conv in r > 0 \<and> server_ts < a_now s - r * 1000)"

text \<open>Deletes the old messages in the database and in memory; says how many the database lost.\<close>

definition forget_before :: "string \<Rightarrow> int \<Rightarrow> app \<Rightarrow> nat \<times> app" where
  "forget_before conv_id cutoff s =
     (let (deleted, d) = delete_messages_before conv_id cutoff (a_db s);
          s1 = on_db (\<lambda>_. d) s
      in (deleted, case loaded_of s1 conv_id of
                     None \<Rightarrow> s1
                   | Some loaded \<Rightarrow>
                       if list_ex (\<lambda>m. sm_server_ts m < cutoff) loaded
                       then set_messages conv_id (filter (\<lambda>m. cutoff \<le> sm_server_ts m) loaded) s1
                       else s1))"

definition purge_conversation :: "conversation \<Rightarrow> app \<Rightarrow> app" where
  "purge_conversation conv s =
     (let r = effective_retention s conv in
      if r \<le> 0 then s
      else
        let cutoff = a_now s - r * 1000;
            (deleted, s) = forget_before (c_id conv) cutoff s
        in case c_last_message conv of
             None \<Rightarrow> s
           | Some lm \<Rightarrow> if deleted > 0 \<and> lm_ts lm < cutoff
               then persist_conversation (conv\<lparr>c_last_message := None\<rparr>) s else s)"

definition purge_expired :: "app \<Rightarrow> app" where
  "purge_expired s = foldl (\<lambda>s conv. purge_conversation conv s) s (map snd (a_conversations s))"

section \<open>Previews\<close>

text \<open>Reading a property of \<open>undefined\<close> and iterating over \<open>undefined\<close> throw a \<open>TypeError\<close>.\<close>

definition type_error :: err where "type_error = JsError ''TypeError''"

fun preview_of :: "dict \<Rightarrow> payload option \<Rightarrow> string option \<Rightarrow> string result" where
  "preview_of dict None err =
     Inr (case err of None \<Rightarrow> [] | Some e \<Rightarrow> if e = [] then [] else translate dict ''preview_unreadable'' [])"
| "preview_of dict (Some (Text body reply)) err = Inr body"
| "preview_of dict (Some (File f)) err =
     (case fp_mime f of
        None \<Rightarrow> Inl type_error
      | Some mime \<Rightarrow> Inr (if starts_with ''image/'' mime then translate dict ''preview_photo'' []
          else translate dict ''preview_file'' [(''name'', fp_name f)]))"
| "preview_of dict (Some (ConvCreate k name members)) err =
     Inr (if k = Group then translate dict ''preview_group_created'' [] else translate dict ''preview_chat_started'' [])"
| "preview_of dict (Some (MemberAdd m members)) err =
     (case m of None \<Rightarrow> Inl type_error | Some mi \<Rightarrow> Inr (translate dict ''preview_joined'' [(''name'', mi_username mi)]))"
| "preview_of dict (Some (MemberRemove i members)) err = Inr (translate dict ''preview_left'' [])"
| "preview_of dict (Some (ConvRename name)) err = Inr (translate dict ''preview_renamed'' [(''name'', name)])"
| "preview_of dict (Some (ConvRetention seconds)) err = Inr (if seconds > 0 then format_duration dict seconds else [])"
| "preview_of dict (Some p) err = Inr []"

fun preview_back :: "dict \<Rightarrow> stored_message list \<Rightarrow> preview option result" where
  "preview_back dict [] = Inr None"
| "preview_back dict (m # ms) =
     try_bind (preview_of dict (sm_payload m) (sm_error m)) (\<lambda>text.
       if text \<noteq> [] then Inr (Some \<lparr>lm_text = text, lm_ts = sm_ts m, lm_sender = sm_sender m, lm_seq = Some (sm_seq m)\<rparr>)
       else preview_back dict ms)"

definition latest_preview :: "string \<Rightarrow> app \<Rightarrow> preview option result" where
  "latest_preview conv_id s = preview_back (a_dict s) (rev (messages_for conv_id (a_db s)))"

section \<open>Edits and deletions\<close>

definition rewrite_message :: "string \<Rightarrow> int \<Rightarrow> stored_message \<Rightarrow> app \<Rightarrow> app" where
  "rewrite_message conv_id seq updated s =
     (let s1 = on_db (put_message updated) s in
      case loaded_of s1 conv_id of
        None \<Rightarrow> s1
      | Some loaded \<Rightarrow> set_messages conv_id (map (\<lambda>x. if sm_seq x = seq then updated else x) loaded) s1)"

definition set_message_body :: "string \<Rightarrow> int \<Rightarrow> string \<Rightarrow> bool \<Rightarrow> app \<Rightarrow> app" where
  "set_message_body conv_id seq body edited s =
     (case get_message conv_id seq (a_db s) of
        None \<Rightarrow> s
      | Some m \<Rightarrow>
          (case sm_payload m of
             Some (Text b reply) \<Rightarrow>
               (let s = rewrite_message conv_id seq (m\<lparr>sm_payload := Some (Text body reply), sm_edited := edited\<rparr>) s
                in case conv_of s conv_id of
                     None \<Rightarrow> s
                   | Some conv \<Rightarrow>
                       (case c_last_message conv of
                          None \<Rightarrow> s
                        | Some lm \<Rightarrow> if lm_seq lm = Some seq
                            then persist_conversation (conv\<lparr>c_last_message := Some (lm\<lparr>lm_text := body\<rparr>)\<rparr>) s
                            else s))
           | _ \<Rightarrow> s))"

definition apply_edit :: "string \<Rightarrow> stored_message \<Rightarrow> string option \<Rightarrow> string option \<Rightarrow> app \<Rightarrow> app" where
  "apply_edit conv_id edit ref_opt body_opt s =
     (case ref_opt of
        None \<Rightarrow> s
      | Some r \<Rightarrow>
          (case body_opt of
             None \<Rightarrow> s
           | Some body \<Rightarrow>
               (case message_by_client_id conv_id (sm_sender edit) r (a_db s) of
                  None \<Rightarrow> s
                | Some original \<Rightarrow>
                    if sm_sender original \<noteq> sm_sender edit
                       \<or> \<not> (case sm_payload original of Some (Text _ _) \<Rightarrow> True | _ \<Rightarrow> False)
                       \<or> sm_seq edit \<le> sm_seq original
                    then s
                    else set_message_body conv_id (sm_seq original) body True s)))"

definition forget_message :: "string \<Rightarrow> int \<Rightarrow> app \<Rightarrow> app" where
  "forget_message conv_id seq s =
     (let s1 = on_db (delete_stored_message conv_id seq) s in
      case loaded_of s1 conv_id of
        None \<Rightarrow> s1
      | Some loaded \<Rightarrow> if list_ex (\<lambda>m. sm_seq m = seq) loaded
          then set_messages conv_id (filter (\<lambda>m. sm_seq m \<noteq> seq) loaded) s1 else s1)"

definition remove_local_message :: "string \<Rightarrow> int \<Rightarrow> app \<Rightarrow> unit result \<times> app" where
  "remove_local_message conv_id seq s =
     (let s = forget_message conv_id seq s
      in case conv_of s conv_id of
           None \<Rightarrow> ret () s
         | Some conv \<Rightarrow>
             (case c_last_message conv of
                None \<Rightarrow> ret () s
              | Some lm \<Rightarrow>
                  if lm_seq lm = Some seq
                  then then_ok (latest_preview conv_id s, s)
                         (\<lambda>p s. ret () (persist_conversation (conv\<lparr>c_last_message := p\<rparr>) s))
                  else ret () s))"

definition advance_silently :: "string \<Rightarrow> int \<Rightarrow> app \<Rightarrow> app" where
  "advance_silently conv_id seq s =
     (case conv_of s conv_id of
        None \<Rightarrow> s
      | Some conv \<Rightarrow>
          let next = conv\<lparr>c_synced_seq := max (c_synced_seq conv) seq, c_last_seq := max (c_last_seq conv) seq\<rparr>
          in if seq - 1 \<le> c_read_seq conv \<and> c_read_seq conv < seq
             then persist_conversation (next\<lparr>c_read_seq := seq\<rparr>) (request (RMarkRead conv_id seq) s)
             else persist_conversation next s)"

definition apply_deletion :: "message_view \<Rightarrow> int \<Rightarrow> app \<Rightarrow> unit result \<times> app" where
  "apply_deletion view deleted_seq s =
     (if conv_of s (m_conv_id view) = None then ret () s
      else then_ok (remove_local_message (m_conv_id view) deleted_seq s)
             (\<lambda>_ s. ret () (advance_silently (m_conv_id view) (m_seq view) s)))"

section \<open>Stored messages\<close>

definition maybe_notify :: "conversation \<Rightarrow> stored_message \<Rightarrow> string \<Rightarrow> app \<Rightarrow> app" where
  "maybe_notify conv msg body s =
     (if \<not> a_may_notify s then s
      else if c_id conv \<in> set (a_muted s) then s
      else if a_visible s \<and> a_selected s = Some (c_id conv) then s
      else if a_now s - sm_server_ts msg > 60000 then s
      else
        let sender = (case contact_of s (sm_sender msg) of Some c \<Rightarrow> ct_username c | None \<Rightarrow> ''New message'')
        in s\<lparr>a_notices := a_notices s @ [(sender, take 140 body, c_id conv)]\<rparr>)"

text \<open>The switch on membership and name events of a message newer than the roster.\<close>

definition apply_event :: "payload option \<Rightarrow> int \<Rightarrow> conversation \<Rightarrow> app \<Rightarrow> conversation result \<times> app" where
  "apply_event p seq next s =
     (case p of
        Some (ConvCreate k name members) \<Rightarrow>
          (let next = (case name of None \<Rightarrow> next | Some n \<Rightarrow> if n = [] then next else next\<lparr>c_name := n\<rparr>) in
           case members of
             None \<Rightarrow> throw type_error s
           | Some ms \<Rightarrow> let (ids, s) = apply_roster ms s in ret (next\<lparr>c_roster := Some ids, c_roster_seq := seq\<rparr>) s)
      | Some (MemberAdd m members) \<Rightarrow>
          (case members of
             None \<Rightarrow> throw type_error s
           | Some ms \<Rightarrow> let (ids, s) = apply_roster ms s in ret (next\<lparr>c_roster := Some ids, c_roster_seq := seq\<rparr>) s)
      | Some (MemberRemove i members) \<Rightarrow>
          (case members of
             None \<Rightarrow> throw type_error s
           | Some ms \<Rightarrow> let (ids, s) = apply_roster ms s in ret (next\<lparr>c_roster := Some ids, c_roster_seq := seq\<rparr>) s)
      | Some (ConvRename name) \<Rightarrow> ret (next\<lparr>c_name := name\<rparr>) s
      | _ \<Rightarrow> ret next s)"

text \<open>\<open>putMessage\<close>, the list in memory and the pending bubbles.\<close>

definition store_message :: "stored_message \<Rightarrow> app \<Rightarrow> app" where
  "store_message msg s =
     (let s1 = on_db (put_message msg) s;
          s2 = (case loaded_of s1 (sm_conv_id msg) of
                  None \<Rightarrow> s1
                | Some loaded \<Rightarrow>
                    if \<not> list_ex (\<lambda>m. sm_seq m = sm_seq msg) loaded
                    then set_messages (sm_conv_id msg) (sort_key sm_seq (loaded @ [msg])) s1 else s1)
      in if list_ex (\<lambda>p. pm_client_msg_id p = sm_client_msg_id msg) (a_pending s2)
         then s2\<lparr>a_pending := filter (\<lambda>p. pm_client_msg_id p \<noteq> sm_client_msg_id msg) (a_pending s2)\<rparr>
         else s2)"

definition is_text_or_file :: "payload option \<Rightarrow> bool" where
  "is_text_or_file p = (case p of Some (Text _ _) \<Rightarrow> True | Some (File _) \<Rightarrow> True | _ \<Rightarrow> False)"

text \<open>The end of \<open>applyStored\<close>: preview, own messages count as read, persisting, notification.\<close>

definition finish_stored ::
  "session_info option \<Rightarrow> conversation \<Rightarrow> stored_message \<Rightarrow> string \<Rightarrow> conversation \<Rightarrow> app \<Rightarrow> unit result \<times> app" where
  "finish_stored si conv msg preview next s =
     (let next = (if preview \<noteq> [] \<and> (c_last_message conv = None \<or> c_synced_seq conv \<le> sm_seq msg)
                  then next\<lparr>c_last_message := Some \<lparr>lm_text = preview, lm_ts = sm_ts msg,
                              lm_sender = sm_sender msg, lm_seq = Some (sm_seq msg)\<rparr>,
                            c_updated_at := max (c_updated_at conv) (sm_server_ts msg)\<rparr>
                  else next) in
      case si of
        None \<Rightarrow> throw type_error s
      | Some si \<Rightarrow>
          let mine = (sm_sender msg = si_account_id si);
              next = (if mine \<and> c_read_seq next < sm_seq msg then next\<lparr>c_read_seq := sm_seq msg\<rparr> else next);
              s = persist_conversation next s;
              p = sm_payload msg
          in if is_text_or_file p \<and> \<not> mine \<and> c_read_seq conv < sm_seq msg
             then ret () (maybe_notify next msg (case p of Some (Text b _) \<Rightarrow> b | _ \<Rightarrow> preview)
                    (unhide_chat (c_id conv) s))
             else ret () s)"

text \<open>
  The rest of \<open>applyStored\<close>, from its first suspension on: \<open>si\<close> and \<open>conv\<close> are what the function read
  before it, and the state may have changed in between.
\<close>

definition apply_stored_rest :: "session_info option \<Rightarrow> conversation \<Rightarrow> stored_message \<Rightarrow> app \<Rightarrow> unit result \<times> app" where
  "apply_stored_rest si conv msg s =
     (let s = store_message msg s;
          next = conv\<lparr>c_synced_seq := max (c_synced_seq conv) (sm_seq msg),
                      c_last_seq := max (c_last_seq conv) (sm_seq msg)\<rparr>;
          p = sm_payload msg in
      then_ok (if sm_seq msg > c_roster_seq conv then apply_event p (sm_seq msg) next s else ret next s) (\<lambda>next s.
      then_ok (preview_of (a_dict s) p (sm_error msg), s) (\<lambda>preview s.
      finish_stored si conv msg preview next s)))"

definition apply_stored :: "stored_message \<Rightarrow> app \<Rightarrow> unit result \<times> app" where
  "apply_stored msg s =
     (case conv_of s (sm_conv_id msg) of
        None \<Rightarrow> ret () s
      | Some conv \<Rightarrow>
          if is_expired s conv (sm_server_ts msg) then ret () s
          else
            (case sm_payload msg of
               Some (TextEdit r b) \<Rightarrow>
                 ret () (advance_silently (c_id conv) (sm_seq msg) (apply_edit (c_id conv) msg r b s))
             | _ \<Rightarrow> apply_stored_rest (a_session s) conv msg s))"

section \<open>Incoming envelopes\<close>

text \<open>
  The \<open>try\<close> block of \<open>handleIncoming\<close> once the sender is looked up: the payload, the error text and
  the timestamp the message is stored with. A payload without a string \<open>t\<close> is kept next to its
  error.
\<close>

definition read_view ::
  "world \<Rightarrow> message_view \<Rightarrow> session_info \<Rightarrow> account_keys \<Rightarrow> contact option \<Rightarrow> payload option \<times> string option \<times> int" where
  "read_view W view si k sender =
     (let fail = (\<lambda>e ts. (None, Some (err_message e), ts)) in
      case sender of
        None \<Rightarrow> fail (JsError ''unknown sender'') (m_server_ts view)
      | Some c \<Rightarrow>
        case b64decode (m_env view) of Inl e \<Rightarrow> fail e (m_server_ts view) | Inr env \<Rightarrow>
        case b64decode (m_sig view) of Inl e \<Rightarrow> fail e (m_server_ts view) | Inr sig \<Rightarrow>
        if \<not> verify_envelope (w_crypto W) (ct_sign_pub c) env sig
        then fail (JsError ''invalid signature'') (m_server_ts view)
        else case parse env of Inl e \<Rightarrow> fail e (m_server_ts view) | Inr parsed \<Rightarrow>
        if h_sender parsed \<noteq> m_sender_account view \<or> h_conv parsed \<noteq> m_conv_id view
        then fail (JsError ''envelope header mismatch'') (m_server_ts view)
        else case decrypt (w_crypto W) parsed (si_account_id si) (enc_priv k) of
          Inl e \<Rightarrow> fail e (h_ts parsed)
        | Inr plain \<Rightarrow>
          case w_read_payload W plain of
            Inl e \<Rightarrow> fail e (h_ts parsed)
          | Inr None \<Rightarrow> fail (JsError ''malformed payload'') (h_ts parsed)
          | Inr (Some p) \<Rightarrow>
              if payload_t p = None then (Some p, Some ''malformed payload'', h_ts parsed)
              else (Some p, None, h_ts parsed))"

text \<open>A signal goes to the call or the voice handler; it is recorded in the order of the calls.\<close>

definition deliver_signal :: "message_view \<Rightarrow> payload option \<Rightarrow> app \<Rightarrow> unit result \<times> app" where
  "deliver_signal view p s =
     (case p of
        None \<Rightarrow> ret () s
      | Some q \<Rightarrow>
          (case payload_t q of
             None \<Rightarrow> throw type_error s
           | Some t \<Rightarrow>
               if starts_with ''call.'' t \<or> starts_with ''voice.'' t
               then ret () (s\<lparr>a_signals := a_signals s @ [(m_sender_account view, m_sender_device view, m_conv_id view, q)]\<rparr>)
               else ret () s))"

definition look_up_sender :: "world \<Rightarrow> message_view \<Rightarrow> app \<Rightarrow> contact option result \<times> app" where
  "look_up_sender W view s =
     (case contact_of s (m_sender_account view) of
        Some c \<Rightarrow> ret (Some c) s
      | None \<Rightarrow>
          then_ok (refresh_conversation_inline W (m_conv_id view) s)
            (\<lambda>_ s. ret (contact_of s (m_sender_account view)) s))"

definition handle_incoming :: "world \<Rightarrow> message_view \<Rightarrow> bool \<Rightarrow> app \<Rightarrow> unit result \<times> app" where
  "handle_incoming W view stored s =
     (case a_session s of None \<Rightarrow> ret () s | Some si \<Rightarrow>
      case a_keys s of None \<Rightarrow> ret () s | Some k \<Rightarrow>
      if stored \<and> m_deleted_seq view \<noteq> None \<and> m_deleted_seq view \<noteq> Some 0
      then apply_deletion view (the (m_deleted_seq view)) s
      else
        then_ok (look_up_sender W view s) (\<lambda>sender s.
          let (p, err, ts) = read_view W view si k sender in
          if \<not> stored then deliver_signal view p s
          else apply_stored
            \<lparr>sm_conv_id = m_conv_id view, sm_seq = m_seq view, sm_client_msg_id = m_client_msg_id view,
             sm_sender = m_sender_account view, sm_sender_device = m_sender_device view, sm_ts = ts,
             sm_server_ts = m_server_ts view, sm_payload = p, sm_error = err, sm_edited = False\<rparr> s))"

section \<open>The sync loops\<close>

fun backfill_loop :: "world \<Rightarrow> nat \<Rightarrow> string \<Rightarrow> int \<Rightarrow> app \<Rightarrow> unit result \<times> app" where
  "backfill_loop W 0 conv_id after s = throw Diverged s"
| "backfill_loop W (Suc fuel) conv_id after s =
     then_ok (http_messages W conv_id after 200 s) (\<lambda>page s.
     then_ok (for_each (\<lambda>m. handle_incoming W m True) (page_messages page) s) (\<lambda>_ s.
       if page_has_more page
       then backfill_loop W fuel conv_id (foldl (\<lambda>a m. max a (m_seq m)) after (page_messages page)) s
       else ret () s))"

definition backfill :: "world \<Rightarrow> nat \<Rightarrow> string \<Rightarrow> app \<Rightarrow> unit result \<times> app" where
  "backfill W fuel conv_id s =
     (case conv_of s conv_id of
        None \<Rightarrow> ret () s
      | Some conv \<Rightarrow> backfill_loop W fuel conv_id (max (c_synced_seq conv) (c_joined_seq conv)) s)"

definition refresh_conversation :: "world \<Rightarrow> nat \<Rightarrow> string \<Rightarrow> app \<Rightarrow> unit result \<times> app" where
  "refresh_conversation W fuel ident s =
     attempt (then_ok (http_conversation W ident s) (\<lambda>cv s.
              then_ok (upsert_from_server cv s) (\<lambda>_ s. backfill W fuel ident s)))
       (\<lambda>e. ret ())"

definition on_live_message :: "world \<Rightarrow> nat \<Rightarrow> message_view \<Rightarrow> app \<Rightarrow> unit result \<times> app" where
  "on_live_message W fuel view s =
     then_ok (case conv_of s (m_conv_id view) of
                Some conv \<Rightarrow> if c_removed conv then refresh_conversation_inline W (m_conv_id view) s else ret () s
              | None \<Rightarrow> refresh_conversation_inline W (m_conv_id view) s) (\<lambda>_ s.
       case conv_of s (m_conv_id view) of
         None \<Rightarrow> ret () s
       | Some conv \<Rightarrow>
           then_ok (if m_seq view > max (c_synced_seq conv) (c_joined_seq conv) + 1
                    then backfill W fuel (m_conv_id view) s else ret () s)
             (\<lambda>_ s. handle_incoming W view True s))"

definition on_event :: "world \<Rightarrow> nat \<Rightarrow> event_payload \<Rightarrow> app \<Rightarrow> unit result \<times> app" where
  "on_event W fuel ev s =
     (if ev_kind ev = ''password.changed'' then
        ret () (if ev_device_id ev \<noteq> map_option si_device_id (a_session s)
                then s\<lparr>a_password_changed := Some (case ev_at ev of Some t \<Rightarrow> t | None \<Rightarrow> 0)\<rparr> else s)
      else case ev_conv_id ev of
        None \<Rightarrow> ret () s
      | Some i \<Rightarrow>
          if i = [] then ret () s
          else if ev_kind ev \<in> {''conv.updated'', ''member.added'', ''member.removed''}
          then refresh_conversation W fuel i s
          else if ev_kind ev = ''conv.removed'' then
            (let s1 = (case conv_of s i of None \<Rightarrow> s | Some c \<Rightarrow> persist_conversation (c\<lparr>c_removed := True\<rparr>) s)
             in ret () (if a_selected s1 = Some i then s1\<lparr>a_selected := None\<rparr> else s1))
          else if ev_kind ev = ''read.updated'' then
            ret () (case conv_of s i of
                 None \<Rightarrow> s
               | Some c \<Rightarrow> (case ev_seq ev of
                    None \<Rightarrow> s
                  | Some q \<Rightarrow> if c_read_seq c < q then persist_conversation (c\<lparr>c_read_seq := q\<rparr>) s else s))
          else ret () s)"

text \<open>Conversations the server no longer lists are marked removed.\<close>

definition mark_missing :: "string list \<Rightarrow> conversation \<Rightarrow> app \<Rightarrow> app" where
  "mark_missing seen c s =
     (if c_id c \<notin> set seen \<and> \<not> c_removed c then persist_conversation (c\<lparr>c_removed := True\<rparr>) s else s)"

definition full_sync_body :: "world \<Rightarrow> nat \<Rightarrow> app \<Rightarrow> unit result \<times> app" where
  "full_sync_body W fuel s =
     then_ok (http_conversations W s) (\<lambda>list s.
     then_ok (for_each (\<lambda>cv s. then_ok (upsert_from_server cv s) (\<lambda>_. ret ())) list s) (\<lambda>_ s.
     let s = foldl (\<lambda>s c. mark_missing (map cv_id list) c s) s (map snd (a_conversations s)) in
     then_ok (for_each (\<lambda>cv s. backfill W fuel (cv_id cv) s) list s) (\<lambda>_ s.
     ret () (purge_expired s))))"

definition full_sync :: "world \<Rightarrow> nat \<Rightarrow> app \<Rightarrow> unit result \<times> app" where
  "full_sync W fuel s =
     (if a_syncing s then ret () s
      else then_ok (attempt (full_sync_body W fuel (s\<lparr>a_syncing := True\<rparr>)) (\<lambda>e. ret ()))
             (\<lambda>_ s. ret () (s\<lparr>a_syncing := False\<rparr>)))"

fun history_steps :: "world \<Rightarrow> nat \<Rightarrow> conversation list \<Rightarrow> nat \<Rightarrow> nat \<Rightarrow> app \<Rightarrow> unit result \<times> app" where
  "history_steps W fuel [] i tot s = ret () s"
| "history_steps W fuel (c # cs) i tot s =
     then_ok (attempt (backfill W fuel (c_id c) s) (\<lambda>e. ret ()))
       (\<lambda>_ s. history_steps W fuel cs (i + 1) tot (s\<lparr>a_history := Some (i + 1, tot)\<rparr>))"

definition load_all_history :: "world \<Rightarrow> nat \<Rightarrow> app \<Rightarrow> unit result \<times> app" where
  "load_all_history W fuel s =
     (if a_history s \<noteq> None then ret () s
      else let list = filter (\<lambda>c. \<not> c_removed c) (map snd (a_conversations s)) in
        then_ok (history_steps W fuel list 0 (length list) (s\<lparr>a_history := Some (0, length list)\<rparr>))
          (\<lambda>_ s. ret () (s\<lparr>a_history := None\<rparr>)))"

definition load_local_state :: "app \<Rightarrow> app" where
  "load_local_state s = s\<lparr>
     a_contacts := foldl (\<lambda>m c. jset (ct_id c) c m) [] (all_contacts (a_db s)),
     a_conversations := foldl (\<lambda>m c. jset (c_id c) c m) [] (all_conversations (a_db s))\<rparr>"

definition ensure_messages_loaded :: "string \<Rightarrow> app \<Rightarrow> app" where
  "ensure_messages_loaded conv_id s =
     (if loaded_of s conv_id \<noteq> None then s else set_messages conv_id (messages_for conv_id (a_db s)) s)"

end
