(* ===== verification/SyncFacts.thy ===== *)
theory SyncFacts
  imports Sync
begin

text \<open>
  What the sync engine keeps true. The well-formedness of the state is preserved by every handler;
  the locale \<open>sync_frame\<close> lifts any relation that the few primitive changes respect to all handlers.
\<close>

section \<open>Well-formed states\<close>

definition convs_inv :: "app \<Rightarrow> bool" where
  "convs_inv s \<longleftrightarrow> jmap_inv (a_conversations s) \<and> (\<forall>i c. conv_of s i = Some c \<longrightarrow> c_id c = i)"

definition loaded_inv :: "app \<Rightarrow> bool" where
  "loaded_inv s \<longleftrightarrow> (\<forall>i l. loaded_of s i = Some l \<longrightarrow>
     sorted_wrt (<) (map sm_seq l) \<and> (\<forall>m \<in> set l. sm_conv_id m = i))"

definition app_inv :: "app \<Rightarrow> bool" where
  "app_inv s \<longleftrightarrow> convs_inv s \<and> contacts_inv s \<and> db_inv (a_db s) \<and> loaded_inv s"

lemma app_invD:
  assumes "app_inv s"
  shows "jmap_inv (a_conversations s)" "contacts_inv s" "db_inv (a_db s)" "loaded_inv s" "convs_inv s"
    "conv_of s i = Some c \<Longrightarrow> c_id c = i" "contact_of s i = Some k \<Longrightarrow> ct_id k = i"
    "loaded_of s i = Some l \<Longrightarrow> sorted_wrt (<) (map sm_seq l)"
    "loaded_of s i = Some l \<Longrightarrow> m \<in> set l \<Longrightarrow> sm_conv_id m = i"
  using assms by (auto simp: app_inv_def convs_inv_def loaded_inv_def contacts_inv_def)

lemma app_inv_core:
  "app_inv s \<Longrightarrow> a_conversations t = a_conversations s \<Longrightarrow> a_contacts t = a_contacts s \<Longrightarrow>
     a_messages t = a_messages s \<Longrightarrow> a_db t = a_db s \<Longrightarrow> app_inv t"
  by (simp add: app_inv_def convs_inv_def contacts_inv_def loaded_inv_def)

lemma app_inv_persist: "app_inv s \<Longrightarrow> app_inv (persist_conversation c s)"
  unfolding app_inv_def persist_conversation_def
  by (auto simp: convs_inv_def contacts_inv_def loaded_inv_def db_inv_put_conversation jm.inv_put
      set_conversation_def update_conv' split: if_splits)

lemma app_inv_save_contact: "app_inv s \<Longrightarrow> app_inv (save_contact c s)"
  unfolding app_inv_def
  by (simp add: contacts_inv_save, simp add: save_contact_def convs_inv_def loaded_inv_def db_inv_put_contact)

lemma app_inv_observe: "app_inv s \<Longrightarrow> app_inv (observe_keys i u sp ep bt disp s)"
  unfolding observe_keys_def Let_def by (simp add: app_inv_save_contact split: option.split prod.split if_split)

lemma app_inv_messages:
  "app_inv s \<Longrightarrow> sorted_wrt (<) (map sm_seq l) \<Longrightarrow> \<forall>m \<in> set l. sm_conv_id m = i \<Longrightarrow> app_inv (set_messages i l s)"
  by (auto simp: app_inv_def convs_inv_def contacts_inv_def loaded_inv_def split: if_splits)

lemma app_inv_on_db: "app_inv s \<Longrightarrow> db_inv (f (a_db s)) \<Longrightarrow> app_inv (on_db f s)"
  by (auto simp: app_inv_def convs_inv_def contacts_inv_def loaded_inv_def)

lemma strict_sorted_sort_key:
  "distinct (map f l) \<Longrightarrow> sorted_wrt (<) (map f (sort_key f l :: 'a list) :: int list)"
  by (simp add: strict_sorted_iff distinct_map)

lemma app_inv_store: "app_inv s \<Longrightarrow> app_inv (store_message msg s)"
proof -
  assume inv: "app_inv s"
  let ?s1 = "on_db (put_message msg) s"
  have inv1: "app_inv ?s1" by (rule app_inv_on_db [OF inv]) (simp add: db_inv_put_message app_invD [OF inv])
  have "app_inv (set_messages (sm_conv_id msg) (sort_key sm_seq (l @ [msg])) ?s1)"
    if l: "loaded_of ?s1 (sm_conv_id msg) = Some l" and new: "\<not> list_ex (\<lambda>m. sm_seq m = sm_seq msg) l" for l
  proof (rule app_inv_messages [OF inv1])
    have "distinct (map sm_seq l)" using app_invD(8) [OF inv1 l] by (simp add: strict_sorted_iff)
    then show "sorted_wrt (<) (map sm_seq (sort_key sm_seq (l @ [msg])))"
      using new by (intro strict_sorted_sort_key) (auto simp: list_ex_iff)
    show "\<forall>m \<in> set (sort_key sm_seq (l @ [msg])). sm_conv_id m = sm_conv_id msg"
      using app_invD(9) [OF inv1 l] by auto
  qed
  then show ?thesis
    using inv1 unfolding store_message_def Let_def
    by (auto split: option.split intro: app_inv_core)
qed

lemma sorted_wrt_filter_map: "sorted_wrt (<) (map f l) \<Longrightarrow> sorted_wrt (<) (map f (filter P l))"
  by (induction l) auto

lemma app_inv_rewrite:
  assumes "app_inv s" and "sm_conv_id updated = conv_id" and "sm_seq updated = seq"
  shows "app_inv (rewrite_message conv_id seq updated s)"
proof -
  let ?s1 = "on_db (put_message updated) s"
  have inv1: "app_inv ?s1" by (rule app_inv_on_db) (use assms in \<open>simp_all add: db_inv_put_message app_invD\<close>)
  have "app_inv (set_messages conv_id (map (\<lambda>x. if sm_seq x = seq then updated else x) l) ?s1)"
    if l: "loaded_of ?s1 conv_id = Some l" for l
  proof (rule app_inv_messages [OF inv1])
    have "map sm_seq (map (\<lambda>x. if sm_seq x = seq then updated else x) l) = map sm_seq l"
      using assms(3) by simp
    then show "sorted_wrt (<) (map sm_seq (map (\<lambda>x. if sm_seq x = seq then updated else x) l))"
      using app_invD(8) [OF inv1 l] by (simp only:)
    show "\<forall>m \<in> set (map (\<lambda>x. if sm_seq x = seq then updated else x) l). sm_conv_id m = conv_id"
      using app_invD(9) [OF inv1 l] assms(2) by auto
  qed
  then show ?thesis using inv1 by (simp add: rewrite_message_def Let_def split: option.split)
qed

lemma app_inv_forget: "app_inv s \<Longrightarrow> app_inv (forget_message conv_id seq s)"
proof -
  assume inv: "app_inv s"
  have inv1: "app_inv (on_db (delete_stored_message conv_id seq) s)"
    by (rule app_inv_on_db [OF inv]) (simp add: db_inv_delete app_invD [OF inv])
  then show ?thesis
    by (auto simp: forget_message_def Let_def split: option.split
        intro!: app_inv_messages sorted_wrt_filter_map dest: app_invD(8,9))
qed

lemma app_inv_forget_before: "app_inv s \<Longrightarrow> app_inv (snd (forget_before conv_id cutoff s))"
proof -
  assume inv: "app_inv s"
  have inv1: "app_inv (on_db (\<lambda>_. snd (delete_messages_before conv_id cutoff (a_db s))) s)"
    by (rule app_inv_on_db [OF inv]) (simp add: db_inv_delete_before app_invD [OF inv])
  then show ?thesis
    by (auto simp: forget_before_def Let_def case_prod_beta split: option.split
        intro!: app_inv_messages sorted_wrt_filter_map dest: app_invD(8,9))
qed


lemma app_inv_message_key:
  assumes "app_inv s" and "get_message i q (a_db s) = Some m"
  shows "sm_conv_id m = i \<and> sm_seq m = q"
proof -
  have "db_inv (a_db s)" using assms(1) by (simp add: app_invD)
  with assms(2) show ?thesis
    by (auto simp: db_inv_def get_message_def msg_key_def in_store_iff [symmetric])
qed

section \<open>Which parts a step touches\<close>

lemma save_contact_conversations [simp]:
  "a_conversations (save_contact c s) = a_conversations s" "a_messages (save_contact c s) = a_messages s"
  "a_session (save_contact c s) = a_session s" "a_keys (save_contact c s) = a_keys s"
  "a_now (save_contact c s) = a_now s" "a_settings (save_contact c s) = a_settings s"
  "db_messages (a_db (save_contact c s)) = db_messages (a_db s)" "a_requests (save_contact c s) = a_requests s"
  "a_signals (save_contact c s) = a_signals s"
  by (simp_all add: save_contact_def put_contact_def)

lemma observe_frame [simp]:
  "a_conversations (observe_keys i u sp ep bt disp s) = a_conversations s"
  "a_messages (observe_keys i u sp ep bt disp s) = a_messages s"
  "a_session (observe_keys i u sp ep bt disp s) = a_session s"
  "a_keys (observe_keys i u sp ep bt disp s) = a_keys s"
  "a_now (observe_keys i u sp ep bt disp s) = a_now s"
  "a_settings (observe_keys i u sp ep bt disp s) = a_settings s"
  "db_messages (a_db (observe_keys i u sp ep bt disp s)) = db_messages (a_db s)"
  "a_requests (observe_keys i u sp ep bt disp s) = a_requests s"
  "a_signals (observe_keys i u sp ep bt disp s) = a_signals s"
  unfolding observe_keys_def Let_def by (simp_all split: option.split prod.split)

lemma roster_frame [simp]:
  "a_conversations (snd (apply_roster ms s)) = a_conversations s"
  "a_messages (snd (apply_roster ms s)) = a_messages s"
  "a_session (snd (apply_roster ms s)) = a_session s"
  "a_keys (snd (apply_roster ms s)) = a_keys s"
  "a_now (snd (apply_roster ms s)) = a_now s"
  "db_messages (a_db (snd (apply_roster ms s))) = db_messages (a_db s)"
  by (induction ms arbitrary: s) (auto simp: Let_def case_prod_beta split: option.splits)

lemma store_frame [simp]:
  "a_conversations (store_message msg s) = a_conversations s" "a_contacts (store_message msg s) = a_contacts s"
  "a_session (store_message msg s) = a_session s"
  "a_db (store_message msg s) = put_message msg (a_db s)"
  by (auto simp: store_message_def Let_def split: option.split)

lemma rewrite_frame [simp]:
  "a_conversations (rewrite_message i q m s) = a_conversations s" "a_contacts (rewrite_message i q m s) = a_contacts s"
  "a_db (rewrite_message i q m s) = put_message m (a_db s)"
  by (simp_all add: rewrite_message_def Let_def split: option.split)

lemma forget_frame [simp]:
  "a_conversations (forget_message i q s) = a_conversations s" "a_contacts (forget_message i q s) = a_contacts s"
  "a_db (forget_message i q s) = delete_stored_message i q (a_db s)"
  by (simp_all add: forget_message_def Let_def split: option.split)

lemma forget_before_frame [simp]:
  "a_conversations (snd (forget_before i t s)) = a_conversations s"
  "a_contacts (snd (forget_before i t s)) = a_contacts s"
  "a_db (snd (forget_before i t s)) = snd (delete_messages_before i t (a_db s))"
  "fst (forget_before i t s) = fst (delete_messages_before i t (a_db s))"
  by (simp_all add: forget_before_def Let_def case_prod_beta split: option.split)

lemma persist_frame [simp]:
  "a_contacts (persist_conversation c s) = a_contacts s" "a_messages (persist_conversation c s) = a_messages s"
  "conv_of (persist_conversation c s) i = (if i = c_id c then Some c else conv_of s i)"
  "a_session (persist_conversation c s) = a_session s" "a_keys (persist_conversation c s) = a_keys s"
  "db_messages (a_db (persist_conversation c s)) = db_messages (a_db s)"
  "a_now (persist_conversation c s) = a_now s" "a_settings (persist_conversation c s) = a_settings s"
  "a_pending (persist_conversation c s) = a_pending s"
  by (simp_all add: persist_conversation_def put_conversation_def)

lemma notify_frame [simp]:
  "a_conversations (maybe_notify c m b s) = a_conversations s" "a_contacts (maybe_notify c m b s) = a_contacts s"
  "a_messages (maybe_notify c m b s) = a_messages s" "a_db (maybe_notify c m b s) = a_db s"
  by (simp_all add: maybe_notify_def Let_def)

text \<open>A membership event changes the name and the roster, never the cursors.\<close>

lemma apply_event_result:
  assumes "apply_event p q next s = (Inr n, t)"
  shows "c_id n = c_id next \<and> c_synced_seq n = c_synced_seq next \<and> c_last_seq n = c_last_seq next
    \<and> c_read_seq n = c_read_seq next"
  using assms unfolding apply_event_def
  by (auto simp: ret_def throw_def Let_def case_prod_beta split: option.splits payload.splits if_splits)

lemma apply_event_state:
  "snd (apply_event p q next s) = s \<or> (\<exists>ms. snd (apply_event p q next s) = snd (apply_roster ms s))"
  unfolding apply_event_def
  by (auto simp: ret_def throw_def Let_def case_prod_beta split: option.split payload.split)

lemma apply_event_conversations [simp]: "a_conversations (snd (apply_event p q next s)) = a_conversations s"
  using apply_event_state [of p q "next" s] by auto

lemma conv_of_purge_other: "j \<noteq> c_id conv \<Longrightarrow> conv_of (purge_conversation conv s) j = conv_of s j"
  unfolding purge_conversation_def Let_def case_prod_beta by (simp split: option.split)

lemma conv_of_mark_other: "j \<noteq> c_id c \<Longrightarrow> conv_of (mark_missing seen c s) j = conv_of s j"
  by (simp add: mark_missing_def)

section \<open>Lifting a relation to the handlers\<close>

text \<open>A conversation never goes back: its cursors only grow.\<close>

definition conv_le :: "conversation \<Rightarrow> conversation \<Rightarrow> bool" where
  "conv_le c c' \<longleftrightarrow> c_id c' = c_id c \<and> c_synced_seq c \<le> c_synced_seq c' \<and> c_last_seq c \<le> c_last_seq c'
     \<and> c_read_seq c \<le> c_read_seq c'"

lemma conv_le_refl [simp]: "conv_le c c"
  by (simp add: conv_le_def)

lemma conv_le_trans: "conv_le a b \<Longrightarrow> conv_le b c \<Longrightarrow> conv_le a c"
  by (auto simp: conv_le_def)

text \<open>
  A relation on states that tolerates every change outside conversations and contacts, observed keys,
  and conversations replaced by later ones. \<open>lift\<close> adds the preservation of the invariant.
\<close>

locale sync_frame =
  fixes Q :: "app \<Rightarrow> app \<Rightarrow> bool"
  assumes Q_trans: "Q s t \<Longrightarrow> Q t t2 \<Longrightarrow> Q s t2"
    and Q_quiet: "a_conversations t = a_conversations s \<Longrightarrow> a_contacts t = a_contacts s \<Longrightarrow> Q s t"
    and Q_observe: "app_inv s \<Longrightarrow> Q s (observe_keys i nm sp ep bt disp s)"
    and Q_persist: "app_inv s \<Longrightarrow> (\<And>c. conv_of s (c_id c') = Some c \<Longrightarrow> conv_le c c') \<Longrightarrow>
      Q s (persist_conversation c' s)"
begin

definition lift :: "app \<Rightarrow> app \<Rightarrow> bool" where
  "lift s t \<longleftrightarrow> (app_inv s \<longrightarrow> app_inv t \<and> Q s t)"

lemma liftI: "(app_inv s \<Longrightarrow> app_inv t) \<Longrightarrow> (app_inv s \<Longrightarrow> Q s t) \<Longrightarrow> lift s t"
  by (simp add: lift_def)

lemma liftD: "lift s t \<Longrightarrow> app_inv s \<Longrightarrow> app_inv t" "lift s t \<Longrightarrow> app_inv s \<Longrightarrow> Q s t"
  by (simp_all add: lift_def)

lemma lift_refl [simp]: "lift s s"
  by (simp add: lift_def Q_quiet)

lemma lift_trans: "lift s t \<Longrightarrow> lift t u \<Longrightarrow> lift s u"
  unfolding lift_def using Q_trans by blast

sublocale lifted: frame lift
  by unfold_locales (auto intro: lift_trans)

lemma lift_core:
  "a_conversations t = a_conversations s \<Longrightarrow> a_contacts t = a_contacts s \<Longrightarrow> a_messages t = a_messages s \<Longrightarrow>
     a_db t = a_db s \<Longrightarrow> lift s t"
  by (rule liftI) (auto intro: app_inv_core Q_quiet)

lemma lift_request [simp]: "lift s (request r s)"
  by (rule lift_core) simp_all

lemma lift_observe: "lift s (observe_keys i u sp ep bt disp s)"
  by (rule liftI) (simp_all add: app_inv_observe Q_observe)

lemma lift_persist:
  "(\<And>c. app_inv s \<Longrightarrow> conv_of s (c_id c') = Some c \<Longrightarrow> conv_le c c') \<Longrightarrow> lift s (persist_conversation c' s)"
  by (rule liftI) (auto simp: app_inv_persist intro: Q_persist)

lemma lift_quiet:
  "(app_inv s \<Longrightarrow> app_inv t) \<Longrightarrow> a_conversations t = a_conversations s \<Longrightarrow> a_contacts t = a_contacts s \<Longrightarrow> lift s t"
  by (rule liftI) (auto intro: Q_quiet)

lemma lift_apply_roster: "lift s (snd (apply_roster ms s))"
proof (induction ms arbitrary: s)
  case Nil
  then show ?case by simp
next
  case (Cons m ms)
  then have step: "lift s (snd (apply_roster ms (observe_keys i u sp ep None None s)))" for i u sp ep
    using lift_trans lift_observe by blast
  show ?case
    using Cons.IH step by (auto simp: Let_def case_prod_beta split: option.splits)
qed

lemma lift_apply_event: "lift s (snd (apply_event p q next s))"
  using apply_event_state [of p q "next" s] lift_apply_roster by auto

lemma lift_store: "lift s (store_message msg s)"
  by (rule lift_quiet) (simp_all add: app_inv_store)

lemma lift_forget: "lift s (forget_message i q s)"
  by (rule lift_quiet) (simp_all add: app_inv_forget)

lemma lift_forget_before: "lift s (snd (forget_before i t s))"
  by (rule lift_quiet) (simp_all add: app_inv_forget_before)

text \<open>Replacing the conversation a handler has just read by one with the same cursors.\<close>

lemma lift_persist_update:
  assumes "conv_of s i = Some conv" and "app_inv s \<Longrightarrow> c_id c' = i" and "conv_le conv c'"
  shows "lift s (persist_conversation c' s)"
  by (rule lift_persist) (use assms in auto)

lemma lift_set_message_body: "lift s (set_message_body i q body ed s)"
proof -
  have rw: "lift s (rewrite_message i q (m\<lparr>sm_payload := p, sm_edited := ed\<rparr>) s)"
    if "get_message i q (a_db s) = Some m" for m p
    by (rule lift_quiet) (use app_inv_message_key [OF _ that] in \<open>auto intro!: app_inv_rewrite\<close>)
  have le: "lift t (persist_conversation (c\<lparr>c_last_message := lm\<rparr>) t)" if "conv_of t i = Some c" for t c lm
    by (rule lift_persist_update [OF that]) (use that in \<open>auto simp: conv_le_def dest: app_invD(6)\<close>)
  show ?thesis
    unfolding set_message_body_def Let_def
    by (auto split: option.split payload.split intro: rw lift_trans [OF rw le])
qed

lemma lift_apply_edit: "lift s (apply_edit i msg r b s)"
  unfolding apply_edit_def by (auto split: option.split simp: lift_set_message_body)

lemma lift_remove_local_message: "lift s (snd (remove_local_message i q s))"
proof -
  have le: "lift t (persist_conversation (c\<lparr>c_last_message := lm\<rparr>) t)" if "conv_of t i = Some c" for t c lm
    by (rule lift_persist_update [OF that]) (use that in \<open>auto simp: conv_le_def dest: app_invD(6)\<close>)
  show ?thesis
    unfolding remove_local_message_def Let_def then_ok_def
    by (auto split: option.split sum.split simp: lift_forget intro: lift_trans [OF lift_forget le])
qed

lemma lift_advance: "lift s (advance_silently i q s)"
proof (cases "conv_of s i")
  case None
  then show ?thesis by (simp add: advance_silently_def)
next
  case (Some conv)
  let ?n = "conv\<lparr>c_synced_seq := max (c_synced_seq conv) q, c_last_seq := max (c_last_seq conv) q\<rparr>"
  have "lift s (persist_conversation ?n s)"
    by (rule lift_persist_update [OF Some]) (use Some in \<open>auto simp: conv_le_def dest: app_invD(6)\<close>)
  moreover have "lift s (persist_conversation (?n\<lparr>c_read_seq := q\<rparr>) (request (RMarkRead i q) s))"
    if "c_read_seq conv < q"
    by (rule lift_trans [OF lift_request], rule lift_persist_update [of _ i conv])
      (use Some that in \<open>auto simp: conv_le_def dest: app_invD(6)\<close>)
  ultimately show ?thesis using Some by (simp add: advance_silently_def Let_def)
qed

lemma lift_apply_deletion: "lift s (snd (apply_deletion view q s))"
  unfolding apply_deletion_def
  by (auto intro!: lifted.frame_then_ok lift_remove_local_message simp: lift_advance)

lemma lift_observe_member: "lift s (snd (observe_member m s))"
  unfolding observe_member_def by (auto split: sum.split simp: lift_observe)

lemma lift_upsert: "lift s (snd (upsert_from_server cv s))"
proof -
  have "lift t (persist_conversation (merge_conversation cv
      (case conv_of t (cv_id cv) of Some e \<Rightarrow> e | None \<Rightarrow> fresh_conversation cv)) t)" for t
    by (rule lift_persist)
      (auto simp: merge_conversation_def fresh_conversation_def conv_le_def dest: app_invD(6) split: option.splits)
  then show ?thesis
    unfolding upsert_from_server_def Let_def
    by (auto intro!: lifted.frame_then_ok lifted.frame_for_each lift_observe_member)
qed

lemma lift_http [simp]:
  "lift s (snd (http_conversations W s))" "lift s (snd (http_conversation W i s))"
  "lift s (snd (http_messages W i after n s))"
  by (simp_all add: http_conversations_def http_conversation_def http_messages_def Let_def)

lemma lift_refresh_inline: "lift s (snd (refresh_conversation_inline W i s))"
  unfolding refresh_conversation_inline_def
  by (auto intro!: lifted.frame_attempt lifted.frame_then_ok lift_upsert)

lemma lift_finish_stored:
  assumes "conv_of s (c_id conv) = Some conv" and "conv_le conv n"
  shows "lift s (snd (finish_stored si conv msg pv n s))"
proof -
  have per: "lift s (persist_conversation n' s)" if "conv_le conv n'" for n'
    by (rule lift_persist_update [OF assms(1)]) (use that in \<open>simp_all add: conv_le_def\<close>)
  have quiet: "lift t (maybe_notify c msg b (unhide_chat i t))" for t c b i
    by (rule lift_core) simp_all
  define n1 where "n1 = (if pv \<noteq> [] \<and> (c_last_message conv = None \<or> c_synced_seq conv \<le> sm_seq msg)
                  then n\<lparr>c_last_message := Some \<lparr>lm_text = pv, lm_ts = sm_ts msg,
                              lm_sender = sm_sender msg, lm_seq = Some (sm_seq msg)\<rparr>,
                            c_updated_at := max (c_updated_at conv) (sm_server_ts msg)\<rparr>
                  else n)"
  have n1: "conv_le conv n1" "c_read_seq n1 < q \<Longrightarrow> conv_le conv (n1\<lparr>c_read_seq := q\<rparr>)" for q
    using assms(2) by (auto simp: n1_def conv_le_def)
  show ?thesis
    unfolding finish_stored_def Let_def n1_def [symmetric]
    by (auto split: option.split simp: n1 per intro: lift_trans [OF per quiet])
qed

lemma lift_apply_stored_rest:
  assumes "app_inv s \<Longrightarrow> conv_of s (c_id conv) = Some conv"
  shows "lift s (snd (apply_stored_rest si conv msg s))"
proof (cases "app_inv s")
  case False
  then show ?thesis by (simp add: lift_def)
next
  case True
  let ?s1 = "store_message msg s"
  let ?n0 = "conv\<lparr>c_synced_seq := max (c_synced_seq conv) (sm_seq msg), c_last_seq := max (c_last_seq conv) (sm_seq msg)\<rparr>"
  define ev where "ev = (if sm_seq msg > c_roster_seq conv then apply_event (sm_payload msg) (sm_seq msg) ?n0 ?s1 else ret ?n0 ?s1)"
  have st: "lift s (snd ev)" "a_conversations (snd ev) = a_conversations s"
    using lift_trans [OF lift_store lift_apply_event] by (auto simp: lift_store ev_def)
  have fin: "lift s (snd (finish_stored si conv msg pv n (snd ev)))" if "fst ev = Inr n" for n pv
  proof -
    have "ev = (Inr n, snd ev)" using that by (simp only: prod_eq_iff fst_conv snd_conv simp_thms)
    then have "conv_le conv n"
      by (auto simp: conv_le_def ret_def ev_def dest!: apply_event_result split: if_splits)
    then show ?thesis
      using lift_trans [OF st(1) lift_finish_stored] assms [OF True] st(2) by simp
  qed
  show ?thesis
    unfolding apply_stored_rest_def Let_def ev_def [symmetric]
    using st(1) fin by (auto simp: then_ok_def split: sum.split)
qed

lemma lift_apply_stored: "lift s (snd (apply_stored msg s))"
proof (cases "conv_of s (sm_conv_id msg)")
  case None
  then show ?thesis by (simp add: apply_stored_def)
next
  case (Some conv)
  have "lift s (snd (apply_stored_rest (a_session s) conv msg s))"
    by (rule lift_apply_stored_rest) (use Some app_invD(6) in auto)
  moreover have "lift s (advance_silently i q (apply_edit i msg r b s))" for i q r b
    using lift_trans lift_apply_edit lift_advance by blast
  ultimately show ?thesis
    using Some unfolding apply_stored_def by (auto split: option.split payload.split)
qed

lemma lift_deliver: "lift s (snd (deliver_signal view p s))"
  unfolding deliver_signal_def by (auto split: option.split intro!: lift_core)

lemma lift_look_up: "lift s (snd (look_up_sender W view s))"
  unfolding look_up_sender_def by (auto split: option.split intro!: lifted.frame_then_ok lift_refresh_inline)

lemma lift_handle_incoming: "lift s (snd (handle_incoming W view stored s))"
  unfolding handle_incoming_def Let_def case_prod_beta
  by (auto split: option.split intro!: lifted.frame_then_ok lift_apply_deletion lift_look_up
      simp: lift_deliver lift_apply_stored)

lemma lift_backfill_loop: "lift s (snd (backfill_loop W fuel i after s))"
  by (induction fuel arbitrary: after s)
    (auto intro!: lifted.frame_then_ok lifted.frame_for_each lift_handle_incoming)

lemma lift_backfill: "lift s (snd (backfill W fuel i s))"
  unfolding backfill_def by (auto split: option.split simp: lift_backfill_loop)

lemma lift_refresh: "lift s (snd (refresh_conversation W fuel i s))"
  unfolding refresh_conversation_def
  by (auto intro!: lifted.frame_attempt lifted.frame_then_ok lift_upsert lift_backfill)

lemma lift_live: "lift s (snd (on_live_message W fuel view s))"
  unfolding on_live_message_def
  by (auto intro!: lifted.frame_then_ok split: option.split
      simp: lift_refresh_inline lift_backfill lift_handle_incoming)

lemma lift_event: "lift s (snd (on_event W fuel ev s))"
proof -
  have le: "lift t (persist_conversation c' t)" if "conv_of t i = Some c" "conv_le c c'" for t i c c'
    by (rule lift_persist_update [OF that(1)]) (use that in \<open>auto simp: conv_le_def dest: app_invD(6)\<close>)
  have sel: "lift t (t\<lparr>a_selected := None\<rparr>)" for t by (rule lift_core) simp_all
  have pw: "lift t (t\<lparr>a_password_changed := x\<rparr>)" for t x by (rule lift_core) simp_all
  show ?thesis
    unfolding on_event_def Let_def
    by (auto split: option.split simp: lift_refresh sel pw intro!: le lift_trans [OF le sel])
      (auto simp: conv_le_def)
qed

text \<open>A loop over a snapshot of the conversations, each step replacing its own conversation only.\<close>

lemma lift_snapshot:
  assumes "\<And>c t. conv_of t (c_id c) = Some c \<Longrightarrow> lift t (f c t)"
    and "\<And>c t j. j \<noteq> c_id c \<Longrightarrow> conv_of (f c t) j = conv_of t j"
  shows "distinct (map c_id L) \<Longrightarrow> \<forall>c \<in> set L. conv_of s (c_id c) = Some c \<Longrightarrow> lift s (foldl (\<lambda>s c. f c s) s L)"
proof (induction L arbitrary: s)
  case Nil
  then show ?case by simp
next
  case (Cons c L)
  have "lift s (f c s)" using Cons.prems by (intro assms(1)) simp
  moreover have "\<forall>c' \<in> set L. conv_of (f c s) (c_id c') = Some c'"
    using Cons.prems assms(2) by (metis (no_types, lifting) distinct.simps(2) image_eqI list.set_map list.simps(9) list.set_intros(2))
  then have "lift (f c s) (foldl (\<lambda>s c. f c s) (f c s) L)" using Cons by simp
  ultimately show ?case by (auto intro: lift_trans)
qed

lemma lift_all_conversations:
  assumes "\<And>c t. conv_of t (c_id c) = Some c \<Longrightarrow> lift t (f c t)"
    and "\<And>c t j. j \<noteq> c_id c \<Longrightarrow> conv_of (f c t) j = conv_of t j"
  shows "lift s (foldl (\<lambda>s c. f c s) s (map snd (a_conversations s)))"
proof (cases "app_inv s")
  case False
  then show ?thesis by (simp add: lift_def)
next
  case True
  then have d: "distinct (map fst (a_conversations s))" using app_invD(1) by (simp add: jmap_inv_def)
  have e: "conv_of s (fst e) = Some (snd e) \<and> c_id (snd e) = fst e" if "e \<in> set (a_conversations s)" for e
    using that d app_invD(6) [OF True] by (metis map_of_is_SomeI prod.collapse)
  have "map c_id (map snd (a_conversations s)) = map fst (a_conversations s)"
    using e by auto
  with d e show ?thesis
    by (intro lift_snapshot assms) (auto simp del: map_map)
qed

lemma lift_mark_missing: "conv_of s (c_id c) = Some c \<Longrightarrow> lift s (mark_missing seen c s)"
  unfolding mark_missing_def
  by (cases "c_id c \<notin> set seen \<and> \<not> c_removed c")
    (simp_all add: lift_persist_update [of _ "c_id c" c] conv_le_def)

lemma lift_purge_conversation:
  assumes "conv_of s (c_id conv) = Some conv"
  shows "lift s (purge_conversation conv s)"
proof -
  have "lift t (persist_conversation (conv\<lparr>c_last_message := None\<rparr>) t)"
    if "a_conversations t = a_conversations s" for t
    by (rule lift_persist_update [of _ "c_id conv" conv]) (use assms that in \<open>simp_all add: conv_le_def\<close>)
  then have "lift s (persist_conversation (conv\<lparr>c_last_message := None\<rparr>) (snd (forget_before i t s)))" for i t
    by (rule lift_trans [OF lift_forget_before]) simp
  then show ?thesis
    unfolding purge_conversation_def Let_def case_prod_beta
    by (simp split: option.split add: lift_forget_before)
qed

lemma lift_purge: "lift s (purge_expired s)"
  unfolding purge_expired_def
  by (rule lift_all_conversations [where f = purge_conversation, OF lift_purge_conversation conv_of_purge_other])

lemma lift_full_sync_body: "lift s (snd (full_sync_body W fuel s))"
proof -
  have miss: "lift t (foldl (\<lambda>s c. mark_missing seen c s) t (map snd (a_conversations t)))" for t seen
    by (rule lift_all_conversations [where f = "mark_missing seen", OF lift_mark_missing conv_of_mark_other])
  have up: "lift t (snd (for_each (\<lambda>cv s. then_ok (upsert_from_server cv s) (\<lambda>_. ret ())) list t))" for list t
    by (intro lifted.frame_for_each lifted.frame_then_ok lift_upsert lifted.frame_ret)
  have fills: "lift t (snd (for_each (\<lambda>cv s. backfill W fuel (cv_id cv) s) list t))" for list t
    by (intro lifted.frame_for_each lift_backfill)
  have last: "lift t (snd (then_ok (for_each (\<lambda>cv s. backfill W fuel (cv_id cv) s) list u) (\<lambda>_ s. ret () (purge_expired s))))"
    if "u = foldl (\<lambda>s c. mark_missing (map cv_id list) c s) t (map snd (a_conversations t))" for t u list
    unfolding that
    by (intro lifted.frame_then_ok lift_trans [OF miss fills]) (simp add: lift_purge)
  show ?thesis
    unfolding full_sync_body_def Let_def
    by (intro lifted.frame_then_ok lift_http up last [OF refl])
qed

lemma lift_full_sync: "lift s (snd (full_sync W fuel s))"
proof -
  have sy: "lift t (t\<lparr>a_syncing := x\<rparr>)" for t x by (rule lift_core) simp_all
  have body: "lift s (snd (attempt (full_sync_body W fuel (s\<lparr>a_syncing := True\<rparr>)) (\<lambda>e. ret ())))"
    by (intro lifted.frame_attempt lift_trans [OF sy lift_full_sync_body] lifted.frame_ret)
  have "lift s (snd (then_ok (attempt (full_sync_body W fuel (s\<lparr>a_syncing := True\<rparr>)) (\<lambda>e. ret ()))
      (\<lambda>_ s. ret () (s\<lparr>a_syncing := False\<rparr>))))"
    by (rule lifted.frame_then_ok [OF body]) (simp add: sy)
  then show ?thesis by (simp add: full_sync_def)
qed

lemma lift_history_steps: "lift s (snd (history_steps W fuel cs i tot s))"
proof (induction cs arbitrary: i s)
  case Nil
  then show ?case by simp
next
  case (Cons c cs)
  have h: "lift t (t\<lparr>a_history := x\<rparr>)" for t x by (rule lift_core) simp_all
  have "lift s (snd (attempt (backfill W fuel (c_id c) s) (\<lambda>e. ret ())))"
    by (intro lifted.frame_attempt lift_backfill lifted.frame_ret)
  then show ?case
    unfolding history_steps.simps by (rule lifted.frame_then_ok) (rule lift_trans [OF h Cons.IH])
qed

lemma lift_history: "lift s (snd (load_all_history W fuel s))"
proof -
  have h: "lift t (t\<lparr>a_history := x\<rparr>)" for t x by (rule lift_core) simp_all
  have "lift s (snd (then_ok (history_steps W fuel cs 0 n (s\<lparr>a_history := x\<rparr>)) (\<lambda>_ s. ret () (s\<lparr>a_history := None\<rparr>))))"
    for cs n x
    by (rule lifted.frame_then_ok [OF lift_trans [OF h lift_history_steps]]) (simp add: h)
  then show ?thesis by (simp add: load_all_history_def Let_def)
qed

text \<open>What the rest of the client uses: everything a handler may do stays within the relation.\<close>

lemmas lift_handlers = lift_handle_incoming lift_live lift_event lift_full_sync lift_history lift_refresh
  lift_upsert lift_set_message_body lift_remove_local_message lift_purge

end


section \<open>The sync engine as a state machine\<close>

text \<open>Cursors only grow; pinned keys stay.\<close>

definition cursors_grow :: "app \<Rightarrow> app \<Rightarrow> bool" where
  "cursors_grow s t \<longleftrightarrow> (\<forall>i c. conv_of s i = Some c \<longrightarrow> (\<exists>c'. conv_of t i = Some c' \<and> conv_le c c'))"

interpretation progress: sync_frame cursors_grow
proof
  show "cursors_grow s t2" if "cursors_grow s t" "cursors_grow t t2" for s t t2
    using that unfolding cursors_grow_def by (meson conv_le_trans)
  show "cursors_grow s t" if "a_conversations t = a_conversations s" for s t
    using that by (simp add: cursors_grow_def)
  show "cursors_grow s (observe_keys i nm sp ep bt disp s)" for s i nm sp ep bt disp
    by (simp add: cursors_grow_def)
  show "cursors_grow s (persist_conversation c' s)"
    if "\<And>c. conv_of s (c_id c') = Some c \<Longrightarrow> conv_le c c'" for s c'
    using that by (simp add: cursors_grow_def)
qed

interpretation pinned: sync_frame pins_kept
proof
  show "pins_kept s t2" if "pins_kept s t" "pins_kept t t2" for s t t2
    using that by (rule pins_kept_trans)
  show "pins_kept s t" if "a_contacts t = a_contacts s" for s t
    using that by (simp add: pins_kept_def)
  show "pins_kept s (observe_keys i nm sp ep bt disp s)" if "app_inv s" for s i nm sp ep bt disp
    using that by (simp add: pins_kept_observe app_invD)
  show "pins_kept s (persist_conversation c' s)" for s c'
    by (simp add: pins_kept_def)
qed

text \<open>Everything that can happen to a running client on its receiving side, in any order.\<close>

inductive sync_step :: "world \<Rightarrow> app \<Rightarrow> app \<Rightarrow> bool" for W :: world where
  step_incoming: "sync_step W s (snd (handle_incoming W view stored s))"
| step_live: "sync_step W s (snd (on_live_message W fuel view s))"
| step_event: "sync_step W s (snd (on_event W fuel ev s))"
| step_full_sync: "sync_step W s (snd (full_sync W fuel s))"
| step_history: "sync_step W s (snd (load_all_history W fuel s))"
| step_purge: "sync_step W s (purge_expired s)"
| step_open: "sync_step W s (ensure_messages_loaded i s)"
| step_clock: "sync_step W s (s\<lparr>a_now := now, a_visible := visible, a_may_notify := notify\<rparr>)"

inductive_cases sync_stepE: "sync_step W s t"

lemma app_inv_load: "app_inv s \<Longrightarrow> app_inv (ensure_messages_loaded i s)"
proof -
  assume inv: "app_inv s"
  let ?l = "messages_for i (a_db s)"
  have db: "db_inv (a_db s)" using inv by (rule app_invD)
  have "distinct (map sm_seq ?l)"
  proof -
    have "distinct (map snd (db_messages (a_db s)))"
    proof -
      have "distinct (map fst (db_messages (a_db s)))" and k: "\<forall>e \<in> set (db_messages (a_db s)). fst e = msg_key (snd e)"
        using db by (auto simp: db_inv_def store_inv_distinct)
      then show ?thesis
        by (metis (no_types, lifting) distinct_map map_eq_conv map_map inj_on_imageI2 comp_apply)
    qed
    then have "distinct (filter (\<lambda>m. sm_conv_id m = i) (get_all (db_messages (a_db s))))"
      by (simp add: get_all_def)
    moreover have "inj_on sm_seq (set ?l)"
    proof (rule inj_onI)
      fix x y assume "x \<in> set ?l" "y \<in> set ?l" "sm_seq x = sm_seq y"
      then show "x = y" using set_messages_for [OF db] by (metis option.inject)
    qed
    ultimately show ?thesis by (simp add: messages_for_def distinct_map)
  qed
  then have "sorted_wrt (<) (map sm_seq ?l)" by (simp add: strict_sorted_iff sorted_messages_for)
  moreover have "\<forall>m \<in> set ?l. sm_conv_id m = i" using set_messages_for [OF db] by blast
  ultimately show ?thesis using inv by (simp add: ensure_messages_loaded_def app_inv_messages)
qed

lemma sync_step_frames:
  assumes "sync_step W s t" and "app_inv s"
  shows "app_inv t \<and> cursors_grow s t \<and> pins_kept s t"
proof -
  have load: "cursors_grow s (ensure_messages_loaded i s) \<and> pins_kept s (ensure_messages_loaded i s)" for i
    by (simp add: ensure_messages_loaded_def progress.Q_quiet pinned.Q_quiet)
  have clock: "app_inv (s\<lparr>a_now := n, a_visible := v, a_may_notify := m\<rparr>)
      \<and> cursors_grow s (s\<lparr>a_now := n, a_visible := v, a_may_notify := m\<rparr>)
      \<and> pins_kept s (s\<lparr>a_now := n, a_visible := v, a_may_notify := m\<rparr>)" for n v m
    using app_inv_core [OF assms(2)] by (auto intro: progress.Q_quiet pinned.Q_quiet)
  have both: "app_inv u \<and> cursors_grow s u \<and> pins_kept s u" if "progress.lift s u" "pinned.lift s u" for u
    using that assms(2) progress.liftD pinned.liftD by blast
  show ?thesis
    using assms(1)
    by (cases rule: sync_step.cases)
      (auto simp: load clock app_inv_load [OF assms(2)] both progress.lift_handlers pinned.lift_handlers)
qed

text \<open>C9: However the server behaves and in whatever order frames, events, full syncs and purges are
handled, the client's state stays well formed: every contact and conversation filed under its own
id, the database stores in key order with one record per key, the loaded messages of a conversation
strictly increasing in their sequence numbers.\<close>

theorem sync_invariant:
  assumes "(sync_step W)\<^sup>*\<^sup>* s t" and "app_inv s"
  shows "app_inv t"
  using assms by (induction rule: rtranclp_induct) (auto dest: sync_step_frames)


text \<open>C5: Nothing the server sends replaces a pinned key or sets a verification mark: over any run of the
sync engine a known contact keeps its keys and its mark, and flagged keys stay flagged.\<close>

theorem sync_keeps_pins:
  assumes "(sync_step W)\<^sup>*\<^sup>* s t" and "app_inv s"
  shows "pins_kept s t"
proof -
  have "app_inv t \<and> pins_kept s t"
    using assms(1,2)
  proof (induction rule: rtranclp_induct)
    case base
    then show ?case by (simp add: pins_kept_refl)
  next
    case (step t t')
    then show ?case using sync_step_frames pins_kept_trans by blast
  qed
  then show ?thesis ..
qed

end
