(* ===== verification/Delivery.thy ===== *)
theory Delivery
  imports SyncFacts
begin

text \<open>
  What reaches the message store: only authenticated payloads, each written by its sender; edits only
  by the author; deletions and purges leave nothing behind; and the page loop ends.
\<close>

section \<open>Which operations leave the messages alone\<close>

definition same_messages :: "app \<Rightarrow> app \<Rightarrow> bool" where
  "same_messages s t \<longleftrightarrow> db_messages (a_db t) = db_messages (a_db s) \<and> a_messages t = a_messages s
     \<and> a_session t = a_session s \<and> a_keys t = a_keys s"

interpretation msgs: frame same_messages
  by unfold_locales (simp_all add: same_messages_def)

lemma same_messages_observe: "same_messages s (observe_keys i u sp ep bt disp s)"
  by (simp add: same_messages_def)

lemma same_messages_persist: "same_messages s (persist_conversation c s)"
  by (simp add: same_messages_def)

lemma same_messages_upsert: "same_messages s (snd (upsert_from_server cv s))"
proof -
  have "same_messages t (snd (observe_member m t))" for m t
    unfolding observe_member_def by (simp split: sum.split add: same_messages_observe msgs.R_refl)
  then show ?thesis
    unfolding upsert_from_server_def Let_def
    by (intro msgs.frame_then_ok msgs.frame_for_each) (simp_all add: same_messages_persist)
qed

lemma same_messages_refresh_inline: "same_messages s (snd (refresh_conversation_inline W i s))"
  unfolding refresh_conversation_inline_def
  by (intro msgs.frame_attempt msgs.frame_then_ok same_messages_upsert msgs.frame_ret)
    (simp add: http_conversation_def Let_def same_messages_def)

lemma same_messages_look_up: "same_messages s (snd (look_up_sender W view s))"
  unfolding look_up_sender_def
  by (auto split: option.split intro!: msgs.frame_then_ok same_messages_refresh_inline simp: msgs.R_refl)

lemma same_messages_event: "same_messages s (snd (apply_event p q next s))"
  using apply_event_state [of p q "next" s]
  by (elim disjE exE) (simp_all add: same_messages_def)

lemma same_messages_advance: "same_messages s (advance_silently i q s)"
  by (simp add: advance_silently_def Let_def same_messages_def split: option.split)

lemma same_messages_finish: "same_messages s (snd (finish_stored si conv msg pv n s))"
proof -
  have "same_messages t (maybe_notify c m b (unhide_chat i t))" for t c m b i
    by (simp add: same_messages_def maybe_notify_def Let_def)
  moreover have "same_messages t (maybe_notify c m b (unhide_chat i (persist_conversation d t)))" for t c m b i d
    using calculation same_messages_persist msgs.R_trans by blast
  ultimately show ?thesis
    unfolding finish_stored_def Let_def
    by (simp split: option.split add: same_messages_persist msgs.R_refl)
qed

lemma get_message_same: "same_messages s t \<Longrightarrow> get_message i q (a_db t) = get_message i q (a_db s)"
  by (simp add: get_message_def same_messages_def)

section \<open>The store after a message\<close>

lemma rest_messages:
  "db_messages (a_db (snd (apply_stored_rest si conv msg s))) = db_messages (put_message msg (a_db s))"
proof -
  define ev where "ev = (if sm_seq msg > c_roster_seq conv
     then apply_event (sm_payload msg) (sm_seq msg) (conv\<lparr>c_synced_seq := max (c_synced_seq conv) (sm_seq msg),
        c_last_seq := max (c_last_seq conv) (sm_seq msg)\<rparr>) (store_message msg s)
     else ret (conv\<lparr>c_synced_seq := max (c_synced_seq conv) (sm_seq msg),
        c_last_seq := max (c_last_seq conv) (sm_seq msg)\<rparr>) (store_message msg s))"
  have "same_messages (store_message msg s) (snd ev)"
    by (simp add: ev_def same_messages_event msgs.R_refl)
  then have "same_messages (store_message msg s) (snd (apply_stored_rest si conv msg s))"
    unfolding apply_stored_rest_def Let_def ev_def [symmetric]
    by (auto simp: then_ok_def split: sum.split intro: msgs.R_trans same_messages_finish)
  then show ?thesis by (simp add: same_messages_def)
qed

lemma set_body_messages:
  assumes "db_inv (a_db s)"
  shows "get_message i' q' (a_db (set_message_body i q body ed s)) =
    (case get_message i q (a_db s) of
       Some m \<Rightarrow>
         (case sm_payload m of
            Some (Text b reply) \<Rightarrow>
              if i' = i \<and> q' = q then Some (m\<lparr>sm_payload := Some (Text body reply), sm_edited := ed\<rparr>)
              else get_message i' q' (a_db s)
          | _ \<Rightarrow> get_message i' q' (a_db s))
     | None \<Rightarrow> get_message i' q' (a_db s))"
proof (cases "get_message i q (a_db s)")
  case None
  then show ?thesis by (simp add: set_message_body_def)
next
  case (Some m)
  have key: "sm_conv_id m = i \<and> sm_seq m = q"
    using assms Some in_store_iff [of "db_messages (a_db s)" "MsgKey i q" m]
    by (auto simp: db_inv_def get_message_def msg_key_def)
  let ?u = "\<lambda>p. m\<lparr>sm_payload := p, sm_edited := ed\<rparr>"
  have put: "get_message x y (put_message (?u p) (a_db s))
      = (if x = i \<and> y = q then Some (?u p) else get_message x y (a_db s))" for p x y
    using get_message_put [OF assms, of x y "?u p"] key by auto
  have per: "get_message x y (a_db (persist_conversation c t)) = get_message x y (a_db t)" for c t x y
    by (simp add: get_message_same same_messages_persist)
  show ?thesis
  proof (cases "\<exists>b reply. sm_payload m = Some (Text b reply)")
    case True
    then obtain b reply where "sm_payload m = Some (Text b reply)" by blast
    with Some put show ?thesis
      by (simp add: set_message_body_def Let_def per split: option.split)
  next
    case False
    with Some show ?thesis by (auto simp: set_message_body_def split: option.split payload.split)
  qed
qed

text \<open>The envelope of a view, checked against the pinned key of its sender, carries this payload.\<close>

definition authentic :: "world \<Rightarrow> session_info \<Rightarrow> account_keys \<Rightarrow> contact \<Rightarrow> message_view \<Rightarrow> payload \<Rightarrow> bool" where
  "authentic W si k c view p \<longleftrightarrow> (\<exists>env sig parsed plain.
     b64decode (m_env view) = Inr env \<and> b64decode (m_sig view) = Inr sig
     \<and> verify_envelope (w_crypto W) (ct_sign_pub c) env sig
     \<and> parse env = Inr parsed \<and> h_sender parsed = m_sender_account view \<and> h_conv parsed = m_conv_id view
     \<and> decrypt (w_crypto W) parsed (si_account_id si) (enc_priv k) = Inr plain
     \<and> w_read_payload W plain = Inr (Some p))"

lemma read_view_payload:
  assumes "read_view W view si k sender = (Some p, err, ts)"
  shows "\<exists>c. sender = Some c \<and> authentic W si k c view p"
  using assms unfolding read_view_def Let_def authentic_def
  by (auto split: option.splits sum.splits if_splits)


text \<open>An edit rewrites at most the author's own earlier text message.\<close>

definition edit_of :: "stored_message \<Rightarrow> stored_message \<Rightarrow> stored_message \<Rightarrow> bool" where
  "edit_of msg m0 m \<longleftrightarrow> (\<exists>ref body b reply. sm_payload msg = Some (TextEdit (Some ref) (Some body))
     \<and> sm_sender m0 = sm_sender msg \<and> sm_client_msg_id m0 = ref \<and> sm_seq m0 < sm_seq msg
     \<and> sm_payload m0 = Some (Text b reply) \<and> m = m0\<lparr>sm_payload := Some (Text body reply), sm_edited := True\<rparr>)"

lemma apply_edit_messages:
  assumes "db_inv (a_db s)" and "sm_payload msg = Some (TextEdit r bo)"
    and "get_message i q (a_db (apply_edit conv msg r bo s)) \<noteq> get_message i q (a_db s)"
  shows "\<exists>m0 m. i = conv \<and> get_message i q (a_db s) = Some m0
    \<and> get_message i q (a_db (apply_edit conv msg r bo s)) = Some m \<and> edit_of msg m0 m"
proof -
  obtain ref body original where r: "r = Some ref" and bo: "bo = Some body"
    and o: "message_by_client_id conv (sm_sender msg) ref (a_db s) = Some original"
    and cond: "sm_sender original = sm_sender msg" "sm_seq original < sm_seq msg"
    and run: "apply_edit conv msg r bo s = set_message_body conv (sm_seq original) body True s"
    using assms(3) unfolding apply_edit_def by (auto split: option.splits if_splits)
  have g: "get_message conv (sm_seq original) (a_db s) = Some original" "sm_client_msg_id original = ref"
    using message_by_client_id_Some [OF assms(1) o] by auto
  from assms(3) obtain b reply where t: "sm_payload original = Some (Text b reply)" and iq: "i = conv" "q = sm_seq original"
    unfolding run set_body_messages [OF assms(1)] g
    by (auto split: option.splits payload.splits if_splits)
  have "get_message i q (a_db (apply_edit conv msg r bo s))
      = Some (original\<lparr>sm_payload := Some (Text body reply), sm_edited := True\<rparr>)"
    unfolding run set_body_messages [OF assms(1)] g iq by (simp add: t)
  moreover have "edit_of msg original (original\<lparr>sm_payload := Some (Text body reply), sm_edited := True\<rparr>)"
    unfolding edit_of_def using assms(2) r bo cond g t by auto
  ultimately show ?thesis using iq g by blast
qed

lemma apply_stored_messages:
  assumes inv: "app_inv s"
    and changed: "get_message i q (a_db (snd (apply_stored msg s))) \<noteq> get_message i q (a_db s)"
  shows "i = sm_conv_id msg \<and> (q = sm_seq msg \<and> get_message i q (a_db (snd (apply_stored msg s))) = Some msg
    \<or> (\<exists>m0 m. get_message i q (a_db s) = Some m0 \<and> get_message i q (a_db (snd (apply_stored msg s))) = Some m
         \<and> edit_of msg m0 m))"
proof -
  have db: "db_inv (a_db s)" using inv by (rule app_invD)
  obtain conv where conv: "conv_of s (sm_conv_id msg) = Some conv" "c_id conv = sm_conv_id msg"
    and fresh: "\<not> is_expired s conv (sm_server_ts msg)"
    using changed app_invD(6) [OF inv] by (auto simp: apply_stored_def split: option.splits if_splits)
  show ?thesis
  proof (cases "\<exists>r b. sm_payload msg = Some (TextEdit r b)")
    case True
    then obtain r b where p: "sm_payload msg = Some (TextEdit r b)" by blast
    have eq: "get_message i q (a_db (snd (apply_stored msg s))) = get_message i q (a_db (apply_edit (sm_conv_id msg) msg r b s))"
      using conv fresh p by (simp add: apply_stored_def get_message_same [OF same_messages_advance])
    show ?thesis using apply_edit_messages [OF db p, of i q] changed unfolding eq by blast
  next
    case False
    then have eq: "snd (apply_stored msg s) = snd (apply_stored_rest (a_session s) conv msg s)"
      using conv fresh by (auto simp: apply_stored_def split: option.split payload.split)
    have "get_message i q (a_db (snd (apply_stored msg s))) = get_message i q (put_message msg (a_db s))"
      unfolding eq by (simp add: get_message_def rest_messages)
    then show ?thesis using changed by (auto simp: get_message_put [OF db] split: if_splits)
  qed
qed

text \<open>C4: Only what its sender signed is ever stored as readable: if handling a frame changes what the database
holds under a key and the new record has a payload, then the sender is a known contact whose pinned
key verifies the envelope, the signed header names that sender and conversation, and the decrypted
content is the record's payload, or an edit by which the author of the record rewrites an earlier
text message of its own.\<close>

theorem stored_payload_authentic:
  assumes "app_inv s" and "a_session s = Some si" and "a_keys s = Some k"
    and "m_deleted_seq view = None"
    and "get_message i q (a_db (snd (handle_incoming W view stored s))) = Some m"
    and "get_message i q (a_db s) \<noteq> Some m" and "sm_payload m = Some p"
  shows "\<exists>s1 c. s1 = snd (look_up_sender W view s) \<and> contact_of s1 (m_sender_account view) = Some c
    \<and> pins_kept s s1 \<and> sm_sender m = m_sender_account view \<and> i = m_conv_id view
    \<and> (q = m_seq view \<and> authentic W si k c view p
       \<or> (\<exists>ref body m0 reply. authentic W si k c view (TextEdit (Some ref) (Some body))
           \<and> get_message i q (a_db s) = Some m0 \<and> sm_sender m0 = m_sender_account view
           \<and> sm_client_msg_id m0 = ref \<and> q < m_seq view \<and> p = Text body reply))"
proof -
  define s1 where "s1 = snd (look_up_sender W view s)"
  have same: "same_messages s s1" unfolding s1_def by (rule same_messages_look_up)
  have inv1: "app_inv s1" and pins: "pins_kept s s1"
    using pinned.liftD [OF pinned.lift_look_up assms(1)] by (simp_all add: s1_def)
  obtain sender where look: "look_up_sender W view s = (Inr sender, s1)"
    and sender: "sender = contact_of s1 (m_sender_account view)"
  proof (cases "fst (look_up_sender W view s)")
    case (Inl e)
    then have "snd (handle_incoming W view stored s) = s1"
      using assms(2-4) by (simp add: handle_incoming_def s1_def then_ok_def)
    then show ?thesis using assms(5,6) get_message_same [OF same] by simp
  next
    case (Inr x)
    then have "look_up_sender W view s = (Inr x, s1)" by (simp add: s1_def prod_eq_iff)
    moreover from this have "x = contact_of s1 (m_sender_account view)"
      by (auto simp: look_up_sender_def ret_def then_ok_def split: option.splits sum.splits)
    ultimately show ?thesis using that by blast
  qed
  obtain vp err ts where rv: "read_view W view si k sender = (vp, err, ts)" by (cases "read_view W view si k sender")
  define msg where "msg = \<lparr>sm_conv_id = m_conv_id view, sm_seq = m_seq view, sm_client_msg_id = m_client_msg_id view,
     sm_sender = m_sender_account view, sm_sender_device = m_sender_device view, sm_ts = ts,
     sm_server_ts = m_server_ts view, sm_payload = vp, sm_error = err, sm_edited = False\<rparr>"
  have run: "handle_incoming W view stored s
      = (if \<not> stored then deliver_signal view vp s1 else apply_stored msg s1)"
    using assms(2-4) look rv by (simp add: handle_incoming_def msg_def)
  have "get_message j x (a_db (snd (deliver_signal view vp s1))) = get_message j x (a_db s1)" for j x
    by (simp add: deliver_signal_def split: option.split)
  then have stored: "stored" and run': "handle_incoming W view stored s = apply_stored msg s1"
    using assms(5,6) run get_message_same [OF same] by (auto split: if_splits)
  have now: "get_message i q (a_db (snd (apply_stored msg s1))) = Some m"
    and changed: "get_message i q (a_db (snd (apply_stored msg s1))) \<noteq> get_message i q (a_db s1)"
    using assms(5,6) get_message_same [OF same] by (simp_all add: run')
  have auth: "\<exists>c. sender = Some c \<and> authentic W si k c view q'" if "vp = Some q'" for q'
    using read_view_payload rv that by blast
  from apply_stored_messages [OF inv1 changed] now
  consider "i = m_conv_id view" "q = m_seq view" "m = msg"
    | m0 where "i = m_conv_id view" "get_message i q (a_db s1) = Some m0" "edit_of msg m0 m"
    by (auto simp: msg_def)
  then show ?thesis
  proof cases
    case 1
    then have "vp = Some p" "sm_sender m = m_sender_account view" using assms(7) by (simp_all add: msg_def)
    with 1 auth sender pins show ?thesis by (auto simp: s1_def)
  next
    case 2
    then obtain ref body b reply where e: "vp = Some (TextEdit (Some ref) (Some body))"
      "sm_sender m0 = m_sender_account view" "sm_client_msg_id m0 = ref" "sm_seq m0 < m_seq view"
      "m = m0\<lparr>sm_payload := Some (Text body reply), sm_edited := True\<rparr>"
      by (auto simp: edit_of_def msg_def)
    have "sm_seq m0 = q" using app_inv_message_key [OF inv1 2(2)] by simp
    moreover have "get_message i q (a_db s) = Some m0" using 2(2) get_message_same [OF same] by simp
    ultimately show ?thesis using 2(1) e auth sender pins assms(7) by (auto simp: s1_def)
  qed
qed


section \<open>Deletion\<close>

lemma preview_back_member:
  "preview_back dict L = Inr (Some lm) \<Longrightarrow> \<exists>m \<in> set L. lm_seq lm = Some (sm_seq m) \<and> lm_sender lm = sm_sender m
     \<and> preview_of dict (sm_payload m) (sm_error m) = Inr (lm_text lm)"
  by (induction L) (auto split: if_splits)

lemma forget_message_gone:
  assumes "app_inv s"
  shows "get_message i q (a_db (forget_message i q s)) = None"
    and "loaded_of (forget_message i q s) i = Some l \<Longrightarrow> m \<in> set l \<Longrightarrow> sm_seq m \<noteq> q"
    and "(j, x) \<noteq> (i, q) \<Longrightarrow> get_message j x (a_db (forget_message i q s)) = get_message j x (a_db s)"
proof -
  show "get_message i q (a_db (forget_message i q s)) = None" by (simp add: get_message_delete)
  show "(j, x) \<noteq> (i, q) \<Longrightarrow> get_message j x (a_db (forget_message i q s)) = get_message j x (a_db s)"
    by (auto simp: get_message_delete)
  show "loaded_of (forget_message i q s) i = Some l \<Longrightarrow> m \<in> set l \<Longrightarrow> sm_seq m \<noteq> q"
    by (auto simp: forget_message_def Let_def list_ex_iff split: option.splits if_splits)
qed

lemma remove_local_message_spec:
  assumes "app_inv s" and "t = snd (remove_local_message i q s)"
  shows "same_messages (forget_message i q s) t"
    and "fst (remove_local_message i q s) = Inr () \<Longrightarrow> conv_of s i = Some c \<Longrightarrow>
      \<exists>c'. conv_of t i = Some c' \<and> (\<forall>lm. c_last_message c' = Some lm \<longrightarrow> lm_seq lm \<noteq> Some q)"
proof -
  let ?f = "forget_message i q s"
  show "same_messages ?f t"
    unfolding assms(2) remove_local_message_def Let_def
    by (auto split: option.split sum.split simp: then_ok_def msgs.R_refl same_messages_persist)
  assume ok: "fst (remove_local_message i q s) = Inr ()" and c: "conv_of s i = Some c"
  have id: "c_id c = i" using app_invD(6) [OF assms(1) c] .
  show "\<exists>c'. conv_of t i = Some c' \<and> (\<forall>lm. c_last_message c' = Some lm \<longrightarrow> lm_seq lm \<noteq> Some q)"
  proof (cases "\<exists>lm. c_last_message c = Some lm \<and> lm_seq lm = Some q")
    case False
    then have "t = ?f" using c unfolding assms(2) remove_local_message_def Let_def
      by (auto split: option.split)
    then show ?thesis using False c by auto
  next
    case True
    then obtain p where p: "latest_preview i ?f = Inr p"
      and t: "t = persist_conversation (c\<lparr>c_last_message := p\<rparr>) ?f"
      using ok c unfolding assms(2) remove_local_message_def Let_def
      by (auto simp: then_ok_def split: sum.splits)
    have "lm_seq lm \<noteq> Some q" if lm: "p = Some lm" for lm
    proof
      assume "lm_seq lm = Some q"
      moreover obtain m where m: "m \<in> set (messages_for i (a_db ?f))" "lm_seq lm = Some (sm_seq m)"
        using p lm preview_back_member by (fastforce simp: latest_preview_def)
      moreover have "db_inv (a_db ?f)" using app_inv_forget [OF assms(1)] by (rule app_invD)
      ultimately show False
        using set_messages_for [of "a_db ?f" m i] forget_message_gone(1) [OF assms(1), of i q] by auto
    qed
    then show ?thesis using t id by auto
  qed
qed


section \<open>Disappearing messages\<close>

text \<open>The effective timer is the conversation's own, capped by the server-wide limit: it is off only
if both are off, and it never exceeds either limit that is on.\<close>

theorem effective_retention_cap:
  assumes "0 \<le> c_retention_seconds conv" and "a_settings s = Some cfg" and "0 \<le> ss_retention_days cfg"
  shows "effective_retention s conv =
    (if ss_retention_days cfg = 0 then c_retention_seconds conv
     else if c_retention_seconds conv = 0 then ss_retention_days cfg * 86400
     else min (c_retention_seconds conv) (ss_retention_days cfg * 86400))"
  using assms by (auto simp: effective_retention_def Let_def)

lemma purge_frame [simp]:
  "a_now (purge_conversation c s) = a_now s" "a_settings (purge_conversation c s) = a_settings s"
  by (auto simp: purge_conversation_def forget_before_def Let_def case_prod_beta split: option.split)

lemma purge_retention: "effective_retention (purge_conversation c s) d = effective_retention s d"
  by (simp add: effective_retention_def)

definition outlived :: "app \<Rightarrow> conversation \<Rightarrow> stored_message \<Rightarrow> bool" where
  "outlived s conv m \<longleftrightarrow> 0 < effective_retention s conv
     \<and> sm_server_ts m < a_now s - effective_retention s conv * 1000"

lemma purge_messages:
  assumes "app_inv s"
  shows "get_message j x (a_db (purge_conversation c s)) =
      (case get_message j x (a_db s) of None \<Rightarrow> None
       | Some m \<Rightarrow> if j = c_id c \<and> outlived s c m then None else Some m)"
    and "loaded_of (purge_conversation c s) j = Some l \<Longrightarrow>
      \<exists>l0. loaded_of s j = Some l0 \<and> l = filter (\<lambda>m. \<not> (j = c_id c \<and> outlived s c m)) l0"
proof -
  have db: "db_inv (a_db s)" using assms by (rule app_invD)
  let ?cut = "a_now s - effective_retention s c * 1000"
  have "get_message j x (a_db (persist_conversation d t)) = get_message j x (a_db t)" for d t
    by (simp add: get_message_same same_messages_persist)
  then show "get_message j x (a_db (purge_conversation c s)) =
      (case get_message j x (a_db s) of None \<Rightarrow> None
       | Some m \<Rightarrow> if j = c_id c \<and> outlived s c m then None else Some m)"
    unfolding purge_conversation_def Let_def case_prod_beta outlived_def
    by (auto simp: get_message_delete_before [OF db] split: option.split)
  assume l: "loaded_of (purge_conversation c s) j = Some l"
  show "\<exists>l0. loaded_of s j = Some l0 \<and> l = filter (\<lambda>m. \<not> (j = c_id c \<and> outlived s c m)) l0"
  proof (cases "effective_retention s c \<le> 0")
    case True
    then have "\<not> outlived s c m" for m by (simp add: outlived_def)
    with l True show ?thesis by (simp add: purge_conversation_def Let_def)
  next
    case False
    then have l': "loaded_of (snd (forget_before (c_id c) ?cut s)) j = Some l"
      using l by (auto simp: purge_conversation_def Let_def case_prod_beta split: option.splits if_splits)
    have o: "outlived s c m \<longleftrightarrow> \<not> ?cut \<le> sm_server_ts m" for m using False by (auto simp: outlived_def)
    show ?thesis
      using l' unfolding o forget_before_def Let_def case_prod_beta
      by (auto simp: list_ex_iff not_less intro!: filter_True [symmetric] split: option.splits if_splits)
  qed
qed


lemma purge_fold_messages:
  assumes "app_inv s" and "distinct (map c_id L)" and "\<forall>c \<in> set L. conv_of s (c_id c) = Some c"
  shows "get_message j x (a_db (foldl (\<lambda>s c. purge_conversation c s) s L)) =
      (case get_message j x (a_db s) of None \<Rightarrow> None
       | Some m \<Rightarrow> if \<exists>c \<in> set L. j = c_id c \<and> outlived s c m then None else Some m)
    \<and> (\<forall>l. loaded_of (foldl (\<lambda>s c. purge_conversation c s) s L) j = Some l \<longrightarrow>
        (\<exists>l0. loaded_of s j = Some l0 \<and> l = filter (\<lambda>m. \<not> (\<exists>c \<in> set L. j = c_id c \<and> outlived s c m)) l0))"
  using assms
proof (induction L arbitrary: s)
  case Nil
  then show ?case by (auto split: option.split)
next
  case (Cons c L)
  let ?t = "purge_conversation c s"
  have inv: "app_inv ?t"
    using Cons.prems by (intro progress.liftD [OF progress.lift_purge_conversation]) auto
  have snap: "\<forall>d \<in> set L. conv_of ?t (c_id d) = Some d"
  proof
    fix d assume "d \<in> set L"
    then have "c_id d \<noteq> c_id c" using Cons.prems(2) by (metis distinct.simps(2) imageI list.set_map list.simps(9))
    then show "conv_of ?t (c_id d) = Some d" using Cons.prems(3) \<open>d \<in> set L\<close> by (simp add: conv_of_purge_other)
  qed
  have out: "outlived ?t d m = outlived s d m" for d m by (simp add: outlived_def purge_retention)
  from Cons.IH [OF inv _ snap, unfolded out] Cons.prems(2) have IH:
    "get_message j x (a_db (foldl (\<lambda>s c. purge_conversation c s) ?t L)) =
      (case get_message j x (a_db ?t) of None \<Rightarrow> None
       | Some m \<Rightarrow> if \<exists>c \<in> set L. j = c_id c \<and> outlived s c m then None else Some m)"
    "\<And>l. loaded_of (foldl (\<lambda>s c. purge_conversation c s) ?t L) j = Some l \<Longrightarrow>
        \<exists>l0. loaded_of ?t j = Some l0 \<and> l = filter (\<lambda>m. \<not> (\<exists>c \<in> set L. j = c_id c \<and> outlived s c m)) l0"
    by auto
  show ?case
  proof (intro conjI allI impI)
    show "get_message j x (a_db (foldl (\<lambda>s c. purge_conversation c s) s (c # L))) =
      (case get_message j x (a_db s) of None \<Rightarrow> None
       | Some m \<Rightarrow> if \<exists>c \<in> set (c # L). j = c_id c \<and> outlived s c m then None else Some m)"
      using IH(1) purge_messages(1) [OF Cons.prems(1), of j x c] by (auto split: option.splits)
    fix l assume "loaded_of (foldl (\<lambda>s c. purge_conversation c s) s (c # L)) j = Some l"
    then obtain l1 where l1: "loaded_of ?t j = Some l1"
      "l = filter (\<lambda>m. \<not> (\<exists>c \<in> set L. j = c_id c \<and> outlived s c m)) l1"
      using IH(2) by auto
    then obtain l0 where "loaded_of s j = Some l0" "l1 = filter (\<lambda>m. \<not> (j = c_id c \<and> outlived s c m)) l0"
      using purge_messages(2) [OF Cons.prems(1)] by blast
    with l1 show "\<exists>l0. loaded_of s j = Some l0
        \<and> l = filter (\<lambda>m. \<not> (\<exists>c \<in> set (c # L). j = c_id c \<and> outlived s c m)) l0"
      by (auto simp: conj_commute intro!: filter_cong)
  qed
qed

lemma snapshot_facts:
  assumes "app_inv s"
  shows "distinct (map c_id (map snd (a_conversations s)))"
    and "\<forall>c \<in> set (map snd (a_conversations s)). conv_of s (c_id c) = Some c"
    and "conv_of s i = Some c \<Longrightarrow> c \<in> set (map snd (a_conversations s))"
proof -
  have d: "distinct (map fst (a_conversations s))" using app_invD(1) [OF assms] by (simp add: jmap_inv_def)
  have e: "conv_of s (fst e) = Some (snd e) \<and> c_id (snd e) = fst e" if "e \<in> set (a_conversations s)" for e
    using that d app_invD(6) [OF assms] by (metis map_of_is_SomeI prod.collapse)
  have eq: "map c_id (map snd (a_conversations s)) = map fst (a_conversations s)" using e by auto
  show "distinct (map c_id (map snd (a_conversations s)))" unfolding eq by (rule d)
  show "\<forall>c \<in> set (map snd (a_conversations s)). conv_of s (c_id c) = Some c" using e by auto
  show "conv_of s i = Some c \<Longrightarrow> c \<in> set (map snd (a_conversations s))"
    by (force dest!: map_of_SomeD)
qed



section \<open>The page loop ends\<close>

text \<open>\<open>returns p\<close>: the computation came to an end, with a value or a thrown error.\<close>

definition returns :: "'a result \<times> 's \<Rightarrow> bool" where
  "returns p \<longleftrightarrow> fst p \<noteq> Inl Diverged"

lemma returns_simps [simp]: "returns (ret x s)" "returns (throw (JsError m) s)" "returns (throw type_error s)"
  "returns (Inr x, s)"
  by (simp_all add: returns_def type_error_def)

lemma returns_pair: "x \<noteq> Inl Diverged \<Longrightarrow> returns (x, s)"
  by (simp add: returns_def)

lemma returns_then_ok: "returns p \<Longrightarrow> (\<And>x t. returns (f x t)) \<Longrightarrow> returns (then_ok p f)"
  by (auto simp: returns_def then_ok_def split: sum.split)

lemma returns_attempt: "returns p \<Longrightarrow> (\<And>e t. returns (h e t)) \<Longrightarrow> returns (attempt p h)"
  by (auto simp: returns_def attempt_def split: sum.split)

lemma returns_for_each: "(\<And>x t. returns (f x t)) \<Longrightarrow> returns (for_each f xs s)"
  by (induction xs arbitrary: s) (auto intro: returns_then_ok)

lemmas returns_intros = returns_then_ok returns_attempt returns_for_each

text \<open>Every request gets a response or fails with an error.\<close>

definition responsive :: "world \<Rightarrow> bool" where
  "responsive W \<longleftrightarrow> (\<forall>q. w_conversations W q \<noteq> Inl Diverged) \<and> (\<forall>q i. w_conversation W q i \<noteq> Inl Diverged)
     \<and> (\<forall>q i a. w_messages W q i a \<noteq> Inl Diverged)"

text \<open>A page that announces more brings something new, and nothing lies beyond \<open>high\<close>.\<close>

definition paging :: "world \<Rightarrow> int \<Rightarrow> bool" where
  "paging W high \<longleftrightarrow> (\<forall>q i after page. w_messages W q i after = Inr page \<longrightarrow> page_has_more page \<longrightarrow>
     (\<exists>m \<in> set (page_messages page). after < m_seq m) \<and> (\<forall>m \<in> set (page_messages page). m_seq m \<le> high))"

lemma b64decode_returns: "b64decode s \<noteq> Inl Diverged"
  by (auto simp: b64decode_def atob_def Let_def split: option.split)

lemma returns_upsert: "returns (upsert_from_server cv s)"
proof -
  have "returns (observe_member m t)" for m t
    using b64decode_returns [of "mv_sign_pub m"] b64decode_returns [of "mv_enc_pub m"]
    unfolding observe_member_def by (auto simp: returns_def ret_def throw_def split: sum.split)
  then show ?thesis unfolding upsert_from_server_def Let_def by (intro returns_intros) simp_all
qed

lemma returns_refresh_inline: "responsive W \<Longrightarrow> returns (refresh_conversation_inline W i s)"
  unfolding refresh_conversation_inline_def
  by (intro returns_intros returns_upsert) (auto simp: http_conversation_def Let_def responsive_def returns_def)

lemma preview_of_returns: "preview_of dict p e \<noteq> Inl Diverged"
  by (cases "(dict, p, e)" rule: preview_of.cases) (auto simp: type_error_def split: option.split)

lemma preview_back_returns: "preview_back dict L \<noteq> Inl Diverged"
  using preview_of_returns by (induction L) (auto simp: try_bind_def split: sum.split)

lemma returns_deletion: "returns (apply_deletion view q s)"
  unfolding apply_deletion_def remove_local_message_def Let_def latest_preview_def
  by (auto split: option.split intro!: returns_then_ok simp: returns_pair preview_back_returns)

lemma returns_finish: "returns (finish_stored si conv msg pv n s)"
  unfolding finish_stored_def Let_def by (simp split: option.split)

lemma returns_event: "returns (apply_event p q n s)"
  unfolding apply_event_def by (auto simp: Let_def case_prod_beta split: option.split payload.split)

lemma returns_stored: "returns (apply_stored msg s)"
proof -
  have "returns (apply_stored_rest si conv msg t)" for si conv t
    unfolding apply_stored_rest_def Let_def
    by (intro returns_then_ok) (simp_all add: returns_event returns_finish returns_pair preview_of_returns)
  then show ?thesis unfolding apply_stored_def by (auto split: option.split payload.split)
qed

lemma returns_incoming: "responsive W \<Longrightarrow> returns (handle_incoming W view stored s)"
proof -
  assume W: "responsive W"
  have "returns (look_up_sender W view t)" for t
    unfolding look_up_sender_def by (auto split: option.split intro!: returns_then_ok returns_refresh_inline W)
  moreover have "returns (deliver_signal view p t)" for p t
    unfolding deliver_signal_def by (auto split: option.split)
  ultimately show ?thesis
    unfolding handle_incoming_def Let_def case_prod_beta
    by (auto split: option.split intro!: returns_then_ok simp: returns_deletion returns_stored)
qed

lemma foldl_max_ge: "(a :: int) \<le> foldl (\<lambda>a m. max a (f m)) a L"
  by (induction L arbitrary: a) (auto intro: order_trans [OF max.cobounded1])

lemma foldl_max_mem: "m \<in> set L \<Longrightarrow> f m \<le> foldl (\<lambda>a m. max a (f m)) (a :: int) L"
proof (induction L arbitrary: a)
  case Nil
  then show ?case by simp
next
  case (Cons x L)
  then show ?case using foldl_max_ge [of "max a (f x)" f L] by auto
qed

lemma returns_backfill_loop:
  "responsive W \<Longrightarrow> paging W high \<Longrightarrow> nat (high - after) < fuel \<Longrightarrow> returns (backfill_loop W fuel i after s)"
proof (induction fuel arbitrary: after s)
  case 0
  then show ?case by simp
next
  case (Suc fuel)
  let ?s = "request (RMessages i after 200) s"
  show ?case
  proof (cases "w_messages W (a_requests ?s) i after")
    case (Inl e)
    then have "e \<noteq> Diverged" using Suc.prems(1) by (auto simp: responsive_def)
    with Inl show ?thesis by (simp add: http_messages_def Let_def returns_def)
  next
    case (Inr page)
    let ?after = "foldl (\<lambda>a m. max a (m_seq m)) after (page_messages page)"
    have more: "returns (backfill_loop W fuel i ?after t)" if hm: "page_has_more page" for t
    proof -
      obtain m where m: "m \<in> set (page_messages page)" "after < m_seq m" "m_seq m \<le> high"
        using Suc.prems(2) Inr hm unfolding paging_def by metis
      then have "after < ?after" using foldl_max_mem [OF m(1), of m_seq after] by simp
      then have "nat (high - ?after) < fuel" using Suc.prems(3) m by linarith
      then show ?thesis using Suc.IH Suc.prems by blast
    qed
    have "returns (for_each (\<lambda>m. handle_incoming W m True) (page_messages page) ?s)"
      using returns_incoming [OF Suc.prems(1)] by (intro returns_for_each)
    then show ?thesis
      using Inr more by (auto simp: http_messages_def Let_def intro!: returns_then_ok)
  qed
qed

text \<open>C27: Catching up always comes to an end against a server that pages honestly: if every page that
announces more holds a message beyond the cursor, and none lies beyond \<open>high\<close>, then \<open>backfill\<close> needs at
most one round per missing sequence number and one more.\<close>

theorem backfill_ends:
  assumes "responsive W" and "paging W high" and "conv_of s i = Some c"
    and "nat (high - max (c_synced_seq c) (c_joined_seq c)) < fuel"
  shows "fst (backfill W fuel i s) \<noteq> Inl Diverged"
  using returns_backfill_loop [OF assms(1,2,4)] assms(3) by (simp add: backfill_def returns_def)

end
