(* ===== verification/EnvelopeFacts.thy ===== *)
theory EnvelopeFacts
  imports Envelope Account
begin

text \<open>
  What the envelope format guarantees: whatever the client sends parses back to the same header,
  every recipient and nobody else opens it, the signature verifies, and an envelope that was
  accepted has exactly one reading.
\<close>

lemma seal_all_accounts:
  "seal_all C conv key ephs rcs = Inr es \<Longrightarrow>
     map (\<lambda>e. sr_account (sealed_of e)) es = map (\<lambda>rc. to_lower_case (rc_account rc)) rcs"
  by (induction rcs arbitrary: ephs es) (auto simp: sealed_of_def uuid_text_of_bytes)

text \<open>An envelope the client produced, as the layout of checked fields and as its reading.\<close>

lemma encrypt_parsed:
  assumes laws: "crypto_laws C" and key: "length (r_key r) = 32" and nonce: "length (r_nonce r) = 24"
    and enc: "encrypt_with C seed hdr rcs pt r = Inr (env, sig)"
  obtains conv sender device msg_id es aad where
    "uuid_to_bytes (h_conv hdr) = Inr conv" "uuid_to_bytes (h_sender hdr) = Inr sender"
    "uuid_to_bytes (h_device hdr) = Inr device" "uuid_to_bytes (h_msg_id hdr) = Inr msg_id"
    "seal_all C conv (r_key r) (r_ephemeral r) rcs = Inr es" "entries_wf es" "length es = length rcs"
    "aad = take (100 + 96 * length es) env"
    "parse env = Inr (parsed_of (word_of_int (h_flags hdr)) conv sender device msg_id
       (be_bytes 8 (nat (max 0 (h_ts hdr)))) es (r_nonce r) (aead_encrypt C (r_key r) (r_nonce r) aad pt) env)"
    "sig = sign C seed (SIG_PREFIX @ env)" "length env = 120 + 96 * length rcs + length pt"
proof -
  obtain conv sender device msg_id es hb where
    ids: "uuid_to_bytes (h_conv hdr) = Inr conv" "uuid_to_bytes (h_sender hdr) = Inr sender"
    "uuid_to_bytes (h_device hdr) = Inr device" "uuid_to_bytes (h_msg_id hdr) = Inr msg_id"
    and es: "seal_all C conv (r_key r) (r_ephemeral r) rcs = Inr es"
    and n: "1 \<le> length rcs" "length rcs \<le> 100" "120 + 96 * length rcs + length pt \<le> 65536"
    and hb: "hb = header_bytes (h_flags hdr) conv sender device msg_id (h_ts hdr) (length rcs)"
    and env: "env = layout hb es (r_nonce r)
       (aead_encrypt C (r_key r) (r_nonce r) (hb @ entries_bytes es @ r_nonce r) pt)"
    and sig: "sig = sign C seed (SIG_PREFIX @ env)"
    using encrypt_with_Inr [OF laws key nonce enc] by metis
  have wf: "entries_wf es" "length es = length rcs" using seal_all_wf [OF laws key es] by simp_all
  have l: "length conv = 16" "length sender = 16" "length device = 16" "length msg_id = 16"
    using ids by (simp_all add: uuid_to_bytes_Inr(1))
  have aad: "hb @ entries_bytes es @ r_nonce r = take (100 + 96 * length es) env"
  proof -
    have "length (hb @ entries_bytes es @ r_nonce r) = 100 + 96 * length es"
      using l nonce length_entries [OF wf(1)] by (simp add: hb header_bytes_def)
    then show ?thesis by (simp add: env layout_def)
  qed
  have ct: "length (aead_encrypt C (r_key r) (r_nonce r) (hb @ entries_bytes es @ r_nonce r) pt) = length pt + 16"
    using laws by (simp add: crypto_lengths)
  have "parse env = Inr (parsed_of (word_of_int (h_flags hdr)) conv sender device msg_id
       (be_bytes 8 (nat (max 0 (h_ts hdr)))) es (r_nonce r)
       (aead_encrypt C (r_key r) (r_nonce r) (hb @ entries_bytes es @ r_nonce r) pt) env)"
    by (rule parse_layout [OF l _ wf(1) _ _ nonce _ _ _ env]) (use n wf ct in \<open>simp_all add: hb header_bytes_def\<close>)
  moreover have "length env = 120 + 96 * length rcs + length pt"
    using l nonce ct length_entries [OF wf(1)] wf(2) by (simp add: env layout_def hb header_bytes_def)
  ultimately show ?thesis using that [OF ids es wf aad] sig unfolding aad by simp
qed

lemma parsed_of_sel [simp]:
  "h_flags (parsed_of f c s d m t es n ct env) = uint f"
  "h_conv (parsed_of f c s d m t es n ct env) = uuid_text c"
  "h_sender (parsed_of f c s d m t es n ct env) = uuid_text s"
  "h_device (parsed_of f c s d m t es n ct env) = uuid_text d"
  "h_msg_id (parsed_of f c s d m t es n ct env) = uuid_text m"
  "h_ts (parsed_of f c s d m t es n ct env) = number_of_bigint (be_value 0 t)"
  "pe_recipients (parsed_of f c s d m t es n ct env) = map sealed_of es"
  "pe_nonce (parsed_of f c s d m t es n ct env) = n"
  "pe_ciphertext (parsed_of f c s d m t es n ct env) = ct"
  "pe_raw (parsed_of f c s d m t es n ct env) = env"
  "pe_aad_len (parsed_of f c s d m t es n ct env) = 100 + 96 * length es"
  by (simp_all add: parsed_of_def)

lemma number_of_bigint_ts:
  "0 \<le> t \<Longrightarrow> t < 2 ^ 53 \<Longrightarrow> number_of_bigint (be_value 0 (be_bytes 8 (nat t))) = t"
proof -
  assume t: "0 \<le> t" "t < 2 ^ 53"
  then have "nat t < 2 ^ 53" by (simp add: nat_less_iff)
  then have "be_value 0 (be_bytes 8 (nat t)) = nat t"
    using t by (simp add: be_value_be_bytes)
  with t \<open>nat t < 2 ^ 53\<close> show ?thesis by (simp add: number_of_bigint_def)
qed

text \<open>What \<open>encryptWith\<close> produces is what \<open>parse\<close> reads: for any envelope the client builds, parsing
succeeds and returns the header fields (the identifiers in lower case, the flags as one byte, any
timestamp below 2^53 milliseconds exactly), the recipients in order, and the same raw bytes.\<close>

theorem parse_encrypt:
  assumes "crypto_laws C" and "length (r_key r) = 32" and "length (r_nonce r) = 24"
    and "encrypt_with C seed hdr rcs pt r = Inr (env, sig)" and "0 \<le> h_ts hdr" and "h_ts hdr < 2 ^ 53"
  shows "\<exists>e. parse env = Inr e \<and> h_flags e = h_flags hdr mod 256
    \<and> h_conv e = to_lower_case (h_conv hdr) \<and> h_sender e = to_lower_case (h_sender hdr)
    \<and> h_device e = to_lower_case (h_device hdr) \<and> h_msg_id e = to_lower_case (h_msg_id hdr)
    \<and> h_ts e = h_ts hdr
    \<and> map sr_account (pe_recipients e) = map (\<lambda>rc. to_lower_case (rc_account rc)) rcs
    \<and> pe_nonce e = r_nonce r \<and> pe_raw e = env
    \<and> length env = 120 + 96 * length rcs + length pt"
  by (rule encrypt_parsed [OF assms(1-4)])
    (simp add: uuid_text_of_bytes number_of_bigint_ts [OF assms(5,6)] assms(5) unsigned_of_int take_bit_eq_mod comp_def seal_all_accounts)


text \<open>The key sealed to the i-th recipient is opened by that recipient's private key.\<close>

lemma seal_all_nth:
  assumes laws: "crypto_laws C" and key: "length key = 32"
  shows "seal_all C conv key ephs rcs = Inr es \<Longrightarrow> list_all (\<lambda>e. length e = 32) ephs \<Longrightarrow>
    length ephs = length rcs \<Longrightarrow> i < length rcs \<Longrightarrow>
    rc_enc_pub (rcs ! i) = x25519_public C priv \<Longrightarrow> length priv = 32 \<Longrightarrow>
    \<exists>acct box. uuid_to_bytes (rc_account (rcs ! i)) = Inr acct \<and> es ! i = (acct, box)
      \<and> open_box C priv conv acct box = Inr key"
proof (induction rcs arbitrary: ephs es i)
  case Nil
  then show ?case by simp
next
  case (Cons rc rcs)
  from Cons.prems obtain eph ephs' where ephs: "ephs = eph # ephs'" by (cases ephs) auto
  show ?case
  proof (cases i)
    case 0
    with Cons.prems ephs open_box_seal_with [OF laws _ _ key, of eph priv conv] show ?thesis by auto
  next
    case (Suc j)
    with Cons.prems ephs Cons.IH [of ephs' _ j] show ?thesis by auto
  qed
qed

lemma find_distinct_nth:
  "distinct (map f xs) \<Longrightarrow> i < length xs \<Longrightarrow> List.find (\<lambda>x. f x = f (xs ! i)) xs = Some (xs ! i)"
proof (induction xs arbitrary: i)
  case Nil
  then show ?case by simp
next
  case (Cons x xs)
  then show ?case by (cases i) auto
qed

lemma decrypt_parsed_of:
  assumes laws: "crypto_laws C" and conv: "length conv = 16" and acct: "length acct = 16"
    and nth: "i < length es" "es ! i = (acct, box)" and dist: "distinct (map (\<lambda>e. sr_account (sealed_of e)) es)"
    and box: "open_box C priv conv acct box = Inr key" and key: "length key = 32" and nonce: "length n = 24"
  shows "decrypt C (parsed_of f conv s d m t es n
      (aead_encrypt C key n (take (100 + 96 * length es) env) pt) env) (uuid_text acct) priv = Inr pt"
proof -
  have "List.find (\<lambda>x. sr_account x = sr_account (map sealed_of es ! i)) (map sealed_of es)
      = Some (map sealed_of es ! i)"
    by (rule find_distinct_nth) (use dist nth in \<open>simp_all add: comp_def\<close>)
  then have "List.find (\<lambda>x. sr_account x = uuid_text acct) (map sealed_of es) = Some (sealed_of (acct, box))"
    using nth by (simp add: sealed_of_def)
  then show ?thesis
    using conv acct box laws key nonce
    by (simp add: decrypt_def uuid.dec_enc aead_decrypt_iff sealed_of_def)
qed

lemma decrypt_as_recipient:
  assumes "crypto_laws C" and "length (r_key r) = 32" and "length (r_nonce r) = 24"
    and "list_all (\<lambda>e. length e = 32) (r_ephemeral r)"
    and "encrypt_with C seed hdr rcs pt r = Inr (env, sig)"
    and "distinct (map (\<lambda>rc. to_lower_case (rc_account rc)) rcs)"
    and "i < length rcs" and "rc_enc_pub (rcs ! i) = x25519_public C priv" and "length priv = 32"
  shows "try_bind (parse env) (\<lambda>e. decrypt C e (to_lower_case (rc_account (rcs ! i))) priv) = Inr pt"
proof (rule encrypt_parsed [OF assms(1-3,5)])
  fix conv sender device msg_id es aad
  assume conv: "uuid_to_bytes (h_conv hdr) = Inr conv"
    and es: "seal_all C conv (r_key r) (r_ephemeral r) rcs = Inr es" and len: "length es = length rcs"
    and aad: "aad = take (100 + 96 * length es) env"
    and parsed: "parse env = Inr (parsed_of (word_of_int (h_flags hdr)) conv sender device msg_id
       (be_bytes 8 (nat (max 0 (h_ts hdr)))) es (r_nonce r) (aead_encrypt C (r_key r) (r_nonce r) aad pt) env)"
  have "length (r_ephemeral r) = length rcs"
    by (rule encrypt_with_Inr [OF assms(1-3,5)])
  then obtain acct box where "uuid_to_bytes (rc_account (rcs ! i)) = Inr acct" "es ! i = (acct, box)"
    "open_box C priv conv acct box = Inr (r_key r)"
    using seal_all_nth [OF assms(1,2) es assms(4) _ assms(7-9)] by blast
  with parsed aad show ?thesis
    using decrypt_parsed_of [OF assms(1), of conv acct i es box priv "r_key r" "r_nonce r"]
      assms conv seal_all_accounts [OF es] len
    by (simp add: uuid_to_bytes_Inr(1) uuid_text_of_bytes)
qed

text \<open>C10: Every recipient reads the message: decrypting an envelope the client produced, as any of its
recipients (the recipients distinct, each addressed under the public key of their own private key),
returns exactly the plaintext that was encrypted.\<close>

theorem decrypt_encrypt:
  assumes "crypto_laws C" and "length (r_key r) = 32" and "length (r_nonce r) = 24"
    and "list_all (\<lambda>e. length e = 32) (r_ephemeral r)"
    and "encrypt_with C seed hdr rcs pt r = Inr (env, sig)"
    and "distinct (map (\<lambda>rc. to_lower_case (rc_account rc)) rcs)"
    and "i < length rcs" and "rc_enc_pub (rcs ! i) = x25519_public C priv" and "length priv = 32"
  shows "try_bind (parse env) (\<lambda>e. decrypt C e (to_lower_case (rc_account (rcs ! i))) priv) = Inr pt"
  by (rule decrypt_as_recipient [OF assms])

text \<open>The receiver verifies what the sender sent: the signature made with the sender's seed verifies
under the sender's public signing key, over exactly the envelope bytes.\<close>

theorem verify_encrypt:
  assumes "crypto_laws C" and "length (r_key r) = 32" and "length (r_nonce r) = 24" and "length seed = 32"
    and "encrypt_with C seed hdr rcs pt r = Inr (env, sig)"
  shows "verify_envelope C (ed25519_public C seed) env sig"
proof (rule encrypt_parsed [OF assms(1-3,5)])
  assume "sig = sign C seed (SIG_PREFIX @ env)"
  with verify_sign [OF assms(1,4)] show ?thesis by (simp add: verify_envelope_def concat_bytes_eq)
qed


lemma drop_layout:
  assumes "length hb = 76" and "entries_wf es" and "length nonce = 24"
  shows "drop (100 + 96 * length es) (layout hb es nonce ct) = be_bytes 4 (length ct) @ ct"
proof -
  have "length (hb @ entries_bytes es @ nonce) = 100 + 96 * length es"
    using assms by (simp add: length_entries)
  moreover have "layout hb es nonce ct = (hb @ entries_bytes es @ nonce) @ be_bytes 4 (length ct) @ ct"
    by (simp add: layout_def)
  ultimately show ?thesis by (metis append_eq_conv_conj)
qed

text \<open>C11: Nobody else gets a reading: decrypting as an account that is not among the recipients throws, and
a successful decryption means that the sealed key of this account opened under this conversation and
account, and that the ciphertext is the encryption of the returned plaintext under that key, this
nonce and the whole header with the recipient list as associated data.\<close>

theorem decrypt_authentic:
  assumes "crypto_laws C" and "parse env = Inr e" and "decrypt C e account priv = Inr pt"
  shows "is_recipient e account
    \<and> (\<exists>rc key conv acct. rc \<in> set (pe_recipients e) \<and> sr_account rc = account
        \<and> uuid_to_bytes (h_conv e) = Inr conv \<and> uuid_to_bytes account = Inr acct
        \<and> open_box C priv conv acct (sr_key rc) = Inr key
        \<and> pe_aad_len e = 100 + 96 * length (pe_recipients e)
        \<and> env = take (pe_aad_len e) env @ be_bytes 4 (length pt + 16)
            @ aead_encrypt C key (pe_nonce e) (take (pe_aad_len e) env) pt)"
proof (rule parse_Inr [OF assms(2)])
  fix flags conv sender device msg_id ts es nonce ct
  assume l: "length conv = 16" "length sender = 16" "length device = 16" "length msg_id = 16" "length ts = 8"
    "length nonce = 24" and wf: "entries_wf es"
    and env: "env = layout ([1, flags] @ conv @ sender @ device @ msg_id @ ts @ be_bytes 2 (length es)) es nonce ct"
    and e: "e = parsed_of flags conv sender device msg_id ts es nonce ct env"
  obtain rc acct key where
    rc: "List.find (\<lambda>r. sr_account r = account) (map sealed_of es) = Some rc"
    and acct: "uuid_to_bytes account = Inr acct" and key: "open_box C priv conv acct (sr_key rc) = Inr key"
    and dec: "aead_decrypt C key nonce (take (pe_aad_len e) env) ct = Inr pt"
    using assms(3) l by (auto simp: decrypt_def e uuid.dec_enc split: option.splits)
  have "length key = 32" using open_box_Inr [OF assms(1) key] by metis
  then have ct: "ct = aead_encrypt C key nonce (take (pe_aad_len e) env) pt"
    using dec l by (simp add: aead_decrypt_iff assms(1))
  have "length ct = length pt + 16" unfolding ct using assms(1) by (simp add: crypto_lengths)
  moreover have "drop (pe_aad_len e) env = be_bytes 4 (length ct) @ ct"
    unfolding env e parsed_of_sel by (rule drop_layout) (use l wf in simp_all)
  ultimately have env_eq: "env = take (pe_aad_len e) env @ be_bytes 4 (length pt + 16)
      @ aead_encrypt C key nonce (take (pe_aad_len e) env) pt"
    using ct append_take_drop_id [of "pe_aad_len e" env] by metis
  have "rc \<in> set (pe_recipients e)" "sr_account rc = account"
    using rc by (auto simp: e find_Some_iff)
  then show ?thesis
    using acct key env_eq l
    by (auto simp: is_recipient_def list_ex_iff e uuid.dec_enc intro!: exI [of _ rc] exI [of _ key])
qed

text \<open>The writing side as a function of a reading: what the fields of a parsed envelope stand for.\<close>

definition uuid_bytes :: "string \<Rightarrow> bytes" where
  "uuid_bytes s = (case uuid_to_bytes s of Inl _ \<Rightarrow> [] | Inr b \<Rightarrow> b)"

definition print_envelope :: "parsed_envelope \<Rightarrow> bytes" where
  "print_envelope e = layout
     (header_bytes (h_flags e) (uuid_bytes (h_conv e)) (uuid_bytes (h_sender e)) (uuid_bytes (h_device e))
        (uuid_bytes (h_msg_id e)) (h_ts e) (length (pe_recipients e)))
     (map (\<lambda>r. (uuid_bytes (sr_account r), sr_key r)) (pe_recipients e)) (pe_nonce e) (pe_ciphertext e)"

lemma uuid_bytes_uuid_text [simp]: "length b = 16 \<Longrightarrow> uuid_bytes (uuid_text b) = b"
  by (simp add: uuid_bytes_def uuid.dec_enc)

lemma entries_sealed_of:
  "entries_wf es \<Longrightarrow> map (\<lambda>r. (uuid_bytes (sr_account r), sr_key r)) (map sealed_of es) = es"
  by (induction es) (auto simp: sealed_of_def)

text \<open>C12: No malleability: an accepted envelope is, byte for byte, the serialisation of what was read from
it (for timestamps a number can represent exactly), so two different envelopes never have the same
reading.\<close>

theorem print_parse:
  assumes "parse env = Inr e" and "be_value 0 (subarray 66 74 env) < 2 ^ 53"
  shows "print_envelope e = env"
proof (rule parse_Inr [OF assms(1)])
  fix flags conv sender device msg_id ts es nonce ct
  assume l: "length conv = 16" "length sender = 16" "length device = 16" "length msg_id = 16" "length ts = 8"
    "length nonce = 24" and wf: "entries_wf es"
    and env: "env = layout ([1, flags] @ conv @ sender @ device @ msg_id @ ts @ be_bytes 2 (length es)) es nonce ct"
    and e: "e = parsed_of flags conv sender device msg_id ts es nonce ct env"
  have "subarray 66 74 env = ts" using l by (simp add: env layout_def subarray_def)
  then have "be_bytes 8 (nat (number_of_bigint (be_value 0 ts))) = ts"
    using assms(2) l by (simp add: number_of_bigint_def be_bytes_be_value)
  moreover have "0 \<le> number_of_bigint (be_value 0 ts)" by (simp add: number_of_bigint_def)
  ultimately have "header_bytes (h_flags e) (uuid_bytes (h_conv e)) (uuid_bytes (h_sender e)) (uuid_bytes (h_device e))
        (uuid_bytes (h_msg_id e)) (h_ts e) (length (pe_recipients e))
      = [1, flags] @ conv @ sender @ device @ msg_id @ ts @ be_bytes 2 (length es)"
    using l by (simp add: e header_bytes_def max_absorb2)
  then show ?thesis
    unfolding print_envelope_def using entries_sealed_of [OF wf] by (simp add: e env)
qed

text \<open>Bounds of an accepted envelope: between 216 and 65536 bytes, between 1 and 100 recipients with
80-byte sealed keys, a 24-byte nonce, a ciphertext that holds at least the tag and fills the rest of
the envelope.\<close>

theorem parse_bounds:
  assumes "parse env = Inr e"
  shows "216 \<le> length env \<and> length env \<le> MAX_ENVELOPE_SIZE
    \<and> 1 \<le> length (pe_recipients e) \<and> length (pe_recipients e) \<le> MAX_RECIPIENTS
    \<and> list_all (\<lambda>r. length (sr_key r) = SEALED_KEY_SIZE \<and> is_uuid (sr_account r)) (pe_recipients e)
    \<and> length (pe_nonce e) = NONCE_SIZE \<and> TAG_SIZE \<le> length (pe_ciphertext e)
    \<and> length env = pe_aad_len e + 4 + length (pe_ciphertext e)
    \<and> is_uuid (h_conv e) \<and> is_uuid (h_sender e) \<and> 0 \<le> h_flags e \<and> h_flags e < 256"
proof (rule parse_Inr [OF assms])
  fix flags conv sender device msg_id ts es nonce ct
  assume l: "length conv = 16" "length sender = 16" "length device = 16" "length msg_id = 16" "length ts = 8"
    "length nonce = 24" "16 \<le> length ct" "1 \<le> length es" "length es \<le> 100"
    "104 + 96 * length es + length ct \<le> 65536" and wf: "entries_wf es"
    and env: "env = layout ([1, flags] @ conv @ sender @ device @ msg_id @ ts @ be_bytes 2 (length es)) es nonce ct"
    and e: "e = parsed_of flags conv sender device msg_id ts es nonce ct env"
  have len: "length env = 104 + 96 * length es + length ct"
    using l length_entries [OF wf] by (simp add: env layout_def)
  have "list_all (\<lambda>r. length (sr_key r) = 80 \<and> is_uuid (sr_account r)) (map sealed_of es)"
    using wf by (induction es) (auto simp: sealed_of_def is_uuid_iff uuid.dec_enc)
  moreover have "uint flags < 256" using uint_bounded [of flags] by simp
  ultimately show ?thesis
    using l len by (simp add: e is_uuid_iff uuid.dec_enc)
qed


section \<open>Totality\<close>

lemma seal_all_total:
  assumes laws: "crypto_laws C"
  shows "list_all (\<lambda>e. length e = 32) ephs \<Longrightarrow> length ephs = length rcs \<Longrightarrow>
    list_all (\<lambda>rc. is_uuid (rc_account rc) \<and> (\<exists>priv. length priv = 32 \<and> rc_enc_pub rc = x25519_public C priv)) rcs \<Longrightarrow>
    ok (seal_all C conv key ephs rcs)"
proof (induction rcs arbitrary: ephs)
  case Nil
  then show ?case by simp
next
  case (Cons rc rcs)
  then obtain eph ephs' priv where ephs: "ephs = eph # ephs'" "length eph = 32"
    and priv: "length priv = 32" "rc_enc_pub rc = x25519_public C priv" by (cases ephs) auto
  obtain acct where acct: "uuid_to_bytes (rc_account rc) = Inr acct"
    using Cons.prems by (auto simp: is_uuid_iff ok_def split: sum.splits)
  obtain box where "seal_with C eph (x25519_public C priv) conv acct key = Inr box"
    by (rule seal_with_ok [OF laws ephs(2) priv(1)])
  then show ?case
    using Cons.IH [of ephs'] Cons.prems ephs priv acct by (auto simp: ok_def split: sum.splits)
qed

definition header_ids_ok :: "header \<Rightarrow> bool" where
  "header_ids_ok hdr \<longleftrightarrow> is_uuid (h_conv hdr) \<and> is_uuid (h_sender hdr) \<and> is_uuid (h_device hdr) \<and> is_uuid (h_msg_id hdr)"

definition addressable :: "crypto \<Rightarrow> recipient \<Rightarrow> bool" where
  "addressable C rc \<longleftrightarrow> is_uuid (rc_account rc) \<and> (\<exists>priv. length priv = 32 \<and> rc_enc_pub rc = x25519_public C priv)"

lemma encrypt_with_total:
  assumes "crypto_laws C" and "length (r_key r) = 32" and "length (r_nonce r) = 24"
    and "list_all (\<lambda>e. length e = 32) (r_ephemeral r)"
    and "header_ids_ok hdr" and "list_all (addressable C) rcs" and "length (r_ephemeral r) = length rcs"
    and "1 \<le> length rcs" "length rcs \<le> 100" "120 + 96 * length rcs + length pt \<le> 65536"
  shows "\<exists>env sig. encrypt_with C seed hdr rcs pt r = Inr (env, sig)"
proof -
  obtain conv sender device msg_id where ids: "uuid_to_bytes (h_conv hdr) = Inr conv"
    "uuid_to_bytes (h_sender hdr) = Inr sender"
    "uuid_to_bytes (h_device hdr) = Inr device" "uuid_to_bytes (h_msg_id hdr) = Inr msg_id"
    using assms(5) by (auto simp: header_ids_ok_def is_uuid_iff ok_def split: sum.splits)
  have rcs: "list_all (\<lambda>rc. is_uuid (rc_account rc) \<and> (\<exists>priv. length priv = 32 \<and> rc_enc_pub rc = x25519_public C priv)) rcs"
    using assms(6) by (simp add: addressable_def list_all_iff)
  obtain es where "seal_all C conv (r_key r) (r_ephemeral r) rcs = Inr es"
    using seal_all_total [OF assms(1,4,7) rcs, of conv "r_key r"] by (auto simp: ok_def split: sum.splits)
  then show ?thesis
    unfolding encrypt_with_eq [OF assms(1-3)] encrypt_spec_def
    using assms(7-10) by (auto simp: ids Let_def not_less)
qed

text \<open>\<open>encrypt\<close> succeeds exactly within its bounds: with well-formed identifiers and recipients that
can be addressed, it fails only for no recipient or more than 100, or when the whole envelope would
exceed 65536 bytes; every other call returns an envelope of the expected size.\<close>

theorem encrypt_total:
  assumes "crypto_laws C" and "length k = 32" and "length n = 24" and "\<forall>i. length (eph i) = 32"
    and "header_ids_ok hdr" and "list_all (addressable C) rcs"
  shows "(if length rcs = 0 \<or> 100 < length rcs
       then encrypt C k n eph seed hdr rcs pt = Inl (JsError ''invalid recipient count'')
       else if 65536 < 120 + 96 * length rcs + length pt
       then encrypt C k n eph seed hdr rcs pt = Inl (JsError ''envelope too large'')
       else \<exists>env sig. encrypt C k n eph seed hdr rcs pt = Inr (env, sig)
              \<and> length env = 120 + 96 * length rcs + length pt)"
proof -
  define r where "r = \<lparr>r_key = k, r_nonce = n, r_ephemeral = map eph [0..<length rcs]\<rparr>"
  have r: "length (r_key r) = 32" "length (r_nonce r) = 24" "list_all (\<lambda>e. length e = 32) (r_ephemeral r)"
    "length (r_ephemeral r) = length rcs"
    using assms by (simp_all add: r_def list_all_iff)
  have total: "\<exists>env sig. encrypt_with C seed hdr rcs pt r = Inr (env, sig) \<and> length env = 120 + 96 * length rcs + length pt"
    if n: "1 \<le> length rcs" "length rcs \<le> 100" "120 + 96 * length rcs + length pt \<le> 65536"
  proof -
    obtain env sig where out: "encrypt_with C seed hdr rcs pt r = Inr (env, sig)"
      using encrypt_with_total [OF assms(1) r(1-3) assms(5,6) r(4) n] by blast
    moreover have "length env = 120 + 96 * length rcs + length pt"
      by (rule encrypt_parsed [OF assms(1) r(1,2) out])
    ultimately show ?thesis by blast
  qed
  have small: "encrypt C k n eph seed hdr rcs pt = Inl (JsError ''invalid recipient count'')"
    if "length rcs = 0 \<or> 100 < length rcs"
    using that by (auto simp: encrypt_def encrypt_with_def Let_def)
  have large: "encrypt C k n eph seed hdr rcs pt = Inl (JsError ''envelope too large'')"
    if "\<not> (length rcs = 0 \<or> 100 < length rcs)" "65536 < 120 + 96 * length rcs + length pt"
    using that r(4) unfolding encrypt_def encrypt_with_eq [OF assms(1) r(1,2), unfolded r_def]
    by (auto simp: encrypt_spec_def r_def)
  show ?thesis
  proof (cases "length rcs = 0 \<or> 100 < length rcs")
    case True
    with small show ?thesis by simp
  next
    case False
    then have "1 \<le> length rcs" "length rcs \<le> 100" by (simp_all add: Suc_le_eq)
    with False large total show ?thesis unfolding encrypt_def r_def by simp
  qed
qed

text \<open>C29: The routine writes field by field into a zeroed buffer with a running offset; it computes exactly
the concatenation of the protocol's fields, error cases in the same order.\<close>

theorem encrypt_with_layout:
  assumes "crypto_laws C" and "length (r_key r) = 32" and "length (r_nonce r) = 24"
  shows "encrypt_with C seed hdr rcs pt r = encrypt_spec C seed hdr rcs pt r"
  by (rule encrypt_with_eq [OF assms])

text \<open>Signatures cannot be moved between uses: what the signing key signs as an envelope is never what
it signs as a password change, so neither signature verifies as the other's message.\<close>

theorem signing_domains_disjoint:
  assumes "password_change_message c a d s k b f = Inr m"
  shows "m \<noteq> concat_bytes [SIG_PREFIX, env]"
proof
  assume "m = concat_bytes [SIG_PREFIX, env]"
  then have "m ! 5 = SIG_PREFIX ! 5" by (simp add: concat_bytes_eq SIG_PREFIX_def)
  moreover have "m ! 5 = PW_CHANGE_PREFIX ! 5"
    using arg_cong [OF password_change_message_shape(2) [OF assms], of "\<lambda>xs. xs ! 5"] by simp
  ultimately show False by (simp add: SIG_PREFIX_def PW_CHANGE_PREFIX_def)
qed


section \<open>Closed examples\<close>

definition demo_id :: "string" where
  "demo_id = ''00112233-4455-6677-8899-AABBCCDDEEFF''"

definition demo_header :: header where
  "demo_header = \<lparr>h_flags = 258, h_conv = demo_id, h_sender = demo_id, h_device = demo_id,
     h_msg_id = demo_id, h_ts = 1700000000000\<rparr>"

definition demo_priv :: bytes where
  "demo_priv = replicate 32 7"

definition demo_rcs :: "recipient list" where
  "demo_rcs = [\<lparr>rc_account = demo_id, rc_enc_pub = x25519_public demo_crypto demo_priv\<rparr>]"

definition demo_random :: randomness where
  "demo_random = \<lparr>r_key = replicate 32 1, r_nonce = replicate 24 2, r_ephemeral = [replicate 32 3]\<rparr>"

lemma demo_id_is_uuid: "is_uuid demo_id"
  by code_simp

lemma demo_facts:
  "length (r_key demo_random) = 32" "length (r_nonce demo_random) = 24"
  "list_all (\<lambda>e. length e = 32) (r_ephemeral demo_random)"
  "header_ids_ok demo_header" "list_all (addressable demo_crypto) demo_rcs" "length demo_priv = 32"
  "length demo_rcs = 1" "length (r_ephemeral demo_random) = 1"
  "rc_enc_pub (demo_rcs ! 0) = x25519_public demo_crypto demo_priv"
  "distinct (map (\<lambda>rc. to_lower_case (rc_account rc)) demo_rcs)"
  "0 \<le> h_ts demo_header" "h_ts demo_header < 2 ^ 53"
  using demo_id_is_uuid
  by (auto simp: demo_random_def header_ids_ok_def demo_header_def demo_rcs_def addressable_def demo_priv_def
      intro!: exI [of _ "replicate 32 7"])

lemma demo_encrypt:
  obtains env sig where "encrypt_with demo_crypto demo_priv demo_header demo_rcs [9] demo_random = Inr (env, sig)"
proof -
  have "\<exists>env sig. encrypt_with demo_crypto demo_priv demo_header demo_rcs [9] demo_random = Inr (env, sig)"
    by (rule encrypt_with_total [OF demo_crypto_laws]) (simp_all add: demo_facts)
  then show ?thesis using that by blast
qed

lemma parse_encrypt_witness:
  "\<exists>env sig e. encrypt_with demo_crypto demo_priv demo_header demo_rcs [9] demo_random = Inr (env, sig)
     \<and> parse env = Inr e \<and> h_flags e = 2 \<and> h_ts e = 1700000000000 \<and> length env = 217"
proof (rule demo_encrypt)
  fix env sig assume enc: "encrypt_with demo_crypto demo_priv demo_header demo_rcs [9] demo_random = Inr (env, sig)"
  show ?thesis
    using parse_encrypt [OF demo_crypto_laws demo_facts(1,2) enc demo_facts(11,12)] enc
    by (auto simp: demo_header_def demo_facts(7))
qed

lemma decrypt_encrypt_witness:
  "\<exists>env sig. encrypt_with demo_crypto demo_priv demo_header demo_rcs [9] demo_random = Inr (env, sig)
     \<and> try_bind (parse env) (\<lambda>e. decrypt demo_crypto e (to_lower_case (rc_account (demo_rcs ! 0))) demo_priv)
         = Inr [9]"
proof (rule demo_encrypt)
  fix env sig assume enc: "encrypt_with demo_crypto demo_priv demo_header demo_rcs [9] demo_random = Inr (env, sig)"
  show ?thesis
    using decrypt_encrypt [OF demo_crypto_laws demo_facts(1-3) enc demo_facts(10) _ demo_facts(9) demo_facts(6)] enc
    by (auto simp: demo_facts(7))
qed

lemma verify_encrypt_witness:
  "\<exists>env sig. encrypt_with demo_crypto demo_priv demo_header demo_rcs [9] demo_random = Inr (env, sig)
     \<and> verify_envelope demo_crypto (ed25519_public demo_crypto demo_priv) env sig"
proof (rule demo_encrypt)
  fix env sig assume enc: "encrypt_with demo_crypto demo_priv demo_header demo_rcs [9] demo_random = Inr (env, sig)"
  show ?thesis
    using verify_encrypt [OF demo_crypto_laws demo_facts(1,2,6) enc] enc by auto
qed

text \<open>An accepted and decrypted envelope, for the properties of the reading side.\<close>

lemma demo_parsed:
  obtains env e where "parse env = Inr e" and "decrypt demo_crypto e (to_lower_case demo_id) demo_priv = Inr [9]"
    and "be_value 0 (subarray 66 74 env) < 2 ^ 53"
proof (rule demo_encrypt)
  fix env sig assume enc: "encrypt_with demo_crypto demo_priv demo_header demo_rcs [9] demo_random = Inr (env, sig)"
  have "try_bind (parse env) (\<lambda>e. decrypt demo_crypto e (to_lower_case (rc_account (demo_rcs ! 0))) demo_priv) = Inr [9]"
    by (rule decrypt_as_recipient [OF demo_crypto_laws demo_facts(1-3) enc demo_facts(10) _ demo_facts(9) demo_facts(6)])
      (simp add: demo_facts(7))
  then obtain e where e: "parse env = Inr e" "decrypt demo_crypto e (to_lower_case demo_id) demo_priv = Inr [9]"
    by (auto simp: demo_rcs_def)
  have "be_value 0 (subarray 66 74 env) < 2 ^ 53"
    by (rule encrypt_with_Inr [OF demo_crypto_laws demo_facts(1,2) enc])
      (simp add: layout_def header_bytes_def subarray_def uuid_to_bytes_Inr(1) be_value_be_bytes demo_header_def)
  with e that show ?thesis by blast
qed

lemma decrypt_authentic_witness:
  "\<exists>env e. parse env = Inr e \<and> decrypt demo_crypto e (to_lower_case demo_id) demo_priv = Inr [9]
     \<and> is_recipient e (to_lower_case demo_id)"
  by (rule demo_parsed) (use decrypt_authentic [OF demo_crypto_laws] in blast)

lemma print_parse_witness: "\<exists>env e. parse env = Inr e \<and> print_envelope e = env"
  by (rule demo_parsed) (use print_parse in blast)

lemma parse_bounds_witness: "\<exists>env e. parse env = Inr e \<and> 216 \<le> length env"
  by (rule demo_parsed) (use parse_bounds in blast)

lemma encrypt_total_witness:
  "\<exists>env sig. encrypt demo_crypto (replicate 32 1) (replicate 24 2) (\<lambda>_. replicate 32 3) demo_priv demo_header
     demo_rcs [9] = Inr (env, sig) \<and> length env = 217"
  using encrypt_total [OF demo_crypto_laws, of "replicate 32 1" "replicate 24 2" "\<lambda>_. replicate 32 3" demo_header demo_rcs demo_priv "[9]"]
  by (simp add: demo_facts)

lemma encrypt_with_layout_witness:
  "encrypt_with demo_crypto demo_priv demo_header demo_rcs [9] demo_random
     = encrypt_spec demo_crypto demo_priv demo_header demo_rcs [9] demo_random"
  by (rule encrypt_with_layout [OF demo_crypto_laws demo_facts(1,2)])

lemma signing_domains_disjoint_witness:
  "\<exists>m. password_change_message (replicate 32 0) (replicate 16 1) (replicate 16 2) (replicate 16 3) (replicate 32 4)
      (replicate KEY_BUNDLE_SIZE 5) True = Inr m \<and> m \<noteq> concat_bytes [SIG_PREFIX, [1, 2]]"
proof -
  have "\<exists>m. password_change_message (replicate 32 0) (replicate 16 1) (replicate 16 2) (replicate 16 3) (replicate 32 4)
      (replicate KEY_BUNDLE_SIZE 5) True = Inr m"
    by (simp add: password_change_message_def PW_CHANGE_CHALLENGE_SIZE_def SALT_SIZE_def)
  then show ?thesis using signing_domains_disjoint [where env = "[1, 2]"] by blast
qed

end
