(* ===== verification/Messaging.thy ===== *)
theory Messaging
  imports Delivery EnvelopeFacts
begin

text \<open>
  \<open>web/src/state/messaging.ts\<close>: outgoing messages, conversation management and reading cursors. The
  trust actions of the same file are in \<open>Trust\<close>.
\<close>

section \<open>Requests\<close>

definition http_send :: "world \<Rightarrow> string \<Rightarrow> string \<Rightarrow> string \<Rightarrow> app \<Rightarrow> send_result result \<times> app" where
  "http_send W conv_id env sig s = (let s' = request (RSend conv_id env sig) s in (w_send W (a_requests s'), s'))"

definition http_done :: "world \<Rightarrow> http_request \<Rightarrow> app \<Rightarrow> unit result \<times> app" where
  "http_done W r s = (let s' = request r s in (w_done W (a_requests s'), s'))"

definition http_user :: "world \<Rightarrow> string \<Rightarrow> app \<Rightarrow> user_view result \<times> app" where
  "http_user W username s = (let s' = request (RUser username) s in (w_user W (a_requests s') username, s'))"

text \<open>The endpoints that answer with a conversation.\<close>

definition http_conv :: "world \<Rightarrow> http_request \<Rightarrow> string \<Rightarrow> app \<Rightarrow> conversation_view result \<times> app" where
  "http_conv W r ident s = (let s' = request r s in (w_conversation W (a_requests s') ident, s'))"

section \<open>Whom a message is sealed to\<close>

definition is_bot :: "app \<Rightarrow> string \<Rightarrow> bool" where
  "is_bot s i = (case contact_of s i of None \<Rightarrow> False | Some c \<Rightarrow> ct_is_bot c)"

definition sealing_members :: "app \<Rightarrow> conversation \<Rightarrow> string \<Rightarrow> string list" where
  "sealing_members s conv me =
     (let base = (case c_roster conv of Some r \<Rightarrow> r | None \<Rightarrow> c_server_members conv);
          ids0 = filter (\<lambda>i. i \<in> set (c_server_members conv)) base;
          ids1 = foldl (\<lambda>ids i. if i \<notin> set ids \<and> is_bot s i then ids @ [i] else ids) ids0 (c_server_members conv)
      in if me \<notin> set ids1 then ids1 @ [me] else ids1)"

definition unverified_members :: "app \<Rightarrow> conversation \<Rightarrow> string list" where
  "unverified_members s conv =
     (case c_roster conv of
        None \<Rightarrow> []
      | Some r \<Rightarrow> filter (\<lambda>i. i \<notin> set r \<and> \<not> is_bot s i) (c_server_members conv))"

fun recipients_loop :: "app \<Rightarrow> string list \<Rightarrow> recipient list result" where
  "recipients_loop s [] = Inr []"
| "recipients_loop s (i # ids) =
     (case contact_of s i of
        None \<Rightarrow> Inl (JsError (''No keys known for member '' @ take 8 i @ ''; try reconnecting''))
      | Some c \<Rightarrow>
          if ct_pending_keys c \<noteq> None
          then Inl (JsError (ct_username c @ '': '' @ translate (a_dict s) ''keys_changed'' []))
          else try_bind (recipients_loop s ids) (\<lambda>rs. Inr (\<lparr>rc_account = i, rc_enc_pub = ct_enc_pub c\<rparr> # rs)))"

definition recipients_for :: "app \<Rightarrow> conversation \<Rightarrow> string \<Rightarrow> recipient list result" where
  "recipients_for s conv me = recipients_loop s (sealing_members s conv me)"

section \<open>Sending\<close>

text \<open>The envelope of a payload, from the keys and the random draws of this send.\<close>

definition seal_payload ::
  "world \<Rightarrow> session_info \<Rightarrow> account_keys \<Rightarrow> string \<Rightarrow> payload \<Rightarrow> int \<Rightarrow> recipient list \<Rightarrow> app \<Rightarrow> (bytes \<times> bytes) result" where
  "seal_payload W si k conv_id payload flags recipients s =
     encrypt (w_crypto W) (w_key W (a_draws s)) (w_nonce W (a_draws s)) (w_ephemeral W (a_draws s)) (sign_seed k)
       \<lparr>h_flags = flags, h_conv = conv_id, h_sender = si_account_id si, h_device = si_device_id si,
        h_msg_id = w_uuid W (a_draws s), h_ts = a_now s\<rparr>
       recipients (w_write_payload W payload)"

definition send_payload :: "world \<Rightarrow> string \<Rightarrow> payload \<Rightarrow> int \<Rightarrow> bool \<Rightarrow> app \<Rightarrow> send_result result \<times> app" where
  "send_payload W conv_id payload flags track_opt s =
     (case (a_session s, a_keys s, conv_of s conv_id) of
        (Some si, Some k, Some conv) \<Rightarrow>
          (case recipients_for s conv (si_account_id si) of
             Inl e \<Rightarrow> throw e s
           | Inr recipients \<Rightarrow>
               let client_msg_id = w_uuid W (a_draws s);
                   ts = a_now s;
                   s1 = s\<lparr>a_draws := Suc (a_draws s)\<rparr>
               in case seal_payload W si k conv_id payload flags recipients s of
                    Inl e \<Rightarrow> throw e s1
                  | Inr (env, sig) \<Rightarrow>
                      let track = (flags AND FLAG_EPHEMERAL = 0 \<and> track_opt);
                          s2 = (if track
                                then s1\<lparr>a_pending := a_pending s1 @ [\<lparr>pm_client_msg_id = client_msg_id,
                                  pm_conv_id = conv_id, pm_payload = payload, pm_ts = ts, pm_failed = None,
                                  pm_uploading = False\<rparr>]\<rparr>
                                else s1)
                      in attempt (http_send W conv_id (b64encode env) (b64encode sig) s2)
                           (\<lambda>e s. throw e (if track
                              then s\<lparr>a_pending := map (\<lambda>p. if pm_client_msg_id p = client_msg_id
                                     then p\<lparr>pm_failed := Some (err_message e)\<rparr> else p) (a_pending s)\<rparr>
                              else s)))
      | _ \<Rightarrow> throw (JsError ''not ready'') s)"

definition send_text :: "world \<Rightarrow> string \<Rightarrow> string \<Rightarrow> app \<Rightarrow> send_result result \<times> app" where
  "send_text W conv_id body s = send_payload W conv_id (Text body None) 0 True s"

definition edit_text :: "world \<Rightarrow> string \<Rightarrow> stored_message \<Rightarrow> string \<Rightarrow> app \<Rightarrow> unit result \<times> app" where
  "edit_text W conv_id original body s =
     (case a_session s of
        None \<Rightarrow> throw type_error s
      | Some si \<Rightarrow>
          (case sm_payload original of
             Some (Text previous reply) \<Rightarrow>
               if sm_sender original \<noteq> si_account_id si
               then throw (JsError ''only your own text messages can be edited'') s
               else
                 let s1 = set_message_body conv_id (sm_seq original) body True s in
                 attempt (then_ok (send_payload W conv_id
                       (TextEdit (Some (sm_client_msg_id original)) (Some body)) 0 False s1) (\<lambda>_. ret ()))
                   (\<lambda>e s. throw e (set_message_body conv_id (sm_seq original) previous (sm_edited original) s))
           | _ \<Rightarrow> throw (JsError ''only your own text messages can be edited'') s))"

definition delete_message :: "world \<Rightarrow> string \<Rightarrow> stored_message \<Rightarrow> app \<Rightarrow> unit result \<times> app" where
  "delete_message W conv_id m s =
     then_ok (http_done W (RDeleteMessage conv_id (sm_seq m)) s) (\<lambda>_ s.
     then_ok (remove_local_message conv_id (sm_seq m) s) (\<lambda>_ s.
       ret () (case sm_payload m of
                 Some (File f) \<Rightarrow> if fp_blob f \<noteq> [] then request (RDeleteBlob (fp_blob f)) s else s
               | _ \<Rightarrow> s)))"

definition dismiss_pending :: "string \<Rightarrow> app \<Rightarrow> app" where
  "dismiss_pending client_msg_id s =
     s\<lparr>a_pending := filter (\<lambda>p. pm_client_msg_id p \<noteq> client_msg_id) (a_pending s)\<rparr>"

section \<open>Conversations and members\<close>

definition member_info :: "app \<Rightarrow> string \<Rightarrow> member_info result" where
  "member_info s i =
     (case contact_of s i of
        None \<Rightarrow> Inl (JsError ''unknown member'')
      | Some c \<Rightarrow> Inr \<lparr>mi_id = i, mi_username = ct_username c, mi_sign_pub = b64encode (ct_sign_pub c),
          mi_enc_pub = b64encode (ct_enc_pub c)\<rparr>)"

fun member_infos :: "app \<Rightarrow> string list \<Rightarrow> member_info list result" where
  "member_infos s [] = Inr []"
| "member_infos s (i # ids) =
     try_bind (member_info s i) (\<lambda>m. try_bind (member_infos s ids) (\<lambda>ms. Inr (m # ms)))"

definition strip_at :: "string \<Rightarrow> string" where
  "strip_at s = (case s of [] \<Rightarrow> [] | c # cs \<Rightarrow> if c = CHR ''@'' then cs else s)"

definition lookup_user :: "world \<Rightarrow> string \<Rightarrow> app \<Rightarrow> string result \<times> app" where
  "lookup_user W username s =
     then_ok (http_user W (strip_at (js_trim username)) s) (\<lambda>u s.
     then_ok (b64decode (u_sign_pub u), s) (\<lambda>spub s.
     then_ok (b64decode (u_enc_pub u), s) (\<lambda>epub s.
       if length spub \<noteq> 32 \<or> length epub \<noteq> 32 then throw (JsError ''invalid key from server'') s
       else ret (u_id u) (observe_keys (u_id u) (u_username u) spub epub
              (Some (u_is_bot u = Some True)) (u_display_name u) s))))"

text \<open>The signed event that opens a conversation.\<close>

definition announce :: "world \<Rightarrow> string \<Rightarrow> (member_info list \<Rightarrow> payload) \<Rightarrow> string list \<Rightarrow> app \<Rightarrow> send_result result \<times> app" where
  "announce W conv_id mk ids s =
     then_ok (member_infos s ids, s) (\<lambda>ms s. send_payload W conv_id (mk ms) 0 True s)"

definition open_direct_with :: "world \<Rightarrow> string \<Rightarrow> app \<Rightarrow> string result \<times> app" where
  "open_direct_with W account_id s =
     (let si = a_session s in
      then_ok (http_conv W (RCreateDirect account_id) account_id s) (\<lambda>cv s.
      then_ok (upsert_from_server cv s) (\<lambda>conv s.
      then_ok (if cv_last_seq cv = 0
               then (case si of
                       None \<Rightarrow> throw type_error s
                     | Some si \<Rightarrow> then_ok (announce W (c_id conv) (\<lambda>ms. ConvCreate Direct None (Some ms))
                         [si_account_id si, account_id] s) (\<lambda>_. ret ()))
               else ret () s) (\<lambda>_ s.
        ret (c_id conv) (s\<lparr>a_selected := Some (c_id conv)\<rparr>)))))"

definition create_direct :: "world \<Rightarrow> string \<Rightarrow> app \<Rightarrow> string result \<times> app" where
  "create_direct W username s =
     (let me = a_session s in
      then_ok (lookup_user W username s) (\<lambda>ident s.
        case me of
          None \<Rightarrow> throw type_error s
        | Some si \<Rightarrow>
            if ident = si_account_id si then throw (JsError (translate (a_dict s) ''that_is_you'' [])) s
            else open_direct_with W ident s))"

fun lookup_users :: "world \<Rightarrow> session_info option \<Rightarrow> string list \<Rightarrow> string list \<Rightarrow> app \<Rightarrow> string list result \<times> app" where
  "lookup_users W si [] ids s = ret ids s"
| "lookup_users W si (name # names) ids s =
     then_ok (lookup_user W name s) (\<lambda>i s.
       case si of
         None \<Rightarrow> throw type_error s
       | Some x \<Rightarrow> lookup_users W si names (if i \<noteq> si_account_id x \<and> i \<notin> set ids then ids @ [i] else ids) s)"

definition create_group :: "world \<Rightarrow> string \<Rightarrow> string list \<Rightarrow> app \<Rightarrow> string result \<times> app" where
  "create_group W name usernames s =
     (let si = a_session s in
      then_ok (lookup_users W si usernames [] s) (\<lambda>ids s.
      then_ok (http_conv W (RCreateGroup ids) [] s) (\<lambda>cv s.
      then_ok (upsert_from_server cv s) (\<lambda>conv s.
        case si of
          None \<Rightarrow> throw type_error s
        | Some x \<Rightarrow>
            then_ok (announce W (c_id conv) (\<lambda>ms. ConvCreate Group (Some (js_trim name)) (Some ms))
              (si_account_id x # ids) s) (\<lambda>_ s.
            ret (c_id conv) (s\<lparr>a_selected := Some (c_id conv)\<rparr>))))))"

definition add_member :: "world \<Rightarrow> string \<Rightarrow> string \<Rightarrow> app \<Rightarrow> unit result \<times> app" where
  "add_member W conv_id username s =
     (let si = a_session s in
      then_ok (lookup_user W username s) (\<lambda>ident s.
      then_ok (http_conv W (RAddMember conv_id ident) conv_id s) (\<lambda>cv s.
      then_ok (upsert_from_server cv s) (\<lambda>conv s.
        case si of
          None \<Rightarrow> throw type_error s
        | Some x \<Rightarrow>
            let base = set_of (case c_roster conv of Some r \<Rightarrow> r
                         | None \<Rightarrow> filter (\<lambda>m. m \<noteq> ident) (c_server_members conv));
                roster = set_add ident (set_add (si_account_id x) base)
            in then_ok (member_info s ident, s) (\<lambda>m s.
               then_ok (announce W conv_id (\<lambda>ms. MemberAdd (Some m) (Some ms)) roster s) (\<lambda>_. ret ()))))))"

definition remove_member :: "world \<Rightarrow> nat \<Rightarrow> string \<Rightarrow> string \<Rightarrow> app \<Rightarrow> unit result \<times> app" where
  "remove_member W fuel conv_id account_id s =
     (case a_session s of None \<Rightarrow> (if conv_of s conv_id = None then ret () s else throw type_error s) | Some si \<Rightarrow>
      case conv_of s conv_id of None \<Rightarrow> ret () s | Some conv \<Rightarrow>
      let remaining = filter (\<lambda>m. m \<noteq> account_id) (sealing_members s conv (si_account_id si)) in
      then_ok (attempt (then_ok (announce W conv_id (\<lambda>ms. MemberRemove account_id (Some ms)) remaining s) (\<lambda>_. ret ()))
                 (\<lambda>e. ret ())) (\<lambda>_ s.
      then_ok (http_done W (RRemoveMember conv_id account_id) s) (\<lambda>_ s.
        if account_id = si_account_id si then
          (let s1 = set_conversation (conv\<lparr>c_removed := True\<rparr>) (on_db (put_conversation (conv\<lparr>c_removed := True\<rparr>)) s)
           in ret () (if a_selected s1 = Some conv_id then s1\<lparr>a_selected := None\<rparr> else s1))
        else refresh_conversation W fuel conv_id s)))"

definition rename_group :: "world \<Rightarrow> string \<Rightarrow> string \<Rightarrow> app \<Rightarrow> unit result \<times> app" where
  "rename_group W conv_id name s = then_ok (send_payload W conv_id (ConvRename (js_trim name)) 0 True s) (\<lambda>_. ret ())"

definition set_retention :: "world \<Rightarrow> string \<Rightarrow> int \<Rightarrow> app \<Rightarrow> unit result \<times> app" where
  "set_retention W conv_id seconds s =
     then_ok (http_done W (RSetRetention conv_id seconds) s) (\<lambda>_ s.
       let s1 = (case conv_of s conv_id of
                   None \<Rightarrow> s
                 | Some conv \<Rightarrow> persist_conversation (conv\<lparr>c_retention_seconds := seconds\<rparr>) s)
       in attempt (then_ok (send_payload W conv_id (ConvRetention seconds) 0 True s1) (\<lambda>_. ret ())) (\<lambda>e. ret ()))"

definition mark_read :: "world \<Rightarrow> string \<Rightarrow> int \<Rightarrow> app \<Rightarrow> unit result \<times> app" where
  "mark_read W conv_id seq s =
     (case conv_of s conv_id of
        None \<Rightarrow> ret () s
      | Some conv \<Rightarrow>
          if seq \<le> c_read_seq conv then ret () s
          else attempt (http_done W (RMarkRead conv_id seq) (persist_conversation (conv\<lparr>c_read_seq := seq\<rparr>) s))
                 (\<lambda>e. ret ()))"

end
