(* ===== verification/MessagingFacts.thy ===== *)
theory MessagingFacts
  imports Messaging
begin

text \<open>
  Who can read what the client sends, what blocks sending, and that a message sent by one client is
  what the other stores.
\<close>

section \<open>Recipients\<close>

lemma bots_fold:
  "set (foldl (\<lambda>ids i. if i \<notin> set ids \<and> is_bot s i then ids @ [i] else ids) ids L)
     = set ids \<union> {i \<in> set L. is_bot s i}"
  by (induction L arbitrary: ids) auto

lemma bots_fold_distinct:
  "distinct ids \<Longrightarrow> distinct (foldl (\<lambda>ids i. if i \<notin> set ids \<and> is_bot s i then ids @ [i] else ids) ids L)"
  by (induction L arbitrary: ids) auto

lemma set_sealing_members:
  "set (sealing_members s conv me) = insert me
     ({i \<in> set (c_server_members conv). case c_roster conv of None \<Rightarrow> True | Some r \<Rightarrow> i \<in> set r \<or> is_bot s i})"
  unfolding sealing_members_def Let_def by (auto simp: bots_fold split: option.split)

lemma distinct_sealing_members:
  "distinct (c_server_members conv) \<Longrightarrow> (\<And>r. c_roster conv = Some r \<Longrightarrow> distinct r) \<Longrightarrow>
     distinct (sealing_members s conv me)"
  unfolding sealing_members_def Let_def by (auto intro!: bots_fold_distinct split: option.split)

lemma recipients_loop_Inr:
  "recipients_loop s ids = Inr rs \<longleftrightarrow> list_all2 (\<lambda>i rc. \<exists>c. contact_of s i = Some c \<and> ct_pending_keys c = None
     \<and> rc = \<lparr>rc_account = i, rc_enc_pub = ct_enc_pub c\<rparr>) ids rs"
proof (induction ids arbitrary: rs)
  case Nil
  then show ?case by auto
next
  case (Cons i ids)
  then show ?case
    by (cases rs) (auto simp: try_bind_Inr_iff simp del: not_None_eq split: option.split)
qed

lemma recipients_loop_accounts: "recipients_loop s ids = Inr rs \<Longrightarrow> map rc_account rs = ids"
  unfolding recipients_loop_Inr by (induction ids rs rule: list_all2_induct) auto

text \<open>C6: Whom a message is sealed to: exactly the author and those server-listed members that the signed
roster names, or that are bots; without a signed roster, the server's list. So once a signed roster
is known, a member the server added on its own, shown as unverified, cannot read anything.\<close>

theorem sealing_members_exact:
  "set (sealing_members s conv me) = insert me
     {i \<in> set (c_server_members conv). case c_roster conv of None \<Rightarrow> True | Some r \<Rightarrow> i \<in> set r \<or> is_bot s i}
   \<and> set (unverified_members s conv) \<inter> set (sealing_members s conv me) \<subseteq> {me}"
  unfolding set_sealing_members by (auto simp: unverified_members_def split: option.splits)

text \<open>C7: A message is sealed only under pinned keys: the recipients are the sealing members in order, each a
known contact with no flagged keys, under its pinned encryption key; if any of them is unknown or
has flagged keys, nothing is sent and the state does not change.\<close>

theorem recipients_pinned:
  assumes "a_session s = Some si" and "a_keys s = Some k" and "conv_of s conv_id = Some conv"
  shows "(case recipients_for s conv (si_account_id si) of
       Inr rs \<Rightarrow> map rc_account rs = sealing_members s conv (si_account_id si)
         \<and> (\<forall>rc \<in> set rs. \<exists>c. contact_of s (rc_account rc) = Some c \<and> ct_pending_keys c = None
              \<and> rc_enc_pub rc = ct_enc_pub c)
     | Inl e \<Rightarrow> send_payload W conv_id p flags track s = (Inl e, s)
         \<and> (\<exists>i \<in> set (sealing_members s conv (si_account_id si)).
              case contact_of s i of None \<Rightarrow> True | Some c \<Rightarrow> ct_pending_keys c \<noteq> None))"
proof (cases "recipients_for s conv (si_account_id si)")
  case (Inl e)
  have "recipients_loop s ids = Inl e \<Longrightarrow> \<exists>i \<in> set ids. case contact_of s i of None \<Rightarrow> True | Some c \<Rightarrow> ct_pending_keys c \<noteq> None"
    for ids
    by (induction ids) (auto simp: try_bind_def split: option.splits if_splits sum.splits)
  with Inl assms show ?thesis by (simp add: send_payload_def recipients_for_def throw_def)
next
  case (Inr rs)
  then have L: "recipients_loop s (sealing_members s conv (si_account_id si)) = Inr rs"
    by (simp add: recipients_for_def)
  then have "\<forall>rc \<in> set rs. \<exists>c. contact_of s (rc_account rc) = Some c \<and> ct_pending_keys c = None
      \<and> rc_enc_pub rc = ct_enc_pub c"
    unfolding recipients_loop_Inr by (fastforce simp: list_all2_conv_all_nth in_set_conv_nth)
  with Inr recipients_loop_accounts [OF L] show ?thesis by simp
qed

section \<open>From one client to the other\<close>

lemma send_payload_sent:
  assumes "send_payload W conv_id p flags track s = (Inr res, t)"
  obtains si k conv rs env sig where
    "a_session s = Some si" "a_keys s = Some k" "conv_of s conv_id = Some conv"
    "recipients_for s conv (si_account_id si) = Inr rs"
    "seal_payload W si k conv_id p flags rs s = Inr (env, sig)"
    "a_requests t = a_requests s @ [RSend conv_id (b64encode env) (b64encode sig)]"
proof -
  obtain si k conv where st: "a_session s = Some si" "a_keys s = Some k" "conv_of s conv_id = Some conv"
    using assms by (auto simp: send_payload_def throw_def split: option.splits)
  obtain rs where rs: "recipients_for s conv (si_account_id si) = Inr rs"
    using assms st by (auto simp: send_payload_def throw_def split: sum.splits)
  obtain e where e: "seal_payload W si k conv_id p flags rs s = Inr e"
    using assms st rs by (auto simp: send_payload_def throw_def Let_def split: sum.splits)
  obtain env sig where es: "e = (env, sig)" by (cases e)
  have "a_requests t = a_requests s @ [RSend conv_id (b64encode env) (b64encode sig)]"
    using assms st rs e
    by (auto simp: es send_payload_def Let_def http_send_def attempt_def throw_def split: sum.splits if_splits)
  then show ?thesis using that st rs e es by blast
qed

text \<open>The conditions under which an account is reachable and the surroundings work as documented.\<close>

definition good_world :: "world \<Rightarrow> bool" where
  "good_world W \<longleftrightarrow> crypto_laws (w_crypto W) \<and> (\<forall>n. length (w_key W n) = 32) \<and> (\<forall>n. length (w_nonce W n) = 24)
     \<and> (\<forall>n i. length (w_ephemeral W n i) = 32)"

lemma sent_is_read:
  assumes W: "good_world W" and codec: "w_read_payload W' (w_write_payload W p) = Inr (Some p)"
    and same: "w_crypto W' = w_crypto W" and p: "payload_t p \<noteq> None"
    and send: "send_payload W conv_id p flags track s = (Inr res, t)"
    and me: "a_session s = Some si" and keys: "a_keys s = Some k" and kwf: "keys_wf (w_crypto W) k"
    and conv: "conv_of s conv_id = Some conv" and ts: "0 \<le> a_now s" "a_now s < 2 ^ 53"
    and dist: "distinct (sealing_members s conv (si_account_id si))"
    and lower: "\<forall>i \<in> set (sealing_members s conv (si_account_id si)). to_lower_case i = i"
    and lower_conv: "to_lower_case conv_id = conv_id"
    and to: "si_account_id si' \<in> set (sealing_members s conv (si_account_id si))"
    and known: "contact_of s (si_account_id si') = Some c'" "ct_enc_pub c' = enc_pub k'"
    and kwf': "keys_wf (w_crypto W) k'" and pin: "ct_sign_pub c = sign_pub k"
  shows "\<exists>env sig. a_requests t = a_requests s @ [RSend conv_id env sig]
    \<and> (\<forall>view. m_env view = env \<longrightarrow> m_sig view = sig \<longrightarrow> m_sender_account view = si_account_id si \<longrightarrow>
         m_conv_id view = conv_id \<longrightarrow> read_view W' view si' k' (Some c) = (Some p, None, a_now s))"
proof -
  let ?C = "w_crypto W" and ?me = "si_account_id si"
  obtain rs env sig where rs: "recipients_for s conv ?me = Inr rs"
    and seal: "seal_payload W si k conv_id p flags rs s = Inr (env, sig)"
    and req: "a_requests t = a_requests s @ [RSend conv_id (b64encode env) (b64encode sig)]"
    by (rule send_payload_sent [OF send]) (use me keys conv in auto)
  define hdr where "hdr = \<lparr>h_flags = flags, h_conv = conv_id, h_sender = ?me, h_device = si_device_id si,
        h_msg_id = w_uuid W (a_draws s), h_ts = a_now s\<rparr>"
  define r where "r = \<lparr>r_key = w_key W (a_draws s), r_nonce = w_nonce W (a_draws s),
        r_ephemeral = map (w_ephemeral W (a_draws s)) [0..<length rs]\<rparr>"
  have enc: "encrypt_with ?C (sign_seed k) hdr rs (w_write_payload W p) r = Inr (env, sig)"
    using seal by (simp add: seal_payload_def encrypt_def hdr_def r_def)
  have laws: "crypto_laws ?C" and r: "length (r_key r) = 32" "length (r_nonce r) = 24"
    "list_all (\<lambda>e. length e = 32) (r_ephemeral r)"
    using W by (simp_all add: good_world_def r_def list_all_iff)
  have ids: "map rc_account rs = sealing_members s conv ?me"
    using rs by (auto simp: recipients_for_def dest: recipients_loop_accounts)
  have lows: "map (\<lambda>rc. to_lower_case (rc_account rc)) rs = map rc_account rs"
    using lower by (auto simp: ids [symmetric])
  obtain i where i: "i < length rs" "rc_account (rs ! i) = si_account_id si'"
    using to unfolding ids [symmetric] by (auto simp: in_set_conv_nth)
  have "rc_enc_pub (rs ! i) = ct_enc_pub c'"
  proof -
    have "list_all2 (\<lambda>i rc. \<exists>c. contact_of s i = Some c \<and> ct_pending_keys c = None
       \<and> rc = \<lparr>rc_account = i, rc_enc_pub = ct_enc_pub c\<rparr>) (sealing_members s conv ?me) rs"
      using rs by (simp add: recipients_for_def recipients_loop_Inr)
    then obtain d where "contact_of s (sealing_members s conv ?me ! i) = Some d"
      "rs ! i = \<lparr>rc_account = sealing_members s conv ?me ! i, rc_enc_pub = ct_enc_pub d\<rparr>"
      using i by (auto simp: list_all2_conv_all_nth)
    with i known show ?thesis by auto
  qed
  then have pub: "rc_enc_pub (rs ! i) = x25519_public ?C (enc_priv k')" "length (enc_priv k') = 32"
    using known keys_wfD [OF kwf'] by simp_all
  have opened: "try_bind (parse env) (\<lambda>e. decrypt ?C e (to_lower_case (rc_account (rs ! i))) (enc_priv k'))
      = Inr (w_write_payload W p)"
    by (rule decrypt_as_recipient [OF laws r enc _ i(1) pub]) (simp add: lows ids dist)
  then obtain e where e: "parse env = Inr e" "decrypt ?C e (si_account_id si') (enc_priv k') = Inr (w_write_payload W p)"
    using i lower to by auto
  have hd: "h_sender e = ?me \<and> h_conv e = conv_id \<and> h_ts e = a_now s"
  proof (rule encrypt_parsed [OF laws r(1,2) enc])
    fix cb sender device msg_id es aad
    assume u: "uuid_to_bytes (h_conv hdr) = Inr cb" "uuid_to_bytes (h_sender hdr) = Inr sender"
      and pe: "parse env = Inr (parsed_of (word_of_int (h_flags hdr)) cb sender device msg_id
         (be_bytes 8 (nat (max 0 (h_ts hdr)))) es (r_nonce r) (aead_encrypt ?C (r_key r) (r_nonce r) aad (w_write_payload W p)) env)"
    have "to_lower_case ?me = ?me" using lower by (simp add: set_sealing_members)
    then show ?thesis
      using u pe e lower_conv ts number_of_bigint_ts [OF ts] by (auto simp: uuid_text_of_bytes hdr_def)
  qed
  have ver: "verify_envelope ?C (sign_pub k) env sig"
  proof (rule encrypt_parsed [OF laws r(1,2) enc])
    assume "sig = sign ?C (sign_seed k) (SIG_PREFIX @ env)"
    then show ?thesis
      using verify_sign [OF laws keys_wfD(1) [OF kwf]] keys_wfD(3) [OF kwf]
      by (simp add: verify_envelope_def concat_bytes_eq)
  qed
  show ?thesis
    by (rule exI [of _ "b64encode env"], rule exI [of _ "b64encode sig"])
      (use req e hd ver pin codec same p in \<open>auto simp: read_view_def b64decode_b64encode Let_def\<close>)
qed


text \<open>C1: What one client sends is what the other reads: if a send succeeds, then the request carries an
envelope that every recipient's client, given the envelope back from the server under the right
sender and conversation and knowing the sender by its pinned signing key, reads as exactly the payload
that was sent, without error and with the sender's timestamp.\<close>

theorem end_to_end:
  assumes W: "good_world W" and codec: "w_read_payload W' (w_write_payload W p) = Inr (Some p)"
    and same: "w_crypto W' = w_crypto W" and p: "payload_t p \<noteq> None"
    and send: "send_payload W conv_id p flags track s = (Inr res, t)"
    and me: "a_session s = Some si" and keys: "a_keys s = Some k" and kwf: "keys_wf (w_crypto W) k"
    and conv: "conv_of s conv_id = Some conv" and ts: "0 \<le> a_now s" "a_now s < 2 ^ 53"
    and dist: "distinct (sealing_members s conv (si_account_id si))"
    and lower: "\<forall>i \<in> set (sealing_members s conv (si_account_id si)). to_lower_case i = i"
    and lower_conv: "to_lower_case conv_id = conv_id"
    and to: "si_account_id si' \<in> set (sealing_members s conv (si_account_id si))"
    and known: "contact_of s (si_account_id si') = Some c'" "ct_enc_pub c' = enc_pub k'"
    and kwf': "keys_wf (w_crypto W) k'" and pin: "ct_sign_pub c = sign_pub k"
  shows "\<exists>env sig. a_requests t = a_requests s @ [RSend conv_id env sig]
    \<and> (\<forall>view. m_env view = env \<longrightarrow> m_sig view = sig \<longrightarrow> m_sender_account view = si_account_id si \<longrightarrow>
         m_conv_id view = conv_id \<longrightarrow> read_view W' view si' k' (Some c) = (Some p, None, a_now s))"
  by (rule sent_is_read [OF assms])

section \<open>Editing one's own message\<close>

lemma send_payload_messages: "same_messages s (snd (send_payload W conv_id p flags track s))"
proof -
  have d: "same_messages s (s\<lparr>a_draws := x\<rparr>)" for s x by (simp add: same_messages_def)
  have pd: "same_messages s (s\<lparr>a_pending := x\<rparr>)" for s x by (simp add: same_messages_def)
  have h: "same_messages s (snd (http_send W conv_id e g s))" for s e g
    by (simp add: http_send_def Let_def same_messages_def)
  have at: "same_messages s (snd (attempt (http_send W conv_id e g u) f))"
    if "same_messages s u" "\<And>e t. same_messages t (snd (f e t))" for s u e g f
    by (rule msgs.R_trans [OF that(1)]) (intro msgs.frame_attempt h that(2))
  have dp: "same_messages s (s\<lparr>a_draws := x, a_pending := y\<rparr>)" for s x y by (simp add: same_messages_def)
  show ?thesis
    unfolding send_payload_def Let_def
    by (auto split: option.split sum.split simp: msgs.R_refl d dp pd intro!: at)
qed


section \<open>Where the code falls short\<close>

text \<open>The conversation \<open>finish_stored\<close> leaves behind.\<close>

lemma finish_stored_conv:
  "\<exists>c2. conv_of (snd (finish_stored (Some si) conv msg pv n s)) (c_id n) = Some c2
     \<and> c_read_seq c2 = (if sm_sender msg = si_account_id si then max (c_read_seq n) (sm_seq msg) else c_read_seq n)
     \<and> c_synced_seq c2 = c_synced_seq n \<and> c_last_seq c2 = c_last_seq n"
proof -
  define n1 where "n1 = (if pv \<noteq> [] \<and> (c_last_message conv = None \<or> c_synced_seq conv \<le> sm_seq msg)
                  then n\<lparr>c_last_message := Some \<lparr>lm_text = pv, lm_ts = sm_ts msg,
                              lm_sender = sm_sender msg, lm_seq = Some (sm_seq msg)\<rparr>,
                            c_updated_at := max (c_updated_at conv) (sm_server_ts msg)\<rparr>
                  else n)"
  have n1: "c_id n1 = c_id n" "c_read_seq n1 = c_read_seq n" "c_synced_seq n1 = c_synced_seq n" "c_last_seq n1 = c_last_seq n"
    by (simp_all add: n1_def)
  define n2 where "n2 = (if sm_sender msg = si_account_id si \<and> c_read_seq n1 < sm_seq msg
     then n1\<lparr>c_read_seq := sm_seq msg\<rparr> else n1)"
  have "conv_of (snd (finish_stored (Some si) conv msg pv n s)) (c_id n) = Some n2"
    unfolding finish_stored_def Let_def n1_def [symmetric] n2_def [symmetric]
    by (simp add: n2_def n1)
  then show ?thesis by (auto simp: n2_def n1)
qed

text \<open>A reading cursor can be lost: \<open>applyStored\<close> keeps the conversation it read before it waits for the
database; if the person marks the conversation read meanwhile, the rest of \<open>applyStored\<close> writes the old
cursor back.\<close>

theorem read_cursor_lost:
  assumes "app_inv s" and "conv_of s i = Some c" and "c_read_seq c < q" and "a_session s = Some si"
    and "sm_conv_id msg = i" and "sm_payload msg = Some (Text b rp)" and "sm_sender msg \<noteq> si_account_id si"
  shows "\<exists>c1 c2. conv_of (snd (mark_read W i q s)) i = Some c1 \<and> c_read_seq c1 = q
    \<and> conv_of (snd (apply_stored_rest (a_session s) c msg (snd (mark_read W i q s)))) i = Some c2
    \<and> c_read_seq c2 = c_read_seq c"
proof -
  let ?t = "snd (mark_read W i q s)"
  have id: "c_id c = i" using app_invD(6) [OF assms(1,2)] .
  have "conv_of ?t i = Some (c\<lparr>c_read_seq := q\<rparr>)"
    using assms(2,3) id by (simp add: mark_read_def attempt_def http_done_def Let_def ret_def split: sum.split)
  moreover have "\<exists>c2. conv_of (snd (apply_stored_rest (Some si) c msg u)) i = Some c2 \<and> c_read_seq c2 = c_read_seq c" for u
  proof -
    have "snd (apply_stored_rest (Some si) c msg u) = snd (finish_stored (Some si) c msg b
        (c\<lparr>c_synced_seq := max (c_synced_seq c) (sm_seq msg), c_last_seq := max (c_last_seq c) (sm_seq msg)\<rparr>)
        (store_message msg u))"
      using assms(6) by (simp add: apply_stored_rest_def Let_def apply_event_def)
    then show ?thesis
      using finish_stored_conv [of si c msg b "c\<lparr>c_synced_seq := max (c_synced_seq c) (sm_seq msg),
        c_last_seq := max (c_last_seq c) (sm_seq msg)\<rparr>" "store_message msg u"] assms(7) id by auto
  qed
  then obtain c2 where "conv_of (snd (apply_stored_rest (a_session s) c msg ?t)) i = Some c2" "c_read_seq c2 = c_read_seq c"
    unfolding assms(4) by blast
  ultimately show ?thesis by (intro exI [of _ "c\<lparr>c_read_seq := q\<rparr>"] exI [of _ c2]) simp
qed

text \<open>One malformed membership event stops a conversation: a signed event without its member list, which
any member can send, makes the handler throw after the message is stored and before the cursor moves;
from then on every later live message runs into the same event again and is not processed.\<close>

theorem malformed_event_blocks:
  assumes "a_session s = Some si" and "a_keys s = Some k" and "conv_of s i = Some c" and "\<not> c_removed c" and "c_id c = i"
    and "contact_of s (m_sender_account bad) = Some ct" and "\<not> is_expired s c (m_server_ts bad)"
    and "read_view W bad si k (Some ct) = (Some (MemberRemove x None), None, ts)"
    and "m_conv_id bad = i" and "m_deleted_seq bad = None" and "c_roster_seq c < m_seq bad"
    and "\<And>q. w_messages W q i (max (c_synced_seq c) (c_joined_seq c)) = Inr \<lparr>page_messages = bad # rest, page_has_more = hm\<rparr>"
    and "m_conv_id view = i" and "max (c_synced_seq c) (c_joined_seq c) + 1 < m_seq view"
  shows "fst (on_live_message W (Suc fuel) view s) = Inl type_error
    \<and> conv_of (snd (on_live_message W (Suc fuel) view s)) i = Some c"
proof -
  let ?a = "max (c_synced_seq c) (c_joined_seq c)"
  let ?s = "request (RMessages i ?a 200) s"
  define msg where "msg = \<lparr>sm_conv_id = i, sm_seq = m_seq bad, sm_client_msg_id = m_client_msg_id bad,
     sm_sender = m_sender_account bad, sm_sender_device = m_sender_device bad, sm_ts = ts,
     sm_server_ts = m_server_ts bad, sm_payload = Some (MemberRemove x None), sm_error = None, sm_edited = False\<rparr>"
  have "handle_incoming W bad True ?s = apply_stored msg ?s"
    using assms by (simp add: handle_incoming_def look_up_sender_def msg_def)
  also have "apply_stored msg ?s = apply_stored_rest (Some si) c msg ?s"
    using assms by (simp add: apply_stored_def msg_def is_expired_def effective_retention_def)
  also have "\<dots> = (Inl type_error, store_message msg ?s)"
    using assms(11) by (simp add: apply_stored_rest_def apply_event_def msg_def Let_def throw_def)
  finally have run: "handle_incoming W bad True ?s = (Inl type_error, store_message msg ?s)" .
  have "backfill W (Suc fuel) i s = (Inl type_error, store_message msg ?s)"
    using assms(3,12) run by (simp add: backfill_def http_messages_def Let_def)
  then have "on_live_message W (Suc fuel) view s = (Inl type_error, store_message msg ?s)"
    using assms(3,4,13,14) by (simp add: on_live_message_def)
  then show ?thesis using assms(3) by simp
qed

text \<open>A frame that is delivered again is not recognised: nothing compares it with what is stored, so the
copy in the database is overwritten with the original, undoing an edit, while the loaded list keeps
the edited text.\<close>

theorem redelivery_reverts_edit:
  assumes "app_inv s" and "conv_of s i = Some c" and "\<not> is_expired s c (sm_server_ts msg)"
    and "sm_conv_id msg = i" and "sm_payload msg = Some (Text b rp)"
    and "loaded_of s i = Some l" and "m0 \<in> set l" and "sm_seq m0 = sm_seq msg"
  shows "get_message i (sm_seq msg) (a_db (snd (apply_stored msg s))) = Some msg
    \<and> loaded_of (snd (apply_stored msg s)) i = Some l"
proof -
  have run: "apply_stored msg s = apply_stored_rest (a_session s) c msg s"
    using assms(2-5) by (simp add: apply_stored_def)
  have db: "db_inv (a_db s)" using assms(1) by (rule app_invD)
  have "get_message i (sm_seq msg) (a_db (snd (apply_stored msg s))) = Some msg"
    unfolding run using get_message_put [OF db] assms(4) by (simp add: get_message_def rest_messages)
  moreover have "a_messages (store_message msg s) = a_messages s"
    using assms(4,6-8) by (auto simp: store_message_def Let_def list_ex_iff)
  then have "a_messages (snd (apply_stored msg s)) = a_messages s"
    using assms(5) unfolding run apply_stored_rest_def Let_def
    using same_messages_finish [of "store_message msg s"]
    by (simp add: apply_event_def same_messages_def)
  ultimately show ?thesis using assms(6) by simp
qed

text \<open>The message id beside the envelope is not compared with the signed one.\<close>

lemma client_msg_id_unsigned:
  "read_view W (view\<lparr>m_client_msg_id := x\<rparr>) si k sender = read_view W view si k sender"
proof -
  have "m_env (view\<lparr>m_client_msg_id := x\<rparr>) = m_env view" "m_sig (view\<lparr>m_client_msg_id := x\<rparr>) = m_sig view"
    "m_sender_account (view\<lparr>m_client_msg_id := x\<rparr>) = m_sender_account view"
    "m_conv_id (view\<lparr>m_client_msg_id := x\<rparr>) = m_conv_id view"
    "m_server_ts (view\<lparr>m_client_msg_id := x\<rparr>) = m_server_ts view"
    by simp_all
  then show ?thesis unfolding read_view_def by (simp only:)
qed

end
