(* ===== verification/Examples.thy ===== *)
theory Examples
  imports MessagingFacts
begin

text \<open>
  Closed examples: a small world and state in which the hypotheses of the properties hold, and each
  property applied to it.
\<close>

section \<open>Two accounts and a conversation\<close>

definition alice :: string where "alice = ''0a112233-4455-6677-8899-aabbccddeeff''"
definition bob :: string where "bob = ''0b112233-4455-6677-8899-aabbccddeeff''"
definition chat :: string where "chat = ''0c112233-4455-6677-8899-aabbccddeeff''"
definition phone :: string where "phone = ''0d112233-4455-6677-8899-aabbccddeeff''"
definition ticket :: string where "ticket = ''0e112233-4455-6677-8899-aabbccddeeff''"

lemma names_are_uuids: "is_uuid alice" "is_uuid bob" "is_uuid chat" "is_uuid phone" "is_uuid ticket"
  by code_simp+

lemma names_are_lower: "to_lower_case alice = alice" "to_lower_case bob = bob" "to_lower_case chat = chat"
  by code_simp+

lemma names_distinct: "alice \<noteq> bob" "bob \<noteq> alice"
  by code_simp+

definition keys_of :: "byte \<Rightarrow> account_keys" where
  "keys_of b = \<lparr>sign_seed = replicate 32 b, sign_pub = ed25519_public demo_crypto (replicate 32 b),
     enc_priv = replicate 32 b, enc_pub = x25519_public demo_crypto (replicate 32 b)\<rparr>"

lemma keys_of_wf: "keys_wf demo_crypto (keys_of b)"
  by (simp add: keys_wf_def keys_of_def keys_from_secrets_def)

definition contact_for :: "string \<Rightarrow> byte \<Rightarrow> contact" where
  "contact_for i b = \<lparr>ct_id = i, ct_username = ''name'', ct_display_name = None, ct_is_bot = False,
     ct_sign_pub = sign_pub (keys_of b), ct_enc_pub = enc_pub (keys_of b), ct_verified = True,
     ct_pending_keys = None, ct_first_seen = 0\<rparr>"

definition the_chat :: conversation where
  "the_chat = \<lparr>c_id = chat, c_kind = Direct, c_name = [], c_created_by = alice, c_created_at = 0, c_role = Owner,
     c_joined_seq = 0, c_last_seq = 2, c_read_seq = 0, c_synced_seq = 2, c_server_members = [alice, bob],
     c_roster = Some [alice, bob], c_roster_seq = 1, c_retention_seconds = 0, c_last_message = None,
     c_updated_at = 0, c_removed = False\<rparr>"

definition hello :: stored_message where
  "hello = \<lparr>sm_conv_id = chat, sm_seq = 2, sm_client_msg_id = ticket, sm_sender = alice, sm_sender_device = phone,
     sm_ts = 5, sm_server_ts = 5, sm_payload = Some (Text ''hello'' None), sm_error = None, sm_edited = False\<rparr>"

definition session_for :: "string \<Rightarrow> session_info" where
  "session_for i = \<lparr>si_account_id = i, si_device_id = phone, si_username = ''name'', si_token = [], si_is_admin = False\<rparr>"

text \<open>Alice's client: signed in, both contacts pinned, one conversation with one message, loaded.\<close>

definition her_app :: app where
  "her_app = initial_app\<lparr>a_session := Some (session_for alice), a_keys := Some (keys_of 5),
     a_contacts := [(alice, contact_for alice 5), (bob, contact_for bob 6)],
     a_conversations := [(chat, the_chat)], a_messages := [(chat, [hello])],
     a_db := \<lparr>db_session = None, db_keys = None, db_contacts = [], db_conversations = [],
              db_messages = [(MsgKey chat 2, hello)]\<rparr>, a_now := 1000000\<rparr>"

text \<open>Bob's client is the same with his session and keys.\<close>

definition his_app :: app where
  "his_app = her_app\<lparr>a_session := Some (session_for bob), a_keys := Some (keys_of 6)\<rparr>"

text \<open>A world whose payloads all read as \<open>p\<close>, whose server knows nothing more.\<close>

definition the_world :: "payload \<Rightarrow> world" where
  "the_world p = \<lparr>w_crypto = demo_crypto, w_read_payload = (\<lambda>_. Inr (Some p)), w_write_payload = (\<lambda>_. [9]),
     w_conversations = (\<lambda>_. Inr []), w_conversation = (\<lambda>_ _. Inl (ApiErr 404 ''not_found'' ''not found'')),
     w_messages = (\<lambda>_ _ _. Inr \<lparr>page_messages = [], page_has_more = False\<rparr>),
     w_send = (\<lambda>_. Inr \<lparr>sr_conv_id = chat, sr_client_msg_id = ticket, sr_seq = 3, sr_server_ts = 7,
                        sr_duplicate = None, sr_ephemeral = None\<rparr>),
     w_done = (\<lambda>_. Inr ()), w_user = (\<lambda>_ _. Inl (ApiErr 404 ''not_found'' ''not found'')),
     w_blob_id = (\<lambda>_. Inr ticket), w_blob = (\<lambda>_ _. Inr []),
     w_uuid = (\<lambda>_. ticket), w_key = (\<lambda>_. replicate 32 1), w_nonce = (\<lambda>_. replicate 24 2),
     w_ephemeral = (\<lambda>_ _. replicate 32 3)\<rparr>"

lemma the_world_good: "good_world (the_world p)"
  by (simp add: good_world_def the_world_def demo_crypto_laws)

lemma the_world_responsive: "responsive (the_world p)" "paging (the_world p) q"
  by (simp_all add: responsive_def the_world_def paging_def)

lemma her_app_sel:
  "a_session her_app = Some (session_for alice)" "a_keys her_app = Some (keys_of 5)"
  "conv_of her_app chat = Some the_chat" "loaded_of her_app chat = Some [hello]"
  "contact_of her_app alice = Some (contact_for alice 5)" "contact_of her_app bob = Some (contact_for bob 6)"
  "get_message chat 2 (a_db her_app) = Some hello" "a_now her_app = 1000000" "a_settings her_app = None"
  "a_conversations her_app = [(chat, the_chat)]"
  by (simp_all add: her_app_def initial_app_def get_message_def sget_def names_distinct)

lemma her_app_inv: "app_inv her_app"
  by (simp add: her_app_def initial_app_def app_inv_def convs_inv_def contacts_inv_def loaded_inv_def db_inv_def
      jmap_inv_def store_inv_def the_chat_def contact_for_def hello_def msg_key_def)

lemma his_app_sel:
  "a_session his_app = Some (session_for bob)" "a_keys his_app = Some (keys_of 6)"
  "conv_of his_app chat = Some the_chat" "loaded_of his_app chat = Some [hello]"
  "contact_of his_app alice = Some (contact_for alice 5)" "get_message chat 2 (a_db his_app) = Some hello"
  "a_now his_app = 1000000" "a_settings his_app = None"
  using her_app_sel by (simp_all add: his_app_def)

lemma his_app_inv: "app_inv his_app"
  using her_app_inv by (simp add: his_app_def app_inv_def convs_inv_def contacts_inv_def loaded_inv_def)

lemma retention_off: "effective_retention her_app the_chat = 0" "\<not> is_expired her_app the_chat t"
  "effective_retention his_app the_chat = 0" "\<not> is_expired his_app the_chat t"
  by (simp_all add: effective_retention_def is_expired_def her_app_sel his_app_sel the_chat_def Let_def)

lemma the_recipients: "sealing_members her_app the_chat alice = [alice, bob]"
  by (simp add: sealing_members_def the_chat_def is_bot_def her_app_sel contact_for_def names_distinct)

section \<open>A message on its way\<close>

definition frame_of :: "string \<Rightarrow> string \<Rightarrow> int \<Rightarrow> message_view" where
  "frame_of env sig seq = \<lparr>m_conv_id = chat, m_seq = seq, m_sender_account = alice, m_sender_device = phone,
     m_client_msg_id = ticket, m_env = env, m_sig = sig, m_server_ts = 6, m_deleted_seq = None, m_deleted_sender = None\<rparr>"

lemma frame_sel: "m_conv_id (frame_of e g q) = chat" "m_seq (frame_of e g q) = q"
  "m_sender_account (frame_of e g q) = alice" "m_server_ts (frame_of e g q) = 6" "m_deleted_seq (frame_of e g q) = None"
  by (simp_all add: frame_of_def)

lemma the_chat_sel: "c_id the_chat = chat" "\<not> c_removed the_chat" "c_roster_seq the_chat = 1"
  "c_synced_seq the_chat = 2" "c_joined_seq the_chat = 0"
  by (simp_all add: the_chat_def)

lemma her_recipients: "recipients_for her_app the_chat alice = Inr
    [\<lparr>rc_account = alice, rc_enc_pub = enc_pub (keys_of 5)\<rparr>, \<lparr>rc_account = bob, rc_enc_pub = enc_pub (keys_of 6)\<rparr>]"
  by (simp add: recipients_for_def the_recipients her_app_sel contact_for_def)

text \<open>The same from every state that differs in the stored messages only.\<close>

lemma sends_from:
  assumes "a_session s = Some (session_for alice)" and "a_keys s = Some (keys_of 5)" and "conv_of s chat = Some the_chat"
    and "a_contacts s = a_contacts her_app" and "a_now s = 1000000"
  shows "\<exists>res t. send_payload (the_world p) chat p flags track s = (Inr res, t)"
proof -
  let ?W = "the_world p" and ?r = "\<lparr>r_key = replicate 32 1, r_nonce = replicate 24 2,
    r_ephemeral = [replicate 32 3, replicate 32 3]\<rparr> :: randomness"
  let ?rs = "[\<lparr>rc_account = alice, rc_enc_pub = enc_pub (keys_of 5)\<rparr>, \<lparr>rc_account = bob, rc_enc_pub = enc_pub (keys_of 6)\<rparr>]"
  let ?h = "\<lparr>h_flags = flags, h_conv = chat, h_sender = alice, h_device = phone, h_msg_id = ticket, h_ts = 1000000\<rparr>"
  have "sealing_members s the_chat alice = [alice, bob]"
    using the_recipients assms(4) by (simp add: sealing_members_def is_bot_def)
  then have rs: "recipients_for s the_chat alice = Inr ?rs"
    using her_recipients assms(4) by (simp add: recipients_for_def her_app_sel contact_for_def)
  have "\<exists>env sig. encrypt_with demo_crypto (sign_seed (keys_of 5)) ?h ?rs [9] ?r = Inr (env, sig)"
    by (rule encrypt_with_total [OF demo_crypto_laws])
      (auto simp: header_ids_ok_def names_are_uuids addressable_def keys_of_def
        intro: exI [of _ "replicate 32 5"] exI [of _ "replicate 32 6"])
  then obtain env sig where "encrypt_with demo_crypto (sign_seed (keys_of 5)) ?h ?rs [9] ?r = Inr (env, sig)" by blast
  then have "seal_payload ?W (session_for alice) (keys_of 5) chat p flags ?rs s = Inr (env, sig)"
    using assms by (simp add: seal_payload_def encrypt_def the_world_def session_for_def upt_rec)
  then show ?thesis
    using assms rs by (simp add: send_payload_def session_for_def http_send_def the_world_def Let_def)
qed

lemma she_sends: "\<exists>res t. send_payload (the_world p) chat p 0 True her_app = (Inr res, t)"
  by (rule sends_from) (simp_all add: her_app_sel)

lemma bob_reads:
  assumes "payload_t p \<noteq> None"
  obtains env sig where "\<And>seq. read_view (the_world p) (frame_of env sig seq) (session_for bob) (keys_of 6)
      (Some (contact_for alice 5)) = (Some p, None, 1000000)"
proof -
  obtain res t where sent: "send_payload (the_world p) chat p 0 True her_app = (Inr res, t)"
    using she_sends by blast
  obtain env sig where "\<forall>view. m_env view = env \<longrightarrow> m_sig view = sig \<longrightarrow> m_sender_account view = si_account_id (session_for alice)
      \<longrightarrow> m_conv_id view = chat \<longrightarrow> read_view (the_world p) view (session_for bob) (keys_of 6) (Some (contact_for alice 5))
         = (Some p, None, a_now her_app)"
    using sent_is_read [OF the_world_good _ _ assms sent her_app_sel(1,2) _ her_app_sel(3), of "the_world p" "session_for bob"
        "contact_for bob 6" "keys_of 6" "contact_for alice 5"]
    by (auto simp: the_world_def keys_of_wf session_for_def the_recipients names_are_lower names_distinct
        her_app_sel contact_for_def)
  then show ?thesis using that [of env sig] by (simp add: frame_of_def session_for_def her_app_sel)
qed

lemma end_to_end_witness:
  "\<exists>res t env sig. send_payload (the_world (ConvRename ''x'')) chat (ConvRename ''x'') 0 True her_app = (Inr res, t)
    \<and> a_requests t = [RSend chat env sig]
    \<and> read_view (the_world (ConvRename ''x'')) (frame_of env sig 3) (session_for bob) (keys_of 6)
        (Some (contact_for alice 5)) = (Some (ConvRename ''x''), None, 1000000)"
proof -
  let ?p = "ConvRename ''x''"
  obtain res t where sent: "send_payload (the_world ?p) chat ?p 0 True her_app = (Inr res, t)"
    using she_sends by blast
  obtain env sig where "a_requests t = a_requests her_app @ [RSend chat env sig]"
    "\<forall>view. m_env view = env \<longrightarrow> m_sig view = sig \<longrightarrow> m_sender_account view = si_account_id (session_for alice)
      \<longrightarrow> m_conv_id view = chat \<longrightarrow> read_view (the_world ?p) view (session_for bob) (keys_of 6) (Some (contact_for alice 5))
         = (Some ?p, None, a_now her_app)"
    using end_to_end [OF the_world_good _ _ _ sent her_app_sel(1,2) _ her_app_sel(3), of "the_world ?p" "session_for bob"
        "contact_for bob 6" "keys_of 6" "contact_for alice 5"]
    by (auto simp: the_world_def keys_of_wf session_for_def the_recipients names_are_lower names_distinct
        her_app_sel contact_for_def)
  with sent show ?thesis
    by (intro exI conjI) (auto simp: frame_of_def session_for_def her_app_sel her_app_def initial_app_def)
qed


section \<open>The properties at work\<close>

lemma her_contacts: "contacts_inv her_app"
  using her_app_inv by (rule app_invD)

lemma bob_keys: "sign_pub (keys_of 6) \<noteq> [1]"
proof
  assume "sign_pub (keys_of 6) = [1]"
  then have "length (sign_pub (keys_of 6)) = 1" by simp
  then show False using crypto_lengths [OF demo_crypto_laws] by (simp add: keys_of_def)
qed

lemma bob_flagged: "contact_of (observe_keys bob ''name'' [1] [2] None None her_app) bob
    = Some ((contact_for bob 6)\<lparr>ct_pending_keys := Some ([1], [2])\<rparr>)"
  using bob_keys by (simp add: observe_keys_contact [OF her_contacts] her_app_sel contact_for_def)

lemma observe_keys_pins_witness:
  "\<exists>c'. contact_of (observe_keys bob ''name'' [1] [2] None None her_app) bob = Some c'
     \<and> ct_sign_pub c' = sign_pub (keys_of 6) \<and> ct_pending_keys c' = Some ([1], [2])"
  using observe_keys_pins [OF her_contacts, of bob "''name''" "[1]" "[2]" None None] bob_keys
  by (auto simp: her_app_sel same_pins_def contact_for_def)

lemma verified_keys_unchanged_witness:
  "\<exists>c c'. contact_of (do_trust (Observe bob ''name'' [1] [2] None None) her_app) bob = Some c' \<and> ct_verified c'
     \<and> contact_of her_app bob = Some c \<and> same_pins c c'"
proof -
  let ?op = "Observe bob ''name'' [1] [2] None None"
  have run: "trust_run her_app [?op] (do_trust ?op her_app)"
    using trust_step [OF trust_none, of her_app ?op] by simp
  obtain c' where c': "contact_of (do_trust ?op her_app) bob = Some c'" "ct_verified c'"
    using bob_flagged by (simp add: contact_for_def)
  have "\<exists>c. contact_of her_app bob = Some c \<and> ct_verified c \<and> same_pins c c'"
    by (rule verified_keys_unchanged [OF run her_contacts c']) simp
  with c' show ?thesis by blast
qed

lemma flag_only_cleared_by_accepting_witness:
  "\<exists>s c c'. contacts_inv s \<and> contact_of s bob = Some c \<and> ct_pending_keys c = Some ([1], [2])
     \<and> contact_of (do_trust (Accept bob) s) bob = Some c' \<and> ct_pending_keys c' = None
     \<and> (ct_sign_pub c', ct_enc_pub c') = ([1], [2])"
proof -
  define s where "s = observe_keys bob ''name'' [1] [2] None None her_app"
  have inv: "contacts_inv s" unfolding s_def using her_contacts by (rule contacts_inv_observe)
  obtain c where c: "contact_of s bob = Some c" "ct_pending_keys c = Some ([1], [2])"
    using bob_flagged by (simp add: s_def)
  obtain c' where c': "contact_of (do_trust (Accept bob) s) bob = Some c'" "ct_pending_keys c' = None"
    using c by (auto simp: contact_of_accept [OF inv])
  with flag_only_cleared_by_accepting [OF inv c c'] inv c show ?thesis by blast
qed

lemma prefs_reload_witness:
  "\<exists>t. t = hide_chat chat (initial_app\<lparr>a_session := Some (session_for alice)\<rparr>) \<and> a_hidden t = [chat]
     \<and> a_hidden (load_prefs t) = [chat]"
proof -
  let ?s = "initial_app\<lparr>a_session := Some (session_for alice)\<rparr>"
  have inv: "prefs_inv ?s" by (simp add: prefs_inv_def initial_app_def read_prefs_def no_prefs_def)
  have h: "a_hidden (hide_chat chat ?s) = [chat]"
    by (simp add: hide_chat_def toggle_def put_hidden_def save_prefs_def set_add_def initial_app_def session_for_def)
  have "a_hidden (load_prefs (hide_chat chat ?s)) = a_hidden (hide_chat chat ?s)"
    using prefs_reload [OF inv, of "session_for alice" "hide_chat chat ?s" chat]
    by (simp add: session_for_def alice_def)
  with h show ?thesis by simp
qed

lemma her_step: "(sync_step (the_world p))\<^sup>*\<^sup>* her_app (snd (full_sync (the_world p) 1 her_app))"
  by (rule r_into_rtranclp) (rule step_full_sync)

lemma sync_invariant_witness: "app_inv (snd (full_sync (the_world (ConvRename [])) 1 her_app))"
  by (rule sync_invariant [OF her_step her_app_inv])


lemma sync_keeps_pins_witness: "pins_kept her_app (snd (full_sync (the_world (ConvRename [])) 1 her_app))"
  by (rule sync_keeps_pins [OF her_step her_app_inv])

lemma stored_payload_authentic_witness:
  "\<exists>env sig m. get_message chat 3 (a_db (snd (handle_incoming (the_world (Text ''hi'' None)) (frame_of env sig 3) True his_app)))
       = Some m \<and> sm_payload m = Some (Text ''hi'' None) \<and> sm_sender m = alice"
proof -
  let ?p = "Text ''hi'' None"
  obtain env sig where rv: "read_view (the_world ?p) (frame_of env sig 3) (session_for bob) (keys_of 6)
      (Some (contact_for alice 5)) = (Some ?p, None, 1000000)"
    using bob_reads [of ?p] by (metis option.distinct(1) payload_t.simps(1))
  let ?v = "frame_of env sig 3" and ?W = "the_world ?p"
  define m where "m = \<lparr>sm_conv_id = chat, sm_seq = 3, sm_client_msg_id = ticket, sm_sender = alice,
     sm_sender_device = phone, sm_ts = 1000000, sm_server_ts = 6, sm_payload = Some ?p, sm_error = None, sm_edited = False\<rparr>"
  have "handle_incoming ?W ?v True his_app = apply_stored m his_app"
    using rv by (simp add: handle_incoming_def his_app_sel frame_of_def look_up_sender_def m_def)
  also have "apply_stored m his_app = apply_stored_rest (a_session his_app) the_chat m his_app"
    by (simp add: apply_stored_def m_def his_app_sel retention_off)
  finally have run: "handle_incoming ?W ?v True his_app = apply_stored_rest (a_session his_app) the_chat m his_app" .
  have now: "get_message chat 3 (a_db (snd (handle_incoming ?W ?v True his_app))) = Some m"
    unfolding run get_message_def rest_messages
    using get_message_put [OF app_invD(3) [OF his_app_inv], of chat 3 m] by (simp add: get_message_def m_def)
  have "get_message chat 3 (a_db his_app) \<noteq> Some m"
    by (simp add: his_app_def her_app_def get_message_def sget_def)
  with stored_payload_authentic [OF his_app_inv his_app_sel(1,2) _ now, of ?p] now
  show ?thesis by (intro exI [of _ env] exI [of _ sig] exI [of _ m]) (auto simp: frame_of_def m_def)
qed


lemma effective_retention_cap_witness:
  "\<exists>s. effective_retention s the_chat = 86400 \<and> c_retention_seconds the_chat = 0"
proof -
  define cfg where "cfg = \<lparr>ss_registration = Open, ss_announcement = [], ss_allow_bots = True,
     ss_max_attachment_bytes = 1, ss_max_group_members = 2, ss_retention_days = 1, ss_user_directory = True\<rparr>"
  have "effective_retention (her_app\<lparr>a_settings := Some cfg\<rparr>) the_chat = 86400"
    using effective_retention_cap [of the_chat "her_app\<lparr>a_settings := Some cfg\<rparr>" cfg]
    by (simp add: the_chat_def cfg_def)
  then show ?thesis by (auto simp: the_chat_def)
qed


lemma backfill_ends_witness: "fst (backfill (the_world Untyped) 1 chat her_app) \<noteq> Inl Diverged"
  by (rule backfill_ends [OF the_world_responsive(1) the_world_responsive(2) [of _ 2] her_app_sel(3)])
    (simp add: the_chat_def)

lemma recipients_pinned_witness:
  "(case recipients_for her_app the_chat alice of Inl e \<Rightarrow> False | Inr rs \<Rightarrow> map rc_account rs = [alice, bob])"
  using recipients_pinned [OF her_app_sel(1-3), of "the_world Untyped" Untyped 0 True]
  by (simp add: her_recipients session_for_def the_recipients)

lemma read_cursor_lost_witness:
  "\<exists>c1 c2. conv_of (snd (mark_read (the_world Untyped) chat 2 his_app)) chat = Some c1 \<and> c_read_seq c1 = 2
     \<and> conv_of (snd (apply_stored_rest (a_session his_app) the_chat hello
          (snd (mark_read (the_world Untyped) chat 2 his_app)))) chat = Some c2
     \<and> c_read_seq c2 = 0"
  using read_cursor_lost [OF his_app_inv his_app_sel(3) _ his_app_sel(1), of 2 hello "''hello''" None "the_world Untyped"]
  by (simp add: the_chat_def hello_def session_for_def names_distinct)

lemma redelivery_reverts_edit_witness:
  "\<exists>s. loaded_of s chat = Some [hello\<lparr>sm_payload := Some (Text ''bye'' None), sm_edited := True\<rparr>]
     \<and> get_message chat 2 (a_db s) = Some (hello\<lparr>sm_payload := Some (Text ''bye'' None), sm_edited := True\<rparr>)
     \<and> get_message chat 2 (a_db (snd (apply_stored hello s))) = Some hello
     \<and> loaded_of (snd (apply_stored hello s)) chat
         = Some [hello\<lparr>sm_payload := Some (Text ''bye'' None), sm_edited := True\<rparr>]"
proof -
  let ?m = "hello\<lparr>sm_payload := Some (Text ''bye'' None), sm_edited := True\<rparr>"
  define s where "s = set_message_body chat 2 ''bye'' True his_app"
  have inv: "app_inv s" unfolding s_def by (rule progress.liftD(1) [OF progress.lift_set_message_body his_app_inv])
  have run: "s = rewrite_message chat 2 ?m his_app"
    by (simp add: s_def set_message_body_def his_app_sel hello_def the_chat_def Let_def)
  have l: "loaded_of s chat = Some [?m]"
    by (simp add: run rewrite_message_def Let_def his_app_sel hello_def)
  have g: "get_message chat 2 (a_db s) = Some ?m"
    unfolding s_def using set_body_messages [OF app_invD(3) [OF his_app_inv]]
    by (simp add: his_app_sel hello_def)
  have c: "conv_of s chat = Some the_chat" by (simp add: run his_app_sel)
  have e: "\<not> is_expired s the_chat t" for t
    by (simp add: run is_expired_def effective_retention_def rewrite_message_def set_messages_def on_db_def
        his_app_sel the_chat_def Let_def split: option.split)
  from redelivery_reverts_edit [OF inv c e, of hello "''hello''" None "[?m]" ?m] l g
  show ?thesis by (intro exI [of _ s]) (simp add: hello_def)
qed


lemma malformed_event_blocks_witness:
  "\<exists>W view. fst (on_live_message W 1 view his_app) = Inl type_error
     \<and> conv_of (snd (on_live_message W 1 view his_app)) chat = Some the_chat"
proof -
  let ?p = "MemberRemove bob None"
  obtain env sig where rv: "read_view (the_world ?p) (frame_of env sig 3) (session_for bob) (keys_of 6)
      (Some (contact_for alice 5)) = (Some ?p, None, 1000000)"
    using bob_reads [of ?p] by (metis option.distinct(1) payload_t.simps(6))
  let ?bad = "frame_of env sig 3"
  define W where "W = (the_world ?p)\<lparr>w_messages := \<lambda>_ _ _. Inr \<lparr>page_messages = [?bad], page_has_more = False\<rparr>\<rparr>"
  have "read_view W ?bad (session_for bob) (keys_of 6) (Some (contact_for alice 5)) = (Some ?p, None, 1000000)"
  proof -
    have "w_crypto W = w_crypto (the_world ?p)" "w_read_payload W = w_read_payload (the_world ?p)"
      by (simp_all add: W_def)
    with rv show ?thesis unfolding read_view_def by (simp only:)
  qed
  from malformed_event_blocks [OF his_app_sel(1-3) _ _ _ _ this, where fuel = 0 and view = "frame_of [] [] 9" and rest = "[]" and hm = False]
  show ?thesis
    by (intro exI [of _ W] exI [of _ "frame_of [] [] 9"])
      (simp add: W_def the_chat_sel frame_sel his_app_sel retention_off)
qed

end
