(* ===== verification/Files.thy ===== *)
theory Files
  imports Primitives Ids
begin

text \<open>
  \<open>web/src/crypto/files.ts\<close> and \<open>web/src/crypto/fingerprint.ts\<close>: attachments encrypted under a
  fresh key, and the safety number two people compare.
\<close>

section \<open>Attachments\<close>

definition BLOB_AAD :: bytes where
  "BLOB_AAD = utf8_encode ''msgr-blob-v1''"

record encrypted_file =
  file_key :: bytes
  file_nonce :: bytes
  file_ciphertext :: bytes

text \<open>The generator's draws for the key and the nonce are arguments.\<close>

definition encrypt_file :: "crypto \<Rightarrow> bytes \<Rightarrow> bytes \<Rightarrow> bytes \<Rightarrow> encrypted_file" where
  "encrypt_file C random_key random_nonce content =
     \<lparr>file_key = random_key, file_nonce = random_nonce,
      file_ciphertext = aead_encrypt C random_key random_nonce BLOB_AAD content\<rparr>"

definition decrypt_file :: "crypto \<Rightarrow> bytes \<Rightarrow> bytes \<Rightarrow> bytes \<Rightarrow> bytes result" where
  "decrypt_file C key nonce ciphertext = aead_decrypt C key nonce BLOB_AAD ciphertext"

interpretation blob: aead_container "\<lambda>C k n p. file_ciphertext (encrypt_file C k n p)" decrypt_file
  by unfold_locales (simp add: encrypt_file_def decrypt_file_def aead_decrypt_iff)

section \<open>Safety number\<close>

function hex_quads :: "string \<Rightarrow> nat \<Rightarrow> string list" where
  "hex_quads hex i = (if i < length hex then subarray i (i + 4) hex # hex_quads hex (i + 4) else [])"
  by pat_completeness auto
termination
  by (relation "measure (\<lambda>(hex, i). length hex - i)") auto

declare hex_quads.simps [simp del]

fun join_with :: "string \<Rightarrow> string list \<Rightarrow> string" where
  "join_with sep [] = []"
| "join_with sep [x] = x"
| "join_with sep (x # xs) = x @ sep @ join_with sep xs"

definition fingerprint :: "crypto \<Rightarrow> bytes \<Rightarrow> bytes \<Rightarrow> string" where
  "fingerprint C spub epub =
     (let h = sha256 C (concat_bytes [utf8_encode ''msgr-fp-v1'', spub, epub]);
          hex = bytes_to_hex (take 16 h)
      in join_with '' '' (hex_quads hex 0))"

lemma hex_quads_32:
  assumes "length hex = 32"
  shows "hex_quads hex 0 = [subarray 0 4 hex, subarray 4 8 hex, subarray 8 12 hex, subarray 12 16 hex,
    subarray 16 20 hex, subarray 20 24 hex, subarray 24 28 hex, subarray 28 32 hex]"
  using assms by (simp add: hex_quads.simps)

lemma filter_hex_space: "filter (\<lambda>c. c \<noteq> CHR '' '') (subarray a b (bytes_to_hex h)) = subarray a b (bytes_to_hex h)"
  using set_bytes_to_hex [of h] set_subarray [of a b "bytes_to_hex h"] by (intro filter_True) fastforce

lemma fingerprint_digits:
  assumes "length (sha256 C (utf8_encode ''msgr-fp-v1'' @ spub @ epub)) = 32"
  shows "filter (\<lambda>c. c \<noteq> CHR '' '') (fingerprint C spub epub)
      = bytes_to_hex (take 16 (sha256 C (utf8_encode ''msgr-fp-v1'' @ spub @ epub)))"
    and "length (fingerprint C spub epub) = 39"
proof -
  define hex where "hex = bytes_to_hex (take 16 (sha256 C (utf8_encode ''msgr-fp-v1'' @ spub @ epub)))"
  have len: "length hex = 32" using assms by (simp add: hex_def)
  have fp: "fingerprint C spub epub = join_with '' '' (hex_quads hex 0)"
    by (simp add: fingerprint_def hex_def concat_bytes_eq Let_def)
  have join: "subarray 0 4 hex @ subarray 4 8 hex @ subarray 8 12 hex @ subarray 12 16 hex
      @ subarray 16 20 hex @ subarray 20 24 hex @ subarray 24 28 hex @ subarray 28 32 hex = hex"
    using len subarray_append_eq [of _ _ hex] by (simp flip: append_assoc) (simp add: subarray_def)
  have sp: "filter (\<lambda>c. c \<noteq> CHR '' '') (subarray a b hex) = subarray a b hex" for a b
    unfolding hex_def by (rule filter_hex_space)
  show "filter (\<lambda>c. c \<noteq> CHR '' '') (fingerprint C spub epub) = hex"
    unfolding fp hex_quads_32 [OF len] join_with.simps filter_append
    using join by (simp add: sp)
  show "length (fingerprint C spub epub) = 39"
    unfolding fp hex_quads_32 [OF len] using len by simp
qed

lemma bytes_to_hex_inject [simp]: "bytes_to_hex a = bytes_to_hex b \<longleftrightarrow> a = b"
  using hex.enc_inject by simp

end
