(* ===== verification/AccountFacts.thy ===== *)
theory AccountFacts
  imports Files EnvelopeFacts
begin

text \<open>
  Properties of the account layer: text encodings, sealed keys, the key bundle, the password-change
  message and the safety number.
\<close>

text \<open>The text encodings lose nothing: base64 (written in slices of 32768 bytes) and hex decode to the bytes
they encode, and a 16-byte identifier survives its textual form.\<close>

theorem text_encodings_roundtrip:
  "b64decode (b64encode b) = Inr b \<and> hex_to_bytes (bytes_to_hex b) = Inr b
    \<and> (length b = 16 \<longrightarrow> try_bind (bytes_to_uuid b) uuid_to_bytes = Inr b)"
  by (simp_all add: codec_simps bytes_to_uuid_dashed uuid_to_bytes_dashed)

lemma text_encodings_roundtrip_witness:
  "try_bind (bytes_to_uuid (replicate 16 255)) uuid_to_bytes = Inr (replicate 16 255)"
  using text_encodings_roundtrip [of "replicate 16 255"] by simp

text \<open>C28: The key bundle is a faithful backup: what was sealed under the password-derived key opens again to
the same keys; and whatever opens carries exactly the account's public keys and is, byte for byte, the
sealing of the returned keys, so a bundle the server altered or swapped is refused.\<close>

theorem key_bundle_faithful:
  assumes "crypto_laws C" and "length ek = 32"
  shows "(keys_wf C k \<and> length nonce = 24 \<longrightarrow>
      open_key_bundle C ek (seal_key_bundle C ek nonce k) (sign_pub k) (enc_pub k) = Inr k)
    \<and> (open_key_bundle C ek bundle spub epub = Inr k \<longrightarrow>
      keys_wf C k \<and> sign_pub k = spub \<and> enc_pub k = epub \<and> bundle = seal_key_bundle C ek (take 24 bundle) k)"
  using open_seal_key_bundle [OF assms] open_key_bundle_Inr [OF assms] by blast

lemma demo_keys_wf: "\<exists>k. keys_wf demo_crypto k \<and> enc_priv k = demo_priv"
  by (rule exI [of _ "\<lparr>sign_seed = demo_priv, sign_pub = ed25519_public demo_crypto demo_priv,
      enc_priv = demo_priv, enc_pub = x25519_public demo_crypto demo_priv\<rparr>"])
    (simp add: keys_wf_def keys_from_secrets_def demo_facts)

lemma key_bundle_faithful_witness:
  "\<exists>k. open_key_bundle demo_crypto demo_priv (seal_key_bundle demo_crypto demo_priv (replicate 24 1) k)
     (sign_pub k) (enc_pub k) = Inr k"
  using key_bundle_faithful [OF demo_crypto_laws demo_facts(6)] demo_keys_wf by force

text \<open>Weak password parameters are refused: keys are derived only with at least three passes over 64 MiB
in one lane and a 16-byte salt, whatever parameters the server names; the key sent to the server and
the key that opens the bundle are the two halves of one derivation.\<close>

theorem derive_keys_strong:
  assumes "derive_keys C pw salt params = Inr (ak, ek)"
  shows "3 \<le> kdf_t params \<and> 65536 \<le> kdf_m params \<and> kdf_p params = 1 \<and> length salt = 16
    \<and> (\<exists>out. argon2id_hash C pw salt params 64 = Inr out \<and> ak = take 32 out \<and> ek = take 32 (drop 32 out))"
  using derive_keys_Inr [OF assms] by blast

lemma derive_keys_strong_witness:
  "\<exists>ak ek. derive_keys demo_crypto ''secret'' (replicate 16 1) \<lparr>kdf_t = 3, kdf_m = 65536, kdf_p = 1\<rparr> = Inr (ak, ek)
     \<and> (\<exists>out. ak = take 32 out \<and> ek = take 32 (drop 32 out))"
proof -
  let ?p = "\<lparr>kdf_t = 3, kdf_m = 65536, kdf_p = 1\<rparr>"
  have "\<exists>ak ek. derive_keys demo_crypto ''secret'' (replicate 16 1) ?p = Inr (ak, ek)"
    by (simp add: derive_keys_def check_kdf_params_def DEFAULT_KDF_def SALT_SIZE_def argon2id_hash_def demo_crypto_def)
  then show ?thesis using derive_keys_strong by blast
qed

text \<open>A signature for a password change authorises one change only: two changes with the same signed bytes
have the same challenge, account, device, salt, key, bundle and sign-out choice.\<close>

theorem password_message_unambiguous:
  assumes "password_change_message c a d s k b f = Inr m"
    and "password_change_message c' a' d' s' k' b' f' = Inr m"
  shows "c = c' \<and> a = a' \<and> d = d' \<and> s = s' \<and> k = k' \<and> b = b' \<and> f = f'"
  by (rule password_change_message_inject [OF assms])

lemma password_message_unambiguous_witness:
  "\<exists>m. password_change_message (replicate 32 0) (replicate 16 1) (replicate 16 2) (replicate 16 3) (replicate 32 4)
      (replicate KEY_BUNDLE_SIZE 5) True = Inr m
     \<and> password_change_message (replicate 32 0) (replicate 16 1) (replicate 16 2) (replicate 16 3) (replicate 32 4)
      (replicate KEY_BUNDLE_SIZE 5) False \<noteq> Inr m"
proof -
  have "\<exists>m. password_change_message (replicate 32 0) (replicate 16 1) (replicate 16 2) (replicate 16 3) (replicate 32 4)
      (replicate KEY_BUNDLE_SIZE 5) True = Inr m"
    by (simp add: password_change_message_def PW_CHANGE_CHALLENGE_SIZE_def SALT_SIZE_def)
  then show ?thesis
    using password_message_unambiguous [where f = True and f' = False] by blast
qed

text \<open>A sealed message key opens for its recipient, and only as what was sealed: the holder of the private
key gets the key back, and any box that opens under a conversation and an account is the box of the
returned 32-byte key for exactly that conversation and account.\<close>

theorem sealed_key_faithful:
  assumes "crypto_laws C"
  shows "(length eph = 32 \<and> length priv = 32 \<and> length key = 32 \<longrightarrow>
      try_bind (seal_with C eph (x25519_public C priv) conv acct key) (open_box C priv conv acct) = Inr key)
    \<and> (open_box C priv conv acct box = Inr key \<longrightarrow> length key = 32
      \<and> (\<exists>ss. x25519_shared C priv (take 32 box) = Inr ss
           \<and> box = take 32 box @ aead_encrypt C (seal_key C ss (take 32 box) (x25519_public C priv)) ZERO_NONCE (conv @ acct) key))"
proof (intro conjI impI)
  assume l: "length eph = 32 \<and> length priv = 32 \<and> length key = 32"
  obtain box where "seal_with C eph (x25519_public C priv) conv acct key = Inr box"
    using seal_with_ok [OF assms] l by blast
  then show "try_bind (seal_with C eph (x25519_public C priv) conv acct key) (open_box C priv conv acct) = Inr key"
    using open_box_seal_with [OF assms, of eph priv key conv acct] l by simp
next
  assume "open_box C priv conv acct box = Inr key"
  then show "length key = 32" and "\<exists>ss. x25519_shared C priv (take 32 box) = Inr ss
      \<and> box = take 32 box @ aead_encrypt C (seal_key C ss (take 32 box) (x25519_public C priv)) ZERO_NONCE (conv @ acct) key"
    by (auto elim: open_box_Inr [OF assms])
qed

lemma sealed_key_faithful_witness:
  "try_bind (seal_with demo_crypto demo_priv (x25519_public demo_crypto demo_priv) [1] [2] (replicate 32 9))
     (open_box demo_crypto demo_priv [1] [2]) = Inr (replicate 32 9)"
  using sealed_key_faithful [OF demo_crypto_laws] demo_facts(6) by simp

text \<open>The parser of hex pairs is looser than its error message says.\<close>

lemma hex_accepts_partial_pair: "hex_to_bytes ''1g'' = Inr [1]" "hex_to_bytes ''-1'' = Inr [255]"
  by code_simp+

end
