(* ===== verification/Invite.thy ===== *)
theory Invite
  imports Bytes I18n
begin

text \<open>
  \<open>web/src/state/invite.ts\<close>: invitation links \<open><origin>/#/join?code=<code>\<close>, written and read. The
  reader also takes a bare code and a link whose code is in the ordinary query. Percent-decoding may
  give any Unicode text, so decoded text is a list of code points.
\<close>

section \<open>Percent coding\<close>

definition upper_hex_digit :: "nat \<Rightarrow> char" where
  "upper_hex_digit n = char_of (if n < 10 then 48 + n else 55 + n)"

definition ascii_alnum :: "nat \<Rightarrow> bool" where
  "ascii_alnum n \<longleftrightarrow> (48 \<le> n \<and> n \<le> 57) \<or> (65 \<le> n \<and> n \<le> 90) \<or> (97 \<le> n \<and> n \<le> 122)"

text \<open>Letters, digits and \<open>! ' ( ) * - . _ ~\<close> stay as they are.\<close>

definition uri_unreserved :: "char \<Rightarrow> bool" where
  "uri_unreserved c \<longleftrightarrow> ascii_alnum (of_char c) \<or> (of_char c :: nat) \<in> {33, 39, 40, 41, 42, 45, 46, 95, 126}"

fun encode_uri_component :: "string \<Rightarrow> string" where
  "encode_uri_component [] = []"
| "encode_uri_component (c # cs) =
     (if uri_unreserved c then [c]
      else concat (map (\<lambda>b. [CHR ''%'', upper_hex_digit (unat b div 16), upper_hex_digit (unat b mod 16)])
             (utf8_encode [c])))
     @ encode_uri_component cs"

text \<open>One percent escape at the front of a string.\<close>

fun percent_byte :: "string \<Rightarrow> (nat \<times> string) option" where
  "percent_byte (p # a # b # cs) =
     (if p = CHR ''%''
      then (case (hex_value a, hex_value b) of (Some x, Some y) \<Rightarrow> Some (16 * x + y, cs) | _ \<Rightarrow> None)
      else None)"
| "percent_byte _ = None"

text \<open>The continuation bytes of a UTF-8 sequence, accumulated into the code point.\<close>

fun continuation :: "nat \<Rightarrow> nat \<Rightarrow> string \<Rightarrow> (nat \<times> string) option" where
  "continuation 0 acc cs = Some (acc, cs)"
| "continuation (Suc n) acc cs =
     (case percent_byte cs of
        None \<Rightarrow> None
      | Some (b, r) \<Rightarrow> if b div 64 = 2 then continuation n (acc * 64 + b mod 64) r else None)"

text \<open>
  A code point from its escapes: over-long forms, surrogates and values above 0x10FFFF are refused,
  which \<open>decodeURIComponent\<close> reports as a \<open>URIError\<close>.
\<close>

definition decode_escape :: "string \<Rightarrow> (nat \<times> string) option" where
  "decode_escape cs =
     (case percent_byte cs of
        None \<Rightarrow> None
      | Some (b, r) \<Rightarrow>
          if b < 128 then Some (b, r)
          else
            let (n, start, least) = (if b div 32 = 6 then (1, b mod 32, 0x80) else if b div 16 = 14 then (2, b mod 16, 0x800)
                                else if b div 8 = 30 then (3, b mod 8, 0x10000) else (0 :: nat, 0, 0))
            in if n = 0 then None
               else case continuation n start r of
                 None \<Rightarrow> None
               | Some (v, r') \<Rightarrow>
                   if v < least \<or> 0x10FFFF < v \<or> (0xD800 \<le> v \<and> v < 0xE000) then None else Some (v, r'))"

lemma percent_byte_shorter: "percent_byte cs = Some (b, r) \<Longrightarrow> length r < length cs"
  by (induction cs rule: percent_byte.induct) (auto split: if_splits option.splits)

lemma continuation_shorter: "continuation n acc cs = Some (v, r) \<Longrightarrow> length r \<le> length cs"
proof (induction n arbitrary: acc cs)
  case (Suc n)
  then obtain b r' where "percent_byte cs = Some (b, r')" "continuation n (acc * 64 + b mod 64) r' = Some (v, r)"
    by (auto split: option.splits if_splits)
  with Suc.IH percent_byte_shorter show ?case by fastforce
qed simp

lemma decode_escape_shorter: "decode_escape cs = Some (v, r) \<Longrightarrow> length r < length cs"
  by (auto simp: decode_escape_def Let_def split: option.splits if_splits prod.splits
      dest!: percent_byte_shorter continuation_shorter)

function decode_uri_component :: "string \<Rightarrow> nat list option" where
  "decode_uri_component [] = Some []"
| "decode_uri_component (c # cs) =
     (if c \<noteq> CHR ''%'' then map_option (\<lambda>r. of_char c # r) (decode_uri_component cs)
      else case decode_escape (c # cs) of
        None \<Rightarrow> None
      | Some (v, r) \<Rightarrow> map_option (\<lambda>t. v # t) (decode_uri_component r))"
  by pat_completeness auto
termination
  by (relation "measure length") (auto dest!: decode_escape_shorter)

section \<open>Text of a link\<close>

text \<open>The white space \<open>trim\<close> removes, as code points.\<close>

definition space_point :: "nat \<Rightarrow> bool" where
  "space_point n \<longleftrightarrow> n \<in> {9, 10, 11, 12, 13, 32, 160, 0x1680, 0x2028, 0x2029, 0x202F, 0x205F, 0x3000, 0xFEFF}
     \<or> (0x2000 \<le> n \<and> n \<le> 0x200A)"

definition trim_points :: "nat list \<Rightarrow> nat list" where
  "trim_points s = rev (dropWhile space_point (rev (dropWhile space_point s)))"

definition CODE_RE :: "nat list \<Rightarrow> bool" where
  "CODE_RE s = (case s of [] \<Rightarrow> False
     | c # cs \<Rightarrow> ascii_alnum c \<and> 2 \<le> length cs \<and> length cs \<le> 63
         \<and> list_all (\<lambda>n. ascii_alnum n \<or> n = 95 \<or> n = 45) cs)"

definition points_of :: "string \<Rightarrow> nat list" where
  "points_of s = map of_char s"

definition text_of_points :: "nat list \<Rightarrow> string" where
  "text_of_points s = map char_of s"

definition trim_slashes :: "string \<Rightarrow> string" where
  "trim_slashes origin = rev (dropWhile (\<lambda>c. c = CHR ''/'') (rev (js_trim origin)))"

text \<open>\<open>indexOf\<close> of a character, splitting the text there.\<close>

definition before :: "char \<Rightarrow> string \<Rightarrow> string" where
  "before c s = takeWhile (\<lambda>x. x \<noteq> c) s"

definition after :: "char \<Rightarrow> string \<Rightarrow> string option" where
  "after c s = (case dropWhile (\<lambda>x. x \<noteq> c) s of [] \<Rightarrow> None | _ # r \<Rightarrow> Some r)"

function split_on :: "char \<Rightarrow> string \<Rightarrow> string list" where
  "split_on c s = before c s # (case after c s of None \<Rightarrow> [] | Some r \<Rightarrow> split_on c r)"
  by pat_completeness auto

lemma after_shorter: "after c s = Some r \<Longrightarrow> length r < length s"
proof -
  assume "after c s = Some r"
  then obtain x where "dropWhile (\<lambda>x. x \<noteq> c) s = x # r"
    by (auto simp: after_def split: list.splits)
  with length_dropWhile_le [of "\<lambda>x. x \<noteq> c" s] show ?thesis by simp
qed

termination split_on
  by (relation "measure (\<lambda>(c, s). length s)") (auto dest: after_shorter)

declare split_on.simps [simp del]

fun find_pair :: "string \<Rightarrow> string list \<Rightarrow> string option" where
  "find_pair key [] = None"
| "find_pair key (pair # ps) =
     (case after CHR ''='' pair of
        None \<Rightarrow> find_pair key ps
      | Some v \<Rightarrow> if before CHR ''='' pair = key then Some v else find_pair key ps)"

definition query_param :: "string \<Rightarrow> string \<Rightarrow> string option" where
  "query_param part key =
     (let query = (case after CHR ''?'' part of
                     Some q \<Rightarrow> q
                   | None \<Rightarrow> if CHR ''='' \<in> set part then part else [])
      in find_pair key (split_on CHR ''&'' query))"

section \<open>Links\<close>

definition invite_link :: "string \<Rightarrow> string \<Rightarrow> string" where
  "invite_link code origin = trim_slashes origin @ ''/#/join?code='' @ encode_uri_component (js_trim code)"

record parsed_invite =
  pi_server :: string
  pi_code :: string

definition drop_join :: "string \<Rightarrow> string" where
  "drop_join s = (if 5 \<le> length s \<and> drop (length s - 5) s = ''/join'' then take (length s - 5) s else s)"

text \<open>\<open>/^[a-zA-Z][a-zA-Z0-9+.-]*:\/\//\<close>\<close>

definition has_scheme :: "string \<Rightarrow> bool" where
  "has_scheme s = (case s of [] \<Rightarrow> False
     | c # cs \<Rightarrow> (ascii_alnum (of_char c) \<and> \<not> of_char c < (65 :: nat))
         \<and> starts_with ''://'' (dropWhile (\<lambda>x. ascii_alnum (of_char x) \<or> x \<in> set ''+.-'') cs))"

definition server_of :: "string \<Rightarrow> string" where
  "server_of base =
     (let server = drop_join (trim_slashes (before CHR ''?'' base))
      in if server \<noteq> [] \<and> \<not> has_scheme server then ''https://'' @ server else server)"

definition parse_invite_link :: "string \<Rightarrow> parsed_invite option" where
  "parse_invite_link v =
     (let s = js_trim v in
      if s = [] then None
      else if list_all (\<lambda>c. c \<notin> set ''/?#:'') s
      then (if CODE_RE (points_of s) then Some \<lparr>pi_server = [], pi_code = s\<rparr> else None)
      else
        let base = before CHR ''#'' s;
            fragment = (case after CHR ''#'' s of None \<Rightarrow> [] | Some f \<Rightarrow> f)
        in case (case query_param fragment ''code'' of Some r \<Rightarrow> Some r | None \<Rightarrow> query_param base ''code'') of
             None \<Rightarrow> None
           | Some raw \<Rightarrow>
               let code = trim_points (case decode_uri_component raw of Some c \<Rightarrow> c | None \<Rightarrow> points_of raw)
               in if \<not> CODE_RE code then None
                  else Some \<lparr>pi_server = server_of base, pi_code = text_of_points code\<rparr>)"

end
