(* ===== verification/InviteFacts.thy ===== *)
theory InviteFacts
  imports Invite
begin

text \<open>
  Reading back what \<open>inviteLink\<close> wrote, and what every accepted invitation looks like.
\<close>

section \<open>Text\<close>

lemma js_trim_id:
  assumes "s \<noteq> [] \<Longrightarrow> \<not> js_space (hd s) \<and> \<not> js_space (last s)"
  shows "js_trim s = s"
proof (cases "s = []")
  case False
  then obtain x xs where s: "s = x # xs" and x: "\<not> js_space x"
    using assms by (cases s) auto
  from False obtain ys y where r: "rev s = y # ys" and y: "\<not> js_space y"
    using assms by (metis hd_rev list.exhaust_sel rev_is_Nil_conv)
  have "dropWhile js_space s = s" and "dropWhile js_space (rev s) = rev s"
    using s r x y by simp_all
  then show ?thesis by (simp add: js_trim_def)
qed (simp add: js_trim_def)

lemma trim_points_id:
  assumes "\<forall>n \<in> set s. \<not> space_point n"
  shows "trim_points s = s"
proof -
  have d: "dropWhile space_point t = t" if "\<forall>n \<in> set t. \<not> space_point n" for t
    using that by (cases t) auto
  show ?thesis using d [of s] d [of "rev s"] assms by (simp add: trim_points_def)
qed

lemma before_append: "c \<notin> set s \<Longrightarrow> before c (s @ c # t) = s"
  by (simp add: before_def takeWhile_append)

lemma before_absent: "c \<notin> set s \<Longrightarrow> before c s = s"
  by (induction s) (auto simp: before_def)

lemma after_append: "c \<notin> set s \<Longrightarrow> after c (s @ c # t) = Some t"
  by (induction s) (auto simp: after_def)

lemma after_absent: "c \<notin> set s \<Longrightarrow> after c s = None"
  by (induction s) (auto simp: after_def)

lemma before_not_in: "c \<notin> set (before c s)"
  using set_takeWhileD by (fastforce simp: before_def)

lemma split_on_absent: "c \<notin> set s \<Longrightarrow> split_on c s = [s]"
  by (subst split_on.simps) (simp add: before_absent after_absent)

section \<open>Codes\<close>

definition code_point :: "nat \<Rightarrow> bool" where
  "code_point n \<longleftrightarrow> ascii_alnum n \<or> n = 95 \<or> n = 45"

lemma code_points: "CODE_RE s \<Longrightarrow> \<forall>n \<in> set s. code_point n"
  by (auto simp: CODE_RE_def code_point_def list_all_iff split: list.splits)

lemma space_point_not_code: "space_point n \<Longrightarrow> \<not> code_point n"
  unfolding space_point_def
  by (elim disjE insertE emptyE conjE) (simp_all add: code_point_def ascii_alnum_def)

lemma code_point_props:
  assumes "code_point n"
  shows "\<not> space_point n" and "n < 128" and "n \<notin> {37, 38, 61, 47, 63, 35, 58}"
  using assms space_point_not_code [of n] by (auto simp: code_point_def ascii_alnum_def)

lemma points_of_char:
  assumes "code_point (of_char c)"
  shows "\<not> js_space c" and "c \<notin> set ''%&=/?#:''" and "uri_unreserved c"
proof -
  show "\<not> js_space c" using code_point_props(1) [OF assms] by (auto simp: js_space_def space_point_def)
  show "c \<notin> set ''%&=/?#:''" using code_point_props(3) [OF assms] by auto
  show "uri_unreserved c" using assms by (auto simp: uri_unreserved_def code_point_def)
qed

lemma code_chars:
  assumes "CODE_RE (points_of s)"
  shows "\<forall>c \<in> set s. \<not> js_space c \<and> c \<notin> set ''%&=/?#:'' \<and> uri_unreserved c" and "s \<noteq> []"
  using code_points [OF assms] assms points_of_char [of c for c] by (fastforce simp: points_of_def CODE_RE_def)+

lemma encode_unreserved: "\<forall>c \<in> set s. uri_unreserved c \<Longrightarrow> encode_uri_component s = s"
  by (induction s) auto

lemma decode_plain: "CHR ''%'' \<notin> set s \<Longrightarrow> decode_uri_component s = Some (points_of s)"
  by (induction s) (auto simp: points_of_def)

lemma points_text: "text_of_points (points_of s) = s"
  by (simp add: text_of_points_def points_of_def comp_def)

lemma text_points: "\<forall>n \<in> set s. n < 256 \<Longrightarrow> points_of (text_of_points s) = s"
  by (simp add: text_of_points_def points_of_def comp_def map_idI of_char_of)

lemma js_trim_code: "CODE_RE (points_of s) \<Longrightarrow> js_trim s = s"
  by (rule js_trim_id) (use code_chars [of s] in auto)

lemma trim_points_code: "CODE_RE s \<Longrightarrow> trim_points s = s"
  by (rule trim_points_id) (use code_points code_point_props in blast)

section \<open>Percent coding\<close>

lemma hex_value_upper: "n < 16 \<Longrightarrow> hex_value (upper_hex_digit n) = Some n"
  using less_16_cases [of n] by (auto simp: hex_value_def upper_hex_digit_def)

lemma unat_byte_of: "k < 256 \<Longrightarrow> unat (word_of_nat k :: byte) = k"
  by (simp add: unat_of_nat)

definition escape_byte :: "nat \<Rightarrow> string" where
  "escape_byte b = [CHR ''%'', upper_hex_digit (b div 16), upper_hex_digit (b mod 16)]"

lemma percent_byte_escape: "b < 256 \<Longrightarrow> percent_byte (escape_byte b @ r) = Some (b, r)"
  by (simp add: escape_byte_def hex_value_upper)

lemma encode_escaped:
  assumes "\<not> uri_unreserved c"
  shows "encode_uri_component (c # cs) = (let n = of_char c in
    if n < 128 then escape_byte n else escape_byte (192 + n div 64) @ escape_byte (128 + n mod 64)) @ encode_uri_component cs"
proof -
  have c: "of_char c < (256 :: nat)" by simp
  have "unat (word_of_nat (192 + of_char c div 64) :: byte) = 192 + of_char c div 64"
    using less_mult_imp_div_less [of "of_char c" 4 64] c by (intro unat_byte_of) simp
  moreover have "unat (word_of_nat (128 + of_char c mod 64) :: byte) = 128 + of_char c mod 64"
    using mod_less_divisor [of 64 "of_char c"] by (intro unat_byte_of) simp
  ultimately show ?thesis using assms c by (simp add: Let_def escape_byte_def unat_of_nat)
qed

lemma div_mod_offset: "m < b \<Longrightarrow> (b * q + m) div b = q \<and> (b * q + m) mod b = (m :: nat)"
  by simp

lemma decode_escape_bytes:
  assumes "n < 256"
  shows "decode_escape ((if n < 128 then escape_byte n else escape_byte (192 + n div 64) @ escape_byte (128 + n mod 64)) @ r)
    = Some (n, r)"
proof (cases "n < 128")
  case True
  then show ?thesis by (simp add: decode_escape_def percent_byte_escape)
next
  case False
  let ?b = "192 + n div 64" and ?c = "128 + n mod 64"
  have "n div 64 < 4" using assms by simp
  moreover from this have "(192 + n div 64) div 32 = 6 \<and> (192 + n div 64) mod 32 = n div 64"
    using div_mod_offset [of "n div 64" 32 6] by simp
  ultimately have b: "?b < 256" "?b div 32 = 6" "?b mod 32 = n div 64" "\<not> ?b < 128" by simp_all
  have "n mod 64 < 64" by simp
  moreover have "(128 + n mod 64) div 64 = 2 \<and> (128 + n mod 64) mod 64 = n mod 64"
    using div_mod_offset [of "n mod 64" 64 2] by simp
  ultimately have c: "?c < 256" "?c div 64 = 2" "?c mod 64 = n mod 64" by simp_all
  have v: "n div 64 * 64 + n mod 64 = n" by simp
  have "percent_byte (escape_byte ?b @ escape_byte ?c @ r) = Some (?b, escape_byte ?c @ r)"
    using b(1) by (rule percent_byte_escape)
  moreover have "continuation 1 (n div 64) (escape_byte ?c @ r) = Some (n, r)"
    using percent_byte_escape [OF c(1), of r] c(2,3) v by (simp add: One_nat_def)
  ultimately show ?thesis using False assms b by (simp add: decode_escape_def Let_def)
qed

theorem uri_roundtrip: "decode_uri_component (encode_uri_component s) = Some (points_of s)"
proof (induction s)
  case (Cons c s)
  show ?case
  proof (cases "uri_unreserved c")
    case True
    then have "c \<noteq> CHR ''%''" by (auto simp: uri_unreserved_def ascii_alnum_def)
    with True Cons show ?thesis by (simp add: points_of_def)
  next
    case False
    let ?e = "if of_char c < (128 :: nat) then escape_byte (of_char c)
      else escape_byte (192 + of_char c div 64) @ escape_byte (128 + of_char c mod 64)"
    have e: "encode_uri_component (c # s) = ?e @ encode_uri_component s"
      unfolding encode_escaped [OF False] Let_def ..
    obtain t where t: "?e @ encode_uri_component s = CHR ''%'' # t"
      by (cases "of_char c < (128 :: nat)") (auto simp: escape_byte_def)
    have "decode_escape (CHR ''%'' # t) = Some (of_char c, encode_uri_component s)"
      unfolding t [symmetric] by (rule decode_escape_bytes) simp
    then show ?thesis unfolding e t using Cons by (simp add: points_of_def)
  qed
qed (simp add: points_of_def)

text \<open>Nothing in an encoded component ends a path segment, a query or a parameter.\<close>

lemma encoded_is_safe: "c \<in> set (encode_uri_component s) \<Longrightarrow> c \<notin> set ''/?#&=:''"
proof -
  have d: "list_all (\<lambda>n. upper_hex_digit n \<notin> set ''/?#&=:'') [0..<16]" by code_simp
  have e: "x \<notin> set ''/?#&=:''" if "x \<in> set (escape_byte b)" "b < 256" for x b
    using that d by (auto simp: escape_byte_def list_all_iff div_less_iff_less_mult)
  assume "c \<in> set (encode_uri_component s)"
  then show ?thesis
  proof (induction s)
    case (Cons a s)
    show ?case
    proof (cases "uri_unreserved a")
      case True
      then have "a \<notin> set ''/?#&=:''" by (auto simp: uri_unreserved_def ascii_alnum_def)
      with True Cons show ?thesis by auto
    next
      case False
      have "192 + of_char a div 64 < (256 :: nat)" "128 + of_char a mod 64 < (256 :: nat)"
        using less_mult_imp_div_less [of "of_char a" 4 64] mod_less_divisor [of 64 "of_char a"] by simp_all
      moreover have "c \<in> set (encode_uri_component s) \<or> c \<in> set (escape_byte (of_char a)) \<and> of_char a < (128 :: nat)
          \<or> c \<in> set (escape_byte (192 + of_char a div 64)) \<or> c \<in> set (escape_byte (128 + of_char a mod 64))"
        using Cons.prems unfolding encode_escaped [OF False] Let_def by (simp only: set_append Un_iff split: if_splits) blast+
      moreover have "of_char a < (256 :: nat)" by simp
      ultimately show ?thesis using Cons.IH e by blast
    qed
  qed simp
qed

section \<open>Round trip\<close>

text \<open>An origin as the browser reports it: scheme, no query or fragment, no slash or \<open>/join\<close> at the end.\<close>

definition origin_ok :: "string \<Rightarrow> bool" where
  "origin_ok s \<longleftrightarrow> has_scheme s \<and> CHR ''#'' \<notin> set s \<and> CHR ''?'' \<notin> set s
     \<and> \<not> js_space (last s) \<and> last s \<noteq> CHR ''/'' \<and> drop_join s = s"

lemma origin_start: "has_scheme s \<Longrightarrow> s \<noteq> [] \<and> \<not> js_space (hd s) \<and> CHR ''/'' \<in> set s"
proof -
  assume h: "has_scheme s"
  then obtain c cs where s: "s = c # cs" and c: "ascii_alnum (of_char c)"
    and sw: "starts_with ''://'' (dropWhile (\<lambda>x. ascii_alnum (of_char x) \<or> x \<in> set ''+.-'') cs)"
    by (auto simp: has_scheme_def split: list.splits)
  let ?d = "dropWhile (\<lambda>x. ascii_alnum (of_char x) \<or> x \<in> set ''+.-'') cs"
  have "take 3 ?d = ''://''" using sw by (simp add: starts_with_def eval_nat_numeral)
  then have "CHR ''/'' \<in> set ?d" using in_set_takeD [of "CHR ''/''" 3 ?d] by simp
  then have "CHR ''/'' \<in> set cs" using set_dropWhileD by fastforce
  moreover have "\<not> js_space c" using c points_of_char(1) [of c] by (simp add: code_point_def)
  ultimately show ?thesis by (simp add: s)
qed

lemma trim_slashes_origin:
  assumes "origin_ok s"
  shows "trim_slashes s = s" and "trim_slashes (s @ ''/'') = s"
proof -
  have s: "s \<noteq> []" "\<not> js_space (hd s)" using assms origin_start by (auto simp: origin_ok_def)
  obtain y ys where r: "rev s = y # ys" and y: "y \<noteq> CHR ''/''"
    using assms s by (metis hd_rev list.exhaust_sel rev_is_Nil_conv origin_ok_def)
  have t: "js_trim s = s" "js_trim (s @ ''/'') = s @ ''/''"
    using assms s by (auto intro!: js_trim_id simp: origin_ok_def js_space_def)
  have d: "dropWhile (\<lambda>c. c = CHR ''/'') (rev s) = rev s" using r y by simp
  show "trim_slashes s = s" by (simp add: trim_slashes_def t(1) d)
  show "trim_slashes (s @ ''/'') = s" unfolding trim_slashes_def t(2) by (simp add: d)
qed

lemma query_param_code:
  assumes "CODE_RE (points_of code)"
  shows "query_param (''/join?code='' @ code) ''code'' = Some code"
proof -
  have a: "after CHR ''?'' (''/join?code='' @ code) = Some (''code='' @ code)"
    using after_append [of "CHR ''?''" "''/join''" "''code='' @ code"] by simp
  have b: "split_on CHR ''&'' (''code='' @ code) = [''code='' @ code]"
    by (rule split_on_absent) (use code_chars [OF assms] in auto)
  have c: "after CHR ''='' (''code='' @ code) = Some code" "before CHR ''='' (''code='' @ code) = ''code''"
    using after_append [of "CHR ''=''" "''code''" code] before_append [of "CHR ''=''" "''code''" code] by simp_all
  show ?thesis unfolding query_param_def a Let_def option.case b by (simp only: find_pair.simps c option.case simp_thms if_True)
qed

lemma parse_link:
  assumes "CODE_RE (points_of code)" and "origin_ok origin"
  shows "parse_invite_link (invite_link code origin) = Some \<lparr>pi_server = origin, pi_code = code\<rparr>"
proof -
  let ?s = "origin @ ''/'' @ CHR ''#'' # ''/join?code='' @ code"
  have link: "invite_link code origin = ?s"
    using encode_unreserved [of code] code_chars [OF assms(1)]
    by (simp add: invite_link_def js_trim_code [OF assms(1)] trim_slashes_origin(1) [OF assms(2)])
  have o: "origin \<noteq> []" "\<not> js_space (hd origin)" "CHR ''/'' \<in> set origin"
    using assms(2) origin_start by (auto simp: origin_ok_def)
  have trim: "js_trim ?s = ?s"
    by (rule js_trim_id) (use o code_chars [OF assms(1)] in auto)
  have nobare: "\<not> list_all (\<lambda>c. c \<notin> set ''/?#:'') ?s" using o by (auto simp: list_all_iff)
  have base: "before CHR ''#'' ?s = origin @ ''/''"
    using before_append [of "CHR ''#''" "origin @ ''/''" "''/join?code='' @ code"] assms(2)
    by (simp add: origin_ok_def)
  have frag: "after CHR ''#'' ?s = Some (''/join?code='' @ code)"
    using after_append [of "CHR ''#''" "origin @ ''/''" "''/join?code='' @ code"] assms(2)
    by (simp add: origin_ok_def)
  have code: "decode_uri_component code = Some (points_of code)"
    by (rule decode_plain) (use code_chars [OF assms(1)] in auto)
  have q: "before CHR ''?'' (origin @ ''/'') = origin @ ''/''"
    by (rule before_absent) (use assms(2) in \<open>auto simp: origin_ok_def\<close>)
  have server: "server_of (origin @ ''/'') = origin"
    unfolding server_of_def q using assms(2)
    by (simp add: trim_slashes_origin(2) [OF assms(2)] origin_ok_def)
  have ne: "?s \<noteq> []" using o by simp
  show ?thesis
    unfolding link parse_invite_link_def Let_def trim base frag option.case
    by (simp only: if_not_P [OF ne] if_not_P [OF nobare] query_param_code [OF assms(1)] option.case code
        trim_points_code [OF assms(1)] assms(1) not_True_eq_False if_False server points_text)
qed

lemma parse_bare:
  assumes "CODE_RE (points_of code)"
  shows "parse_invite_link code = Some \<lparr>pi_server = [], pi_code = code\<rparr>"
  using code_chars [OF assms] assms by (auto simp: parse_invite_link_def js_trim_code list_all_iff)

section \<open>What is accepted\<close>

lemma has_scheme_https: "has_scheme (''https://'' @ s)"
  by (simp add: has_scheme_def ascii_alnum_def starts_with_def)

lemma text_of_code: "CODE_RE s \<Longrightarrow> points_of (text_of_points s) = s"
  by (rule text_points) (use code_points code_point_props(2) in fastforce)

lemma server_of_shape: "server_of b \<noteq> [] \<Longrightarrow> has_scheme (server_of b)"
  using has_scheme_https [of "drop_join (trim_slashes (before CHR ''?'' b))"]
  by (auto simp: server_of_def Let_def split: if_splits)

theorem parse_invite_sound:
  assumes "parse_invite_link v = Some r"
  shows "CODE_RE (points_of (pi_code r)) \<and> (pi_server r \<noteq> [] \<longrightarrow> has_scheme (pi_server r))"
  using assms server_of_shape
  by (auto simp: parse_invite_link_def Let_def text_of_code split: if_splits option.splits)

text \<open>
  The documentation promises a server without a trailing slash; slashes in front of \<open>/join\<close> are
  trimmed only before \<open>/join\<close> is dropped.
\<close>

lemma join_leaves_slash:
  "server_of ''https://chat.example//join'' = ''https://chat.example/''"
  by (simp add: server_of_def drop_join_def trim_slashes_def js_trim_def js_space_def before_def has_scheme_def
      ascii_alnum_def starts_with_def)

text \<open>An invitation survives its link: for every code the server can issue (and any code the parser
admits) and every origin, reading the link that \<open>inviteLink\<close> built returns exactly this server and this
code, and reading the bare code returns the code alone.\<close>

theorem invite_roundtrip:
  assumes "CODE_RE (points_of code)" and "origin_ok origin"
  shows "parse_invite_link (invite_link code origin) = Some \<lparr>pi_server = origin, pi_code = code\<rparr>
    \<and> parse_invite_link code = Some \<lparr>pi_server = [], pi_code = code\<rparr>"
  using parse_link [OF assms] parse_bare [OF assms(1)] by simp

lemma invite_roundtrip_witness:
  "parse_invite_link (invite_link ''a2b-c'' ''https://x.de:8443'') = Some \<lparr>pi_server = ''https://x.de:8443'', pi_code = ''a2b-c''\<rparr>"
proof -
  have "CODE_RE (points_of ''a2b-c'')" by (simp add: CODE_RE_def points_of_def ascii_alnum_def)
  moreover have "origin_ok ''https://x.de:8443''"
    by (simp add: origin_ok_def has_scheme_def ascii_alnum_def starts_with_def js_space_def drop_join_def)
  ultimately show ?thesis by (rule invite_roundtrip [THEN conjunct1])
qed

end
