(* ===== verification/Search.thy ===== *)
theory Search
  imports Model
begin

text \<open>
  \<open>web/src/state/search.ts\<close>: the search under the chat list. Chats and messages come from local state,
  people from the server's directory with an exact lookup as a fallback. \<open>run\<close> is asynchronous: a run
  that was started is kept with what it read, and its answers arrive as separate steps, so several
  runs can be under way at once. The code writes \<open>session.value!\<close>: without a session it throws.
\<close>

section \<open>State\<close>

datatype search_filter = FAll | FChats | FPeople | FMessages

record chat_hit =
  ch_id :: string
  ch_title :: string
  ch_kind :: kind
  ch_is_bot :: bool
  ch_members :: nat
  ch_retention :: int

text \<open>\<open>DirectoryUser\<close> of \<open>api/types.ts\<close>.\<close>

record directory_user =
  du_id :: string
  du_username :: string
  du_display_name :: string
  du_is_bot :: bool
  du_online :: "bool option"
  du_last_seen :: "int option"

record person_hit =
  ph_user :: directory_user
  ph_online :: bool
  ph_last_seen :: int
  ph_known :: bool

record message_hit =
  mh_conv_id :: string
  mh_seq :: int
  mh_title :: string
  mh_sender :: string
  mh_ts :: int
  mh_body :: string

definition MAX_PER_GROUP :: nat where "MAX_PER_GROUP = 20"

section \<open>Matching\<close>

definition strip_at_sign :: "string \<Rightarrow> string" where
  "strip_at_sign s = (case s of [] \<Rightarrow> [] | c # cs \<Rightarrow> if c = CHR ''@'' then cs else s)"

definition normalise :: "string \<Rightarrow> string" where
  "normalise s = to_lower_case (strip_at_sign (js_trim s))"

text \<open>\<open>indexOf\<close>, and \<open>includes\<close> as its success.\<close>

fun index_of :: "string \<Rightarrow> string \<Rightarrow> nat option" where
  "index_of q [] = (if q = [] then Some 0 else None)"
| "index_of q (c # cs) = (if starts_with q (c # cs) then Some 0 else map_option Suc (index_of q cs))"

definition includes_text :: "string \<Rightarrow> string \<Rightarrow> bool" where
  "includes_text q s = (index_of q s \<noteq> None)"

definition chat_hit_of :: "app \<Rightarrow> string \<Rightarrow> conversation \<Rightarrow> chat_hit" where
  "chat_hit_of s me c = \<lparr>ch_id = c_id c, ch_title = conversation_title s c me, ch_kind = c_kind c,
     ch_is_bot = (c_kind c = Direct \<and> has_bot s c), ch_members = length (c_server_members c),
     ch_retention = c_retention_seconds c\<rparr>"

definition match_chats :: "app \<Rightarrow> string \<Rightarrow> string \<Rightarrow> chat_hit list" where
  "match_chats s me q =
     take MAX_PER_GROUP (filter (\<lambda>c. includes_text q (to_lower_case (ch_title c)))
       (map (chat_hit_of s me) (sorted_conversations s)))"

text \<open>The loop body of \<open>matchMessages\<close>: the hit a stored message gives, if any.\<close>

definition message_hit_of :: "app \<Rightarrow> string \<Rightarrow> string \<Rightarrow> stored_message \<Rightarrow> message_hit option" where
  "message_hit_of s me q m =
     (case sm_payload m of
        Some (Text body r) \<Rightarrow>
          if \<not> includes_text q (to_lower_case body) then None
          else (case conv_of s (sm_conv_id m) of
                  None \<Rightarrow> None
                | Some conv \<Rightarrow>
                    if c_removed conv then None
                    else Some \<lparr>mh_conv_id = sm_conv_id m, mh_seq = sm_seq m, mh_title = conversation_title s conv me,
                                mh_sender = sm_sender m, mh_ts = sm_ts m, mh_body = body\<rparr>)
      | _ \<Rightarrow> None)"

fun collect_hits :: "app \<Rightarrow> string \<Rightarrow> string \<Rightarrow> stored_message list \<Rightarrow> message_hit list \<Rightarrow> message_hit list" where
  "collect_hits s me q [] hits = hits"
| "collect_hits s me q (m # ms) hits =
     collect_hits s me q ms (case message_hit_of s me q m of None \<Rightarrow> hits | Some h \<Rightarrow> hits @ [h])"

definition match_messages :: "app \<Rightarrow> string \<Rightarrow> stored_message list \<Rightarrow> string \<Rightarrow> message_hit list" where
  "match_messages s me ms q = take MAX_PER_GROUP (sort_key (\<lambda>h. - mh_ts h) (collect_hits s me q ms []))"

definition known_people :: "app \<Rightarrow> string \<Rightarrow> string list" where
  "known_people s me = filter (\<lambda>i. i \<noteq> me)
     (concat (map c_server_members (filter (\<lambda>c. \<not> c_removed c) (map snd (a_conversations s)))))"

definition decorate :: "string list \<Rightarrow> directory_user \<Rightarrow> person_hit" where
  "decorate known u = \<lparr>ph_user = u, ph_online = (du_online u = Some True),
     ph_last_seen = (case du_last_seen u of Some n \<Rightarrow> n | None \<Rightarrow> 0), ph_known = (du_id u \<in> set known)\<rparr>"

text \<open>
  \<open>matchPeople\<close> after its two requests were answered: the listing, then, when it has nobody, the exact
  lookup. The flag says whether the directory refused.
\<close>

definition listing_hits :: "string \<Rightarrow> string list \<Rightarrow> directory_user list result \<Rightarrow> person_hit list" where
  "listing_hits me known r =
     (case r of Inl e \<Rightarrow> [] | Inr us \<Rightarrow> map (decorate known) (take MAX_PER_GROUP (filter (\<lambda>u. du_id u \<noteq> me) us)))"

definition lookup_hits :: "string \<Rightarrow> string list \<Rightarrow> user_view result \<Rightarrow> person_hit list" where
  "lookup_hits me known r =
     (case r of Inl e \<Rightarrow> []
      | Inr u \<Rightarrow> if u_id u = me then []
          else [decorate known \<lparr>du_id = u_id u, du_username = u_username u,
                  du_display_name = (case u_display_name u of Some d \<Rightarrow> d | None \<Rightarrow> []),
                  du_is_bot = (u_is_bot u = Some True), du_online = None, du_last_seen = None\<rparr>])"

section \<open>Running searches\<close>

text \<open>
  A started run: its token and query, what \<open>matchPeople\<close> read at its start, and the answers so far.
  A failing database counts as empty.
\<close>

record search_run =
  sr_token :: nat
  sr_query :: string
  sr_me :: string
  sr_known :: "string list"
  sr_stored :: "stored_message list option"
  sr_listed :: bool
  sr_found :: "person_hit list option"

record search =
  se_query :: string
  se_filter :: search_filter
  se_chats :: "chat_hit list"
  se_people :: "person_hit list"
  se_messages :: "message_hit list"
  se_busy :: bool
  se_unavailable :: bool
  se_token :: nat
  se_runs :: "search_run list"

definition initial_search :: search where
  "initial_search = \<lparr>se_query = [], se_filter = FAll, se_chats = [], se_people = [], se_messages = [],
     se_busy = False, se_unavailable = False, se_token = 0, se_runs = []\<rparr>"

definition searching :: "search \<Rightarrow> bool" where
  "searching s \<longleftrightarrow> js_trim (se_query s) \<noteq> []"

definition start_run :: "app \<Rightarrow> search \<Rightarrow> unit result \<times> search" where
  "start_run a s =
     (let q = normalise (se_query s); s = s\<lparr>se_token := Suc (se_token s)\<rparr> in
      if q = [] then ret () (s\<lparr>se_chats := [], se_people := [], se_messages := [], se_busy := False\<rparr>)
      else case a_session a of
        None \<Rightarrow> throw (JsError ''TypeError'') (s\<lparr>se_busy := True\<rparr>)
      | Some si \<Rightarrow>
          let me = si_account_id si in
          ret () (s\<lparr>se_busy := True, se_chats := match_chats a me q,
                    se_runs := se_runs s @ [\<lparr>sr_token = se_token s, sr_query = q, sr_me = me,
                      sr_known = known_people a me, sr_stored = None, sr_listed = False, sr_found = None\<rparr>]\<rparr>))"

definition update_run :: "nat \<Rightarrow> (search_run \<Rightarrow> search_run) \<Rightarrow> search \<Rightarrow> search" where
  "update_run i f s = s\<lparr>se_runs := (se_runs s)[i := f (se_runs s ! i)]\<rparr>"

text \<open>The database answers run \<open>i\<close>.\<close>

definition stored_answer :: "nat \<Rightarrow> stored_message list result \<Rightarrow> search \<Rightarrow> search" where
  "stored_answer i r s = update_run i (\<lambda>n. n\<lparr>sr_stored := Some (case r of Inl e \<Rightarrow> [] | Inr ms \<Rightarrow> ms)\<rparr>) s"

text \<open>The directory answers run \<open>i\<close>; without a hit the exact lookup is asked next.\<close>

definition listing_answer :: "nat \<Rightarrow> directory_user list result \<Rightarrow> search \<Rightarrow> search" where
  "listing_answer i r s =
     (let n = se_runs s ! i; hits = listing_hits (sr_me n) (sr_known n) r
      in update_run i (\<lambda>n. n\<lparr>sr_listed := True, sr_found := (if hits \<noteq> [] then Some hits else None)\<rparr>)
           (s\<lparr>se_unavailable := (case r of Inl e \<Rightarrow> True | Inr us \<Rightarrow> False)\<rparr>))"

definition lookup_answer :: "nat \<Rightarrow> user_view result \<Rightarrow> search \<Rightarrow> search" where
  "lookup_answer i r s = update_run i (\<lambda>n. n\<lparr>sr_found := Some (lookup_hits (sr_me n) (sr_known n) r)\<rparr>) s"

text \<open>The end of \<open>run\<close>: a run that is not the latest is dropped.\<close>

definition finish_run :: "app \<Rightarrow> nat \<Rightarrow> search \<Rightarrow> unit result \<times> search" where
  "finish_run a i s =
     (let n = se_runs s ! i; s = s\<lparr>se_runs := take i (se_runs s) @ drop (Suc i) (se_runs s)\<rparr> in
      if sr_token n \<noteq> se_token s then ret () s
      else case a_session a of
        None \<Rightarrow> throw (JsError ''TypeError'') s
      | Some si \<Rightarrow>
          ret () (s\<lparr>se_messages := match_messages a (si_account_id si) (the (sr_stored n)) (sr_query n),
                    se_people := the (sr_found n), se_busy := False\<rparr>))"

definition reset_search :: "search \<Rightarrow> search" where
  "reset_search s = s\<lparr>se_token := Suc (se_token s), se_query := [], se_filter := FAll, se_chats := [],
     se_people := [], se_messages := [], se_busy := False\<rparr>"

definition highlight :: "string \<Rightarrow> string \<Rightarrow> string \<times> string \<times> string" where
  "highlight text q =
     (case index_of (normalise q) (to_lower_case text) of
        None \<Rightarrow> (text, [], [])
      | Some at \<Rightarrow> let end_pos = at + length (normalise q)
                   in (take at text, drop at (take end_pos text), drop end_pos text))"

text \<open>One step of the search: typing, starting, an answer, an end, or a reset, in any order.\<close>

inductive search_step :: "search \<Rightarrow> search \<Rightarrow> bool" where
  typing: "search_step s (s\<lparr>se_query := q, se_filter := f\<rparr>)"
| starting: "search_step s (snd (start_run a s))"
| stored: "i < length (se_runs s) \<Longrightarrow> sr_stored (se_runs s ! i) = None \<Longrightarrow> search_step s (stored_answer i r s)"
| listing: "i < length (se_runs s) \<Longrightarrow> \<not> sr_listed (se_runs s ! i) \<Longrightarrow> search_step s (listing_answer i l s)"
| looking_up: "i < length (se_runs s) \<Longrightarrow> sr_listed (se_runs s ! i) \<Longrightarrow> sr_found (se_runs s ! i) = None \<Longrightarrow>
    search_step s (lookup_answer i u s)"
| finishing: "i < length (se_runs s) \<Longrightarrow> sr_stored (se_runs s ! i) \<noteq> None \<Longrightarrow> sr_found (se_runs s ! i) \<noteq> None \<Longrightarrow>
    search_step s (snd (finish_run a i s))"
| resetting: "search_step s (reset_search s)"

end
