(* ===== verification/SearchFacts.thy ===== *)
theory SearchFacts
  imports Search
begin

text \<open>
  The hits shown are the newest ones and no others; a run that was overtaken changes nothing; the
  parts of a highlighted text put together are the text.
\<close>

section \<open>Message hits\<close>

lemma collect_hits_eq:
  "collect_hits s me q ms hits = hits @ concat (map (\<lambda>m. case message_hit_of s me q m of None \<Rightarrow> [] | Some h \<Rightarrow> [h]) ms)"
  by (induction ms arbitrary: hits) (auto split: option.splits)

lemma set_collect_hits: "h \<in> set (collect_hits s me q ms []) \<longleftrightarrow> (\<exists>m \<in> set ms. message_hit_of s me q m = Some h)"
  by (auto simp: collect_hits_eq split: option.splits) metis

lemma take_sorted_rest:
  assumes "sorted (map f xs)" and "x \<in> set xs" and "x \<notin> set (take n xs)"
  shows "length (take n xs) = n \<and> (\<forall>y \<in> set (take n xs). f y \<le> f x)"
proof -
  have "x \<in> set (drop n xs)" using assms(2,3) by (metis Un_iff append_take_drop_id set_append)
  moreover have "sorted (map f (take n xs) @ map f (drop n xs))"
    using assms(1) by (simp flip: map_append)
  moreover have "n < length xs" using calculation(1) by (metis drop_all emptyE leI list.set(1))
  ultimately show ?thesis by (auto simp: sorted_append)
qed

lemma message_hit_of_Some:
  assumes "message_hit_of s me q m = Some h"
  shows "includes_text q (to_lower_case (mh_body h))" and "\<exists>c. conv_of s (mh_conv_id h) = Some c \<and> \<not> c_removed c"
proof -
  obtain body r where "sm_payload m = Some (Text body r)"
    using assms by (auto simp: message_hit_of_def split: option.splits payload.splits)
  with assms show "includes_text q (to_lower_case (mh_body h))"
    and "\<exists>c. conv_of s (mh_conv_id h) = Some c \<and> \<not> c_removed c"
    by (auto simp: message_hit_of_def split: option.splits if_splits)
qed

lemma match_messages_hits:
  assumes "hits = match_messages s me ms q"
  shows "length hits \<le> 20 \<and> sorted (map (\<lambda>h. - mh_ts h) hits)
    \<and> (\<forall>h \<in> set hits. (\<exists>m \<in> set ms. message_hit_of s me q m = Some h) \<and> includes_text q (to_lower_case (mh_body h))
         \<and> (\<exists>c. conv_of s (mh_conv_id h) = Some c \<and> \<not> c_removed c))
    \<and> (\<forall>m \<in> set ms. \<forall>h. message_hit_of s me q m = Some h \<and> h \<notin> set hits \<longrightarrow>
         length hits = 20 \<and> (\<forall>h' \<in> set hits. mh_ts h \<le> mh_ts h'))"
proof (intro conjI ballI allI impI)
  let ?all = "sort_key (\<lambda>h. - mh_ts h) (collect_hits s me q ms [])"
  have h: "hits = take 20 ?all" using assms by (simp add: match_messages_def MAX_PER_GROUP_def)
  show "length hits \<le> 20" by (simp add: h)
  show "sorted (map (\<lambda>h. - mh_ts h) hits)" unfolding h take_map [symmetric] by (rule sorted_wrt_take) simp
  fix x assume "x \<in> set hits"
  then have "\<exists>m \<in> set ms. message_hit_of s me q m = Some x"
    using in_set_takeD [of x 20 ?all] by (simp add: h set_collect_hits)
  then show "\<exists>m \<in> set ms. message_hit_of s me q m = Some x" and "includes_text q (to_lower_case (mh_body x))"
    and "\<exists>c. conv_of s (mh_conv_id x) = Some c \<and> \<not> c_removed c"
    using message_hit_of_Some by blast+
next
  let ?all = "sort_key (\<lambda>h. - mh_ts h) (collect_hits s me q ms [])"
  have h: "hits = take 20 ?all" using assms by (simp add: match_messages_def MAX_PER_GROUP_def)
  fix m x assume m: "m \<in> set ms" "message_hit_of s me q m = Some x \<and> x \<notin> set hits"
  then have "x \<in> set ?all" by (auto simp: set_collect_hits)
  from take_sorted_rest [of "\<lambda>h. - mh_ts h" ?all x 20] this m(2)
  show "length hits = 20" and "\<And>h'. h' \<in> set hits \<Longrightarrow> mh_ts x \<le> mh_ts h'" by (simp_all add: h)
qed


section \<open>Overtaken runs\<close>

definition runs_inv :: "search \<Rightarrow> bool" where
  "runs_inv s \<longleftrightarrow> sorted_wrt (<) (map sr_token (se_runs s)) \<and> (\<forall>k \<in> set (map sr_token (se_runs s)). k \<le> se_token s)"

lemma update_run_tokens:
  assumes "i < length (se_runs s)" and "\<And>n. sr_token (f n) = sr_token n"
  shows "map sr_token (se_runs (update_run i f s)) = map sr_token (se_runs s)"
  by (rule nth_equalityI) (use assms in \<open>auto simp: update_run_def nth_list_update\<close>)

lemma runs_inv_cong:
  "map sr_token (se_runs t) = map sr_token (se_runs s) \<Longrightarrow> se_token t = se_token s \<Longrightarrow> runs_inv t = runs_inv s"
  by (simp only: runs_inv_def)

lemma runs_inv_update:
  assumes "runs_inv s" and "i < length (se_runs s)" and "\<And>n. sr_token (f n) = sr_token n"
  shows "runs_inv (update_run i f s)"
  using runs_inv_cong [OF update_run_tokens [OF assms(2,3)]] assms(1) by (simp add: update_run_def)

lemma runs_inv_step: "search_step s t \<Longrightarrow> runs_inv s \<Longrightarrow> runs_inv t"
proof (induction rule: search_step.induct)
  case (starting s a)
  then have "\<forall>n \<in> set (se_runs s). sr_token n < Suc (se_token s) \<and> sr_token n \<le> Suc (se_token s)"
    by (auto simp: runs_inv_def less_Suc_eq_le)
  with starting show ?case
    by (cases "normalise (se_query s) = []"; cases "a_session a")
      (simp_all add: start_run_def runs_inv_def Let_def sorted_wrt_append)
next
  case (listing i s l)
  then have "runs_inv (s\<lparr>se_unavailable := (case l of Inl e \<Rightarrow> True | Inr us \<Rightarrow> False)\<rparr>)" by (simp add: runs_inv_def)
  then show ?case using listing(1) by (simp add: listing_answer_def Let_def runs_inv_update)
next
  case (finishing i s a)
  let ?rs = "take i (se_runs s) @ drop (Suc i) (se_runs s)"
  have "sorted_wrt (<) (map sr_token (take i (se_runs s) @ (se_runs s ! i) # drop (Suc i) (se_runs s)))"
    using finishing(4) id_take_nth_drop [OF finishing(1)] by (simp only: runs_inv_def)
  then have "sorted_wrt (<) (map sr_token ?rs)" by (simp add: sorted_wrt_append)
  moreover have "\<forall>k \<in> set (map sr_token ?rs). k \<le> se_token s"
    using finishing(4) in_set_takeD [of _ i "se_runs s"] in_set_dropD [of _ "Suc i" "se_runs s"]
    by (fastforce simp: runs_inv_def)
  ultimately show ?case
    by (cases "sr_token (se_runs s ! i) = se_token s"; cases "a_session a")
      (simp_all add: finish_run_def runs_inv_def Let_def del: set_map)
next
  case (stored i s r)
  then show ?case by (simp add: stored_answer_def runs_inv_update)
next
  case (looking_up i s u)
  then show ?case by (simp add: lookup_answer_def runs_inv_update)
qed (auto simp: reset_search_def runs_inv_def)

lemma runs_inv_reachable: "search_step\<^sup>*\<^sup>* initial_search s \<Longrightarrow> runs_inv s"
  proof (induction rule: rtranclp_induct)
  case base
  show ?case by (simp add: runs_inv_def initial_search_def)
qed (rule runs_inv_step)

text \<open>Later searches win: in whatever order typing, starts, answers and ends happen, a run whose end
changes what is shown is the latest one started; all other runs under way are older, and their ends
leave the results alone.\<close>

theorem search_latest_wins:
  assumes "search_step\<^sup>*\<^sup>* initial_search s" and "i < length (se_runs s)"
    and "t = snd (finish_run a i s)"
    and "(se_chats t, se_people t, se_messages t, se_busy t) \<noteq> (se_chats s, se_people s, se_messages s, se_busy s)"
  shows "sr_token (se_runs s ! i) = se_token s \<and> (\<forall>n \<in> set (se_runs t). sr_token n < se_token t)
    \<and> (\<forall>b j. j < length (se_runs t) \<longrightarrow> (let u = snd (finish_run b j t) in
         (se_chats u, se_people u, se_messages u, se_busy u) = (se_chats t, se_people t, se_messages t, se_busy t)))"
proof -
  have inv: "runs_inv s" by (rule runs_inv_reachable) fact
  have tok: "sr_token (se_runs s ! i) = se_token s"
    using assms(3,4) by (rule_tac ccontr) (simp add: finish_run_def Let_def ret_def)
  have runs: "se_runs t = take i (se_runs s) @ drop (Suc i) (se_runs s)" and tt: "se_token t = se_token s"
    using assms(3) by (auto simp: finish_run_def Let_def ret_def throw_def split: option.splits)
  have sorted: "sorted_wrt (<) (map sr_token (take i (se_runs s)) @ sr_token (se_runs s ! i) # map sr_token (drop (Suc i) (se_runs s)))"
    using inv id_take_nth_drop [OF assms(2)] by (simp add: runs_inv_def) (metis list.simps(9) map_append)
  have old: "sr_token n < se_token t" if "n \<in> set (se_runs t)" for n
  proof -
    have "sr_token n \<noteq> se_token s" using sorted that tok unfolding runs by (auto simp: sorted_wrt_append)
    moreover have "n \<in> set (se_runs s)" using that unfolding runs by (auto dest: in_set_takeD in_set_dropD)
    ultimately show ?thesis using inv tt by (auto simp: runs_inv_def le_less)
  qed
  moreover have "sr_token (se_runs t ! j) \<noteq> se_token t" if "j < length (se_runs t)" for j
    using old [OF nth_mem [OF that]] by simp
  ultimately show ?thesis using tok by (simp add: finish_run_def Let_def ret_def)
qed

section \<open>Highlighting\<close>

lemma index_of_Some: "index_of q s = Some n \<Longrightarrow> take (length q) (drop n s) = q \<and> n + length q \<le> length s"
proof (induction q s arbitrary: n rule: index_of.induct)
  case (2 q c cs)
  show ?case
  proof (cases "starts_with q (c # cs)")
    case True
    then have "take (length q) (c # cs) = q" by (simp add: starts_with_def)
    moreover from this have "length q \<le> length (c # cs)" by (metis length_take min.cobounded1)
    ultimately show ?thesis using 2 True by simp
  next
    case False
    with 2 show ?thesis by auto
  qed
qed (auto split: if_splits)

theorem highlight_parts:
  assumes "highlight text q = (a, b, c)"
  shows "a @ b @ c = text \<and> (b \<noteq> [] \<longrightarrow> to_lower_case b = normalise q)"
proof (cases "index_of (normalise q) (to_lower_case text)")
  case None
  then show ?thesis using assms by (auto simp: highlight_def)
next
  case (Some n)
  let ?q = "normalise q"
  have n: "take (length ?q) (drop n (to_lower_case text)) = ?q" using index_of_Some [OF Some] by blast
  have abc: "a = take n text" "b = take (length ?q) (drop n text)" "c = drop (n + length ?q) text"
    using assms Some by (auto simp: highlight_def Let_def drop_take)
  have "a @ b @ c = text"
    unfolding abc by (metis append_take_drop_id drop_drop add.commute)
  moreover have "to_lower_case b = ?q" using n unfolding abc by (simp add: to_lower_case_def take_map drop_map)
  ultimately show ?thesis by simp
qed

definition demo_searcher :: app where
  "demo_searcher = initial_app\<lparr>a_session := Some \<lparr>si_account_id = ''me'', si_device_id = ''d'', si_username = ''u'',
     si_token = ''t'', si_is_admin = False\<rparr>\<rparr>"

definition demo_started :: search where
  "demo_started = snd (start_run demo_searcher (initial_search\<lparr>se_query := ''ab'', se_filter := FAll\<rparr>))"

definition demo_answered :: search where
  "demo_answered = lookup_answer 0 (Inl (JsError [])) (listing_answer 0 (Inl (JsError [])) (stored_answer 0 (Inr []) demo_started))"

lemma demo_normalise: "normalise ''ab'' = ''ab''"
  by (simp add: normalise_def strip_at_sign_def js_trim_def js_space_def to_lower_case_def lower_char_def)

lemma demo_started_runs: "length (se_runs demo_started) = 1" "sr_stored (se_runs demo_started ! 0) = None"
    "\<not> sr_listed (se_runs demo_started ! 0)" "sr_token (se_runs demo_started ! 0) = se_token demo_started"
    "se_busy demo_started"
  by (simp_all add: demo_started_def start_run_def demo_normalise initial_search_def demo_searcher_def initial_app_def
      Let_def ret_def)

lemma demo_answered_reachable: "search_step\<^sup>*\<^sup>* initial_search demo_answered"
proof -
  note step = rtranclp.rtrancl_into_rtrancl
  let ?a = "initial_search\<lparr>se_query := ''ab'', se_filter := FAll\<rparr>"
  let ?c = "stored_answer 0 (Inr []) demo_started"
  have r: "search_step\<^sup>*\<^sup>* initial_search demo_started"
    unfolding demo_started_def
    using search_step.typing [of initial_search FAll "''ab''"] search_step.starting [of ?a demo_searcher]
    by (blast intro: step)
  have c: "length (se_runs ?c) = 1" "\<not> sr_listed (se_runs ?c ! 0)"
    using demo_started_runs by (simp_all add: stored_answer_def update_run_def)
  let ?d = "listing_answer 0 (Inl (JsError [])) ?c"
  have d: "length (se_runs ?d) = 1" "sr_listed (se_runs ?d ! 0)" "sr_found (se_runs ?d ! 0) = None"
    using c by (simp_all add: listing_answer_def listing_hits_def update_run_def Let_def)
  have "search_step demo_started ?c" using demo_started_runs by (intro search_step.stored) simp_all
  moreover have "search_step ?c ?d" using c by (intro search_step.listing) simp_all
  moreover have "search_step ?d demo_answered" unfolding demo_answered_def
    using d by (intro search_step.looking_up) simp_all
  ultimately show ?thesis using r by (blast intro: step)
qed

lemma search_latest_wins_witness:
  "list_all (\<lambda>n. sr_token n < se_token demo_answered) (se_runs (snd (finish_run demo_searcher 0 demo_answered)))"
proof -
  have l: "0 < length (se_runs demo_answered)" "sr_token (se_runs demo_answered ! 0) = se_token demo_answered"
    "se_busy demo_answered"
    using demo_started_runs
    by (simp_all add: demo_answered_def lookup_answer_def listing_answer_def stored_answer_def update_run_def Let_def)
  let ?t = "snd (finish_run demo_searcher 0 demo_answered)"
  have t: "\<not> se_busy ?t" "se_token ?t = se_token demo_answered"
    using l by (simp_all add: finish_run_def Let_def ret_def demo_searcher_def initial_app_def)
  show ?thesis
    using search_latest_wins [OF demo_answered_reachable l(1) refl, of demo_searcher] t l(3) by (force simp: list_all_iff)
qed


definition demo_group :: conversation where
  "demo_group = \<lparr>c_id = ''g'', c_kind = Group, c_name = ''Home'', c_created_by = ''me'', c_created_at = 0, c_role = Owner,
     c_joined_seq = 0, c_last_seq = 1, c_read_seq = 1, c_synced_seq = 1, c_server_members = [''me''], c_roster = None,
     c_roster_seq = 0, c_retention_seconds = 0, c_last_message = None, c_updated_at = 0, c_removed = False\<rparr>"

definition demo_stored :: stored_message where
  "demo_stored = \<lparr>sm_conv_id = ''g'', sm_seq = 1, sm_client_msg_id = ''m'', sm_sender = ''me'', sm_sender_device = ''d'',
     sm_ts = 5, sm_server_ts = 5, sm_payload = Some (Text ''cAb'' None), sm_error = None, sm_edited = False\<rparr>"


end
