(* ===== verification/Http.thy ===== *)
theory Http
  imports Invite Model
begin

text \<open>
  \<open>web/src/api/http.ts\<close>: the REST client. Every endpoint is a request line (method, path, body) for the
  common transport. \<open>fetch\<close> and \<open>JSON.parse\<close> of a response belong to the surroundings: \<open>fetch\<close> answers a
  request with a response or fails, and what a body says is the argument of the functions that use it.
\<close>

section \<open>Requests\<close>

datatype json = JBool bool | JNum int | JStr string | JArr "json list" | JObj "(string \<times> json) list"

datatype body = NoBody | JsonBody json | Octets bytes

record fetch_request =
  fq_method :: string
  fq_path :: string
  fq_headers :: "(string \<times> string) list"
  fq_body :: body

record response =
  rs_status :: int
  rs_status_text :: string
  rs_text :: string
  rs_bytes :: bytes
  rs_disposition :: "string option"

definition rs_ok :: "response \<Rightarrow> bool" where
  "rs_ok r \<longleftrightarrow> 200 \<le> rs_status r \<and> rs_status r \<le> 299"

definition auth_headers :: "string option \<Rightarrow> (string \<times> string) list \<Rightarrow> (string \<times> string) list" where
  "auth_headers token extra =
     (let headers = foldl (\<lambda>h (k, v). jset k v h) [(''Accept'', ''application/json'')] extra
      in case token of None \<Rightarrow> headers
         | Some t \<Rightarrow> if t = [] then headers else jset ''Authorization'' (''Bearer '' @ t) headers)"

text \<open>
  \<open>read_error\<close> reads \<open>data.error.code\<close> and \<open>data.error.message\<close> off the body of a failed response; both
  are missing when the body is not JSON.
\<close>

definition to_error :: "(string \<Rightarrow> string option \<times> string option) \<Rightarrow> response \<Rightarrow> err" where
  "to_error read_error r =
     (let (code, message) = (if rs_text r = [] then (None, None) else read_error (rs_text r))
      in ApiErr (rs_status r) (case code of Some c \<Rightarrow> c | None \<Rightarrow> ''error'')
           (case message of Some m \<Rightarrow> m | None \<Rightarrow> rs_status_text r))"

definition network_error :: err where
  "network_error = ApiErr 0 ''network'' ''Cannot reach the server''"

text \<open>What \<open>api\<close> sends, and what it makes of the answer; \<open>None\<close> as a result is \<open>undefined\<close>.\<close>

definition api_request :: "string option \<Rightarrow> string \<Rightarrow> string \<Rightarrow> json option \<Rightarrow> fetch_request" where
  "api_request token meth path b =
     (let headers = auth_headers token [] in
      \<lparr>fq_method = meth, fq_path = ''/api/v1'' @ path,
       fq_headers = (if b = None then headers else jset ''Content-Type'' ''application/json'' headers),
       fq_body = (case b of None \<Rightarrow> NoBody | Some j \<Rightarrow> JsonBody j)\<rparr>)"

definition api ::
  "(fetch_request \<Rightarrow> response option) \<Rightarrow> (string \<Rightarrow> string option \<times> string option) \<Rightarrow> (string \<Rightarrow> 'a result)
    \<Rightarrow> string option \<Rightarrow> string \<Rightarrow> string \<Rightarrow> json option \<Rightarrow> 'a option result" where
  "api fetch read_error read_body token meth path b =
     (case fetch (api_request token meth path b) of
        None \<Rightarrow> Inl network_error
      | Some r \<Rightarrow>
          if \<not> rs_ok r then Inl (to_error read_error r)
          else if rs_status r = 204 then Inr None
          else if rs_text r = [] then Inr None
          else try_bind (read_body (rs_text r)) (\<lambda>x. Inr (Some x)))"

text \<open>\<open>/filename="([^"]+)"/\<close>\<close>

fun match_filename :: "string \<Rightarrow> string option" where
  "match_filename [] = None"
| "match_filename (c # cs) =
     (if starts_with (''filename='' @ [CHR 0x22]) (c # cs)
      then let name = before CHR 0x22 (drop 10 (c # cs)) in
        if name \<noteq> [] \<and> after CHR 0x22 (drop 10 (c # cs)) \<noteq> None then Some name else match_filename cs
      else match_filename cs)"

definition octet_request :: "string option \<Rightarrow> string \<Rightarrow> string \<Rightarrow> bytes option \<Rightarrow> fetch_request" where
  "octet_request token meth path b =
     (let headers = auth_headers token [] in
      \<lparr>fq_method = meth, fq_path = ''/api/v1'' @ path,
       fq_headers = (if b = None then headers else jset ''Content-Type'' ''application/octet-stream'' headers),
       fq_body = (case b of None \<Rightarrow> NoBody | Some bs \<Rightarrow> Octets bs)\<rparr>)"

definition api_bytes ::
  "(fetch_request \<Rightarrow> response option) \<Rightarrow> (string \<Rightarrow> string option \<times> string option) \<Rightarrow> string option
    \<Rightarrow> string \<Rightarrow> string \<Rightarrow> bytes option \<Rightarrow> (bytes \<times> string option) result" where
  "api_bytes fetch read_error token meth path b =
     (case fetch (octet_request token meth path b) of
        None \<Rightarrow> Inl network_error
      | Some r \<Rightarrow>
          if \<not> rs_ok r then Inl (to_error read_error r)
          else Inr (rs_bytes r, match_filename (case rs_disposition r of Some d \<Rightarrow> d | None \<Rightarrow> [])))"

definition upload_blob ::
  "(fetch_request \<Rightarrow> response option) \<Rightarrow> (string \<Rightarrow> string option \<times> string option) \<Rightarrow> (string \<Rightarrow> 'a result)
    \<Rightarrow> string option \<Rightarrow> string \<Rightarrow> bytes \<Rightarrow> 'a result" where
  "upload_blob fetch read_error read_body token conv_id contents =
     (case fetch \<lparr>fq_method = ''POST'', fq_path = ''/api/v1/conversations/'' @ conv_id @ ''/blobs'',
              fq_headers = auth_headers token [(''Content-Type'', ''application/octet-stream'')], fq_body = Octets contents\<rparr> of
        None \<Rightarrow> Inl network_error
      | Some r \<Rightarrow> if \<not> rs_ok r then Inl (to_error read_error r) else read_body (rs_text r))"

section \<open>Endpoints\<close>

datatype endpoint =
    EInfo
  | EAuthParams string
  | ERegister json
  | ELogin json
  | ELogout
  | EPasswordChallenge
  | EChangePassword json
  | EMe
  | EDeleteDevice string
  | EPatchMe "(string \<times> json) list"
  | EUser string
  | EUsers string
  | EConversations
  | EConversation string
  | ECreateDirect string
  | ECreateGroup "string list"
  | EAddMember string string
  | ERemoveMember string string
  | EMessages string int int
  | ESend string string string
  | EDeleteMessage string int
  | EMarkRead string int
  | ESetRetention string int
  | EDownloadBlob string
  | EDeleteBlob string
  | ETurn
  | EDevices
  | EBots
  | ECreateBot string string string
  | EUpdateBot string "(string \<times> json) list"
  | ERotateBot string
  | EDeleteBot string
  | EAdminStats
  | EAdminSettings
  | EAdminSaveSettings json
  | EAdminUsers string
  | EAdminPatchUser string "(string \<times> json) list"
  | EAdminDeleteUser string
  | EAdminLogoutUser string
  | EAdminInvites
  | EAdminCreateInvites int string int
  | EAdminDeleteInvite string
  | EAdminBackup

primrec endpoint_line :: "endpoint \<Rightarrow> string \<times> string \<times> json option" where
  "endpoint_line EInfo = (''GET'', ''/info'', None)"
| "endpoint_line (EAuthParams username) = (''GET'', ''/auth/params?username='' @ encode_uri_component username, None)"
| "endpoint_line (ERegister b) = (''POST'', ''/auth/register'', Some b)"
| "endpoint_line (ELogin b) = (''POST'', ''/auth/login'', Some b)"
| "endpoint_line ELogout = (''POST'', ''/auth/logout'', None)"
| "endpoint_line EPasswordChallenge = (''POST'', ''/auth/password/challenge'', None)"
| "endpoint_line (EChangePassword b) = (''POST'', ''/auth/password'', Some b)"
| "endpoint_line EMe = (''GET'', ''/me'', None)"
| "endpoint_line (EDeleteDevice i) = (''DELETE'', ''/devices/'' @ i, None)"
| "endpoint_line (EPatchMe b) = (''PATCH'', ''/me'', Some (JObj b))"
| "endpoint_line (EUser username) = (''GET'', ''/users/'' @ encode_uri_component username, None)"
| "endpoint_line (EUsers prefix) = (''GET'', ''/users?q='' @ encode_uri_component prefix @ ''&limit=200'', None)"
| "endpoint_line EConversations = (''GET'', ''/conversations'', None)"
| "endpoint_line (EConversation i) = (''GET'', ''/conversations/'' @ i, None)"
| "endpoint_line (ECreateDirect a) =
     (''POST'', ''/conversations'', Some (JObj [(''kind'', JStr ''direct''), (''account_id'', JStr a)]))"
| "endpoint_line (ECreateGroup ms) =
     (''POST'', ''/conversations'', Some (JObj [(''kind'', JStr ''group''), (''member_ids'', JArr (map JStr ms))]))"
| "endpoint_line (EAddMember c a) =
     (''POST'', ''/conversations/'' @ c @ ''/members'', Some (JObj [(''account_id'', JStr a)]))"
| "endpoint_line (ERemoveMember c a) = (''DELETE'', ''/conversations/'' @ c @ ''/members/'' @ a, None)"
| "endpoint_line (EMessages c position limit) =
     (''GET'', ''/conversations/'' @ c @ ''/messages?after='' @ string_of_int position @ ''&limit='' @ string_of_int limit, None)"
| "endpoint_line (ESend c env sig) =
     (''POST'', ''/conversations/'' @ c @ ''/messages'', Some (JObj [(''env'', JStr env), (''sig'', JStr sig)]))"
| "endpoint_line (EDeleteMessage c q) = (''DELETE'', ''/conversations/'' @ c @ ''/messages/'' @ string_of_int q, None)"
| "endpoint_line (EMarkRead c q) = (''PUT'', ''/conversations/'' @ c @ ''/read'', Some (JObj [(''seq'', JNum q)]))"
| "endpoint_line (ESetRetention c n) =
     (''PUT'', ''/conversations/'' @ c @ ''/retention'', Some (JObj [(''seconds'', JNum n)]))"
| "endpoint_line (EDownloadBlob i) = (''GET'', ''/blobs/'' @ i, None)"
| "endpoint_line (EDeleteBlob i) = (''DELETE'', ''/blobs/'' @ i, None)"
| "endpoint_line ETurn = (''GET'', ''/turn'', None)"
| "endpoint_line EDevices = (''GET'', ''/devices'', None)"
| "endpoint_line EBots = (''GET'', ''/bots'', None)"
| "endpoint_line (ECreateBot u d w) =
     (''POST'', ''/bots'', Some (JObj [(''username'', JStr u), (''display_name'', JStr d), (''webhook_url'', JStr w)]))"
| "endpoint_line (EUpdateBot i b) = (''PATCH'', ''/bots/'' @ i, Some (JObj b))"
| "endpoint_line (ERotateBot i) = (''POST'', ''/bots/'' @ i @ ''/rotate'', None)"
| "endpoint_line (EDeleteBot i) = (''DELETE'', ''/bots/'' @ i, None)"
| "endpoint_line EAdminStats = (''GET'', ''/admin/stats'', None)"
| "endpoint_line EAdminSettings = (''GET'', ''/admin/settings'', None)"
| "endpoint_line (EAdminSaveSettings b) = (''PUT'', ''/admin/settings'', Some b)"
| "endpoint_line (EAdminUsers q) = (''GET'', ''/admin/users?q='' @ encode_uri_component q @ ''&limit=200'', None)"
| "endpoint_line (EAdminPatchUser i b) = (''PATCH'', ''/admin/users/'' @ i, Some (JObj b))"
| "endpoint_line (EAdminDeleteUser i) = (''DELETE'', ''/admin/users/'' @ i, None)"
| "endpoint_line (EAdminLogoutUser i) = (''POST'', ''/admin/users/'' @ i @ ''/logout'', None)"
| "endpoint_line EAdminInvites = (''GET'', ''/admin/invites'', None)"
| "endpoint_line (EAdminCreateInvites n note hours) =
     (''POST'', ''/admin/invites'', Some (JObj [(''count'', JNum n), (''note'', JStr note), (''expires_hours'', JNum hours)]))"
| "endpoint_line (EAdminDeleteInvite c) = (''DELETE'', ''/admin/invites/'' @ c, None)"
| "endpoint_line EAdminBackup = (''POST'', ''/admin/backup'', None)"

text \<open>The endpoint behind each request the state operations record; uploading has its own routine.\<close>

primrec endpoint_of :: "http_request \<Rightarrow> endpoint option" where
  "endpoint_of RConversations = Some EConversations"
| "endpoint_of (RConversation i) = Some (EConversation i)"
| "endpoint_of (RMessages c p l) = Some (EMessages c p l)"
| "endpoint_of (RSend c e s) = Some (ESend c e s)"
| "endpoint_of (RMarkRead c q) = Some (EMarkRead c q)"
| "endpoint_of (RDeleteMessage c q) = Some (EDeleteMessage c q)"
| "endpoint_of (RDeleteBlob b) = Some (EDeleteBlob b)"
| "endpoint_of (RUser u) = Some (EUser u)"
| "endpoint_of (RCreateDirect a) = Some (ECreateDirect a)"
| "endpoint_of (RCreateGroup ms) = Some (ECreateGroup ms)"
| "endpoint_of (RAddMember c a) = Some (EAddMember c a)"
| "endpoint_of (RRemoveMember c a) = Some (ERemoveMember c a)"
| "endpoint_of (RSetRetention c n) = Some (ESetRetention c n)"
| "endpoint_of (RUploadBlob c b) = None"
| "endpoint_of (RDownloadBlob b) = Some (EDownloadBlob b)"

section \<open>Facts\<close>

lemma api_ok_iff:
  "ok (api fetch read_error read_body token meth path b) \<longleftrightarrow>
     (\<exists>r. fetch (api_request token meth path b) = Some r \<and> rs_ok r
        \<and> (rs_status r = 204 \<or> rs_text r = [] \<or> ok (read_body (rs_text r))))"
  by (auto simp: api_def ok_def try_bind_def split: option.splits sum.splits)

text \<open>A failure the server reported keeps its status; only an unreachable server has status 0.\<close>

lemma api_error_status:
  assumes "api fetch read_error read_body token meth path b = Inl (ApiErr n c m)"
    and "\<And>t e. read_body t = Inl e \<Longrightarrow> \<exists>msg. e = JsError msg"
  shows "(n = 0 \<and> c = ''network'' \<and> fetch (api_request token meth path b) = None)
    \<or> (\<exists>r. fetch (api_request token meth path b) = Some r \<and> n = rs_status r \<and> \<not> rs_ok r)"
  using assms
  by (auto simp: api_def network_error_def to_error_def try_bind_def Let_def
      split: option.splits if_splits sum.splits prod.splits)

lemma bearer_token: "jget (auth_headers (Some t) extra) ''Authorization'' = Some (''Bearer '' @ t)" if "t \<noteq> []"
  using that by (simp add: auth_headers_def Let_def update_conv')

lemma no_bearer_token:
  "jget (fq_headers (api_request None meth path b)) ''Authorization'' = None"
  by (simp add: api_request_def auth_headers_def Let_def update_conv')

end
