(* ===== verification/Ws.thy ===== *)
theory Ws
  imports Complex_Main Prelude
begin

text \<open>
  \<open>web/src/api/ws.ts\<close>: the WebSocket client, with its reconnects and its keepalive, and
  \<open>startSync\<close>/\<open>stopSync\<close> of \<open>state/sync.ts\<close>, its only user. Sockets, timers and intervals are objects of
  the browser: a socket is its ready state and what was sent on it, timers and intervals are kept by
  identity until they fire or are cleared. The handlers the client is given start asynchronous work and
  do not call back into it, so calling one is recorded. The random factor of the back-off is the
  argument of the close event, a number between 0 and 1.
\<close>

section \<open>State\<close>

datatype connection_status = Offline | Connecting | Online

datatype ready_state = SConnecting | SOpen | SClosing | SClosed

record socket =
  so_state :: ready_state
  so_sent :: "(string \<times> string option) list"

datatype timeout = TReconnect real | TPoke int

record ws =
  ws_status :: connection_status
  ws_socket :: "nat option"
  ws_sockets :: "socket list"
  ws_handlers :: "nat list jmap"
  ws_calls :: "(nat \<times> string \<times> string option) list"
  ws_token :: string
  ws_stopped :: bool
  ws_attempt :: nat
  ws_timer :: "nat option"
  ws_timeouts :: "(nat \<times> timeout) list"
  ws_keepalive :: "nat option"
  ws_intervals :: "nat list"
  ws_last_frame :: int
  ws_ping_sent :: int
  ws_now :: int
  ws_ids :: nat
  ws_subscribed :: "(string \<times> nat) list"
  ws_purging :: bool

definition PING_AFTER_MS :: int where "PING_AFTER_MS = 15000"
definition DEAD_AFTER_MS :: int where "DEAD_AFTER_MS = 35000"
definition POKE_DEADLINE_MS :: int where "POKE_DEADLINE_MS = 5000"

definition new_ws_client :: ws where
  "new_ws_client = \<lparr>ws_status = Offline, ws_socket = None, ws_sockets = [], ws_handlers = [], ws_calls = [],
     ws_token = [], ws_stopped = True, ws_attempt = 0, ws_timer = None, ws_timeouts = [], ws_keepalive = None,
     ws_intervals = [], ws_last_frame = 0, ws_ping_sent = 0, ws_now = 0, ws_ids = 0, ws_subscribed = [],
     ws_purging = False\<rparr>"

section \<open>Browser objects\<close>

definition ready :: "nat \<Rightarrow> ws \<Rightarrow> ready_state" where
  "ready i s = so_state (ws_sockets s ! i)"

definition set_ready :: "nat \<Rightarrow> ready_state \<Rightarrow> ws \<Rightarrow> ws" where
  "set_ready i r s = s\<lparr>ws_sockets := (ws_sockets s)[i := (ws_sockets s ! i)\<lparr>so_state := r\<rparr>]\<rparr>"

definition send_on :: "nat \<Rightarrow> string \<Rightarrow> string option \<Rightarrow> ws \<Rightarrow> ws" where
  "send_on i t d s = s\<lparr>ws_sockets := (ws_sockets s)[i := (ws_sockets s ! i)\<lparr>so_sent := so_sent (ws_sockets s ! i) @ [(t, d)]\<rparr>]\<rparr>"

text \<open>\<open>socket.close()\<close>: without effect on a socket that is closing or closed.\<close>

definition close_socket :: "nat \<Rightarrow> ws \<Rightarrow> ws" where
  "close_socket i s = (if ready i s \<in> {SConnecting, SOpen} then set_ready i SClosing s else s)"

definition set_timeout :: "timeout \<Rightarrow> ws \<Rightarrow> ws" where
  "set_timeout k s = s\<lparr>ws_timeouts := ws_timeouts s @ [(ws_ids s, k)], ws_ids := Suc (ws_ids s)\<rparr>"

text \<open>\<open>if (this.timer) clearTimeout(this.timer); this.timer = null\<close>\<close>

definition clear_timer :: "ws \<Rightarrow> ws" where
  "clear_timer s = s\<lparr>ws_timeouts := (case ws_timer s of None \<Rightarrow> ws_timeouts s
     | Some i \<Rightarrow> filter (\<lambda>t. fst t \<noteq> i) (ws_timeouts s)), ws_timer := None\<rparr>"

section \<open>The client\<close>

definition stop_keepalive :: "ws \<Rightarrow> ws" where
  "stop_keepalive s = s\<lparr>ws_intervals := (case ws_keepalive s of None \<Rightarrow> ws_intervals s
     | Some i \<Rightarrow> filter (\<lambda>j. j \<noteq> i) (ws_intervals s)), ws_keepalive := None\<rparr>"

definition start_keepalive :: "ws \<Rightarrow> ws" where
  "start_keepalive s = s\<lparr>ws_keepalive := Some (ws_ids s), ws_intervals := ws_intervals s @ [ws_ids s],
     ws_ids := Suc (ws_ids s)\<rparr>"

definition open_ws :: "ws \<Rightarrow> ws" where
  "open_ws s =
     (if ws_stopped s then s
      else start_keepalive (stop_keepalive (s\<lparr>ws_status := Connecting,
        ws_socket := Some (length (ws_sockets s)),
        ws_sockets := ws_sockets s @ [\<lparr>so_state = SConnecting, so_sent = []\<rparr>],
        ws_last_frame := ws_now s, ws_ping_sent := 0\<rparr>)))"

definition connect :: "string \<Rightarrow> ws \<Rightarrow> ws" where
  "connect token s = open_ws (s\<lparr>ws_token := token, ws_stopped := False, ws_attempt := 0\<rparr>)"

definition close_ws :: "ws \<Rightarrow> ws" where
  "close_ws s =
     (let s1 = stop_keepalive (clear_timer (s\<lparr>ws_stopped := True\<rparr>));
          s2 = s1\<lparr>ws_socket := None\<rparr>;
          s3 = (case ws_socket s1 of None \<Rightarrow> s2 | Some i \<Rightarrow> close_socket i s2)
      in s3\<lparr>ws_status := Offline\<rparr>)"

definition handlers_of :: "ws \<Rightarrow> string \<Rightarrow> nat list" where
  "handlers_of s t = (case jget (ws_handlers s) t of None \<Rightarrow> [] | Some l \<Rightarrow> l)"

text \<open>\<open>on\<close> with the handler as a fresh identity, and the function it returns.\<close>

definition on_ws :: "string \<Rightarrow> ws \<Rightarrow> nat \<times> ws" where
  "on_ws t s = (ws_ids s, s\<lparr>ws_handlers := jset t (handlers_of s t @ [ws_ids s]) (ws_handlers s), ws_ids := Suc (ws_ids s)\<rparr>)"

definition off_ws :: "string \<Rightarrow> nat \<Rightarrow> ws \<Rightarrow> ws" where
  "off_ws t h s = s\<lparr>ws_handlers := jset t (filter (\<lambda>x. x \<noteq> h) (handlers_of s t)) (ws_handlers s)\<rparr>"

definition send_ws :: "string \<Rightarrow> string option \<Rightarrow> ws \<Rightarrow> bool \<times> ws" where
  "send_ws t d s =
     (case ws_socket s of
        None \<Rightarrow> (False, s)
      | Some i \<Rightarrow> if ready i s \<noteq> SOpen then (False, s) else (True, send_on i t d s))"

definition reopen :: "ws \<Rightarrow> ws" where
  "reopen s =
     (let s1 = stop_keepalive (s\<lparr>ws_socket := None\<rparr>);
          s2 = (case ws_socket s of None \<Rightarrow> s1 | Some i \<Rightarrow> close_socket i s1)
      in if ws_stopped s2 then s2 else open_ws ((clear_timer s2)\<lparr>ws_attempt := 0\<rparr>))"

definition poke :: "ws \<Rightarrow> ws" where
  "poke s =
     (if ws_stopped s then s
      else case ws_socket s of
        None \<Rightarrow> open_ws ((clear_timer s)\<lparr>ws_attempt := 0\<rparr>)
      | Some i \<Rightarrow>
          if ready i s \<noteq> SOpen then s
          else set_timeout (TPoke (ws_now s)) (snd (send_ws ''ping'' None (s\<lparr>ws_ping_sent := ws_now s\<rparr>))))"

definition check_liveness :: "ws \<Rightarrow> ws" where
  "check_liveness s =
     (if ws_socket s = None then s
      else let silence = ws_now s - ws_last_frame s in
        if silence > DEAD_AFTER_MS then reopen s
        else if silence \<ge> PING_AFTER_MS \<and> ws_now s - ws_ping_sent s \<ge> PING_AFTER_MS
        then snd (send_ws ''ping'' None (s\<lparr>ws_ping_sent := ws_now s\<rparr>))
        else s)"

text \<open>Every handler of a type is called, in order; what one throws is caught.\<close>

definition dispatch :: "string \<Rightarrow> string option \<Rightarrow> ws \<Rightarrow> ws" where
  "dispatch t d s = s\<lparr>ws_calls := ws_calls s @ map (\<lambda>h. (h, t, d)) (handlers_of s t)\<rparr>"

definition on_open :: "nat \<Rightarrow> ws \<Rightarrow> ws" where
  "on_open i s = send_on i ''auth'' (Some (ws_token s)) s"

text \<open>What a frame holds: no JSON, JSON that is not an object, or a type with its data.\<close>

datatype frame_data = NotJson | NoObject | Frame string "string option"

definition on_message :: "frame_data \<Rightarrow> ws \<Rightarrow> ws" where
  "on_message f s =
     (let s = s\<lparr>ws_last_frame := ws_now s\<rparr> in
      case f of
        Frame t d \<Rightarrow> dispatch t d (if t = ''hello'' then s\<lparr>ws_attempt := 0, ws_status := Online\<rparr> else s)
      | _ \<Rightarrow> s)"

definition backoff :: "nat \<Rightarrow> real \<Rightarrow> real" where
  "backoff n rand = min 30000 (1000 * 2 ^ n) * (0.7 + rand * 0.6)"

definition on_close :: "nat \<Rightarrow> int \<Rightarrow> string \<Rightarrow> real \<Rightarrow> ws \<Rightarrow> ws" where
  "on_close i code reason rand s =
     (if ws_socket s \<noteq> Some i then s
      else
        let s = (stop_keepalive (s\<lparr>ws_socket := None\<rparr>))\<lparr>ws_status := Offline\<rparr> in
        if ws_stopped s then s
        else
          let s = (if code = 1008 then dispatch ''revoked'' (Some reason) s else s);
              delay = backoff (ws_attempt s) rand;
              s = s\<lparr>ws_attempt := min (ws_attempt s + 1) 6\<rparr>
          in set_timeout (TReconnect delay) (s\<lparr>ws_timer := Some (ws_ids s)\<rparr>))"

text \<open>A timeout that fires: the reconnect, or the deadline of a poke.\<close>

definition run_timeout :: "timeout \<Rightarrow> ws \<Rightarrow> ws" where
  "run_timeout k s =
     (case k of
        TReconnect d \<Rightarrow> open_ws s
      | TPoke sent_at \<Rightarrow> if ws_socket s \<noteq> None \<and> ws_last_frame s < sent_at then reopen s else s)"

section \<open>Starting and stopping\<close>

text \<open>\<open>ws_purging\<close> says whether the interval that purges expired messages is running.\<close>

fun subscribe :: "string list \<Rightarrow> ws \<Rightarrow> ws" where
  "subscribe [] s = s"
| "subscribe (t # ts) s = (let (h, s) = on_ws t s in subscribe ts (s\<lparr>ws_subscribed := ws_subscribed s @ [(t, h)]\<rparr>))"

definition stop_sync :: "ws \<Rightarrow> ws" where
  "stop_sync s = (close_ws ((foldl (\<lambda>s (t, h). off_ws t h s) s (ws_subscribed s))\<lparr>ws_subscribed := []\<rparr>))
     \<lparr>ws_purging := False\<rparr>"

definition start_sync :: "string option \<Rightarrow> ws \<Rightarrow> ws" where
  "start_sync session_token s =
     (case session_token of
        None \<Rightarrow> s
      | Some token \<Rightarrow> (connect token (subscribe [''hello'', ''message'', ''signal'', ''event''] (stop_sync s)))
          \<lparr>ws_purging := True\<rparr>)"

section \<open>Runs\<close>

text \<open>What can happen, in any order: calls of the client's users, socket events, timers and time.\<close>

inductive ws_step :: "ws \<Rightarrow> ws \<Rightarrow> bool" where
  start: "ws_step s (start_sync tok s)"
| stop: "ws_step s (stop_sync s)"
| subscribed: "ws_step s (snd (on_ws t s))"
| sent: "t \<noteq> ''auth'' \<Longrightarrow> ws_step s (snd (send_ws t d s))"
| poked: "ws_step s (poke s)"
| opened: "i < length (ws_sockets s) \<Longrightarrow> ready i s = SConnecting \<Longrightarrow> ws_step s (on_open i (set_ready i SOpen s))"
| frame: "i < length (ws_sockets s) \<Longrightarrow> ready i s = SOpen \<Longrightarrow> ws_step s (on_message f s)"
| errored: "i < length (ws_sockets s) \<Longrightarrow> ready i s \<noteq> SClosed \<Longrightarrow> ws_step s (close_socket i s)"
| closed: "i < length (ws_sockets s) \<Longrightarrow> ready i s \<noteq> SClosed \<Longrightarrow> 0 \<le> rand \<Longrightarrow> rand < 1 \<Longrightarrow>
    ws_step s (on_close i code reason rand (set_ready i SClosed s))"
| fired: "(j, k) \<in> set (ws_timeouts s) \<Longrightarrow>
    ws_step s (run_timeout k (s\<lparr>ws_timeouts := filter (\<lambda>t. fst t \<noteq> j) (ws_timeouts s)\<rparr>))"
| tick: "j \<in> set (ws_intervals s) \<Longrightarrow> ws_step s (check_liveness s)"
| passing: "0 \<le> dt \<Longrightarrow> ws_step s (s\<lparr>ws_now := ws_now s + dt\<rparr>)"

end
