(* ===== verification/Session.thy ===== *)
theory Session
  imports Sync Ws
begin

text \<open>
  \<open>web/src/state/session.ts\<close>: registration, login, restoring, logout and changing the password. The
  client is the application state with the access token of \<open>api/http.ts\<close>, the progress text and the
  WebSocket client. What the server answers to each of these requests may depend on all requests
  before it; the user agent and the random draws are in the surroundings. \<open>void refreshMe()\<close> starts a
  task: it is counted in \<open>cl_refreshes\<close> and runs as \<open>refresh_me\<close>.
\<close>

section \<open>State\<close>

record register_body =
  rb_username :: string
  rb_salt :: string
  rb_auth_key :: string
  rb_sign_pub :: string
  rb_enc_pub :: string
  rb_key_bundle :: string
  rb_invite :: string
  rb_device_name :: string

record change_body =
  pb_challenge :: string
  pb_sig :: string
  pb_new_salt :: string
  pb_new_auth_key :: string
  pb_new_key_bundle :: string
  pb_sign_out_others :: bool

datatype auth_request =
    QParams string
  | QRegister register_body
  | QLogin string string string
  | QLogout
  | QMe
  | QChallenge
  | QChange change_body

text \<open>\<open>ApiSession\<close> and the parts of \<open>MeView\<close> the client reads.\<close>

record api_session =
  as_account_id :: string
  as_device_id :: string
  as_username :: string
  as_token :: string
  as_is_admin :: "bool option"
  as_sign_pub :: string
  as_enc_pub :: string
  as_key_bundle :: string

record me_view =
  me_is_admin :: bool
  me_visibility :: visibility
  me_settings :: server_settings
  me_version :: string

record auth_world =
  aw_params :: "auth_request list \<Rightarrow> (string \<times> kdf_params) result"
  aw_session :: "auth_request list \<Rightarrow> api_session result"
  aw_logout :: "auth_request list \<Rightarrow> unit result"
  aw_me :: "auth_request list \<Rightarrow> me_view result"
  aw_challenge :: "auth_request list \<Rightarrow> string result"
  aw_change :: "auth_request list \<Rightarrow> int option result"
  aw_salt :: "nat \<Rightarrow> bytes"
  aw_seed :: "nat \<Rightarrow> bytes"
  aw_priv :: "nat \<Rightarrow> bytes"
  aw_nonce :: "nat \<Rightarrow> bytes"
  aw_user_agent :: string

record client =
  cl_app :: app
  cl_token :: "string option"
  cl_busy :: "string option"
  cl_booting :: bool
  cl_ws :: ws
  cl_asked :: "auth_request list"
  cl_draws :: nat
  cl_refreshes :: nat

definition on_app :: "(app \<Rightarrow> app) \<Rightarrow> client \<Rightarrow> client" where
  "on_app f s = s\<lparr>cl_app := f (cl_app s)\<rparr>"

definition ask :: "auth_request \<Rightarrow> (auth_request list \<Rightarrow> 'a result) \<Rightarrow> client \<Rightarrow> 'a result \<times> client" where
  "ask r answer s = (let s' = s\<lparr>cl_asked := cl_asked s @ [r]\<rparr> in (answer (cl_asked s'), s'))"

definition busy :: "string \<Rightarrow> client \<Rightarrow> client" where
  "busy key s = s\<lparr>cl_busy := Some (translate (a_dict (cl_app s)) key [])\<rparr>"

text \<open>\<open>try ... finally { authBusy.value = null }\<close>\<close>

definition finally_idle :: "'a result \<times> client \<Rightarrow> 'a result \<times> client" where
  "finally_idle p = (fst p, (snd p)\<lparr>cl_busy := None\<rparr>)"

section \<open>Names and passwords\<close>

definition MIN_PASSWORD_LENGTH :: nat where "MIN_PASSWORD_LENGTH = 12"

fun text_contains :: "string \<Rightarrow> string \<Rightarrow> bool" where
  "text_contains p [] = (p = [])"
| "text_contains p (c # cs) = (starts_with p (c # cs) \<or> text_contains p cs)"

definition device_name :: "string \<Rightarrow> string" where
  "device_name ua =
     (let os = (if text_contains ''Windows'' ua then ''Windows'' else if text_contains ''Android'' ua then ''Android''
                else if text_contains ''iPhone'' ua \<or> text_contains ''iPad'' ua then ''iOS''
                else if text_contains ''Mac'' ua then ''macOS'' else if text_contains ''Linux'' ua then ''Linux'' else ''web'');
          browser = (if text_contains ''Edg/'' ua then ''Edge'' else if text_contains ''Firefox/'' ua then ''Firefox''
                else if text_contains ''Chrome/'' ua then ''Chrome'' else if text_contains ''Safari/'' ua then ''Safari'' else ''browser'')
      in browser @ '' on '' @ os)"

definition validate_password :: "dict \<Rightarrow> string \<Rightarrow> string option" where
  "validate_password dict password =
     (if length password < MIN_PASSWORD_LENGTH
      then Some (translate dict ''password_too_short'' [(''n'', string_of_int (int MIN_PASSWORD_LENGTH))]) else None)"

section \<open>Sessions\<close>

definition logout :: "auth_world \<Rightarrow> client \<Rightarrow> unit result \<times> client" where
  "logout W s =
     (let s = s\<lparr>cl_ws := stop_sync (cl_ws s)\<rparr> in
      then_ok (attempt (ask QLogout (aw_logout W) s) (\<lambda>e. ret ())) (\<lambda>_ s.
        ret () (on_app (\<lambda>a. on_db clear_all (reset_state (a\<lparr>a_keys := None\<rparr>))) (s\<lparr>cl_token := None\<rparr>))))"

definition refresh_me :: "auth_world \<Rightarrow> client \<Rightarrow> unit result \<times> client" where
  "refresh_me W s =
     attempt (then_ok (ask QMe (aw_me W) s) (\<lambda>me s.
         let s1 = on_app (\<lambda>a. a\<lparr>a_settings := Some (me_settings me), a_server_version := me_version me,
                    a_visibility := Some (me_visibility me)\<rparr>) s
         in ret () (case a_session (cl_app s1) of
              None \<Rightarrow> s1
            | Some si \<Rightarrow>
                if si_is_admin si \<noteq> me_is_admin me
                then let next = si\<lparr>si_is_admin := me_is_admin me\<rparr>
                  in on_app (\<lambda>a. on_db (\<lambda>d. d\<lparr>db_session := Some next\<rparr>) (a\<lparr>a_session := Some next\<rparr>)) s1
                else s1)))
       (\<lambda>e s. case e of
          ApiErr n c m \<Rightarrow> if n = 401 \<or> n = 403 then logout W s else ret () s
        | _ \<Rightarrow> ret () s)"

definition start_client_sync :: "client \<Rightarrow> client" where
  "start_client_sync s = s\<lparr>cl_ws := start_sync (map_option si_token (a_session (cl_app s))) (cl_ws s)\<rparr>"

definition restore_session :: "crypto \<Rightarrow> client \<Rightarrow> client" where
  "restore_session C s =
     (case (db_session (a_db (cl_app s)), db_keys (a_db (cl_app s))) of
        (Some si, Some (seed, priv)) \<Rightarrow>
          let s1 = s\<lparr>cl_token := Some (si_token si)\<rparr>
          in (case keys_from_secrets C seed priv of
                Inl e \<Rightarrow> s1
              | Inr k \<Rightarrow>
                  let s2 = on_app (\<lambda>a. load_local_state (a\<lparr>a_keys := Some k, a_session := Some si\<rparr>)) s1;
                      s3 = start_client_sync s2
                  in s3\<lparr>cl_refreshes := Suc (cl_refreshes s3)\<rparr>)
      | _ \<Rightarrow> s)\<lparr>cl_booting := False\<rparr>"

definition establish :: "api_session \<Rightarrow> account_keys \<Rightarrow> client \<Rightarrow> client" where
  "establish sess k s =
     (let info = \<lparr>si_account_id = as_account_id sess, si_device_id = as_device_id sess, si_username = as_username sess,
                   si_token = as_token sess, si_is_admin = (as_is_admin sess = Some True)\<rparr>;
          s1 = on_app (on_db (\<lambda>d. (clear_all d)\<lparr>db_session := Some info, db_keys := Some (sign_seed k, enc_priv k)\<rparr>)) s;
          s2 = s1\<lparr>cl_token := Some (as_token sess)\<rparr>;
          s3 = on_app (\<lambda>a. load_local_state (a\<lparr>a_keys := Some k, a_session := Some info\<rparr>)) s2;
          s4 = start_client_sync s3
      in s4\<lparr>cl_refreshes := Suc (cl_refreshes s4)\<rparr>)"

section \<open>Registration and login\<close>

definition register :: "crypto \<Rightarrow> auth_world \<Rightarrow> string \<Rightarrow> string \<Rightarrow> string \<Rightarrow> client \<Rightarrow> unit result \<times> client" where
  "register C W username password invite s =
     (case validate_password (a_dict (cl_app s)) password of
        Some problem \<Rightarrow> throw (JsError problem) s
      | None \<Rightarrow>
          finally_idle
           (let i = cl_draws s; s = (busy ''generating_keys'' s)\<lparr>cl_draws := Suc i\<rparr> in
            then_ok (generate_keys C (aw_seed W i) (aw_priv W i), s) (\<lambda>k s.
            let salt = aw_salt W i; s = busy ''deriving_key'' s in
            then_ok (derive_keys C password salt DEFAULT_KDF, s) (\<lambda>(auth_key, enc_key) s.
            let bundle = new_key_bundle C (aw_nonce W i) enc_key k; s = busy ''registering'' s in
            then_ok (ask (QRegister \<lparr>rb_username = username, rb_salt = b64encode salt, rb_auth_key = b64encode auth_key,
                 rb_sign_pub = b64encode (sign_pub k), rb_enc_pub = b64encode (enc_pub k), rb_key_bundle = b64encode bundle,
                 rb_invite = js_trim invite, rb_device_name = device_name (aw_user_agent W)\<rparr>) (aw_session W) s) (\<lambda>sess s.
            ret () (establish sess k s))))))"

text \<open>A server that asks for a cheap derivation is refused before anything is derived.\<close>

definition check_login_kdf :: "dict \<Rightarrow> kdf_params \<Rightarrow> unit result" where
  "check_login_kdf dict kdf =
     (case check_kdf_params kdf of Inl e \<Rightarrow> Inl (JsError (translate dict ''weak_kdf'' [])) | Inr u \<Rightarrow> Inr u)"

definition unlock_bundle :: "crypto \<Rightarrow> dict \<Rightarrow> bytes \<Rightarrow> api_session \<Rightarrow> account_keys result" where
  "unlock_bundle C dict enc_key sess =
     (case try_bind (b64decode (as_key_bundle sess)) (\<lambda>bundle.
           try_bind (b64decode (as_sign_pub sess)) (\<lambda>spub.
           try_bind (b64decode (as_enc_pub sess)) (\<lambda>epub. open_key_bundle C enc_key bundle spub epub))) of
        Inl e \<Rightarrow> Inl (JsError (translate dict ''key_unlock_failed'' []))
      | Inr k \<Rightarrow> Inr k)"

definition login :: "crypto \<Rightarrow> auth_world \<Rightarrow> string \<Rightarrow> string \<Rightarrow> client \<Rightarrow> unit result \<times> client" where
  "login C W username password s =
     finally_idle
       (then_ok (ask (QParams username) (aw_params W) (busy ''fetching_params'' s)) (\<lambda>(salt, kdf) s.
        then_ok (check_login_kdf (a_dict (cl_app s)) kdf, s) (\<lambda>_ s.
        let s = busy ''deriving_key'' s in
        then_ok (try_bind (b64decode salt) (\<lambda>salt. derive_keys C password salt kdf), s) (\<lambda>(auth_key, enc_key) s.
        let s = busy ''signing_in'' s in
        then_ok (ask (QLogin username (b64encode auth_key) (device_name (aw_user_agent W))) (aw_session W) s) (\<lambda>sess s.
        then_ok (unlock_bundle C (a_dict (cl_app s)) enc_key sess, s) (\<lambda>k s.
        ret () (establish sess k s)))))))"

section \<open>Changing the password\<close>

text \<open>One attempt: a fresh challenge, signed together with everything that is uploaded.\<close>

definition change_attempt ::
  "crypto \<Rightarrow> auth_world \<Rightarrow> session_info \<Rightarrow> account_keys \<Rightarrow> bytes \<Rightarrow> bytes \<Rightarrow> bytes \<Rightarrow> bool \<Rightarrow> client \<Rightarrow> int result \<times> client" where
  "change_attempt C W si k salt auth_key bundle sign_out_others s =
     then_ok (ask QChallenge (aw_challenge W) s) (\<lambda>challenge s.
     then_ok (try_bind (b64decode challenge) (\<lambda>ch.
              try_bind (uuid_to_bytes (si_account_id si)) (\<lambda>acct.
              try_bind (uuid_to_bytes (si_device_id si)) (\<lambda>dev.
              sign_password_change C (sign_seed k) ch acct dev salt auth_key bundle sign_out_others))), s) (\<lambda>sig s.
     then_ok (ask (QChange \<lparr>pb_challenge = challenge, pb_sig = b64encode sig, pb_new_salt = b64encode salt,
          pb_new_auth_key = b64encode auth_key, pb_new_key_bundle = b64encode bundle,
          pb_sign_out_others = sign_out_others\<rparr>) (aw_change W) s) (\<lambda>res s.
     ret (case res of Some n \<Rightarrow> n | None \<Rightarrow> 0) s)))"

definition change_password :: "crypto \<Rightarrow> auth_world \<Rightarrow> string \<Rightarrow> bool \<Rightarrow> client \<Rightarrow> int result \<times> client" where
  "change_password C W new_password sign_out_others s =
     (case validate_password (a_dict (cl_app s)) new_password of
        Some problem \<Rightarrow> throw (JsError problem) s
      | None \<Rightarrow>
          (case (a_session (cl_app s), a_keys (cl_app s)) of
             (Some si, Some k) \<Rightarrow>
               let i = cl_draws s; s = (busy ''deriving_key'' s)\<lparr>cl_draws := Suc i\<rparr>; salt = aw_salt W i in
               finally_idle
                (then_ok (derive_keys C new_password salt DEFAULT_KDF, s) (\<lambda>(auth_key, enc_key) s.
                 let bundle = new_key_bundle C (aw_nonce W i) enc_key k in
                 then_ok (open_key_bundle C enc_key bundle (sign_pub k) (enc_pub k), s) (\<lambda>_ s.
                 let s = busy ''changing_password'' s in
                 attempt (change_attempt C W si k salt auth_key bundle sign_out_others s) (\<lambda>e s.
                   case e of
                     ApiErr n c m \<Rightarrow>
                       if c = ''challenge_expired'' then change_attempt C W si k salt auth_key bundle sign_out_others s
                       else throw e s
                   | _ \<Rightarrow> throw e s))))
           | _ \<Rightarrow> throw (JsError ''not signed in'') s))"

end
