(* ===== verification/WsFacts.thy ===== *)
theory WsFacts
  imports Ws
begin

text \<open>
  The WebSocket client over every run: never two live sockets, authentication always the first frame,
  and never stuck: until it is stopped there is either a watched socket or one pending reconnect.
\<close>

section \<open>The invariant\<close>

text \<open>The pending reconnects, by identity.\<close>

definition reconnects :: "ws \<Rightarrow> nat set" where
  "reconnects s = {j. \<exists>d. (j, TReconnect d) \<in> set (ws_timeouts s)}"

definition live :: "nat \<Rightarrow> ws \<Rightarrow> bool" where
  "live i s \<longleftrightarrow> ready i s = SConnecting \<or> ready i s = SOpen"

text \<open>Authentication comes first on every socket, and nothing is sent before it opened.\<close>

definition auth_first :: "socket \<Rightarrow> bool" where
  "auth_first so \<longleftrightarrow> (so_sent so \<noteq> [] \<longrightarrow> fst (hd (so_sent so)) = ''auth'')
     \<and> (so_state so = SConnecting \<longrightarrow> so_sent so = []) \<and> (so_state so = SOpen \<longrightarrow> so_sent so \<noteq> [])"

definition socks_ok :: "ws \<Rightarrow> bool" where
  "socks_ok s \<longleftrightarrow> (\<forall>j < length (ws_sockets s). auth_first (ws_sockets s ! j) \<and> (live j s \<longrightarrow> ws_socket s = Some j))
     \<and> (\<forall>i. ws_socket s = Some i \<longrightarrow> i < length (ws_sockets s))"

definition timers_ok :: "ws \<Rightarrow> bool" where
  "timers_ok s \<longleftrightarrow> distinct (map fst (ws_timeouts s)) \<and> (\<forall>t \<in> set (ws_timeouts s). fst t < ws_ids s)
     \<and> reconnects s \<subseteq> set_option (ws_timer s)
     \<and> (\<forall>j d. (j, TReconnect d) \<in> set (ws_timeouts s) \<longrightarrow> 700 \<le> d \<and> d \<le> 39000) \<and> ws_attempt s \<le> 6"

definition watch_ok :: "ws \<Rightarrow> bool" where
  "watch_ok s \<longleftrightarrow> ws_intervals s = (case ws_keepalive s of None \<Rightarrow> [] | Some k \<Rightarrow> [k])"

definition mode_ok :: "ws \<Rightarrow> bool" where
  "mode_ok s \<longleftrightarrow>
     (if ws_socket s \<noteq> None
      then \<not> ws_stopped s \<and> ws_keepalive s \<noteq> None \<and> reconnects s = {} \<and> ws_status s \<noteq> Offline
      else ws_keepalive s = None \<and> ws_status s = Offline \<and> (ws_stopped s \<longleftrightarrow> reconnects s = {}))"

definition ws_inv :: "ws \<Rightarrow> bool" where
  "ws_inv s \<longleftrightarrow> socks_ok s \<and> timers_ok s \<and> watch_ok s \<and> mode_ok s"

text \<open>What holds when the current socket was given up and nothing is scheduled yet.\<close>

definition ws_idle :: "ws \<Rightarrow> bool" where
  "ws_idle s \<longleftrightarrow> socks_ok s \<and> timers_ok s \<and> watch_ok s \<and> ws_socket s = None \<and> reconnects s = {}"

section \<open>Pieces\<close>

lemma stop_keepalive_idle: "watch_ok s \<Longrightarrow> watch_ok (stop_keepalive s) \<and> ws_keepalive (stop_keepalive s) = None"
  by (auto simp: watch_ok_def stop_keepalive_def split: option.splits)

lemma stop_keepalive_sel [simp]:
  "ws_status (stop_keepalive s) = ws_status s" "ws_socket (stop_keepalive s) = ws_socket s"
  "ws_sockets (stop_keepalive s) = ws_sockets s" "ws_stopped (stop_keepalive s) = ws_stopped s"
  "ws_timer (stop_keepalive s) = ws_timer s" "ws_timeouts (stop_keepalive s) = ws_timeouts s"
  "ws_attempt (stop_keepalive s) = ws_attempt s" "ws_ids (stop_keepalive s) = ws_ids s"
  "ws_token (stop_keepalive s) = ws_token s" "ws_handlers (stop_keepalive s) = ws_handlers s"
  "ws_now (stop_keepalive s) = ws_now s"
  by (simp_all add: stop_keepalive_def)

lemma clear_timer_sel [simp]:
  "ws_status (clear_timer s) = ws_status s" "ws_socket (clear_timer s) = ws_socket s"
  "ws_sockets (clear_timer s) = ws_sockets s" "ws_stopped (clear_timer s) = ws_stopped s"
  "ws_attempt (clear_timer s) = ws_attempt s" "ws_ids (clear_timer s) = ws_ids s"
  "ws_keepalive (clear_timer s) = ws_keepalive s" "ws_intervals (clear_timer s) = ws_intervals s"
  "ws_token (clear_timer s) = ws_token s" "ws_handlers (clear_timer s) = ws_handlers s"
  "ws_now (clear_timer s) = ws_now s"
  by (simp_all add: clear_timer_def)

lemma close_socket_sel [simp]:
  "ws_status (close_socket i s) = ws_status s" "ws_socket (close_socket i s) = ws_socket s"
  "ws_stopped (close_socket i s) = ws_stopped s" "ws_timer (close_socket i s) = ws_timer s"
  "ws_timeouts (close_socket i s) = ws_timeouts s" "ws_attempt (close_socket i s) = ws_attempt s"
  "ws_ids (close_socket i s) = ws_ids s" "ws_keepalive (close_socket i s) = ws_keepalive s"
  "ws_intervals (close_socket i s) = ws_intervals s" "length (ws_sockets (close_socket i s)) = length (ws_sockets s)"
  "ws_now (close_socket i s) = ws_now s"
  by (simp_all add: close_socket_def set_ready_def)

text \<open>The parts of the invariant that look at few fields only.\<close>

lemma reconnects_cong: "ws_timeouts t = ws_timeouts s \<Longrightarrow> reconnects t = reconnects s"
  by (simp add: reconnects_def)

lemma timers_cong:
  "ws_timeouts t = ws_timeouts s \<Longrightarrow> ws_ids t = ws_ids s \<Longrightarrow> ws_timer t = ws_timer s \<Longrightarrow> ws_attempt t = ws_attempt s
    \<Longrightarrow> timers_ok t = timers_ok s"
  by (simp add: timers_ok_def reconnects_def)

lemma socks_cong: "ws_sockets t = ws_sockets s \<Longrightarrow> ws_socket t = ws_socket s \<Longrightarrow> socks_ok t = socks_ok s"
  by (simp add: socks_ok_def live_def ready_def)

lemma watch_cong: "ws_intervals t = ws_intervals s \<Longrightarrow> ws_keepalive t = ws_keepalive s \<Longrightarrow> watch_ok t = watch_ok s"
  by (simp add: watch_ok_def)

lemma clear_timer_ok:
  assumes "timers_ok s"
  shows "timers_ok (clear_timer s)" and "reconnects (clear_timer s) = {}"
proof -
  show r: "reconnects (clear_timer s) = {}"
    using assms by (auto simp: timers_ok_def reconnects_def clear_timer_def split: option.splits)
  have "set (ws_timeouts (clear_timer s)) \<subseteq> set (ws_timeouts s)" "distinct (map fst (ws_timeouts (clear_timer s)))"
    using assms by (auto simp: clear_timer_def timers_ok_def distinct_map_filter split: option.splits)
  with assms r show "timers_ok (clear_timer s)" by (auto simp: timers_ok_def)
qed

text \<open>Giving up the current socket.\<close>

lemma socks_ok_drop:
  assumes "socks_ok s" and "ws_socket s = Some i"
  shows "socks_ok (close_socket i (s\<lparr>ws_socket := None\<rparr>))"
  using assms
  by (auto simp: socks_ok_def live_def ready_def close_socket_def set_ready_def nth_list_update auth_first_def)

lemma socks_ok_none: "socks_ok s \<Longrightarrow> ws_socket s = None \<Longrightarrow> j < length (ws_sockets s) \<Longrightarrow> \<not> live j s"
  by (auto simp: socks_ok_def)

section \<open>Operations\<close>

lemma open_ws_inv:
  assumes "ws_idle s" and "\<not> ws_stopped s"
  shows "ws_inv (open_ws s)" and "ws_socket (open_ws s) = Some (length (ws_sockets s))"
    and "ready (length (ws_sockets s)) (open_ws s) = SConnecting"
    and "ws_status (open_ws s) = Connecting" and "ws_stopped (open_ws s) = False"
proof -
  let ?a = "s\<lparr>ws_status := Connecting, ws_socket := Some (length (ws_sockets s)),
        ws_sockets := ws_sockets s @ [\<lparr>so_state = SConnecting, so_sent = []\<rparr>],
        ws_last_frame := ws_now s, ws_ping_sent := 0\<rparr>"
  have o: "open_ws s = start_keepalive (stop_keepalive ?a)" using assms(2) by (simp add: open_ws_def)
  have f: "ws_socket (open_ws s) = Some (length (ws_sockets s))"
    "ws_sockets (open_ws s) = ws_sockets s @ [\<lparr>so_state = SConnecting, so_sent = []\<rparr>]"
    "ws_timeouts (open_ws s) = ws_timeouts s" "ws_timer (open_ws s) = ws_timer s" "ws_ids (open_ws s) = Suc (ws_ids s)"
    "ws_attempt (open_ws s) = ws_attempt s" "ws_stopped (open_ws s) = ws_stopped s" "ws_status (open_ws s) = Connecting"
    "ws_keepalive (open_ws s) = Some (ws_ids s)"
    by (simp_all add: o start_keepalive_def)
  have "\<not> live j s" if "j < length (ws_sockets s)" for j
    using assms(1) that by (auto simp: ws_idle_def socks_ok_none)
  then have s: "socks_ok (open_ws s)"
    using assms(1) by (auto simp: socks_ok_def f ready_def nth_append ws_idle_def live_def auth_first_def less_Suc_eq)
  have r: "reconnects (open_ws s) = {}" using assms(1) by (simp add: f reconnects_def ws_idle_def)
  then have t: "timers_ok (open_ws s)" using assms(1) by (auto simp: timers_ok_def f ws_idle_def less_Suc_eq)
  have "watch_ok (stop_keepalive ?a) \<and> ws_keepalive (stop_keepalive ?a) = None"
    using assms(1) by (intro stop_keepalive_idle) (simp add: ws_idle_def watch_ok_def)
  then have w: "watch_ok (open_ws s)" unfolding o by (simp add: watch_ok_def start_keepalive_def)
  show "ws_inv (open_ws s)" using s t w r assms(2) by (simp add: ws_inv_def mode_ok_def f)
  show "ws_socket (open_ws s) = Some (length (ws_sockets s))" "ws_status (open_ws s) = Connecting"
    "ws_stopped (open_ws s) = False" "ready (length (ws_sockets s)) (open_ws s) = SConnecting"
    using assms(2) by (simp_all add: f ready_def nth_append)
qed

lemma stop_keepalive_socket: "stop_keepalive (s\<lparr>ws_socket := x\<rparr>) = (stop_keepalive s)\<lparr>ws_socket := x\<rparr>"
  by (cases "ws_keepalive s") (simp_all add: stop_keepalive_def)

lemma idle_none:
  assumes "ws_inv s" and "ws_socket s = None"
  shows "ws_idle ((clear_timer s)\<lparr>ws_attempt := 0\<rparr>)"
proof -
  let ?t = "(clear_timer s)\<lparr>ws_attempt := 0\<rparr>"
  have t: "timers_ok s" using assms by (simp add: ws_inv_def)
  have r: "reconnects ?t = {}" using clear_timer_ok(2) [OF t] reconnects_cong [of ?t "clear_timer s"] by simp
  have "timers_ok ?t" using clear_timer_ok(1) [OF t] r by (simp add: timers_ok_def)
  moreover have "socks_ok ?t" using assms socks_cong [of ?t s] by (simp add: ws_inv_def)
  moreover note r
  moreover have "watch_ok ?t" using assms watch_cong [of ?t s] by (simp add: ws_inv_def)
  ultimately show ?thesis using assms(2) by (simp add: ws_idle_def)
qed

text \<open>The state in which a socket is replaced or the client is closed.\<close>

definition dropped :: "nat \<Rightarrow> ws \<Rightarrow> ws" where
  "dropped i s = close_socket i (stop_keepalive (s\<lparr>ws_socket := None\<rparr>))"

lemma dropped_inv:
  assumes "ws_inv s" and "ws_socket s = Some i"
  shows "socks_ok (dropped i s)" and "timers_ok (dropped i s)" and "watch_ok (dropped i s)"
    and "ws_keepalive (dropped i s) = None" and "reconnects (dropped i s) = {}" and "ws_socket (dropped i s) = None"
proof -
  show "socks_ok (dropped i s)"
    using assms socks_ok_drop [of "stop_keepalive s" i] socks_cong [of "stop_keepalive s" s]
    by (simp add: ws_inv_def dropped_def stop_keepalive_socket)
  show "timers_ok (dropped i s)" using assms timers_cong [of "dropped i s" s] by (simp add: ws_inv_def dropped_def)
  show "watch_ok (dropped i s)" "ws_keepalive (dropped i s) = None"
    using assms stop_keepalive_idle [of "s\<lparr>ws_socket := None\<rparr>"] by (simp_all add: ws_inv_def dropped_def watch_ok_def)
  show "reconnects (dropped i s) = {}"
    using assms by (simp add: ws_inv_def mode_ok_def reconnects_def dropped_def)
  show "ws_socket (dropped i s) = None" by (simp add: dropped_def)
qed

lemma reopen_fresh:
  assumes "ws_inv s" and "ws_socket s = Some i"
  shows "ws_inv (reopen s)" and "ws_socket (reopen s) = Some (length (ws_sockets s))"
    and "ready (length (ws_sockets s)) (reopen s) = SConnecting" and "ws_status (reopen s) = Connecting"
proof -
  let ?t = "(clear_timer (dropped i s))\<lparr>ws_attempt := 0\<rparr>"
  have ns: "\<not> ws_stopped s" using assms by (simp add: ws_inv_def mode_ok_def)
  have o: "reopen s = open_ws ?t"
    using assms(2) ns by (simp add: reopen_def Let_def dropped_def)
  note d = dropped_inv [OF assms]
  have r: "reconnects ?t = {}" using clear_timer_ok(2) [OF d(2)] reconnects_cong [of ?t "clear_timer (dropped i s)"] by simp
  have "timers_ok ?t" using clear_timer_ok(1) [OF d(2)] r by (simp add: timers_ok_def)
  moreover have "socks_ok ?t" using d(1) socks_cong [of ?t "dropped i s"] by simp
  moreover have "watch_ok ?t" using d(3) watch_cong [of ?t "dropped i s"] by simp
  ultimately have idle: "ws_idle ?t" using r d(6) by (simp add: ws_idle_def)
  have l: "length (ws_sockets ?t) = length (ws_sockets s)" "\<not> ws_stopped ?t" using ns by (simp_all add: dropped_def)
  show "ws_inv (reopen s)" "ws_socket (reopen s) = Some (length (ws_sockets s))"
    "ready (length (ws_sockets s)) (reopen s) = SConnecting" "ws_status (reopen s) = Connecting"
    using open_ws_inv [OF idle l(2)] unfolding o l(1) by blast+
qed

lemma socks_ok_update:
  assumes "socks_ok s" and "i < length (ws_sockets s)" and "auth_first so"
    and "so_state so \<in> {SConnecting, SOpen} \<Longrightarrow> ws_socket s = Some i"
  shows "socks_ok (s\<lparr>ws_sockets := (ws_sockets s)[i := so]\<rparr>)"
proof -
  let ?t = "s\<lparr>ws_sockets := (ws_sockets s)[i := so]\<rparr>"
  have eqs: "ws_socket ?t = ws_socket s" "length (ws_sockets ?t) = length (ws_sockets s)" by simp_all
  have A: "auth_first (ws_sockets ?t ! j) \<and> (live j ?t \<longrightarrow> ws_socket s = Some j)" if "j < length (ws_sockets s)" for j
  proof (cases "j = i")
    case True
    then show ?thesis using assms by (auto simp: live_def ready_def)
  next
    case False
    then have "ws_sockets ?t ! j = ws_sockets s ! j" by simp
    then have "auth_first (ws_sockets ?t ! j) = auth_first (ws_sockets s ! j)" "live j ?t = live j s" "ws_socket ?t = ws_socket s"
      by (simp_all add: live_def ready_def)
    then show ?thesis using assms(1) that unfolding socks_ok_def by blast
  qed
  have "\<forall>i. ws_socket s = Some i \<longrightarrow> i < length (ws_sockets s)" using assms(1) unfolding socks_ok_def by blast
  then show ?thesis unfolding socks_ok_def eqs using A by blast
qed

lemma send_on_inv:
  assumes "ws_inv s" and "i < length (ws_sockets s)" and "ready i s = SOpen"
  shows "ws_inv (send_on i t d s)"
proof -
  let ?t = "send_on i t d s"
  have s: "socks_ok s" using assms(1) by (simp add: ws_inv_def)
  then have i: "auth_first (ws_sockets s ! i)" "ws_socket s = Some i"
    using assms(2,3) unfolding socks_ok_def live_def by blast+
  have "auth_first ((ws_sockets s ! i)\<lparr>so_sent := so_sent (ws_sockets s ! i) @ [(t, d)]\<rparr>)"
    using i(1) assms(3) by (simp add: auth_first_def ready_def hd_append)
  then have "socks_ok ?t" unfolding send_on_def by (intro socks_ok_update) (use s assms(2) i(2) in auto)
  moreover have "timers_ok ?t = timers_ok s" "watch_ok ?t = watch_ok s" "reconnects ?t = reconnects s"
    by (intro timers_cong watch_cong reconnects_cong; simp add: send_on_def)+
  ultimately show ?thesis using assms(1) by (simp add: ws_inv_def mode_ok_def send_on_def)
qed

lemma send_ws_inv: "ws_inv s \<Longrightarrow> ws_inv (snd (send_ws t d s))"
proof (cases "ws_socket s")
  case (Some i)
  assume "ws_inv s"
  moreover from this Some have "i < length (ws_sockets s)" by (simp add: ws_inv_def socks_ok_def)
  ultimately show ?thesis by (simp add: send_ws_def Some send_on_inv)
qed (simp add: send_ws_def)

lemma ws_inv_cong:
  assumes "ws_sockets t = ws_sockets s" "ws_socket t = ws_socket s" "ws_timeouts t = ws_timeouts s" "ws_ids s \<le> ws_ids t"
    "ws_timer t = ws_timer s" "ws_attempt t = ws_attempt s \<or> ws_attempt t = 0" "ws_intervals t = ws_intervals s"
    "ws_keepalive t = ws_keepalive s" "ws_stopped t = ws_stopped s"
    "ws_status t = ws_status s \<or> (ws_socket s \<noteq> None \<and> ws_status t = Online)" "ws_inv s"
  shows "ws_inv t"
proof -
  have r: "reconnects t = reconnects s" using assms(3) by (rule reconnects_cong)
  have "timers_ok s" using assms(11) by (simp add: ws_inv_def)
  then have "timers_ok t" using assms(3-6) r by (auto simp: timers_ok_def less_le_trans)
  moreover have "socks_ok t" "watch_ok t" using assms socks_cong [of t s] watch_cong [of t s] by (simp_all add: ws_inv_def)
  moreover have "mode_ok t" using assms r by (auto simp: ws_inv_def mode_ok_def)
  ultimately show ?thesis by (simp add: ws_inv_def)
qed

lemma set_timeout_poke_inv: "ws_inv s \<Longrightarrow> ws_inv (set_timeout (TPoke n) s)"
proof -
  assume i: "ws_inv s"
  let ?t = "set_timeout (TPoke n) s"
  have r: "reconnects ?t = reconnects s" by (auto simp: reconnects_def set_timeout_def)
  have "timers_ok ?t" using i r by (auto simp: ws_inv_def timers_ok_def set_timeout_def less_Suc_eq)
  moreover have "socks_ok ?t" "watch_ok ?t"
    using i socks_cong [of ?t s] watch_cong [of ?t s] by (simp_all add: ws_inv_def set_timeout_def)
  moreover have "mode_ok ?t" using i r by (simp add: ws_inv_def mode_ok_def set_timeout_def)
  ultimately show ?thesis by (simp add: ws_inv_def)
qed

lemma poke_inv:
  assumes "ws_inv s"
  shows "ws_inv (poke s)"
proof (cases "ws_stopped s")
  case False
  show ?thesis
  proof (cases "ws_socket s")
    case None
    then show ?thesis
      using False open_ws_inv(1) [OF idle_none [OF assms None]] by (simp add: poke_def)
  next
    case (Some i)
    have "ws_inv (s\<lparr>ws_ping_sent := ws_now s\<rparr>)" by (rule ws_inv_cong [of _ s]) (use assms in simp_all)
    then show ?thesis
      using False Some assms by (auto simp: poke_def intro: set_timeout_poke_inv send_ws_inv)
  qed
qed (use assms in \<open>simp add: poke_def\<close>)

lemma check_liveness_inv:
  assumes "ws_inv s"
  shows "ws_inv (check_liveness s)"
proof -
  have "ws_inv (s\<lparr>ws_ping_sent := ws_now s\<rparr>)" by (rule ws_inv_cong [of _ s]) (use assms in simp_all)
  then show ?thesis
    using assms reopen_fresh(1) [OF assms] by (auto simp: check_liveness_def Let_def send_ws_inv)
qed

lemma set_ready_socks:
  assumes "socks_ok s" and "i < length (ws_sockets s)" and "r \<in> {SClosing, SClosed}"
  shows "socks_ok (set_ready i r s)"
proof -
  have "auth_first (ws_sockets s ! i)" using assms(1,2) unfolding socks_ok_def by blast
  then have "auth_first ((ws_sockets s ! i)\<lparr>so_state := r\<rparr>)" using assms(3) by (auto simp: auth_first_def)
  then show ?thesis unfolding set_ready_def by (intro socks_ok_update) (use assms in auto)
qed

lemma set_ready_inv:
  assumes "ws_inv s" and "i < length (ws_sockets s)" and "r \<in> {SClosing, SClosed}"
  shows "ws_inv (set_ready i r s)"
proof -
  let ?t = "set_ready i r s"
  have "socks_ok ?t" using assms set_ready_socks by (simp add: ws_inv_def)
  moreover have "timers_ok ?t = timers_ok s" "watch_ok ?t = watch_ok s" "reconnects ?t = reconnects s"
    by (intro timers_cong watch_cong reconnects_cong; simp add: set_ready_def)+
  ultimately show ?thesis using assms(1) by (simp add: ws_inv_def mode_ok_def set_ready_def)
qed

lemma close_socket_inv: "ws_inv s \<Longrightarrow> i < length (ws_sockets s) \<Longrightarrow> ws_inv (close_socket i s)"
  by (simp add: close_socket_def set_ready_inv)

lemma on_open_inv:
  assumes "ws_inv s" and "i < length (ws_sockets s)" and "ready i s = SConnecting"
  shows "ws_inv (on_open i (set_ready i SOpen s))"
proof -
  let ?so = "(ws_sockets s ! i)\<lparr>so_state := SOpen, so_sent := so_sent (ws_sockets s ! i) @ [(''auth'', Some (ws_token s))]\<rparr>"
  let ?t = "s\<lparr>ws_sockets := (ws_sockets s)[i := ?so]\<rparr>"
  have t: "on_open i (set_ready i SOpen s) = ?t"
    using assms(2) by (simp add: on_open_def send_on_def set_ready_def)
  have s: "socks_ok s" using assms(1) by (simp add: ws_inv_def)
  have i: "auth_first (ws_sockets s ! i)" "ws_socket s = Some i"
    using s assms(2,3) unfolding socks_ok_def live_def by blast+
  then have "auth_first ?so" using assms(3) by (simp add: auth_first_def ready_def)
  then have "socks_ok ?t" by (intro socks_ok_update) (use s assms(2) i in auto)
  moreover have "timers_ok ?t = timers_ok s" "watch_ok ?t = watch_ok s" "reconnects ?t = reconnects s"
    by (intro timers_cong watch_cong reconnects_cong; simp)+
  ultimately show ?thesis using assms(1) unfolding t by (simp add: ws_inv_def mode_ok_def)
qed

lemma on_message_inv:
  assumes "ws_inv s" and "i < length (ws_sockets s)" and "ready i s = SOpen"
  shows "ws_inv (on_message f s)"
proof -
  have "ws_socket s = Some i" using assms unfolding ws_inv_def socks_ok_def live_def by blast
  then have "ws_sockets (on_message f s) = ws_sockets s \<and> ws_socket (on_message f s) = ws_socket s
     \<and> ws_timeouts (on_message f s) = ws_timeouts s \<and> ws_ids (on_message f s) = ws_ids s
     \<and> ws_timer (on_message f s) = ws_timer s \<and> (ws_attempt (on_message f s) = ws_attempt s \<or> ws_attempt (on_message f s) = 0)
     \<and> ws_intervals (on_message f s) = ws_intervals s \<and> ws_keepalive (on_message f s) = ws_keepalive s
     \<and> ws_stopped (on_message f s) = ws_stopped s
     \<and> (ws_status (on_message f s) = ws_status s \<or> (ws_socket s \<noteq> None \<and> ws_status (on_message f s) = Online))"
    by (cases f) (simp_all add: on_message_def dispatch_def Let_def)
  then show ?thesis using assms(1) by (intro ws_inv_cong [of "on_message f s" s]) simp_all
qed

lemma socks_ok_gone:
  assumes "socks_ok s" and "ws_socket s = Some i" and "ready i s \<notin> {SConnecting, SOpen}"
  shows "socks_ok (s\<lparr>ws_socket := None\<rparr>)"
proof -
  have "\<not> live j s" if "j < length (ws_sockets s)" for j
  proof
    assume l: "live j s"
    then have "ws_socket s = Some j" using assms(1) that unfolding socks_ok_def by blast
    with assms(2,3) l show False by (auto simp: live_def)
  qed
  moreover have "live j (s\<lparr>ws_socket := None\<rparr>) = live j s" for j by (simp add: live_def ready_def)
  moreover have "auth_first (ws_sockets s ! j)" if "j < length (ws_sockets s)" for j
    using assms(1) that unfolding socks_ok_def by blast
  ultimately show ?thesis by (simp add: socks_ok_def)
qed

lemma backoff_bounds:
  assumes "0 \<le> r" and "r < 1"
  shows "700 \<le> backoff n r" and "backoff n r \<le> 39000"
proof -
  have p: "(1000 :: real) \<le> 1000 * 2 ^ n" by simp
  have b: "0.7 \<le> 0.7 + r * 0.6" "0.7 + r * 0.6 \<le> 1.3" using assms by simp_all
  have "1000 * 0.7 \<le> min 30000 (1000 * 2 ^ n) * (0.7 + r * 0.6)"
    using p b by (intro mult_mono) simp_all
  moreover have "min 30000 (1000 * 2 ^ n) * (0.7 + r * 0.6) \<le> 30000 * 1.3"
    using p b by (intro mult_mono) simp_all
  ultimately show "700 \<le> backoff n r" and "backoff n r \<le> 39000" by (simp_all add: backoff_def)
qed

lemma on_close_inv:
  assumes s: "ws_inv s" and i: "ws_socket s = Some i" and r: "ready i s = SClosed" and "0 \<le> rand" and "rand < 1"
  shows "ws_inv (on_close i code reason rand s)"
    and "\<exists>j d. ws_timer (on_close i code reason rand s) = Some j
      \<and> (j, TReconnect d) \<in> set (ws_timeouts (on_close i code reason rand s))"
proof -
  let ?t = "on_close i code reason rand s"
  let ?a = "stop_keepalive (s\<lparr>ws_socket := None\<rparr>)"
  have ns: "\<not> ws_stopped s" using s i by (simp add: ws_inv_def mode_ok_def)
  have t: "ws_socket ?t = None" "ws_sockets ?t = ws_sockets s" "ws_status ?t = Offline" "ws_stopped ?t = False"
    "ws_timer ?t = Some (ws_ids s)" "ws_timeouts ?t = ws_timeouts s @ [(ws_ids s, TReconnect (backoff (ws_attempt s) rand))]"
    "ws_ids ?t = Suc (ws_ids s)" "ws_attempt ?t = min (ws_attempt s + 1) 6" "ws_keepalive ?t = None"
    "ws_intervals ?t = ws_intervals ?a"
    using i ns by (simp_all add: on_close_def Let_def dispatch_def set_timeout_def stop_keepalive_def)
  have "ready i s \<notin> {SConnecting, SOpen}" using r by simp
  then have "socks_ok (s\<lparr>ws_socket := None\<rparr>)" using s i unfolding ws_inv_def by (intro socks_ok_gone) blast+
  then have "socks_ok ?t" using socks_cong [of ?t "s\<lparr>ws_socket := None\<rparr>"] t by simp
  moreover have r0: "reconnects s = {}" using s i by (simp add: ws_inv_def mode_ok_def)
  then have r1: "reconnects ?t = {ws_ids s}" by (auto simp: reconnects_def t(6))
  moreover have "timers_ok ?t"
  proof -
    have "timers_ok s" using s by (simp add: ws_inv_def)
    then show ?thesis using r0 r1 backoff_bounds [OF assms(4,5)]
      by (auto simp: timers_ok_def t(5-8) less_Suc_eq reconnects_def)
  qed
  moreover have "watch_ok ?t"
    using s stop_keepalive_idle [of "s\<lparr>ws_socket := None\<rparr>"]
    by (simp add: ws_inv_def watch_ok_def t(9,10))
  ultimately show "ws_inv ?t" by (simp add: ws_inv_def mode_ok_def t)
  show "\<exists>j d. ws_timer ?t = Some j \<and> (j, TReconnect d) \<in> set (ws_timeouts ?t)"
    unfolding t(5,6) by auto
qed

lemma close_ws_inv:
  assumes "ws_inv s"
  shows "ws_inv (close_ws s)" and "ws_stopped (close_ws s)" and "ws_socket (close_ws s) = None"
    and "reconnects (close_ws s) = {}"
proof -
  let ?a = "clear_timer (s\<lparr>ws_stopped := True\<rparr>)"
  let ?t = "close_ws s"
  have f: "ws_timeouts ?t = ws_timeouts ?a" "ws_timer ?t = ws_timer ?a" "ws_ids ?t = ws_ids ?a" "ws_attempt ?t = ws_attempt ?a"
    "ws_stopped ?t" "ws_socket ?t = None" "ws_status ?t = Offline"
    "ws_intervals ?t = ws_intervals (stop_keepalive ?a)" "ws_keepalive ?t = ws_keepalive (stop_keepalive ?a)"
    by (simp_all add: close_ws_def Let_def split: option.splits)
  have "timers_ok (s\<lparr>ws_stopped := True\<rparr>)" using assms timers_cong [of "s\<lparr>ws_stopped := True\<rparr>" s] by (simp add: ws_inv_def)
  note c = clear_timer_ok [OF this]
  have r: "reconnects ?t = {}" using c(2) f(1) reconnects_cong by metis
  have "timers_ok ?t" using c(1) f timers_cong [of ?t ?a] by simp
  moreover have "watch_ok ?a" using assms watch_cong [of ?a s] by (simp add: ws_inv_def)
  then have "watch_ok (stop_keepalive ?a) \<and> ws_keepalive (stop_keepalive ?a) = None" by (rule stop_keepalive_idle)
  then have "watch_ok ?t" and k: "ws_keepalive ?t = None" using watch_cong f by metis+
  moreover have "socks_ok ?t"
  proof (cases "ws_socket s")
    case None
    then have "ws_sockets ?t = ws_sockets s" by (simp add: close_ws_def Let_def)
    then show ?thesis using assms socks_cong [of ?t s] f(6) None by (simp add: ws_inv_def)
  next
    case (Some i)
    then have "ws_sockets ?t = ws_sockets (close_socket i (s\<lparr>ws_socket := None\<rparr>))"
      by (simp add: close_ws_def Let_def close_socket_def set_ready_def ready_def)
    then show ?thesis
      using socks_ok_drop [of s i] assms Some socks_cong [of ?t "close_socket i (s\<lparr>ws_socket := None\<rparr>)"] f(6)
      by (simp add: ws_inv_def)
  qed
  ultimately show "ws_inv ?t" using r f by (simp add: ws_inv_def mode_ok_def)
  show "ws_stopped ?t" "ws_socket ?t = None" "reconnects ?t = {}" using f r by simp_all
qed

lemma on_ws_inv: "ws_inv s \<Longrightarrow> ws_inv (snd (on_ws t s))"
  by (rule ws_inv_cong [of _ s]) (simp_all add: on_ws_def)

lemma subscribe_inv: "ws_inv s \<Longrightarrow> ws_inv (subscribe ts s)"
proof (induction ts arbitrary: s)
  case (Cons t ts)
  obtain h u where u: "on_ws t s = (h, u)" by (cases "on_ws t s")
  with on_ws_inv [OF Cons.prems, of t] have "ws_inv u" by simp
  then have "ws_inv (u\<lparr>ws_subscribed := ws_subscribed u @ [(t, h)]\<rparr>)"
    by (rule_tac ws_inv_cong [of _ u]) simp_all
  with Cons.IH show ?case by (simp add: u)
qed simp

lemma subscribe_mode: "ws_socket (subscribe ts s) = ws_socket s \<and> ws_stopped (subscribe ts s) = ws_stopped s
    \<and> ws_timeouts (subscribe ts s) = ws_timeouts s"
  by (induction ts arbitrary: s) (simp_all add: on_ws_def Let_def)

lemma off_all_inv: "ws_inv s \<Longrightarrow> ws_inv (foldl (\<lambda>s (t, h). off_ws t h s) s l)"
proof (induction l arbitrary: s)
  case (Cons x l)
  obtain t h where x: "x = (t, h)" by (cases x)
  have "ws_inv (off_ws t h s)" by (rule ws_inv_cong [of _ s]) (use Cons.prems in \<open>simp_all add: off_ws_def\<close>)
  with Cons.IH show ?case by (simp add: x)
qed simp

lemma stop_sync_inv:
  assumes "ws_inv s"
  shows "ws_inv (stop_sync s)" and "ws_stopped (stop_sync s)" and "ws_socket (stop_sync s) = None"
    and "reconnects (stop_sync s) = {}"
proof -
  let ?a = "foldl (\<lambda>s (t, h). off_ws t h s) s (ws_subscribed s)"
  have "ws_inv (?a\<lparr>ws_subscribed := []\<rparr>)"
    by (rule ws_inv_cong [of _ ?a]) (use off_all_inv [OF assms] in simp_all)
  note c = close_ws_inv [OF this]
  show "ws_inv (stop_sync s)" unfolding stop_sync_def
    by (rule ws_inv_cong [of _ "close_ws (?a\<lparr>ws_subscribed := []\<rparr>)"]) (use c(1) in simp_all)
  show "ws_stopped (stop_sync s)" "ws_socket (stop_sync s) = None" "reconnects (stop_sync s) = {}"
    using c by (simp_all add: stop_sync_def reconnects_def)
qed

lemma connect_inv:
  assumes "ws_inv s" and "ws_stopped s"
  shows "ws_inv (connect token s)" and "ws_stopped (connect token s) = False"
    and "ws_socket (connect token s) = Some (length (ws_sockets s))"
proof -
  let ?t = "s\<lparr>ws_token := token, ws_stopped := False, ws_attempt := 0\<rparr>"
  have n: "ws_socket s = None" "reconnects s = {}" using assms by (auto simp: ws_inv_def mode_ok_def split: if_splits)
  have "timers_ok ?t" using assms(1) by (simp add: ws_inv_def timers_ok_def reconnects_def)
  moreover have "socks_ok ?t" "watch_ok ?t" using assms(1) socks_cong [of ?t s] watch_cong [of ?t s] by (simp_all add: ws_inv_def)
  ultimately have "ws_idle ?t" using n by (simp add: ws_idle_def reconnects_def)
  from open_ws_inv [OF this] show "ws_inv (connect token s)" "ws_stopped (connect token s) = False"
    "ws_socket (connect token s) = Some (length (ws_sockets s))" by (simp_all add: connect_def)
qed

lemma start_sync_inv:
  assumes "ws_inv s"
  shows "ws_inv (start_sync tok s)"
proof (cases tok)
  case (Some token)
  let ?l = "[''hello'', ''message'', ''signal'', ''event'']"
  have "ws_inv (subscribe ?l (stop_sync s))" using stop_sync_inv(1) [OF assms] by (rule subscribe_inv)
  moreover have "ws_stopped (subscribe ?l (stop_sync s))"
    using subscribe_mode [of ?l "stop_sync s"] stop_sync_inv(2) [OF assms] by blast
  ultimately have c: "ws_inv (connect token (subscribe ?l (stop_sync s)))" by (rule connect_inv)
  show ?thesis unfolding start_sync_def Some option.case
    by (rule ws_inv_cong [of _ "connect token (subscribe ?l (stop_sync s))"]) (use c in simp_all)
qed (use assms in \<open>simp add: start_sync_def\<close>)

lemma fired_reconnect:
  assumes "ws_inv s" and "(j, TReconnect d) \<in> set (ws_timeouts s)"
  shows "ws_idle (s\<lparr>ws_timeouts := filter (\<lambda>t. fst t \<noteq> j) (ws_timeouts s)\<rparr>)" and "\<not> ws_stopped s"
proof -
  let ?t = "s\<lparr>ws_timeouts := filter (\<lambda>t. fst t \<noteq> j) (ws_timeouts s)\<rparr>"
  have j: "j \<in> reconnects s" using assms(2) by (auto simp: reconnects_def)
  then have n: "ws_socket s = None" and "\<not> ws_stopped s"
    using assms(1) by (auto simp: ws_inv_def mode_ok_def split: if_splits)
  then show "\<not> ws_stopped s" by simp
  have "ws_timer s = Some j" using j assms(1) by (auto simp: ws_inv_def timers_ok_def)
  then have r: "reconnects ?t = {}" using assms(1) by (auto simp: ws_inv_def timers_ok_def reconnects_def)
  then have "timers_ok ?t" using assms(1) by (auto simp: ws_inv_def timers_ok_def distinct_map_filter)
  moreover have "socks_ok ?t" "watch_ok ?t" using assms(1) socks_cong [of ?t s] watch_cong [of ?t s] by (simp_all add: ws_inv_def)
  ultimately show "ws_idle ?t" using n r by (simp add: ws_idle_def)
qed

lemma fired_poke:
  assumes "ws_inv s" and "(j, TPoke n) \<in> set (ws_timeouts s)"
  shows "ws_inv (s\<lparr>ws_timeouts := filter (\<lambda>t. fst t \<noteq> j) (ws_timeouts s)\<rparr>)"
proof -
  let ?t = "s\<lparr>ws_timeouts := filter (\<lambda>t. fst t \<noteq> j) (ws_timeouts s)\<rparr>"
  have d: "distinct (map fst (ws_timeouts s))" using assms(1) by (simp add: ws_inv_def timers_ok_def)
  have "(j, TReconnect d) \<notin> set (ws_timeouts s)" for d
    using eq_key_imp_eq_value [OF d assms(2)] by blast
  then have r: "reconnects ?t = reconnects s" by (auto simp: reconnects_def)
  have "timers_ok ?t" using assms(1) r by (auto simp: ws_inv_def timers_ok_def distinct_map_filter)
  moreover have "socks_ok ?t" "watch_ok ?t" using assms(1) socks_cong [of ?t s] watch_cong [of ?t s] by (simp_all add: ws_inv_def)
  moreover have "mode_ok ?t" using assms(1) r by (simp add: ws_inv_def mode_ok_def)
  ultimately show ?thesis by (simp add: ws_inv_def)
qed

section \<open>Runs\<close>

lemma ws_inv_step: "ws_step s t \<Longrightarrow> ws_inv s \<Longrightarrow> ws_inv t"
proof (induction rule: ws_step.induct)
  case (closed i s rand code reason)
  let ?t = "set_ready i SClosed s"
  have t: "ws_inv ?t" "ready i ?t = SClosed"
    using closed set_ready_inv by (simp_all add: set_ready_def ready_def)
  show ?case
  proof (cases "ws_socket ?t = Some i")
    case True
    with t closed(3,4) show ?thesis by (intro on_close_inv(1))
  qed (use t in \<open>simp add: on_close_def\<close>)
next
  case (fired j k s)
  show ?case
  proof (cases k)
    case (TReconnect d)
    with fired fired_reconnect open_ws_inv(1) show ?thesis by (simp add: run_timeout_def)
  next
    case (TPoke n)
    with fired fired_poke have i: "ws_inv (s\<lparr>ws_timeouts := filter (\<lambda>t. fst t \<noteq> j) (ws_timeouts s)\<rparr>)" by blast
    with reopen_fresh(1) [OF i] show ?thesis by (auto simp: run_timeout_def TPoke)
  qed
next
  case (passing dt s)
  then show ?case by (rule_tac ws_inv_cong [of _ s]) simp_all
qed (simp_all only: start_sync_inv stop_sync_inv(1) on_ws_inv send_ws_inv poke_inv on_open_inv on_message_inv
      close_socket_inv check_liveness_inv)

lemma ws_inv_initial: "ws_inv new_ws_client"
  by (simp add: ws_inv_def new_ws_client_def socks_ok_def timers_ok_def reconnects_def watch_ok_def mode_ok_def)

lemma ws_inv_reachable: "ws_step\<^sup>*\<^sup>* new_ws_client s \<Longrightarrow> ws_inv s"
  by (induction rule: rtranclp_induct) (auto intro: ws_inv_step ws_inv_initial)

text \<open>C36: In every run of the WebSocket client at most one socket is alive, and it is the current one; on every
socket authentication was the first thing sent; a stopped client has no socket, no reconnect pending and
no keepalive running; and a back-off is never shorter than 0.7 or longer than 39 seconds.\<close>

theorem ws_single_socket:
  assumes "ws_step\<^sup>*\<^sup>* new_ws_client s"
  shows "(\<forall>j < length (ws_sockets s). ready j s \<in> {SConnecting, SOpen} \<longrightarrow> ws_socket s = Some j)
    \<and> (\<forall>so \<in> set (ws_sockets s). so_sent so \<noteq> [] \<longrightarrow> fst (hd (so_sent so)) = ''auth'')
    \<and> (ws_stopped s \<longrightarrow> ws_socket s = None \<and> reconnects s = {} \<and> ws_intervals s = [] \<and> ws_status s = Offline)
    \<and> (\<forall>j d. (j, TReconnect d) \<in> set (ws_timeouts s) \<longrightarrow> 700 \<le> d \<and> d \<le> 39000)"
proof -
  have inv: "socks_ok s" "timers_ok s" "watch_ok s" "mode_ok s" using ws_inv_reachable [OF assms] by (simp_all add: ws_inv_def)
  have "\<forall>j < length (ws_sockets s). ready j s \<in> {SConnecting, SOpen} \<longrightarrow> ws_socket s = Some j"
    using inv(1) unfolding socks_ok_def live_def by blast
  moreover have "\<forall>so \<in> set (ws_sockets s). auth_first so"
    using inv(1) unfolding socks_ok_def by (metis in_set_conv_nth)
  moreover have "ws_stopped s \<longrightarrow> ws_socket s = None \<and> reconnects s = {} \<and> ws_keepalive s = None \<and> ws_status s = Offline"
    using inv(4) by (auto simp: mode_ok_def split: if_splits)
  ultimately show ?thesis using inv(2,3) by (auto simp: auth_first_def timers_ok_def watch_ok_def)
qed

text \<open>C37: The client is never stuck: as long as it is not stopped, either a reconnect is pending, and when it fires
a fresh socket is being connected, or the current socket is watched by the keepalive, and if the socket
was silent for more than 35 seconds, the next tick replaces it by a fresh one.\<close>

theorem ws_recovers:
  assumes "ws_step\<^sup>*\<^sup>* new_ws_client s" and "\<not> ws_stopped s"
  shows "(\<exists>j d. (j, TReconnect d) \<in> set (ws_timeouts s)
        \<and> (let t = run_timeout (TReconnect d) (s\<lparr>ws_timeouts := filter (\<lambda>t. fst t \<noteq> j) (ws_timeouts s)\<rparr>)
           in ws_step s t \<and> ws_status t = Connecting \<and> ws_socket t = Some (length (ws_sockets s))
              \<and> ready (length (ws_sockets s)) t = SConnecting))
    \<or> (\<exists>j. j \<in> set (ws_intervals s) \<and> (ws_now s - ws_last_frame s > 35000 \<longrightarrow>
          (let t = check_liveness s
           in ws_step s t \<and> ws_status t = Connecting \<and> ws_socket t = Some (length (ws_sockets s))
              \<and> ready (length (ws_sockets s)) t = SConnecting)))"
proof (cases "ws_socket s")
  case None
  have inv: "ws_inv s" using ws_inv_reachable [OF assms(1)] .
  then have "reconnects s \<noteq> {}" using None assms(2) by (simp add: ws_inv_def mode_ok_def)
  then obtain j d where jd: "(j, TReconnect d) \<in> set (ws_timeouts s)" by (auto simp: reconnects_def)
  have ns: "\<not> ws_stopped (s\<lparr>ws_timeouts := filter (\<lambda>t. fst t \<noteq> j) (ws_timeouts s)\<rparr>)" using assms(2) by simp
  show ?thesis
    using open_ws_inv [OF fired_reconnect(1) [OF inv jd] ns] ws_step.fired [OF jd] jd
    by (intro disjI1 exI [of _ j] exI [of _ d]) (simp add: run_timeout_def)
next
  case (Some i)
  have inv: "ws_inv s" using ws_inv_reachable [OF assms(1)] .
  then obtain k where k: "ws_intervals s = [k]"
    using Some by (auto simp: ws_inv_def mode_ok_def watch_ok_def)
  have "check_liveness s = reopen s" if "ws_now s - ws_last_frame s > 35000"
    using that Some by (simp add: check_liveness_def DEAD_AFTER_MS_def Let_def)
  moreover have "ws_step s (check_liveness s)" using k by (intro ws_step.tick) simp
  ultimately show ?thesis
    using reopen_fresh [OF inv Some] k by (intro disjI2 exI [of _ k]) (auto simp: Let_def)
qed

section \<open>A run\<close>

lemma demo_started_run: "ws_step\<^sup>*\<^sup>* new_ws_client (start_sync (Some ''t'') new_ws_client)"
  by (rule r_into_rtranclp) (rule ws_step.start)

lemma ws_single_socket_witness:
  "ws_intervals (stop_sync (start_sync (Some ''t'') new_ws_client)) = []"
proof -
  let ?s = "start_sync (Some ''t'') new_ws_client"
  have "ws_step\<^sup>*\<^sup>* new_ws_client (stop_sync ?s)"
    using demo_started_run ws_step.stop by (rule rtranclp.rtrancl_into_rtrancl)
  from ws_single_socket [OF this] stop_sync_inv(2) [OF ws_inv_reachable [OF demo_started_run]]
  show ?thesis by blast
qed

lemma ws_recovers_witness:
  "let s = start_sync (Some ''t'') new_ws_client in
     (\<exists>j d. (j, TReconnect d) \<in> set (ws_timeouts s)) \<or> (\<exists>j. j \<in> set (ws_intervals s))"
proof -
  let ?s = "start_sync (Some ''t'') new_ws_client"
  have "ws_stopped (subscribe [''hello'', ''message'', ''signal'', ''event''] (stop_sync new_ws_client))"
    using subscribe_mode [of "[''hello'', ''message'', ''signal'', ''event'']" "stop_sync new_ws_client"]
      stop_sync_inv(2) [OF ws_inv_initial] by blast
  then have "\<not> ws_stopped ?s"
    unfolding start_sync_def option.case
    by (simp add: connect_inv(2) [OF subscribe_inv [OF stop_sync_inv(1) [OF ws_inv_initial]]] del: subscribe.simps)
  from ws_recovers [OF demo_started_run this] show ?thesis unfolding Let_def by blast
qed

end
