(* ===== verification/SessionFacts.thy ===== *)
theory SessionFacts
  imports Session WsFacts
begin

text \<open>
  What a login, a registration, a logout and a password change do whatever the server answers: what
  leaves the device, which keys are installed, what is kept and what is forgotten.
\<close>

section \<open>Pieces\<close>

lemma ask_fst [simp]: "fst (ask r f s) = f (cl_asked s @ [r])"
  by (simp add: ask_def Let_def)

lemma ask_snd [simp]: "snd (ask r f s) = s\<lparr>cl_asked := cl_asked s @ [r]\<rparr>"
  by (simp add: ask_def Let_def)

lemma then_ok_ask: "then_ok (ask r f s) g = (case f (cl_asked s @ [r]) of
    Inl e \<Rightarrow> (Inl e, s\<lparr>cl_asked := cl_asked s @ [r]\<rparr>) | Inr x \<Rightarrow> g x (s\<lparr>cl_asked := cl_asked s @ [r]\<rparr>))"
  by (cases "f (cl_asked s @ [r])") (simp_all add: then_ok_def)

lemma busy_sel [simp]:
  "cl_app (busy key s) = cl_app s" "cl_token (busy key s) = cl_token s" "cl_asked (busy key s) = cl_asked s"
  "cl_draws (busy key s) = cl_draws s" "cl_ws (busy key s) = cl_ws s" "cl_refreshes (busy key s) = cl_refreshes s"
  by (simp_all add: busy_def)

lemma finally_idle_sel [simp]:
  "fst (finally_idle p) = fst p" "cl_app (snd (finally_idle p)) = cl_app (snd p)"
  "cl_asked (snd (finally_idle p)) = cl_asked (snd p)" "cl_token (snd (finally_idle p)) = cl_token (snd p)"
  "cl_busy (snd (finally_idle p)) = None" "cl_ws (snd (finally_idle p)) = cl_ws (snd p)"
  by (simp_all add: finally_idle_def)

lemma establish_sel:
  "a_keys (cl_app (establish sess k s)) = Some k"
  "map_option si_account_id (a_session (cl_app (establish sess k s))) = Some (as_account_id sess)"
  "db_session (a_db (cl_app (establish sess k s))) = a_session (cl_app (establish sess k s))"
  "db_keys (a_db (cl_app (establish sess k s))) = Some (sign_seed k, enc_priv k)"
  "cl_token (establish sess k s) = Some (as_token sess)"
  "cl_asked (establish sess k s) = cl_asked s"
  by (simp_all add: establish_def Let_def on_app_def load_local_state_def start_client_sync_def)

section \<open>Logging in\<close>

lemma login_cases:
  assumes "login C W username password s = (r, t)"
  obtains e where "r = Inl e" and "cl_asked t = cl_asked s @ [QParams username]" and "cl_app t = cl_app s"
  | e salt kdf ak ek where "r = Inl e" and "derive_keys C password salt kdf = Inr (ak, ek)"
      and "cl_asked t = cl_asked s @ [QParams username, QLogin username (b64encode ak) (device_name (aw_user_agent W))]"
      and "cl_app t = cl_app s"
  | salt64 salt kdf ak ek sess k where "r = Inr ()" and "aw_params W (cl_asked s @ [QParams username]) = Inr (salt64, kdf)"
      and "b64decode salt64 = Inr salt" and "derive_keys C password salt kdf = Inr (ak, ek)"
      and "cl_asked t = cl_asked s @ [QParams username, QLogin username (b64encode ak) (device_name (aw_user_agent W))]"
      and "aw_session W (cl_asked t) = Inr sess" and "unlock_bundle C (a_dict (cl_app s)) ek sess = Inr k"
      and "a_keys (cl_app t) = Some k"
proof -
  let ?q = "cl_asked s @ [QParams username]"
  show thesis
  proof (cases "aw_params W ?q")
    case (Inl e)
    with assms that(1) show ?thesis by (auto simp: login_def then_ok_ask finally_idle_def)
  next
    case (Inr p)
    obtain salt64 kdf where p: "p = (salt64, kdf)" by (cases p)
    note P = Inr [unfolded p]
    show ?thesis
    proof (cases "\<exists>salt ak ek. check_login_kdf (a_dict (cl_app s)) kdf = Inr () \<and> b64decode salt64 = Inr salt
        \<and> derive_keys C password salt kdf = Inr (ak, ek)")
      case False
      consider (kdf) e where "check_login_kdf (a_dict (cl_app s)) kdf = Inl e"
        | (derive) e where "check_login_kdf (a_dict (cl_app s)) kdf = Inr ()"
            "try_bind (b64decode salt64) (\<lambda>salt. derive_keys C password salt kdf) = Inl e"
        using False by (cases "check_login_kdf (a_dict (cl_app s)) kdf"; cases "b64decode salt64";
            cases "derive_keys C password (projr (b64decode salt64)) kdf") auto
      then have "(\<exists>e. r = Inl e) \<and> cl_asked t = ?q \<and> cl_app t = cl_app s"
      proof cases
        case kdf
        with assms have "r = Inl e \<and> cl_asked t = ?q \<and> cl_app t = cl_app s"
          by (auto simp: login_def then_ok_ask P finally_idle_def Let_def)
        then show ?thesis by blast
      next
        case derive
        with assms show ?thesis by (auto simp: login_def then_ok_ask P finally_idle_def Let_def)
      qed
      with that(1) show ?thesis by blast
    next
      case True
      then obtain salt ak ek where k: "check_login_kdf (a_dict (cl_app s)) kdf = Inr ()" "b64decode salt64 = Inr salt"
        "derive_keys C password salt kdf = Inr (ak, ek)" by blast
      let ?l = "QLogin username (b64encode ak) (device_name (aw_user_agent W))"
      have a: "?q @ [?l] = cl_asked s @ [QParams username, ?l]" by simp
      show ?thesis
      proof (cases "aw_session W (cl_asked s @ [QParams username, ?l])")
        case (Inl e)
        with assms k have "r = Inl e" "cl_asked t = cl_asked s @ [QParams username, ?l]" "cl_app t = cl_app s"
          by (auto simp: login_def then_ok_ask P finally_idle_def Let_def)
        with that(2) P k show ?thesis by blast
      next
        case (Inr sess)
        show ?thesis
        proof (cases "unlock_bundle C (a_dict (cl_app s)) ek sess")
          case (Inl e)
          with assms k Inr have "r = Inl e" "cl_asked t = cl_asked s @ [QParams username, ?l]" "cl_app t = cl_app s"
            by (auto simp: login_def then_ok_ask P finally_idle_def Let_def)
          with that(2) P k show ?thesis by blast
        next
          case (Inr key)
          with assms k \<open>aw_session W _ = Inr sess\<close>
          have "r = Inr ()" "cl_asked t = cl_asked s @ [QParams username, ?l]" "a_keys (cl_app t) = Some key"
            by (auto simp: login_def then_ok_ask P finally_idle_def Let_def establish_sel)
          with that(3) P k Inr \<open>aw_session W _ = Inr sess\<close> show ?thesis by simp
        qed
      qed
    qed
  qed
qed

lemma unlock_bundle_Inr:
  assumes "unlock_bundle C dict ek sess = Inr k"
  shows "\<exists>bundle spub epub. b64decode (as_key_bundle sess) = Inr bundle \<and> b64decode (as_sign_pub sess) = Inr spub
    \<and> b64decode (as_enc_pub sess) = Inr epub \<and> open_key_bundle C ek bundle spub epub = Inr k"
  using assms by (auto simp: unlock_bundle_def try_bind_Inr_iff split: sum.splits)



section \<open>Registering\<close>

lemma register_Inr:
  assumes "register C W username password invite s = (Inr (), t)"
  obtains k ak ek sess b where "generate_keys C (aw_seed W (cl_draws s)) (aw_priv W (cl_draws s)) = Inr k"
    and "derive_keys C password (aw_salt W (cl_draws s)) DEFAULT_KDF = Inr (ak, ek)"
    and "b = \<lparr>rb_username = username, rb_salt = b64encode (aw_salt W (cl_draws s)), rb_auth_key = b64encode ak,
       rb_sign_pub = b64encode (sign_pub k), rb_enc_pub = b64encode (enc_pub k),
       rb_key_bundle = b64encode (new_key_bundle C (aw_nonce W (cl_draws s)) ek k),
       rb_invite = js_trim invite, rb_device_name = device_name (aw_user_agent W)\<rparr>"
    and "cl_asked t = cl_asked s @ [QRegister b]" and "a_keys (cl_app t) = Some k"
proof -
  let ?i = "cl_draws s"
  obtain k where k: "generate_keys C (aw_seed W ?i) (aw_priv W ?i) = Inr k"
    using assms by (cases "generate_keys C (aw_seed W ?i) (aw_priv W ?i)")
      (auto simp: register_def Let_def finally_idle_def throw_def split: option.splits)
  obtain ak ek where d: "derive_keys C password (aw_salt W ?i) DEFAULT_KDF = Inr (ak, ek)"
    using assms k by (cases "derive_keys C password (aw_salt W ?i) DEFAULT_KDF")
      (auto simp: register_def Let_def finally_idle_def throw_def split: option.splits)
  let ?b = "\<lparr>rb_username = username, rb_salt = b64encode (aw_salt W ?i), rb_auth_key = b64encode ak,
       rb_sign_pub = b64encode (sign_pub k), rb_enc_pub = b64encode (enc_pub k),
       rb_key_bundle = b64encode (new_key_bundle C (aw_nonce W ?i) ek k),
       rb_invite = js_trim invite, rb_device_name = device_name (aw_user_agent W)\<rparr>"
  obtain sess where "aw_session W (cl_asked s @ [QRegister ?b]) = Inr sess"
    using assms k d by (cases "aw_session W (cl_asked s @ [QRegister ?b])")
      (auto simp: register_def Let_def finally_idle_def throw_def then_ok_ask split: option.splits)
  with assms k d have "cl_asked t = cl_asked s @ [QRegister ?b]" "a_keys (cl_app t) = Some k"
    by (auto simp: register_def Let_def finally_idle_def throw_def then_ok_ask establish_sel split: option.splits)
  with that k d show thesis by blast
qed

text \<open>C31: What is registered can be signed in to: if registering succeeded and the server later hands out what it
was given (the salt, the protocol's derivation cost, the bundle and the public keys), then a login with
the same password succeeds and installs exactly the keys that were generated.\<close>

theorem register_then_login:
  assumes laws: "crypto_laws C" and "\<And>p salt t m par n out. lib_argon2id C p salt t m par n = Inr out \<Longrightarrow> length out = n"
    and nonce: "length (aw_nonce W (cl_draws s)) = 24"
    and reg: "register C W username password invite s = (Inr (), t)"
    and "last (cl_asked t) = QRegister b"
    and honest: "aw_params V (cl_asked u @ [QParams username]) = Inr (rb_salt b, DEFAULT_KDF)"
      "\<And>q. aw_session V q = Inr sess" "as_key_bundle sess = rb_key_bundle b"
      "as_sign_pub sess = rb_sign_pub b" "as_enc_pub sess = rb_enc_pub b"
  shows "fst (login C V username password u) = Inr ()
    \<and> a_keys (cl_app (snd (login C V username password u))) = a_keys (cl_app t)"
proof -
  from reg obtain k ak ek where k: "generate_keys C (aw_seed W (cl_draws s)) (aw_priv W (cl_draws s)) = Inr k"
    and d: "derive_keys C password (aw_salt W (cl_draws s)) DEFAULT_KDF = Inr (ak, ek)"
    and b: "b = \<lparr>rb_username = username, rb_salt = b64encode (aw_salt W (cl_draws s)), rb_auth_key = b64encode ak,
       rb_sign_pub = b64encode (sign_pub k), rb_enc_pub = b64encode (enc_pub k),
       rb_key_bundle = b64encode (new_key_bundle C (aw_nonce W (cl_draws s)) ek k),
       rb_invite = js_trim invite, rb_device_name = device_name (aw_user_agent W)\<rparr>"
    and t: "a_keys (cl_app t) = Some k"
    using assms(5) by (auto elim!: register_Inr)
  have wf: "keys_wf C k" using k keys_from_secrets_wf by (auto simp: generate_keys_def)
  obtain out where out: "argon2id_hash C password (aw_salt W (cl_draws s)) DEFAULT_KDF 64 = Inr out" "ek = take 32 (drop 32 out)"
    using derive_keys_Inr(5) [OF d] by blast
  then have ek: "length ek = 32" using assms(2) by (simp add: argon2id_hash_def)
  have "unlock_bundle C (a_dict (cl_app u)) ek sess = Inr k"
    using open_seal_key_bundle [OF laws ek nonce wf]
    by (simp add: unlock_bundle_def honest(3-5) b codec_simps new_key_bundle_def)
  moreover have "check_login_kdf (a_dict (cl_app u)) DEFAULT_KDF = Inr ()"
    by (simp add: check_login_kdf_def check_kdf_params_def)
  ultimately show ?thesis
    using honest(1) d t
    by (simp add: login_def then_ok_ask honest(2) b codec_simps Let_def establish_sel)
qed

section \<open>Logging out\<close>

text \<open>C32: A logout forgets everything, whether or not the server hears of it: no session, no keys, no token, no
contacts, conversations or messages remain in memory, the database is empty, and the socket is closed
with no reconnect to come.\<close>

theorem logout_forgets:
  assumes "logout W s = (r, t)" and "ws_step\<^sup>*\<^sup>* new_ws_client (cl_ws s)"
    and "aw_logout W (cl_asked s @ [QLogout]) \<noteq> Inl Diverged"
  shows "r = Inr () \<and> a_session (cl_app t) = None \<and> a_keys (cl_app t) = None \<and> cl_token t = None
    \<and> a_contacts (cl_app t) = [] \<and> a_conversations (cl_app t) = [] \<and> a_messages (cl_app t) = [] \<and> a_pending (cl_app t) = []
    \<and> a_db (cl_app t) = a_db initial_app
    \<and> ws_stopped (cl_ws t) \<and> ws_socket (cl_ws t) = None \<and> reconnects (cl_ws t) = {} \<and> ws_intervals (cl_ws t) = []"
proof -
  have inv: "ws_inv (cl_ws s)" by (rule ws_inv_reachable) (rule assms(2))
  note stop = stop_sync_inv [OF inv]
  have "ws_intervals (stop_sync (cl_ws s)) = []"
    using stop by (auto simp: ws_inv_def mode_ok_def watch_ok_def)
  moreover have "logout W s = (Inr (), s\<lparr>cl_ws := stop_sync (cl_ws s), cl_asked := cl_asked s @ [QLogout], cl_token := None,
      cl_app := on_db clear_all (reset_state ((cl_app s)\<lparr>a_keys := None\<rparr>))\<rparr>)"
    using assms(3) by (cases "aw_logout W (cl_asked s @ [QLogout])")
      (simp_all add: logout_def Let_def attempt_def ask_def on_app_def ret_def then_ok_def)
  then have "r = Inr ()" "cl_ws t = stop_sync (cl_ws s)" "cl_token t = None"
    "cl_app t = on_db clear_all (reset_state ((cl_app s)\<lparr>a_keys := None\<rparr>))"
    using assms(1) by auto
  ultimately show ?thesis using stop by (simp add: reset_state_def clear_all_def initial_app_def on_db_def)
qed

section \<open>Reloading the page\<close>

lemma load_local_state_sel:
  "a_contacts (load_local_state a) = foldl (\<lambda>m c. jset (ct_id c) c m) [] (all_contacts (a_db a))"
  "a_conversations (load_local_state a) = foldl (\<lambda>m c. jset (c_id c) c m) [] (all_conversations (a_db a))"
  "a_session (load_local_state a) = a_session a" "a_keys (load_local_state a) = a_keys a"
  "a_db (load_local_state a) = a_db a"
  by (simp_all add: load_local_state_def)

lemma restore_sel:
  assumes "db_session (a_db (cl_app s)) = Some si" and "db_keys (a_db (cl_app s)) = Some (seed, priv)"
    and "keys_from_secrets C seed priv = Inr k"
  shows "cl_app (restore_session C s) = load_local_state ((cl_app s)\<lparr>a_keys := Some k, a_session := Some si\<rparr>)"
    and "cl_token (restore_session C s) = Some (si_token si)"
  by (simp_all add: restore_session_def assms Let_def on_app_def start_client_sync_def)

lemma establish_app:
  "\<exists>a. cl_app (establish sess k s) = load_local_state a"
  "a_session (cl_app (establish sess k s)) = Some \<lparr>si_account_id = as_account_id sess, si_device_id = as_device_id sess,
     si_username = as_username sess, si_token = as_token sess, si_is_admin = (as_is_admin sess = Some True)\<rparr>"
  by (auto simp: establish_def Let_def on_app_def start_client_sync_def load_local_state_sel)

text \<open>A session survives a reload: after a registration or login was established, a fresh client over the same
database restores the same session, the same keys and the same access token.\<close>

theorem session_survives_reload:
  assumes "keys_wf C k" and "a_db (cl_app fresh) = a_db (cl_app (establish sess k s))"
  shows "let t = restore_session C fresh in
    a_session (cl_app t) = a_session (cl_app (establish sess k s)) \<and> a_keys (cl_app t) = Some k
    \<and> cl_token t = Some (as_token sess) \<and> a_contacts (cl_app t) = a_contacts (cl_app (establish sess k s))
    \<and> a_conversations (cl_app t) = a_conversations (cl_app (establish sess k s))"
proof -
  have "keys_from_secrets C (sign_seed k) (enc_priv k) = Inr k" using assms(1) by (simp add: keys_wf_def)
  moreover have "db_session (a_db (cl_app fresh)) = a_session (cl_app (establish sess k s))"
    "db_keys (a_db (cl_app fresh)) = Some (sign_seed k, enc_priv k)"
    by (simp_all add: assms(2) establish_sel)
  moreover obtain a where a: "cl_app (establish sess k s) = load_local_state a" using establish_app(1) by blast
  moreover note establish_app(2) [of sess k s]
  ultimately have r: "cl_app (restore_session C fresh) = load_local_state ((cl_app fresh)\<lparr>a_keys := Some k,
      a_session := a_session (cl_app (establish sess k s))\<rparr>)" "cl_token (restore_session C fresh) = Some (as_token sess)"
    using restore_sel [of fresh _ "sign_seed k" "enc_priv k" C k] by simp_all
  have "a_db a = a_db (cl_app fresh)" using assms(2) by (simp add: a load_local_state_sel)
  then show ?thesis unfolding Let_def r by (simp add: load_local_state_sel a)
qed

section \<open>Changing the password\<close>

text \<open>What one attempt asks: at most a challenge and one change, whose bundle and key are the given ones.\<close>

definition change_asks :: "bytes \<Rightarrow> bytes \<Rightarrow> auth_request list \<Rightarrow> bool" where
  "change_asks auth_key bdl qs \<longleftrightarrow> (\<forall>q \<in> set qs. q = QChallenge \<or>
     (\<exists>b. q = QChange b \<and> pb_new_auth_key b = b64encode auth_key \<and> pb_new_key_bundle b = b64encode bdl))"

lemma change_attempt_asks:
  "\<exists>qs. snd (change_attempt C W si k salt ak bdl out s) = s\<lparr>cl_asked := cl_asked s @ qs\<rparr>
     \<and> length qs \<le> 2 \<and> change_asks ak bdl qs"
proof (cases "aw_challenge W (cl_asked s @ [QChallenge])")
  case (Inl e)
  then show ?thesis
    by (intro exI [of _ "[QChallenge]"]) (simp add: change_attempt_def then_ok_ask change_asks_def)
next
  case (Inr c)
  let ?m = "try_bind (b64decode c) (\<lambda>ch. try_bind (uuid_to_bytes (si_account_id si)) (\<lambda>acct.
              try_bind (uuid_to_bytes (si_device_id si)) (\<lambda>dev.
              sign_password_change C (sign_seed k) ch acct dev salt ak bdl out)))"
  show ?thesis
  proof (cases ?m)
    case (Inl e)
    then show ?thesis
      by (intro exI [of _ "[QChallenge]"]) (simp add: change_attempt_def then_ok_ask Inr change_asks_def)
  next
    case S: (Inr sig)
    let ?b = "\<lparr>pb_challenge = c, pb_sig = b64encode sig, pb_new_salt = b64encode salt,
          pb_new_auth_key = b64encode ak, pb_new_key_bundle = b64encode bdl, pb_sign_out_others = out\<rparr>"
    show ?thesis
      by (cases "aw_change W (cl_asked s @ [QChallenge, QChange ?b])"; intro exI [of _ "[QChallenge, QChange ?b]"])
        (simp_all add: change_attempt_def then_ok_ask Inr S change_asks_def ret_def)
  qed
qed


section \<open>Examples\<close>

definition demo_auth :: "api_session \<Rightarrow> auth_world" where
  "demo_auth sess = \<lparr>aw_params = (\<lambda>q. Inr (b64encode (replicate 16 1), DEFAULT_KDF)), aw_session = (\<lambda>q. Inr sess),
     aw_logout = (\<lambda>q. Inl (JsError ''offline'')), aw_me = (\<lambda>q. Inl (JsError ''offline'')),
     aw_challenge = (\<lambda>q. Inr (b64encode (replicate 32 7))), aw_change = (\<lambda>q. Inr (Some 1)), aw_salt = (\<lambda>i. replicate 16 1),
     aw_seed = (\<lambda>i. replicate 32 2), aw_priv = (\<lambda>i. replicate 32 3), aw_nonce = (\<lambda>i. replicate 24 4), aw_user_agent = []\<rparr>"

definition demo_session :: "register_body \<Rightarrow> api_session" where
  "demo_session b = \<lparr>as_account_id = ''a'', as_device_id = ''d'', as_username = rb_username b, as_token = ''t'',
     as_is_admin = None, as_sign_pub = rb_sign_pub b, as_enc_pub = rb_enc_pub b, as_key_bundle = rb_key_bundle b\<rparr>"

definition new_client :: client where
  "new_client = \<lparr>cl_app = initial_app, cl_token = None, cl_busy = None, cl_booting = True, cl_ws = new_ws_client,
     cl_asked = [], cl_draws = 0, cl_refreshes = 0\<rparr>"

definition demo_sess :: api_session where
  "demo_sess = \<lparr>as_account_id = ''a'', as_device_id = ''d'', as_username = ''u'', as_token = ''t'',
     as_is_admin = None, as_sign_pub = [], as_enc_pub = [], as_key_bundle = []\<rparr>"

abbreviation demo_password :: string where "demo_password \<equiv> ''correct horse''"

lemma demo_derive: "\<exists>ak ek. derive_keys demo_crypto demo_password (replicate 16 1) DEFAULT_KDF = Inr (ak, ek)"
  by (simp add: derive_keys_def check_kdf_params_def DEFAULT_KDF_def argon2id_hash_def demo_crypto_def)

lemma demo_keys: "\<exists>k. generate_keys demo_crypto (replicate 32 2) (replicate 32 3) = Inr k"
  by (simp add: generate_keys_def keys_from_secrets_def)

lemma demo_registered:
  "\<exists>t. register demo_crypto (demo_auth sess) ''u'' demo_password [] new_client = (Inr (), t)"
proof -
  obtain ak ek where d: "derive_keys demo_crypto demo_password (replicate 16 1) DEFAULT_KDF = Inr (ak, ek)"
    using demo_derive by blast
  obtain k where k: "generate_keys demo_crypto (replicate 32 2) (replicate 32 3) = Inr k" using demo_keys by blast
  have "cl_draws new_client = 0" by (simp add: new_client_def)
  with d k show ?thesis
    by (simp add: register_def validate_password_def MIN_PASSWORD_LENGTH_def then_ok_ask finally_idle_def Let_def demo_auth_def ret_def)
qed

lemma register_then_login_witness:
  "\<exists>V k. fst (login demo_crypto V ''u'' demo_password new_client) = Inr ()
     \<and> a_keys (cl_app (snd (login demo_crypto V ''u'' demo_password new_client))) = Some k"
proof -
  obtain t where t: "register demo_crypto (demo_auth demo_sess) ''u'' demo_password [] new_client = (Inr (), t)"
    using demo_registered by blast
  then obtain k b where kb: "cl_asked t = cl_asked new_client @ [QRegister b]" "a_keys (cl_app t) = Some k"
    "rb_salt b = b64encode (replicate 16 1)"
    by (elim register_Inr) (auto simp: demo_auth_def)
  let ?V = "demo_auth (demo_session b)"
  have a: "length out = n" if "lib_argon2id demo_crypto p salt t m par n = Inr out" for p salt t m par n out
    using that by (auto simp: demo_crypto_def)
  have "fst (login demo_crypto ?V ''u'' demo_password new_client) = Inr ()
     \<and> a_keys (cl_app (snd (login demo_crypto ?V ''u'' demo_password new_client))) = a_keys (cl_app t)"
    by (rule register_then_login [OF demo_crypto_laws a _ t, where b = b and sess = "demo_session b"])
      (simp_all add: demo_auth_def demo_session_def kb new_client_def)
  with kb(2) show ?thesis by auto
qed


lemma logout_forgets_witness: "a_keys (cl_app (snd (logout (demo_auth demo_sess) new_client))) = None"
proof -
  obtain r t where l: "logout (demo_auth demo_sess) new_client = (r, t)" by (cases "logout (demo_auth demo_sess) new_client")
  have "ws_step\<^sup>*\<^sup>* new_ws_client (cl_ws new_client)" by (simp add: new_client_def)
  moreover have "aw_logout (demo_auth demo_sess) (cl_asked new_client @ [QLogout]) \<noteq> Inl Diverged" by (simp add: demo_auth_def)
  ultimately show ?thesis using logout_forgets [OF l] by (simp add: l)
qed

lemma session_survives_reload_witness:
  "\<exists>k. a_keys (cl_app (restore_session demo_crypto
      (new_client\<lparr>cl_app := initial_app\<lparr>a_db := a_db (cl_app (establish demo_sess k new_client))\<rparr>\<rparr>))) = Some k"
proof -
  obtain k where "generate_keys demo_crypto (replicate 32 2) (replicate 32 3) = Inr k" using demo_keys by blast
  then have wf: "keys_wf demo_crypto k" using keys_from_secrets_wf by (auto simp: generate_keys_def)
  show ?thesis
    using session_survives_reload [OF wf, of "new_client\<lparr>cl_app := initial_app\<lparr>a_db := a_db (cl_app (establish demo_sess k new_client))\<rparr>\<rparr>"
        demo_sess new_client]
    by (intro exI [of _ k]) (simp add: Let_def)
qed


end
