(* ===== verification/Attachments.thy ===== *)
theory Attachments
  imports Complex_Main MessagingFacts Files
begin

text \<open>
  \<open>web/src/state/attachments.ts\<close>: files are encrypted here, uploaded as opaque blobs and described, with
  their key, inside an end-to-end encrypted message. What the browser makes of an image (decoding it,
  drawing it on a canvas of a given size, encoding that) comes with the file; the scale is a real number.
\<close>

section \<open>Thumbnails\<close>

record web_file =
  wf_name :: string
  wf_type :: string
  wf_size :: int
  wf_bytes :: bytes
  wf_bitmap :: "(nat \<times> nat) option"
  wf_context :: bool
  wf_data_url :: "int \<Rightarrow> int \<Rightarrow> string"

definition MAX_THUMB_EDGE :: nat where "MAX_THUMB_EDGE = 320"
definition MAX_THUMB_B64 :: nat where "MAX_THUMB_B64 = 40000"

record thumbnail =
  tn_thumb :: "string option"
  tn_width :: nat
  tn_height :: nat

definition canvas_size :: "nat \<Rightarrow> nat \<Rightarrow> int \<times> int" where
  "canvas_size w h =
     (let scale = min 1 (real MAX_THUMB_EDGE / real (max w h))
      in (max 1 (round (real w * scale)), max 1 (round (real h * scale))))"

text \<open>\<open>dataUrl.slice(dataUrl.indexOf(',') + 1)\<close>: the whole text when there is no comma.\<close>

definition after_comma :: "string \<Rightarrow> string" where
  "after_comma s = (case dropWhile (\<lambda>c. c \<noteq> CHR '','') s of [] \<Rightarrow> s | _ # r \<Rightarrow> r)"

definition make_thumbnail :: "web_file \<Rightarrow> thumbnail option" where
  "make_thumbnail f =
     (if \<not> starts_with ''image/'' (wf_type f) then None
      else case wf_bitmap f of
        None \<Rightarrow> None
      | Some (w, h) \<Rightarrow>
          if \<not> wf_context f then Some \<lparr>tn_thumb = None, tn_width = w, tn_height = h\<rparr>
          else
            let (cw, ch) = canvas_size w h; thumb = after_comma (wf_data_url f cw ch)
            in Some \<lparr>tn_thumb = (if length thumb \<le> MAX_THUMB_B64 then Some thumb else None), tn_width = w, tn_height = h\<rparr>)"

section \<open>Sending\<close>

definition attachment_limit :: "app \<Rightarrow> int" where
  "attachment_limit s = (case a_settings s of Some x \<Rightarrow> ss_max_attachment_bytes x | None \<Rightarrow> 50 * 1024 * 1024)"

definition http_upload_blob :: "world \<Rightarrow> string \<Rightarrow> bytes \<Rightarrow> app \<Rightarrow> string result \<times> app" where
  "http_upload_blob W conv_id content s =
     (let s' = request (RUploadBlob conv_id content) s in (w_blob_id W (a_requests s'), s'))"

definition http_download_blob :: "world \<Rightarrow> string \<Rightarrow> app \<Rightarrow> bytes result \<times> app" where
  "http_download_blob W blob s = (let s' = request (RDownloadBlob blob) s in (w_blob W (a_requests s') blob, s'))"

definition base_payload :: "web_file \<Rightarrow> file_payload" where
  "base_payload f =
     (let meta = make_thumbnail f in
      \<lparr>fp_blob = [], fp_key = [], fp_nonce = [], fp_name = (if wf_name f = [] then ''file'' else wf_name f),
       fp_mime = Some (if wf_type f = [] then ''application/octet-stream'' else wf_type f), fp_size = wf_size f,
       fp_thumb = (case meta of None \<Rightarrow> None | Some m \<Rightarrow> tn_thumb m),
       fp_width = map_option (\<lambda>m. int (tn_width m)) meta, fp_height = map_option (\<lambda>m. int (tn_height m)) meta\<rparr>)"

text \<open>
  \<open>sendFile\<close>. The random draw of the temporary id also indexes the file's key and nonce. The file can
  always be read.
\<close>

definition send_file :: "world \<Rightarrow> string \<Rightarrow> web_file \<Rightarrow> app \<Rightarrow> unit result \<times> app" where
  "send_file W conv_id f s =
     (let limit = attachment_limit s in
      if limit \<le> 0 then throw (JsError (translate (a_dict s) ''attachments_disabled'' [])) s
      else if wf_size f > limit
      then throw (JsError (translate (a_dict s) ''file_too_large'' [(''mb'', string_of_int (limit div 1048576))])) s
      else
        let i = a_draws s; temp_id = w_uuid W i; base = base_payload f;
            s = s\<lparr>a_draws := Suc i, a_pending := a_pending s @ [\<lparr>pm_client_msg_id = temp_id, pm_conv_id = conv_id,
                  pm_payload = File base, pm_ts = a_now s, pm_failed = None, pm_uploading = True\<rparr>]\<rparr>;
            e = encrypt_file (w_crypto W) (w_key W i) (w_nonce W i) (wf_bytes f)
        in attempt
             (then_ok (http_upload_blob W conv_id (file_ciphertext e) s) (\<lambda>blob s.
              then_ok (send_payload W conv_id (File (base\<lparr>fp_blob := blob, fp_key := b64encode (file_key e),
                  fp_nonce := b64encode (file_nonce e)\<rparr>)) 0 True
                  (s\<lparr>a_pending := filter (\<lambda>p. pm_client_msg_id p \<noteq> temp_id) (a_pending s)\<rparr>)) (\<lambda>r. ret ())))
             (\<lambda>err s. throw err (s\<lparr>a_pending := map (\<lambda>p. if pm_client_msg_id p = temp_id
                then p\<lparr>pm_uploading := False, pm_failed := Some (err_message err)\<rparr> else p) (a_pending s)\<rparr>)))"

section \<open>Receiving\<close>

text \<open>
  The object URL of a file stands for its content and type. The cache keeps what a blob was resolved
  to; a failed download is not kept.
\<close>

type_synonym url_cache = "(bytes \<times> string) jmap"

definition resolve_file :: "world \<Rightarrow> file_payload \<Rightarrow> app \<Rightarrow> (bytes \<times> string) result \<times> app" where
  "resolve_file W p s =
     then_ok (http_download_blob W (fp_blob p) s) (\<lambda>content s.
       (try_bind (b64decode (fp_key p)) (\<lambda>key.
        try_bind (b64decode (fp_nonce p)) (\<lambda>nonce.
        try_bind (decrypt_file (w_crypto W) key nonce content) (\<lambda>plain.
        Inr (plain, case fp_mime p of Some m \<Rightarrow> if m = [] then ''application/octet-stream'' else m
                    | None \<Rightarrow> ''application/octet-stream'')))), s))"

definition file_url :: "world \<Rightarrow> file_payload \<Rightarrow> url_cache \<Rightarrow> app \<Rightarrow> ((bytes \<times> string) result \<times> app) \<times> url_cache" where
  "file_url W p cache s =
     (case jget cache (fp_blob p) of
        Some u \<Rightarrow> (ret u s, cache)
      | None \<Rightarrow> let r = resolve_file W p s
          in (r, case fst r of Inl e \<Rightarrow> cache | Inr u \<Rightarrow> jset (fp_blob p) u cache))"

section \<open>Sizes\<close>

text \<open>\<open>(n / unit).toFixed(d)\<close> for a power of two: the exact quotient, rounded half up.\<close>

definition to_fixed :: "int \<Rightarrow> int \<Rightarrow> nat \<Rightarrow> string" where
  "to_fixed n divisor d =
     (let k = (2 * n * 10 ^ d + divisor) div (2 * divisor); frac = string_of_int (k mod 10 ^ d)
      in string_of_int (k div 10 ^ d) @ ''.'' @ replicate (d - length frac) CHR ''0'' @ frac)"

definition format_size :: "int \<Rightarrow> string" where
  "format_size n =
     (if n < 1024 then string_of_int n @ '' B''
      else if n < 1048576 then to_fixed n 1024 1 @ '' KB''
      else if n < 1073741824 then to_fixed n 1048576 1 @ '' MB''
      else to_fixed n 1073741824 2 @ '' GB'')"

section \<open>Facts\<close>

lemma thumbnail_bound: "make_thumbnail f = Some m \<Longrightarrow> tn_thumb m = Some t \<Longrightarrow> length t \<le> 40000"
  by (auto simp: make_thumbnail_def MAX_THUMB_B64_def Let_def split: if_splits option.splits prod.splits)

lemma canvas_bound:
  assumes "0 < w" and "0 < h" and "canvas_size w h = (cw, ch)"
  shows "1 \<le> cw \<and> cw \<le> 320 \<and> 1 \<le> ch \<and> ch \<le> 320"
proof -
  have "round (real x * min 1 (320 / real (max w h))) \<le> 320" if "x = w \<or> x = h" for x
  proof -
    have m: "0 < real (max w h)" "real x \<le> real (max w h)" using assms(1) that by auto
    then have "real x * min 1 (320 / real (max w h)) \<le> real x * (320 / real (max w h))" by (intro mult_left_mono) auto
    also have "\<dots> \<le> 320" using m by (simp add: divide_simps)
    finally have "round (real x * min 1 (320 / real (max w h))) \<le> round (320 :: real)" by (rule round_mono)
    then show ?thesis by simp
  qed
  with assms(3) show ?thesis by (auto simp: canvas_size_def MAX_THUMB_EDGE_def Let_def)
qed


lemma then_ok_InrD: "then_ok p f = (Inr y, t) \<Longrightarrow> \<exists>x u. p = (Inr x, u) \<and> f x u = (Inr y, t)"
  by (cases p; cases "fst p") (auto simp: then_ok_def)

lemma attempt_throw_Inr:
  assumes "attempt p (\<lambda>e s. throw e (f e s)) = (Inr y, t)"
  shows "p = (Inr y, t)"
  using assms by (cases p; cases "fst p") (auto simp: attempt_def throw_def split: if_splits)

text \<open>C38: An attachment arrives as it was sent: if sending a file succeeds, the request before it uploaded a
ciphertext, the sealed message describes the file, and whoever reads that message and gets the ciphertext
back from the server under the announced blob id obtains exactly the bytes of the file, with its type.\<close>

theorem attachment_roundtrip:
  assumes "crypto_laws (w_crypto W)" and "length (w_key W (a_draws s)) = 32" and "length (w_nonce W (a_draws s)) = 24"
    and "send_file W conv_id f s = (Inr (), t)"
  shows "\<exists>fp ct u r. RUploadBlob conv_id ct \<in> set (a_requests u) \<and> send_payload W conv_id (File fp) 0 True u = (Inr r, t)
    \<and> (\<forall>V v cache. w_crypto V = w_crypto W \<and> jget cache (fp_blob fp) = None
         \<and> w_blob V (a_requests v @ [RDownloadBlob (fp_blob fp)]) (fp_blob fp) = Inr ct \<longrightarrow>
           fst (fst (file_url V fp cache v))
             = Inr (wf_bytes f, if wf_type f = [] then ''application/octet-stream'' else wf_type f))"
proof -
  let ?i = "a_draws s"
  let ?e = "encrypt_file (w_crypto W) (w_key W ?i) (w_nonce W ?i) (wf_bytes f)"
  let ?ct = "file_ciphertext ?e"
  let ?s = "s\<lparr>a_draws := Suc ?i, a_pending := a_pending s @ [\<lparr>pm_client_msg_id = w_uuid W ?i, pm_conv_id = conv_id,
                  pm_payload = File (base_payload f), pm_ts = a_now s, pm_failed = None, pm_uploading = True\<rparr>]\<rparr>"
  let ?fp = "\<lambda>blob. (base_payload f)\<lparr>fp_blob := blob, fp_key := b64encode (file_key ?e), fp_nonce := b64encode (file_nonce ?e)\<rparr>"
  let ?drop = "\<lambda>s. s\<lparr>a_pending := filter (\<lambda>p. pm_client_msg_id p \<noteq> w_uuid W ?i) (a_pending s)\<rparr>"
  have "0 < attachment_limit s" "wf_size f \<le> attachment_limit s"
    using assms(4) by (auto simp: send_file_def Let_def throw_def split: if_splits)
  then have "then_ok (http_upload_blob W conv_id ?ct ?s) (\<lambda>blob s.
        then_ok (send_payload W conv_id (File (?fp blob)) 0 True (?drop s)) (\<lambda>r. ret ())) = (Inr (), t)"
    using assms(4) unfolding send_file_def Let_def
    by (simp only: if_not_P not_le not_less) (drule attempt_throw_Inr, assumption)
  from then_ok_InrD [OF this] obtain blob v where up: "http_upload_blob W conv_id ?ct ?s = (Inr blob, v)"
    and rest: "then_ok (send_payload W conv_id (File (?fp blob)) 0 True (?drop v)) (\<lambda>r. ret ()) = (Inr (), t)"
    by blast
  from then_ok_InrD [OF rest] obtain r where sent: "send_payload W conv_id (File (?fp blob)) 0 True (?drop v) = (Inr r, t)"
    by (auto simp: ret_def)
  have req: "RUploadBlob conv_id ?ct \<in> set (a_requests (?drop v))"
    using up by (auto simp: http_upload_blob_def Let_def)
  have "fst (fst (file_url V (?fp blob) cache v)) = Inr (wf_bytes f, if wf_type f = [] then ''application/octet-stream'' else wf_type f)"
    if "w_crypto V = w_crypto W" "jget cache blob = None" "w_blob V (a_requests v @ [RDownloadBlob blob]) blob = Inr ?ct" for V v cache
  proof -
    have "decrypt_file (w_crypto W) (file_key ?e) (file_nonce ?e) ?ct = Inr (wf_bytes f)"
      using blob.unwrap_wrap [OF assms(1-3)] by (simp add: encrypt_file_def)
    with that show ?thesis
      by (simp add: file_url_def resolve_file_def http_download_blob_def Let_def codec_simps base_payload_def)
  qed
  then show ?thesis using req sent by (intro exI [of _ "?fp blob"] exI [of _ ?ct] exI [of _ "?drop v"] exI [of _ r]) simp
qed

end
