(* ===== verification/MoreExamples.thy ===== *)
theory MoreExamples
  imports Examples Attachments
begin

text \<open>
  Closed instances for the theorems on attachments, in the world of \<open>Examples\<close>.
\<close>

lemma she_sends_from:
  assumes "a_session s = a_session her_app" and "a_keys s = a_keys her_app" and "a_conversations s = a_conversations her_app"
    and "a_contacts s = a_contacts her_app" and "a_now s = a_now her_app"
  shows "\<exists>res t. send_payload (the_world q) chat p 0 True s = (Inr res, t)"
proof -
  let ?W = "the_world q" and ?r = "\<lparr>r_key = replicate 32 1, r_nonce = replicate 24 2,
    r_ephemeral = [replicate 32 3, replicate 32 3]\<rparr> :: randomness"
  let ?rs = "[\<lparr>rc_account = alice, rc_enc_pub = enc_pub (keys_of 5)\<rparr>, \<lparr>rc_account = bob, rc_enc_pub = enc_pub (keys_of 6)\<rparr>]"
  let ?h = "\<lparr>h_flags = 0, h_conv = chat, h_sender = alice, h_device = phone, h_msg_id = ticket, h_ts = 1000000\<rparr>"
  have c: "conv_of s chat = Some the_chat" "contact_of s alice = Some (contact_for alice 5)"
    "contact_of s bob = Some (contact_for bob 6)" using assms her_app_sel by simp_all
  have m: "sealing_members s the_chat alice = [alice, bob]"
    by (simp add: sealing_members_def the_chat_def is_bot_def c contact_for_def names_distinct)
  have r: "recipients_for s the_chat alice = Inr ?rs" by (simp add: recipients_for_def m c contact_for_def)
  have "\<exists>env sig. encrypt_with demo_crypto (sign_seed (keys_of 5)) ?h ?rs [9] ?r = Inr (env, sig)"
    by (rule encrypt_with_total [OF demo_crypto_laws])
      (auto simp: header_ids_ok_def names_are_uuids addressable_def keys_of_def
        intro: exI [of _ "replicate 32 5"] exI [of _ "replicate 32 6"])
  then obtain env sig where "encrypt_with demo_crypto (sign_seed (keys_of 5)) ?h ?rs [9] ?r = Inr (env, sig)" by blast
  then have "seal_payload ?W (session_for alice) (keys_of 5) chat p 0 ?rs s = Inr (env, sig)"
    by (simp add: seal_payload_def encrypt_def the_world_def session_for_def assms her_app_sel upt_rec)
  then show ?thesis
    by (simp add: send_payload_def assms her_app_sel c(1) [unfolded assms] r session_for_def http_send_def the_world_def Let_def)
qed

definition a_file :: web_file where
  "a_file = \<lparr>wf_name = ''a.txt'', wf_type = ''text/plain'', wf_size = 2, wf_bytes = [7, 8], wf_bitmap = None,
     wf_context = False, wf_data_url = (\<lambda>_ _. [])\<rparr>"

lemma she_sends_a_file: "\<exists>t. send_file (the_world q) chat a_file her_app = (Inr (), t)"
proof -
  have l: "attachment_limit her_app = 52428800" by (simp add: attachment_limit_def her_app_sel)
  let ?s = "her_app\<lparr>a_draws := Suc (a_draws her_app), a_pending := a_pending her_app @ [\<lparr>pm_client_msg_id = ticket, pm_conv_id = chat,
                  pm_payload = File (base_payload a_file), pm_ts = a_now her_app, pm_failed = None, pm_uploading = True\<rparr>]\<rparr>"
  let ?e = "encrypt_file demo_crypto (replicate 32 1) (replicate 24 2) (wf_bytes a_file)"
  let ?u = "request (RUploadBlob chat (file_ciphertext ?e)) ?s"
  let ?v = "?u\<lparr>a_pending := filter (\<lambda>p. pm_client_msg_id p \<noteq> ticket) (a_pending ?u)\<rparr>"
  have up: "http_upload_blob (the_world q) chat (file_ciphertext ?e) ?s = (Inr ticket, ?u)"
    by (simp add: http_upload_blob_def Let_def the_world_def)
  let ?p = "File ((base_payload a_file)\<lparr>fp_blob := ticket, fp_key := b64encode (file_key ?e), fp_nonce := b64encode (file_nonce ?e)\<rparr>)"
  obtain r t where "send_payload (the_world q) chat ?p 0 True ?v = (Inr r, t)"
    using she_sends_from [of ?v q ?p] by auto
  moreover have "w_uuid (the_world q) i = ticket" "w_key (the_world q) i = replicate 32 1"
    "w_nonce (the_world q) i = replicate 24 2" "w_crypto (the_world q) = demo_crypto" for i by (simp_all add: the_world_def)
  moreover have "wf_size a_file = 2" by (simp add: a_file_def)
  ultimately show ?thesis using up by (simp add: send_file_def l Let_def ret_def)
qed

lemma attachment_roundtrip_witness:
  "\<exists>fp u r t. send_payload (the_world Untyped) chat (File fp) 0 True u = (Inr r, t)"
proof -
  obtain t where t: "send_file (the_world Untyped) chat a_file her_app = (Inr (), t)" using she_sends_a_file by blast
  have w: "crypto_laws (w_crypto (the_world Untyped))" "length (w_key (the_world Untyped) (a_draws her_app)) = 32"
    "length (w_nonce (the_world Untyped) (a_draws her_app)) = 24" by (simp_all add: the_world_def demo_crypto_laws)
  show ?thesis using attachment_roundtrip [OF w t] by blast
qed

end
