(* ===== verification/Media.thy ===== *)
theory Media
  imports Messaging
begin

text \<open>
  What \<open>state/calls.ts\<close> and \<open>state/voice.ts\<close> use of the browser's media interface: captured tracks that
  are live until they are stopped, media streams, and peer connections with their transceivers. The
  browser decides what its promises resolve to; that is the input of the steps that resume a task.
  Operations on a closed peer connection throw.
\<close>

section \<open>Objects\<close>

record media_stream =
  ms_id :: nat
  ms_audio :: "nat list"
  ms_video :: "nat list"

definition ms_tracks :: "media_stream \<Rightarrow> nat list" where
  "ms_tracks st = ms_audio st @ ms_video st"

record transceiver =
  tr_video :: bool
  tr_sendrecv :: bool
  tr_track :: "nat option"
  tr_streams :: "nat list"

text \<open>
  A peer connection with what its event handlers captured when they were set: the conversation, the call
  with the stream that collects remote audio, or the remote session.
\<close>

datatype owner = ForCall string string nat | ForSession string string

record ice_server =
  is_urls :: "string list"
  is_username :: "string option"
  is_credential :: "string option"

record peer =
  pe_owner :: owner
  pe_servers :: "ice_server list"
  pe_closed :: bool
  pe_local :: "string option"
  pe_remote :: "string option"
  pe_transceivers :: "transceiver list"
  pe_ice :: "ice list"

record media =
  md_live :: "nat list"
  md_muted :: "nat list"
  md_streams :: "(nat \<times> nat list) list"
  md_peers :: "peer list"
  md_next :: nat

text \<open>What a promise of the browser comes to.\<close>

datatype outcome =
    Resolved
  | Rejected
  | NotAllowed
  | GotTurn "ice_server list result"
  | GotStream "nat list" "nat list"
  | GotSdp "string option"
  | GotRemote "transceiver list"

section \<open>Operations\<close>

definition stop_tracks :: "nat list \<Rightarrow> media \<Rightarrow> media" where
  "stop_tracks ts m = m\<lparr>md_live := filter (\<lambda>t. t \<notin> set ts) (md_live m)\<rparr>"

definition enable_tracks :: "bool \<Rightarrow> nat list \<Rightarrow> media \<Rightarrow> media" where
  "enable_tracks on ts m = m\<lparr>md_muted := (if on then filter (\<lambda>t. t \<notin> set ts) (md_muted m) else md_muted m @ ts)\<rparr>"

definition new_stream :: "nat list \<Rightarrow> media \<Rightarrow> nat \<times> media" where
  "new_stream ts m = (md_next m, m\<lparr>md_streams := md_streams m @ [(md_next m, ts)], md_next := Suc (md_next m)\<rparr>)"

text \<open>Capture was granted: the tracks are live.\<close>

definition capture :: "nat list \<Rightarrow> nat list \<Rightarrow> media \<Rightarrow> media_stream \<times> media" where
  "capture audio video m =
     (\<lparr>ms_id = md_next m, ms_audio = audio, ms_video = video\<rparr>,
      m\<lparr>md_live := md_live m @ audio @ video, md_streams := md_streams m @ [(md_next m, audio @ video)],
        md_next := Suc (md_next m)\<rparr>)"

definition add_to_stream :: "nat \<Rightarrow> nat \<Rightarrow> media \<Rightarrow> media" where
  "add_to_stream st t m = m\<lparr>md_streams := map (\<lambda>(i, ts). if i = st \<and> t \<notin> set ts then (i, ts @ [t]) else (i, ts)) (md_streams m)\<rparr>"

definition on_peer :: "nat \<Rightarrow> (peer \<Rightarrow> peer) \<Rightarrow> media \<Rightarrow> media" where
  "on_peer p f m = m\<lparr>md_peers := (md_peers m)[p := f (md_peers m ! p)]\<rparr>"

definition new_peer :: "owner \<Rightarrow> ice_server list \<Rightarrow> media \<Rightarrow> nat \<times> media" where
  "new_peer ow servers m = (length (md_peers m), m\<lparr>md_peers := md_peers m @
     [\<lparr>pe_owner = ow, pe_servers = servers, pe_closed = False, pe_local = None, pe_remote = None,
       pe_transceivers = [], pe_ice = []\<rparr>]\<rparr>)"

definition close_peer_connection :: "nat \<Rightarrow> media \<Rightarrow> media" where
  "close_peer_connection p m = on_peer p (\<lambda>x. x\<lparr>pe_closed := True\<rparr>) m"

definition peer_closed :: "nat \<Rightarrow> media \<Rightarrow> bool" where
  "peer_closed p m = pe_closed (md_peers m ! p)"

definition has_remote :: "nat \<Rightarrow> media \<Rightarrow> bool" where
  "has_remote p m \<longleftrightarrow> pe_remote (md_peers m ! p) \<noteq> None"

definition add_ice :: "nat \<Rightarrow> ice list \<Rightarrow> media \<Rightarrow> media" where
  "add_ice p cs m = on_peer p (\<lambda>x. if pe_closed x then x else x\<lparr>pe_ice := pe_ice x @ cs\<rparr>) m"

text \<open>\<open>addTrack\<close> on a fresh connection: one audio transceiver per track of the stream.\<close>

definition add_audio_tracks :: "nat \<Rightarrow> media_stream \<Rightarrow> media \<Rightarrow> media" where
  "add_audio_tracks p st m = on_peer p (\<lambda>x. x\<lparr>pe_transceivers := pe_transceivers x @
     map (\<lambda>t. \<lparr>tr_video = False, tr_sendrecv = True, tr_track = Some t, tr_streams = [ms_id st]\<rparr>) (ms_audio st)\<rparr>) m"

text \<open>The positions of the video transceivers, in order.\<close>

definition video_slots :: "transceiver list \<Rightarrow> nat list" where
  "video_slots trs = filter (\<lambda>i. tr_video (trs ! i)) [0..<length trs]"

definition video_transceiver :: "nat list \<Rightarrow> transceiver" where
  "video_transceiver sts = \<lparr>tr_video = True, tr_sendrecv = True, tr_track = None, tr_streams = sts\<rparr>"

text \<open>Adds video transceivers until there are two, the camera's first.\<close>

definition fill_slots :: "nat list \<Rightarrow> nat list \<Rightarrow> transceiver list \<Rightarrow> transceiver list" where
  "fill_slots cam screen trs =
     (let n = length (video_slots trs); trs = (if n < 1 then trs @ [video_transceiver cam] else trs)
      in if n < 2 then trs @ [video_transceiver screen] else trs)"

text \<open>\<open>replaceTrack\<close> on a sender, a transceiver of a peer connection.\<close>

definition replace_track :: "nat \<times> nat \<Rightarrow> nat option \<Rightarrow> media \<Rightarrow> media" where
  "replace_track snd_r t m = on_peer (fst snd_r) (\<lambda>x. if pe_closed x then x
     else x\<lparr>pe_transceivers := (pe_transceivers x)[snd snd_r := (pe_transceivers x ! snd snd_r)\<lparr>tr_track := t\<rparr>]\<rparr>) m"

section \<open>Facts\<close>

lemma stop_tracks_sel [simp]:
  "md_peers (stop_tracks ts m) = md_peers m" "md_live (stop_tracks ts m) = filter (\<lambda>t. t \<notin> set ts) (md_live m)"
  "md_next (stop_tracks ts m) = md_next m"
  by (simp_all add: stop_tracks_def)

lemma on_peer_sel [simp]:
  "md_live (on_peer p f m) = md_live m" "md_muted (on_peer p f m) = md_muted m" "md_next (on_peer p f m) = md_next m"
  "length (md_peers (on_peer p f m)) = length (md_peers m)"
  by (simp_all add: on_peer_def)

lemma peer_ops_live [simp]:
  "md_live (close_peer_connection p m) = md_live m" "md_live (add_ice p cs m) = md_live m"
  "md_live (add_audio_tracks p st m) = md_live m" "md_live (replace_track sr t m) = md_live m"
  by (simp_all add: close_peer_connection_def add_ice_def add_audio_tracks_def replace_track_def)

lemma video_slots_append:
  "video_slots (trs @ [t]) = video_slots trs @ (if tr_video t then [length trs] else [])"
proof -
  have "filter (\<lambda>i. tr_video ((trs @ [t]) ! i)) [0..<length trs] = filter (\<lambda>i. tr_video (trs ! i)) [0..<length trs]"
    by (rule filter_cong) (auto simp: nth_append)
  then show ?thesis by (simp add: video_slots_def)
qed

lemma video_slots_append2:
  "video_slots (trs @ [t, u]) = video_slots trs @ (if tr_video t then [length trs] else [])
     @ (if tr_video u then [Suc (length trs)] else [])"
  using video_slots_append [of "trs @ [t]" u] by (simp add: video_slots_append)

text \<open>After filling there are two video slots, and no transceiver moved.\<close>

lemma fill_slots_two: "2 \<le> length (video_slots (fill_slots cam screen trs)) \<and> take (length trs) (fill_slots cam screen trs) = trs"
proof (cases "video_slots trs")
  case Nil
  then show ?thesis by (simp add: fill_slots_def Let_def video_slots_append video_slots_append2 video_transceiver_def)
next
  case (Cons i rest)
  then show ?thesis by (cases rest) (simp_all add: fill_slots_def Let_def video_slots_append video_slots_append2 video_transceiver_def)
qed

end
