(* ===== verification/Calls.thy ===== *)
theory Calls
  imports Media
begin

text \<open>
  \<open>web/src/state/calls.ts\<close>: 1:1 calls. The module's variables, the signal \<open>call\<close> and its timers are one
  record. An asynchronous function is split where it waits for the browser, the person or the network: what
  is left of it is a task, which a later step resumes with the outcome of the promise, in any order with the
  other steps; waits for promises that are already settled are not split. Timers are kept by identity until
  they fire or are cleared. A promise of a closed peer connection is never settled. \<open>replaceTrack\<close> and
  \<open>addIceCandidate\<close> take effect at once; \<open>setStreams\<close> is supported.
\<close>

section \<open>State\<close>

datatype call_status = RingingOut | RingingIn | CallConnecting | Active | Ended

datatype end_reason =
    NoAnswer | Missed | Declined | Busy | AnsweredElsewhere | DeclinedElsewhere | ConnectionFailed
  | CouldNotStart | CouldNotAnswer | CallEnded

fun reason_key :: "end_reason \<Rightarrow> string" where
  "reason_key NoAnswer = ''no_answer''"
| "reason_key Missed = ''missed''"
| "reason_key Declined = ''declined''"
| "reason_key Busy = ''busy''"
| "reason_key AnsweredElsewhere = ''answered_elsewhere''"
| "reason_key DeclinedElsewhere = ''declined_elsewhere''"
| "reason_key ConnectionFailed = ''connection_failed''"
| "reason_key CouldNotStart = ''could_not_start''"
| "reason_key CouldNotAnswer = ''could_not_answer''"
| "reason_key CallEnded = ''ended''"

record call_state =
  cs_id :: string
  cs_conv_id :: string
  cs_peer :: string
  cs_incoming :: bool
  cs_status :: call_status
  cs_muted :: bool
  cs_video :: bool
  cs_sharing :: bool
  cs_remote_video :: bool
  cs_remote_sharing :: bool
  cs_started_at :: "int option"
  cs_end_reason :: "end_reason option"
  cs_local_stream :: "media_stream option"
  cs_local_camera :: "media_stream option"
  cs_remote_audio :: nat
  cs_remote_camera :: "nat option"
  cs_remote_screen :: "nat option"

text \<open>
  What a function goes on with: a call is being started (with the camera or not), or answered (the last
  component says whether the caller's camera was on). \<open>AfterCamera\<close> is what awaits \<open>enableCamera\<close>,
  \<open>AfterFlush\<close> what awaits \<open>flushQueuedIce\<close>.
\<close>

datatype purpose = Starting string string bool | Answering string string bool

datatype after_camera = ThenOffer string string nat | ThenAnswer string string nat | ThenNothing

datatype after_flush = ThenRepeatAnswer string string nat | ThenConnected

datatype task =
    TIce purpose
  | TMic purpose nat
  | TCamera bool string string after_camera
  | TOffer string string nat
  | TLocalOffer string string nat "string option"
  | TOfferSent string string nat
  | TRemoteOffer string string bool nat string
  | TAnswer string string nat
  | TLocalAnswer string string nat "string option"
  | TAnswerSent string string nat
  | TRemoteAnswer nat string
  | TFlush "ice list" after_flush
  | TPick string string
  | TShareSet string string nat "nat \<times> nat"
  | TUnshare "(string \<times> string) option"

datatype call_timer =
    RingOut string string
  | RingIn string
  | IceFlush string string
  | EndTimer
  | RetryOffer string string nat
  | RetryAnswer string string nat

text \<open>
  \<open>ph_in_voice\<close> is whether the signal \<open>voice\<close> of \<open>voice.ts\<close> has a value; \<open>ph_onended\<close> are the tracks whose
  end stops the sharing; \<open>ph_sent\<close> records the signals in the order they were handed to \<open>sendPayload\<close>.
\<close>

record phone =
  ph_app :: app
  ph_media :: media
  ph_sent :: "(string \<times> payload) list"
  ph_toasts :: "string list"
  ph_in_voice :: bool
  ph_can_share :: bool
  ph_call :: "call_state option"
  ph_pc :: "nat option"
  ph_camera_sender :: "(nat \<times> nat) option"
  ph_screen_sender :: "(nat \<times> nat) option"
  ph_camera :: "media_stream option"
  ph_screen :: "nat option"
  ph_screen_slot :: "nat option"
  ph_pending_offer :: "string option"
  ph_queued :: "ice list"
  ph_outgoing :: "ice list"
  ph_all :: "ice list"
  ph_ice_timer :: "nat option"
  ph_retry_timer :: "nat option"
  ph_ring_timer :: "nat option"
  ph_end_timer :: "nat option"
  ph_timers :: "(nat \<times> call_timer) list"
  ph_ids :: nat
  ph_tasks :: "task list"
  ph_onended :: "nat list"

definition new_phone :: "app \<Rightarrow> phone" where
  "new_phone a = \<lparr>ph_app = a,
     ph_media = \<lparr>md_live = [], md_muted = [], md_streams = [], md_peers = [], md_next = 0\<rparr>,
     ph_sent = [], ph_toasts = [], ph_in_voice = False, ph_can_share = True, ph_call = None, ph_pc = None,
     ph_camera_sender = None, ph_screen_sender = None, ph_camera = None, ph_screen = None, ph_screen_slot = None,
     ph_pending_offer = None, ph_queued = [], ph_outgoing = [], ph_all = [], ph_ice_timer = None,
     ph_retry_timer = None, ph_ring_timer = None, ph_end_timer = None, ph_timers = [], ph_ids = 0, ph_tasks = [],
     ph_onended = []\<rparr>"

section \<open>Helpers\<close>

definition on_media :: "(media \<Rightarrow> media) \<Rightarrow> phone \<Rightarrow> phone" where
  "on_media f s = s\<lparr>ph_media := f (ph_media s)\<rparr>"

definition wait :: "task \<Rightarrow> phone \<Rightarrow> phone" where
  "wait t s = s\<lparr>ph_tasks := ph_tasks s @ [t]\<rparr>"

definition show_toast :: "string \<Rightarrow> phone \<Rightarrow> phone" where
  "show_toast key s = s\<lparr>ph_toasts := ph_toasts s @ [translate (a_dict (ph_app s)) key []]\<rparr>"

text \<open>\<open>clearTimeout\<close> and \<open>clearInterval\<close> of a timer that may be absent.\<close>

definition clear_id :: "nat option \<Rightarrow> phone \<Rightarrow> phone" where
  "clear_id i s = s\<lparr>ph_timers := filter (\<lambda>t. Some (fst t) \<noteq> i) (ph_timers s)\<rparr>"

definition start_timer :: "call_timer \<Rightarrow> phone \<Rightarrow> nat \<times> phone" where
  "start_timer t s = (ph_ids s, s\<lparr>ph_timers := ph_timers s @ [(ph_ids s, t)], ph_ids := Suc (ph_ids s)\<rparr>)"

definition stop_retry :: "phone \<Rightarrow> phone" where
  "stop_retry s = (clear_id (ph_retry_timer s) s)\<lparr>ph_retry_timer := None\<rparr>"

definition clear_ring :: "phone \<Rightarrow> phone" where
  "clear_ring s = (clear_id (ph_ring_timer s) s)\<lparr>ph_ring_timer := None\<rparr>"

definition set_ring :: "call_timer \<Rightarrow> phone \<Rightarrow> phone" where
  "set_ring t s = (let (i, s) = start_timer t s in s\<lparr>ph_ring_timer := Some i\<rparr>)"

definition set_retry :: "call_timer \<Rightarrow> phone \<Rightarrow> phone" where
  "set_retry t s = (let (i, s) = start_timer t s in s\<lparr>ph_retry_timer := Some i\<rparr>)"

definition update_call :: "(call_state \<Rightarrow> call_state) \<Rightarrow> phone \<Rightarrow> phone" where
  "update_call f s = s\<lparr>ph_call := map_option f (ph_call s)\<rparr>"

text \<open>A failure to send is logged.\<close>

definition send_signal :: "world \<Rightarrow> string \<Rightarrow> call_signal \<Rightarrow> phone \<Rightarrow> phone" where
  "send_signal W conv sig s = s\<lparr>ph_sent := ph_sent s @ [(conv, Call sig)],
     ph_app := snd (send_payload W conv (Call sig) (FLAG_EPHEMERAL OR FLAG_URGENT) True (ph_app s))\<rparr>"

definition call_is :: "string \<Rightarrow> phone \<Rightarrow> bool" where
  "call_is i s = (case ph_call s of None \<Rightarrow> False | Some c \<Rightarrow> cs_id c = i)"

definition call_in :: "call_status \<Rightarrow> phone \<Rightarrow> bool" where
  "call_in st s = (case ph_call s of None \<Rightarrow> False | Some c \<Rightarrow> cs_status c = st)"

text \<open>There is a call that has not ended.\<close>

definition live_call :: "phone \<Rightarrow> bool" where
  "live_call s = (case ph_call s of None \<Rightarrow> False | Some c \<Rightarrow> cs_status c \<noteq> Ended)"

definition our_video :: "phone \<Rightarrow> bool" where
  "our_video s = (case ph_call s of None \<Rightarrow> False | Some c \<Rightarrow> cs_video c)"

definition pc_has_remote :: "phone \<Rightarrow> bool" where
  "pc_has_remote s = (case ph_pc s of None \<Rightarrow> False | Some p \<Rightarrow> has_remote p (ph_media s))"

definition add_candidates :: "ice list option \<Rightarrow> phone \<Rightarrow> phone" where
  "add_candidates cs s =
     (case cs of
        None \<Rightarrow> s
      | Some cs \<Rightarrow>
          (case ph_pc s of
             Some p \<Rightarrow> if has_remote p (ph_media s) then on_media (add_ice p cs) s else s\<lparr>ph_queued := ph_queued s @ cs\<rparr>
           | None \<Rightarrow> s\<lparr>ph_queued := ph_queued s @ cs\<rparr>))"

text \<open>The servers for a connection; nothing when the server does not answer.\<close>

definition ice_servers :: "ice_server list result \<Rightarrow> ice_server list" where
  "ice_servers res =
     (case res of
        Inl e \<Rightarrow> []
      | Inr l \<Rightarrow> map (\<lambda>s. \<lparr>is_urls = is_urls s, is_username = is_username s, is_credential = is_credential s\<rparr>) l)"

definition fresh_state :: "string \<Rightarrow> string \<Rightarrow> string \<Rightarrow> bool \<Rightarrow> call_status \<Rightarrow> phone \<Rightarrow> call_state \<times> phone" where
  "fresh_state ident conv peer incoming st s =
     (let (audio, m) = new_stream [] (ph_media s)
      in (\<lparr>cs_id = ident, cs_conv_id = conv, cs_peer = peer, cs_incoming = incoming, cs_status = st, cs_muted = False,
           cs_video = False, cs_sharing = False, cs_remote_video = False, cs_remote_sharing = False,
           cs_started_at = None, cs_end_reason = None, cs_local_stream = None, cs_local_camera = None,
           cs_remote_audio = audio, cs_remote_camera = None, cs_remote_screen = None\<rparr>, s\<lparr>ph_media := m\<rparr>))"

section \<open>The end of a call\<close>

definition stop_screen_track :: "phone \<Rightarrow> phone" where
  "stop_screen_track s = (case ph_screen s of None \<Rightarrow> s | Some t \<Rightarrow> (on_media (stop_tracks [t]) s)\<lparr>ph_screen := None\<rparr>)"

definition stop_camera_stream :: "phone \<Rightarrow> phone" where
  "stop_camera_stream s = (case ph_camera s of None \<Rightarrow> s | Some st \<Rightarrow> (on_media (stop_tracks (ms_tracks st)) s)\<lparr>ph_camera := None\<rparr>)"

definition stop_mic :: "phone \<Rightarrow> phone" where
  "stop_mic s = (case ph_call s of
     None \<Rightarrow> s
   | Some c \<Rightarrow> (case cs_local_stream c of None \<Rightarrow> s | Some st \<Rightarrow> on_media (stop_tracks (ms_tracks st)) s))"

definition close_pc :: "phone \<Rightarrow> phone" where
  "close_pc s = (case ph_pc s of None \<Rightarrow> s | Some p \<Rightarrow> (on_media (close_peer_connection p) s)\<lparr>ph_pc := None\<rparr>)"

definition end_toast :: "end_reason \<Rightarrow> phone \<Rightarrow> phone" where
  "end_toast reason s = (let d = a_dict (ph_app s) in
     s\<lparr>ph_toasts := ph_toasts s @ [translate d ''call_ended_reason'' [(''reason'', translate d (''reason_'' @ reason_key reason) [])]]\<rparr>)"

text \<open>The first part of \<open>endCall\<close> releases everything, whatever the state of the call.\<close>

definition release :: "phone \<Rightarrow> phone" where
  "release s =
     (let s = stop_retry (clear_ring s);
          s = (clear_id (ph_ice_timer s) s)\<lparr>ph_ice_timer := None, ph_outgoing := [], ph_all := [], ph_queued := [],
            ph_pending_offer := None\<rparr>;
          s = (stop_camera_stream (stop_screen_track s))\<lparr>ph_camera_sender := None, ph_screen_sender := None,
            ph_screen_slot := None\<rparr>
      in close_pc (stop_mic s))"

definition end_call :: "end_reason \<Rightarrow> bool \<Rightarrow> phone \<Rightarrow> phone" where
  "end_call reason notify s =
     (let s = release s in
      case ph_call s of
        None \<Rightarrow> s
      | Some c \<Rightarrow>
          if cs_status c = Ended then s
          else
            let s = s\<lparr>ph_call := Some (c\<lparr>cs_status := Ended, cs_end_reason := Some reason, cs_local_stream := None,
                  cs_local_camera := None, cs_video := False, cs_sharing := False\<rparr>)\<rparr>;
                s = (if notify then end_toast reason s else s);
                (i, s) = start_timer EndTimer (clear_id (ph_end_timer s) s)
            in s\<lparr>ph_end_timer := Some i\<rparr>)"

definition dismiss_ended_call :: "phone \<Rightarrow> phone" where
  "dismiss_ended_call s = (if call_in Ended s then s\<lparr>ph_call := None\<rparr> else s)"


section \<open>Video slots\<close>

text \<open>
  \<open>ensureVideoSlots\<close>: the two video transceivers of the peer, camera first. It throws on a closed
  connection, before anything is assigned.
\<close>

definition slot_streams :: "phone \<Rightarrow> nat list \<times> nat list" where
  "slot_streams s =
     (case ph_call s of
        None \<Rightarrow> []
      | Some c \<Rightarrow> (case cs_local_stream c of None \<Rightarrow> [] | Some mic \<Rightarrow> [ms_id mic]),
      case ph_screen_slot s of None \<Rightarrow> [] | Some st \<Rightarrow> [st])"

definition set_slot :: "nat \<Rightarrow> nat list \<Rightarrow> transceiver list \<Rightarrow> transceiver list" where
  "set_slot i sts trs = trs[i := (trs ! i)\<lparr>tr_sendrecv := True, tr_streams := sts\<rparr>]"

definition sender_track :: "nat \<times> nat \<Rightarrow> media \<Rightarrow> nat option" where
  "sender_track sr m = tr_track (pe_transceivers (md_peers m ! fst sr) ! snd sr)"

definition attach :: "(nat \<times> nat) option \<Rightarrow> nat option \<Rightarrow> phone \<Rightarrow> phone" where
  "attach sr t s =
     (case (sr, t) of
        (Some x, Some t) \<Rightarrow> if sender_track x (ph_media s) \<noteq> Some t then on_media (replace_track x (Some t)) s else s
      | _ \<Rightarrow> s)"

definition first_video :: "media_stream option \<Rightarrow> nat option" where
  "first_video st = (case st of None \<Rightarrow> None | Some st \<Rightarrow> (case ms_video st of [] \<Rightarrow> None | t # ts \<Rightarrow> Some t))"

definition ensure_video_slots :: "nat \<Rightarrow> phone \<Rightarrow> unit result \<times> phone" where
  "ensure_video_slots p s =
     (if peer_closed p (ph_media s) then throw (JsError ''InvalidStateError'') s
      else
        let (cam, screen) = slot_streams s;
            trs = fill_slots cam screen (pe_transceivers (md_peers (ph_media s) ! p));
            i = video_slots trs ! 0; j = video_slots trs ! 1;
            s = on_media (on_peer p (\<lambda>x. x\<lparr>pe_transceivers := set_slot j screen (set_slot i cam trs)\<rparr>)) s;
            s = s\<lparr>ph_camera_sender := Some (p, i), ph_screen_sender := Some (p, j)\<rparr>
        in ret () (attach (Some (p, j)) (ph_screen s) (attach (Some (p, i)) (first_video (ph_camera s)) s)))"

section \<open>Setting up\<close>

definition begin_offer :: "string \<Rightarrow> string \<Rightarrow> nat \<Rightarrow> phone \<Rightarrow> phone" where
  "begin_offer conv ident p s =
     (case ensure_video_slots p s of
        (Inl e, s) \<Rightarrow> end_call CouldNotStart True s
      | (Inr _, s) \<Rightarrow> wait (TOffer conv ident p) s)"

definition begin_answer :: "string \<Rightarrow> string \<Rightarrow> nat \<Rightarrow> phone \<Rightarrow> phone" where
  "begin_answer conv ident p s =
     (case ensure_video_slots p s of
        (Inl e, s) \<Rightarrow> end_call CouldNotAnswer True s
      | (Inr _, s) \<Rightarrow> wait (TAnswer conv ident p) s)"

definition after_camera :: "after_camera \<Rightarrow> phone \<Rightarrow> phone" where
  "after_camera k s =
     (case k of
        ThenOffer conv ident p \<Rightarrow> begin_offer conv ident p s
      | ThenAnswer conv ident p \<Rightarrow> begin_answer conv ident p s
      | ThenNothing \<Rightarrow> s)"

definition enable_camera :: "bool \<Rightarrow> after_camera \<Rightarrow> phone \<Rightarrow> phone" where
  "enable_camera notify k s =
     (case ph_call s of
        None \<Rightarrow> after_camera k s
      | Some c \<Rightarrow>
          if ph_camera s \<noteq> None then after_camera k s
          else wait (TCamera notify (cs_conv_id c) (cs_id c) k) s)"

definition camera_granted :: "world \<Rightarrow> bool \<Rightarrow> string \<Rightarrow> string \<Rightarrow> media_stream \<Rightarrow> phone \<Rightarrow> phone" where
  "camera_granted W notify conv ident st s =
     (if \<not> live_call s then on_media (stop_tracks (ms_tracks st)) s
      else
        let s = s\<lparr>ph_camera := Some st\<rparr>;
            s = (case (ph_camera_sender s, first_video (Some st)) of
                   (Some x, Some t) \<Rightarrow> on_media (replace_track x (Some t)) s
                 | _ \<Rightarrow> s);
            s = update_call (\<lambda>c. c\<lparr>cs_video := True, cs_local_camera := Some st\<rparr>) s
        in if notify then send_signal W conv (CallVideo ident True) s else s)"

definition disable_camera :: "world \<Rightarrow> bool \<Rightarrow> phone \<Rightarrow> phone" where
  "disable_camera W notify s =
     (let current = ph_call s;
          s = stop_camera_stream s;
          s = (case (ph_camera_sender s, ph_pc s) of
                 (Some x, Some p) \<Rightarrow> on_media (replace_track x None) s
               | _ \<Rightarrow> s)
      in case current of
           None \<Rightarrow> s
         | Some c \<Rightarrow>
             let s = update_call (\<lambda>c. c\<lparr>cs_video := False, cs_local_camera := None\<rparr>) s
             in if notify \<and> cs_status c \<noteq> Ended then send_signal W (cs_conv_id c) (CallVideo (cs_id c) False) s else s)"

definition toggle_camera :: "world \<Rightarrow> phone \<Rightarrow> phone" where
  "toggle_camera W s =
     (case ph_call s of
        None \<Rightarrow> s
      | Some c \<Rightarrow>
          if cs_status c = Ended then s
          else if cs_video c then disable_camera W True s
          else enable_camera True ThenNothing s)"

text \<open>\<open>createPeer\<close>, first the connection, then the microphone.\<close>

fun purpose_conv :: "purpose \<Rightarrow> string" where
  "purpose_conv (Starting conv ident video) = conv"
| "purpose_conv (Answering conv ident video) = conv"

fun purpose_id :: "purpose \<Rightarrow> string" where
  "purpose_id (Starting conv ident video) = ident"
| "purpose_id (Answering conv ident video) = ident"

text \<open>The \<open>catch\<close> of \<open>startCall\<close> and of \<open>acceptCall\<close>.\<close>

fun purpose_failed :: "purpose \<Rightarrow> phone \<Rightarrow> phone" where
  "purpose_failed (Starting conv ident video) s = end_call CouldNotStart True s"
| "purpose_failed (Answering conv ident video) s = end_call CouldNotAnswer True s"

definition create_connection :: "purpose \<Rightarrow> ice_server list result \<Rightarrow> phone \<Rightarrow> phone" where
  "create_connection pu res s =
     (let (slot, m) = new_stream [] (ph_media s);
          (audio, m) = (case ph_call s of Some c \<Rightarrow> (cs_remote_audio c, m) | None \<Rightarrow> new_stream [] m);
          (p, m) = new_peer (ForCall (purpose_conv pu) (purpose_id pu) audio) (ice_servers res) m
      in wait (TMic pu p) (s\<lparr>ph_media := m, ph_pc := Some p, ph_screen_slot := Some slot\<rparr>))"

fun peer_created :: "purpose \<Rightarrow> nat \<Rightarrow> phone \<Rightarrow> phone" where
  "peer_created (Starting conv ident video) p s =
     (if video then enable_camera False (ThenOffer conv ident p) s else begin_offer conv ident p s)"
| "peer_created (Answering conv ident video) p s =
     (case ph_pending_offer s of
        Some sdp \<Rightarrow>
          if peer_closed p (ph_media s) then end_call CouldNotAnswer True s
          else wait (TRemoteOffer conv ident video p sdp) s
      | None \<Rightarrow> end_call CouldNotAnswer True s)"

definition mic_granted :: "purpose \<Rightarrow> nat \<Rightarrow> media_stream \<Rightarrow> phone \<Rightarrow> phone" where
  "mic_granted pu p mic s =
     (if peer_closed p (ph_media s) \<and> ms_audio mic \<noteq> [] then purpose_failed pu s
      else peer_created pu p (update_call (\<lambda>c. c\<lparr>cs_local_stream := Some mic\<rparr>) (on_media (add_audio_tracks p mic) s)))"

definition start_call :: "world \<Rightarrow> string \<Rightarrow> bool \<Rightarrow> phone \<Rightarrow> phone" where
  "start_call W conv_id video s =
     (case (a_session (ph_app s), conv_of (ph_app s) conv_id) of
        (Some si, Some conv) \<Rightarrow>
          if c_kind conv \<noteq> Direct then s
          else if live_call s then show_toast ''already_in_call'' s
          else if ph_in_voice s then show_toast ''voice_leave_first'' s
          else (case other_member conv (si_account_id si) of
                  None \<Rightarrow> s
                | Some peer \<Rightarrow>
                    if peer = [] then s
                    else
                      let ident = w_uuid W (a_draws (ph_app s));
                          s = s\<lparr>ph_app := (ph_app s)\<lparr>a_draws := Suc (a_draws (ph_app s))\<rparr>\<rparr>;
                          (c, s) = fresh_state ident conv_id peer False RingingOut s
                      in wait (TIce (Starting conv_id ident video)) (s\<lparr>ph_call := Some c\<rparr>))
      | _ \<Rightarrow> s)"

definition accept_call :: "phone \<Rightarrow> phone" where
  "accept_call s =
     (case ph_call s of
        None \<Rightarrow> s
      | Some c \<Rightarrow>
          if cs_status c \<noteq> RingingIn \<or> ph_pending_offer s = None then s
          else wait (TIce (Answering (cs_conv_id c) (cs_id c) (cs_remote_video c)))
                 (update_call (\<lambda>c. c\<lparr>cs_status := CallConnecting\<rparr>) (clear_ring s)))"

definition reject_call :: "world \<Rightarrow> phone \<Rightarrow> phone" where
  "reject_call W s =
     (case ph_call s of
        None \<Rightarrow> s
      | Some c \<Rightarrow>
          if cs_status c \<noteq> RingingIn then s
          else end_call Declined False (send_signal W (cs_conv_id c) (CallReject (cs_id c) ''declined'') s))"

definition hangup :: "world \<Rightarrow> phone \<Rightarrow> phone" where
  "hangup W s =
     (case ph_call s of
        None \<Rightarrow> s
      | Some c \<Rightarrow>
          if cs_status c = Ended then s
          else end_call CallEnded False (send_signal W (cs_conv_id c) (CallHangup (cs_id c)) s))"

definition toggle_mute :: "phone \<Rightarrow> phone" where
  "toggle_mute s =
     (case ph_call s of
        None \<Rightarrow> s
      | Some c \<Rightarrow>
          (case cs_local_stream c of
             None \<Rightarrow> s
           | Some st \<Rightarrow>
               let muted = \<not> cs_muted c
               in update_call (\<lambda>c. c\<lparr>cs_muted := muted\<rparr>) (on_media (enable_tracks (\<not> muted) (ms_audio st)) s)))"


section \<open>Screen sharing\<close>

definition stop_screen_share :: "phone \<Rightarrow> phone" where
  "stop_screen_share s =
     (let current = ph_call s;
          was_sharing = (ph_screen s \<noteq> None \<or> (case current of None \<Rightarrow> False | Some c \<Rightarrow> cs_sharing c));
          tell = (case current of
                    None \<Rightarrow> None
                  | Some c \<Rightarrow> if was_sharing \<and> cs_status c \<noteq> Ended then Some (cs_conv_id c, cs_id c) else None);
          s = stop_screen_track s
      in wait (TUnshare tell)
           (case (ph_screen_sender s, ph_pc s) of
              (Some x, Some p) \<Rightarrow> on_media (replace_track x None) s
            | _ \<Rightarrow> s))"

text \<open>What follows the wait for \<open>replaceTrack(null)\<close>.\<close>

definition unshared :: "world \<Rightarrow> (string \<times> string) option \<Rightarrow> phone \<Rightarrow> phone" where
  "unshared W tell s =
     (let s = update_call (\<lambda>c. c\<lparr>cs_sharing := False\<rparr>) s
      in case tell of None \<Rightarrow> s | Some (conv, ident) \<Rightarrow> send_signal W conv (CallShare ident False) s)"

definition start_screen_share :: "phone \<Rightarrow> phone" where
  "start_screen_share s =
     (case (ph_call s, ph_pc s) of
        (Some c, Some p) \<Rightarrow>
          if cs_sharing c then s
          else if \<not> ph_can_share s then show_toast ''screen_share_unavailable'' s
          else wait (TPick (cs_conv_id c) (cs_id c)) s
      | _ \<Rightarrow> s)"

definition share_on :: "world \<Rightarrow> string \<Rightarrow> string \<Rightarrow> nat \<Rightarrow> phone \<Rightarrow> phone" where
  "share_on W conv ident t s =
     send_signal W conv (CallShare ident True)
       (update_call (\<lambda>c. c\<lparr>cs_sharing := True\<rparr>) (s\<lparr>ph_onended := ph_onended s @ [t]\<rparr>))"

definition screen_picked :: "world \<Rightarrow> string \<Rightarrow> string \<Rightarrow> media_stream \<Rightarrow> phone \<Rightarrow> phone" where
  "screen_picked W conv ident st s =
     (case first_video (Some st) of
        None \<Rightarrow> s
      | Some t \<Rightarrow>
          let s = s\<lparr>ph_screen := Some t\<rparr>
          in case ph_screen_sender s of
               None \<Rightarrow> share_on W conv ident t s
             | Some x \<Rightarrow>
                 if peer_closed (fst x) (ph_media s) then show_toast ''screen_share_failed'' s
                 else wait (TShareSet conv ident t x) s)"

section \<open>Signals\<close>

definition flush_rest :: "ice list \<Rightarrow> after_flush \<Rightarrow> phone \<Rightarrow> phone" where
  "flush_rest batch k s =
     (case batch of
        [] \<Rightarrow>
          (case k of
             ThenConnected \<Rightarrow> s
           | ThenRepeatAnswer conv ident p \<Rightarrow> set_retry (RetryAnswer conv ident p) (stop_retry s))
      | c # cs \<Rightarrow>
          (case ph_pc s of
             None \<Rightarrow>
               (case k of
                  ThenConnected \<Rightarrow> end_call ConnectionFailed True s
                | ThenRepeatAnswer conv ident p \<Rightarrow> end_call CouldNotAnswer True s)
           | Some p \<Rightarrow> wait (TFlush cs k) (on_media (add_ice p [c]) s)))"

definition flush_queued_ice :: "after_flush \<Rightarrow> phone \<Rightarrow> phone" where
  "flush_queued_ice k s =
     (if ph_pc s = None then flush_rest [] k s
      else let batch = ph_queued s in flush_rest batch k (s\<lparr>ph_queued := []\<rparr>))"

definition on_offer :: "world \<Rightarrow> string \<Rightarrow> string \<Rightarrow> string \<Rightarrow> string \<Rightarrow> bool option \<Rightarrow> ice list option \<Rightarrow> phone \<Rightarrow> phone" where
  "on_offer W sender conv ident sdp video cands s =
     (if call_is ident s then add_candidates cands s
      else if live_call s \<or> ph_in_voice s then send_signal W conv (CallReject ident ''busy'') s
      else
        let s = s\<lparr>ph_pending_offer := Some sdp, ph_queued := (case cands of None \<Rightarrow> [] | Some cs \<Rightarrow> cs)\<rparr>;
            (c, s) = fresh_state ident conv sender True RingingIn s
        in set_ring (RingIn ident) (s\<lparr>ph_call := Some (c\<lparr>cs_remote_video := (video = Some True)\<rparr>)\<rparr>))"

definition on_answer :: "string \<Rightarrow> string \<Rightarrow> bool option \<Rightarrow> ice list option \<Rightarrow> phone \<Rightarrow> phone" where
  "on_answer ident sdp video cands s =
     (if \<not> call_is ident s then s
      else case (call_in RingingOut s, ph_pc s) of
        (True, Some p) \<Rightarrow>
          let s = update_call (\<lambda>c. c\<lparr>cs_status := CallConnecting, cs_remote_video := (video = Some True)\<rparr>)
                    (stop_retry (clear_ring s))
          in wait (TRemoteAnswer p sdp)
               (s\<lparr>ph_queued := ph_queued s @ (case cands of None \<Rightarrow> [] | Some cs \<Rightarrow> cs)\<rparr>)
      | _ \<Rightarrow> add_candidates cands s)"

fun on_call_signal :: "world \<Rightarrow> string \<Rightarrow> string \<Rightarrow> call_signal \<Rightarrow> phone \<Rightarrow> phone" where
  "on_call_signal W sender conv (CallOffer ident sdp video cands) s = on_offer W sender conv ident sdp video cands s"
| "on_call_signal W sender conv (CallAnswer ident sdp video cands) s = on_answer ident sdp video cands s"
| "on_call_signal W sender conv (CallIce ident cands) s =
     (if call_is ident s then add_candidates (Some cands) s else s)"
| "on_call_signal W sender conv (CallReject ident reason) s =
     (if call_is ident s then end_call (if reason = ''busy'' then Busy else Declined) False s else s)"
| "on_call_signal W sender conv (CallHangup ident) s =
     (if call_is ident s then end_call (if call_in RingingIn s then Missed else CallEnded) False s else s)"
| "on_call_signal W sender conv (CallVideo ident on) s =
     (if call_is ident s then update_call (\<lambda>c. c\<lparr>cs_remote_video := on\<rparr>) s else s)"
| "on_call_signal W sender conv (CallShare ident on) s =
     (if call_is ident s then update_call (\<lambda>c. c\<lparr>cs_remote_sharing := on\<rparr>) s else s)"

text \<open>A signal of another device of the same account.\<close>

definition own_device :: "call_signal \<Rightarrow> phone \<Rightarrow> phone" where
  "own_device sig s =
     (case sig of
        CallAnswer ident sdp video cands \<Rightarrow>
          if call_is ident s \<and> call_in RingingIn s then end_call AnsweredElsewhere False s else s
      | CallReject ident reason \<Rightarrow>
          if call_is ident s \<and> call_in RingingIn s then end_call DeclinedElsewhere False s else s
      | _ \<Rightarrow> s)"

definition handle_call_signal :: "world \<Rightarrow> string \<Rightarrow> string \<Rightarrow> string \<Rightarrow> payload \<Rightarrow> phone \<Rightarrow> phone" where
  "handle_call_signal W sender device conv pl s =
     (case (a_session (ph_app s), pl) of
        (Some si, Call sig) \<Rightarrow>
          if sender = si_account_id si then (if device = si_device_id si then s else own_device sig s)
          else on_call_signal W sender conv sig s
      | _ \<Rightarrow> s)"

section \<open>Timers\<close>

text \<open>The timer fires; a timeout is gone then.\<close>

definition is_interval :: "call_timer \<Rightarrow> bool" where
  "is_interval t = (case t of RetryOffer conv ident p \<Rightarrow> True | RetryAnswer conv ident p \<Rightarrow> True | _ \<Rightarrow> False)"

definition local_sdp :: "nat \<Rightarrow> phone \<Rightarrow> string" where
  "local_sdp p s = (case pe_local (md_peers (ph_media s) ! p) of None \<Rightarrow> [] | Some sdp \<Rightarrow> sdp)"

definition retry_due :: "string \<Rightarrow> call_status \<Rightarrow> nat \<Rightarrow> phone \<Rightarrow> bool" where
  "retry_due ident st p s \<longleftrightarrow> call_is ident s \<and> call_in st s \<and> ph_pc s = Some p \<and> local_sdp p s \<noteq> []"

fun run_timer :: "world \<Rightarrow> call_timer \<Rightarrow> phone \<Rightarrow> phone" where
  "run_timer W (RingOut conv ident) s =
     (if call_is ident s \<and> call_in RingingOut s
      then end_call NoAnswer False (send_signal W conv (CallHangup ident) s) else s)"
| "run_timer W (RingIn ident) s =
     (if call_is ident s \<and> call_in RingingIn s then end_call Missed False s else s)"
| "run_timer W (IceFlush conv ident) s =
     (let batch = ph_outgoing s; s = s\<lparr>ph_ice_timer := None, ph_outgoing := []\<rparr>
      in if batch \<noteq> [] \<and> call_is ident s then send_signal W conv (CallIce ident batch) s else s)"
| "run_timer W EndTimer s = (if call_in Ended s then s\<lparr>ph_call := None\<rparr> else s)"
| "run_timer W (RetryOffer conv ident p) s =
     (if retry_due ident RingingOut p s
      then send_signal W conv (CallOffer ident (local_sdp p s) (Some (our_video s)) (Some (ph_all s))) s
      else stop_retry s)"
| "run_timer W (RetryAnswer conv ident p) s =
     (if retry_due ident CallConnecting p s
      then send_signal W conv (CallAnswer ident (local_sdp p s) (Some (our_video s)) (Some (ph_all s))) s
      else stop_retry s)"

definition fire :: "world \<Rightarrow> nat \<Rightarrow> phone \<Rightarrow> phone" where
  "fire W i s =
     (case map_of (ph_timers s) i of
        None \<Rightarrow> s
      | Some t \<Rightarrow> run_timer W t (if is_interval t then s else s\<lparr>ph_timers := filter (\<lambda>t. fst t \<noteq> i) (ph_timers s)\<rparr>))"

section \<open>Events of a connection\<close>

datatype peer_state = PConnected | PDisconnected | PFailed | PClosed

text \<open>\<open>ontrack\<close> for the track received on the \<open>i\<close>-th transceiver.\<close>

definition on_track :: "nat \<Rightarrow> nat \<Rightarrow> nat \<Rightarrow> phone \<Rightarrow> phone" where
  "on_track p i t s =
     (let trs = pe_transceivers (md_peers (ph_media s) ! p) in
      if \<not> tr_video (trs ! i) then
        (case pe_owner (md_peers (ph_media s) ! p) of
           ForCall conv ident audio \<Rightarrow>
             update_call (\<lambda>c. c\<lparr>cs_remote_audio := audio\<rparr>) (on_media (add_to_stream audio t) s)
         | ForSession conv remote \<Rightarrow> s)
      else
        let screen = (1 < length (video_slots trs) \<and> video_slots trs ! 1 = i);
            (st, m) = new_stream [t] (ph_media s);
            s = s\<lparr>ph_media := m\<rparr>
        in if screen then update_call (\<lambda>c. c\<lparr>cs_remote_screen := Some st\<rparr>) s
           else update_call (\<lambda>c. c\<lparr>cs_remote_camera := Some st\<rparr>) s)"

definition on_candidate :: "nat \<Rightarrow> ice \<Rightarrow> phone \<Rightarrow> phone" where
  "on_candidate p c s =
     (case pe_owner (md_peers (ph_media s) ! p) of
        ForCall conv ident audio \<Rightarrow>
          let s = s\<lparr>ph_outgoing := ph_outgoing s @ [c], ph_all := ph_all s @ [c]\<rparr>
          in if ph_ice_timer s = None
             then (let (i, s) = start_timer (IceFlush conv ident) s in s\<lparr>ph_ice_timer := Some i\<rparr>)
             else s
      | ForSession conv remote \<Rightarrow> s)"

definition on_connection :: "nat \<Rightarrow> peer_state \<Rightarrow> phone \<Rightarrow> phone" where
  "on_connection p st s =
     (if ph_pc s \<noteq> Some p then s
      else case st of
        PConnected \<Rightarrow>
          if ph_call s \<noteq> None \<and> \<not> call_in Active s
          then update_call (\<lambda>c. c\<lparr>cs_status := Active, cs_started_at :=
                 Some (case cs_started_at c of Some n \<Rightarrow> n | None \<Rightarrow> a_now (ph_app s))\<rparr>) s
          else s
      | PFailed \<Rightarrow> end_call ConnectionFailed True s
      | PDisconnected \<Rightarrow> if call_in Active s then show_toast ''call_interrupted'' s else s
      | PClosed \<Rightarrow> s)"


section \<open>Resuming a task\<close>

text \<open>The connection whose promise a task waits for: when it is closed, the promise is never settled.\<close>

fun task_peer :: "task \<Rightarrow> nat option" where
  "task_peer (TOffer conv ident p) = Some p"
| "task_peer (TLocalOffer conv ident p sdp) = Some p"
| "task_peer (TRemoteOffer conv ident video p sdp) = Some p"
| "task_peer (TAnswer conv ident p) = Some p"
| "task_peer (TLocalAnswer conv ident p sdp) = Some p"
| "task_peer (TRemoteAnswer p sdp) = Some p"
| "task_peer (TShareSet conv ident t x) = Some (fst x)"
| "task_peer _ = None"

definition sdp_text :: "string option \<Rightarrow> string" where
  "sdp_text sdp = (case sdp of None \<Rightarrow> [] | Some x \<Rightarrow> x)"

definition set_local :: "nat \<Rightarrow> string option \<Rightarrow> phone \<Rightarrow> phone" where
  "set_local p sdp s = on_media (on_peer p (\<lambda>x. x\<lparr>pe_local := Some (sdp_text sdp)\<rparr>)) s"

definition set_remote :: "nat \<Rightarrow> string \<Rightarrow> transceiver list \<Rightarrow> phone \<Rightarrow> phone" where
  "set_remote p sdp trs s =
     on_media (on_peer p (\<lambda>x. x\<lparr>pe_remote := Some sdp, pe_transceivers := pe_transceivers x @ trs\<rparr>)) s"

definition granted :: "outcome \<Rightarrow> (media_stream \<Rightarrow> phone \<Rightarrow> phone) \<Rightarrow> (phone \<Rightarrow> phone) \<Rightarrow> phone \<Rightarrow> phone" where
  "granted out f g s =
     (case out of
        GotStream audio video \<Rightarrow> (let (st, m) = capture audio video (ph_media s) in f st (s\<lparr>ph_media := m\<rparr>))
      | _ \<Rightarrow> g s)"

definition described :: "outcome \<Rightarrow> (string option \<Rightarrow> phone \<Rightarrow> phone) \<Rightarrow> (phone \<Rightarrow> phone) \<Rightarrow> phone \<Rightarrow> phone" where
  "described out f g s = (case out of GotSdp sdp \<Rightarrow> f sdp s | _ \<Rightarrow> g s)"

definition settled :: "outcome \<Rightarrow> (phone \<Rightarrow> phone) \<Rightarrow> (phone \<Rightarrow> phone) \<Rightarrow> phone \<Rightarrow> phone" where
  "settled out f g s = (case out of Resolved \<Rightarrow> f s | _ \<Rightarrow> g s)"

fun resume :: "world \<Rightarrow> task \<Rightarrow> outcome \<Rightarrow> phone \<Rightarrow> phone" where
  "resume W (TIce pu) out s = (case out of GotTurn res \<Rightarrow> create_connection pu res s | _ \<Rightarrow> purpose_failed pu s)"
| "resume W (TMic pu p) out s = granted out (mic_granted pu p) (purpose_failed pu) s"
| "resume W (TCamera notify conv ident k) out s =
     after_camera k (granted out (camera_granted W notify conv ident) (show_toast ''camera_failed'') s)"
| "resume W (TOffer conv ident p) out s =
     described out (\<lambda>sdp. wait (TLocalOffer conv ident p sdp)) (end_call CouldNotStart True) s"
| "resume W (TLocalOffer conv ident p sdp) out s =
     settled out
       (\<lambda>s. wait (TOfferSent conv ident p)
         (send_signal W conv (CallOffer ident (sdp_text sdp) (Some (our_video s)) None) (set_local p sdp s)))
       (end_call CouldNotStart True) s"
| "resume W (TOfferSent conv ident p) out s =
     set_retry (RetryOffer conv ident p) (stop_retry (set_ring (RingOut conv ident) s))"
| "resume W (TRemoteOffer conv ident video p sdp) out s =
     (case out of
        GotRemote trs \<Rightarrow>
          (if video then enable_camera False (ThenAnswer conv ident p) else begin_answer conv ident p) (set_remote p sdp trs s)
      | _ \<Rightarrow> end_call CouldNotAnswer True s)"
| "resume W (TAnswer conv ident p) out s =
     described out (\<lambda>sdp. wait (TLocalAnswer conv ident p sdp)) (end_call CouldNotAnswer True) s"
| "resume W (TLocalAnswer conv ident p sdp) out s =
     settled out
       (\<lambda>s. wait (TAnswerSent conv ident p)
         (send_signal W conv (CallAnswer ident (sdp_text sdp) (Some (our_video s)) None) (set_local p sdp s)))
       (end_call CouldNotAnswer True) s"
| "resume W (TAnswerSent conv ident p) out s = flush_queued_ice (ThenRepeatAnswer conv ident p) s"
| "resume W (TRemoteAnswer p sdp) out s =
     settled out (\<lambda>s. flush_queued_ice ThenConnected (set_remote p sdp [] s)) (end_call ConnectionFailed True) s"
| "resume W (TFlush cs k) out s = flush_rest cs k s"
| "resume W (TPick conv ident) out s =
     granted out (screen_picked W conv ident) (if out = NotAllowed then id else show_toast ''screen_share_failed'') s"
| "resume W (TShareSet conv ident t x) out s =
     settled out (\<lambda>s. share_on W conv ident t (on_media (replace_track x (Some t)) s))
       (if out = NotAllowed then id else show_toast ''screen_share_failed'') s"
| "resume W (TUnshare tell) out s = unshared W tell s"

section \<open>Steps\<close>

text \<open>
  Everything that can happen: what the person does, a signal, a timer, a promise that is settled, an event of
  a connection, the end of a captured track, and what the rest of the client does to its state.
\<close>

datatype call_event =
    Start string bool
  | Accept
  | Reject
  | Hangup
  | Mute
  | Camera
  | Share
  | Unshare
  | Dismiss
  | Signal string string string payload
  | Timer nat
  | Resume nat outcome
  | Track nat nat nat
  | Candidate nat ice
  | Connection nat peer_state
  | TrackEnded nat
  | Elsewhere app bool

fun perform :: "world \<Rightarrow> call_event \<Rightarrow> phone \<Rightarrow> phone" where
  "perform W (Start conv video) s = start_call W conv video s"
| "perform W Accept s = accept_call s"
| "perform W Reject s = reject_call W s"
| "perform W Hangup s = hangup W s"
| "perform W Mute s = toggle_mute s"
| "perform W Camera s = toggle_camera W s"
| "perform W Share s = start_screen_share s"
| "perform W Unshare s = stop_screen_share s"
| "perform W Dismiss s = dismiss_ended_call s"
| "perform W (Signal sender device conv pl) s = handle_call_signal W sender device conv pl s"
| "perform W (Timer i) s = fire W i s"
| "perform W (Resume i out) s =
     resume W (ph_tasks s ! i) out (s\<lparr>ph_tasks := take i (ph_tasks s) @ drop (Suc i) (ph_tasks s)\<rparr>)"
| "perform W (Track p i t) s = on_track p i t s"
| "perform W (Candidate p c) s = on_candidate p c s"
| "perform W (Connection p st) s = on_connection p st s"
| "perform W (TrackEnded t) s =
     (let s' = on_media (stop_tracks [t]) s in if t \<in> set (ph_onended s) then stop_screen_share s' else s')"
| "perform W (Elsewhere a v) s = s\<lparr>ph_app := a, ph_in_voice := v\<rparr>"

definition of_call :: "nat \<Rightarrow> phone \<Rightarrow> bool" where
  "of_call p s \<longleftrightarrow> p < length (md_peers (ph_media s)) \<and> \<not> peer_closed p (ph_media s)
     \<and> (case pe_owner (md_peers (ph_media s) ! p) of ForCall conv ident audio \<Rightarrow> True | ForSession conv remote \<Rightarrow> False)"

fun enabled :: "call_event \<Rightarrow> phone \<Rightarrow> bool" where
  "enabled (Timer i) s = (i \<in> fst ` set (ph_timers s))"
| "enabled (Resume i out) s =
     (i < length (ph_tasks s) \<and>
       (case task_peer (ph_tasks s ! i) of None \<Rightarrow> True | Some p \<Rightarrow> \<not> peer_closed p (ph_media s)))"
| "enabled (Track p i t) s = (of_call p s \<and> i < length (pe_transceivers (md_peers (ph_media s) ! p)))"
| "enabled (Candidate p c) s = of_call p s"
| "enabled (Connection p st) s = of_call p s"
| "enabled (TrackEnded t) s = (t \<in> set (md_live (ph_media s)))"
| "enabled _ s = True"

inductive call_step :: "world \<Rightarrow> phone \<Rightarrow> phone \<Rightarrow> bool" for W where
  step: "enabled ev s \<Longrightarrow> call_step W s (perform W ev s)"

end
