(* ===== verification/CallsFacts.thy ===== *)
theory CallsFacts
  imports Calls
begin

text \<open>
  What holds of the calls: the life of a call as an abstract automaton that every step follows, the
  consistency of the shown state with the devices, what the end of a call releases, and the overtakings that
  leave a device on.
\<close>

section \<open>What the operations leave alone\<close>

text \<open>The part of the state the invariant speaks of; of a connection, whose it is and whether it is closed.\<close>

definition marks :: "media \<Rightarrow> (owner \<times> bool) list" where
  "marks m = map (\<lambda>x. (pe_owner x, pe_closed x)) (md_peers m)"

lemma marks_updates [simp]:
  "marks (m\<lparr>md_live := a\<rparr>) = marks m" "marks (m\<lparr>md_muted := a\<rparr>) = marks m" "marks (m\<lparr>md_streams := b\<rparr>) = marks m"
  "marks (m\<lparr>md_next := n\<rparr>) = marks m"
  by (simp_all add: marks_def)

lemma length_marks [simp]: "length (marks m) = length (md_peers m)"
  by (simp add: marks_def)

lemma marks_nth: "p < length (md_peers m) \<Longrightarrow> marks m ! p = (pe_owner (md_peers m ! p), peer_closed p m)"
  by (simp add: marks_def peer_closed_def)

lemma marks_close: "marks (close_peer_connection p m) = (marks m)[p := (fst (marks m ! p), True)]"
  by (cases "p < length (md_peers m)")
    (simp_all add: marks_def close_peer_connection_def on_peer_def map_update list_update_beyond)

definition core :: "phone \<Rightarrow> call_state option \<times> nat option \<times> media_stream option \<times> string option \<times> (owner \<times> bool) list" where
  "core s = (ph_call s, ph_pc s, ph_camera s, ph_pending_offer s, marks (ph_media s))"

lemma core_updates [simp]:
  "core (s\<lparr>ph_app := a\<rparr>) = core s" "core (s\<lparr>ph_sent := b\<rparr>) = core s" "core (s\<lparr>ph_toasts := c\<rparr>) = core s"
  "core (s\<lparr>ph_in_voice := d\<rparr>) = core s" "core (s\<lparr>ph_camera_sender := e\<rparr>) = core s"
  "core (s\<lparr>ph_screen_sender := e\<rparr>) = core s" "core (s\<lparr>ph_screen := f\<rparr>) = core s"
  "core (s\<lparr>ph_screen_slot := f\<rparr>) = core s" "core (s\<lparr>ph_queued := g\<rparr>) = core s"
  "core (s\<lparr>ph_outgoing := g\<rparr>) = core s" "core (s\<lparr>ph_all := g\<rparr>) = core s"
  "core (s\<lparr>ph_ice_timer := f\<rparr>) = core s" "core (s\<lparr>ph_retry_timer := f\<rparr>) = core s"
  "core (s\<lparr>ph_ring_timer := f\<rparr>) = core s" "core (s\<lparr>ph_end_timer := f\<rparr>) = core s"
  "core (s\<lparr>ph_timers := h\<rparr>) = core s" "core (s\<lparr>ph_ids := i\<rparr>) = core s" "core (s\<lparr>ph_tasks := j\<rparr>) = core s"
  "core (s\<lparr>ph_onended := k\<rparr>) = core s"
  by (simp_all add: core_def)

lemma core_media: "marks m = marks (ph_media s) \<Longrightarrow> core (s\<lparr>ph_media := m\<rparr>) = core s"
  by (simp add: core_def)

lemma marks_on_peer:
  "(\<And>x. pe_closed (f x) = pe_closed x \<and> pe_owner (f x) = pe_owner x) \<Longrightarrow> marks (on_peer p f m) = marks m"
  by (cases "p < length (md_peers m)") (simp_all add: marks_def on_peer_def map_update list_update_same_conv list_update_beyond)

lemma closed_ops [simp]:
  "marks (stop_tracks ts m) = marks m"
  "marks (enable_tracks on ts m) = marks m"
  "marks (add_ice p cs m) = marks m"
  "marks (add_audio_tracks p st m) = marks m"
  "marks (replace_track x t m) = marks m"
  "marks (add_to_stream i tk m) = marks m"
  by (simp_all add: stop_tracks_def enable_tracks_def add_ice_def add_audio_tracks_def replace_track_def
      add_to_stream_def marks_on_peer)

lemma core_on_media [simp]:
  "marks (f (ph_media s)) = marks (ph_media s) \<Longrightarrow> core (on_media f s) = core s"
  by (simp add: on_media_def core_media)

lemma core_ops [simp]:
  "core (wait t s) = core s" "core (show_toast key s) = core s" "core (clear_id i s) = core s"
  "core (stop_retry s) = core s" "core (clear_ring s) = core s" "core (set_ring tm s) = core s"
  "core (set_retry tm s) = core s" "core (send_signal W conv sig s) = core s" "core (end_toast reason s) = core s"
  "core (add_candidates cs s) = core s" "core (attach x tr s) = core s" "core (stop_screen_track s) = core s"
  "core (stop_mic s) = core s" "core (snd (start_timer tm s)) = core s"
  by (simp_all add: wait_def show_toast_def clear_id_def stop_retry_def clear_ring_def set_ring_def set_retry_def
      start_timer_def send_signal_def end_toast_def add_candidates_def attach_def stop_screen_track_def stop_mic_def
      Let_def split: option.split)

lemma core_ensure [simp]: "core (snd (ensure_video_slots p s)) = core s"
  by (simp add: ensure_video_slots_def Let_def marks_on_peer split: prod.split)

lemma core_local [simp]: "core (set_local p sdp s) = core s" "core (set_remote p x trs s) = core s"
  by (simp_all add: set_local_def set_remote_def marks_on_peer)

section \<open>The invariant and the life of a call\<close>

text \<open>
  The current connection is open; the camera is on only during a call, and the call shows it exactly then;
  a call that rings is an incoming one whose offer is at hand.
\<close>

fun for_session :: "owner \<Rightarrow> bool" where
  "for_session (ForCall conv i audio) = False"
| "for_session (ForSession conv remote) = True"

definition call_inv :: "phone \<Rightarrow> bool" where
  "call_inv s \<longleftrightarrow>
     (\<forall>p. ph_pc s = Some p \<longrightarrow> p < length (marks (ph_media s)) \<and> \<not> snd (marks (ph_media s) ! p)
        \<and> \<not> for_session (fst (marks (ph_media s) ! p)))
     \<and> (case ph_call s of
          None \<Rightarrow> ph_camera s = None
        | Some c \<Rightarrow> (cs_status c = Ended \<longrightarrow> ph_camera s = None) \<and> cs_local_camera c = ph_camera s
            \<and> cs_video c = (ph_camera s \<noteq> None)
            \<and> (cs_status c = RingingIn \<longrightarrow> cs_incoming c \<and> ph_pending_offer s \<noteq> None)
            \<and> (cs_status c = RingingOut \<longrightarrow> \<not> cs_incoming c))"

text \<open>The abstract automaton: the identifier and the status.\<close>

definition abs_call :: "phone \<Rightarrow> (string \<times> call_status) option" where
  "abs_call s = map_option (\<lambda>c. (cs_id c, cs_status c)) (ph_call s)"

inductive lifecycle :: "(string \<times> call_status) option \<Rightarrow> (string \<times> call_status) option \<Rightarrow> bool" where
  stay: "lifecycle a a"
| begin_out: "lifecycle None (Some (i, RingingOut))"
| begin_in: "lifecycle None (Some (i, RingingIn))"
| again_out: "lifecycle (Some (i, Ended)) (Some (j, RingingOut))"
| again_in: "lifecycle (Some (i, Ended)) (Some (j, RingingIn))"
| answered: "lifecycle (Some (i, RingingOut)) (Some (i, CallConnecting))"
| accepted: "lifecycle (Some (i, RingingIn)) (Some (i, CallConnecting))"
| connected: "lifecycle (Some (i, st)) (Some (i, Active))"
| over: "lifecycle (Some (i, st)) (Some (i, Ended))"
| gone: "lifecycle (Some (i, Ended)) None"

definition ended :: "(string \<times> call_status) option \<Rightarrow> (string \<times> call_status) option" where
  "ended a = map_option (\<lambda>(i, st). (i, Ended)) a"

lemma lifecycle_ended: "lifecycle a (ended a)"
  by (cases a) (auto simp: ended_def intro: lifecycle.intros)

text \<open>
  Connections are only added, those added are for a call, and those of the voice channels are let alone.
\<close>

definition grows :: "(owner \<times> bool) list \<Rightarrow> (owner \<times> bool) list \<Rightarrow> bool" where
  "grows m m' \<longleftrightarrow> length m \<le> length m'
     \<and> (\<forall>p < length m. fst (m' ! p) = fst (m ! p) \<and> (for_session (fst (m ! p)) \<longrightarrow> snd (m' ! p) = snd (m ! p)))
     \<and> (\<forall>p. length m \<le> p \<and> p < length m' \<longrightarrow> \<not> for_session (fst (m' ! p)))"

lemma grows_refl [simp]: "grows m m"
  by (auto simp: grows_def)

lemma grows_trans: "grows m m' \<Longrightarrow> grows m' m'' \<Longrightarrow> grows m m''"
  unfolding grows_def by (metis le_trans not_le less_le_trans)

lemma grows_close: "\<not> for_session (fst (m ! p)) \<Longrightarrow> grows m (m[p := (fst (m ! p), b)])"
  unfolding grows_def by (auto simp: nth_list_update) (metis nth_list_update fst_conv nth_list_update_neq)+

text \<open>Most operations keep the invariant and at most end the call.\<close>

definition calm :: "phone \<Rightarrow> phone \<Rightarrow> bool" where
  "calm s t \<longleftrightarrow> (call_inv s \<longrightarrow> call_inv t \<and> grows (marks (ph_media s)) (marks (ph_media t))) \<and> abs_call t \<in> {abs_call s, ended (abs_call s)}"

interpretation calm: frame calm
proof unfold_locales
  have "ended (ended a) = ended a" for a by (cases a) (auto simp: ended_def)
  then show "calm s u" if "calm s t" "calm t u" for s t u using that grows_trans unfolding calm_def by (metis insertE insertI1 insert_commute singletonD)
qed (simp add: calm_def)

lemma core_inv:
  assumes "core t = core s"
  shows "call_inv t = call_inv s" and "marks (ph_media t) = marks (ph_media s)"
proof -
  have eqs: "ph_call t = ph_call s" "ph_pc t = ph_pc s" "ph_camera t = ph_camera s" "ph_pending_offer t = ph_pending_offer s"
    "marks (ph_media t) = marks (ph_media s)"
    using assms unfolding core_def prod.inject by blast+
  show "call_inv t = call_inv s" by (simp only: call_inv_def eqs)
  show "marks (ph_media t) = marks (ph_media s)" by (rule eqs)
qed

lemma core_abs: "core t = core s \<Longrightarrow> abs_call t = abs_call s"
  by (simp add: core_def abs_call_def)

lemma core_calm: "core t = core s \<Longrightarrow> calm s t"
  using core_inv [of t s] core_abs [of t s] by (simp add: calm_def)

lemma calm_core: "calm s t \<Longrightarrow> core u = core t \<Longrightarrow> calm s u"
  using core_calm calm.R_trans by blast

section \<open>The end of a call\<close>

lemma clear_id_sel [simp]:
  "ph_call (clear_id i s) = ph_call s" "ph_pc (clear_id i s) = ph_pc s" "ph_camera (clear_id i s) = ph_camera s"
  "ph_media (clear_id i s) = ph_media s" "ph_app (clear_id i s) = ph_app s" "ph_sent (clear_id i s) = ph_sent s"
  "ph_screen (clear_id i s) = ph_screen s" "ph_pending_offer (clear_id i s) = ph_pending_offer s"
  by (simp_all add: clear_id_def)

lemma timers_sel [simp]:
  "ph_call (stop_retry s) = ph_call s" "ph_pc (stop_retry s) = ph_pc s" "ph_camera (stop_retry s) = ph_camera s"
  "ph_media (stop_retry s) = ph_media s" "ph_app (stop_retry s) = ph_app s" "ph_sent (stop_retry s) = ph_sent s"
  "ph_screen (stop_retry s) = ph_screen s" "ph_pending_offer (stop_retry s) = ph_pending_offer s"
  "ph_call (clear_ring s) = ph_call s" "ph_pc (clear_ring s) = ph_pc s" "ph_camera (clear_ring s) = ph_camera s"
  "ph_media (clear_ring s) = ph_media s" "ph_app (clear_ring s) = ph_app s" "ph_sent (clear_ring s) = ph_sent s"
  "ph_screen (clear_ring s) = ph_screen s" "ph_pending_offer (clear_ring s) = ph_pending_offer s"
  by (simp_all add: stop_retry_def clear_ring_def)

lemma on_media_sel [simp]:
  "ph_call (on_media f s) = ph_call s" "ph_pc (on_media f s) = ph_pc s" "ph_camera (on_media f s) = ph_camera s"
  "ph_media (on_media f s) = f (ph_media s)" "ph_app (on_media f s) = ph_app s" "ph_sent (on_media f s) = ph_sent s"
  "ph_screen (on_media f s) = ph_screen s" "ph_pending_offer (on_media f s) = ph_pending_offer s"
  by (simp_all add: on_media_def)

lemma stops_sel [simp]:
  "ph_call (stop_screen_track s) = ph_call s" "ph_pc (stop_screen_track s) = ph_pc s"
  "ph_camera (stop_screen_track s) = ph_camera s" "ph_app (stop_screen_track s) = ph_app s"
  "ph_sent (stop_screen_track s) = ph_sent s" "ph_screen (stop_screen_track s) = None"
  "ph_pending_offer (stop_screen_track s) = ph_pending_offer s"
  "ph_call (stop_camera_stream s) = ph_call s" "ph_pc (stop_camera_stream s) = ph_pc s"
  "ph_camera (stop_camera_stream s) = None" "ph_app (stop_camera_stream s) = ph_app s"
  "ph_sent (stop_camera_stream s) = ph_sent s" "ph_screen (stop_camera_stream s) = ph_screen s"
  "ph_pending_offer (stop_camera_stream s) = ph_pending_offer s"
  "ph_call (stop_mic s) = ph_call s" "ph_pc (stop_mic s) = ph_pc s" "ph_camera (stop_mic s) = ph_camera s"
  "ph_app (stop_mic s) = ph_app s" "ph_sent (stop_mic s) = ph_sent s" "ph_screen (stop_mic s) = ph_screen s"
  "ph_pending_offer (stop_mic s) = ph_pending_offer s"
  by (simp_all add: stop_screen_track_def stop_camera_stream_def stop_mic_def split: option.split)

lemma close_pc_sel [simp]:
  "ph_call (close_pc s) = ph_call s" "ph_pc (close_pc s) = None" "ph_camera (close_pc s) = ph_camera s"
  "ph_app (close_pc s) = ph_app s" "ph_sent (close_pc s) = ph_sent s" "ph_screen (close_pc s) = ph_screen s"
  "ph_pending_offer (close_pc s) = ph_pending_offer s"
  by (simp_all add: close_pc_def split: option.split)

lemma release_call [simp]:
  "ph_call (release s) = ph_call s" "ph_pc (release s) = None" "ph_camera (release s) = None"
  "ph_pending_offer (release s) = None" "ph_app (release s) = ph_app s" "ph_sent (release s) = ph_sent s"
  "ph_screen (release s) = None"
  by (simp_all add: release_def Let_def)

lemma marks_release:
  "marks (ph_media (release s)) = (case ph_pc s of None \<Rightarrow> marks (ph_media s)
     | Some p \<Rightarrow> (marks (ph_media s))[p := (fst (marks (ph_media s) ! p), True)])"
proof -
  define u where "u = stop_mic ((stop_camera_stream (stop_screen_track ((clear_id (ph_ice_timer (stop_retry (clear_ring s)))
    (stop_retry (clear_ring s)))\<lparr>ph_ice_timer := None, ph_outgoing := [], ph_all := [], ph_queued := [],
      ph_pending_offer := None\<rparr>)))\<lparr>ph_camera_sender := None, ph_screen_sender := None, ph_screen_slot := None\<rparr>)"
  have stops: "marks (ph_media (stop_mic t)) = marks (ph_media t)" "marks (ph_media (stop_camera_stream t)) = marks (ph_media t)"
    "marks (ph_media (stop_screen_track t)) = marks (ph_media t)" for t
    by (simp_all add: stop_mic_def stop_camera_stream_def stop_screen_track_def split: option.split)
  have u: "ph_pc u = ph_pc s" "marks (ph_media u) = marks (ph_media s)" unfolding u_def by (simp_all add: stops)
  have "release s = close_pc u" unfolding release_def u_def Let_def by (rule refl)
  then show ?thesis using u by (simp add: close_pc_def marks_close split: option.split)
qed

lemma grows_release: "call_inv s \<Longrightarrow> grows (marks (ph_media s)) (marks (ph_media (release s)))"
  by (simp add: marks_release call_inv_def grows_close split: option.split)

lemma end_call_sel:
  "ph_call (end_call r n s) = map_option (\<lambda>c. if cs_status c = Ended then c else c\<lparr>cs_status := Ended,
      cs_end_reason := Some r, cs_local_stream := None, cs_local_camera := None, cs_video := False, cs_sharing := False\<rparr>)
      (ph_call s)"
  "ph_pc (end_call r n s) = None" "ph_camera (end_call r n s) = None" "ph_pending_offer (end_call r n s) = None"
  "ph_sent (end_call r n s) = ph_sent s" "ph_app (end_call r n s) = ph_app s"
  "ph_media (end_call r n s) = ph_media (release s)"
  by (simp_all add: end_call_def Let_def start_timer_def clear_id_def end_toast_def split: option.split)

lemma end_call_calm: "calm s (end_call r n s)"
proof -
  have "call_inv s \<Longrightarrow> call_inv (end_call r n s)"
    by (auto simp: call_inv_def end_call_sel split: option.splits)
  moreover have "abs_call (end_call r n s) \<in> {abs_call s, ended (abs_call s)}"
    by (cases "ph_call s") (simp_all add: abs_call_def ended_def end_call_sel)
  ultimately show ?thesis using grows_release [of s] by (simp add: calm_def end_call_sel)
qed

lemma purpose_failed_calm: "calm s (purpose_failed pu s)"
  by (cases pu) (simp_all add: end_call_calm)

lemma purpose_created_calm: "calm s t \<Longrightarrow> calm s (end_call r n t)"
  using end_call_calm calm.R_trans by blast

section \<open>Setting up\<close>

lemma update_call_calm:
  assumes "\<And>c. cs_id (f c) = cs_id c \<and> cs_status (f c) = cs_status c \<and> cs_incoming (f c) = cs_incoming c
      \<and> cs_local_camera (f c) = cs_local_camera c \<and> cs_video (f c) = cs_video c"
  shows "calm s (update_call f s)"
  using assms by (auto simp: calm_def call_inv_def abs_call_def update_call_def split: option.splits)

lemma pair_snd: "q = (r, t) \<Longrightarrow> t = snd q"
  by simp

lemma begin_calm: "calm s (begin_offer conv i p s)" "calm s (begin_answer conv i p s)"
proof -
  obtain r t where e: "ensure_video_slots p s = (r, t)" by fastforce
  then have c: "core t = core s" using core_ensure [of p s] by simp
  then show "calm s (begin_offer conv i p s)" "calm s (begin_answer conv i p s)"
    by (cases r; simp add: begin_offer_def begin_answer_def e core_calm purpose_created_calm)+
qed

lemma after_camera_calm: "calm s (after_camera k s)"
  by (cases k) (simp_all add: after_camera_def begin_calm calm.R_refl)

lemma enable_camera_calm: "calm s (enable_camera b k s)"
  by (auto simp: enable_camera_def after_camera_calm core_calm split: option.split)

lemma peer_created_calm: "calm s (peer_created pu p s)"
  by (cases pu) (auto simp: enable_camera_calm begin_calm end_call_calm core_calm split: option.split)

lemma mic_granted_calm: "calm s (mic_granted pu p st s)"
proof -
  let ?f = "\<lambda>c. c\<lparr>cs_local_stream := Some st\<rparr>"
  have "calm s (on_media (add_audio_tracks p st) s)" by (rule core_calm) simp
  moreover have u: "calm t (update_call ?f t)" for t by (rule update_call_calm) simp
  moreover have "calm t (peer_created pu p (update_call ?f t))" for t
    using peer_created_calm calm.R_trans u by blast
  ultimately have "calm s (peer_created pu p (update_call ?f (on_media (add_audio_tracks p st) s)))" using calm.R_trans by blast
  then show ?thesis by (simp add: mic_granted_def purpose_failed_calm)
qed


lemma create_connection_calm: "calm s (create_connection pu res s)"
proof -
  let ?t = "create_connection pu res s"
  have "ph_call ?t = ph_call s" "ph_camera ?t = ph_camera s" "ph_pending_offer ?t = ph_pending_offer s"
    by (simp_all add: create_connection_def wait_def Let_def new_peer_def new_stream_def split: option.split prod.split)
  moreover have m: "\<exists>o'. \<not> for_session o' \<and> marks (ph_media ?t) = marks (ph_media s) @ [(o', False)]"
      "ph_pc ?t = Some (length (md_peers (ph_media s)))"
    by (cases "ph_call s";
        simp add: create_connection_def wait_def Let_def new_peer_def new_stream_def marks_def)+
  moreover have l: "length (md_peers (ph_media ?t)) = Suc (length (md_peers (ph_media s)))"
    using m(1) by (metis length_marks length_append_singleton)
  moreover have "grows (marks (ph_media s)) (marks (ph_media ?t))"
    using m(1) l by (auto simp: grows_def nth_append)
  moreover have "\<not> snd (marks (ph_media ?t) ! length (md_peers (ph_media s)))"
      "\<not> for_session (fst (marks (ph_media ?t) ! length (md_peers (ph_media s))))"
    using m(1) by (auto simp: nth_append)
  ultimately show ?thesis by (cases "ph_call s") (simp_all add: calm_def call_inv_def abs_call_def)
qed

section \<open>Devices\<close>

lemma call_inv_idle: "call_inv s \<Longrightarrow> \<not> live_call s \<Longrightarrow> ph_camera s = None"
  by (auto simp: call_inv_def live_call_def split: option.splits)

lemma camera_on_calm:
  assumes "live_call s"
  shows "calm s (update_call (\<lambda>c. c\<lparr>cs_video := True, cs_local_camera := Some st\<rparr>) (s\<lparr>ph_camera := Some st\<rparr>))"
  using assms by (auto simp: calm_def call_inv_def abs_call_def live_call_def update_call_def split: option.splits)

lemma camera_off_calm: "calm s (update_call (\<lambda>c. c\<lparr>cs_video := False, cs_local_camera := None\<rparr>) (s\<lparr>ph_camera := None\<rparr>))"
  by (auto simp: calm_def call_inv_def abs_call_def update_call_def split: option.splits)

lemma core_update_call: "core t = core s \<Longrightarrow> core (update_call f t) = core (update_call f s)"
  by (simp add: core_def update_call_def)

lemma core_camera: "core t = core s \<Longrightarrow> core (t\<lparr>ph_camera := x\<rparr>) = core (s\<lparr>ph_camera := x\<rparr>)"
  by (simp add: core_def)

lemma camera_granted_calm: "calm s (camera_granted W notify conv i st s)"
proof (cases "live_call s")
  case True
  let ?s = "s\<lparr>ph_camera := Some st\<rparr>" and ?f = "\<lambda>c. c\<lparr>cs_video := True, cs_local_camera := Some st\<rparr>"
  let ?t = "case (ph_camera_sender ?s, first_video (Some st)) of
      (Some x, Some t) \<Rightarrow> on_media (replace_track x (Some t)) ?s | _ \<Rightarrow> ?s"
  have t: "core ?t = core ?s" by (simp split: option.split)
  have "camera_granted W notify conv i st s =
      (if notify then send_signal W conv (CallVideo i True) (update_call ?f ?t) else update_call ?f ?t)"
    unfolding camera_granted_def Let_def using True by (simp only: not_True_eq_False if_False)
  then have "core (camera_granted W notify conv i st s) = core (update_call ?f ?t)"
    by (simp only: core_ops split: if_split) simp
  also have "\<dots> = core (update_call ?f ?s)" by (rule core_update_call [OF t])
  finally show ?thesis using camera_on_calm [OF True] calm_core by blast
qed (simp add: camera_granted_def core_calm)

lemma core_stop_camera: "core (stop_camera_stream s) = core (s\<lparr>ph_camera := None\<rparr>)"
  by (simp add: stop_camera_stream_def core_def split: option.split)

lemma disable_camera_calm: "calm s (disable_camera W notify s)"
proof -
  let ?s = "stop_camera_stream s" and ?f = "\<lambda>c. c\<lparr>cs_video := False, cs_local_camera := None\<rparr>"
  let ?t = "case (ph_camera_sender ?s, ph_pc ?s) of (Some x, Some p) \<Rightarrow> on_media (replace_track x None) ?s | _ \<Rightarrow> ?s"
  have t: "core ?t = core ?s" by (simp split: option.split)
  have calm: "calm s (update_call ?f (s\<lparr>ph_camera := None\<rparr>))" by (rule camera_off_calm)
  show ?thesis
  proof (cases "ph_call s")
    case None
    then have "update_call ?f (s\<lparr>ph_camera := None\<rparr>) = s\<lparr>ph_camera := None\<rparr>" by (simp add: update_call_def)
    moreover have "disable_camera W notify s = ?t" unfolding disable_camera_def Let_def None option.case by (rule refl)
    then have "core (disable_camera W notify s) = core (s\<lparr>ph_camera := None\<rparr>)" by (simp only: t core_stop_camera)
    ultimately show ?thesis using calm calm_core by metis
  next
    case (Some c)
    have "core (disable_camera W notify s) = core (update_call ?f ?t)"
      unfolding disable_camera_def Let_def Some option.case by (simp only: core_ops split: if_split) simp
    also have "\<dots> = core (update_call ?f (s\<lparr>ph_camera := None\<rparr>))"
      by (rule core_update_call) (simp only: t core_stop_camera)
    finally show ?thesis using calm calm_core by blast
  qed
qed

lemma toggle_camera_calm: "calm s (toggle_camera W s)"
  by (simp add: toggle_camera_def disable_camera_calm enable_camera_calm calm.R_refl split: option.split)

lemma call_flag_calm:
  "calm s (update_call (\<lambda>c. c\<lparr>cs_sharing := b\<rparr>) s)" "calm s (update_call (\<lambda>c. c\<lparr>cs_remote_video := b\<rparr>) s)"
  "calm s (update_call (\<lambda>c. c\<lparr>cs_remote_sharing := b\<rparr>) s)" "calm s (update_call (\<lambda>c. c\<lparr>cs_muted := b\<rparr>) s)"
  "calm s (update_call (\<lambda>c. c\<lparr>cs_remote_audio := i\<rparr>) s)" "calm s (update_call (\<lambda>c. c\<lparr>cs_remote_camera := x\<rparr>) s)"
  "calm s (update_call (\<lambda>c. c\<lparr>cs_remote_screen := x\<rparr>) s)"
  by (rule update_call_calm; simp)+

lemma stop_screen_share_calm: "calm s (stop_screen_share s)"
proof -
  have "core (stop_screen_share s) = core s" by (simp add: stop_screen_share_def Let_def split: option.split)
  then show ?thesis by (rule core_calm)
qed

lemma flag_after: "core t = core s \<Longrightarrow> (\<And>u. calm u (update_call f u)) \<Longrightarrow> calm s (update_call f t)"
  using core_calm calm.R_trans by blast

lemma unshared_calm: "calm s (unshared W tell s)"
  by (rule calm_core [OF call_flag_calm(1) [of _ False]]) (simp add: unshared_def Let_def split: option.split prod.split)

lemma start_screen_share_calm: "calm s (start_screen_share s)"
  by (simp add: start_screen_share_def core_calm calm.R_refl split: option.split)

lemma share_on_calm: "calm s (share_on W conv i t s)"
  unfolding share_on_def by (rule calm_core [OF flag_after [OF _ call_flag_calm(1)]]) simp_all

lemma screen_picked_calm: "calm s (screen_picked W conv i st s)"
proof -
  have "calm s (share_on W conv i t (s\<lparr>ph_screen := Some t\<rparr>))" for t
    by (rule calm.R_trans [OF core_calm share_on_calm]) simp
  then show ?thesis by (simp add: screen_picked_def Let_def core_calm calm.R_refl split: option.split)
qed

lemma toggle_mute_calm: "calm s (toggle_mute s)"
proof -
  have "calm s (update_call (\<lambda>c. c\<lparr>cs_muted := b\<rparr>) (on_media (enable_tracks e ts) s))" for b e ts
    by (rule flag_after [OF _ call_flag_calm(4)]) simp
  then show ?thesis by (simp add: toggle_mute_def Let_def calm.R_refl split: option.split)
qed

lemma on_track_calm: "calm s (on_track p i t s)"
proof -
  have "calm s (update_call (\<lambda>c. c\<lparr>cs_remote_audio := a\<rparr>) (on_media (add_to_stream a t) s))" for a
    by (rule flag_after [OF _ call_flag_calm(5)]) simp
  moreover have "calm s (update_call f (s\<lparr>ph_media := m\<rparr>))"
    if "new_stream [t] (ph_media s) = (x, m)" "\<And>u. calm u (update_call f u)" for f m x
    using that(1) by (intro flag_after [OF core_media that(2)]) (auto simp: new_stream_def)
  ultimately show ?thesis
    by (auto simp: on_track_def Let_def call_flag_calm calm.R_refl split: option.split owner.split prod.split)
qed

lemma on_candidate_calm: "calm s (on_candidate p c s)"
  by (rule core_calm) (simp add: on_candidate_def Let_def start_timer_def split: owner.split)


section \<open>Every step follows the automaton\<close>

lemma flush_calm: "calm s (flush_rest cs k s)" "calm s (flush_queued_ice k s)"
proof -
  have f: "calm s (flush_rest cs k s)" for cs s
    by (simp add: flush_rest_def core_calm end_call_calm calm.R_refl split: list.split option.split after_flush.split)
  show "calm s (flush_rest cs k s)" by (rule f)
  have "calm s (flush_rest (ph_queued s) k (s\<lparr>ph_queued := []\<rparr>))" by (rule calm.R_trans [OF core_calm f]) simp
  then show "calm s (flush_queued_ice k s)" by (simp add: flush_queued_ice_def Let_def f)
qed

lemma granted_calm:
  assumes "\<And>st t. calm t (f st t)" and "\<And>t. calm t (g t)"
  shows "calm s (granted out f g s)"
proof -
  have "core (s\<lparr>ph_media := snd (capture a v (ph_media s))\<rparr>) = core s" for a v
    by (rule core_media) (simp add: capture_def)
  then have "calm s (f st (s\<lparr>ph_media := snd (capture a v (ph_media s))\<rparr>))" for st a v
    using assms(1) core_calm calm.R_trans by blast
  then show ?thesis using assms(2) by (simp add: granted_def Let_def split: outcome.split prod.split) (metis snd_conv)
qed

lemma described_calm: "(\<And>sdp t. calm t (f sdp t)) \<Longrightarrow> (\<And>t. calm t (g t)) \<Longrightarrow> calm s (described out f g s)"
  by (simp add: described_def split: outcome.split)

lemma settled_calm: "(\<And>t. calm t (f t)) \<Longrightarrow> (\<And>t. calm t (g t)) \<Longrightarrow> calm s (settled out f g s)"
  by (simp add: settled_def split: outcome.split)

lemma after_core_calm: "core t = core s \<Longrightarrow> (\<And>u. calm u (f u)) \<Longrightarrow> calm s (f t)"
  using core_calm calm.R_trans by blast

lemma resume_calm: "calm s (resume W t out s)"
proof (cases t)
  case (TIce pu)
  then show ?thesis by (simp add: create_connection_calm purpose_failed_calm split: outcome.split)
next
  case (TMic pu p)
  then show ?thesis by (simp add: granted_calm mic_granted_calm purpose_failed_calm)
next
  case (TCamera notify conv i k)
  have "calm s (granted out (camera_granted W notify conv i) (show_toast ''camera_failed'') s)"
    by (rule granted_calm) (simp_all add: camera_granted_calm core_calm)
  then show ?thesis unfolding TCamera resume.simps by (rule calm.R_trans [OF _ after_camera_calm])
next
  case (TRemoteOffer conv i video p sdp)
  have "calm s (enable_camera b k (set_remote p sdp trs s))" "calm s (begin_answer conv i p (set_remote p sdp trs s))"
    for b k trs
    by (rule after_core_calm; simp add: enable_camera_calm begin_calm)+
  then show ?thesis by (auto simp: TRemoteOffer end_call_calm split: outcome.split)
next
  case (TRemoteAnswer p sdp)
  have "calm s (flush_queued_ice ThenConnected (set_remote p sdp [] s))" for s
    by (rule after_core_calm) (simp_all add: flush_calm)
  then show ?thesis by (simp add: TRemoteAnswer settled_calm end_call_calm)
next
  case (TPick conv i)
  then show ?thesis by (simp add: granted_calm screen_picked_calm core_calm calm.R_refl)
next
  case (TShareSet conv i t x)
  have "calm s (share_on W conv i t (on_media (replace_track x (Some t)) s))" for s
    by (rule after_core_calm) (simp_all add: share_on_calm)
  then show ?thesis by (auto simp: TShareSet settled_calm core_calm calm.R_refl)
qed (simp_all add: described_calm settled_calm end_call_calm core_calm flush_calm unshared_calm)

lemma end_after_calm: "core t = core s \<Longrightarrow> calm s (end_call r n t)"
  by (rule after_core_calm) (simp_all add: end_call_calm)

lemma run_timer_calm:
  assumes "call_in Ended s \<longrightarrow> tm \<noteq> EndTimer"
  shows "calm s (run_timer W tm s)"
  using assms
  by (cases tm) (simp_all add: end_after_calm end_call_calm core_calm calm.R_refl Let_def retry_due_def)

lemma add_candidates_calm: "calm s (add_candidates cs s)"
  by (rule core_calm) simp

text \<open>A signal other than an offer or an answer at most ends the call.\<close>

lemma other_signal_calm:
  assumes "\<And>i sdp v cs. sig \<noteq> CallOffer i sdp v cs" and "\<And>i sdp v cs. sig \<noteq> CallAnswer i sdp v cs"
  shows "calm s (on_call_signal W sender conv sig s)"
  using assms
  by (cases sig) (auto simp: add_candidates_calm end_call_calm call_flag_calm calm.R_refl)

lemma own_device_calm: "calm s (own_device sig s)"
  by (simp add: own_device_def end_call_calm calm.R_refl split: call_signal.split)

text \<open>A step keeps the invariant and follows the automaton.\<close>

definition follows :: "phone \<Rightarrow> phone \<Rightarrow> bool" where
  "follows s t \<longleftrightarrow> (call_inv s \<longrightarrow> call_inv t \<and> grows (marks (ph_media s)) (marks (ph_media t)))
     \<and> lifecycle (abs_call s) (abs_call t)"

lemma calm_follows: "calm s t \<Longrightarrow> follows s t"
  using lifecycle_ended by (auto simp: calm_def follows_def intro: lifecycle.stay)

lemma follows_core: "follows s t \<Longrightarrow> core u = core t \<Longrightarrow> follows s u"
  using core_inv [of u t] core_abs [of u t] by (simp add: follows_def)

lemma dropped_follows: "call_in Ended s \<Longrightarrow> follows s (s\<lparr>ph_call := None\<rparr>)"
  by (auto simp: follows_def call_inv_def abs_call_def call_in_def intro: lifecycle.gone split: option.splits)

lemma fresh_follows:
  assumes "\<not> live_call s" and "cs_local_camera c = None" and "\<not> cs_video c"
    and "if cs_incoming c then cs_status c = RingingIn \<and> off \<noteq> None else cs_status c = RingingOut"
  shows "follows s (s\<lparr>ph_pending_offer := off, ph_call := Some c\<rparr>)"
  using assms
  by (auto simp: follows_def call_inv_def abs_call_def live_call_def intro: lifecycle.intros split: option.splits if_splits)

lemma connecting_follows:
  assumes "call_in RingingIn s \<or> call_in RingingOut s"
  shows "follows s (update_call (\<lambda>c. c\<lparr>cs_status := CallConnecting\<rparr>) s)"
    "follows s (update_call (\<lambda>c. c\<lparr>cs_status := CallConnecting, cs_remote_video := b\<rparr>) s)"
  using assms
  by (auto simp: follows_def call_inv_def abs_call_def call_in_def update_call_def intro: lifecycle.intros split: option.splits)

lemma connection_follows: "follows s (on_connection p st s)"
proof -
  have "follows s (update_call (\<lambda>c. c\<lparr>cs_status := Active, cs_started_at := g c\<rparr>) s)" for g
    by (auto simp: follows_def call_inv_def abs_call_def update_call_def intro: lifecycle.intros split: option.splits)
  then show ?thesis
    by (simp add: on_connection_def calm_follows calm.R_refl end_call_calm core_calm split: peer_state.split)
qed


lemma fresh_state_call: "fresh_state i conv p inc st s = (c, t) \<Longrightarrow>
    core t = core s \<and> cs_local_camera c = None \<and> \<not> cs_video c \<and> cs_incoming c = inc \<and> cs_status c = st \<and> cs_id c = i"
  by (auto simp: fresh_state_def new_stream_def Let_def intro!: core_media)

lemma core_same_call: "core t = core s \<Longrightarrow> core (t\<lparr>ph_call := x\<rparr>) = core (s\<lparr>ph_call := x\<rparr>)"
  by (simp add: core_def)

lemma start_call_follows: "follows s (start_call W conv_id video s)"
proof -
  have go: "follows s (wait tk (t\<lparr>ph_call := Some c\<rparr>))"
    if "\<not> live_call s" "fresh_state i conv_id p False RingingOut (s\<lparr>ph_app := a\<rparr>) = (c, t)" for i p a c t tk
  proof -
    note f = fresh_state_call [OF that(2)]
    have "follows s (s\<lparr>ph_pending_offer := ph_pending_offer s, ph_call := Some c\<rparr>)"
      using f by (intro fresh_follows [OF that(1)]) simp_all
    moreover have "core (wait tk (t\<lparr>ph_call := Some c\<rparr>)) = core (s\<lparr>ph_pending_offer := ph_pending_offer s, ph_call := Some c\<rparr>)"
      using f by (simp add: core_same_call [of t s])
    ultimately show ?thesis by (rule follows_core)
  qed
  show ?thesis
    by (auto simp: start_call_def Let_def calm_follows calm.R_refl core_calm intro!: go split: option.split prod.split)
qed

lemma offer_follows: "follows s (on_offer W sender conv i sdp v cs s)"
proof -
  have go: "follows s (set_ring tm (t\<lparr>ph_call := Some (c\<lparr>cs_remote_video := b\<rparr>)\<rparr>))"
    if "\<not> live_call s" "fresh_state i conv sender True RingingIn (s\<lparr>ph_pending_offer := Some sdp, ph_queued := q\<rparr>) = (c, t)"
    for b c t q tm
  proof -
    note f = fresh_state_call [OF that(2)]
    let ?s = "s\<lparr>ph_pending_offer := Some sdp\<rparr>" and ?c = "c\<lparr>cs_remote_video := b\<rparr>"
    have "follows s (s\<lparr>ph_pending_offer := Some sdp, ph_call := Some ?c\<rparr>)"
      using f by (intro fresh_follows [OF that(1)]) simp_all
    moreover have "core t = core ?s" using f by (simp add: core_def)
    then have "core (set_ring tm (t\<lparr>ph_call := Some ?c\<rparr>)) = core (s\<lparr>ph_pending_offer := Some sdp, ph_call := Some ?c\<rparr>)"
      using core_same_call [of t ?s "Some ?c"] by simp
    ultimately show ?thesis by (rule follows_core)
  qed
  show ?thesis
    by (auto simp: on_offer_def Let_def calm_follows add_candidates_calm core_calm intro!: go split: prod.split)
qed

lemma answer_follows: "follows s (on_answer i sdp v cs s)"
proof -
  have "follows s (wait tk ((update_call (\<lambda>c. c\<lparr>cs_status := CallConnecting, cs_remote_video := b\<rparr>)
      (stop_retry (clear_ring s)))\<lparr>ph_queued := q\<rparr>))" if "call_in RingingOut s" for b q and tk :: task
  proof -
    let ?f = "\<lambda>c. c\<lparr>cs_status := CallConnecting, cs_remote_video := b\<rparr>"
    have "follows s (update_call ?f s)" using that by (simp add: connecting_follows)
    moreover have "core (wait tk ((update_call ?f (stop_retry (clear_ring s)))\<lparr>ph_queued := q\<rparr>)) = core (update_call ?f s)"
      using core_update_call [of "stop_retry (clear_ring s)" s ?f] by simp
    ultimately show ?thesis by (rule follows_core)
  qed
  then show ?thesis
    unfolding on_answer_def Let_def
    by (simp add: calm_follows add_candidates_calm calm.R_refl del: append_Nil2 split: option.split bool.split)
qed

lemma accept_follows: "follows s (accept_call s)"
proof -
  let ?f = "\<lambda>c. c\<lparr>cs_status := CallConnecting\<rparr>"
  have "follows s (wait tk (update_call ?f (clear_ring s)))" if "call_in RingingIn s" for tk
  proof -
    have "follows s (update_call ?f s)" using that by (simp add: connecting_follows)
    moreover have "core (wait tk (update_call ?f (clear_ring s))) = core (update_call ?f s)"
      using core_update_call [of "clear_ring s" s ?f] by simp
    ultimately show ?thesis by (rule follows_core)
  qed
  then show ?thesis by (auto simp: accept_call_def call_in_def calm_follows calm.R_refl split: option.split)
qed

lemma signal_follows: "follows s (handle_call_signal W sender device conv pl s)"
proof -
  have "follows s (on_call_signal W sender conv sig s)" for sig
  proof (cases sig)
    case (CallOffer i sdp v cs)
    then show ?thesis by (simp add: offer_follows)
  next
    case (CallAnswer i sdp v cs)
    then show ?thesis by (simp add: answer_follows)
  qed (rule calm_follows, rule other_signal_calm; simp)+
  then show ?thesis
    by (simp add: handle_call_signal_def calm_follows calm.R_refl own_device_calm split: option.split payload.split)
qed

lemma fire_follows: "follows s (fire W i s)"
proof -
  have t: "follows s (run_timer W tm u)" if u: "core u = core s" for tm u
    supply e = arg_cong [OF u, of fst, unfolded core_def fst_conv]
  proof (cases "tm = EndTimer \<and> call_in Ended s")
    case True
    then have "call_in Ended u" by (simp add: call_in_def e)
    then have "follows u (run_timer W tm u)" using True by (simp add: dropped_follows)
    moreover have "call_inv u = call_inv s" "abs_call u = abs_call s" "marks (ph_media u) = marks (ph_media s)"
      using core_inv [OF u] core_abs [OF u] by simp_all
    ultimately show ?thesis by (simp add: follows_def)
  next
    case False
    then have "calm u (run_timer W tm u)" unfolding call_in_def e [symmetric]
      by (intro run_timer_calm) (auto simp: call_in_def)
    then show ?thesis using core_calm [OF u] calm.R_trans calm_follows by blast
  qed
  have "core (s\<lparr>ph_timers := ts\<rparr>) = core s" for ts by simp
  then show ?thesis
    by (simp add: fire_def t calm_follows calm.R_refl split: option.split del: run_timer.simps)
qed

lemma perform_follows: "follows s (perform W ev s)"
proof (cases ev)
  case (Resume i out)
  have "calm s (resume W tk out (s\<lparr>ph_tasks := ts\<rparr>))" for tk ts
    by (rule after_core_calm) (simp_all add: resume_calm)
  then show ?thesis by (simp add: Resume calm_follows del: resume.simps)
next
  case (TrackEnded t)
  have "calm s (stop_screen_share (on_media (stop_tracks [t]) s))"
    by (rule after_core_calm) (simp_all add: stop_screen_share_calm)
  then show ?thesis by (simp add: TrackEnded Let_def calm_follows core_calm)
next
  case Hangup
  then show ?thesis by (simp add: hangup_def calm_follows calm.R_refl end_after_calm split: option.split)
next
  case Reject
  then show ?thesis by (simp add: reject_call_def calm_follows calm.R_refl end_after_calm split: option.split)
next
  case Dismiss
  then show ?thesis by (simp add: dismiss_ended_call_def calm_follows calm.R_refl dropped_follows)
next
  case (Elsewhere a v)
  have "core (s\<lparr>ph_app := a, ph_in_voice := v\<rparr>) = core s" by (simp add: core_def)
  then show ?thesis by (simp add: Elsewhere calm_follows core_calm)
qed (simp_all add: start_call_follows accept_follows signal_follows fire_follows connection_follows calm_follows
  toggle_mute_calm toggle_camera_calm start_screen_share_calm stop_screen_share_calm on_track_calm on_candidate_calm)



lemma call_inv_reachable: "(call_step W)\<^sup>*\<^sup>* (new_phone a) s \<Longrightarrow> call_inv s"
proof (induction rule: rtranclp_induct)
  case base
  show ?case by (simp add: call_inv_def new_phone_def)
next
  case (step t u)
  from step.hyps(2) step.IH show ?case
    using perform_follows unfolding follows_def by (cases rule: call_step.cases) blast
qed


section \<open>Who opens a device\<close>

text \<open>Tasks that wait for the microphone, the camera or the screen, or come to it.\<close>

fun opens :: "task \<Rightarrow> bool" where
  "opens (TIce pu) = True"
| "opens (TMic pu p) = True"
| "opens (TCamera notify conv i k) = True"
| "opens (TPick conv i) = True"
| "opens _ = False"

definition inert :: "phone \<Rightarrow> phone \<Rightarrow> bool" where
  "inert s t \<longleftrightarrow> filter opens (ph_tasks t) = filter opens (ph_tasks s)
     \<and> set (md_live (ph_media t)) \<subseteq> set (md_live (ph_media s))"

interpretation inert: frame inert
  by unfold_locales (auto simp: inert_def)

text \<open>What the definition reads; the other fields do not matter.\<close>

lemma inert_cong:
  "ph_tasks t = ph_tasks s \<Longrightarrow> set (md_live (ph_media t)) \<subseteq> set (md_live (ph_media s)) \<Longrightarrow> inert s t"
  by (simp add: inert_def)

lemma inert_wait: "\<not> opens tk \<Longrightarrow> inert s (wait tk s)"
  by (simp add: inert_def wait_def)

lemma inert_small:
  "inert s (clear_id i s)" "inert s (stop_retry s)" "inert s (clear_ring s)" "inert s (set_ring tm s)"
  "inert s (set_retry tm s)" "inert s (send_signal W conv sig s)" "inert s (show_toast key s)"
  "inert s (end_toast r s)" "inert s (update_call f s)" "inert s (add_candidates cs s)"
  "inert s (stop_screen_track s)" "inert s (stop_camera_stream s)" "inert s (stop_mic s)" "inert s (close_pc s)"
  by (auto intro!: inert_cong simp: clear_id_def stop_retry_def clear_ring_def set_ring_def set_retry_def start_timer_def
      send_signal_def show_toast_def end_toast_def update_call_def add_candidates_def stop_screen_track_def
      stop_camera_stream_def stop_mic_def close_pc_def on_media_def Let_def split: option.split)

lemma inert_after: "inert s t \<Longrightarrow> inert t u \<Longrightarrow> inert s u"
  by (rule inert.R_trans)

lemma inert_release: "inert s (release s)"
proof -
  have f: "inert t (t\<lparr>ph_ice_timer := None, ph_outgoing := [], ph_all := [], ph_queued := [], ph_pending_offer := None\<rparr>)"
    "inert t (t\<lparr>ph_camera_sender := None, ph_screen_sender := None, ph_screen_slot := None\<rparr>)" for t
    by (simp_all add: inert_cong)
  show ?thesis unfolding release_def Let_def
    by (rule inert_after [OF _ inert_small(14)], rule inert_after [OF _ inert_small(13)],
        rule inert_after [OF _ f(2)], rule inert_after [OF _ inert_small(12)], rule inert_after [OF _ inert_small(11)],
        rule inert_after [OF _ f(1)], rule inert_after [OF _ inert_small(1)], rule inert_after [OF _ inert_small(2)],
        rule inert_small(3))
qed

lemma inert_end_call: "inert s (end_call r n s)"
proof -
  have "ph_tasks (end_call r n s) = ph_tasks (release s)" "ph_media (end_call r n s) = ph_media (release s)"
    by (simp_all add: end_call_def Let_def start_timer_def clear_id_def end_toast_def split: option.split)
  then show ?thesis using inert_release [of s] by (simp add: inert_def)
qed


lemma inert_same: "ph_tasks t = ph_tasks s \<Longrightarrow> ph_media t = ph_media s \<Longrightarrow> inert s t"
  by (simp add: inert_cong)

lemma inert_end: "inert s t \<Longrightarrow> inert s (end_call r n t)"
  using inert_end_call inert.R_trans by blast

lemma inert_media:
  "set (md_live (f (ph_media s))) \<subseteq> set (md_live (ph_media s)) \<Longrightarrow> inert s (on_media f s)"
  by (simp add: inert_def on_media_def)

lemma inert_share: "inert s (stop_screen_share s)"
proof -
  have "inert t (case (ph_screen_sender t, ph_pc t) of (Some x, Some p) \<Rightarrow> on_media (replace_track x None) t | _ \<Rightarrow> t)" for t
    by (auto simp: inert_media inert.R_refl split: option.split)
  then show ?thesis unfolding stop_screen_share_def Let_def
    by (rule inert.R_trans [OF inert_small(11) inert.R_trans [OF _ inert_wait]]) simp
qed

lemma inert_fresh: "fresh_state i conv p inc st s = (c, t) \<Longrightarrow> ph_tasks t = ph_tasks s \<and> md_live (ph_media t) = md_live (ph_media s)"
  by (auto simp: fresh_state_def new_stream_def Let_def)

lemma inert_offer: "inert s (on_offer W sender conv i sdp v cs s)"
proof -
  have "inert s (set_ring tm (t\<lparr>ph_call := x\<rparr>))"
    if "fresh_state i conv sender True RingingIn (s\<lparr>ph_pending_offer := Some sdp, ph_queued := q\<rparr>) = (c, t)" for c t q tm x
    using inert_fresh [OF that] by (intro inert.R_trans [OF _ inert_small(4)]) (simp add: inert_cong)
  then show ?thesis by (auto simp: on_offer_def Let_def inert_small split: prod.split)
qed

lemma inert_answer: "inert s (on_answer i sdp v cs s)"
proof -
  have "inert s (wait (TRemoteAnswer p sdp) ((update_call f (stop_retry (clear_ring s)))\<lparr>ph_queued := q\<rparr>))" for p f q
  proof -
    let ?t = "update_call f (stop_retry (clear_ring s))"
    have "inert s ?t" by (rule inert.R_trans [OF inert.R_trans [OF inert_small(3) inert_small(2)] inert_small(9)])
    moreover have "inert ?t (?t\<lparr>ph_queued := q\<rparr>)" by (simp add: inert_same)
    moreover have "inert (?t\<lparr>ph_queued := q\<rparr>) (wait (TRemoteAnswer p sdp) (?t\<lparr>ph_queued := q\<rparr>))" by (simp add: inert_wait)
    ultimately show ?thesis using inert.R_trans by blast
  qed
  then show ?thesis unfolding on_answer_def Let_def
    by (simp add: inert_small inert.R_refl del: append_Nil2 split: option.split bool.split)
qed

lemma inert_signal: "inert s (handle_call_signal W sender device conv pl s)"
proof -
  have "inert s (on_call_signal W sender conv sig s)" for sig
    by (cases sig) (simp_all add: inert_offer inert_answer inert_small inert_end_call inert.R_refl)
  moreover have "inert s (own_device sig s)" for sig
    by (simp add: own_device_def inert_end_call inert.R_refl split: call_signal.split)
  ultimately show ?thesis
    by (simp add: handle_call_signal_def inert.R_refl split: option.split payload.split)
qed

lemma inert_timer: "inert s (fire W i s)"
proof -
  have t: "inert u (run_timer W tm u)" for tm u
    by (cases tm) (auto simp: Let_def inert_small inert_end inert_end_call inert_same inert.R_refl
        intro!: inert.R_trans [OF _ inert_small(6)])
  have "inert s (s\<lparr>ph_timers := ts\<rparr>)" for ts by (simp add: inert_same)
  then have "inert s (run_timer W tm (s\<lparr>ph_timers := ts\<rparr>))" for tm ts using t inert.R_trans by blast
  then show ?thesis by (simp add: fire_def t inert.R_refl del: run_timer.simps split: option.split)
qed

lemma inert_events: "inert s (on_track p i t s)" "inert s (on_candidate p c s)" "inert s (on_connection p st s)"
proof -
  have "inert s (update_call f (s\<lparr>ph_media := m\<rparr>))" if "new_stream [t] (ph_media s) = (x, m)" for f m x
    using that by (intro inert.R_trans [OF _ inert_small(9)]) (auto simp: inert_cong new_stream_def)
  moreover have "inert s (update_call f (on_media (add_to_stream a t) s))" for f a
    by (intro inert.R_trans [OF inert_media inert_small(9)]) (simp add: add_to_stream_def)
  ultimately show "inert s (on_track p i t s)"
    by (auto simp: on_track_def Let_def inert.R_refl split: owner.split prod.split)
  show "inert s (on_candidate p c s)"
    by (simp add: on_candidate_def Let_def start_timer_def inert_same inert.R_refl split: owner.split)
  show "inert s (on_connection p st s)"
    by (simp add: on_connection_def inert_small inert_end_call inert.R_refl split: peer_state.split)
qed

lemma inert_person:
  "inert s (hangup W s)" "inert s (reject_call W s)" "inert s (toggle_mute s)" "inert s (dismiss_ended_call s)"
proof -
  show "inert s (hangup W s)" "inert s (reject_call W s)"
    by (simp_all add: hangup_def reject_call_def inert.R_refl inert_end inert_small split: option.split)
  have "inert s (update_call f (on_media (enable_tracks b ts) s))" for f b ts
    by (intro inert.R_trans [OF inert_media inert_small(9)]) (simp add: enable_tracks_def)
  then show "inert s (toggle_mute s)" by (simp add: toggle_mute_def Let_def inert.R_refl split: option.split)
  show "inert s (dismiss_ended_call s)" by (simp add: dismiss_ended_call_def inert_same inert.R_refl)
qed

fun may_open :: "call_event \<Rightarrow> bool" where
  "may_open (Start conv video) = True"
| "may_open Accept = True"
| "may_open Camera = True"
| "may_open Share = True"
| "may_open (Resume i out) = True"
| "may_open _ = False"



section \<open>What the end of a call releases\<close>

definition held :: "phone \<Rightarrow> nat list" where
  "held s = (case ph_screen s of None \<Rightarrow> [] | Some t \<Rightarrow> [t])
     @ (case ph_camera s of None \<Rightarrow> [] | Some st \<Rightarrow> ms_tracks st)
     @ (case ph_call s of None \<Rightarrow> [] | Some c \<Rightarrow> (case cs_local_stream c of None \<Rightarrow> [] | Some st \<Rightarrow> ms_tracks st))"

lemma stop_screen_live:
  "md_live (ph_media (stop_screen_track s)) = filter (\<lambda>t. t \<notin> set (case ph_screen s of None \<Rightarrow> [] | Some t \<Rightarrow> [t])) (md_live (ph_media s))"
  by (simp add: stop_screen_track_def on_media_def split: option.split)

lemma stop_camera_live:
  "md_live (ph_media (stop_camera_stream s)) =
     filter (\<lambda>t. t \<notin> set (case ph_camera s of None \<Rightarrow> [] | Some st \<Rightarrow> ms_tracks st)) (md_live (ph_media s))"
  by (simp add: stop_camera_stream_def on_media_def split: option.split)

lemma stop_mic_live:
  "md_live (ph_media (stop_mic s)) = filter (\<lambda>t. t \<notin> set (case ph_call s of None \<Rightarrow> [] | Some c \<Rightarrow>
      (case cs_local_stream c of None \<Rightarrow> [] | Some st \<Rightarrow> ms_tracks st))) (md_live (ph_media s))"
  by (simp add: stop_mic_def on_media_def split: option.split)

lemma close_pc_media:
  "md_live (ph_media (close_pc s)) = md_live (ph_media s)"
  "ph_pc s = Some p \<Longrightarrow> p < length (md_peers (ph_media s)) \<Longrightarrow> peer_closed p (ph_media (close_pc s))"
  by (simp_all add: close_pc_def on_media_def close_peer_connection_def on_peer_def peer_closed_def split: option.split)

lemma release_live: "md_live (ph_media (release s)) = filter (\<lambda>t. t \<notin> set (held s)) (md_live (ph_media s))"
  unfolding release_def Let_def
  by (simp add: close_pc_media stop_mic_live stop_camera_live stop_screen_live held_def conj_assoc)

lemma length_peers_stop [simp]:
  "length (md_peers (ph_media (stop_screen_track s))) = length (md_peers (ph_media s))"
  "length (md_peers (ph_media (stop_camera_stream s))) = length (md_peers (ph_media s))"
  "length (md_peers (ph_media (stop_mic s))) = length (md_peers (ph_media s))"
  by (simp_all add: stop_screen_track_def stop_camera_stream_def stop_mic_def on_media_def split: option.split)

lemma release_closed:
  assumes "ph_pc s = Some p" and "p < length (md_peers (ph_media s))"
  shows "peer_closed p (ph_media (release s))"
  unfolding release_def Let_def by (rule close_pc_media(2)) (simp_all add: assms)

lemma no_timers:
  "ph_timers (close_pc s) = ph_timers s" "ph_timers (stop_mic s) = ph_timers s"
  "ph_timers (stop_camera_stream s) = ph_timers s" "ph_timers (stop_screen_track s) = ph_timers s"
  "ph_timers (clear_id i s) = filter (\<lambda>t. Some (fst t) \<noteq> i) (ph_timers s)"
  "ph_timers (stop_retry s) = filter (\<lambda>t. Some (fst t) \<noteq> ph_retry_timer s) (ph_timers s)"
  "ph_timers (clear_ring s) = filter (\<lambda>t. Some (fst t) \<noteq> ph_ring_timer s) (ph_timers s)"
  "ph_retry_timer (clear_ring s) = ph_retry_timer s" "ph_ice_timer (stop_retry s) = ph_ice_timer s"
  "ph_ice_timer (clear_ring s) = ph_ice_timer s"
  by (simp_all add: close_pc_def stop_mic_def stop_camera_stream_def stop_screen_track_def clear_id_def stop_retry_def
      clear_ring_def on_media_def split: option.split)

lemma release_timers:
  "ph_timers (release s) = filter (\<lambda>t. Some (fst t) \<notin> {ph_ring_timer s, ph_retry_timer s, ph_ice_timer s}) (ph_timers s)"
  unfolding release_def Let_def by (simp add: no_timers conj_ac)

text \<open>C21: Hanging up lets go of everything the call holds: the other side is told, the call has ended, exactly the
tracks of the microphone, the camera and the screen that the call holds are stopped, its connection is closed,
and the ring, repeat and candidate timers no longer fire.\<close>

theorem hangup_releases:
  assumes "ph_call s = Some c" and "cs_status c \<noteq> Ended" and "call_inv s"
  shows "let t = perform W Hangup s in
    ph_sent t = ph_sent s @ [(cs_conv_id c, Call (CallHangup (cs_id c)))]
    \<and> abs_call t = Some (cs_id c, Ended)
    \<and> md_live (ph_media t) = filter (\<lambda>x. x \<notin> set (held s)) (md_live (ph_media s))
    \<and> (\<forall>p. ph_pc s = Some p \<longrightarrow> peer_closed p (ph_media t)) \<and> ph_pc t = None
    \<and> (\<forall>(i, tm) \<in> set (ph_timers t). Some i \<notin> {ph_ring_timer s, ph_retry_timer s, ph_ice_timer s} \<or> (i = ph_ids s \<and> tm = EndTimer))"
proof -
  let ?u = "send_signal W (cs_conv_id c) (CallHangup (cs_id c)) s"
  have u: "ph_call ?u = Some c" "ph_pc ?u = ph_pc s" "ph_media ?u = ph_media s" "held ?u = held s"
    "ph_ring_timer ?u = ph_ring_timer s" "ph_retry_timer ?u = ph_retry_timer s" "ph_ice_timer ?u = ph_ice_timer s"
    "ph_timers ?u = ph_timers s" "ph_ids ?u = ph_ids s"
    "ph_sent ?u = ph_sent s @ [(cs_conv_id c, Call (CallHangup (cs_id c)))]"
    using assms(1) by (simp_all add: send_signal_def held_def)
  have ids: "ph_ids (release ?u) = ph_ids s"
    by (simp add: release_def Let_def close_pc_def stop_mic_def stop_camera_stream_def stop_screen_track_def
        clear_id_def stop_retry_def clear_ring_def on_media_def u split: option.split)
  have t: "perform W Hangup s = end_call CallEnded False ?u" using assms by (simp add: hangup_def)
  have "ph_timers (end_call CallEnded False ?u) =
      filter (\<lambda>t. Some (fst t) \<noteq> ph_end_timer (release ?u)) (ph_timers (release ?u)) @ [(ph_ids s, EndTimer)]"
    using assms(2) by (simp add: end_call_def Let_def u start_timer_def clear_id_def ids)
  then have tm: "\<forall>(i, tm) \<in> set (ph_timers (end_call CallEnded False ?u)).
      Some i \<notin> {ph_ring_timer s, ph_retry_timer s, ph_ice_timer s} \<or> (i = ph_ids s \<and> tm = EndTimer)"
    by (auto simp: release_timers u)
  have "ph_pc s = Some p \<Longrightarrow> p < length (md_peers (ph_media s))" for p using assms(3) by (simp add: call_inv_def)
  then have "ph_pc s = Some p \<Longrightarrow> peer_closed p (ph_media (release ?u))" for p using release_closed [of ?u p] u by simp
  then show ?thesis using assms(2) tm unfolding Let_def t
    by (simp add: end_call_sel release_live u abs_call_def)
qed


section \<open>Overtaking\<close>

text \<open>A sequence of events, each of which can happen when its turn comes.\<close>

fun happens :: "world \<Rightarrow> call_event list \<Rightarrow> phone \<Rightarrow> phone option" where
  "happens W [] s = Some s"
| "happens W (ev # evs) s = (if enabled ev s then happens W evs (perform W ev s) else None)"

lemma happens_reachable: "happens W evs s = Some t \<Longrightarrow> (call_step W)\<^sup>*\<^sup>* s t"
  by (induction evs arbitrary: s) (auto split: if_splits intro: converse_rtranclp_into_rtranclp call_step.step)

lemma tasks_sel:
  "ph_tasks (close_pc s) = ph_tasks s" "ph_tasks (stop_mic s) = ph_tasks s" "ph_tasks (stop_camera_stream s) = ph_tasks s"
  "ph_tasks (stop_screen_track s) = ph_tasks s" "ph_tasks (clear_id i s) = ph_tasks s"
  "ph_tasks (stop_retry s) = ph_tasks s" "ph_tasks (clear_ring s) = ph_tasks s"
  "ph_tasks (send_signal W conv sig s) = ph_tasks s"
  by (simp_all add: close_pc_def stop_mic_def stop_camera_stream_def stop_screen_track_def clear_id_def stop_retry_def
      clear_ring_def on_media_def send_signal_def split: option.split)

lemma end_call_tasks: "ph_tasks (end_call r n s) = ph_tasks s" "ph_screen (end_call r n s) = None"
proof -
  have "ph_tasks (release s) = ph_tasks s" by (simp add: release_def Let_def tasks_sel)
  then show "ph_tasks (end_call r n s) = ph_tasks s" "ph_screen (end_call r n s) = None"
    by (simp_all add: end_call_def Let_def start_timer_def clear_id_def end_toast_def split: option.split)
qed

text \<open>What the resumed set-up does to a phone whose call has ended.\<close>

definition setting_up :: "string \<Rightarrow> string \<Rightarrow> call_state \<Rightarrow> phone \<Rightarrow> bool" where
  "setting_up conv i c s \<longleftrightarrow> ph_call s = Some c \<and> cs_id c = i \<and> cs_conv_id c = conv \<and> cs_status c = Ended \<and> \<not> cs_video c
     \<and> ph_camera s = None \<and> ph_screen s = None"

lemma late_connection:
  assumes "setting_up conv i c s" and "ph_tasks s = []" and "\<not> video"
  shows "\<exists>t p. resume W (TIce (Starting conv i video)) (GotTurn res) s = t \<and> setting_up conv i c t
    \<and> ph_tasks t = [TMic (Starting conv i video) p] \<and> \<not> peer_closed p (ph_media t) \<and> p < length (md_peers (ph_media t))
    \<and> pe_transceivers (md_peers (ph_media t) ! p) = [] \<and> ph_sent t = ph_sent s"
  using assms
  by (simp add: create_connection_def setting_up_def Let_def new_stream_def new_peer_def wait_def peer_closed_def)

lemma late_microphone:
  assumes "setting_up conv i c s" and "ph_tasks s = []" and "\<not> peer_closed p (ph_media s)" and "p < length (md_peers (ph_media s))"
    and "\<not> video"
  shows "\<exists>t c'. resume W (TMic (Starting conv i video) p) (GotStream [m] []) s = t \<and> setting_up conv i c' t
    \<and> ph_tasks t = [TOffer conv i p] \<and> \<not> peer_closed p (ph_media t) \<and> m \<in> set (md_live (ph_media t)) \<and> ph_sent t = ph_sent s"
  using assms
  by (simp add: granted_def capture_def mic_granted_def setting_up_def begin_offer_def ensure_video_slots_def Let_def ret_def
      wait_def peer_closed_def slot_streams_def attach_def first_video_def update_call_def on_media_def add_audio_tracks_def
      on_peer_def split: option.split)


lemma late_offer:
  assumes "setting_up conv i c s" and "ph_tasks s = []"
  shows "\<exists>t. resume W (TOffer conv i p) (GotSdp (Some sdp)) s = t \<and> setting_up conv i c t
    \<and> ph_tasks t = [TLocalOffer conv i p (Some sdp)] \<and> ph_media t = ph_media s \<and> ph_sent t = ph_sent s"
  using assms by (simp add: described_def setting_up_def wait_def)

lemma late_sending:
  assumes "setting_up conv i c s" and "ph_tasks s = []"
  shows "\<exists>t. resume W (TLocalOffer conv i p (Some sdp)) Resolved s = t \<and> setting_up conv i c t
    \<and> md_live (ph_media t) = md_live (ph_media s)
    \<and> ph_sent t = ph_sent s @ [(conv, Call (CallOffer i sdp (Some False) None))]"
  using assms
  by (simp add: settled_def setting_up_def wait_def send_signal_def set_local_def on_media_def sdp_text_def our_video_def)

lemma hangup_leaves_setup:
  assumes "ph_call s = Some c" and "cs_status c = RingingOut"
  shows "\<exists>c' t. hangup W s = t \<and> setting_up (cs_conv_id c) (cs_id c) c' t \<and> ph_tasks t = ph_tasks s
    \<and> ph_sent t = ph_sent s @ [(cs_conv_id c, Call (CallHangup (cs_id c)))]"
proof -
  let ?c = "c\<lparr>cs_status := Ended, cs_end_reason := Some CallEnded, cs_local_stream := None, cs_local_camera := None,
      cs_video := False, cs_sharing := False\<rparr>"
  have "ph_call (hangup W s) = Some ?c" using assms by (simp add: hangup_def end_call_sel send_signal_def)
  then show ?thesis using assms
    by (intro exI [of _ ?c] exI [of _ "hangup W s"])
      (simp add: hangup_def setting_up_def end_call_sel end_call_tasks tasks_sel send_signal_def)
qed

text \<open>C24: Hanging up while a call is still being set up does not stop the set-up: when the server's answer, the
microphone and the offer arrive afterwards, the other side is sent an offer of a call that has ended, and the
microphone stays on with no call to show it.\<close>

theorem hangup_does_not_stop_setup:
  assumes "ph_call s = Some c" and "cs_status c = RingingOut"
    and "ph_tasks s = [TIce (Starting (cs_conv_id c) (cs_id c) False)]"
  shows "\<exists>t. happens W [Hangup, Resume 0 (GotTurn res), Resume 0 (GotStream [m] []), Resume 0 (GotSdp (Some sdp)),
        Resume 0 Resolved] s = Some t
    \<and> abs_call t = Some (cs_id c, Ended) \<and> m \<in> set (md_live (ph_media t))
    \<and> ph_sent t = ph_sent s @ [(cs_conv_id c, Call (CallHangup (cs_id c))),
        (cs_conv_id c, Call (CallOffer (cs_id c) sdp (Some False) None))]"
proof -
  let ?conv = "cs_conv_id c" and ?i = "cs_id c"
  have drop: "setting_up conv i d (u\<lparr>ph_tasks := ts\<rparr>) = setting_up conv i d u" for conv i d u ts
    by (simp add: setting_up_def)
  obtain c1 t1 where 1: "hangup W s = t1" "setting_up ?conv ?i c1 t1" "ph_tasks t1 = ph_tasks s"
      "ph_sent t1 = ph_sent s @ [(?conv, Call (CallHangup ?i))]"
    using hangup_leaves_setup [OF assms(1,2)] by blast
  obtain t2 p where 2: "resume W (TIce (Starting ?conv ?i False)) (GotTurn res) (t1\<lparr>ph_tasks := []\<rparr>) = t2"
      "setting_up ?conv ?i c1 t2" "ph_tasks t2 = [TMic (Starting ?conv ?i False) p]" "\<not> peer_closed p (ph_media t2)"
      "p < length (md_peers (ph_media t2))" "pe_transceivers (md_peers (ph_media t2) ! p) = []" "ph_sent t2 = ph_sent t1"
    using late_connection [of ?conv ?i c1 "t1\<lparr>ph_tasks := []\<rparr>" False W res] 1(2) by (auto simp: drop)
  obtain t3 c3 where 3: "resume W (TMic (Starting ?conv ?i False) p) (GotStream [m] []) (t2\<lparr>ph_tasks := []\<rparr>) = t3"
      "setting_up ?conv ?i c3 t3" "ph_tasks t3 = [TOffer ?conv ?i p]" "\<not> peer_closed p (ph_media t3)"
      "m \<in> set (md_live (ph_media t3))" "ph_sent t3 = ph_sent t2"
    using late_microphone [of ?conv ?i c1 "t2\<lparr>ph_tasks := []\<rparr>" p False W m] 2 by (auto simp: drop)
  obtain t4 where 4: "resume W (TOffer ?conv ?i p) (GotSdp (Some sdp)) (t3\<lparr>ph_tasks := []\<rparr>) = t4"
      "setting_up ?conv ?i c3 t4" "ph_tasks t4 = [TLocalOffer ?conv ?i p (Some sdp)]" "ph_media t4 = ph_media t3"
      "ph_sent t4 = ph_sent t3"
    using late_offer [of ?conv ?i c3 "t3\<lparr>ph_tasks := []\<rparr>" W p sdp] 3 by (auto simp: drop)
  obtain t5 where 5: "resume W (TLocalOffer ?conv ?i p (Some sdp)) Resolved (t4\<lparr>ph_tasks := []\<rparr>) = t5"
      "setting_up ?conv ?i c3 t5" "md_live (ph_media t5) = md_live (ph_media t4)"
      "ph_sent t5 = ph_sent t4 @ [(?conv, Call (CallOffer ?i sdp (Some False) None))]"
    using late_sending [of ?conv ?i c3 "t4\<lparr>ph_tasks := []\<rparr>" W p sdp] 4 by (auto simp: drop)
  have "happens W [Hangup, Resume 0 (GotTurn res), Resume 0 (GotStream [m] []), Resume 0 (GotSdp (Some sdp)),
        Resume 0 Resolved] s = Some t5"
    using 1(1,3) 2(1,3) 3(1,3,4) 4(1,3,4) 5(1) assms(3) by (simp del: resume.simps)
  moreover have "abs_call t5 = Some (?i, Ended)" using 5(2) by (auto simp: setting_up_def abs_call_def)
  ultimately show ?thesis using 1(4) 2(7) 3(5,6) 4(4,5) 5(3,4) by simp
qed

text \<open>The same with the screen: it is picked after the call has ended and stays captured.\<close>

lemma late_share_stays:
  assumes "setting_up conv i c s" and "ph_screen_sender s = None"
  shows "let t = resume W (TPick conv i) (GotStream [] [v]) s in
    abs_call t = Some (i, Ended) \<and> ph_screen t = Some v \<and> v \<in> set (md_live (ph_media t))"
  using assms
  by (simp add: granted_def capture_def screen_picked_def first_video_def share_on_def send_signal_def update_call_def
      setting_up_def abs_call_def Let_def)

end
