(* ===== verification/CallExamples.thy ===== *)
theory CallExamples
  imports Examples CallsFacts
begin

text \<open>
  Alice calls Bob: closed examples of the properties of \<open>CallsFacts\<close>.
\<close>

definition her_world :: world where "her_world = the_world Untyped"

definition her_phone :: phone where "her_phone = new_phone her_app"

definition dialled :: phone where "dialled = perform her_world (Start chat False) her_phone"

lemma bob_nonempty: "bob \<noteq> []"
  by (simp add: bob_def)

lemma dialled_sel:
  "\<exists>c. ph_call dialled = Some c \<and> cs_id c = ticket \<and> cs_conv_id c = chat \<and> cs_status c = RingingOut \<and> \<not> cs_video c"
  "ph_tasks dialled = [TIce (Starting chat ticket False)]"
  by (simp_all add: dialled_def her_phone_def new_phone_def start_call_def live_call_def her_app_sel other_member_def
      the_chat_def session_for_def names_distinct fresh_state_def new_stream_def wait_def her_world_def the_world_def
      Let_def bob_nonempty)

lemma dialled_step: "call_step her_world her_phone dialled"
  unfolding dialled_def by (rule call_step.step) simp

lemma dialled_reachable: "(call_step her_world)\<^sup>*\<^sup>* (new_phone her_app) dialled"
  using dialled_step by (simp add: her_phone_def r_into_rtranclp)




lemma hangup_releases_witness: "abs_call (perform her_world Hangup dialled) = Some (ticket, Ended)"
proof -
  obtain c where c: "ph_call dialled = Some c" "cs_id c = ticket" "cs_status c = RingingOut" using dialled_sel(1) by blast
  show ?thesis
    using hangup_releases [OF c(1) _ call_inv_reachable [OF dialled_reachable], of her_world] c(2,3)
    by (simp add: Let_def)
qed

lemma hangup_does_not_stop_setup_witness:
  "\<exists>t. (call_step her_world)\<^sup>*\<^sup>* (new_phone her_app) t \<and> abs_call t = Some (ticket, Ended) \<and> 7 \<in> set (md_live (ph_media t))"
proof -
  obtain c where c: "ph_call dialled = Some c" "cs_id c = ticket" "cs_conv_id c = chat" "cs_status c = RingingOut"
    using dialled_sel(1) by blast
  obtain t where "happens her_world [Hangup, Resume 0 (GotTurn (Inr [])), Resume 0 (GotStream [7] []), Resume 0 (GotSdp (Some [])),
      Resume 0 Resolved] dialled = Some t" "abs_call t = Some (ticket, Ended)" "7 \<in> set (md_live (ph_media t))"
    using hangup_does_not_stop_setup [OF c(1,4), of her_world "Inr []" 7 "[]"] dialled_sel(2) c by auto
  then show ?thesis using happens_reachable rtranclp_trans [OF dialled_reachable] by blast
qed

end
