(* ===== verification/Voice.thy ===== *)
theory Voice
  imports Calls
begin

text \<open>
  \<open>web/src/state/voice.ts\<close>: group voice channels. The module's variables and signals are a record around the
  phone of \<open>Calls\<close>, whose \<open>ph_in_voice\<close> is whether the signal \<open>voice\<close> has a value; the peer objects are kept in
  a list, because handlers and timers hold on to them after they left the map. Asynchronous functions are
  split as in \<open>Calls\<close>. The server list that a connection is made with is accepted by the browser.
\<close>

section \<open>State\<close>

datatype link_state = LinkConnecting | LinkConnected | LinkFailed

record voice_participant =
  vp_session :: string
  vp_account :: string
  vp_device :: string
  vp_muted :: bool
  vp_sharing :: bool
  vp_camera :: bool
  vp_seen :: int

record voice_state =
  vs_conv_id :: string
  vs_session :: string
  vs_muted :: bool
  vs_sharing :: bool
  vs_camera :: bool
  vs_joined_at :: int
  vs_peers :: "link_state jmap"

record voice_peer =
  pr_pc :: nat
  pr_audio :: "nat option"
  pr_camera_sender :: "(nat \<times> nat) option"
  pr_screen_sender :: "(nat \<times> nat) option"
  pr_queued :: "ice list"
  pr_outgoing :: "ice list"
  pr_flush :: "nat option"

definition HEARTBEAT_MS :: int where "HEARTBEAT_MS = 20000"
definition EXPIRE_MS :: int where "EXPIRE_MS = 65000"
definition ICE_REFRESH_MS :: int where "ICE_REFRESH_MS = 20 * 60000"

datatype voice_timer = Heartbeat | PruneTick | FlushIce string string nat

text \<open>The session of an offer or an answer is the one when the function began.\<close>

datatype voice_task =
    JoinLeft string
  | JoinMic string
  | JoinIce string media_stream
  | JoinSent string string
  | RefreshIce
  | VOffer string string nat string
  | VLocalOffer string string nat string "string option"
  | VRemoteOffer string string nat string string
  | VAnswer string string nat string
  | VLocalAnswer string string nat string "string option"
  | VAnswerSent string
  | VRemoteAnswer string nat string
  | VPick string string
  | VCamera string string

record channel =
  vc_phone :: phone
  vc_voice :: "voice_state option"
  vc_rooms :: "voice_participant list jmap"
  vc_streams :: "nat jmap"
  vc_cameras :: "nat jmap"
  vc_self_camera :: "media_stream option"
  vc_peers :: "nat jmap"
  vc_objects :: "voice_peer list"
  vc_local :: "media_stream option"
  vc_screen :: "nat option"
  vc_camera :: "media_stream option"
  vc_screen_slot :: "nat option"
  vc_heartbeat :: "nat option"
  vc_prune :: "nat option"
  vc_timers :: "(nat \<times> voice_timer) list"
  vc_ids :: nat
  vc_ice :: "ice_server list"
  vc_ice_at :: int
  vc_tasks :: "voice_task list"
  vc_share_onended :: "nat list"
  vc_camera_onended :: "nat list"

definition new_channel :: "phone \<Rightarrow> channel" where
  "new_channel p = \<lparr>vc_phone = p, vc_voice = None, vc_rooms = [], vc_streams = [], vc_cameras = [], vc_self_camera = None,
     vc_peers = [], vc_objects = [], vc_local = None, vc_screen = None, vc_camera = None, vc_screen_slot = None,
     vc_heartbeat = None, vc_prune = None, vc_timers = [], vc_ids = 0, vc_ice = [], vc_ice_at = 0, vc_tasks = [],
     vc_share_onended = [], vc_camera_onended = []\<rparr>"

section \<open>Helpers\<close>

definition on_phone :: "(phone \<Rightarrow> phone) \<Rightarrow> channel \<Rightarrow> channel" where
  "on_phone f s = s\<lparr>vc_phone := f (vc_phone s)\<rparr>"

definition vmedia :: "channel \<Rightarrow> media" where
  "vmedia s = ph_media (vc_phone s)"

definition on_vmedia :: "(media \<Rightarrow> media) \<Rightarrow> channel \<Rightarrow> channel" where
  "on_vmedia f s = on_phone (on_media f) s"

definition vapp :: "channel \<Rightarrow> app" where
  "vapp s = ph_app (vc_phone s)"

definition vnow :: "channel \<Rightarrow> int" where
  "vnow s = a_now (vapp s)"

definition set_voice :: "voice_state option \<Rightarrow> channel \<Rightarrow> channel" where
  "set_voice v s = on_phone (\<lambda>p. p\<lparr>ph_in_voice := (v \<noteq> None)\<rparr>) (s\<lparr>vc_voice := v\<rparr>)"

definition vwait :: "voice_task \<Rightarrow> channel \<Rightarrow> channel" where
  "vwait t s = s\<lparr>vc_tasks := vc_tasks s @ [t]\<rparr>"

definition vtimer :: "voice_timer \<Rightarrow> channel \<Rightarrow> nat \<times> channel" where
  "vtimer t s = (vc_ids s, s\<lparr>vc_timers := vc_timers s @ [(vc_ids s, t)], vc_ids := Suc (vc_ids s)\<rparr>)"

definition vclear :: "nat option \<Rightarrow> channel \<Rightarrow> channel" where
  "vclear i s = s\<lparr>vc_timers := filter (\<lambda>t. Some (fst t) \<noteq> i) (vc_timers s)\<rparr>"

definition on_object :: "nat \<Rightarrow> (voice_peer \<Rightarrow> voice_peer) \<Rightarrow> channel \<Rightarrow> channel" where
  "on_object i f s = s\<lparr>vc_objects := (vc_objects s)[i := f (vc_objects s ! i)]\<rparr>"

definition pc_of :: "nat \<Rightarrow> channel \<Rightarrow> nat" where
  "pc_of i s = pr_pc (vc_objects s ! i)"

definition participants_of :: "string \<Rightarrow> channel \<Rightarrow> voice_participant list" where
  "participants_of conv s = (case jget (vc_rooms s) conv of None \<Rightarrow> [] | Some l \<Rightarrow> l)"

definition set_participant :: "string \<Rightarrow> voice_participant \<Rightarrow> channel \<Rightarrow> channel" where
  "set_participant conv p s =
     (let list = filter (\<lambda>x. vp_session x \<noteq> vp_session p) (participants_of conv s) @ [p];
          s = s\<lparr>vc_rooms := jset conv list (vc_rooms s)\<rparr>
      in if vc_prune s = None then (let (i, s) = vtimer PruneTick s in s\<lparr>vc_prune := Some i\<rparr>) else s)"

definition remove_participant :: "string \<Rightarrow> string \<Rightarrow> channel \<Rightarrow> channel" where
  "remove_participant conv sess s =
     (let list = filter (\<lambda>x. vp_session x \<noteq> sess) (participants_of conv s)
      in s\<lparr>vc_rooms := (if list \<noteq> [] then jset conv list (vc_rooms s) else jdel conv (vc_rooms s))\<rparr>)"

definition update_self :: "channel \<Rightarrow> channel" where
  "update_self s =
     (case (vc_voice s, a_session (vapp s)) of
        (Some v, Some me) \<Rightarrow>
          set_participant (vs_conv_id v) \<lparr>vp_session = vs_session v, vp_account = si_account_id me, vp_device = si_device_id me,
            vp_muted = vs_muted v, vp_sharing = vs_sharing v, vp_camera = vs_camera v, vp_seen = vnow s\<rparr> s
      | _ \<Rightarrow> s)"

definition set_peer_state :: "string \<Rightarrow> link_state option \<Rightarrow> channel \<Rightarrow> channel" where
  "set_peer_state sess st s =
     (case vc_voice s of
        None \<Rightarrow> s
      | Some v \<Rightarrow> set_voice (Some (v\<lparr>vs_peers := (case st of Some x \<Rightarrow> jset sess x (vs_peers v) | None \<Rightarrow> jdel sess (vs_peers v))\<rparr>)) s)"

definition publish_stream :: "string \<Rightarrow> nat option \<Rightarrow> channel \<Rightarrow> channel" where
  "publish_stream sess st s =
     s\<lparr>vc_streams := (case st of Some x \<Rightarrow> jset sess x (vc_streams s) | None \<Rightarrow> jdel sess (vc_streams s))\<rparr>"

definition publish_camera :: "string \<Rightarrow> nat option \<Rightarrow> channel \<Rightarrow> channel" where
  "publish_camera sess st s =
     s\<lparr>vc_cameras := (case st of Some x \<Rightarrow> jset sess x (vc_cameras s) | None \<Rightarrow> jdel sess (vc_cameras s))\<rparr>"

definition signal_to :: "world \<Rightarrow> string \<Rightarrow> voice_signal \<Rightarrow> channel \<Rightarrow> channel" where
  "signal_to W conv sig s = on_phone (\<lambda>p. p\<lparr>ph_sent := ph_sent p @ [(conv, Voice sig)],
     ph_app := snd (send_payload W conv (Voice sig) FLAG_EPHEMERAL True (ph_app p))\<rparr>) s"

definition presence :: "voice_state \<Rightarrow> voice_signal" where
  "presence v = VoiceHere (vs_session v) (vs_muted v) (Some (vs_sharing v)) (Some (vs_camera v))"

definition vtoast :: "string \<Rightarrow> channel \<Rightarrow> channel" where
  "vtoast key s = on_phone (show_toast key) s"

section \<open>Peers\<close>

definition close_peer :: "string \<Rightarrow> channel \<Rightarrow> channel" where
  "close_peer sess s =
     (case jget (vc_peers s) sess of
        None \<Rightarrow> s
      | Some i \<Rightarrow>
          let s = s\<lparr>vc_peers := jdel sess (vc_peers s)\<rparr>;
              s = vclear (pr_flush (vc_objects s ! i)) s;
              s = on_vmedia (close_peer_connection (pc_of i s)) s;
              s = on_object i (\<lambda>p. p\<lparr>pr_audio := None\<rparr>) s
          in set_peer_state sess None (publish_camera sess None (publish_stream sess None s)))"

definition create_peer :: "string \<Rightarrow> string \<Rightarrow> channel \<Rightarrow> nat \<times> channel" where
  "create_peer conv remote s =
     (let s = close_peer remote s;
          (pc, m) = new_peer (ForSession conv remote) (vc_ice s) (vmedia s);
          s = on_vmedia (\<lambda>_. m) s;
          i = length (vc_objects s);
          s = s\<lparr>vc_objects := vc_objects s @ [\<lparr>pr_pc = pc, pr_audio = None, pr_camera_sender = None, pr_screen_sender = None,
                pr_queued = [], pr_outgoing = [], pr_flush = None\<rparr>],
              vc_peers := jset remote i (vc_peers s)\<rparr>;
          s = set_peer_state remote (Some LinkConnecting) s
      in (i, case vc_local s of None \<Rightarrow> s | Some st \<Rightarrow> on_vmedia (add_audio_tracks pc st) s))"

text \<open>It throws on a closed connection, before anything is assigned.\<close>

definition vset_slot :: "nat \<Rightarrow> nat list \<Rightarrow> transceiver list \<Rightarrow> transceiver list" where
  "vset_slot i sts trs =
     trs[i := (trs ! i)\<lparr>tr_sendrecv := True, tr_streams := (if sts = [] then tr_streams (trs ! i) else sts)\<rparr>]"

definition vattach :: "nat \<times> nat \<Rightarrow> nat option \<Rightarrow> channel \<Rightarrow> channel" where
  "vattach x t s =
     (case t of
        None \<Rightarrow> s
      | Some t \<Rightarrow> if sender_track x (vmedia s) \<noteq> Some t then on_vmedia (replace_track x (Some t)) s else s)"

definition ensure_video :: "nat \<Rightarrow> channel \<Rightarrow> unit result \<times> channel" where
  "ensure_video i s =
     (let p = pc_of i s in
      if peer_closed p (vmedia s) then throw (JsError ''InvalidStateError'') s
      else
        let cam = (case vc_local s of None \<Rightarrow> [] | Some st \<Rightarrow> [ms_id st]);
            screen = (case vc_screen_slot s of None \<Rightarrow> [] | Some st \<Rightarrow> [st]);
            trs = fill_slots cam screen (pe_transceivers (md_peers (vmedia s) ! p));
            a = video_slots trs ! 0; b = video_slots trs ! 1;
            s = on_vmedia (on_peer p (\<lambda>x. x\<lparr>pe_transceivers := vset_slot b screen (vset_slot a cam trs)\<rparr>)) s;
            s = on_object i (\<lambda>o'. o'\<lparr>pr_camera_sender := Some (p, a), pr_screen_sender := Some (p, b)\<rparr>) s
        in ret () (vattach (p, b) (vc_screen s) (vattach (p, a) (first_video (vc_camera s)) s)))"

definition offer_to :: "string \<Rightarrow> string \<Rightarrow> channel \<Rightarrow> channel" where
  "offer_to conv remote s =
     (case vc_voice s of
        None \<Rightarrow> s
      | Some v \<Rightarrow>
          let (i, s) = create_peer conv remote s
          in case ensure_video i s of
               (Inl e, s) \<Rightarrow> close_peer remote s
             | (Inr _, s) \<Rightarrow> vwait (VOffer conv remote i (vs_session v)) s)"

definition maybe_connect :: "voice_participant \<Rightarrow> channel \<Rightarrow> channel" where
  "maybe_connect p s =
     (case vc_voice s of
        None \<Rightarrow> s
      | Some v \<Rightarrow>
          if vp_session p = vs_session v \<or> jget (vc_peers s) (vp_session p) \<noteq> None then s
          else if vnow s - vp_seen p > EXPIRE_MS then s
          else if vs_session v < vp_session p then offer_to (vs_conv_id v) (vp_session p) s
          else s)"

definition accept_offer :: "string \<Rightarrow> string \<Rightarrow> string \<Rightarrow> channel \<Rightarrow> channel" where
  "accept_offer conv remote sdp s =
     (case vc_voice s of
        None \<Rightarrow> s
      | Some v \<Rightarrow> (let (i, s) = create_peer conv remote s in vwait (VRemoteOffer conv remote i (vs_session v) sdp) s))"

definition flush_ice :: "string \<Rightarrow> channel \<Rightarrow> channel" where
  "flush_ice remote s =
     (case jget (vc_peers s) remote of
        None \<Rightarrow> s
      | Some i \<Rightarrow>
          let batch = pr_queued (vc_objects s ! i)
          in on_vmedia (add_ice (pc_of i s) batch) (on_object i (\<lambda>p. p\<lparr>pr_queued := []\<rparr>) s))"

text \<open>Whether a participant's last sign of life is recent, or it is this device.\<close>

definition alive :: "voice_state option \<Rightarrow> int \<Rightarrow> string \<Rightarrow> voice_participant \<Rightarrow> bool" where
  "alive v now conv p \<longleftrightarrow> now - vp_seen p \<le> EXPIRE_MS
     \<or> (case v of None \<Rightarrow> False | Some v \<Rightarrow> vs_conv_id v = conv \<and> vp_session p = vs_session v)"

definition prune_room :: "voice_state option \<Rightarrow> int \<Rightarrow> string \<times> voice_participant list \<Rightarrow>
    bool \<times> voice_participant list jmap \<times> channel \<Rightarrow> bool \<times> voice_participant list jmap \<times> channel" where
  "prune_room v now room acc =
     (let (conv, list) = room; (changed, rooms, s) = acc; keep = filter (alive v now conv) list in
      if length keep = length list then acc
      else (True, if keep \<noteq> [] then jset conv keep rooms else jdel conv rooms,
            fold (\<lambda>p s. if alive v now conv p then s else close_peer (vp_session p) s) list s))"

definition prune :: "channel \<Rightarrow> channel" where
  "prune s =
     (case fold (prune_room (vc_voice s) (vnow s)) (vc_rooms s) (False, vc_rooms s, s) of
        (changed, rooms, s) \<Rightarrow> if changed then s\<lparr>vc_rooms := rooms\<rparr> else s)"


section \<open>Joining and leaving\<close>

definition stop_camera_tracks :: "channel \<Rightarrow> channel" where
  "stop_camera_tracks s =
     (case vc_camera s of None \<Rightarrow> s | Some st \<Rightarrow> on_vmedia (stop_tracks (ms_tracks st)) s)\<lparr>vc_camera := None, vc_self_camera := None\<rparr>"

definition stop_voice_screen :: "channel \<Rightarrow> channel" where
  "stop_voice_screen s = (case vc_screen s of None \<Rightarrow> s | Some t \<Rightarrow> on_vmedia (stop_tracks [t]) s)\<lparr>vc_screen := None\<rparr>"

definition stop_local :: "channel \<Rightarrow> channel" where
  "stop_local s = (case vc_local s of None \<Rightarrow> s | Some st \<Rightarrow> on_vmedia (stop_tracks (ms_tracks st)) s)\<lparr>vc_local := None\<rparr>"

text \<open>Everything \<open>leaveVoice\<close> does; what it awaits last has no continuation of its own.\<close>

definition leave_voice :: "world \<Rightarrow> channel \<Rightarrow> channel" where
  "leave_voice W s =
     (case vc_voice s of
        None \<Rightarrow> s
      | Some v \<Rightarrow>
          let s = (vclear (vc_heartbeat s) s)\<lparr>vc_heartbeat := None\<rparr>;
              s = (stop_camera_tracks (stop_voice_screen s))\<lparr>vc_screen_slot := None\<rparr>;
              s = fold close_peer (map fst (vc_peers s)) s;
              s = stop_local (s\<lparr>vc_streams := [], vc_cameras := []\<rparr>);
              s = remove_participant (vs_conv_id v) (vs_session v) s
          in signal_to W (vs_conv_id v) (VoiceLeave (vs_session v)) (set_voice None s))"

text \<open>The effect that runs when the session or the channel changes: logging out drops the channel.\<close>

definition logout_effect :: "world \<Rightarrow> channel \<Rightarrow> channel" where
  "logout_effect W s = (if a_session (vapp s) = None \<and> vc_voice s \<noteq> None then leave_voice W s else s)"

definition ice_is_fresh :: "channel \<Rightarrow> bool" where
  "ice_is_fresh s \<longleftrightarrow> vnow s - vc_ice_at s < ICE_REFRESH_MS"

text \<open>\<open>refreshIce\<close> where nothing waits for it.\<close>

definition refresh_ice :: "channel \<Rightarrow> channel" where
  "refresh_ice s = (if ice_is_fresh s then s else vwait RefreshIce s)"

definition ice_fetched :: "ice_server list result \<Rightarrow> channel \<Rightarrow> channel" where
  "ice_fetched res s = s\<lparr>vc_ice := ice_servers res, vc_ice_at := vnow s\<rparr>"

definition enter_voice :: "world \<Rightarrow> string \<Rightarrow> media_stream \<Rightarrow> channel \<Rightarrow> channel" where
  "enter_voice W conv mic s =
     (let s = s\<lparr>vc_local := Some mic\<rparr>;
          i = w_uuid W (a_draws (vapp s));
          s = on_phone (\<lambda>p. p\<lparr>ph_app := (ph_app p)\<lparr>a_draws := Suc (a_draws (ph_app p))\<rparr>\<rparr>) s;
          (slot, m) = new_stream [] (vmedia s);
          s = (on_vmedia (\<lambda>_. m) s)\<lparr>vc_screen_slot := Some slot\<rparr>;
          s = logout_effect W (set_voice (Some \<lparr>vs_conv_id = conv, vs_session = i, vs_muted = False, vs_sharing = False, vs_camera = False,
                vs_joined_at = vnow s, vs_peers = []\<rparr>) s)
      in vwait (JoinSent conv i) (signal_to W conv (VoiceJoin i False (Some False) (Some False)) (update_self s)))"

definition mic_for_voice :: "world \<Rightarrow> string \<Rightarrow> media_stream \<Rightarrow> channel \<Rightarrow> channel" where
  "mic_for_voice W conv mic s = (if ice_is_fresh s then enter_voice W conv mic s else vwait (JoinIce conv mic) s)"

definition connect_all :: "string \<Rightarrow> channel \<Rightarrow> channel" where
  "connect_all conv s = fold maybe_connect (participants_of conv s) s"

definition joined :: "string \<Rightarrow> channel \<Rightarrow> channel" where
  "joined conv s = (let (i, s) = vtimer Heartbeat (connect_all conv s) in s\<lparr>vc_heartbeat := Some i\<rparr>)"

definition join_voice :: "world \<Rightarrow> string \<Rightarrow> channel \<Rightarrow> channel" where
  "join_voice W conv_id s =
     (case (a_session (vapp s), conv_of (vapp s) conv_id) of
        (Some me, Some conv) \<Rightarrow>
          if c_kind conv \<noteq> Group then s
          else if live_call (vc_phone s) then vtoast ''already_in_call'' s
          else (case vc_voice s of
                  None \<Rightarrow> vwait (JoinMic conv_id) s
                | Some v \<Rightarrow>
                    if vs_conv_id v = conv_id then s else vwait (JoinLeft conv_id) (leave_voice W s))
      | _ \<Rightarrow> s)"

text \<open>What the heartbeat does.\<close>

definition beat :: "world \<Rightarrow> channel \<Rightarrow> channel" where
  "beat W s =
     (case vc_voice s of
        None \<Rightarrow> s
      | Some v \<Rightarrow>
          let s = refresh_ice (prune s);
              s = (case vc_voice s of None \<Rightarrow> s | Some w \<Rightarrow> signal_to W (vs_conv_id v) (presence w) s)
          in connect_all (vs_conv_id v) s)"

section \<open>Microphone, screen and camera\<close>

definition toggle_voice_mute :: "world \<Rightarrow> channel \<Rightarrow> channel" where
  "toggle_voice_mute W s =
     (case (vc_voice s, vc_local s) of
        (Some v, Some st) \<Rightarrow>
          let muted = \<not> vs_muted v; v' = v\<lparr>vs_muted := muted\<rparr>;
              s = update_self (set_voice (Some v') (on_vmedia (enable_tracks (\<not> muted) (ms_audio st)) s))
          in signal_to W (vs_conv_id v) (presence v') s
      | _ \<Rightarrow> s)"

text \<open>Feeds every peer's slot that has been negotiated.\<close>

definition feed :: "(voice_peer \<Rightarrow> (nat \<times> nat) option) \<Rightarrow> nat option \<Rightarrow> channel \<Rightarrow> channel" where
  "feed slot t s =
     fold (\<lambda>i s. case slot (vc_objects s ! i) of None \<Rightarrow> s | Some x \<Rightarrow> on_vmedia (replace_track x t) s)
       (map snd (vc_peers s)) s"

definition start_voice_share :: "channel \<Rightarrow> channel" where
  "start_voice_share s =
     (case vc_voice s of
        None \<Rightarrow> s
      | Some v \<Rightarrow>
          if vs_sharing v then s
          else if \<not> ph_can_share (vc_phone s) then vtoast ''screen_share_unavailable'' s
          else vwait (VPick (vs_conv_id v) (vs_session v)) s)"

definition voice_screen_picked :: "world \<Rightarrow> string \<Rightarrow> string \<Rightarrow> media_stream \<Rightarrow> channel \<Rightarrow> channel" where
  "voice_screen_picked W conv sess st s =
     (case (first_video (Some st), vc_voice s) of
        (Some t, Some v) \<Rightarrow>
          let s = feed pr_screen_sender (Some t) (s\<lparr>vc_screen := Some t\<rparr>);
              s = s\<lparr>vc_share_onended := vc_share_onended s @ [t]\<rparr>;
              s = update_self (set_voice (Some (v\<lparr>vs_sharing := True\<rparr>)) s)
          in signal_to W conv (VoiceShare sess True) s
      | (Some t, None) \<Rightarrow> on_vmedia (stop_tracks [t]) s
      | (None, _) \<Rightarrow> s)"

definition stop_voice_share :: "world \<Rightarrow> channel \<Rightarrow> channel" where
  "stop_voice_share W s =
     (let was_sharing = (vc_screen s \<noteq> None \<or> (case vc_voice s of None \<Rightarrow> False | Some v \<Rightarrow> vs_sharing v));
          s = feed pr_screen_sender None (stop_voice_screen s)
      in case vc_voice s of
           None \<Rightarrow> s
         | Some v \<Rightarrow>
             let s = update_self (set_voice (Some (v\<lparr>vs_sharing := False\<rparr>)) s)
             in if was_sharing then signal_to W (vs_conv_id v) (VoiceShare (vs_session v) False) s else s)"

definition start_voice_camera :: "channel \<Rightarrow> channel" where
  "start_voice_camera s =
     (case vc_voice s of
        None \<Rightarrow> s
      | Some v \<Rightarrow> if vs_camera v then s else vwait (VCamera (vs_conv_id v) (vs_session v)) s)"

definition voice_camera_granted :: "world \<Rightarrow> string \<Rightarrow> string \<Rightarrow> media_stream \<Rightarrow> channel \<Rightarrow> channel" where
  "voice_camera_granted W conv sess st s =
     (case (first_video (Some st), vc_voice s) of
        (Some t, Some v) \<Rightarrow>
          let s = feed pr_camera_sender (Some t) (s\<lparr>vc_camera := Some st, vc_self_camera := Some st\<rparr>);
              s = s\<lparr>vc_camera_onended := vc_camera_onended s @ [t]\<rparr>;
              s = update_self (set_voice (Some (v\<lparr>vs_camera := True\<rparr>)) s)
          in signal_to W conv (VoiceCamera sess True) s
      | _ \<Rightarrow> on_vmedia (stop_tracks (ms_tracks st)) s)"

definition stop_voice_camera :: "world \<Rightarrow> channel \<Rightarrow> channel" where
  "stop_voice_camera W s =
     (let was_on = (vc_camera s \<noteq> None \<or> (case vc_voice s of None \<Rightarrow> False | Some v \<Rightarrow> vs_camera v));
          s = feed pr_camera_sender None (stop_camera_tracks s)
      in case vc_voice s of
           None \<Rightarrow> s
         | Some v \<Rightarrow>
             let s = update_self (set_voice (Some (v\<lparr>vs_camera := False\<rparr>)) s)
             in if was_on then signal_to W (vs_conv_id v) (VoiceCamera (vs_session v) False) s else s)"

definition toggle_voice_camera :: "world \<Rightarrow> channel \<Rightarrow> channel" where
  "toggle_voice_camera W s =
     (case vc_voice s of
        None \<Rightarrow> s
      | Some v \<Rightarrow> if vs_camera v then stop_voice_camera W s else start_voice_camera s)"


section \<open>Signals\<close>

definition voice_presence :: "world \<Rightarrow> bool \<Rightarrow> string \<Rightarrow> string \<Rightarrow> string \<Rightarrow> string \<Rightarrow> bool \<Rightarrow> bool option \<Rightarrow> bool option \<Rightarrow>
    session_info \<Rightarrow> channel \<Rightarrow> channel" where
  "voice_presence W join sender device conv_id sess muted sharing camera me s =
     (let here = (case vc_voice s of None \<Rightarrow> None | Some v \<Rightarrow> if vs_conv_id v = conv_id then Some v else None);
          known = list_ex (\<lambda>p. vp_session p = sess) (participants_of conv_id s);
          participant = \<lparr>vp_session = sess, vp_account = sender, vp_device = device, vp_muted = muted,
            vp_sharing = (sharing = Some True), vp_camera = (camera = Some True), vp_seen = vnow s\<rparr>;
          s = set_participant conv_id participant s;
          s = (if \<not> join then s
               else case here of
                 Some v \<Rightarrow> signal_to W conv_id (presence v) s
               | None \<Rightarrow>
                   if known \<or> sender = si_account_id me then s
                   else case conv_of (vapp s) conv_id of
                     None \<Rightarrow> s
                   | Some conv \<Rightarrow> on_phone (\<lambda>p. p\<lparr>ph_toasts := ph_toasts p @ [translate (a_dict (ph_app p)) ''voice_joined_toast''
                       [(''who'', username_of (ph_app p) sender (si_account_id me)),
                        (''group'', conversation_title (ph_app p) conv (si_account_id me))]]\<rparr>) s)
      in if here \<noteq> None then maybe_connect participant s else s)"

definition mark_participant :: "string \<Rightarrow> string \<Rightarrow> (voice_participant \<Rightarrow> voice_participant) \<Rightarrow> channel \<Rightarrow> channel" where
  "mark_participant conv sess f s =
     (case List.find (\<lambda>p. vp_session p = sess) (participants_of conv s) of
        None \<Rightarrow> s
      | Some p \<Rightarrow> set_participant conv ((f p)\<lparr>vp_seen := vnow s\<rparr>) s)"

text \<open>\<open>signalingState\<close> is \<open>have-local-offer\<close>: an offer was set and no answer yet.\<close>

definition awaits_answer :: "nat \<Rightarrow> channel \<Rightarrow> bool" where
  "awaits_answer p s \<longleftrightarrow> pe_local (md_peers (vmedia s) ! p) \<noteq> None \<and> pe_remote (md_peers (vmedia s) ! p) = None"

fun voice_session :: "voice_signal \<Rightarrow> string" where
  "voice_session (VoiceJoin sess muted sharing camera) = sess"
| "voice_session (VoiceHere sess muted sharing camera) = sess"
| "voice_session (VoiceShare sess on) = sess"
| "voice_session (VoiceCamera sess on) = sess"
| "voice_session (VoiceLeave sess) = sess"
| "voice_session (VoiceOffer sess to sdp) = sess"
| "voice_session (VoiceAnswer sess to sdp) = sess"
| "voice_session (VoiceIce sess to cands) = sess"

text \<open>Whether this device is in the channel and the signal is for its session.\<close>

definition for_us :: "string \<Rightarrow> string \<Rightarrow> channel \<Rightarrow> bool" where
  "for_us conv to s = (case vc_voice s of None \<Rightarrow> False | Some v \<Rightarrow> vs_conv_id v = conv \<and> to = vs_session v)"

fun on_voice_signal :: "world \<Rightarrow> string \<Rightarrow> string \<Rightarrow> string \<Rightarrow> session_info \<Rightarrow> voice_signal \<Rightarrow> channel \<Rightarrow> channel" where
  "on_voice_signal W sender device conv me (VoiceJoin sess muted sharing camera) s =
     voice_presence W True sender device conv sess muted sharing camera me s"
| "on_voice_signal W sender device conv me (VoiceHere sess muted sharing camera) s =
     voice_presence W False sender device conv sess muted sharing camera me s"
| "on_voice_signal W sender device conv me (VoiceShare sess on) s = mark_participant conv sess (\<lambda>p. p\<lparr>vp_sharing := on\<rparr>) s"
| "on_voice_signal W sender device conv me (VoiceCamera sess on) s = mark_participant conv sess (\<lambda>p. p\<lparr>vp_camera := on\<rparr>) s"
| "on_voice_signal W sender device conv me (VoiceLeave sess) s = close_peer sess (remove_participant conv sess s)"
| "on_voice_signal W sender device conv me (VoiceOffer sess to sdp) s =
     (if for_us conv to s then accept_offer conv sess sdp s else s)"
| "on_voice_signal W sender device conv me (VoiceAnswer sess to sdp) s =
     (if \<not> for_us conv to s then s
      else case jget (vc_peers s) sess of
        None \<Rightarrow> s
      | Some i \<Rightarrow> if awaits_answer (pc_of i s) s then vwait (VRemoteAnswer sess (pc_of i s) sdp) s else s)"
| "on_voice_signal W sender device conv me (VoiceIce sess to cands) s =
     (if \<not> for_us conv to s then s
      else case jget (vc_peers s) sess of
        None \<Rightarrow> s
      | Some i \<Rightarrow>
          if has_remote (pc_of i s) (vmedia s) then on_vmedia (add_ice (pc_of i s) cands) s
          else on_object i (\<lambda>p. p\<lparr>pr_queued := pr_queued p @ cands\<rparr>) s)"

definition handle_voice_signal :: "world \<Rightarrow> string \<Rightarrow> string \<Rightarrow> string \<Rightarrow> payload \<Rightarrow> channel \<Rightarrow> channel" where
  "handle_voice_signal W sender device conv pl s =
     (case (a_session (vapp s), pl) of
        (Some me, Voice sig) \<Rightarrow>
          if (case vc_voice s of None \<Rightarrow> False | Some v \<Rightarrow> voice_session sig = vs_session v) then s
          else on_voice_signal W sender device conv me sig s
      | _ \<Rightarrow> s)"

section \<open>Timers, connections and tasks\<close>

fun run_voice_timer :: "world \<Rightarrow> voice_timer \<Rightarrow> channel \<Rightarrow> channel" where
  "run_voice_timer W Heartbeat s = beat W s"
| "run_voice_timer W PruneTick s = prune s"
| "run_voice_timer W (FlushIce conv remote i) s =
     (let batch = pr_outgoing (vc_objects s ! i);
          s = on_object i (\<lambda>p. p\<lparr>pr_flush := None, pr_outgoing := []\<rparr>) s
      in case vc_voice s of
           None \<Rightarrow> s
         | Some v \<Rightarrow>
             if batch \<noteq> [] \<and> jget (vc_peers s) remote = Some i
             then signal_to W conv (VoiceIce (vs_session v) remote batch) s else s)"

definition vfire :: "world \<Rightarrow> nat \<Rightarrow> channel \<Rightarrow> channel" where
  "vfire W i s =
     (case map_of (vc_timers s) i of
        None \<Rightarrow> s
      | Some t \<Rightarrow> run_voice_timer W t
          (case t of FlushIce conv remote j \<Rightarrow> s\<lparr>vc_timers := filter (\<lambda>t. fst t \<noteq> i) (vc_timers s)\<rparr> | _ \<Rightarrow> s))"

text \<open>
  \<open>ontrack\<close>: the track received on the \<open>j\<close>-th transceiver of the peer object, in the given stream if the
  other side announced one.
\<close>

definition von_track :: "string \<Rightarrow> nat \<Rightarrow> nat \<Rightarrow> nat \<Rightarrow> nat option \<Rightarrow> channel \<Rightarrow> channel" where
  "von_track remote i j t stream s =
     (let trs = pe_transceivers (md_peers (vmedia s) ! pc_of i s);
          (fresh, m) = new_stream [t] (vmedia s) in
      if \<not> tr_video (trs ! j) then
        (case stream of
           Some st \<Rightarrow> on_object i (\<lambda>p. p\<lparr>pr_audio := Some st\<rparr>) s
         | None \<Rightarrow> on_object i (\<lambda>p. p\<lparr>pr_audio := Some fresh\<rparr>) (on_vmedia (\<lambda>_. m) s))
      else
        let s = on_vmedia (\<lambda>_. m) s
        in if 1 < length (video_slots trs) \<and> video_slots trs ! 1 = j then publish_stream remote (Some fresh) s
           else publish_camera remote (Some fresh) s)"

definition von_candidate :: "string \<Rightarrow> string \<Rightarrow> nat \<Rightarrow> ice \<Rightarrow> channel \<Rightarrow> channel" where
  "von_candidate conv remote i c s =
     (let s = on_object i (\<lambda>p. p\<lparr>pr_outgoing := pr_outgoing p @ [c]\<rparr>) s
      in if pr_flush (vc_objects s ! i) = None
         then (let (k, s) = vtimer (FlushIce conv remote i) s in on_object i (\<lambda>p. p\<lparr>pr_flush := Some k\<rparr>) s)
         else s)"

definition von_connection :: "string \<Rightarrow> nat \<Rightarrow> peer_state \<Rightarrow> channel \<Rightarrow> channel" where
  "von_connection remote i st s =
     (if jget (vc_peers s) remote \<noteq> Some i then s
      else case st of
        PConnected \<Rightarrow> set_peer_state remote (Some LinkConnected) s
      | PDisconnected \<Rightarrow> set_peer_state remote (Some LinkConnecting) s
      | _ \<Rightarrow> set_peer_state remote (Some LinkFailed) (close_peer remote s))"

definition vset_local :: "nat \<Rightarrow> string option \<Rightarrow> channel \<Rightarrow> channel" where
  "vset_local p sdp s = on_vmedia (on_peer p (\<lambda>x. x\<lparr>pe_local := Some (sdp_text sdp)\<rparr>)) s"

definition vset_remote :: "nat \<Rightarrow> string \<Rightarrow> transceiver list \<Rightarrow> channel \<Rightarrow> channel" where
  "vset_remote p sdp trs s =
     on_vmedia (on_peer p (\<lambda>x. x\<lparr>pe_remote := Some sdp, pe_transceivers := pe_transceivers x @ trs\<rparr>)) s"

definition vgranted :: "outcome \<Rightarrow> (media_stream \<Rightarrow> channel \<Rightarrow> channel) \<Rightarrow> (channel \<Rightarrow> channel) \<Rightarrow> channel \<Rightarrow> channel" where
  "vgranted out f g s =
     (case out of
        GotStream audio video \<Rightarrow> (let (st, m) = capture audio video (vmedia s) in f st (on_vmedia (\<lambda>_. m) s))
      | _ \<Rightarrow> g s)"

definition served :: "outcome \<Rightarrow> ice_server list result" where
  "served out = (case out of GotTurn res \<Rightarrow> res | _ \<Rightarrow> Inl (JsError []))"

fun vresume :: "world \<Rightarrow> voice_task \<Rightarrow> outcome \<Rightarrow> channel \<Rightarrow> channel" where
  "vresume W (JoinLeft conv) out s = vwait (JoinMic conv) s"
| "vresume W (JoinMic conv) out s = vgranted out (mic_for_voice W conv) (vtoast ''voice_mic_failed'') s"
| "vresume W (JoinIce conv mic) out s = enter_voice W conv mic (ice_fetched (served out) s)"
| "vresume W (JoinSent conv i) out s = joined conv s"
| "vresume W RefreshIce out s = ice_fetched (served out) s"
| "vresume W (VOffer conv remote i sess) out s =
     (case out of GotSdp sdp \<Rightarrow> vwait (VLocalOffer conv remote i sess sdp) s | _ \<Rightarrow> close_peer remote s)"
| "vresume W (VLocalOffer conv remote i sess sdp) out s =
     (case out of
        Resolved \<Rightarrow> signal_to W conv (VoiceOffer sess remote (sdp_text sdp)) (vset_local (pc_of i s) sdp s)
      | _ \<Rightarrow> close_peer remote s)"
| "vresume W (VRemoteOffer conv remote i sess sdp) out s =
     (case out of
        GotRemote trs \<Rightarrow>
          (case ensure_video i (vset_remote (pc_of i s) sdp trs s) of
             (Inl e, s) \<Rightarrow> close_peer remote s
           | (Inr _, s) \<Rightarrow> vwait (VAnswer conv remote i sess) s)
      | _ \<Rightarrow> close_peer remote s)"
| "vresume W (VAnswer conv remote i sess) out s =
     (case out of GotSdp sdp \<Rightarrow> vwait (VLocalAnswer conv remote i sess sdp) s | _ \<Rightarrow> close_peer remote s)"
| "vresume W (VLocalAnswer conv remote i sess sdp) out s =
     (case out of
        Resolved \<Rightarrow> vwait (VAnswerSent remote)
          (signal_to W conv (VoiceAnswer sess remote (sdp_text sdp)) (vset_local (pc_of i s) sdp s))
      | _ \<Rightarrow> close_peer remote s)"
| "vresume W (VAnswerSent remote) out s = flush_ice remote s"
| "vresume W (VRemoteAnswer remote p sdp) out s =
     (case out of Resolved \<Rightarrow> flush_ice remote (vset_remote p sdp [] s) | _ \<Rightarrow> close_peer remote s)"
| "vresume W (VPick conv sess) out s =
     vgranted out (voice_screen_picked W conv sess) (if out = NotAllowed then id else vtoast ''screen_share_failed'') s"
| "vresume W (VCamera conv sess) out s =
     vgranted out (voice_camera_granted W conv sess) (vtoast ''camera_failed'') s"


section \<open>Steps\<close>

text \<open>
  Everything that can happen to the channel, the events of the phone among it. An event of a connection names
  the peer object.
\<close>

datatype voice_event =
    OnPhone call_event
  | Join string
  | Leave
  | VMute
  | VShare
  | VUnshare
  | VToggleCamera
  | VSignal string string string payload
  | VTimer nat
  | VResume nat outcome
  | VTrack nat nat nat "nat option"
  | VCandidate nat ice
  | VConnection nat peer_state
  | VTrackEnded nat
  | PageHide
  | VElsewhere app

definition owner_of :: "nat \<Rightarrow> channel \<Rightarrow> owner" where
  "owner_of i s = pe_owner (md_peers (vmedia s) ! pc_of i s)"

definition page_hide :: "world \<Rightarrow> channel \<Rightarrow> channel" where
  "page_hide W s = (case vc_voice s of None \<Rightarrow> s | Some v \<Rightarrow> signal_to W (vs_conv_id v) (VoiceLeave (vs_session v)) s)"

definition vtrack_ended :: "world \<Rightarrow> nat \<Rightarrow> channel \<Rightarrow> channel" where
  "vtrack_ended W t s =
     (let s = on_phone (perform W (TrackEnded t)) s;
          s = (if t \<in> set (vc_share_onended s) then stop_voice_share W s else s)
      in if t \<in> set (vc_camera_onended s) then stop_voice_camera W s else s)"

fun vperform :: "world \<Rightarrow> voice_event \<Rightarrow> channel \<Rightarrow> channel" where
  "vperform W (OnPhone ev) s = on_phone (perform W ev) s"
| "vperform W (Join conv) s = join_voice W conv s"
| "vperform W Leave s = leave_voice W s"
| "vperform W VMute s = toggle_voice_mute W s"
| "vperform W VShare s = start_voice_share s"
| "vperform W VUnshare s = stop_voice_share W s"
| "vperform W VToggleCamera s = toggle_voice_camera W s"
| "vperform W (VSignal sender device conv pl) s = handle_voice_signal W sender device conv pl s"
| "vperform W (VTimer i) s = vfire W i s"
| "vperform W (VResume i out) s =
     vresume W (vc_tasks s ! i) out (s\<lparr>vc_tasks := take i (vc_tasks s) @ drop (Suc i) (vc_tasks s)\<rparr>)"
| "vperform W (VTrack i j t stream) s =
     (case owner_of i s of ForSession conv remote \<Rightarrow> von_track remote i j t stream s | _ \<Rightarrow> s)"
| "vperform W (VCandidate i c) s =
     (case owner_of i s of ForSession conv remote \<Rightarrow> von_candidate conv remote i c s | _ \<Rightarrow> s)"
| "vperform W (VConnection i st) s =
     (case owner_of i s of ForSession conv remote \<Rightarrow> von_connection remote i st s | _ \<Rightarrow> s)"
| "vperform W (VTrackEnded t) s = vtrack_ended W t s"
| "vperform W PageHide s = page_hide W s"
| "vperform W (VElsewhere a) s = logout_effect W (on_phone (\<lambda>p. p\<lparr>ph_app := a\<rparr>) s)"

fun voice_task_peer :: "voice_task \<Rightarrow> channel \<Rightarrow> nat option" where
  "voice_task_peer (VOffer conv remote i sess) s = Some (pc_of i s)"
| "voice_task_peer (VLocalOffer conv remote i sess sdp) s = Some (pc_of i s)"
| "voice_task_peer (VRemoteOffer conv remote i sess sdp) s = Some (pc_of i s)"
| "voice_task_peer (VAnswer conv remote i sess) s = Some (pc_of i s)"
| "voice_task_peer (VLocalAnswer conv remote i sess sdp) s = Some (pc_of i s)"
| "voice_task_peer (VRemoteAnswer remote p sdp) s = Some p"
| "voice_task_peer _ s = None"

definition open_object :: "nat \<Rightarrow> channel \<Rightarrow> bool" where
  "open_object i s \<longleftrightarrow> i < length (vc_objects s) \<and> \<not> peer_closed (pc_of i s) (vmedia s)"

fun venabled :: "voice_event \<Rightarrow> channel \<Rightarrow> bool" where
  "venabled (OnPhone ev) s = (enabled ev (vc_phone s)
     \<and> (case ev of Elsewhere a v \<Rightarrow> False | TrackEnded t \<Rightarrow> False | _ \<Rightarrow> True))"
| "venabled (VTimer i) s = (i \<in> fst ` set (vc_timers s))"
| "venabled (VResume i out) s =
     (i < length (vc_tasks s) \<and>
       (case voice_task_peer (vc_tasks s ! i) s of None \<Rightarrow> True | Some p \<Rightarrow> \<not> peer_closed p (vmedia s)))"
| "venabled (VTrack i j t stream) s =
     (open_object i s \<and> j < length (pe_transceivers (md_peers (vmedia s) ! pc_of i s)))"
| "venabled (VCandidate i c) s = open_object i s"
| "venabled (VConnection i st) s = open_object i s"
| "venabled (VTrackEnded t) s = (t \<in> set (md_live (vmedia s)))"
| "venabled _ s = True"

inductive voice_step :: "world \<Rightarrow> channel \<Rightarrow> channel \<Rightarrow> bool" for W where
  step: "venabled ev s \<Longrightarrow> voice_step W s (vperform W ev s)"

end
