(* ===== verification/VoiceFacts.thy ===== *)
theory VoiceFacts
  imports Voice CallsFacts
begin

text \<open>
  What holds of the voice channels: the open connections of the mesh are exactly those of the peers, none
  outlives the channel, of two participants exactly one makes the offer, and pruning keeps exactly those who
  are there.
\<close>

section \<open>The invariant of the mesh\<close>

definition vmarks :: "channel \<Rightarrow> (owner \<times> bool) list" where
  "vmarks s = marks (vmedia s)"

text \<open>
  Every peer has its own connection, open and made for that session; every open connection of a voice channel
  belongs to a peer; outside a channel there are no peers.
\<close>

definition mesh_inv :: "channel \<Rightarrow> bool" where
  "mesh_inv s \<longleftrightarrow> jmap_inv (vc_peers s)
     \<and> (\<forall>r i. jget (vc_peers s) r = Some i \<longrightarrow> i < length (vc_objects s) \<and> pc_of i s < length (vmarks s)
          \<and> \<not> snd (vmarks s ! pc_of i s) \<and> (\<exists>conv. fst (vmarks s ! pc_of i s) = ForSession conv r))
     \<and> (\<forall>p < length (vmarks s). for_session (fst (vmarks s ! p)) \<and> \<not> snd (vmarks s ! p)
          \<longrightarrow> (\<exists>r i. jget (vc_peers s) r = Some i \<and> i < length (vc_objects s) \<and> pc_of i s = p))
     \<and> (vc_voice s = None \<longrightarrow> vc_peers s = [])
     \<and> call_inv (vc_phone s)"

lemma mesh_open:
  assumes "mesh_inv s" and "p < length (vmarks s)" and "for_session (fst (vmarks s ! p))" and "\<not> snd (vmarks s ! p)"
  obtains r i where "jget (vc_peers s) r = Some i" and "i < length (vc_objects s)" and "pc_of i s = p"
  using assms unfolding mesh_inv_def by blast

lemma mesh_peer:
  assumes "mesh_inv s" and "jget (vc_peers s) r = Some i"
  shows "i < length (vc_objects s)" and "pc_of i s < length (vmarks s)" and "\<not> snd (vmarks s ! pc_of i s)"
    and "\<exists>conv. fst (vmarks s ! pc_of i s) = ForSession conv r"
  using assms unfolding mesh_inv_def by blast+

text \<open>What it speaks of.\<close>

definition vcore :: "channel \<Rightarrow> nat jmap \<times> nat list \<times> bool \<times> call_state option \<times> nat option \<times> media_stream option
    \<times> string option \<times> (owner \<times> bool) list" where
  "vcore s = (vc_peers s, map pr_pc (vc_objects s), vc_voice s = None, core (vc_phone s))"

lemma vcore_updates [simp]:
  "vcore (s\<lparr>vc_rooms := a\<rparr>) = vcore s" "vcore (s\<lparr>vc_streams := b\<rparr>) = vcore s" "vcore (s\<lparr>vc_cameras := b\<rparr>) = vcore s"
  "vcore (s\<lparr>vc_self_camera := c\<rparr>) = vcore s" "vcore (s\<lparr>vc_local := c\<rparr>) = vcore s" "vcore (s\<lparr>vc_screen := d\<rparr>) = vcore s"
  "vcore (s\<lparr>vc_camera := c\<rparr>) = vcore s" "vcore (s\<lparr>vc_screen_slot := d\<rparr>) = vcore s"
  "vcore (s\<lparr>vc_heartbeat := d\<rparr>) = vcore s" "vcore (s\<lparr>vc_prune := d\<rparr>) = vcore s" "vcore (s\<lparr>vc_timers := e\<rparr>) = vcore s"
  "vcore (s\<lparr>vc_ids := f\<rparr>) = vcore s" "vcore (s\<lparr>vc_ice := g\<rparr>) = vcore s" "vcore (s\<lparr>vc_ice_at := h\<rparr>) = vcore s"
  "vcore (s\<lparr>vc_tasks := i\<rparr>) = vcore s" "vcore (s\<lparr>vc_share_onended := j\<rparr>) = vcore s"
  "vcore (s\<lparr>vc_camera_onended := j\<rparr>) = vcore s"
  by (simp_all add: vcore_def)

lemma vcore_phone: "core (f (vc_phone s)) = core (vc_phone s) \<Longrightarrow> vcore (on_phone f s) = vcore s"
  by (simp add: vcore_def on_phone_def)

lemma vcore_media [simp]: "marks (f (vmedia s)) = marks (vmedia s) \<Longrightarrow> vcore (on_vmedia f s) = vcore s"
  by (simp add: on_vmedia_def vcore_phone vmedia_def)

lemma vcore_object [simp]: "(\<And>p. pr_pc (f p) = pr_pc p) \<Longrightarrow> vcore (on_object i f s) = vcore s"
  by (cases "i < length (vc_objects s)") (simp_all add: vcore_def on_object_def map_update list_update_same_conv list_update_beyond)

lemma vcore_voice: "(vc_voice s = None) = (v = None) \<Longrightarrow> vcore (set_voice v s) = vcore s"
  by (simp add: vcore_def set_voice_def on_phone_def)

lemma vcore_ops [simp]:
  "vcore (vwait t s) = vcore s" "vcore (vclear i s) = vcore s" "vcore (set_participant conv p s) = vcore s"
  "vcore (remove_participant conv sess s) = vcore s" "vcore (update_self s) = vcore s"
  "vcore (set_peer_state sess st s) = vcore s" "vcore (publish_stream sess x s) = vcore s"
  "vcore (publish_camera sess x s) = vcore s" "vcore (signal_to W conv sig s) = vcore s" "vcore (vtoast key s) = vcore s"
  "vcore (snd (vtimer tm s)) = vcore s"
  by (simp_all add: vwait_def vclear_def set_participant_def remove_participant_def update_self_def set_peer_state_def
      publish_stream_def publish_camera_def signal_to_def vtoast_def vtimer_def vcore_phone vcore_voice Let_def
      split: option.split)

lemma mesh_vcore:
  assumes "vcore t = vcore s"
  shows "mesh_inv t = mesh_inv s"
proof -
  have e: "vc_peers t = vc_peers s" "(vc_voice t = None) = (vc_voice s = None)" "core (vc_phone t) = core (vc_phone s)"
      "map pr_pc (vc_objects t) = map pr_pc (vc_objects s)"
    using assms unfolding vcore_def prod.inject by blast+
  have l: "length (vc_objects t) = length (vc_objects s)" using e(4) by (rule map_eq_imp_length_eq)
  have pc: "pc_of i t = pc_of i s" if "i < length (vc_objects s)" for i
    using e(4) l that unfolding pc_of_def by (metis nth_map)
  have m: "vmarks t = vmarks s" "call_inv (vc_phone t) = call_inv (vc_phone s)"
    using core_inv [OF e(3)] by (simp_all add: vmarks_def vmedia_def)
  show ?thesis unfolding mesh_inv_def e(1,2) l m by (simp add: pc cong: conj_cong)
qed

text \<open>An operation that keeps the invariant and neither enters nor leaves a channel.\<close>

definition tidy :: "channel \<Rightarrow> channel \<Rightarrow> bool" where
  "tidy s t \<longleftrightarrow> (mesh_inv s \<longrightarrow> mesh_inv t) \<and> (vc_voice t = None) = (vc_voice s = None)"

interpretation tidy: frame tidy
  by unfold_locales (auto simp: tidy_def)

lemma vcore_tidy:
  assumes "vcore t = vcore s"
  shows "tidy s t"
proof -
  have "(vc_voice t = None) = (vc_voice s = None)" using assms unfolding vcore_def prod.inject by blast
  then show ?thesis using mesh_vcore [OF assms] by (simp add: tidy_def)
qed

lemma tidy_vcore: "tidy s t \<Longrightarrow> vcore u = vcore t \<Longrightarrow> tidy s u"
  using vcore_tidy tidy.R_trans by blast

section \<open>Closing and making connections\<close>

lemma jdel_absent: "jget m k = None \<Longrightarrow> jdel k m = m"
  by (induction m) (auto simp: AList.delete_eq split: if_splits)

text \<open>What closing a peer does to what the invariant speaks of.\<close>

lemma close_peer_vcore:
  "vcore (close_peer r s) = (case jget (vc_peers s) r of None \<Rightarrow> vcore s
     | Some i \<Rightarrow> vcore (on_vmedia (close_peer_connection (pc_of i s)) (s\<lparr>vc_peers := jdel r (vc_peers s)\<rparr>)))"
proof (cases "jget (vc_peers s) r")
  case (Some i)
  let ?u = "s\<lparr>vc_peers := jdel r (vc_peers s)\<rparr>"
  have "vcore (on_vmedia f (vclear x ?u)) = vcore (on_vmedia f ?u)" for f x
    by (simp add: vcore_def on_vmedia_def on_phone_def vclear_def)
  moreover have "pc_of i (vclear x ?u) = pc_of i s" for x by (simp add: pc_of_def vclear_def)
  ultimately show ?thesis by (simp add: close_peer_def Let_def Some)
qed (simp add: close_peer_def)

lemma call_inv_media:
  assumes "call_inv p" and "\<And>q. ph_pc p = Some q \<Longrightarrow> q < length (marks m) \<and> marks m ! q = marks (ph_media p) ! q"
  shows "call_inv (p\<lparr>ph_media := m\<rparr>)"
  using assms by (cases "ph_call p") (simp_all add: call_inv_def)

lemma vmarks_sel [simp]:
  "vmarks (on_vmedia f s) = marks (f (vmedia s))" "vmarks (s\<lparr>vc_peers := a\<rparr>) = vmarks s" "vmarks (s\<lparr>vc_objects := b\<rparr>) = vmarks s"
  by (simp_all add: vmarks_def vmedia_def on_vmedia_def on_phone_def)

lemma vmedia_sel [simp]:
  "vmedia (s\<lparr>vc_peers := a\<rparr>) = vmedia s" "vmedia (s\<lparr>vc_objects := b\<rparr>) = vmedia s" "vmedia (on_vmedia f s) = f (vmedia s)"
  by (simp_all add: vmedia_def on_vmedia_def on_phone_def)

lemma on_vmedia_sel [simp]:
  "vc_peers (on_vmedia f s) = vc_peers s" "vc_objects (on_vmedia f s) = vc_objects s" "vc_voice (on_vmedia f s) = vc_voice s"
  "vc_phone (on_vmedia f s) = (vc_phone s)\<lparr>ph_media := f (ph_media (vc_phone s))\<rparr>"
  by (simp_all add: on_vmedia_def on_phone_def on_media_def)

lemma pc_of_sel [simp]: "pc_of i (on_vmedia f s) = pc_of i s" "pc_of i (s\<lparr>vc_peers := a\<rparr>) = pc_of i s"
  by (simp_all add: pc_of_def)

lemma closing_mesh:
  assumes inv: "mesh_inv s" and i: "jget (vc_peers s) r = Some i"
  shows "mesh_inv (on_vmedia (close_peer_connection (pc_of i s)) (s\<lparr>vc_peers := jdel r (vc_peers s)\<rparr>))"
proof -
  let ?p = "pc_of i s" and ?M = "vmarks s"
  let ?u = "on_vmedia (close_peer_connection ?p) (s\<lparr>vc_peers := jdel r (vc_peers s)\<rparr>)"
  let ?N = "?M[?p := (fst (?M ! ?p), True)]"
  have N: "vmarks ?u = ?N" by (simp add: marks_close vmarks_def)
  have peers: "jget (jdel r (vc_peers s)) k = (if k = r then None else jget (vc_peers s) k)" for k by (simp add: delete_conv')
  have two: "j < length (vc_objects s) \<and> pc_of j s < length ?M \<and> \<not> snd (?M ! pc_of j s)
      \<and> (\<exists>conv. fst (?M ! pc_of j s) = ForSession conv k)" if "jget (vc_peers s) k = Some j" for k j
    using mesh_peer [OF inv that] by blast
  have other: "pc_of j s \<noteq> ?p" if "jget (vc_peers s) k = Some j" "k \<noteq> r" for k j
    using two [OF that(1)] two [OF i] that(2) by auto
  have "jmap_inv (vc_peers ?u)" using inv jm.inv_del by (auto simp: mesh_inv_def)
  moreover have "\<forall>k j. jget (vc_peers ?u) k = Some j \<longrightarrow> j < length (vc_objects s) \<and> pc_of j s < length ?N
      \<and> \<not> snd (?N ! pc_of j s) \<and> (\<exists>conv. fst (?N ! pc_of j s) = ForSession conv k)"
  proof (intro allI impI)
    fix k j assume "jget (vc_peers ?u) k = Some j"
    then have kj: "jget (vc_peers s) k = Some j" "k \<noteq> r" by (simp_all add: peers split: if_splits)
    then have "?N ! pc_of j s = ?M ! pc_of j s" using other [OF kj] by (intro nth_list_update_neq) simp
    then show "j < length (vc_objects s) \<and> pc_of j s < length ?N \<and> \<not> snd (?N ! pc_of j s)
        \<and> (\<exists>conv. fst (?N ! pc_of j s) = ForSession conv k)"
      using two [OF kj(1)] by simp
  qed
  moreover have "\<exists>k j. jget (vc_peers ?u) k = Some j \<and> j < length (vc_objects s) \<and> pc_of j s = q"
    if "q < length ?N" "for_session (fst (?N ! q))" "\<not> snd (?N ! q)" for q
  proof -
    have q: "q \<noteq> ?p" using that(1,3) by auto
    then have "?N ! q = ?M ! q" by (intro nth_list_update_neq) simp
    then have "for_session (fst (?M ! q))" "\<not> snd (?M ! q)" "q < length ?M" using that by simp_all
    then obtain k j where kj: "jget (vc_peers s) k = Some j" "j < length (vc_objects s)" "pc_of j s = q"
      using mesh_open [OF inv] by metis
    then have "k \<noteq> r" using q i by auto
    with kj show ?thesis by (auto simp: peers)
  qed
  moreover have "vc_voice s = None \<longrightarrow> vc_peers ?u = []" using inv by (simp add: mesh_inv_def)
  moreover have "call_inv (vc_phone ?u)"
  proof -
    have "call_inv (vc_phone s)" using inv by (simp add: mesh_inv_def)
    moreover have "q < length (md_peers (vmedia s)) \<and> q \<noteq> ?p" if "ph_pc (vc_phone s) = Some q" for q
      using calculation that two [OF i] by (auto simp: call_inv_def vmarks_def vmedia_def)
    ultimately have "call_inv ((vc_phone s)\<lparr>ph_media := close_peer_connection ?p (vmedia s)\<rparr>)"
      by (intro call_inv_media) (auto simp: marks_close vmedia_def simp flip: length_marks)
    then show ?thesis by (simp add: vmedia_def)
  qed
  ultimately show ?thesis unfolding mesh_inv_def N by simp
qed

lemma close_peer_sel [simp]:
  "vc_peers (close_peer r s) = jdel r (vc_peers s)" "(vc_voice (close_peer r s) = None) = (vc_voice s = None)"
proof -
  have "vcore (close_peer r s) = vcore s \<and> jget (vc_peers s) r = None \<or>
      (\<exists>f. vcore (close_peer r s) = vcore (on_vmedia f (s\<lparr>vc_peers := jdel r (vc_peers s)\<rparr>)))"
    using close_peer_vcore [of r s] by (auto split: option.splits)
  then show "vc_peers (close_peer r s) = jdel r (vc_peers s)" "(vc_voice (close_peer r s) = None) = (vc_voice s = None)"
    by (auto simp: vcore_def jdel_absent)
qed

lemma close_peer_tidy: "tidy s (close_peer r s)"
proof (cases "jget (vc_peers s) r")
  case None
  then show ?thesis using close_peer_vcore [of r s] by (intro vcore_tidy) simp
next
  case (Some i)
  have "mesh_inv (close_peer r s)" if "mesh_inv s"
    using closing_mesh [OF that Some] mesh_vcore [OF close_peer_vcore [of r s, unfolded Some option.case]] by blast
  then show ?thesis by (simp add: tidy_def)
qed


lemma making_mesh:
  assumes inv: "mesh_inv s" and free: "jget (vc_peers s) r = None" and here: "vc_voice s \<noteq> None"
    and m: "marks m = vmarks s @ [(ForSession conv r, False)]" and o': "pr_pc o' = length (vmarks s)"
  shows "mesh_inv ((on_vmedia (\<lambda>_. m) s)\<lparr>vc_objects := vc_objects s @ [o'], vc_peers := jset r (length (vc_objects s)) (vc_peers s)\<rparr>)"
proof -
  let ?n = "length (vc_objects s)" and ?M = "vmarks s"
  let ?u = "(on_vmedia (\<lambda>_. m) s)\<lparr>vc_objects := vc_objects s @ [o'], vc_peers := jset r ?n (vc_peers s)\<rparr>"
  have M: "vmarks ?u = ?M @ [(ForSession conv r, False)]" using m by simp
  have peers: "jget (jset r ?n (vc_peers s)) k = (if k = r then Some ?n else jget (vc_peers s) k)" for k
    by (simp add: update_conv')
  have pc: "pc_of j ?u = (if j = ?n then length ?M else pc_of j s)" if "j \<le> ?n" for j
    using that o' by (simp add: pc_of_def nth_append)
  have "jmap_inv (vc_peers ?u)" using inv by (simp add: mesh_inv_def jm.inv_put)
  moreover have "\<forall>k j. jget (vc_peers ?u) k = Some j \<longrightarrow> j < length (vc_objects ?u) \<and> pc_of j ?u < length (vmarks ?u)
      \<and> \<not> snd (vmarks ?u ! pc_of j ?u) \<and> (\<exists>c. fst (vmarks ?u ! pc_of j ?u) = ForSession c k)"
  proof (intro allI impI)
    fix k j assume kj: "jget (vc_peers ?u) k = Some j"
    show "j < length (vc_objects ?u) \<and> pc_of j ?u < length (vmarks ?u)
      \<and> \<not> snd (vmarks ?u ! pc_of j ?u) \<and> (\<exists>c. fst (vmarks ?u ! pc_of j ?u) = ForSession c k)"
    proof (cases "k = r")
      case True
      then have "j = ?n" using kj by (simp add: peers)
      then show ?thesis using True pc [of ?n] unfolding M by simp
    next
      case False
      then have "jget (vc_peers s) k = Some j" using kj by (simp add: peers)
      note p = mesh_peer [OF inv this]
      then show ?thesis using pc [of j] unfolding M by (simp add: nth_append)
    qed
  qed
  moreover have "\<exists>k j. jget (vc_peers ?u) k = Some j \<and> j < length (vc_objects ?u) \<and> pc_of j ?u = q"
    if q: "q < length (vmarks ?u)" "for_session (fst (vmarks ?u ! q))" "\<not> snd (vmarks ?u ! q)" for q
  proof (cases "q < length ?M")
    case True
    then have "for_session (fst (?M ! q))" "\<not> snd (?M ! q)" using q(2,3) unfolding M by (simp_all add: nth_append)
    then obtain k j where kj: "jget (vc_peers s) k = Some j" "j < ?n" "pc_of j s = q" by (rule mesh_open [OF inv True])
    then have "k \<noteq> r" using free by auto
    then show ?thesis using kj pc [of j] by (intro exI [of _ k] exI [of _ j]) (simp add: peers)
  next
    case False
    then have "q = length ?M" using q(1) unfolding M by simp
    then show ?thesis using pc [of ?n] by (intro exI [of _ r] exI [of _ ?n]) (simp add: peers)
  qed
  moreover have "vc_voice ?u \<noteq> None" using here by simp
  moreover have "call_inv (vc_phone ?u)"
  proof -
    have i: "call_inv (vc_phone s)" using inv by (simp add: mesh_inv_def)
    then have "q < length ?M" if "ph_pc (vc_phone s) = Some q" for q
      using that by (auto simp: call_inv_def vmarks_def vmedia_def)
    then have "call_inv ((vc_phone s)\<lparr>ph_media := m\<rparr>)"
      using m by (intro call_inv_media [OF i]) (auto simp: vmarks_def vmedia_def nth_append simp del: length_marks)
    then show ?thesis by simp
  qed
  ultimately show ?thesis unfolding mesh_inv_def by blast
qed

lemma create_peer_tidy:
  assumes "vc_voice s \<noteq> None"
  shows "tidy s (snd (create_peer conv r s))"
proof -
  let ?t = "close_peer r s"
  obtain pc m where new: "new_peer (ForSession conv r) (vc_ice ?t) (vmedia ?t) = (pc, m)" by fastforce
  then have m: "pc = length (vmarks ?t)" "marks m = vmarks ?t @ [(ForSession conv r, False)]"
    by (auto simp: new_peer_def vmarks_def marks_def)
  let ?o = "\<lparr>pr_pc = pc, pr_audio = None, pr_camera_sender = None, pr_screen_sender = None, pr_queued = [], pr_outgoing = [],
      pr_flush = None\<rparr> :: voice_peer"
  let ?u = "(on_vmedia (\<lambda>_. m) ?t)\<lparr>vc_objects := vc_objects ?t @ [?o], vc_peers := jset r (length (vc_objects ?t)) (vc_peers ?t)\<rparr>"
  have "vc_voice ?t \<noteq> None" "jget (vc_peers ?t) r = None" using assms by (simp_all add: delete_conv')
  then have "mesh_inv ?u" if "mesh_inv ?t" using making_mesh [OF that _ _ m(2), of ?o] m(1) by simp
  then have "tidy ?t ?u" by (simp add: tidy_def)
  moreover have "vcore (snd (create_peer conv r s)) = vcore ?u"
    by (simp add: create_peer_def new Let_def split: option.split)
  ultimately have "tidy ?t (snd (create_peer conv r s))" by (rule tidy_vcore)
  then show ?thesis by (rule tidy.R_trans [OF close_peer_tidy])
qed

lemma vcore_ensure [simp]: "vcore (snd (ensure_video i s)) = vcore s"
proof -
  have "vcore (vattach x t u) = vcore u" for x t u by (simp add: vattach_def split: option.split)
  then show ?thesis by (simp add: ensure_video_def Let_def marks_on_peer)
qed

lemma ensure_tidy: "ensure_video i t = (r, u) \<Longrightarrow> tidy s t \<Longrightarrow> tidy s u"
  using vcore_ensure [of i t] by (intro tidy_vcore [of s t u]) simp_all

lemma create_tidy: "vc_voice s \<noteq> None \<Longrightarrow> create_peer conv r s = (i, t) \<Longrightarrow> tidy s t"
  using create_peer_tidy [of s conv r] by simp

lemma then_close: "tidy s t \<Longrightarrow> tidy s (close_peer r t)"
  using close_peer_tidy tidy.R_trans by blast

lemma then_wait: "tidy s t \<Longrightarrow> tidy s (vwait tk t)"
  by (rule tidy_vcore) simp_all

lemma offer_to_tidy: "tidy s (offer_to conv r s)"
  by (auto simp: offer_to_def tidy.R_refl intro!: then_close then_wait intro: ensure_tidy create_tidy
      split: option.split prod.split sum.split)

lemma accept_offer_tidy: "tidy s (accept_offer conv r sdp s)"
  by (auto simp: accept_offer_def tidy.R_refl intro!: then_wait intro: create_tidy split: option.split prod.split)

lemma maybe_connect_tidy: "tidy s (maybe_connect p s)"
  by (auto simp: maybe_connect_def tidy.R_refl offer_to_tidy split: option.split)

lemma fold_tidy: "(\<And>x t. x \<in> set xs \<Longrightarrow> tidy t (f x t)) \<Longrightarrow> tidy s (fold f xs s)"
proof (induction xs arbitrary: s)
  case (Cons x xs)
  then have "tidy s (f x s)" "tidy (f x s) (fold f xs (f x s))" by auto
  then show ?case by (auto intro: tidy.R_trans)
qed (simp add: tidy.R_refl)

lemma prune_room_tidy:
  "(case acc of (ch, rooms, t) \<Rightarrow> tidy s t) \<Longrightarrow> (case prune_room v now room acc of (ch, rooms, t) \<Rightarrow> tidy s t)"
  by (auto simp: prune_room_def Let_def split: prod.splits
      intro!: tidy.R_trans [OF _ fold_tidy] simp: tidy.R_refl close_peer_tidy)

lemma prune_tidy: "tidy s (prune s)"
proof -
  have "case fold (prune_room (vc_voice s) (vnow s)) rs acc of (ch, rooms, t) \<Rightarrow> tidy s t"
    if "case acc of (ch, rooms, t) \<Rightarrow> tidy s t" for rs acc
    using that by (induction rs arbitrary: acc) (simp_all add: prune_room_tidy)
  from this [of "(False, vc_rooms s, s)" "vc_rooms s"] show ?thesis
    by (auto simp: prune_def tidy.R_refl split: prod.splits intro: tidy_vcore)
qed


section \<open>Entering and leaving\<close>

definition keeps :: "channel \<Rightarrow> channel \<Rightarrow> bool" where
  "keeps s t \<longleftrightarrow> (mesh_inv s \<longrightarrow> mesh_inv t)"

interpretation keeps: frame keeps
  by unfold_locales (auto simp: keeps_def)

lemma tidy_keeps: "tidy s t \<Longrightarrow> keeps s t"
  by (simp add: tidy_def keeps_def)

lemma keeps_vcore: "keeps s t \<Longrightarrow> vcore u = vcore t \<Longrightarrow> keeps s u"
  using mesh_vcore [of u t] by (simp add: keeps_def)

lemma set_voice_mesh:
  assumes "mesh_inv u" and "v = None \<longrightarrow> vc_peers u = []"
  shows "mesh_inv (set_voice v u)"
proof -
  have "core ((vc_phone u)\<lparr>ph_in_voice := b\<rparr>) = core (vc_phone u)" for b by simp
  then have "call_inv ((vc_phone u)\<lparr>ph_in_voice := b\<rparr>) = call_inv (vc_phone u)" for b by (rule core_inv(1))
  then show ?thesis using assms
    by (simp add: mesh_inv_def set_voice_def on_phone_def vmarks_def vmedia_def pc_of_def)
qed

lemma fold_close_peers: "vc_peers (fold close_peer ks s) = filter (\<lambda>x. fst x \<notin> set ks) (vc_peers s)"
proof (induction ks arbitrary: s)
  case (Cons k ks)
  have "filter (\<lambda>x. fst x \<notin> set ks) (jdel k (vc_peers s)) = filter (\<lambda>x. fst x \<noteq> k \<and> fst x \<notin> set ks) (vc_peers s)"
    by (simp add: AList.delete_eq case_prod_unfold conj_commute eq_commute)
  then show ?case by (simp add: Cons.IH)
qed simp

lemma all_closed: "vc_peers (fold close_peer (map fst (vc_peers s)) s) = []"
  by (simp add: fold_close_peers filter_empty_conv)

lemma leave_parts:
  assumes "vc_voice s = Some v"
  obtains u where "vcore u = vcore (fold close_peer (map fst (vc_peers s)) (stop_camera_tracks (stop_voice_screen
      ((vclear (vc_heartbeat s) s)\<lparr>vc_heartbeat := None\<rparr>))\<lparr>vc_screen_slot := None\<rparr>))"
    and "leave_voice W s = signal_to W (vs_conv_id v) (VoiceLeave (vs_session v)) (set_voice None u)"
proof -
  let ?a = "(stop_camera_tracks (stop_voice_screen ((vclear (vc_heartbeat s) s)\<lparr>vc_heartbeat := None\<rparr>)))\<lparr>vc_screen_slot := None\<rparr>"
  have "vc_peers ?a = vc_peers s"
    by (simp add: stop_camera_tracks_def stop_voice_screen_def vclear_def split: option.split)
  moreover have "vcore (remove_participant c i (stop_local (b\<lparr>vc_streams := [], vc_cameras := []\<rparr>))) = vcore b" for b c i
    by (simp add: stop_local_def split: option.split)
  ultimately show ?thesis using that [of "remove_participant (vs_conv_id v) (vs_session v) (stop_local
      ((fold close_peer (map fst (vc_peers s)) ?a)\<lparr>vc_streams := [], vc_cameras := []\<rparr>))"]
    by (simp add: leave_voice_def assms Let_def)
qed

lemma leave_voice_keeps: "keeps s (leave_voice W s)" "vc_voice (leave_voice W s) = None"
proof -
  have "keeps s (leave_voice W s) \<and> vc_voice (leave_voice W s) = None"
  proof (cases "vc_voice s")
    case (Some v)
    let ?a = "(stop_camera_tracks (stop_voice_screen ((vclear (vc_heartbeat s) s)\<lparr>vc_heartbeat := None\<rparr>)))\<lparr>vc_screen_slot := None\<rparr>"
    let ?b = "fold close_peer (map fst (vc_peers s)) ?a"
    obtain u where u: "vcore u = vcore ?b"
        "leave_voice W s = signal_to W (vs_conv_id v) (VoiceLeave (vs_session v)) (set_voice None u)"
      using leave_parts [OF Some] by blast
    have a: "vcore ?a = vcore s" by (simp add: stop_camera_tracks_def stop_voice_screen_def split: option.split)
    then have "vc_peers ?a = vc_peers s" unfolding vcore_def prod.inject by blast
    then have "vc_peers ?b = []" using all_closed [of ?a] by simp
    then have p: "vc_peers u = []" using u(1) unfolding vcore_def prod.inject by simp
    have "tidy s ?b" by (rule tidy.R_trans [OF vcore_tidy [OF a] fold_tidy]) (rule close_peer_tidy)
    then have "tidy s u" using u(1) by (rule tidy_vcore)
    then have "keeps s (set_voice None u)" using set_voice_mesh p by (simp add: keeps_def tidy_def)
    then have "keeps s (leave_voice W s)" unfolding u(2) by (rule keeps_vcore) simp
    moreover have "vc_voice (leave_voice W s) = None" unfolding u(2) by (simp add: signal_to_def set_voice_def on_phone_def)
    ultimately show ?thesis by blast
  qed (simp add: leave_voice_def keeps.R_refl)
  then show "keeps s (leave_voice W s)" "vc_voice (leave_voice W s) = None" by blast+
qed

lemma logout_keeps: "keeps s (logout_effect W s)"
  by (simp add: logout_effect_def leave_voice_keeps keeps.R_refl)

lemma enter_voice_keeps: "keeps s (enter_voice W conv mic s)"
proof -
  obtain slot m where new: "new_stream [] (vmedia s) = (slot, m)" by fastforce
  then have m: "marks m = marks (vmedia s)" by (auto simp: new_stream_def)
  let ?p = "\<lambda>p. p\<lparr>ph_app := (ph_app p)\<lparr>a_draws := Suc (a_draws (ph_app p))\<rparr>\<rparr>"
  let ?a = "(on_vmedia (\<lambda>_. m) (on_phone ?p (s\<lparr>vc_local := Some mic\<rparr>)))\<lparr>vc_screen_slot := Some slot\<rparr>"
  have v: "vmedia (on_phone ?p (s\<lparr>vc_local := Some mic\<rparr>)) = vmedia s" by (simp add: vmedia_def on_phone_def)
  then have "vcore ?a = vcore s" using m by (simp add: vcore_phone)
  then have a: "keeps s ?a" using vcore_tidy tidy_keeps by blast
  have "keeps ?a (set_voice (Some x) ?a)" for x using set_voice_mesh by (simp add: keeps_def)
  then have l: "keeps s (logout_effect W (set_voice (Some x) ?a))" for x
    using a logout_keeps keeps.R_trans by blast
  have "vcore (vwait tk (signal_to W conv sig (update_self t))) = vcore t" for tk sig t by simp
  then have "keeps s (vwait tk (signal_to W conv sig (update_self (logout_effect W (set_voice (Some x) ?a)))))" for tk sig x
    by (rule keeps_vcore [OF l])
  then show ?thesis unfolding enter_voice_def Let_def v new prod.case by blast
qed


section \<open>Every step keeps the mesh\<close>

lemma phone_mesh:
  assumes inv: "mesh_inv s" and p: "call_inv p" and g: "grows (vmarks s) (marks (ph_media p))"
  shows "mesh_inv (s\<lparr>vc_phone := p\<rparr>)"
proof -
  let ?M = "vmarks s" and ?N = "marks (ph_media p)"
  have N: "vmarks (s\<lparr>vc_phone := p\<rparr>) = ?N" by (simp add: vmarks_def vmedia_def)
  have pc: "pc_of i (s\<lparr>vc_phone := p\<rparr>) = pc_of i s" for i by (simp add: pc_of_def)
  have "length ?M \<le> length ?N" using g unfolding grows_def by blast
  have same: "?N ! q = ?M ! q" if "q < length ?M" "for_session (fst (?M ! q))" for q
    using g that by (simp add: grows_def prod_eq_iff)
  have "i < length (vc_objects s) \<and> pc_of i s < length ?N \<and> \<not> snd (?N ! pc_of i s)
      \<and> (\<exists>conv. fst (?N ! pc_of i s) = ForSession conv r)" if "jget (vc_peers s) r = Some i" for r i
  proof -
    note m = mesh_peer [OF inv that]
    then have "for_session (fst (?M ! pc_of i s))" by auto
    then show ?thesis using m same [OF m(2)] \<open>length ?M \<le> length ?N\<close> by (metis less_le_trans)
  qed
  moreover have "\<exists>r i. jget (vc_peers s) r = Some i \<and> i < length (vc_objects s) \<and> pc_of i s = q"
    if q: "q < length ?N" "for_session (fst (?N ! q))" "\<not> snd (?N ! q)" for q
  proof -
    have l: "q < length ?M" using g q(1,2) unfolding grows_def by (meson not_le)
    then have "fst (?N ! q) = fst (?M ! q)" using g unfolding grows_def by blast
    then have "for_session (fst (?M ! q))" "\<not> snd (?M ! q)" using same [OF l] q by auto
    with l show ?thesis by (metis mesh_open [OF inv])
  qed
  moreover have "jmap_inv (vc_peers s)" "vc_voice s = None \<longrightarrow> vc_peers s = []" using inv by (simp_all add: mesh_inv_def)
  ultimately show ?thesis using p by (simp add: mesh_inv_def N pc)
qed

lemma on_phone_tidy: "tidy s (on_phone (perform W ev) s)"
proof -
  have "mesh_inv (on_phone (perform W ev) s)" if "mesh_inv s"
  proof -
    have "call_inv (vc_phone s)" using that by (simp add: mesh_inv_def)
    then have "call_inv (perform W ev (vc_phone s)) \<and> grows (vmarks s) (marks (ph_media (perform W ev (vc_phone s))))"
      using perform_follows [of "vc_phone s" W ev] by (simp add: follows_def vmarks_def vmedia_def)
    then show ?thesis using phone_mesh [OF that] unfolding on_phone_def by blast
  qed
  then show ?thesis by (simp add: tidy_def on_phone_def)
qed

lemma connect_all_tidy: "tidy s (connect_all conv s)"
  unfolding connect_all_def by (rule fold_tidy) (rule maybe_connect_tidy)

lemma joined_tidy: "tidy s (joined conv s)"
  by (rule tidy_vcore [OF connect_all_tidy]) (simp add: joined_def vtimer_def Let_def)

lemma beat_tidy: "tidy s (beat W s)"
proof -
  have "vcore (case vc_voice t of None \<Rightarrow> t | Some w \<Rightarrow> signal_to W c (presence w) t) = vcore t" for t c
    by (simp split: option.split)
  moreover have "vcore (refresh_ice t) = vcore t" for t by (simp add: refresh_ice_def)
  ultimately have "vcore (case vc_voice (refresh_ice (prune s)) of None \<Rightarrow> refresh_ice (prune s)
      | Some w \<Rightarrow> signal_to W c (presence w) (refresh_ice (prune s))) = vcore (prune s)" for c by simp
  then have "tidy s (connect_all c (case vc_voice (refresh_ice (prune s)) of None \<Rightarrow> refresh_ice (prune s)
      | Some w \<Rightarrow> signal_to W d (presence w) (refresh_ice (prune s))))" for c d
    using tidy_vcore [OF prune_tidy] connect_all_tidy tidy.R_trans by metis
  then show ?thesis by (simp add: beat_def Let_def tidy.R_refl split: option.split)
qed

lemma feed_vcore [simp]: "vcore (feed slot t s) = vcore s"
proof -
  have "vcore (fold (\<lambda>i s. case slot (vc_objects s ! i) of None \<Rightarrow> s | Some x \<Rightarrow> on_vmedia (replace_track x t) s) xs s) = vcore s"
    for xs s by (induction xs arbitrary: s) (simp_all split: option.split)
  then show ?thesis by (simp add: feed_def)
qed

lemma feed_voice: "vc_voice (feed slot t s) = vc_voice s"
proof -
  have "vc_voice (fold (\<lambda>i s. case slot (vc_objects s ! i) of None \<Rightarrow> s | Some x \<Rightarrow> on_vmedia (replace_track x t) s) xs s) = vc_voice s"
    for xs s by (induction xs arbitrary: s) (simp_all split: option.split)
  then show ?thesis by (simp add: feed_def)
qed

lemma stops_vcore [simp]:
  "vcore (stop_voice_screen s) = vcore s" "vcore (stop_camera_tracks s) = vcore s"
  "vc_voice (stop_voice_screen s) = vc_voice s" "vc_voice (stop_camera_tracks s) = vc_voice s"
  by (simp_all add: stop_voice_screen_def stop_camera_tracks_def split: option.split)

lemma vcore_show: "vc_voice s \<noteq> None \<Longrightarrow> vcore (signal_to W conv sig (update_self (set_voice (Some v) s))) = vcore s"
  by (simp add: vcore_voice)

lemma device_tidy:
  "tidy s (toggle_voice_mute W s)" "tidy s (voice_screen_picked W conv sess st s)" "tidy s (stop_voice_share W s)"
  "tidy s (voice_camera_granted W conv sess st s)" "tidy s (stop_voice_camera W s)"
  by (rule vcore_tidy; simp add: toggle_voice_mute_def voice_screen_picked_def stop_voice_share_def voice_camera_granted_def
      stop_voice_camera_def Let_def vcore_voice feed_voice split: option.split)+

lemma toggle_voice_camera_tidy: "tidy s (toggle_voice_camera W s)"
  by (auto simp: toggle_voice_camera_def start_voice_camera_def device_tidy tidy.R_refl vcore_tidy split: option.split)

lemma presence_tidy: "tidy s (voice_presence W join sender device conv sess muted sharing camera me s)"
proof -
  have p: "tidy s (maybe_connect x t)" if "vcore t = vcore s" for x t
    by (rule tidy.R_trans [OF vcore_tidy [OF that] maybe_connect_tidy])
  have "core (p\<lparr>ph_toasts := x\<rparr>) = core p" for p x by simp
  then have t: "vcore (on_phone (\<lambda>p. p\<lparr>ph_toasts := f p\<rparr>) t) = vcore t" for f t by (intro vcore_phone)
  show ?thesis unfolding voice_presence_def Let_def
    by (simp add: p vcore_tidy t split: option.split if_split)
qed

lemma voice_signal_tidy: "tidy s (handle_voice_signal W sender device conv pl s)"
proof -
  have f: "vcore (flush_ice r t) = vcore t" for r t by (simp add: flush_ice_def Let_def split: option.split)
  have "tidy s (on_voice_signal W sender device conv me sig s)" for me sig
    by (cases sig)
      (auto simp: presence_tidy mark_participant_def vcore_tidy tidy.R_refl accept_offer_tidy split: option.split
        intro: tidy.R_trans [OF vcore_tidy close_peer_tidy])
  then show ?thesis by (simp add: handle_voice_signal_def tidy.R_refl split: option.split payload.split)
qed

lemma voice_timer_tidy: "tidy s (vfire W i s)"
proof -
  have "tidy t (run_voice_timer W tm t)" for tm t
    by (cases tm) (simp_all add: beat_tidy prune_tidy vcore_tidy Let_def split: option.split)
  then have "tidy s (run_voice_timer W tm (s\<lparr>vc_timers := ts\<rparr>))" "tidy s (run_voice_timer W tm s)" for tm ts
    using tidy.R_trans [OF vcore_tidy] vcore_updates(11) by blast+
  then show ?thesis by (simp add: vfire_def tidy.R_refl split: option.split voice_timer.split del: run_voice_timer.simps)
qed


lemma connection_tidy:
  "tidy s (von_track r i j t st s)" "tidy s (von_candidate conv r i c s)" "tidy s (von_connection r i pst s)"
proof -
  have "marks m = marks (vmedia s)" if "new_stream [t] (vmedia s) = (x, m)" for x m using that by (auto simp: new_stream_def)
  then show "tidy s (von_track r i j t st s)"
    by (intro vcore_tidy) (auto simp: von_track_def Let_def split: prod.split option.split)
  show "tidy s (von_candidate conv r i c s)"
  proof (rule vcore_tidy)
    have "vcore (on_object i (\<lambda>p. p\<lparr>pr_flush := x\<rparr>) t) = vcore t" "vcore (on_object i (\<lambda>p. p\<lparr>pr_outgoing := pr_outgoing p @ [c]\<rparr>) t) = vcore t"
      for x t by simp_all
    then show "vcore (von_candidate conv r i c s) = vcore s"
      by (simp add: von_candidate_def Let_def case_prod_unfold)
  qed
  have "tidy s (set_peer_state r x (close_peer r s))" for x by (rule tidy_vcore [OF close_peer_tidy]) simp
  then show "tidy s (von_connection r i pst s)"
    by (simp add: von_connection_def vcore_tidy tidy.R_refl split: peer_state.split)
qed

lemma remote_vcore [simp]: "vcore (vset_local p sdp s) = vcore s" "vcore (vset_remote p x trs s) = vcore s"
  by (simp_all add: vset_local_def vset_remote_def marks_on_peer)

lemma flush_ice_vcore [simp]: "vcore (flush_ice r s) = vcore s"
  by (simp add: flush_ice_def Let_def split: option.split)

lemma vgranted_keeps:
  assumes "\<And>st t. keeps t (f st t)" and "\<And>t. keeps t (g t)"
  shows "keeps s (vgranted out f g s)"
proof -
  have "keeps s (f st (on_vmedia (\<lambda>_. m) s))" if "capture a v (vmedia s) = (st, m)" for a v st m
  proof -
    have "marks m = marks (vmedia s)" using that by (auto simp: capture_def)
    then have "keeps s (on_vmedia (\<lambda>_. m) s)" by (intro tidy_keeps vcore_tidy) simp
    then show ?thesis using assms(1) keeps.R_trans by blast
  qed
  then show ?thesis using assms(2) by (auto simp: vgranted_def split: outcome.split prod.split)
qed

lemma vcore_keeps: "vcore t = vcore s \<Longrightarrow> keeps s t"
  using vcore_tidy tidy_keeps by blast

lemma mic_for_voice_keeps: "keeps s (mic_for_voice W conv mic s)"
  by (simp add: mic_for_voice_def enter_voice_keeps vcore_keeps)

lemma vresume_keeps: "keeps s (vresume W tk out s)"
proof (cases tk)
  case (JoinIce conv mic)
  have "keeps s (ice_fetched res s)" for res by (rule vcore_keeps) (simp add: ice_fetched_def)
  then show ?thesis using enter_voice_keeps keeps.R_trans by (simp add: JoinIce) blast
next
  case (VRemoteOffer conv r i sess sdp)
  have "keeps s (case ensure_video i (vset_remote p sdp trs s) of (Inl e, s) \<Rightarrow> close_peer r s
      | (Inr _, s) \<Rightarrow> vwait (VAnswer conv r i sess) s)" for p trs
  proof -
    obtain x u where x: "ensure_video i (vset_remote p sdp trs s) = (x, u)" by fastforce
    then have u: "tidy s u" by (rule ensure_tidy) (simp add: vcore_tidy)
    then show ?thesis using then_close [OF u] then_wait [OF u] by (cases x) (simp_all add: x tidy_keeps)
  qed
  then show ?thesis by (simp add: VRemoteOffer tidy_keeps close_peer_tidy split: outcome.split)
next
  case (JoinMic conv)
  then show ?thesis by (simp add: vgranted_keeps mic_for_voice_keeps vcore_keeps)
next
  case (VPick conv sess)
  then show ?thesis by (simp add: vgranted_keeps tidy_keeps device_tidy vcore_keeps keeps.R_refl)
next
  case (VCamera conv sess)
  then show ?thesis by (simp add: vgranted_keeps tidy_keeps device_tidy vcore_keeps)
qed (auto simp: vcore_keeps tidy_keeps joined_tidy close_peer_tidy ice_fetched_def split: outcome.split)

lemma join_keeps: "keeps s (join_voice W conv s)"
proof -
  have "keeps s (vwait tk (leave_voice W s))" for tk by (rule keeps_vcore [OF leave_voice_keeps(1)]) simp
  then show ?thesis by (auto simp: join_voice_def vcore_keeps keeps.R_refl split: option.split)
qed

lemma vperform_keeps: "keeps s (vperform W ev s)"
proof (cases ev)
  case (VResume i out)
  have "keeps s (vresume W tk out (s\<lparr>vc_tasks := ts\<rparr>))" for tk ts
    by (rule keeps.R_trans [OF vcore_keeps vresume_keeps]) simp
  then show ?thesis by (simp add: VResume del: vresume.simps)
next
  case (VTrackEnded t)
  let ?a = "on_phone (perform W (TrackEnded t)) s"
  let ?b = "if t \<in> set (vc_share_onended ?a) then stop_voice_share W ?a else ?a"
  have "tidy s ?a" by (rule on_phone_tidy)
  moreover have "tidy ?a ?b" by (simp add: device_tidy tidy.R_refl)
  moreover have "tidy ?b (if t \<in> set (vc_camera_onended ?b) then stop_voice_camera W ?b else ?b)"
    by (simp add: device_tidy tidy.R_refl)
  ultimately have "tidy s (vtrack_ended W t s)" unfolding vtrack_ended_def Let_def using tidy.R_trans by blast
  then show ?thesis by (simp add: VTrackEnded tidy_keeps)
next
  case (VElsewhere a)
  have "core (p\<lparr>ph_app := a\<rparr>) = core p" for p by simp
  then have "vcore (on_phone (\<lambda>p. p\<lparr>ph_app := a\<rparr>) s) = vcore s" by (rule vcore_phone)
  then show ?thesis using keeps.R_trans [OF vcore_keeps logout_keeps] by (simp add: VElsewhere)
next
  case VShare
  then show ?thesis by (auto simp: start_voice_share_def vcore_keeps keeps.R_refl split: option.split)
next
  case PageHide
  then show ?thesis by (simp add: page_hide_def vcore_keeps keeps.R_refl split: option.split)
qed (auto simp: on_phone_tidy tidy_keeps join_keeps leave_voice_keeps device_tidy toggle_voice_camera_tidy voice_signal_tidy
  voice_timer_tidy connection_tidy keeps.R_refl split: owner.split)

lemma mesh_reachable: "(voice_step W)\<^sup>*\<^sup>* (new_channel (new_phone a)) s \<Longrightarrow> mesh_inv s"
proof (induction rule: rtranclp_induct)
  case base
  have "call_inv (new_phone a)" by (rule call_inv_reachable) (rule rtranclp.rtrancl_refl)
  then show ?case by (simp add: mesh_inv_def new_channel_def new_phone_def vmarks_def vmedia_def marks_def jmap_inv_def)
next
  case (step t u)
  from step.hyps(2) step.IH show ?case
    using vperform_keeps unfolding keeps_def by (cases rule: voice_step.cases) blast
qed


text \<open>C22: The mesh is exact, whatever the order of events: every open connection of a voice channel is the one
of a peer the client knows, for that session and no other; the connection of a peer is open; there is at most
one open connection to a session; and outside a channel none is open, so nothing is heard or sent after leaving.\<close>

theorem voice_mesh:
  assumes "(voice_step W)\<^sup>*\<^sup>* (new_channel (new_phone a)) s"
  shows "(\<forall>p conv r. p < length (md_peers (vmedia s)) \<and> pe_owner (md_peers (vmedia s) ! p) = ForSession conv r
        \<and> \<not> peer_closed p (vmedia s) \<longrightarrow> (\<exists>i. jget (vc_peers s) r = Some i \<and> pc_of i s = p))
    \<and> (\<forall>r i. jget (vc_peers s) r = Some i \<longrightarrow> \<not> peer_closed (pc_of i s) (vmedia s))
    \<and> (vc_voice s = None \<longrightarrow> (\<forall>p conv r. p < length (md_peers (vmedia s))
        \<and> pe_owner (md_peers (vmedia s) ! p) = ForSession conv r \<longrightarrow> peer_closed p (vmedia s)))"
proof -
  have inv: "mesh_inv s" using assms by (rule mesh_reachable)
  have mark: "vmarks s ! p = (pe_owner (md_peers (vmedia s) ! p), peer_closed p (vmedia s))"
    if "p < length (md_peers (vmedia s))" for p using that by (simp add: vmarks_def marks_nth)
  have l: "length (vmarks s) = length (md_peers (vmedia s))" by (simp add: vmarks_def)
  have open_has: "\<exists>i. jget (vc_peers s) r = Some i \<and> pc_of i s = p"
    if "p < length (md_peers (vmedia s))" "pe_owner (md_peers (vmedia s) ! p) = ForSession conv r" "\<not> peer_closed p (vmedia s)"
    for p conv r
  proof -
    have m: "vmarks s ! p = (ForSession conv r, False)" using mark [OF that(1)] that(2,3) by simp
    then have "for_session (fst (vmarks s ! p))" "\<not> snd (vmarks s ! p)" "p < length (vmarks s)" using that(1) l by simp_all
    then obtain k i where k: "jget (vc_peers s) k = Some i" "pc_of i s = p"
      using mesh_open [OF inv] by metis
    then have "k = r" using mesh_peer(4) [OF inv k(1)] m by auto
    then show ?thesis using k by blast
  qed
  moreover have "\<not> peer_closed (pc_of i s) (vmedia s)" if "jget (vc_peers s) r = Some i" for r i
    using mesh_peer(2,3) [OF inv that] mark [of "pc_of i s"] l by simp
  moreover have "peer_closed p (vmedia s)"
    if out: "vc_voice s = None" "p < length (md_peers (vmedia s))" "pe_owner (md_peers (vmedia s) ! p) = ForSession conv r" for p conv r
  proof (rule ccontr)
    assume "\<not> peer_closed p (vmedia s)"
    then obtain i where "jget (vc_peers s) r = Some i" using open_has [OF out(2,3)] by blast
    moreover have "vc_peers s = []" using inv out(1) by (simp add: mesh_inv_def)
    ultimately show False by simp
  qed
  ultimately show ?thesis by blast
qed

section \<open>Who makes the offer\<close>

text \<open>The fresh peer's connection is open, so its slots can be added and the offer is begun.\<close>

lemma offer_begun:
  assumes "vc_voice s = Some v"
  shows "\<exists>i. VOffer conv r i (vs_session v) \<in> set (vc_tasks (offer_to conv r s))
    \<and> jget (vc_peers (offer_to conv r s)) r = Some i"
proof -
  obtain i t where c: "create_peer conv r s = (i, t)" by fastforce
  let ?c = "close_peer r s"
  have voice: "vc_voice ?c \<noteq> None" using assms by simp
  have t: "jget (vc_peers t) r = Some i \<and> i = length (vc_objects ?c) \<and> length (vc_objects t) = Suc i
      \<and> pc_of i t = length (md_peers (vmedia ?c)) \<and> \<not> peer_closed (length (md_peers (vmedia ?c))) (vmedia t)"
    using c voice
    by (auto simp: create_peer_def Let_def new_peer_def set_peer_state_def set_voice_def on_phone_def pc_of_def update_conv'
        peer_closed_def vmedia_def add_audio_tracks_def on_peer_def nth_append split: option.splits)
  obtain u where u: "ensure_video i t = (Inr (), u)" using t by (auto simp: ensure_video_def Let_def ret_def)
  then have "vcore u = vcore t" using vcore_ensure [of i t] by simp
  then have "vc_peers u = vc_peers t" unfolding vcore_def prod.inject by blast
  then show ?thesis using t u c by (intro exI [of _ i]) (simp add: offer_to_def assms vwait_def)
qed

text \<open>C23: Of two participants who see each other in a channel and are not connected, exactly one makes the offer, the
one with the smaller session, and begins it; so the two never offer to each other at once.\<close>

theorem pair_offers_once:
  assumes "vc_voice s = Some v" and "vc_voice t = Some w" and "vs_session v \<noteq> vs_session w"
    and "vp_session p = vs_session w" and "jget (vc_peers s) (vs_session w) = None" and "vnow s - vp_seen p \<le> EXPIRE_MS"
    and "vp_session q = vs_session v" and "jget (vc_peers t) (vs_session v) = None" and "vnow t - vp_seen q \<le> EXPIRE_MS"
  shows "(vs_session v < vs_session w \<and> maybe_connect q t = t
        \<and> (\<exists>i. VOffer (vs_conv_id v) (vs_session w) i (vs_session v) \<in> set (vc_tasks (maybe_connect p s))))
    \<or> (vs_session w < vs_session v \<and> maybe_connect p s = s
        \<and> (\<exists>i. VOffer (vs_conv_id w) (vs_session v) i (vs_session w) \<in> set (vc_tasks (maybe_connect q t))))"
proof (cases "vs_session v < vs_session w")
  case True
  then have "\<not> vs_session w < vs_session v" by simp
  with True show ?thesis using assms offer_begun [OF assms(1)] by (auto simp: maybe_connect_def)
next
  case False
  then have "vs_session w < vs_session v" using assms(3) by simp
  with False show ?thesis using assms offer_begun [OF assms(2)] by (auto simp: maybe_connect_def)
qed


section \<open>What leaving stops\<close>

definition vheld :: "channel \<Rightarrow> nat list" where
  "vheld s = (case vc_screen s of None \<Rightarrow> [] | Some t \<Rightarrow> [t]) @ (case vc_camera s of None \<Rightarrow> [] | Some st \<Rightarrow> ms_tracks st)
     @ (case vc_local s of None \<Rightarrow> [] | Some st \<Rightarrow> ms_tracks st)"

definition vlive :: "channel \<Rightarrow> nat list" where
  "vlive s = md_live (vmedia s)"

lemma vlive_sel [simp]:
  "vlive (set_voice v s) = vlive s" "vlive (signal_to W conv sig s) = vlive s" "vlive (remove_participant conv i s) = vlive s"
  "vlive (vclear j s) = vlive s" "vlive (publish_stream r x s) = vlive s" "vlive (publish_camera r x s) = vlive s"
  "vlive (on_object k f s) = vlive s" "vlive (set_peer_state r st s) = vlive s"
  by (simp_all add: vlive_def set_voice_def signal_to_def remove_participant_def vclear_def publish_stream_def
      publish_camera_def on_object_def on_phone_def vmedia_def set_peer_state_def Let_def split: option.split)

lemma vlive_close: "vlive (close_peer r s) = vlive s" "vc_local (close_peer r s) = vc_local s"
proof -
  have "vc_local (set_peer_state r st t) = vc_local t" for st t
    by (simp add: set_peer_state_def set_voice_def on_phone_def split: option.split)
  then show "vc_local (close_peer r s) = vc_local s"
    by (simp add: close_peer_def Let_def publish_camera_def publish_stream_def on_object_def vclear_def on_vmedia_def on_phone_def
        split: option.split)
  have "vlive (on_vmedia (close_peer_connection p) t) = vlive t" "vlive (t\<lparr>vc_peers := x\<rparr>) = vlive t" for p t x
    by (simp_all add: vlive_def)
  then show "vlive (close_peer r s) = vlive s" by (simp add: close_peer_def Let_def split: option.split)
qed

lemma vlive_close_all: "vlive (fold close_peer ks s) = vlive s" "vc_local (fold close_peer ks s) = vc_local s"
  by (induction ks arbitrary: s) (simp_all add: vlive_close)

lemma vlive_stops:
  "vlive (stop_voice_screen s) = filter (\<lambda>t. t \<notin> set (case vc_screen s of None \<Rightarrow> [] | Some t \<Rightarrow> [t])) (vlive s)"
  "vlive (stop_camera_tracks s) = filter (\<lambda>t. t \<notin> set (case vc_camera s of None \<Rightarrow> [] | Some st \<Rightarrow> ms_tracks st)) (vlive s)"
  "vlive (stop_local s) = filter (\<lambda>t. t \<notin> set (case vc_local s of None \<Rightarrow> [] | Some st \<Rightarrow> ms_tracks st)) (vlive s)"
  "vlive (u\<lparr>vc_heartbeat := h\<rparr>) = vlive u" "vlive (u\<lparr>vc_screen_slot := h\<rparr>) = vlive u"
  "vlive (u\<lparr>vc_streams := x, vc_cameras := y\<rparr>) = vlive u"
  by (simp_all add: vlive_def stop_voice_screen_def stop_camera_tracks_def stop_local_def vmedia_def on_vmedia_def on_phone_def
      on_media_def split: option.split)

lemma stops_devices [simp]:
  "vc_camera (stop_voice_screen s) = vc_camera s" "vc_local (stop_voice_screen s) = vc_local s"
  "vc_local (stop_camera_tracks s) = vc_local s"
  by (simp_all add: stop_voice_screen_def stop_camera_tracks_def on_vmedia_def on_phone_def split: option.split)

text \<open>Leaving stops exactly the tracks the channel holds and tells the others.\<close>

theorem leave_voice_stops:
  assumes "vc_voice s = Some v"
  shows "vlive (leave_voice W s) = filter (\<lambda>t. t \<notin> set (vheld s)) (vlive s)
    \<and> (vs_conv_id v, Voice (VoiceLeave (vs_session v))) \<in> set (ph_sent (vc_phone (leave_voice W s)))"
proof
  have c: "vclear h s = s\<lparr>vc_timers := vc_timers (vclear h s)\<rparr>" for h by (simp add: vclear_def)
  have "vc_screen (vclear h s) = vc_screen s" "vc_camera (vclear h s) = vc_camera s" "vc_local (vclear h s) = vc_local s" for h
    by (simp_all add: vclear_def)
  then show "vlive (leave_voice W s) = filter (\<lambda>t. t \<notin> set (vheld s)) (vlive s)"
    by (simp add: leave_voice_def assms Let_def vlive_stops vlive_close_all vheld_def conj_ac)
  show "(vs_conv_id v, Voice (VoiceLeave (vs_session v))) \<in> set (ph_sent (vc_phone (leave_voice W s)))"
    by (simp add: leave_voice_def assms Let_def signal_to_def on_phone_def set_voice_def)
qed

section \<open>Pruning\<close>

lemma prune_room_rooms:
  "fst (snd (prune_room v now room (ch, rooms, s))) =
     (let keep = filter (alive v now (fst room)) (snd room) in
      if length keep = length (snd room) then rooms else if keep \<noteq> [] then jset (fst room) keep rooms else jdel (fst room) rooms)"
  "fst (prune_room v now room (ch, rooms, s)) = (ch \<or> length (filter (alive v now (fst room)) (snd room)) \<noteq> length (snd room))"
  by (simp_all add: prune_room_def Let_def split: prod.split)

definition members_in :: "voice_participant list jmap \<Rightarrow> string \<Rightarrow> voice_participant list" where
  "members_in rooms conv = (case jget rooms conv of None \<Rightarrow> [] | Some l \<Rightarrow> l)"

lemma fold_prune_rooms:
  assumes "distinct (map fst todo)" and "\<forall>(c, l) \<in> set todo. jget rooms c = Some l" and "jmap_inv rooms"
  shows "members_in (fst (snd (fold (prune_room v now) todo (ch, rooms, s)))) conv =
    (if conv \<in> fst ` set todo then filter (alive v now conv) (members_in rooms conv) else members_in rooms conv)
    \<and> (fst (fold (prune_room v now) todo (ch, rooms, s)) \<or> fst (snd (fold (prune_room v now) todo (ch, rooms, s))) = rooms)"
  using assms
proof (induction todo arbitrary: ch rooms s)
  case (Cons room todo)
  obtain c l where room: "room = (c, l)" by fastforce
  obtain ch' rooms' s' where step: "prune_room v now room (ch, rooms, s) = (ch', rooms', s')"
    by (metis prod.collapse)
  let ?keep = "filter (alive v now c) l"
  have r: "rooms' = (if length ?keep = length l then rooms else if ?keep \<noteq> [] then jset c ?keep rooms else jdel c rooms)"
      "ch' = (ch \<or> length ?keep \<noteq> length l)"
    using prune_room_rooms [of v now "(c, l)" ch rooms s] by (simp_all add: step [unfolded room] Let_def)
  have c: "jget rooms c = Some l" "c \<notin> fst ` set todo" using Cons.prems(1,2) by (auto simp: room)
  have keep_all: "?keep = l" if "length ?keep = length l" using that by (metis filter_id_conv length_filter_less nless_le)
  have get: "jget rooms' k = (if k = c then (if ?keep = [] \<and> l \<noteq> [] then None else Some ?keep) else jget rooms k)" for k
    using c(1) keep_all by (auto simp: r(1) update_conv' delete_conv')
  have "jmap_inv rooms'" using Cons.prems(3) by (simp add: r(1) jm.inv_put jm.inv_del)
  moreover have "\<forall>(k, m) \<in> set todo. jget rooms' k = Some m"
  proof
    fix x assume x: "x \<in> set todo"
    then have "fst x \<noteq> c" using c(2) by auto
    moreover have "jget rooms (fst x) = Some (snd x)" using Cons.prems(2) x by auto
    ultimately show "case x of (k, m) \<Rightarrow> jget rooms' k = Some m" by (simp add: get case_prod_unfold)
  qed
  moreover have "distinct (map fst todo)" using Cons.prems(1) by simp
  ultimately have IH: "members_in (fst (snd (fold (prune_room v now) todo (ch', rooms', s')))) conv =
      (if conv \<in> fst ` set todo then filter (alive v now conv) (members_in rooms' conv) else members_in rooms' conv)"
      "fst (fold (prune_room v now) todo (ch', rooms', s')) \<or> fst (snd (fold (prune_room v now) todo (ch', rooms', s'))) = rooms'"
    using Cons.IH by blast+
  have st: "fold (prune_room v now) (room # todo) (ch, rooms, s) = fold (prune_room v now) todo (ch', rooms', s')"
    by (simp add: step)
  have mc: "members_in rooms c = l" by (simp add: members_in_def c(1))
  have m: "members_in rooms' conv = (if conv = c then ?keep else members_in rooms conv)" by (auto simp: members_in_def get c(1))
  have "members_in (fst (snd (fold (prune_room v now) (room # todo) (ch, rooms, s)))) conv =
      (if conv \<in> fst ` set (room # todo) then filter (alive v now conv) (members_in rooms conv) else members_in rooms conv)"
    unfolding st using IH(1) c(2) mc m by (auto simp: room)
  moreover have "ch' \<Longrightarrow> fst (fold (prune_room v now) todo (ch', rooms', s'))" for s' rooms' ch'
    by (induction todo arbitrary: ch' rooms' s') (auto simp: prune_room_def Let_def split: prod.splits)
  then have "fst (fold (prune_room v now) (room # todo) (ch, rooms, s))
      \<or> fst (snd (fold (prune_room v now) (room # todo) (ch, rooms, s))) = rooms"
    unfolding st using IH(2) r by (cases "length ?keep = length l") auto
  ultimately show ?case by blast
qed simp

text \<open>
  Pruning keeps exactly the participants whose last sign of life is at most 65 seconds old, and this
  device's own session.
\<close>

theorem prune_exact:
  assumes "jmap_inv (vc_rooms s)"
  shows "participants_of conv (prune s) = filter (alive (vc_voice s) (vnow s) conv) (participants_of conv s)"
proof -
  obtain ch rooms t where f: "fold (prune_room (vc_voice s) (vnow s)) (vc_rooms s) (False, vc_rooms s, s) = (ch, rooms, t)"
    by (metis prod.collapse)
  have "\<forall>(c, l) \<in> set (vc_rooms s). jget (vc_rooms s) c = Some l" using assms by (auto simp: jmap_inv_def)
  with fold_prune_rooms [of "vc_rooms s" "vc_rooms s" "vc_voice s" "vnow s" False s conv] assms
  have m: "members_in rooms conv = (if conv \<in> fst ` set (vc_rooms s) then filter (alive (vc_voice s) (vnow s) conv)
      (members_in (vc_rooms s) conv) else members_in (vc_rooms s) conv)" and ch: "ch \<or> rooms = vc_rooms s"
    by (simp_all add: f jmap_inv_def)
  have none: "members_in (vc_rooms s) conv = []" if "conv \<notin> fst ` set (vc_rooms s)"
    using that by (auto simp: members_in_def map_of_eq_None_iff [THEN iffD2])
  have r: "vc_rooms (close_peer x y) = vc_rooms y" for x y
    by (simp add: close_peer_def Let_def set_peer_state_def set_voice_def on_phone_def publish_camera_def publish_stream_def
        on_object_def vclear_def on_vmedia_def split: option.split)
  then have rf: "vc_rooms (fold (\<lambda>p s. if P p then s else close_peer (g p) s) xs y) = vc_rooms y" for P g xs y
    by (induction xs arbitrary: y) simp_all
  have "vc_rooms (snd (snd (fold (prune_room v n) xs acc))) = vc_rooms (snd (snd acc))" for v n xs acc
    by (induction xs arbitrary: acc) (auto simp: prune_room_def Let_def rf split: prod.split)
  from this [of "vc_voice s" "vnow s" "vc_rooms s" "(False, vc_rooms s, s)"] have "vc_rooms t = vc_rooms s" by (simp add: f)
  then have "vc_rooms (prune s) = rooms" using ch by (auto simp: prune_def f)
  then show ?thesis using m none by (auto simp: participants_of_def members_in_def)
qed


section \<open>Joining twice\<close>

lemma update_self_devices [simp]:
  "vc_local (update_self s) = vc_local s" "vc_screen (update_self s) = vc_screen s" "vc_camera (update_self s) = vc_camera s"
  "vlive (update_self s) = vlive s"
  by (simp_all add: update_self_def set_participant_def vtimer_def vlive_def vmedia_def Let_def split: option.split)

lemma frame_devices [simp]:
  "vc_local (vwait tk s) = vc_local s" "vc_screen (vwait tk s) = vc_screen s" "vc_camera (vwait tk s) = vc_camera s"
  "vlive (vwait tk s) = vlive s"
  "vc_local (signal_to W conv sig s) = vc_local s" "vc_screen (signal_to W conv sig s) = vc_screen s"
  "vc_camera (signal_to W conv sig s) = vc_camera s"
  "vc_local (set_voice v s) = vc_local s" "vc_screen (set_voice v s) = vc_screen s" "vc_camera (set_voice v s) = vc_camera s"
  by (simp_all add: vwait_def signal_to_def set_voice_def on_phone_def vlive_def vmedia_def)

text \<open>
  A second join whose microphone is granted while the device is already in a channel, as when the button is
  pressed twice: the first microphone stays on, and leaving no longer stops it.
\<close>

theorem joining_twice_leaks:
  assumes "a_session (vapp s) \<noteq> None" and "ice_is_fresh s" and "vc_screen s = None" and "vc_camera s = None"
    and "x \<in> set (vlive s)" and "x \<noteq> y"
  shows "let t = vresume W (JoinMic conv) (GotStream [y] []) s in
    x \<in> set (vlive t) \<and> x \<in> set (vlive (leave_voice W t)) \<and> vc_voice (leave_voice W t) = None"
proof -
  define st where "st = \<lparr>ms_id = md_next (vmedia s), ms_audio = [y], ms_video = []\<rparr>"
  obtain m where m: "capture [y] [] (vmedia s) = (st, m)" "md_live m = vlive s @ [y]"
    by (simp add: capture_def st_def vlive_def)
  let ?s = "on_vmedia (\<lambda>_. m) s"
  have s: "ice_is_fresh ?s" "vc_screen ?s = None" "vc_camera ?s = None" "vlive ?s = vlive s @ [y]" "a_session (vapp ?s) \<noteq> None"
    using assms(1-4) m(2)
    by (simp_all add: ice_is_fresh_def vnow_def vapp_def vlive_def on_vmedia_def on_phone_def on_media_def vmedia_def)
  define t where "t = vresume W (JoinMic conv) (GotStream [y] []) s"
  have t: "t = enter_voice W conv st ?s" using s(1) by (simp add: t_def vgranted_def m(1) mic_for_voice_def)
  obtain slot k where k: "new_stream [] m = (slot, k)" "md_live k = md_live m" by (simp add: new_stream_def)
  have "vlive t = vlive s @ [y] \<and> vheld t = [y] \<and> vc_voice t \<noteq> None"
  proof -
    let ?p = "\<lambda>p. p\<lparr>ph_app := (ph_app p)\<lparr>a_draws := Suc (a_draws (ph_app p))\<rparr>\<rparr>"
    let ?a = "(on_vmedia (\<lambda>_. k) (on_phone ?p (?s\<lparr>vc_local := Some st\<rparr>)))\<lparr>vc_screen_slot := Some slot\<rparr>"
    have v: "vmedia (on_phone ?p (?s\<lparr>vc_local := Some st\<rparr>)) = m" by (simp add: vmedia_def on_phone_def)
    have l: "logout_effect W (set_voice v ?a) = set_voice v ?a" for v
      using s(5) by (auto simp: logout_effect_def set_voice_def on_phone_def vapp_def)
    have a: "vlive ?a = vlive s @ [y]" "vc_local ?a = Some st" "vc_screen ?a = None" "vc_camera ?a = None"
      using m(2) k(2) assms(3,4) by (simp_all add: vlive_def vmedia_def on_vmedia_def on_phone_def on_media_def)
    have u: "vc_voice (update_self (set_voice (Some w) ?a)) \<noteq> None" for w
      by (simp add: update_self_def set_participant_def vtimer_def Let_def set_voice_def on_phone_def split: option.split)
    show ?thesis unfolding t enter_voice_def Let_def v k(1) prod.case l
      using a u by (simp add: vheld_def st_def ms_tracks_def) (simp add: signal_to_def on_phone_def vwait_def)
  qed
  moreover have "x \<in> set (vlive t)" using calculation assms(5) by simp
  moreover have "x \<in> set (vlive (leave_voice W t))"
    using calculation leave_voice_stops [of t _ W] assms(6) by auto
  ultimately show ?thesis unfolding Let_def t_def [symmetric] using leave_voice_keeps(2) [of W t] by blast
qed

end
