(* ===== verification/VoiceExamples.thy ===== *)
theory VoiceExamples
  imports CallExamples VoiceFacts
begin

text \<open>
  Alice in a voice channel: closed examples of the properties of \<open>VoiceFacts\<close>.
\<close>

definition her_voice :: "string \<Rightarrow> voice_state" where
  "her_voice i = \<lparr>vs_conv_id = chat, vs_session = i, vs_muted = False, vs_sharing = False, vs_camera = False,
     vs_joined_at = 0, vs_peers = []\<rparr>"

definition in_channel :: "string \<Rightarrow> channel" where
  "in_channel i = (new_channel her_phone)\<lparr>vc_voice := Some (her_voice i)\<rparr>"

definition seen_now :: "string \<Rightarrow> voice_participant" where
  "seen_now i = \<lparr>vp_session = i, vp_account = bob, vp_device = phone, vp_muted = False, vp_sharing = False,
     vp_camera = False, vp_seen = 1000000\<rparr>"

text \<open>She joins the channel of a group, and Bob's device says that it is there.\<close>

definition her_group_app :: app where
  "her_group_app = her_app\<lparr>a_conversations := [(chat, the_chat\<lparr>c_kind := Group\<rparr>)]\<rparr>"

lemma her_group_app_sel:
  "a_session her_group_app = Some (session_for alice)" "a_now her_group_app = 1000000"
  "conv_of her_group_app chat = Some (the_chat\<lparr>c_kind := Group\<rparr>)"
  by (simp_all add: her_group_app_def her_app_sel)

definition asking :: channel where
  "asking = vperform her_world (Join chat) (new_channel (new_phone her_group_app))"

definition joined_in :: channel where
  "joined_in = vperform her_world (VResume 0 (GotStream [7] [])) asking"

definition settled_in :: channel where
  "settled_in = vperform her_world (VElsewhere her_group_app) joined_in"

lemma asking_eq: "asking = (new_channel (new_phone her_group_app))\<lparr>vc_tasks := [JoinMic chat]\<rparr>"
  by (simp add: asking_def join_voice_def new_channel_def new_phone_def vapp_def her_group_app_sel live_call_def vwait_def)

lemma joined_in_sel:
  "\<exists>v. vc_voice joined_in = Some v \<and> vs_conv_id v = chat \<and> vs_session v = ticket" "vc_peers joined_in = []"
proof -
  have e: "joined_in = mic_for_voice her_world chat \<lparr>ms_id = 0, ms_audio = [7], ms_video = []\<rparr>
      (on_vmedia (\<lambda>_. \<lparr>md_live = [7], md_muted = [], md_streams = [(0, [7])], md_peers = [], md_next = Suc 0\<rparr>)
        (new_channel (new_phone her_group_app)))"
    by (simp add: joined_in_def asking_eq vgranted_def capture_def vmedia_def new_channel_def new_phone_def)
  show "\<exists>v. vc_voice joined_in = Some v \<and> vs_conv_id v = chat \<and> vs_session v = ticket" "vc_peers joined_in = []"
    unfolding e by (simp_all add: mic_for_voice_def ice_is_fresh_def vnow_def vapp_def new_channel_def new_phone_def her_group_app_sel
        ICE_REFRESH_MS_def on_vmedia_def on_media_def enter_voice_def Let_def new_stream_def logout_effect_def set_voice_def on_phone_def vmedia_def
        update_self_def set_participant_def vtimer_def signal_to_def vwait_def her_world_def the_world_def
        split: prod.split)
qed

lemma settled_in_sel:
  "\<exists>v. vc_voice settled_in = Some v \<and> vs_conv_id v = chat \<and> vs_session v = ticket" "vc_peers settled_in = []"
  "vapp settled_in = her_group_app"
  using joined_in_sel
  by (simp_all add: settled_in_def logout_effect_def on_phone_def vapp_def her_group_app_sel)

lemma settled_in_reachable: "(voice_step her_world)\<^sup>*\<^sup>* (new_channel (new_phone her_group_app)) settled_in"
proof -
  have "voice_step her_world (new_channel (new_phone her_group_app)) asking"
    unfolding asking_def by (rule voice_step.step) simp
  moreover have "voice_step her_world asking joined_in"
    unfolding joined_in_def by (rule voice_step.step) (simp add: asking_eq)
  moreover have "voice_step her_world joined_in settled_in"
    unfolding settled_in_def by (rule voice_step.step) simp
  ultimately show ?thesis by (meson converse_rtranclp_into_rtranclp rtranclp.rtrancl_refl)
qed

definition calling_in :: channel where
  "calling_in = vperform her_world (VSignal bob phone chat (Voice (VoiceHere ''z'' False None None))) settled_in"

lemma voice_mesh_witness:
  "\<exists>i. jget (vc_peers calling_in) ''z'' = Some i \<and> \<not> peer_closed (pc_of i calling_in) (vmedia calling_in)"
proof -
  obtain v where v: "vc_voice settled_in = Some v" "vs_conv_id v = chat" "vs_session v = ticket" using settled_in_sel(1) by blast
  have r: "(voice_step her_world)\<^sup>*\<^sup>* (new_channel (new_phone her_group_app)) calling_in"
    unfolding calling_in_def by (rule rtranclp.rtrancl_into_rtrancl [OF settled_in_reachable voice_step.step]) simp
  have z: "ticket < ''z''" "ticket \<noteq> ''z''" by (simp_all add: ticket_def)
  let ?p = "\<lparr>vp_session = ''z'', vp_account = bob, vp_device = phone, vp_muted = False, vp_sharing = False,
    vp_camera = False, vp_seen = 1000000\<rparr> :: voice_participant"
  let ?t = "set_participant chat ?p settled_in"
  have t: "vc_voice ?t = Some v" "vc_peers ?t = []" "vnow ?t = 1000000"
    using v(1) settled_in_sel(2,3)
    by (simp_all add: set_participant_def vtimer_def Let_def vnow_def vapp_def her_group_app_sel)
  have n: "vnow settled_in = 1000000" "a_session (vapp settled_in) = Some (session_for alice)"
    using settled_in_sel(3) by (simp_all add: vnow_def her_group_app_sel)
  have "calling_in = maybe_connect ?p ?t"
    using v z(2) n by (simp add: calling_in_def handle_voice_signal_def voice_presence_def Let_def session_for_def names_distinct)
  also have "\<dots> = offer_to chat ''z'' ?t"
    using t v z by (simp add: maybe_connect_def EXPIRE_MS_def)
  finally have c: "calling_in = offer_to chat ''z'' ?t" .
  obtain i where "jget (vc_peers calling_in) ''z'' = Some i" using offer_begun [OF t(1), of chat "''z''"] c by metis
  then show ?thesis using voice_mesh [OF r] by blast
qed

lemma pair_offers_once_witness:
  "\<exists>i. VOffer chat ''b'' i ''a'' \<in> set (vc_tasks (maybe_connect (seen_now ''b'') (in_channel ''a'')))"
proof -
  have v: "vc_voice (in_channel i) = Some (her_voice i)" "vs_session (her_voice i) = i" "vs_conv_id (her_voice i) = chat"
    "jget (vc_peers (in_channel i)) j = None" "vnow (in_channel i) - vp_seen (seen_now j) \<le> EXPIRE_MS"
    "vp_session (seen_now i) = i" for i j
    by (simp_all add: in_channel_def her_voice_def new_channel_def vnow_def vapp_def her_phone_def new_phone_def her_app_sel
        seen_now_def EXPIRE_MS_def)
  have "\<not> ''b'' < (''a'' :: string)" by simp
  then show ?thesis
    using pair_offers_once [OF v(1) v(1), of "''a''" "''b''" "seen_now ''b''" "seen_now ''a''"] v by simp
qed

end
