(* ===== verification/Appearance.thy ===== *)
theory Appearance
  imports Complex_Main
begin

text \<open>
  \<open>web/src/state/appearance.ts\<close>: how big the interface is drawn, and whether the layout folds into one column.
  The browser side is the width of the viewport and the media query lists that have a listener; local storage
  keeps the scale as a number (nothing, when it holds none or is not available).
\<close>

section \<open>State\<close>

definition ui_scales :: "real list" where
  "ui_scales = [1, 1.15, 1.3, 1.45, 1.6]"

definition NARROW :: real where "NARROW = 720"

text \<open>
  The scale, the style variable and the class on the root element, the media query that is listened to (its
  greatest width), and the surroundings.
\<close>

record appearance =
  ap_scale :: real
  ap_css :: real
  ap_narrow :: bool
  ap_query :: "real option"
  ap_listening :: "real list"
  ap_width :: real
  ap_stored :: "real option"
  ap_storage :: bool

definition stored_scale :: "appearance \<Rightarrow> real" where
  "stored_scale s =
     (case (if ap_storage s then ap_stored s else None) of
        Some x \<Rightarrow> if x \<in> set ui_scales then x else 1
      | None \<Rightarrow> 1)"

definition query_matches :: "appearance \<Rightarrow> real \<Rightarrow> bool" where
  "query_matches s limit \<longleftrightarrow> ap_width s \<le> limit"

definition apply_narrow :: "appearance \<Rightarrow> appearance" where
  "apply_narrow s = s\<lparr>ap_narrow := (case ap_query s of None \<Rightarrow> False | Some q \<Rightarrow> query_matches s q)\<rparr>"

definition apply_scale :: "real \<Rightarrow> appearance \<Rightarrow> appearance" where
  "apply_scale scale s =
     (let s1 = s\<lparr>ap_css := scale\<rparr>;
          s2 = (case ap_query s1 of None \<Rightarrow> s1 | Some q \<Rightarrow> s1\<lparr>ap_listening := remove1 q (ap_listening s1)\<rparr>);
          limit = NARROW * scale
      in apply_narrow (s2\<lparr>ap_query := Some limit, ap_listening := ap_listening s2 @ [limit]\<rparr>))"

text \<open>Loading the module.\<close>

definition load_appearance :: "appearance \<Rightarrow> appearance" where
  "load_appearance s =
     (let s1 = s\<lparr>ap_scale := stored_scale s, ap_query := None, ap_listening := [], ap_narrow := False\<rparr>
      in apply_scale (ap_scale s1) s1)"

definition set_ui_scale :: "real \<Rightarrow> appearance \<Rightarrow> appearance" where
  "set_ui_scale scale s =
     (if scale \<notin> set ui_scales then s
      else let s1 = apply_scale scale (s\<lparr>ap_scale := scale\<rparr>)
           in if ap_storage s1 then s1\<lparr>ap_stored := Some scale\<rparr> else s1)"

text \<open>The window is resized: a query with a listener whose answer changes calls it.\<close>

definition resize :: "real \<Rightarrow> appearance \<Rightarrow> appearance" where
  "resize w s =
     (let s1 = s\<lparr>ap_width := w\<rparr> in
      if list_ex (\<lambda>q. query_matches s q \<noteq> query_matches s1 q) (ap_listening s) then apply_narrow s1 else s1)"

inductive appearance_step :: "appearance \<Rightarrow> appearance \<Rightarrow> bool" where
  choose: "appearance_step s (set_ui_scale x s)"
| resized: "appearance_step s (resize w s)"
| reloaded: "appearance_step s (load_appearance s)"
| storage: "appearance_step s (s\<lparr>ap_storage := b\<rparr>)"

section \<open>Facts\<close>

text \<open>
  The scale is one of those on offer, it is what the style sheet is given, one query is listened to, for the
  width at which the scaled layout folds, and the class says whether the window is at most that wide.
\<close>

definition appearance_inv :: "appearance \<Rightarrow> bool" where
  "appearance_inv s \<longleftrightarrow> ap_scale s \<in> set ui_scales \<and> ap_css s = ap_scale s
     \<and> ap_query s = Some (NARROW * ap_scale s) \<and> ap_listening s = [NARROW * ap_scale s]
     \<and> ap_narrow s = (ap_width s \<le> NARROW * ap_scale s)"

lemma stored_scale_offered: "stored_scale s \<in> set ui_scales"
  by (auto simp: stored_scale_def ui_scales_def split: option.split)

lemma load_appearance_inv: "appearance_inv (load_appearance s)"
  by (simp add: appearance_inv_def load_appearance_def apply_scale_def apply_narrow_def query_matches_def Let_def stored_scale_offered)

lemma set_ui_scale_inv: "appearance_inv s \<Longrightarrow> appearance_inv (set_ui_scale x s)"
  by (auto simp: appearance_inv_def set_ui_scale_def apply_scale_def apply_narrow_def query_matches_def Let_def)

lemma resize_inv: "appearance_inv s \<Longrightarrow> appearance_inv (resize w s)"
  by (auto simp: appearance_inv_def resize_def apply_narrow_def query_matches_def Let_def)

lemma storage_inv: "appearance_inv s \<Longrightarrow> appearance_inv (s\<lparr>ap_storage := b\<rparr>)"
  by (simp add: appearance_inv_def)

theorem appearance_runs:
  assumes "appearance_step\<^sup>*\<^sup>* (load_appearance s0) s"
  shows "appearance_inv s"
  using assms
proof induction
  case (step t u)
  from step.hyps(2) step.IH show ?case
    by cases (simp_all add: load_appearance_inv set_ui_scale_inv resize_inv storage_inv)
qed (rule load_appearance_inv)

text \<open>A chosen size survives a reload.\<close>

lemma scale_survives:
  assumes "x \<in> set ui_scales" and "ap_storage s"
  shows "ap_scale (load_appearance (set_ui_scale x s)) = x"
  using assms
  by (simp add: load_appearance_def set_ui_scale_def stored_scale_def apply_scale_def apply_narrow_def Let_def split: option.split)

end
