(* ===== verification/Settings.thy ===== *)
theory Settings
  imports Appearance Session Http Files
begin

text \<open>
  \<open>ui/Settings.tsx\<close>: the modal with the visibility flags, the devices, notifications and the new password. An
  answer of the server arrives as a separate step, in any order with the others; the requests are the
  endpoints of \<open>Http\<close>.
\<close>

section \<open>Visibility\<close>

text \<open>A patch of one flag. The change is shown at once; a refusal puts back what was shown before it.\<close>

datatype visibility_patch = FindMe bool | ShowOnline bool | AllowGroup bool

fun apply_patch :: "visibility_patch \<Rightarrow> visibility \<Rightarrow> visibility" where
  "apply_patch (FindMe b) v = v\<lparr>v_find_me_in_search := b\<rparr>"
| "apply_patch (ShowOnline b) v = v\<lparr>v_show_online := b\<rparr>"
| "apply_patch (AllowGroup b) v = v\<lparr>v_allow_group_add := b\<rparr>"

fun patch_json :: "visibility_patch \<Rightarrow> (string \<times> json) list" where
  "patch_json (FindMe b) = [(''find_me_in_search'', JBool b)]"
| "patch_json (ShowOnline b) = [(''show_online'', JBool b)]"
| "patch_json (AllowGroup b) = [(''allow_group_add'', JBool b)]"

record settings =
  st_visibility :: "visibility option"
  st_pending :: "visibility option list"
  st_requests :: "endpoint list"
  st_devices :: "(string \<times> string \<times> bool) list"
  st_next :: string
  st_repeat :: string
  st_sign_out_others :: bool
  st_error :: "string option"
  st_toast :: "string option"

text \<open>\<open>st_pending\<close> holds, for each request under way, what was shown before it.\<close>

definition set_visibility :: "visibility_patch \<Rightarrow> settings \<Rightarrow> settings" where
  "set_visibility patch s =
     (let before = st_visibility s in
      s\<lparr>st_visibility := map_option (apply_patch patch) before, st_pending := st_pending s @ [before],
        st_requests := st_requests s @ [EPatchMe (patch_json patch)]\<rparr>)"

definition visibility_answer :: "dict \<Rightarrow> nat \<Rightarrow> visibility result \<Rightarrow> settings \<Rightarrow> settings" where
  "visibility_answer dict i r s =
     (let before = st_pending s ! i; s1 = s\<lparr>st_pending := take i (st_pending s) @ drop (Suc i) (st_pending s)\<rparr>
      in case r of
           Inr v \<Rightarrow> s1\<lparr>st_visibility := Some v\<rparr>
         | Inl e \<Rightarrow> s1\<lparr>st_visibility := before, st_toast := Some (describe_error dict e)\<rparr>)"

text \<open>What the three boxes show: a flag that is not known yet counts as on and cannot be changed.\<close>

definition visibility_boxes :: "settings \<Rightarrow> (bool \<times> bool) list" where
  "visibility_boxes s =
     (case st_visibility s of
        None \<Rightarrow> replicate 3 (True, False)
      | Some v \<Rightarrow> [(v_find_me_in_search v, True), (v_show_online v, True), (v_allow_group_add v, True)])"

section \<open>Devices\<close>

definition load_devices :: "settings \<Rightarrow> settings" where
  "load_devices s = s\<lparr>st_requests := st_requests s @ [EDevices]\<rparr>"

definition devices_answer :: "(string \<times> string \<times> bool) list result \<Rightarrow> settings \<Rightarrow> settings" where
  "devices_answer r s = (case r of Inl e \<Rightarrow> s | Inr ds \<Rightarrow> s\<lparr>st_devices := ds\<rparr>)"

text \<open>Only another device has a button to sign it out.\<close>

definition sign_out_device :: "string \<Rightarrow> settings \<Rightarrow> settings" where
  "sign_out_device i s =
     (if list_ex (\<lambda>(j, name, current). j = i \<and> \<not> current) (st_devices s)
      then s\<lparr>st_requests := st_requests s @ [EDeleteDevice i]\<rparr> else s)"

definition signed_out_answer :: "dict \<Rightarrow> unit result \<Rightarrow> settings \<Rightarrow> settings" where
  "signed_out_answer dict r s = (case r of Inl e \<Rightarrow> s\<lparr>st_error := Some (describe_error dict e)\<rparr> | Inr u \<Rightarrow> load_devices s)"

text \<open>A device's row: its name, and either the mark of this device or the button.\<close>

definition device_rows :: "dict \<Rightarrow> settings \<Rightarrow> (string \<times> string \<times> bool) list" where
  "device_rows dict s =
     map (\<lambda>(i, name, current). (name, translate dict (if current then ''this_device'' else ''sign_out_device'') [], \<not> current)) (st_devices s)"

section \<open>The new password\<close>

text \<open>The button is disabled while a field is empty or a password operation runs.\<close>

definition can_submit_password :: "client \<Rightarrow> settings \<Rightarrow> bool" where
  "can_submit_password c s \<longleftrightarrow> st_next s \<noteq> [] \<and> st_repeat s \<noteq> [] \<and> (cl_busy c = None \<or> cl_busy c = Some [])"

definition submit_password :: "crypto \<Rightarrow> auth_world \<Rightarrow> settings \<times> client \<Rightarrow> settings \<times> client" where
  "submit_password C W st = (case st of (s, c) \<Rightarrow>
     let dict = a_dict (cl_app c) in
     if st_next s \<noteq> st_repeat s then (s\<lparr>st_error := Some (translate dict ''passwords_differ'' [])\<rparr>, c)
     else let r = change_password C W (st_next s) (st_sign_out_others s) c in
       case fst r of
         Inl e \<Rightarrow> (s\<lparr>st_error := Some (describe_error dict e)\<rparr>, snd r)
       | Inr n \<Rightarrow>
           (load_devices (s\<lparr>st_error := None, st_next := [], st_repeat := [],
              st_toast := Some (if n > 0 then translate dict ''password_changed_signed_out'' [(''n'', string_of_int n)]
                                else translate dict ''password_changed'' [])\<rparr>), snd r))"

section \<open>What the modal shows\<close>

datatype permission = Granted | Denied | Default

record settings_view =
  sv_fingerprint :: string
  sv_scale :: string
  sv_scales :: "(string \<times> bool) list"
  sv_notifications :: "permission"
  sv_can_ask :: bool
  sv_bots :: bool
  sv_admin :: bool

definition percent :: "real \<Rightarrow> string" where
  "percent x = string_of_int (\<lfloor>x * 100 + 1 / 2\<rfloor>) @ ''%''"

definition settings_view :: "crypto \<Rightarrow> session_info \<Rightarrow> account_keys \<Rightarrow> server_settings option \<Rightarrow> appearance \<Rightarrow> permission \<Rightarrow> settings_view" where
  "settings_view C si k srv ap perm =
     \<lparr>sv_fingerprint = fingerprint C (sign_pub k) (enc_pub k), sv_scale = percent (ap_scale ap),
      sv_scales = map (\<lambda>x. (percent x, x = ap_scale ap)) ui_scales, sv_notifications = perm, sv_can_ask = (perm = Default),
      sv_bots = (case srv of None \<Rightarrow> True | Some x \<Rightarrow> ss_allow_bots x), sv_admin = si_is_admin si\<rparr>"

section \<open>Facts\<close>

text \<open>A change that no other overlaps: what the server answers is shown, and a refusal undoes it completely.\<close>

lemma visibility_alone:
  assumes "st_pending s = []"
  shows "st_visibility (visibility_answer dict 0 (Inr v) (set_visibility p s)) = Some v"
    and "st_visibility (visibility_answer dict 0 (Inl e) (set_visibility p s)) = st_visibility s"
    and "st_pending (visibility_answer dict 0 r (set_visibility p s)) = []"
  using assms by (simp_all add: visibility_answer_def set_visibility_def Let_def split: sum.split)

text \<open>
  Two changes that overlap: when the first is refused after the second was accepted, what was shown before both
  comes back, although the server has accepted the second: the box contradicts the server.
\<close>

theorem overlapping_refusal:
  assumes "st_pending s = []" and "st_visibility s = Some v"
  shows "st_visibility (visibility_answer dict 0 (Inl e)
      (visibility_answer dict 1 (Inr (apply_patch q v)) (set_visibility q (set_visibility p s)))) = Some v"
  using assms by (simp add: visibility_answer_def set_visibility_def Let_def)

text \<open>A password that was typed differently twice asks nothing of the server and changes nothing.\<close>

lemma differing_passwords:
  "st_next s \<noteq> st_repeat s \<Longrightarrow> snd (submit_password C W (s, c)) = c
     \<and> fst (submit_password C W (s, c)) = s\<lparr>st_error := Some (translate (a_dict (cl_app c)) ''passwords_differ'' [])\<rparr>"
  by (simp add: submit_password_def Let_def)

text \<open>A device never signs itself out from the list.\<close>

lemma current_device_stays:
  "\<forall>(j, name, current) \<in> set (st_devices s). j = i \<longrightarrow> current \<Longrightarrow> sign_out_device i s = s"
  by (auto simp: sign_out_device_def list_ex_iff)

end
