(* ===== verification/Composer.thy ===== *)
theory Composer
  imports Attachments SyncFacts
begin

text \<open>
  \<open>web/src/ui/ChatView.tsx\<close>: what a message looks like and what may be done with it, and the composer.
  A component's \<open>useState\<close> variables are a record; a handler is a function on that record and the client's
  state; what is drawn is a value computed from both. A handler that awaits a request is one step.
\<close>

section \<open>Messages as they are drawn\<close>

text \<open>Reading a field of \<open>undefined\<close> throws: a file payload without its type cannot be drawn.\<close>

definition is_media :: "payload \<Rightarrow> bool result" where
  "is_media p =
     (case p of
        File f \<Rightarrow>
          (case fp_mime f of
             None \<Rightarrow> Inl type_error
           | Some mime \<Rightarrow> Inr (starts_with ''image/'' mime \<and> fp_thumb f \<noteq> None \<and> fp_thumb f \<noteq> Some []))
      | _ \<Rightarrow> Inr False)"

definition describe_event :: "app \<Rightarrow> payload \<Rightarrow> string \<Rightarrow> string \<Rightarrow> string option result" where
  "describe_event s p sender me =
     (let who = username_of s sender me; t = translate (a_dict s) in
      case p of
        ConvCreate k name ms \<Rightarrow>
          Inr (Some (if k = Group
            then (case name of
                    Some n \<Rightarrow> if n \<noteq> [] then t ''ev_created_group'' [(''who'', who), (''name'', n)]
                      else t ''ev_created_group_unnamed'' [(''who'', who)]
                  | None \<Rightarrow> t ''ev_created_group_unnamed'' [(''who'', who)])
            else t ''ev_started_chat'' [(''who'', who)]))
      | MemberAdd (Some m) ms \<Rightarrow> Inr (Some (t ''ev_added'' [(''who'', who), (''member'', mi_username m)]))
      | MemberAdd None ms \<Rightarrow> Inl type_error
      | MemberRemove i ms \<Rightarrow>
          Inr (Some (if i = sender then t ''ev_left'' [(''who'', who)]
                     else t ''ev_removed'' [(''who'', who), (''member'', username_of s i me)]))
      | ConvRename n \<Rightarrow> Inr (Some (t ''ev_renamed'' [(''who'', who), (''name'', n)]))
      | ConvRetention seconds \<Rightarrow>
          Inr (Some (if seconds > 0
            then t ''ev_retention_set'' [(''who'', who), (''duration'', format_duration (a_dict s) seconds)]
            else t ''ev_retention_off'' [(''who'', who)]))
      | _ \<Rightarrow> Inr None)"

text \<open>
  An attachment is a thumbnail that opens the picture, or a card with the name, the size and its buttons
  (an image without a thumbnail can be opened too).
\<close>

datatype attachment_view = Thumb string string | FileCard string string bool

definition attachment_view :: "file_payload \<Rightarrow> attachment_view result" where
  "attachment_view p =
     (case fp_mime p of
        None \<Rightarrow> Inl type_error
      | Some mime \<Rightarrow>
          (let is_image = starts_with ''image/'' mime in
           case fp_thumb p of
             Some th \<Rightarrow>
               if is_image \<and> th \<noteq> [] then Inr (Thumb (''data:image/jpeg;base64,'' @ th) (fp_name p))
               else Inr (FileCard (fp_name p) (format_size (fp_size p)) is_image)
           | None \<Rightarrow> Inr (FileCard (fp_name p) (format_size (fp_size p)) is_image)))"

text \<open>
  The state of an attachment: busy, its error, and what the lightbox was given. \<open>act\<close> opens or downloads.
\<close>

record attachment_state =
  at_busy :: bool
  at_error :: "string option"

definition attachment_act :: "dict \<Rightarrow> 'a result \<Rightarrow> attachment_state \<Rightarrow> 'a option \<times> attachment_state" where
  "attachment_act dict r st =
     (case r of
        Inr x \<Rightarrow> (Some x, st\<lparr>at_error := None, at_busy := False\<rparr>)
      | Inl e \<Rightarrow> (None, st\<lparr>at_error := Some (describe_error dict e), at_busy := False\<rparr>))"

datatype body_view = TextBody string | FileBody attachment_view

record bubble_view =
  bv_mine :: bool
  bv_media :: bool
  bv_editing :: bool
  bv_author :: "string option"
  bv_body :: body_view
  bv_edited :: bool
  bv_can_edit :: bool
  bv_can_delete :: bool

datatype bubble = Undecryptable string | SystemLine string | NoLine | Bubble bubble_view

definition can_edit :: "string \<Rightarrow> stored_message \<Rightarrow> bool" where
  "can_edit me m \<longleftrightarrow> sm_sender m = me \<and> (case sm_payload m of Some (Text b r) \<Rightarrow> True | _ \<Rightarrow> False)"

definition can_delete :: "string \<Rightarrow> bool \<Rightarrow> stored_message \<Rightarrow> bool" where
  "can_delete me is_admin m \<longleftrightarrow> sm_sender m = me \<or> is_admin"

definition undecryptable_text :: "app \<Rightarrow> stored_message \<Rightarrow> string \<Rightarrow> string" where
  "undecryptable_text s m me = translate (a_dict s) ''undecryptable''
     [(''user'', username_of s (sm_sender m) me),
      (''reason'', case sm_error m of Some e \<Rightarrow> e | None \<Rightarrow> translate (a_dict s) ''unknown_payload'' [])]"

definition bubble_of :: "app \<Rightarrow> stored_message \<Rightarrow> string \<Rightarrow> bool \<Rightarrow> bool \<Rightarrow> bool \<Rightarrow> bubble result" where
  "bubble_of s m me is_admin is_editing show_author =
     (let mine = (sm_sender m = me);
          shown = (\<lambda>media body. Inr (Bubble \<lparr>bv_mine = mine, bv_media = media, bv_editing = is_editing,
            bv_author = (if \<not> mine \<and> show_author then Some (username_of s (sm_sender m) me) else None), bv_body = body,
            bv_edited = sm_edited m, bv_can_edit = can_edit me m, bv_can_delete = can_delete me is_admin m\<rparr>))
      in if sm_error m \<noteq> None \<and> sm_error m \<noteq> Some [] then Inr (Undecryptable (undecryptable_text s m me))
         else case sm_payload m of
           None \<Rightarrow> Inr (Undecryptable (undecryptable_text s m me))
         | Some (Text body reply) \<Rightarrow> shown False (TextBody body)
         | Some (File f) \<Rightarrow>
             try_bind (is_media (File f)) (\<lambda>media. try_bind (attachment_view f) (\<lambda>a. shown media (FileBody a)))
         | Some p \<Rightarrow>
             try_bind (describe_event s p (sm_sender m) me) (\<lambda>t. Inr (case t of
                 Some line \<Rightarrow> if line \<noteq> [] then SystemLine line else NoLine
               | None \<Rightarrow> NoLine)))"

text \<open>
  The menu of a bubble and the question before deleting. \<open>AskEdit\<close> and \<open>AskDelete\<close> are what the component asks
  of the client.
\<close>

datatype bubble_event = ContextMenu | MoreClick | OutsideClick | EditClick | DeleteClick | CancelDelete | ConfirmDelete

record bubble_state =
  bs_menu :: bool
  bs_confirming :: bool

datatype bubble_ask = AskNothing | AskEdit | AskDelete

fun bubble_step :: "string \<Rightarrow> bool \<Rightarrow> stored_message \<Rightarrow> bubble_event \<Rightarrow> bubble_state \<Rightarrow> bubble_ask \<times> bubble_state" where
  "bubble_step me adm m ContextMenu b = (AskNothing, if can_delete me adm m then b\<lparr>bs_menu := True\<rparr> else b)"
| "bubble_step me adm m MoreClick b =
     (AskNothing, if can_delete me adm m then b\<lparr>bs_menu := \<not> bs_menu b\<rparr> else b)"
| "bubble_step me adm m OutsideClick b = (AskNothing, b\<lparr>bs_menu := False\<rparr>)"
| "bubble_step me adm m EditClick b =
     (if bs_menu b \<and> can_edit me m then (AskEdit, b\<lparr>bs_menu := False\<rparr>) else (AskNothing, b))"
| "bubble_step me adm m DeleteClick b =
     (AskNothing, if bs_menu b then b\<lparr>bs_menu := False, bs_confirming := True\<rparr> else b)"
| "bubble_step me adm m CancelDelete b = (AskNothing, b\<lparr>bs_confirming := False\<rparr>)"
| "bubble_step me adm m ConfirmDelete b =
     (if bs_confirming b then (AskDelete, b\<lparr>bs_confirming := False\<rparr>) else (AskNothing, b))"

section \<open>The composer\<close>

text \<open>
  The variables of \<open>ChatView\<close>. \<open>cp_conv\<close> is the conversation the first effect last ran for, \<open>cp_deps\<close> what the
  second effect depends on; both run after the first drawing. The lightbox holds the file it shows.
\<close>

record composer =
  cp_show_members :: bool
  cp_text :: string
  cp_editing :: "stored_message option"
  cp_error :: "string option"
  cp_toast :: "string option"
  cp_dragging :: bool
  cp_lightbox :: "((bytes \<times> string) \<times> file_payload) option"
  cp_conv :: "string option option"
  cp_deps :: "(string option \<times> nat \<times> nat \<times> int option) option"

definition new_composer :: composer where
  "new_composer = \<lparr>cp_show_members = False, cp_text = [], cp_editing = None, cp_error = None, cp_toast = None, cp_dragging = False,
     cp_lightbox = None, cp_conv = None, cp_deps = None\<rparr>"

definition shown_conv :: "app \<Rightarrow> string option" where
  "shown_conv s = map_option c_id (selected_conversation s)"

definition shown_messages :: "app \<Rightarrow> stored_message list" where
  "shown_messages s =
     (case selected_conversation s of
        None \<Rightarrow> []
      | Some c \<Rightarrow> (case loaded_of s (c_id c) of None \<Rightarrow> [] | Some l \<Rightarrow> l))"

definition shown_pending :: "app \<Rightarrow> pending_message list" where
  "shown_pending s =
     (case selected_conversation s of
        None \<Rightarrow> []
      | Some c \<Rightarrow> filter (\<lambda>p. pm_conv_id p = c_id c) (a_pending s))"

text \<open>The effect that runs when another conversation is shown.\<close>

definition conv_effect :: "composer \<times> app \<Rightarrow> composer \<times> app" where
  "conv_effect st = (case st of (c, s) \<Rightarrow>
     let conv = shown_conv s in
     if cp_conv c = Some conv then (c, s)
     else (c\<lparr>cp_conv := Some conv, cp_show_members := False, cp_error := None, cp_lightbox := None,
             cp_editing := None, cp_text := []\<rparr>,
           case conv of None \<Rightarrow> s | Some i \<Rightarrow> ensure_messages_loaded i s))"

text \<open>The effect that marks what is on the screen as read.\<close>

definition read_deps :: "app \<Rightarrow> string option \<times> nat \<times> nat \<times> int option" where
  "read_deps s = (shown_conv s, length (shown_messages s), length (shown_pending s), map_option c_last_seq (selected_conversation s))"

definition read_effect :: "world \<Rightarrow> composer \<times> app \<Rightarrow> composer \<times> app" where
  "read_effect W st = (case st of (c, s) \<Rightarrow>
     if cp_deps c = Some (read_deps s) then (c, s)
     else (c\<lparr>cp_deps := Some (read_deps s)\<rparr>,
           case selected_conversation s of
             None \<Rightarrow> s
           | Some conv \<Rightarrow> if c_last_seq conv > c_read_seq conv \<and> a_visible s
               then snd (mark_read W (c_id conv) (c_last_seq conv) s) else s))"

definition draw :: "world \<Rightarrow> composer \<times> app \<Rightarrow> composer \<times> app" where
  "draw W st = read_effect W (conv_effect st)"

definition start_edit :: "stored_message \<Rightarrow> composer \<Rightarrow> composer" where
  "start_edit m c =
     (case sm_payload m of
        Some (Text body reply) \<Rightarrow> c\<lparr>cp_editing := Some m, cp_text := body\<rparr>
      | _ \<Rightarrow> c)"

definition cancel_edit :: "composer \<Rightarrow> composer" where
  "cancel_edit c = c\<lparr>cp_editing := None, cp_text := []\<rparr>"

definition caught :: "'a result \<times> app \<Rightarrow> composer \<Rightarrow> composer \<times> app" where
  "caught r c = (case fst r of
     Inl e \<Rightarrow> (c\<lparr>cp_error := Some (describe_error (a_dict (snd r)) e)\<rparr>, snd r)
   | Inr x \<Rightarrow> (c, snd r))"

text \<open>Deleting reports its error in the toast of the window.\<close>

definition remove_asked :: "world \<Rightarrow> stored_message \<Rightarrow> composer \<times> app \<Rightarrow> composer \<times> app" where
  "remove_asked W m st = (case st of (c, s) \<Rightarrow>
     let r = delete_message W (sm_conv_id m) m s in
     (case fst r of
        Inl e \<Rightarrow> (c\<lparr>cp_toast := Some (describe_error (a_dict (snd r)) e)\<rparr>, snd r)
      | Inr u \<Rightarrow> (c, snd r)))"

text \<open>\<open>submit\<close>: the form's handler, for the conversation that is shown.\<close>

definition submit :: "world \<Rightarrow> string \<Rightarrow> composer \<times> app \<Rightarrow> composer \<times> app" where
  "submit W conv_id st = (case st of (c, s) \<Rightarrow>
     let body = js_trim (cp_text c) in
     if body = [] then (c, s)
     else
       let c1 = c\<lparr>cp_text := [], cp_error := None\<rparr> in
       case cp_editing c of
         Some target \<Rightarrow>
           let c2 = c1\<lparr>cp_editing := None\<rparr> in
           if (case sm_payload target of Some (Text b r) \<Rightarrow> b = body | _ \<Rightarrow> False) then (c2, s)
           else caught (edit_text W conv_id target body s) c2
       | None \<Rightarrow> caught (send_text W conv_id body s) c1)"

text \<open>Up in an empty composer edits the last message of one's own.\<close>

definition last_own :: "string \<Rightarrow> stored_message list \<Rightarrow> stored_message option" where
  "last_own me list = List.find (can_edit me) (rev list)"

datatype key = Escape | ArrowUp | OtherKey

text \<open>Escape outside an edit goes on to the window's handler in \<open>App.tsx\<close>, which leaves the conversation.\<close>

definition on_key :: "string \<Rightarrow> key \<Rightarrow> composer \<times> app \<Rightarrow> composer \<times> app" where
  "on_key me k st = (case st of (c, s) \<Rightarrow>
     if k = Escape then (if cp_editing c \<noteq> None then (cancel_edit c, s) else (c, s\<lparr>a_selected := None\<rparr>))
     else if k = ArrowUp \<and> cp_text c = [] \<and> cp_editing c = None
     then (case last_own me (shown_messages s) of Some m \<Rightarrow> (start_edit m c, s) | None \<Rightarrow> (c, s))
     else (c, s))"

text \<open>\<open>sendFiles\<close>: one after the other, and an error does not stop the rest.\<close>

fun send_files :: "world \<Rightarrow> string \<Rightarrow> web_file list \<Rightarrow> composer \<times> app \<Rightarrow> composer \<times> app" where
  "send_files W conv_id [] st = st"
| "send_files W conv_id (f # fs) (c, s) = send_files W conv_id fs (caught (send_file W conv_id f s) c)"

definition on_files :: "world \<Rightarrow> string \<Rightarrow> web_file list \<Rightarrow> composer \<times> app \<Rightarrow> composer \<times> app" where
  "on_files W conv_id fs st = send_files W conv_id fs (fst st\<lparr>cp_error := None\<rparr>, snd st)"

section \<open>What the composer reacts to\<close>

text \<open>
  \<open>BubbleEvent m b ev\<close> happens on a bubble that is drawn, whose own variables are \<open>b\<close>; \<open>Elsewhere s\<close> is anything
  the rest of the client does, \<open>Pick i\<close> the choice of a conversation in the list.
\<close>

datatype composer_event =
    Input string
  | Key key
  | Submit
  | CancelEdit
  | BubbleEvent stored_message bubble_state bubble_event
  | Attach "web_file list"
  | Paste "web_file list"
  | Drop "web_file list"
  | Drag bool
  | ToggleMembers
  | OpenFile "bytes \<times> string" file_payload
  | CloseFile
  | DismissPending string
  | Pick "string option"
  | Elsewhere app

fun composer_do :: "world \<Rightarrow> session_info \<Rightarrow> composer_event \<Rightarrow> composer \<times> app \<Rightarrow> composer \<times> app" where
  "composer_do W si (Pick i) (c, s) = (c, s\<lparr>a_selected := i\<rparr>)"
| "composer_do W si (Elsewhere s') (c, s) = (c, s')"
| "composer_do W si ev (c, s) =
     (case selected_conversation s of
        None \<Rightarrow> (c, s)
      | Some conv \<Rightarrow>
          (case ev of
             Input t \<Rightarrow> (c\<lparr>cp_text := t\<rparr>, s)
           | Key k \<Rightarrow> on_key (si_account_id si) k (c, s)
           | Submit \<Rightarrow> submit W (c_id conv) (c, s)
           | CancelEdit \<Rightarrow> (cancel_edit c, s)
           | BubbleEvent m b e \<Rightarrow>
               if m \<notin> set (shown_messages s) then (c, s)
               else (case fst (bubble_step (si_account_id si) (si_is_admin si) m e b) of
                       AskNothing \<Rightarrow> (c, s)
                     | AskEdit \<Rightarrow> (start_edit m c, s)
                     | AskDelete \<Rightarrow> remove_asked W m (c, s))
           | Attach fs \<Rightarrow> on_files W (c_id conv) fs (c, s)
           | Paste fs \<Rightarrow> if fs = [] then (c, s) else on_files W (c_id conv) fs (c, s)
           | Drop fs \<Rightarrow> on_files W (c_id conv) fs (c\<lparr>cp_dragging := False\<rparr>, s)
           | Drag d \<Rightarrow> (c\<lparr>cp_dragging := d\<rparr>, s)
           | ToggleMembers \<Rightarrow> (c\<lparr>cp_show_members := \<not> cp_show_members c\<rparr>, s)
           | OpenFile u f \<Rightarrow> (c\<lparr>cp_lightbox := Some (u, f)\<rparr>, s)
           | CloseFile \<Rightarrow> (c\<lparr>cp_lightbox := None\<rparr>, s)
           | DismissPending i \<Rightarrow> (c, dismiss_pending i s)
           | _ \<Rightarrow> (c, s)))"

text \<open>
  The component is mounted as long as the session lasts. Whatever the rest of the client does keeps the
  session's account and the invariant of its state (\<open>sync_invariant\<close>).
\<close>

inductive composer_step :: "world \<Rightarrow> session_info \<Rightarrow> composer \<times> app \<Rightarrow> composer \<times> app \<Rightarrow> bool" for W si where
  act: "(\<And>s'. ev = Elsewhere s' \<Longrightarrow> app_inv s' \<and> a_session s' = Some si)
    \<Longrightarrow> composer_step W si st (draw W (composer_do W si ev st))"

section \<open>The header and the messages under way\<close>

record chat_header =
  hd_title :: string
  hd_sub :: string
  hd_unverified :: bool
  hd_retention :: "string option"
  hd_calls :: bool
  hd_voice :: "(bool \<times> nat) option"
  hd_bot_notice :: bool

text \<open>Whether this device is in the channel, and how many are, is the state of \<open>voice.ts\<close>.\<close>

definition chat_header :: "app \<Rightarrow> session_info \<Rightarrow> conversation \<Rightarrow> bool \<Rightarrow> nat \<Rightarrow> chat_header" where
  "chat_header s si conv in_voice voice_count =
     (let r = effective_retention s conv; t = translate (a_dict s) in
      \<lparr>hd_title = conversation_title s conv (si_account_id si),
       hd_sub = (if c_kind conv = Group
         then t ''members_count'' [(''n'', string_of_int (int (length (c_server_members conv))))] else t ''direct_chat'' []),
       hd_unverified = (unverified_members s conv \<noteq> []),
       hd_retention = (if r > 0 then Some (t ''disappearing_badge'' [(''duration'', format_duration (a_dict s) r)]) else None),
       hd_calls = (c_kind conv = Direct \<and> \<not> has_bot s conv),
       hd_voice = (if c_kind conv = Group then Some (in_voice, voice_count) else None),
       hd_bot_notice = has_bot s conv\<rparr>)"

definition pending_body :: "pending_message \<Rightarrow> string" where
  "pending_body p = (case pm_payload p of Text b r \<Rightarrow> b | File f \<Rightarrow> fp_name f | _ \<Rightarrow> ''...'')"

text \<open>The line under it, and whether it can be dismissed.\<close>

definition pending_meta :: "dict \<Rightarrow> pending_message \<Rightarrow> string \<times> bool" where
  "pending_meta dict p =
     (case pm_failed p of
        Some r \<Rightarrow>
          if r \<noteq> [] then (translate dict ''failed'' [(''reason'', r)], True)
          else if pm_uploading p
          then (translate dict ''uploading'' [(''name'', case pm_payload p of File f \<Rightarrow> fp_name f | _ \<Rightarrow> [])], False)
          else (translate dict ''sending'' [], False)
      | None \<Rightarrow>
          if pm_uploading p
          then (translate dict ''uploading'' [(''name'', case pm_payload p of File f \<Rightarrow> fp_name f | _ \<Rightarrow> [])], False)
          else (translate dict ''sending'' [], False))"

end
