(* ===== verification/ComposerFacts.thy ===== *)
theory ComposerFacts
  imports Composer
begin

text \<open>
  What the chat view asks of the client: an edit is always one of the person's own text in the conversation
  that is shown, and goes where it was written; what a message looks like never depends on anything but its
  payload, and which payloads break it.
\<close>

section \<open>What the operations keep\<close>

definition steady :: "app \<Rightarrow> app \<Rightarrow> bool" where
  "steady s t \<longleftrightarrow> (app_inv s \<longrightarrow> app_inv t) \<and> a_session t = a_session s"

interpretation steady: frame steady
  by unfold_locales (auto simp: steady_def)

lemma steady_core:
  "a_conversations t = a_conversations s \<Longrightarrow> a_contacts t = a_contacts s \<Longrightarrow> a_messages t = a_messages s \<Longrightarrow>
     a_db t = a_db s \<Longrightarrow> a_session t = a_session s \<Longrightarrow> steady s t"
  by (auto simp: steady_def intro: app_inv_core)

lemma steady_lift: "progress.lift s t \<Longrightarrow> a_session t = a_session s \<Longrightarrow> steady s t"
  by (simp add: steady_def progress.lift_def)

lemma session_bodies [simp]:
  "a_session (rewrite_message i q m s) = a_session s" "a_session (set_message_body i q body ed s) = a_session s"
  "a_session (forget_message i q s) = a_session s" "a_session (snd (remove_local_message i q s)) = a_session s"
  "a_session (ensure_messages_loaded i s) = a_session s"
  by (auto simp: rewrite_message_def set_message_body_def forget_message_def remove_local_message_def ensure_messages_loaded_def
      then_ok_def ret_def Let_def split: option.split payload.split sum.split)

lemma steady_bodies:
  "steady s (set_message_body i q body ed s)" "steady s (snd (remove_local_message i q s))" "steady s (ensure_messages_loaded i s)"
  by (simp_all add: steady_lift progress.lift_set_message_body progress.lift_remove_local_message)
    (simp add: steady_def app_inv_load)

lemma steady_request: "steady s (request r s)" "steady s (snd (http_done W r s))" "steady s (snd (http_send W i e g s))"
    "steady s (snd (http_upload_blob W i b s))"
  by (simp_all add: steady_core http_done_def http_send_def http_upload_blob_def Let_def)

lemma steady_pending: "steady s t \<Longrightarrow> steady s (t\<lparr>a_pending := x\<rparr>)" "steady s t \<Longrightarrow> steady s (t\<lparr>a_draws := y\<rparr>)"
    "steady s t \<Longrightarrow> steady s (t\<lparr>a_draws := y, a_pending := x\<rparr>)"
  by (erule steady.R_trans, simp add: steady_core)+

lemma steady_attempt: "steady s (snd p) \<Longrightarrow> (\<And>e t. steady t (snd (h e t))) \<Longrightarrow> steady s (snd (attempt p h))"
  by (rule steady.frame_attempt)

lemma steady_send: "steady s (snd (send_payload W conv p flags track s))"
proof -
  have at: "steady s (snd (attempt (http_send W conv e g u) h))" if "steady s u" "\<And>e t. steady t (snd (h e t))" for u e g h
    by (rule steady.R_trans [OF that(1)]) (intro steady_attempt steady_request that(2))
  show ?thesis
    unfolding send_payload_def Let_def
    by (auto split: option.split sum.split simp: steady.R_refl steady_pending intro!: at)
qed

lemma steady_ret: "steady s t \<Longrightarrow> steady s (snd (ret x t))" "steady s t \<Longrightarrow> steady s (snd (throw e t))"
  by simp_all

lemma steady_edit: "steady s (snd (edit_text W conv m body s))"
proof -
  have "steady s (snd (attempt (then_ok (send_payload W conv p 0 False (set_message_body conv q body True s)) (\<lambda>_. ret ()))
      (\<lambda>e s. throw e (set_message_body conv q b' ed s))))" for p q b' ed
    by (rule steady.R_trans [OF steady_bodies(1) [of s conv q body True]])
      (intro steady_attempt steady.frame_then_ok steady_send steady_ret steady_bodies steady.R_refl)
  then show ?thesis
    unfolding edit_text_def Let_def by (auto split: option.split payload.split simp: steady.R_refl)
qed

lemma steady_delete: "steady s (snd (delete_message W conv m s))"
  unfolding delete_message_def
  by (intro steady.frame_then_ok steady_request steady_bodies steady_ret)
    (simp split: option.split payload.split add: steady.R_refl steady_request)

lemma steady_send_file: "steady s (snd (send_file W conv f s))"
proof -
  have "steady s (snd (attempt (then_ok (http_upload_blob W conv c u) (\<lambda>b s.
      then_ok (send_payload W conv (p b) 0 True (s\<lparr>a_pending := g s\<rparr>)) (\<lambda>r. ret ()))) (\<lambda>e s. throw e (s\<lparr>a_pending := h e s\<rparr>))))"
    if "steady s u" for c u p g h
    by (rule steady.R_trans [OF that])
      (intro steady_attempt steady.frame_then_ok steady_request steady_ret steady_pending steady.R_refl
        steady.R_trans [OF steady_pending(1) [OF steady.R_refl] steady_send])
  then show ?thesis
    unfolding send_file_def Let_def by (simp add: steady.R_refl steady_pending)
qed

lemma steady_persist: "steady s (persist_conversation c s)"
  by (simp add: steady_def app_inv_persist)

lemma steady_mark: "steady s (snd (mark_read W conv q s))"
proof -
  have "steady s (snd (attempt (http_done W r (persist_conversation c s)) (\<lambda>e. ret ())))" for r c
    by (rule steady.R_trans [OF steady_persist [of s c]]) (intro steady_attempt steady_request steady_ret steady.R_refl)
  then show ?thesis unfolding mark_read_def by (auto split: option.split simp: steady.R_refl)
qed

lemma caught_snd [simp]: "snd (caught r c) = snd r"
  by (simp add: caught_def split: sum.split)

lemma caught_sel [simp]:
  "cp_editing (fst (caught r c)) = cp_editing c" "cp_conv (fst (caught r c)) = cp_conv c" "cp_text (fst (caught r c)) = cp_text c"
  by (simp_all add: caught_def split: sum.split)

lemma send_files_kept:
  "steady (snd st) (snd (send_files W conv fs st)) \<and> cp_editing (fst (send_files W conv fs st)) = cp_editing (fst st)
    \<and> cp_conv (fst (send_files W conv fs st)) = cp_conv (fst st)"
proof (induction W conv fs st rule: send_files.induct)
  case (2 W conv f fs c s)
  then show ?case using steady_send_file steady.R_trans by fastforce
qed (simp add: steady.R_refl)

section \<open>The invariant of the composer\<close>

text \<open>
  The state is well formed, the first effect has run for the conversation that is shown, and what is being
  edited is a text of the person's own in that conversation.
\<close>

definition composer_inv :: "session_info \<Rightarrow> composer \<times> app \<Rightarrow> bool" where
  "composer_inv si st \<longleftrightarrow> app_inv (snd st) \<and> a_session (snd st) = Some si \<and> cp_conv (fst st) = Some (shown_conv (snd st))
     \<and> (\<forall>m. cp_editing (fst st) = Some m \<longrightarrow> can_edit (si_account_id si) m \<and> shown_conv (snd st) = Some (sm_conv_id m))"

text \<open>What holds between a handler and the effects: the edit is still that of the conversation drawn last.\<close>

definition composer_mid :: "session_info \<Rightarrow> composer \<times> app \<Rightarrow> bool" where
  "composer_mid si st \<longleftrightarrow> app_inv (snd st) \<and> a_session (snd st) = Some si
     \<and> (\<forall>m. cp_editing (fst st) = Some m \<longrightarrow> can_edit (si_account_id si) m \<and> cp_conv (fst st) = Some (Some (sm_conv_id m)))"

lemma mid_new: "app_inv s \<Longrightarrow> a_session s = Some si \<Longrightarrow> composer_mid si (new_composer, s)"
  by (simp add: composer_mid_def new_composer_def)

lemma mid_inv: "composer_inv si st \<Longrightarrow> composer_mid si st"
  by (simp add: composer_inv_def composer_mid_def)

lemma mid_step:
  assumes "composer_mid si (c, s)" and "steady s s'" and "cp_conv c' = cp_conv c"
    and "cp_editing c' = None \<or> cp_editing c' = cp_editing c"
  shows "composer_mid si (c', s')"
  using assms by (auto simp: composer_mid_def steady_def)

lemma shown_message_conv:
  assumes "app_inv s" and "m \<in> set (shown_messages s)"
  shows "shown_conv s = Some (sm_conv_id m)"
  using assms app_invD(9) [OF assms(1)] by (force simp: shown_messages_def shown_conv_def split: option.splits)

lemma mid_start_edit:
  assumes "composer_inv si (c, s)" and "m \<in> set (shown_messages s)" and "can_edit (si_account_id si) m"
  shows "composer_mid si (start_edit m c, s)"
  using assms shown_message_conv [OF _ assms(2)]
  by (auto simp: composer_inv_def composer_mid_def start_edit_def split: option.split payload.split)

lemma shown_conv_mark:
  assumes "app_inv s" and "selected_conversation s = Some conv"
  shows "shown_conv (snd (mark_read W (c_id conv) q s)) = shown_conv s"
proof -
  obtain i where i: "a_selected s = Some i" "i \<noteq> []" "conv_of s i = Some conv"
    using assms(2) by (auto simp: selected_conversation_def split: option.splits if_splits)
  then have "c_id conv = i" using app_invD(6) [OF assms(1)] by blast
  with i show ?thesis
    by (auto simp: mark_read_def shown_conv_def selected_conversation_def attempt_def http_done_def Let_def ret_def
        persist_conversation_def split: sum.split)
qed

lemma draw_inv:
  assumes "composer_mid si (c, s)"
  shows "composer_inv si (draw W (c, s))"
proof -
  obtain c1 s1 where e: "conv_effect (c, s) = (c1, s1)" by (cases "conv_effect (c, s)")
  have "shown_conv (ensure_messages_loaded i s) = shown_conv s" for i
    by (simp add: shown_conv_def selected_conversation_def ensure_messages_loaded_def split: option.split)
  then have one: "composer_inv si (c1, s1)"
    using assms e steady_bodies(3)
    by (auto simp: conv_effect_def Let_def composer_mid_def composer_inv_def steady_def split: if_splits option.splits)
  then have "app_inv s1" by (simp add: composer_inv_def)
  with one have "composer_inv si (read_effect W (c1, s1))"
    using steady_mark [unfolded steady_def] shown_conv_mark
    by (auto simp: read_effect_def composer_inv_def split: option.split)
  with e show ?thesis by (simp add: draw_def)
qed

section \<open>Every event\<close>

lemma submit_kept:
  "steady (snd st) (snd (submit W conv st)) \<and> cp_conv (fst (submit W conv st)) = cp_conv (fst st)
    \<and> (cp_editing (fst (submit W conv st)) = None \<or> cp_editing (fst (submit W conv st)) = cp_editing (fst st))"
  by (auto simp: submit_def Let_def send_text_def steady.R_refl steady_edit steady_send split: prod.split option.split)

lemma last_own_shown: "last_own me l = Some m \<Longrightarrow> m \<in> set l \<and> can_edit me m"
  by (auto simp: last_own_def find_Some_iff) (metis nth_mem set_rev length_rev)

lemma bubble_asks:
  "fst (bubble_step me adm m ev b) = AskEdit \<Longrightarrow> can_edit me m"
  by (cases ev) (auto split: if_splits)

lemma mid_key:
  assumes "composer_inv si (c, s)"
  shows "composer_mid si (on_key (si_account_id si) k (c, s))"
  using mid_inv [OF assms] mid_start_edit [OF assms] last_own_shown
  by (auto simp: on_key_def cancel_edit_def composer_mid_def app_inv_core split: option.split)

lemma mid_do:
  assumes inv: "composer_inv si (c, s)" and other: "\<And>s'. ev = Elsewhere s' \<Longrightarrow> app_inv s' \<and> a_session s' = Some si"
  shows "composer_mid si (composer_do W si ev (c, s))"
proof -
  have mid: "composer_mid si (c, s)" using inv by (rule mid_inv)
  have files: "composer_mid si (on_files W i fs (c', s))" if "cp_conv c' = cp_conv c" "cp_editing c' = cp_editing c" for i fs c'
    using mid send_files_kept [of "(c'\<lparr>cp_error := None\<rparr>, s)" W i fs] that
    by (cases "on_files W i fs (c', s)") (auto simp: on_files_def intro: mid_step)
  have sub: "composer_mid si (submit W i (c, s))" for i
    using mid submit_kept [of "(c, s)" W i] by (cases "submit W i (c, s)") (auto intro: mid_step)
  have del: "composer_mid si (remove_asked W m (c, s))" for m
    by (auto simp: remove_asked_def Let_def split: sum.split intro!: mid_step [OF mid steady_delete])
  show ?thesis
  proof (cases ev)
    case (Elsewhere s')
    with other mid show ?thesis by (auto simp: composer_mid_def)
  next
    case (BubbleEvent m b e)
    then show ?thesis
      using mid del mid_start_edit [OF inv] bubble_asks
      by (auto split: option.split bubble_ask.split)
  qed (auto intro!: mid files sub mid_key [OF inv] mid_step [OF mid] steady_core
      simp: cancel_edit_def dismiss_pending_def split: option.split)
qed

lemma composer_reaches:
  assumes "(composer_step W si)\<^sup>*\<^sup>* (draw W (new_composer, s0)) st" and "app_inv s0" and "a_session s0 = Some si"
  shows "composer_inv si st"
  using assms(1)
proof induction
  case base
  show ?case using draw_inv mid_new assms by blast
next
  case (step t u)
  from step.hyps(2) step.IH show ?case
  proof cases
    case (act ev)
    then show ?thesis using mid_do [of si "fst t" "snd t" ev W] draw_inv step.IH by (metis prod.collapse)
  qed
qed

section \<open>What the chat view asks for\<close>

text \<open>C34: What the composer asks for is what the person may do: however typing, keys, menus, files, other
conversations and the rest of the client interleave, an edit that is open is one of the person's own text
messages in the conversation that is shown, so \<open>editText\<close> never refuses it and fails only where its record
cannot be sent. Submitting a blank draft does nothing; submitting an unchanged edit closes it and asks for
nothing; every other submission clears the draft, closes the edit and asks for exactly one thing, that edit or
a new message with the trimmed text, in the conversation that is shown.\<close>

theorem composer_asks_rightly:
  assumes "(composer_step W si)\<^sup>*\<^sup>* (draw W (new_composer, s0)) (c, s)" and "app_inv s0" and "a_session s0 = Some si"
    and "shown_conv s = Some conv" and "submit W conv (c, s) = (c', s')" and "body = js_trim (cp_text c)"
  shows "(body = [] \<longrightarrow> c' = c \<and> s' = s) \<and> (body \<noteq> [] \<longrightarrow> cp_text c' = [] \<and> cp_editing c' = None)
    \<and> (body \<noteq> [] \<longrightarrow> cp_editing c = None \<longrightarrow> s' = snd (send_text W conv body s))
    \<and> (cp_editing c \<noteq> None \<longrightarrow>
         (\<exists>m b r. cp_editing c = Some m \<and> sm_sender m = si_account_id si \<and> sm_conv_id m = conv \<and> sm_payload m = Some (Text b r)
           \<and> (body = b \<longrightarrow> s' = s) \<and> (body \<noteq> b \<longrightarrow> body \<noteq> [] \<longrightarrow> s' = snd (edit_text W conv m body s))
           \<and> (\<forall>e. fst (edit_text W conv m body s) = Inl e \<longrightarrow>
                fst (send_payload W conv (TextEdit (Some (sm_client_msg_id m)) (Some body)) 0 False
                       (set_message_body conv (sm_seq m) body True s)) = Inl e)))"
proof -
  have inv: "composer_inv si (c, s)" using composer_reaches assms(1-3) by blast
  have sess: "a_session s = Some si" using inv by (simp add: composer_inv_def)
  have after: "c' = fst (submit W conv (c, s))" "s' = snd (submit W conv (c, s))" by (simp_all add: assms(5))
  have blank: "body = [] \<Longrightarrow> c' = c \<and> s' = s"
    by (simp add: after submit_def assms(6))
  have cleared: "cp_text c' = [] \<and> cp_editing c' = None \<and> (cp_editing c = None \<longrightarrow> s' = snd (send_text W conv body s))"
    if "body \<noteq> []"
    using that by (cases "cp_editing c") (simp_all add: after submit_def Let_def assms(6))
  have edit: "\<exists>b r. sm_sender m = si_account_id si \<and> sm_conv_id m = conv \<and> sm_payload m = Some (Text b r)"
    if "cp_editing c = Some m" for m
    using inv assms(4) that by (auto simp: composer_inv_def can_edit_def split: option.splits payload.splits)
  have asked: "(body = b \<longrightarrow> s' = s) \<and> (body \<noteq> b \<longrightarrow> body \<noteq> [] \<longrightarrow> s' = snd (edit_text W conv m body s))"
    if "cp_editing c = Some m" "sm_payload m = Some (Text b r)" for m b r
    using that by (simp add: after submit_def Let_def assms(6))
  have failed: "fst (send_payload W conv (TextEdit (Some (sm_client_msg_id m)) (Some body)) 0 False
        (set_message_body conv (sm_seq m) body True s)) = Inl e"
    if "fst (edit_text W conv m body s) = Inl e" "sm_payload m = Some (Text b r)" "sm_sender m = si_account_id si" for m b r e
    using that by (auto simp: edit_text_def sess Let_def attempt_def then_ok_def ret_def throw_def split: sum.splits if_splits)
  show ?thesis
  proof (cases "cp_editing c")
    case None
    then show ?thesis using blank cleared by simp
  next
    case (Some m)
    then obtain b r where b: "sm_sender m = si_account_id si" "sm_conv_id m = conv" "sm_payload m = Some (Text b r)"
      using edit by blast
    then show ?thesis
      using Some blank cleared asked [OF Some b(3)] failed [OF _ b(3,1)] by auto
  qed
qed

section \<open>What the messages look like\<close>

text \<open>
  Drawing a message throws for exactly two payloads, which any member can send: a file without a type, and the
  event of a new member without the member. Nothing catches it: the whole view is not drawn.
\<close>

theorem bubble_throws:
  "bubble_of s m me adm ed au = Inl e \<longleftrightarrow> e = type_error \<and> (sm_error m = None \<or> sm_error m = Some [])
     \<and> ((\<exists>f. sm_payload m = Some (File f) \<and> fp_mime f = None) \<or> (\<exists>ms. sm_payload m = Some (MemberAdd None ms)))"
  by (auto simp: bubble_of_def Let_def is_media_def attachment_view_def describe_event_def try_bind_def
      split: option.splits payload.splits sum.splits if_splits)

lemma drawn_media: "is_media p = Inr True \<Longrightarrow> p = File f \<Longrightarrow> \<exists>u. attachment_view f = Inr (Thumb u (fp_name f))"
  by (auto simp: is_media_def attachment_view_def Let_def split: option.splits)

lemma bubble_rights:
  "bubble_of s m me adm ed au = Inr (Bubble v) \<Longrightarrow> bv_can_edit v = can_edit me m \<and> bv_can_delete v = can_delete me adm m"
  by (auto simp: bubble_of_def Let_def try_bind_def split: option.splits payload.splits sum.splits if_splits)

text \<open>A deletion is asked for only after the question was answered, and only by those who may.\<close>

lemma delete_is_confirmed:
  "fst (bubble_step me adm m ev b) = AskDelete \<longleftrightarrow> ev = ConfirmDelete \<and> bs_confirming b"
  by (cases ev) auto

definition bubble_sound :: "string \<Rightarrow> bool \<Rightarrow> stored_message \<Rightarrow> bubble_state \<Rightarrow> bool" where
  "bubble_sound me adm m b \<longleftrightarrow> (bs_menu b \<or> bs_confirming b \<longrightarrow> can_delete me adm m)"

lemma bubble_sound_step: "bubble_sound me adm m b \<Longrightarrow> bubble_sound me adm m (snd (bubble_step me adm m ev b))"
  by (cases ev) (auto simp: bubble_sound_def)

end
