(* ===== verification/Sidebar.thy ===== *)
theory Sidebar
  imports ComposerFacts Search Ws "HOL-Library.Multiset"
begin

text \<open>
  The left column and the frame around it: \<open>ui/Sidebar.tsx\<close> (the list of chats, a chat's menu, deleting a
  chat), \<open>ui/Search.tsx\<close> (the results that replace the list) and \<open>ui/App.tsx\<close> (which screen is shown).
  A moment that is formatted for the reader's locale stays a time stamp.
\<close>

section \<open>The list of chats\<close>

definition visible_chats :: "app \<Rightarrow> conversation list" where
  "visible_chats s = filter (\<lambda>c. c_id c \<notin> set (a_hidden s) \<or> a_selected s = Some (c_id c)) (sorted_conversations s)"

definition pinned_rows :: "app \<Rightarrow> conversation list" where
  "pinned_rows s = filter (\<lambda>c. c_id c \<in> set (a_pinned s)) (visible_chats s)"

definition rest_rows :: "app \<Rightarrow> conversation list" where
  "rest_rows s = filter (\<lambda>c. c_id c \<notin> set (a_pinned s)) (visible_chats s)"

datatype list_item = NoChats string | Heading string | Row conversation

text \<open>The headings only appear once something is pinned.\<close>

definition chat_list :: "app \<Rightarrow> list_item list" where
  "chat_list s =
     (let t = (\<lambda>k. translate (a_dict s) k []) in
      (if visible_chats s = [] then [NoChats (t ''no_conversations'')] else [])
      @ (if pinned_rows s \<noteq> [] then [Heading (t ''pinned_section'')] else [])
      @ map Row (pinned_rows s)
      @ (if pinned_rows s \<noteq> [] \<and> rest_rows s \<noteq> [] then [Heading (t ''all_chats_section'')] else [])
      @ map Row (rest_rows s))"

fun status_key :: "connection_status \<Rightarrow> string" where
  "status_key Offline = ''status_offline''"
| "status_key Connecting = ''status_connecting''"
| "status_key Online = ''status_online''"

text \<open>Who is signed in and whether the socket is up, above the list.\<close>

definition presence :: "app \<Rightarrow> session_info \<Rightarrow> connection_status \<Rightarrow> string \<times> string" where
  "presence s si st = (CHR ''@'' # si_username si, translate (a_dict s) (status_key st) [])"

record conv_row =
  cr_selected :: bool
  cr_menu_open :: bool
  cr_icons :: "string list"
  cr_title :: string
  cr_time :: "int option"
  cr_preview :: string
  cr_badge :: "int option"

definition conv_row :: "app \<Rightarrow> session_info \<Rightarrow> string option \<Rightarrow> conversation \<Rightarrow> conv_row" where
  "conv_row s si menu c =
     (let unread = max 0 (c_last_seq c - c_read_seq c);
          is_group = (c_kind c = Group);
          is_bot = (\<not> is_group \<and> has_bot s c)
      in \<lparr>cr_selected = (a_selected s = Some (c_id c)), cr_menu_open = (menu = Some (c_id c)),
          cr_icons = (if is_group then [''users''] else []) @ (if is_bot then [''bot''] else [])
            @ (if c_id c \<in> set (a_muted s) then [''bell-off''] else [])
            @ (if c_retention_seconds c > 0 then [''timer''] else [])
            @ (if c_id c \<in> set (a_pinned s) then [''pin''] else []),
          cr_title = conversation_title s c (si_account_id si),
          cr_time = map_option lm_ts (c_last_message c),
          cr_preview = (case c_last_message c of
              None \<Rightarrow> []
            | Some lm \<Rightarrow> (if is_group then username_of s (lm_sender lm) (si_account_id si) @ '': '' else []) @ lm_text lm),
          cr_badge = (if unread > 0 then Some unread else None)\<rparr>)"

section \<open>A chat's menu\<close>

text \<open>The menu is 200 wide and at most five rows tall; positions are in pixels.\<close>

definition menu_position :: "int \<times> int \<Rightarrow> int \<times> int \<Rightarrow> int \<times> int" where
  "menu_position pos window = (min (fst pos) (fst window - 216), min (snd pos) (snd window - 200))"

datatype chat_action = TogglePin | ToggleMute | MarkRead | AskDeleteChat

definition chat_menu :: "app \<Rightarrow> conversation \<Rightarrow> (chat_action \<times> string \<times> bool) list" where
  "chat_menu s c =
     (let t = (\<lambda>k. translate (a_dict s) k []) in
      [(TogglePin, t (if c_id c \<in> set (a_pinned s) then ''unpin_chat'' else ''pin_chat''), True),
       (ToggleMute, t (if c_id c \<in> set (a_muted s) then ''unmute_chat'' else ''mute_chat''), True),
       (MarkRead, t ''mark_read'', \<not> c_last_seq c \<le> c_read_seq c),
       (AskDeleteChat, t ''delete_chat'', True)])"

text \<open>The sidebar's own variables: the chat the menu is open for, the chat to be deleted, the open dialog.\<close>

datatype side_dialog = NewDialog | SettingsDialog

record sidebar =
  sd_dialog :: "side_dialog option"
  sd_menu :: "(conversation \<times> int \<times> int) option"
  sd_confirming :: "conversation option"
  sd_busy :: bool
  sd_toast :: "string option"

definition new_sidebar :: sidebar where
  "new_sidebar = \<lparr>sd_dialog = None, sd_menu = None, sd_confirming = None, sd_busy = False, sd_toast = None\<rparr>"

definition run_action :: "world \<Rightarrow> chat_action \<Rightarrow> sidebar \<times> app \<Rightarrow> sidebar \<times> app" where
  "run_action W a st = (case st of (d, s) \<Rightarrow>
     case sd_menu d of
       None \<Rightarrow> (d, s)
     | Some (c, x, y) \<Rightarrow>
         (case a of
            TogglePin \<Rightarrow> (d\<lparr>sd_menu := None\<rparr>, toggle_pinned (c_id c) s)
          | ToggleMute \<Rightarrow> (d\<lparr>sd_menu := None\<rparr>, toggle_muted (c_id c) s)
          | MarkRead \<Rightarrow> if c_last_seq c \<le> c_read_seq c then (d, s)
              else (d\<lparr>sd_menu := None\<rparr>, snd (mark_read W (c_id c) (c_last_seq c) s))
          | AskDeleteChat \<Rightarrow> (d\<lparr>sd_confirming := Some c, sd_menu := None\<rparr>, s)))"

text \<open>Leaving a group is on the server; a direct chat only leaves this list.\<close>

definition confirm_delete :: "world \<Rightarrow> nat \<Rightarrow> session_info \<Rightarrow> conversation \<Rightarrow> sidebar \<times> app \<Rightarrow> sidebar \<times> app" where
  "confirm_delete W fuel si conv st = (case st of (d, s) \<Rightarrow>
     let r = (if c_kind conv = Group then remove_member W fuel (c_id conv) (si_account_id si) s
              else ret () (hide_chat (c_id conv) s))
     in case fst r of
          Inr u \<Rightarrow>
            (d\<lparr>sd_confirming := None, sd_busy := False\<rparr>,
             if a_selected (snd r) = Some (c_id conv) then (snd r)\<lparr>a_selected := None\<rparr> else snd r)
        | Inl e \<Rightarrow> (d\<lparr>sd_busy := False, sd_toast := Some (describe_error (a_dict (snd r)) e)\<rparr>, snd r))"

definition delete_question :: "dict \<Rightarrow> conversation \<Rightarrow> string" where
  "delete_question dict conv =
     translate dict (if c_kind conv = Group then ''confirm_delete_chat'' else ''confirm_clear_chat'') []"

section \<open>The results of a search\<close>

datatype result_row = ChatRow chat_hit string | PersonRow person_hit string | MessageRow message_hit string

text \<open>A heading (without the line above it for the first group) or a row with its second line.\<close>

datatype result_item = GroupHeading string bool | Hit result_row | EmptyNote string | OffNote string

definition group_items :: "string \<Rightarrow> bool \<Rightarrow> result_row list \<Rightarrow> result_item list" where
  "group_items label first rows = (if rows = [] then [] else GroupHeading label first # map Hit rows)"

definition chat_line :: "dict \<Rightarrow> chat_hit \<Rightarrow> string" where
  "chat_line dict c = (if ch_kind c = Group then translate dict ''members_count'' [(''n'', string_of_int (int (ch_members c)))]
     else translate dict ''direct_chat'' [])"

text \<open>\<open>when\<close> writes a moment in the reader's locale.\<close>

definition person_line :: "(int \<Rightarrow> string) \<Rightarrow> dict \<Rightarrow> person_hit \<Rightarrow> string" where
  "person_line when dict p =
     (if \<not> ph_known p then translate dict ''search_no_common'' []
      else if ph_last_seen p \<noteq> 0 then translate dict ''search_last_seen'' [(''date'', when (ph_last_seen p * 1000))]
      else [])"

definition message_line :: "app \<Rightarrow> string \<Rightarrow> message_hit \<Rightarrow> string" where
  "message_line s me m = mh_title m @ '' '' @ [CHR 0xB7] @ '' '' @ username_of s (mh_sender m) me"

definition includes_group :: "search_filter \<Rightarrow> search_filter \<Rightarrow> bool" where
  "includes_group f g \<longleftrightarrow> f = FAll \<or> f = g"

definition search_results :: "(int \<Rightarrow> string) \<Rightarrow> app \<Rightarrow> string \<Rightarrow> search \<Rightarrow> result_item list" where
  "search_results when s me q =
     (let t = translate (a_dict s); n = (\<lambda>l. [(''n'', string_of_int (int l))]);
          chats = (if includes_group (se_filter q) FChats then se_chats q else []);
          people = (if includes_group (se_filter q) FPeople then se_people q else []);
          msgs = (if includes_group (se_filter q) FMessages then se_messages q else [])
      in group_items (t ''search_group_chats'' (n (length chats))) True (map (\<lambda>c. ChatRow c (chat_line (a_dict s) c)) chats)
         @ group_items (t ''search_group_people'' (n (length people))) (chats = [])
             (map (\<lambda>p. PersonRow p (person_line when (a_dict s) p)) people)
         @ group_items (t ''search_group_messages'' (n (length msgs))) (chats = [] \<and> people = [])
             (map (\<lambda>m. MessageRow m (message_line s me m)) msgs)
         @ (if length chats + length people + length msgs = 0 \<and> \<not> se_busy q then [EmptyNote (t ''search_nothing_found'' [])] else [])
         @ (if includes_group (se_filter q) FPeople \<and> se_unavailable q then [OffNote (t ''search_people_off'' [])] else []))"

text \<open>The chips above the results, a text with its matched part, and the foot under the messages.\<close>

definition FILTERS :: "search_filter list" where
  "FILTERS = [FAll, FChats, FPeople, FMessages]"

fun filter_key :: "search_filter \<Rightarrow> string" where
  "filter_key FAll = ''filter_all''"
| "filter_key FChats = ''filter_chats''"
| "filter_key FPeople = ''filter_people''"
| "filter_key FMessages = ''filter_messages''"

definition search_chips :: "dict \<Rightarrow> search \<Rightarrow> (search_filter \<times> string \<times> bool) list" where
  "search_chips dict q = map (\<lambda>f. (f, translate dict (filter_key f) [], se_filter q = f)) FILTERS"

definition marked :: "string \<Rightarrow> string \<Rightarrow> (string \<times> bool) list" where
  "marked t q = (case highlight t q of (before, hit, after) \<Rightarrow>
     if hit = [] then [(t, False)] else [(before, False), (hit, True), (after, False)])"

text \<open>The note, and then either how far the loading has come or the button that starts it.\<close>

definition results_foot :: "app \<Rightarrow> search \<Rightarrow> (string \<times> string \<times> bool) option" where
  "results_foot s q =
     (if \<not> includes_group (se_filter q) FMessages then None
      else Some (translate (a_dict s) ''search_local_note'' [],
        case a_history s of
          Some (n, tot) \<Rightarrow> (translate (a_dict s) ''search_loading_history''
            [(''done'', string_of_int (int n)), (''total'', string_of_int (int tot))], False)
        | None \<Rightarrow> (translate (a_dict s) ''search_load_history'' [], True)))"

text \<open>
  The search box. A search runs 120 ms after the last change of the query: the effect clears the timer it set
  before. \<open>sb_timers\<close> are the timers that have not fired.
\<close>

record search_box =
  sb_query :: "string option"
  sb_timer :: "nat option"
  sb_timers :: "nat list"
  sb_ids :: nat

definition new_search_box :: search_box where
  "new_search_box = \<lparr>sb_query = None, sb_timer = None, sb_timers = [], sb_ids = 0\<rparr>"

definition box_effect :: "search_box \<times> search \<Rightarrow> search_box \<times> search" where
  "box_effect st = (case st of (b, q) \<Rightarrow>
     if sb_query b = Some (se_query q) then (b, q)
     else
       let live = (case sb_timer b of None \<Rightarrow> sb_timers b | Some i \<Rightarrow> filter (\<lambda>j. j \<noteq> i) (sb_timers b))
       in (\<lparr>sb_query = Some (se_query q), sb_timer = Some (sb_ids b), sb_timers = live @ [sb_ids b], sb_ids = Suc (sb_ids b)\<rparr>, q))"

datatype box_event = TypeSearch string | ClearSearch | ChooseFilter search_filter | SearchTimer nat

fun box_do :: "app \<Rightarrow> box_event \<Rightarrow> search_box \<times> search \<Rightarrow> search_box \<times> search" where
  "box_do a (TypeSearch t) (b, q) = (b, q\<lparr>se_query := t\<rparr>)"
| "box_do a ClearSearch (b, q) = (b, reset_search q)"
| "box_do a (ChooseFilter f) (b, q) = (b, q\<lparr>se_filter := f\<rparr>)"
| "box_do a (SearchTimer i) (b, q) =
     (if i \<in> set (sb_timers b) then (b\<lparr>sb_timers := filter (\<lambda>j. j \<noteq> i) (sb_timers b)\<rparr>, snd (start_run a q)) else (b, q))"

text \<open>Choosing a result opens its conversation and closes the search; writing to a person may fail.\<close>

definition open_hit :: "string \<Rightarrow> search \<times> app \<Rightarrow> search \<times> app" where
  "open_hit conv st = (reset_search (fst st), (snd st)\<lparr>a_selected := Some conv\<rparr>)"

definition write_to :: "world \<Rightarrow> string \<Rightarrow> search \<times> app \<Rightarrow> string option \<times> search \<times> app" where
  "write_to W account st =
     (let r = open_direct_with W account (snd st) in
      case fst r of
        Inl e \<Rightarrow> (Some (err_message e), fst st, snd r)
      | Inr i \<Rightarrow> (None, reset_search (fst st), (snd r)\<lparr>a_selected := Some i\<rparr>))"

section \<open>Which screen is shown\<close>

datatype banner = ConnectingBanner | OfflineBanner | UpdateBanner string | PasswordBanner | Announcement string

datatype screen = LoadingScreen bool | LoginScreen | Chats bool "banner list"

definition shown_screen :: "string \<Rightarrow> bool \<Rightarrow> bool \<Rightarrow> connection_status \<Rightarrow> app \<Rightarrow> screen" where
  "shown_screen app_version booting db_blocked status s =
     (if booting then LoadingScreen db_blocked
      else if a_session s = None then LoginScreen
      else Chats (case a_selected s of None \<Rightarrow> False | Some i \<Rightarrow> i \<noteq> [])
        ((if status = Connecting then [ConnectingBanner] else [])
         @ (if status \<noteq> Connecting \<and> status \<noteq> Online then [OfflineBanner] else [])
         @ (if update_available app_version s
            then [UpdateBanner (translate (a_dict s) ''update_available'' [(''version'', a_server_version s)])] else [])
         @ (if a_password_changed s \<noteq> None then [PasswordBanner] else [])
         @ (case a_settings s of None \<Rightarrow> [] | Some x \<Rightarrow> if ss_announcement x \<noteq> [] then [Announcement (ss_announcement x)] else [])))"

section \<open>Facts\<close>

text \<open>Marking shows the whole text.\<close>

lemma marked_whole: "concat (map fst (marked t q)) = t"
proof -
  have "take i t @ drop i (take (i + n) t) @ drop (i + n) t = t" for i n
    by (metis add.commute append.assoc append_take_drop_id take_add take_drop)
  then show ?thesis by (auto simp: marked_def highlight_def Let_def split: option.splits)
qed

text \<open>However fast one types, at most one search is waiting, and it is for what stands in the box.\<close>

definition box_inv :: "search_box \<times> search \<Rightarrow> bool" where
  "box_inv st \<longleftrightarrow> sb_query (fst st) = Some (se_query (snd st))
     \<and> (sb_timers (fst st) = [] \<or> (\<exists>i. sb_timers (fst st) = [i] \<and> sb_timer (fst st) = Some i))"

lemma start_run_query [simp]: "se_query (snd (start_run a q)) = se_query q"
  by (simp add: start_run_def Let_def ret_def throw_def split: option.split)

lemma box_one_timer:
  assumes "box_inv (b, q)"
  shows "box_inv (box_effect (box_do a ev (b, q)))"
  using assms by (cases ev) (auto simp: box_inv_def box_effect_def Let_def split: option.split)

lemma box_starts: "box_inv (box_effect (new_search_box, q))"
  by (simp add: box_inv_def box_effect_def new_search_box_def)

text \<open>Every chat that is shown is in exactly one of the two groups.\<close>

lemma rows_partition: "mset (pinned_rows s @ rest_rows s) = mset (visible_chats s)"
  by (simp add: pinned_rows_def rest_rows_def)

lemma rows_sorted:
  "sorted (map (\<lambda>c. - c_updated_at c) (pinned_rows s))" "sorted (map (\<lambda>c. - c_updated_at c) (rest_rows s))"
  by (simp_all add: pinned_rows_def rest_rows_def visible_chats_def sorted_filter sorted_conversations_order)

text \<open>The menu stays in the window: its right and lower edges, and the others where there is room.\<close>

lemma menu_in_window:
  "fst (menu_position p w) + 200 \<le> fst w - 16 \<and> snd (menu_position p w) + 200 \<le> snd w
    \<and> (0 \<le> fst p \<longrightarrow> 216 \<le> fst w \<longrightarrow> 0 \<le> fst (menu_position p w)) \<and> (0 \<le> snd p \<longrightarrow> 200 \<le> snd w \<longrightarrow> 0 \<le> snd (menu_position p w))"
  by (auto simp: menu_position_def min_def)

text \<open>Nothing of the chats is on the screen without a session.\<close>

lemma chats_need_session: "shown_screen v b d st s = Chats sel bs \<Longrightarrow> a_session s \<noteq> None"
  by (simp add: shown_screen_def split: if_splits)

lemma visible_iff:
  assumes "app_inv s"
  shows "c \<in> set (visible_chats s) \<longleftrightarrow> conv_of s (c_id c) = Some c \<and> \<not> c_removed c
    \<and> (c_id c \<notin> set (a_hidden s) \<or> a_selected s = Some (c_id c))"
  using set_sorted_conversations [OF app_invD(1) [OF assms], of c] app_invD(6) [OF assms]
  by (auto simp: visible_chats_def)

section \<open>Deleting a chat\<close>

lemma hide_visible:
  "map c_id (visible_chats ((hide_chat i s)\<lparr>a_selected := sel\<rparr>)) =
     map c_id (filter (\<lambda>c. (c_id c \<noteq> i \<and> c_id c \<notin> set (a_hidden s)) \<or> sel = Some (c_id c)) (sorted_conversations s))"
proof -
  have "sorted_conversations ((hide_chat i s)\<lparr>a_selected := sel\<rparr>) = sorted_conversations s"
    by (simp add: sorted_conversations_def hide_chat_def prefs_defs split: option.split)
  moreover have "set (a_hidden (hide_chat i s)) = insert i (set (a_hidden s))"
    by (simp add: hide_chat_def prefs_defs split: option.split)
  ultimately show ?thesis by (auto simp: visible_chats_def intro!: arg_cong [where f = "map c_id"] filter_cong)
qed

lemma hide_frame [simp]:
  "a_requests (hide_chat i s) = a_requests s" "a_db (hide_chat i s) = a_db s" "a_messages (hide_chat i s) = a_messages s"
  "a_selected (hide_chat i s) = a_selected s" "a_conversations (hide_chat i s) = a_conversations s"
  by (simp_all add: hide_chat_def prefs_defs split: option.split)

lemma steady_announce: "steady s (snd (announce W i mk ids s))"
  unfolding announce_def by (intro steady.frame_then_ok steady_send) (simp add: steady.R_refl)

lemma then_ok_assoc: "then_ok (then_ok p f) g = then_ok p (\<lambda>x t. then_ok (f x t) g)"
  by (simp add: then_ok_def split: sum.split)

text \<open>Leaving a group that succeeds marks it as left.\<close>

lemma leave_removes:
  assumes "remove_member W fuel i (si_account_id si) s = (Inr u, t)" and "a_session s = Some si" and "app_inv s"
    and "conv_of s i = Some conv"
  shows "app_inv t \<and> (\<exists>c. conv_of t i = Some c \<and> c_removed c)"
proof -
  have id: "c_id conv = i" using app_invD(6) [OF assms(3,4)] .
  define r where "r = filter (\<lambda>m. m \<noteq> si_account_id si) (sealing_members s conv (si_account_id si))"
  define p where "p = attempt (then_ok (announce W i (\<lambda>ms. MemberRemove (si_account_id si) (Some ms)) r s) (\<lambda>_. ret ())) (\<lambda>e. ret ())"
  have st: "steady s (snd p)"
    unfolding p_def by (intro steady_attempt steady.frame_then_ok steady_announce steady_ret steady.R_refl)
  have "steady s (snd (then_ok p (\<lambda>_. http_done W (RRemoveMember i (si_account_id si)))))"
    by (intro steady.frame_then_ok st steady_request)
  moreover define g where "g s1 = (let s2 = set_conversation (conv\<lparr>c_removed := True\<rparr>) (on_db (put_conversation (conv\<lparr>c_removed := True\<rparr>)) s1)
      in if a_selected s2 = Some i then s2\<lparr>a_selected := None\<rparr> else s2)" for s1
  have "then_ok (then_ok p (\<lambda>_. http_done W (RRemoveMember i (si_account_id si)))) (\<lambda>_ s1. ret () (g s1)) = (Inr u, t)"
    using assms(1)
    unfolding remove_member_def assms(2,4) option.case Let_def r_def [symmetric] p_def [symmetric] g_def
    by (simp only: then_ok_assoc simp_thms if_True)
  then obtain s1 where s1: "then_ok p (\<lambda>_. http_done W (RRemoveMember i (si_account_id si))) = (Inr (), s1)" and t: "t = g s1"
    by (auto dest!: then_ok_InrD simp: ret_def)
  ultimately have inv: "app_inv s1" using assms(3) by (simp add: steady_def)
  have "app_inv (set_conversation c (on_db (put_conversation c) s1))" for c
    
    by (rule app_inv_core [OF app_inv_persist [OF inv, of c]]) (simp_all add: persist_conversation_def set_conversation_def on_db_def)
  moreover from this have "app_inv ((set_conversation c (on_db (put_conversation c) s1))\<lparr>a_selected := x\<rparr>)" for c x
    by (rule app_inv_core) simp_all
  ultimately show ?thesis
    using id by (auto simp: t g_def Let_def)
qed

text \<open>Deleting a chat takes it off the list, a group by leaving it (however the announcement and the server's
answers went, as long as the dialog closed), a direct chat by hiding it; it is no longer selected. For a direct chat
nothing else happens: nothing is asked of the server, no message is touched, and the other chats stay as they were.\<close>

theorem deleted_chat_gone:
  assumes "app_inv s" and "a_session s = Some si" and "conv_of s (c_id conv) = Some conv" and "sd_confirming d = Some conv"
    and "confirm_delete W fuel si conv (d, s) = (d', s')" and "sd_confirming d' = None"
  shows "c_id conv \<notin> c_id ` set (visible_chats s') \<and> a_selected s' \<noteq> Some (c_id conv)
    \<and> (c_kind conv = Direct \<longrightarrow> a_requests s' = a_requests s \<and> a_db s' = a_db s \<and> a_messages s' = a_messages s
         \<and> map c_id (visible_chats s') = filter (\<lambda>i. i \<noteq> c_id conv) (map c_id (visible_chats s)))"
proof (cases "c_kind conv = Group")
  case True
  then obtain u t where t: "remove_member W fuel (c_id conv) (si_account_id si) s = (Inr u, t)"
    and s': "s' = (if a_selected t = Some (c_id conv) then t\<lparr>a_selected := None\<rparr> else t)"
    using assms(4-6)
    by (cases "remove_member W fuel (c_id conv) (si_account_id si) s") (auto simp: confirm_delete_def Let_def split: sum.splits)
  obtain c where c: "app_inv t" "conv_of t (c_id conv) = Some c" "c_removed c"
    using leave_removes [OF t assms(2,1,3)] by blast
  then have "app_inv s'" "conv_of s' (c_id conv) = Some c" by (auto simp: s' intro: app_inv_core)
  with c(3) show ?thesis using True by (auto simp: visible_iff s')
next
  case False
  then have kind: "c_kind conv = Direct" by (cases "c_kind conv") auto
  let ?i = "c_id conv"
  define sel where "sel = (if a_selected s = Some ?i then None else a_selected s)"
  have s': "s' = (hide_chat ?i s)\<lparr>a_selected := sel\<rparr>"
    using assms(5) kind by (auto simp: confirm_delete_def Let_def sel_def ret_def)
  have "map c_id (visible_chats s') = filter (\<lambda>i. i \<noteq> ?i) (map c_id (visible_chats s))"
    unfolding s' hide_visible
    by (auto simp: visible_chats_def filter_map o_def sel_def intro!: arg_cong [where f = "map c_id"] filter_cong)
  moreover from this have "?i \<notin> c_id ` set (visible_chats s')" by (simp only: set_map [symmetric] set_filter) simp
  moreover have "a_selected s' \<noteq> Some ?i" "a_requests s' = a_requests s" "a_db s' = a_db s" "a_messages s' = a_messages s"
    by (simp_all add: s' sel_def)
  ultimately show ?thesis by (simp only: simp_thms)
qed

end
