(* ===== verification/Members.thy ===== *)
theory Members
  imports Files SyncFacts Messaging Search
begin

text \<open>
  \<open>ui/MemberPanel.tsx\<close>: the members of a conversation with their safety numbers, the timer and the group's
  actions; \<open>ui/NewConversation.tsx\<close>: the dialog for a new group with its suggestions.
\<close>

section \<open>The panel of members\<close>

definition RETENTION_OPTIONS :: "int list" where
  "RETENTION_OPTIONS = [0, 3600, 86400, 7 * 86400, 30 * 86400]"

definition retention_label :: "dict \<Rightarrow> int \<Rightarrow> string" where
  "retention_label dict n =
     (if n = 0 then translate dict ''retention_off'' []
      else if n = 3600 then translate dict ''duration_1h'' []
      else if n = 86400 then translate dict ''duration_1d'' []
      else if n = 7 * 86400 then translate dict ''duration_1w'' []
      else if n = 30 * 86400 then translate dict ''duration_30d'' []
      else translate dict ''duration_custom'' [(''n'', string_of_int n)])"

definition retention_options :: "conversation \<Rightarrow> int list" where
  "retention_options conv =
     (if c_retention_seconds conv \<in> set RETENTION_OPTIONS then RETENTION_OPTIONS
      else RETENTION_OPTIONS @ [c_retention_seconds conv])"

datatype member_tag = TagBot | TagVerified | TagNotInRoster | TagKeysChanged

text \<open>
  A member's row: the tags, whether it can be removed, the safety number (of the new keys while they wait to
  be accepted), and the mark, which a bot does not have.
\<close>

record member_row =
  mr_id :: string
  mr_name :: string
  mr_tags :: "member_tag list"
  mr_removable :: bool
  mr_fingerprint :: string
  mr_acceptable :: bool
  mr_mark :: "bool option"

definition member_row :: "crypto \<Rightarrow> app \<Rightarrow> conversation \<Rightarrow> string \<Rightarrow> contact \<Rightarrow> member_row" where
  "member_row C s conv i c =
     \<lparr>mr_id = i, mr_name = CHR ''@'' # ct_username c,
      mr_tags = (if ct_is_bot c then [TagBot] else []) @ (if ct_verified c \<and> \<not> ct_is_bot c then [TagVerified] else [])
        @ (if i \<in> set (unverified_members s conv) then [TagNotInRoster] else [])
        @ (if ct_pending_keys c \<noteq> None then [TagKeysChanged] else []),
      mr_removable = (c_kind conv = Group \<and> c_role conv = Owner),
      mr_fingerprint = (case ct_pending_keys c of
          Some (spub, epub) \<Rightarrow> fingerprint C spub epub
        | None \<Rightarrow> fingerprint C (ct_sign_pub c) (ct_enc_pub c)),
      mr_acceptable = (ct_pending_keys c \<noteq> None),
      mr_mark = (if ct_is_bot c then None else Some (ct_verified c))\<rparr>"

text \<open>Members whose contact is not known are left out.\<close>

definition member_rows :: "crypto \<Rightarrow> app \<Rightarrow> session_info \<Rightarrow> conversation \<Rightarrow> member_row list" where
  "member_rows C s si conv =
     concat (map (\<lambda>i. case contact_of s i of None \<Rightarrow> [] | Some c \<Rightarrow> [member_row C s conv i c])
       (filter (\<lambda>i. i \<noteq> si_account_id si) (c_server_members conv)))"

definition own_row :: "crypto \<Rightarrow> dict \<Rightarrow> session_info \<Rightarrow> account_keys \<Rightarrow> string \<times> string" where
  "own_row C dict si k = (CHR ''@'' # si_username si @ '' ('' @ translate dict ''you'' [] @ '')'', fingerprint C (sign_pub k) (enc_pub k))"

definition can_set_retention :: "conversation \<Rightarrow> bool" where
  "can_set_retention conv \<longleftrightarrow> c_kind conv = Direct \<or> c_role conv = Owner"

text \<open>What can be done in the panel; each is \<open>run\<close>, which shows what is thrown.\<close>

record member_panel =
  mp_new_member :: string
  mp_new_name :: string
  mp_error :: "string option"

datatype panel_action =
    PRemove string
  | PAccept string
  | PVerify string bool
  | PRetention int
  | PAdd
  | PRename
  | PLeave

definition offered :: "app \<Rightarrow> session_info \<Rightarrow> conversation \<Rightarrow> member_panel \<Rightarrow> panel_action \<Rightarrow> bool" where
  "offered s si conv p a =
     (let known = (\<lambda>i. if i \<noteq> si_account_id si \<and> i \<in> set (c_server_members conv) then contact_of s i else None)
      in case a of
        PRemove i \<Rightarrow> known i \<noteq> None \<and> c_kind conv = Group \<and> c_role conv = Owner
      | PAccept i \<Rightarrow> (case known i of None \<Rightarrow> False | Some c \<Rightarrow> ct_pending_keys c \<noteq> None)
      | PVerify i b \<Rightarrow> (case known i of None \<Rightarrow> False | Some c \<Rightarrow> \<not> ct_is_bot c)
      | PRetention n \<Rightarrow> can_set_retention conv \<and> n \<in> set (retention_options conv)
      | PAdd \<Rightarrow> c_kind conv = Group \<and> c_role conv = Owner \<and> js_trim (mp_new_member p) \<noteq> []
      | PRename \<Rightarrow> c_kind conv = Group \<and> js_trim (mp_new_name p) \<noteq> [] \<and> js_trim (mp_new_name p) \<noteq> c_name conv
      | PLeave \<Rightarrow> c_kind conv = Group)"

definition panel_request :: "world \<Rightarrow> nat \<Rightarrow> session_info \<Rightarrow> conversation \<Rightarrow> member_panel \<Rightarrow> panel_action \<Rightarrow> app \<Rightarrow> unit result \<times> app" where
  "panel_request W fuel si conv p a s =
     (case a of
        PRemove i \<Rightarrow> remove_member W fuel (c_id conv) i s
      | PAccept i \<Rightarrow> ret () (accept_new_keys i s)
      | PVerify i b \<Rightarrow> ret () (set_verified i b s)
      | PRetention n \<Rightarrow> set_retention W (c_id conv) n s
      | PAdd \<Rightarrow> add_member W (c_id conv) (mp_new_member p) s
      | PRename \<Rightarrow> rename_group W (c_id conv) (mp_new_name p) s
      | PLeave \<Rightarrow> remove_member W fuel (c_id conv) (si_account_id si) s)"

definition panel_run :: "world \<Rightarrow> nat \<Rightarrow> session_info \<Rightarrow> conversation \<Rightarrow> panel_action \<Rightarrow> member_panel \<times> app \<Rightarrow> member_panel \<times> app" where
  "panel_run W fuel si conv a st = (case st of (p, s) \<Rightarrow>
     if \<not> offered s si conv p a then (p, s)
     else let r = panel_request W fuel si conv p a s in
       case fst r of
         Inl e \<Rightarrow> (p\<lparr>mp_error := Some (describe_error (a_dict (snd r)) e)\<rparr>, snd r)
       | Inr u \<Rightarrow> ((if a = PAdd then p\<lparr>mp_error := None, mp_new_member := []\<rparr> else p\<lparr>mp_error := None\<rparr>), snd r))"

section \<open>A new group\<close>

definition separator :: "char \<Rightarrow> bool" where
  "separator c \<longleftrightarrow> js_space c \<or> c = CHR '',''"

text \<open>\<open>split(/[\s,]+/).filter(Boolean)\<close>: the longest pieces without a separator.\<close>

function split_names :: "string \<Rightarrow> string list" where
  "split_names s =
     (let r = dropWhile separator s in
      if r = [] then [] else takeWhile (\<lambda>c. \<not> separator c) r # split_names (dropWhile (\<lambda>c. \<not> separator c) r))"
  by pat_completeness auto
termination
proof (relation "measure length", simp)
  fix s r :: string
  assume r: "r = dropWhile separator s" "r \<noteq> []"
  from r(2) obtain c cs where c: "r = c # cs" by (auto simp: neq_Nil_conv)
  have "\<not> separator (hd r)" unfolding r(1) by (rule hd_dropWhile) (use r in simp)
  then have "length (dropWhile (\<lambda>c. \<not> separator c) r) < length r"
    using c length_dropWhile_le [of "\<lambda>c. \<not> separator c" cs] by (simp add: le_imp_less_Suc)
  also have "length r \<le> length s" using r length_dropWhile_le by metis
  finally show "(dropWhile (\<lambda>c. \<not> separator c) r, s) \<in> measure length" by simp
qed

declare split_names.simps [simp del]

text \<open>The name being typed is the last one, unless a separator follows it.\<close>

definition typing :: "string \<Rightarrow> string" where
  "typing members =
     (if members \<noteq> [] \<and> \<not> separator (last members)
      then (case split_names members of [] \<Rightarrow> [] | ts \<Rightarrow> last ts) else [])"

definition done_names :: "string \<Rightarrow> string list" where
  "done_names members = (if typing members \<noteq> [] then butlast (split_names members) else split_names members)"

definition chosen :: "string \<Rightarrow> string list" where
  "chosen members = map (\<lambda>x. to_lower_case (strip_at x)) (done_names members)"

definition pick_member :: "directory_user \<Rightarrow> string \<Rightarrow> string" where
  "pick_member u members = join_with '', '' (done_names members @ [du_username u]) @ '', ''"

definition MAX_SUGGESTIONS :: nat where "MAX_SUGGESTIONS = 12"

definition matching_users :: "directory_user list \<Rightarrow> string \<Rightarrow> string list \<Rightarrow> directory_user list" where
  "matching_users users query exclude =
     (let q = to_lower_case (strip_at (js_trim query)) in
      filter (\<lambda>u. let name = to_lower_case (du_username u) in starts_with q name \<and> name \<noteq> q \<and> name \<notin> set exclude) users)"

text \<open>The suggested users and the line that says how many more there are.\<close>

definition suggestions :: "dict \<Rightarrow> directory_user list option \<Rightarrow> string \<Rightarrow> string list \<Rightarrow> directory_user list \<times> string option" where
  "suggestions dict users query exclude =
     (case users of
        None \<Rightarrow> ([], None)
      | Some us \<Rightarrow>
          let matches = matching_users us query exclude in
          (take MAX_SUGGESTIONS matches,
           if length matches > MAX_SUGGESTIONS
           then Some (translate dict ''more_users'' [(''n'', string_of_int (int (length matches - MAX_SUGGESTIONS)))]) else None))"

record new_group =
  ng_name :: string
  ng_members :: string
  ng_error :: "string option"
  ng_busy :: bool
  ng_directory :: "directory_user list option"
  ng_open :: bool

text \<open>The directory answers, unless the dialog is gone by then.\<close>

definition directory_answer :: "app \<Rightarrow> directory_user list result \<Rightarrow> new_group \<Rightarrow> new_group" where
  "directory_answer s r g =
     (if \<not> ng_open g then g
      else case r of
        Inl e \<Rightarrow> g\<lparr>ng_directory := None\<rparr>
      | Inr us \<Rightarrow> g\<lparr>ng_directory := Some (filter (\<lambda>u. Some (du_id u) \<noteq> map_option si_account_id (a_session s)) us)\<rparr>)"

definition submit_group :: "world \<Rightarrow> new_group \<times> app \<Rightarrow> new_group \<times> app" where
  "submit_group W st = (case st of (g, s) \<Rightarrow>
     let r = create_group W (ng_name g) (split_names (ng_members g)) s in
     case fst r of
       Inl e \<Rightarrow> (g\<lparr>ng_error := Some (describe_error (a_dict (snd r)) e), ng_busy := False\<rparr>, snd r)
     | Inr i \<Rightarrow> (g\<lparr>ng_error := None, ng_busy := False, ng_open := False\<rparr>, snd r))"

section \<open>Facts about the panel\<close>

text \<open>The timer of the conversation is always among the options, and every option has a text of its own.\<close>

lemma retention_shown: "c_retention_seconds conv \<in> set (retention_options conv)"
  by (simp add: retention_options_def)

text \<open>Accepting is offered exactly where keys wait, and the safety number shown is then that of the new keys.\<close>

lemma acceptable_row:
  assumes "r \<in> set (member_rows C s si conv)" and "mr_acceptable r"
  shows "\<exists>c spub epub. contact_of s (mr_id r) = Some c \<and> ct_pending_keys c = Some (spub, epub)
    \<and> mr_fingerprint r = fingerprint C spub epub"
proof -
  obtain i c where "contact_of s i = Some c" "r = member_row C s conv i c"
    using assms(1) by (auto simp: member_rows_def split: option.splits) (metis (no_types))
  with assms(2) show ?thesis by (auto simp: member_row_def)
qed

text \<open>What is accepted is what was shown: after accepting, the pinned keys have the safety number of the row.\<close>

lemma accepts_what_is_shown:
  assumes "r \<in> set (member_rows C s si conv)" and "mr_acceptable r" and "contacts_inv s"
  shows "\<exists>c. contact_of (accept_new_keys (mr_id r) s) (mr_id r) = Some c \<and> ct_pending_keys c = None \<and> \<not> ct_verified c
    \<and> fingerprint C (ct_sign_pub c) (ct_enc_pub c) = mr_fingerprint r"
proof -
  obtain c spub epub where c: "contact_of s (mr_id r) = Some c" "ct_pending_keys c = Some (spub, epub)"
    "mr_fingerprint r = fingerprint C spub epub"
    using acceptable_row [OF assms(1,2)] by blast
  moreover have "ct_id c = mr_id r" using assms(3) c(1) by (simp add: contacts_inv_def)
  ultimately show ?thesis
    by (simp add: accept_new_keys_def save_contact_def)
qed

section \<open>Facts about names\<close>

lemma split_names_Nil [simp]: "split_names [] = []"
  by (simp add: split_names.simps)

lemma split_separators: "separator c \<Longrightarrow> split_names (c # s) = split_names s"
  by (subst (1 2) split_names.simps) simp

lemma split_name:
  assumes "x \<noteq> []" and "\<forall>c \<in> set x. \<not> separator c" and "s = [] \<or> separator (hd s)"
  shows "split_names (x @ s) = x # split_names s"
proof -
  have "dropWhile separator (x @ s) = x @ s" using assms(1,2) by (cases x) auto
  moreover have "takeWhile (\<lambda>c. \<not> separator c) (x @ s) = x"
    using assms(2,3) by (cases s) (auto simp: takeWhile_append2)
  moreover have "dropWhile (\<lambda>c. \<not> separator c) (x @ s) = s"
    using assms(2,3) by (cases s) (auto simp: dropWhile_append2)
  ultimately show ?thesis using assms(1) by (subst split_names.simps) simp
qed

lemma comma_separator [simp]: "separator CHR '',''" "separator CHR '' ''"
  by (simp_all add: separator_def js_space_def)

definition plain_name :: "string \<Rightarrow> bool" where
  "plain_name x \<longleftrightarrow> x \<noteq> [] \<and> list_all (\<lambda>c. \<not> separator c) x"

lemma split_join:
  assumes "list_all plain_name xs"
  shows "split_names (join_with '', '' xs @ '', '') = xs"
  using assms
proof (induction xs)
  case (Cons x xs)
  have head: "split_names (x @ '', '' @ r) = x # split_names r" for r
    using Cons.prems split_name [of x "'', '' @ r"] by (simp add: plain_name_def list_all_iff split_separators)
  show ?case
    using Cons head [of "[]"] head [of "join_with '', '' xs @ '', ''"] by (cases xs) simp_all
qed (simp add: split_separators)

lemma split_plain: "list_all plain_name (split_names s)"
proof (induction s rule: split_names.induct)
  case (1 s)
  show ?case
  proof (cases "dropWhile separator s = []")
    case False
    then have "\<not> separator (hd (dropWhile separator s))" by (rule hd_dropWhile)
    with False have "plain_name (takeWhile (\<lambda>c. \<not> separator c) (dropWhile separator s))"
      by (cases "dropWhile separator s") (auto simp: plain_name_def list_all_iff dest: set_takeWhileD)
    with 1 False show ?thesis by (subst split_names.simps) (simp add: Let_def)
  qed (simp add: split_names.simps)
qed

lemma done_plain: "list_all plain_name (done_names s)"
  using split_plain [of s] by (auto simp: done_names_def list_all_iff dest: in_set_butlastD)

text \<open>A suggestion that is picked becomes exactly one member: the names the dialog will create the group with
are those that were complete before, then the one that was picked, none of them joined, split or lost; nothing is
being typed any more; and the name that was picked is not suggested again.\<close>

theorem picked_names:
  assumes "plain_name (du_username u)" and "m = pick_member u members"
  shows "split_names m = done_names members @ [du_username u] \<and> typing m = [] \<and> done_names m = split_names m
    \<and> (strip_at (du_username u) = du_username u \<longrightarrow> u \<notin> set (matching_users us q (chosen m)))"
proof -
  have "list_all plain_name (done_names members @ [du_username u])" using assms(1) done_plain by simp
  then have split: "split_names m = done_names members @ [du_username u]"
    unfolding assms(2) pick_member_def by (rule split_join)
  have "m \<noteq> []" "separator (last m)" by (simp_all add: assms(2) pick_member_def)
  then have idle: "typing m = []" by (simp add: typing_def)
  then have names: "done_names m = split_names m" by (simp add: done_names_def)
  have "to_lower_case (du_username u) \<in> set (chosen m)" if "strip_at (du_username u) = du_username u"
    using that by (simp add: chosen_def names split)
  then have "strip_at (du_username u) = du_username u \<longrightarrow> u \<notin> set (matching_users us q (chosen m))"
    by (auto simp: matching_users_def Let_def)
  with split idle names show ?thesis by blast
qed

end
