(* ===== verification/Overlays.thy ===== *)
theory Overlays
  imports VoiceFacts Search Messaging Files "HOL-Library.Multiset"
begin

text \<open>
  \<open>ui/CallOverlay.tsx\<close> and \<open>ui/VoiceOverlay.tsx\<close> with \<open>ui/fullscreen.ts\<close>: what is shown of a call and of a
  voice channel, which buttons are offered, and what they do to the state of \<open>Calls\<close> and \<open>Voice\<close>. A media
  stream on the screen is its identity.
\<close>

section \<open>Full screen\<close>

text \<open>The element that is shown full screen, if any. The browser grants every request.\<close>

definition is_fullscreen :: "nat option \<Rightarrow> nat option \<Rightarrow> bool" where
  "is_fullscreen el doc \<longleftrightarrow> el \<noteq> None \<and> doc = el"

definition exit_fullscreen :: "nat option \<Rightarrow> nat option" where
  "exit_fullscreen doc = None"

definition toggle_fullscreen :: "nat option \<Rightarrow> nat option \<Rightarrow> nat option" where
  "toggle_fullscreen el doc = (if el = None then doc else if is_fullscreen el doc then exit_fullscreen doc else el)"

text \<open>
  \<open>useFullscreen\<close>: what the component knows, renewed on every change of the document; a component that goes away
  while its element is shown leaves full screen.
\<close>

record fullscreen_hook =
  fh_on :: bool
  fh_active :: "nat option"

definition fullscreen_change :: "nat option \<Rightarrow> nat option \<Rightarrow> fullscreen_hook" where
  "fullscreen_change el doc =
     (let now = is_fullscreen el doc in \<lparr>fh_on = now, fh_active = (if now then el else None)\<rparr>)"

definition fullscreen_unmount :: "fullscreen_hook \<Rightarrow> nat option \<Rightarrow> nat option" where
  "fullscreen_unmount h doc = (if fh_active h \<noteq> None \<and> doc = fh_active h then exit_fullscreen doc else doc)"

lemma fullscreen_left: "el \<noteq> None \<Longrightarrow> fullscreen_unmount (fullscreen_change el doc) doc \<noteq> el"
  by (auto simp: fullscreen_unmount_def fullscreen_change_def is_fullscreen_def exit_fullscreen_def)

section \<open>A call\<close>

text \<open>\<open>useMedia\<close>: the stream an element is given, and whether it starts to play.\<close>

definition use_media :: "nat option \<Rightarrow> nat option \<Rightarrow> nat option \<times> bool" where
  "use_media src stream = (if src = stream then (src, False) else (stream, stream \<noteq> None))"

text \<open>Minutes and seconds since the start; \<open>%\<close> takes the sign of the dividend, and 0 as a start counts as none.\<close>

definition js_rem :: "int \<Rightarrow> int \<Rightarrow> int" where
  "js_rem a b = (if a < 0 then - ((- a) mod b) else a mod b)"

definition pad_start2 :: "string \<Rightarrow> string" where
  "pad_start2 s = replicate (2 - length s) CHR ''0'' @ s"

definition elapsed :: "int option \<Rightarrow> int \<Rightarrow> string" where
  "elapsed since now =
     (case since of
        None \<Rightarrow> []
      | Some t \<Rightarrow>
          if t = 0 then []
          else let s = (now - t) div 1000
               in string_of_int (s div 60) @ '':'' @ pad_start2 (string_of_int (js_rem s 60)))"

definition remote_media :: "call_state \<Rightarrow> bool" where
  "remote_media c \<longleftrightarrow> cs_remote_video c \<or> cs_remote_sharing c"

text \<open>The status row: the tile's state and icon, the headline and the line under it.\<close>

record call_status_row =
  sr_tile :: string
  sr_icon :: string
  sr_text :: string
  sr_sub :: string

definition status_row :: "app \<Rightarrow> string \<Rightarrow> call_state \<Rightarrow> int \<Rightarrow> call_status_row" where
  "status_row s me c now =
     (let t = translate (a_dict s); peer = username_of s (cs_peer c) me in
      case cs_status c of
        RingingOut \<Rightarrow> \<lparr>sr_tile = [], sr_icon = (if cs_video c then ''video'' else ''phone''), sr_text = t ''calling'' [(''peer'', peer)],
          sr_sub = (if cs_video c then t ''video_call'' [] else t ''voice_call'' [])\<rparr>
      | RingingIn \<Rightarrow> \<lparr>sr_tile = ''incoming'', sr_icon = (if cs_remote_video c then ''video'' else ''phone''),
          sr_text = t ''incoming_call'' [(''peer'', peer)],
          sr_sub = (if cs_remote_video c then t ''incoming_video_call'' [(''peer'', peer)] else t ''voice_call'' [])\<rparr>
      | CallConnecting \<Rightarrow> \<lparr>sr_tile = [], sr_icon = ''phone'', sr_text = t ''call_connecting'' [], sr_sub = t ''e2e_hint'' []\<rparr>
      | Active \<Rightarrow> \<lparr>sr_tile = ''active'', sr_icon = ''phone'',
          sr_text = t ''in_call'' [(''peer'', peer), (''time'', elapsed (cs_started_at c) now)], sr_sub = t ''e2e_hint'' []\<rparr>
      | Ended \<Rightarrow> \<lparr>sr_tile = ''ended'', sr_icon = ''phone-off'', sr_text = t ''call_ended'' [],
          sr_sub = (case cs_end_reason c of
              None \<Rightarrow> []
            | Some r \<Rightarrow> if r = CallEnded then [] else t (''reason_'' @ reason_key r) [])\<rparr>)"

text \<open>The stage: hidden while the call rings in, else what there is to see of either side.\<close>

record call_stage =
  cg_shown :: bool
  cg_screen :: "nat option"
  cg_camera :: "nat option"
  cg_camera_small :: bool
  cg_plate :: "string option"
  cg_self :: "nat option"
  cg_tools :: bool

definition call_stage :: "app \<Rightarrow> string \<Rightarrow> call_state \<Rightarrow> call_stage" where
  "call_stage s me c =
     (let incoming = (cs_status c = RingingIn) in
      \<lparr>cg_shown = (\<not> incoming \<and> (remote_media c \<or> cs_local_camera c \<noteq> None)),
       cg_screen = (if cs_remote_sharing c then cs_remote_screen c else None),
       cg_camera = (if cs_remote_video c then cs_remote_camera c else None),
       cg_camera_small = (cs_remote_video c \<and> cs_remote_sharing c),
       cg_plate = (if remote_media c \<and> \<not> incoming then Some (username_of s (cs_peer c) me) else None),
       cg_self = map_option ms_id (cs_local_camera c),
       cg_tools = remote_media c\<rparr>)"

text \<open>The effect that leaves full screen when nothing remote is shown or the call has ended.\<close>

definition call_screen_effect :: "call_state \<Rightarrow> nat option \<Rightarrow> nat option \<Rightarrow> nat option" where
  "call_screen_effect c el doc =
     (if (\<not> remote_media c \<or> cs_status c = Ended) \<and> is_fullscreen el doc then exit_fullscreen doc else doc)"

definition toggle_call_screen :: "call_state \<Rightarrow> nat option \<Rightarrow> nat option \<Rightarrow> nat option" where
  "toggle_call_screen c el doc = (if remote_media c then toggle_fullscreen el doc else doc)"

datatype call_button = BAnswer | BDecline | BMute | BCamera | BShare | BHangup | BClose

definition in_call_controls :: "call_state \<Rightarrow> bool" where
  "in_call_controls c \<longleftrightarrow> cs_status c = Active \<or> cs_status c = CallConnecting"

text \<open>The buttons with whether they are enabled, and the labels of the three that switch.\<close>

definition call_buttons :: "call_state \<Rightarrow> (call_button \<times> bool) list" where
  "call_buttons c =
     (let live = (cs_status c \<in> {Active, CallConnecting, RingingOut}) in
      (if cs_status c = RingingIn then [(BAnswer, True), (BDecline, True)] else [])
      @ (if in_call_controls c
         then [(BMute, cs_local_stream c \<noteq> None), (BCamera, cs_local_stream c \<noteq> None), (BShare, cs_status c = Active), (BHangup, True)]
         else [])
      @ (if live \<and> \<not> in_call_controls c then [(BHangup, True)] else [])
      @ (if cs_status c = Ended then [(BClose, True)] else []))"

definition call_labels :: "dict \<Rightarrow> call_state \<Rightarrow> string \<times> string \<times> string" where
  "call_labels dict c =
     (translate dict (if cs_muted c then ''unmute'' else ''mute'') [],
      translate dict (if cs_video c then ''camera_off'' else ''camera_on'') [],
      translate dict (if cs_sharing c then ''stop_sharing'' else ''share_screen'') [])"

text \<open>Full screen shows the status and its own bar, which has the same four buttons.\<close>

definition fullscreen_bar :: "bool \<Rightarrow> call_state \<Rightarrow> (call_button \<times> bool) list" where
  "fullscreen_bar fullscreen c =
     (if fullscreen \<and> in_call_controls c
      then [(BMute, cs_local_stream c \<noteq> None), (BCamera, cs_local_stream c \<noteq> None), (BShare, cs_status c = Active), (BHangup, True)]
      else [])"

lemma fullscreen_bar_same: "fullscreen_bar True c = (if in_call_controls c then call_buttons c else [])"
  by (auto simp: fullscreen_bar_def call_buttons_def in_call_controls_def Let_def)

text \<open>A disabled button does nothing.\<close>

definition press :: "world \<Rightarrow> call_button \<Rightarrow> phone \<Rightarrow> phone" where
  "press W b s =
     (case ph_call s of
        None \<Rightarrow> s
      | Some c \<Rightarrow>
          if (b, True) \<notin> set (call_buttons c) then s
          else case b of
            BAnswer \<Rightarrow> accept_call s
          | BDecline \<Rightarrow> reject_call W s
          | BMute \<Rightarrow> toggle_mute s
          | BCamera \<Rightarrow> toggle_camera W s
          | BShare \<Rightarrow> if cs_sharing c then stop_screen_share s else start_screen_share s
          | BHangup \<Rightarrow> hangup W s
          | BClose \<Rightarrow> dismiss_ended_call s)"

section \<open>A voice channel\<close>

datatype tile_kind = CameraTile | ScreenTile

record tile =
  tl_key :: string
  tl_kind :: tile_kind
  tl_who :: voice_participant
  tl_stream :: "nat option"
  tl_self :: bool

definition camera_tile :: "channel \<Rightarrow> string \<Rightarrow> voice_participant \<Rightarrow> tile" where
  "camera_tile s self p =
     \<lparr>tl_key = vp_session p @ '':camera'', tl_kind = CameraTile, tl_who = p,
      tl_stream = (if vp_session p = self then map_option ms_id (vc_self_camera s) else jget (vc_cameras s) (vp_session p)),
      tl_self = (vp_session p = self)\<rparr>"

text \<open>Our own screen is not looped back.\<close>

definition screen_tile :: "channel \<Rightarrow> voice_participant \<Rightarrow> tile" where
  "screen_tile s p =
     \<lparr>tl_key = vp_session p @ '':screen'', tl_kind = ScreenTile, tl_who = p, tl_stream = jget (vc_streams s) (vp_session p), tl_self = False\<rparr>"

fun tiles_of :: "channel \<Rightarrow> voice_participant list \<Rightarrow> string \<Rightarrow> tile list" where
  "tiles_of s [] self = []"
| "tiles_of s (p # ps) self =
     camera_tile s self p # (if vp_sharing p \<and> vp_session p \<noteq> self then [screen_tile s p] else []) @ tiles_of s ps self"

text \<open>A stable sort puts this device first; the pinned tile comes first, if it is still there.\<close>

definition people_shown :: "channel \<Rightarrow> voice_state \<Rightarrow> voice_participant list" where
  "people_shown s v = sort_key (\<lambda>p. if vp_session p = vs_session v then 0 else 1 :: nat) (participants_of (vs_conv_id v) s)"

definition effective_pin :: "string option \<Rightarrow> tile list \<Rightarrow> string option" where
  "effective_pin pin tiles =
     (case pin of None \<Rightarrow> None | Some k \<Rightarrow> if k \<noteq> [] \<and> k \<in> set (map tl_key tiles) then Some k else None)"

definition ordered_tiles :: "string option \<Rightarrow> tile list \<Rightarrow> tile list" where
  "ordered_tiles pin tiles =
     (case effective_pin pin tiles of
        None \<Rightarrow> tiles
      | Some k \<Rightarrow> sort_key (\<lambda>x. if tl_key x = k then 0 else 1 :: nat) tiles)"

definition speaker_click :: "string option \<Rightarrow> tile list \<Rightarrow> string option" where
  "speaker_click pin tiles =
     (case effective_pin pin tiles of
        Some k \<Rightarrow> Some k
      | None \<Rightarrow> map_option tl_key (List.find (\<lambda>x. tl_stream x \<noteq> None) tiles))"

definition pin_click :: "string option \<Rightarrow> tile list \<Rightarrow> tile \<Rightarrow> string option" where
  "pin_click pin tiles x = (if effective_pin pin tiles = Some (tl_key x) then None else Some (tl_key x))"

text \<open>A tile: whether it shows video, its label, what it shows instead, and its marks.\<close>

definition tile_live :: "tile \<Rightarrow> bool" where
  "tile_live x \<longleftrightarrow> tl_stream x \<noteq> None \<and>
     (if tl_kind x = CameraTile then tl_self x \<or> vp_camera (tl_who x) else vp_sharing (tl_who x))"

record tile_view =
  tv_video :: "nat option"
  tv_instead :: string
  tv_label :: string
  tv_muted :: bool
  tv_camera_off :: bool

text \<open>User names are ASCII, so an initial is an upper-case letter or stays what it is.\<close>

definition initial :: "string \<Rightarrow> string" where
  "initial name = map (\<lambda>c. if 97 \<le> (of_char c :: nat) \<and> (of_char c :: nat) \<le> 122 then char_of (of_char c - 32 :: nat) else c) (take 1 name)"

definition tile_view :: "app \<Rightarrow> session_info \<Rightarrow> tile \<Rightarrow> tile_view" where
  "tile_view s si x =
     (let t = translate (a_dict s);
          name = (if tl_self x then si_username si else username_of s (vp_account (tl_who x)) (si_account_id si))
      in \<lparr>tv_video = (if tile_live x then tl_stream x else None),
          tv_instead = (if tile_live x then []
            else if tl_kind x = CameraTile then initial name else t ''voice_waiting_video'' []),
          tv_label = (if tl_kind x = ScreenTile then t ''screen_of'' [(''name'', name)] else name)
            @ (if tl_self x then '' ('' @ t ''you'' [] @ '')'' else []),
          tv_muted = (tl_kind x = CameraTile \<and> vp_muted (tl_who x)),
          tv_camera_off = (tl_kind x = CameraTile \<and> \<not> tile_live x)\<rparr>)"

definition any_video :: "tile list \<Rightarrow> bool" where
  "any_video tiles \<longleftrightarrow> list_ex (\<lambda>x. tl_kind x = ScreenTile) tiles \<or> list_ex (\<lambda>x. tl_kind x = CameraTile \<and> tl_stream x \<noteq> None) tiles"

fun link_key :: "link_state \<Rightarrow> string" where
  "link_key LinkConnecting = ''voice_state_connecting''"
| "link_key LinkConnected = ''voice_state_connected''"
| "link_key LinkFailed = ''voice_state_failed''"

text \<open>The list of people: the name, the three marks, and the state of the connection to the others.\<close>

definition voice_rows :: "channel \<Rightarrow> session_info \<Rightarrow> voice_state \<Rightarrow> (string \<times> bool \<times> bool \<times> bool \<times> string option) list" where
  "voice_rows s si v =
     (let a = vapp s in
      map (\<lambda>p. let self = (vp_session p = vs_session v) in
           (if self then si_username si @ '' ('' @ translate (a_dict a) ''you'' [] @ '')'' else username_of a (vp_account p) (si_account_id si),
            vp_muted p, vp_sharing p, vp_camera p,
            if self then None
            else Some (translate (a_dict a) (link_key (case jget (vs_peers v) (vp_session p) of Some l \<Rightarrow> l | None \<Rightarrow> LinkConnecting)) [])))
        (people_shown s v))"

text \<open>
  The rest of the window: its title, how many screens and cameras there are, whether one tile is in front, the
  tiles with whether each is pinned, and the labels of the three buttons that switch.
\<close>

record voice_view =
  vv_title :: string
  vv_video :: bool
  vv_screens :: nat
  vv_cameras :: nat
  vv_count :: string
  vv_speaker :: bool
  vv_tiles :: "(tile \<times> bool) list"
  vv_labels :: "string \<times> string \<times> string"

definition voice_view :: "channel \<Rightarrow> session_info \<Rightarrow> voice_state \<Rightarrow> string option \<Rightarrow> voice_view" where
  "voice_view s si v pin =
     (let a = vapp s; t = translate (a_dict a); people = people_shown s v; tiles = tiles_of s people (vs_session v)
      in \<lparr>vv_title = t ''voice_title'' [(''group'',
            case conv_of a (vs_conv_id v) of Some c \<Rightarrow> conversation_title a c (si_account_id si) | None \<Rightarrow> t ''group'' [])],
          vv_video = any_video tiles,
          vv_screens = length (filter (\<lambda>x. tl_kind x = ScreenTile) tiles),
          vv_cameras = length (filter (\<lambda>x. tl_kind x = CameraTile \<and> tl_stream x \<noteq> None) tiles),
          vv_count = t ''voice_tiles'' [(''tiles'', string_of_int (int (length tiles))), (''people'', string_of_int (int (length people)))],
          vv_speaker = (effective_pin pin tiles \<noteq> None),
          vv_tiles = map (\<lambda>x. (x, effective_pin pin tiles = Some (tl_key x))) (ordered_tiles pin tiles),
          vv_labels = (t (if vs_muted v then ''unmute'' else ''mute'') [], t (if vs_camera v then ''camera_off'' else ''camera_on'') [],
            t (if vs_sharing v then ''stop_sharing'' else ''share_screen'') [])\<rparr>)"

text \<open>The effect that leaves full screen when nothing is left to see.\<close>

definition voice_screen_effect :: "tile list \<Rightarrow> nat option \<Rightarrow> nat option \<Rightarrow> nat option" where
  "voice_screen_effect tiles el doc = (if \<not> any_video tiles \<and> is_fullscreen el doc then exit_fullscreen doc else doc)"

datatype voice_button = VMute | VCam | VShare | VLeave

definition press_voice :: "world \<Rightarrow> voice_button \<Rightarrow> channel \<Rightarrow> channel" where
  "press_voice W b s =
     (case vc_voice s of
        None \<Rightarrow> s
      | Some v \<Rightarrow>
          (case b of
             VMute \<Rightarrow> toggle_voice_mute W s
           | VCam \<Rightarrow> toggle_voice_camera W s
           | VShare \<Rightarrow> if vs_sharing v then stop_voice_share W s else start_voice_share s
           | VLeave \<Rightarrow> leave_voice W s))"

text \<open>The strip under a group's header: nothing, or who is in the channel and whether this device joined here.\<close>

definition voice_bar :: "channel \<Rightarrow> session_info \<Rightarrow> string \<Rightarrow> ((string \<times> bool \<times> bool) list \<times> bool) option" where
  "voice_bar s si conv =
     (let joined = (case vc_voice s of None \<Rightarrow> False | Some v \<Rightarrow> vs_conv_id v = conv); people = participants_of conv s in
      if people = [] \<and> \<not> joined then None
      else Some (map (\<lambda>p. (username_of (vapp s) (vp_account p) (si_account_id si), vp_sharing p, vp_camera p)) people, joined))"

text \<open>The sentence of the strip: the text around its gap, with the names in between.\<close>

definition names_gap :: "string \<Rightarrow> string \<times> string" where
  "names_gap t =
     (case index_of ''{names}'' t of
        None \<Rightarrow> (t, [])
      | Some i \<Rightarrow>
          let r = drop (i + 7) t
          in (take i t, case index_of ''{names}'' r of None \<Rightarrow> r | Some j \<Rightarrow> take j r))"

definition voice_sentence :: "dict \<Rightarrow> string list \<Rightarrow> string" where
  "voice_sentence dict names =
     (if names = [] then translate dict ''voice_empty'' []
      else case names_gap (translate dict ''voice_in_channel'' []) of (before, after) \<Rightarrow> before @ join_with '', '' names @ after)"

section \<open>The buttons of a call\<close>

lemma accept_status:
  assumes "ph_call s = Some c" and "cs_status c = RingingIn" and "ph_pending_offer s \<noteq> None"
  shows "map_option cs_status (ph_call (accept_call s)) = Some CallConnecting"
  using assms by (simp add: accept_call_def update_call_def wait_def clear_ring_def clear_id_def split: option.split)

lemma sent_call [simp]: "ph_call (send_signal W conv sig s) = ph_call s"
  by (simp add: send_signal_def)

text \<open>The call's window always offers what the call needs, and what it offers works: in every reachable state
with a call there is exactly one way out (declining while it rings in, closing once it has ended, hanging up
otherwise), it is enabled, and pressing it ends the call or puts the ended one away; answering is offered exactly
while the call rings in, and pressing it takes the call.\<close>

theorem call_window_sound:
  assumes "(call_step W)\<^sup>*\<^sup>* (new_phone a) s" and "ph_call s = Some c"
  shows "filter (\<lambda>(b, e). b \<in> {BDecline, BHangup, BClose}) (call_buttons c) =
           [(if cs_status c = RingingIn then BDecline else if cs_status c = Ended then BClose else BHangup, True)]
    \<and> map_option cs_status (ph_call (press W (if cs_status c = RingingIn then BDecline else BHangup) s)) = Some Ended
    \<and> (cs_status c = Ended \<longrightarrow> ph_call (press W BClose s) = None)
    \<and> ((BAnswer, True) \<in> set (call_buttons c) \<longleftrightarrow> cs_status c = RingingIn)
    \<and> (cs_status c = RingingIn \<longrightarrow> map_option cs_status (ph_call (press W BAnswer s)) = Some CallConnecting)"
proof -
  have inv: "call_inv s" using assms(1) by (rule call_inv_reachable)
  have ends: "map_option cs_status (ph_call (end_call r False s')) = Some Ended" if "ph_call s' = Some c" for r s'
    using that by (simp add: end_call_sel)
  have offer: "cs_status c = RingingIn \<Longrightarrow> ph_pending_offer s \<noteq> None"
    using inv assms(2) by (simp add: call_inv_def)
  show ?thesis
    using assms(2) offer accept_status [OF assms(2)]
    by (cases "cs_status c")
      (simp_all add: call_buttons_def in_call_controls_def press_def Let_def reject_call_def hangup_def ends
        dismiss_ended_call_def call_in_def)
qed

lemma elapsed_digits:
  assumes "0 < t" and "t \<le> now"
  shows "0 \<le> js_rem ((now - t) div 1000) 60 \<and> js_rem ((now - t) div 1000) 60 < 60"
proof -
  have "0 \<le> (now - t) div 1000" using assms by (simp add: pos_imp_zdiv_nonneg_iff)
  then show ?thesis by (simp add: js_rem_def)
qed

section \<open>The tiles of a channel\<close>

lemma tile_fields:
  "tl_key (camera_tile s self p) = vp_session p @ '':camera''" "tl_who (camera_tile s self p) = p"
  "tl_kind (camera_tile s self p) = CameraTile" "tl_key (screen_tile s p) = vp_session p @ '':screen''"
  "tl_who (screen_tile s p) = p" "tl_kind (screen_tile s p) = ScreenTile"
  by (simp_all add: camera_tile_def screen_tile_def)

lemma set_tiles:
  "set (tiles_of s ps self) = camera_tile s self ` set ps
     \<union> screen_tile s ` {p \<in> set ps. vp_sharing p \<and> vp_session p \<noteq> self}"
  by (induction ps) auto

lemma key_ends: "x @ '':camera'' \<noteq> y @ '':screen''"
proof
  assume "x @ '':camera'' = y @ '':screen''"
  then have "last (x @ '':camera'') = last (y @ '':screen'')" by simp
  then show False by simp
qed

lemma distinct_tile_keys:
  "distinct (map vp_session ps) \<Longrightarrow> distinct (map tl_key (tiles_of s ps self))"
proof (induction ps)
  case (Cons p ps)
  have "tl_key x \<noteq> vp_session p @ '':camera'' \<and> tl_key x \<noteq> vp_session p @ '':screen''" if "x \<in> set (tiles_of s ps self)" for x
    using that Cons.prems key_ends key_ends [symmetric] by (auto simp: set_tiles tile_fields image_iff)
  with Cons show ?case
    using key_ends key_ends [symmetric] by (fastforce simp: tile_fields)
qed simp

lemma sorted_map_hd: "sorted (map f l) \<Longrightarrow> x \<in> set l \<Longrightarrow> f (hd l) \<le> f x"
  by (cases l) auto

lemma sort_key_front:
  assumes "x \<in> set xs" and "key x = k" and "\<And>y. y \<in> set xs \<Longrightarrow> key y = k \<Longrightarrow> y = x"
  shows "hd (sort_key (\<lambda>y. if key y = k then 0 else 1 :: nat) xs) = x"
proof -
  let ?f = "\<lambda>y. if key y = k then 0 else 1 :: nat"
  have ne: "sort_key ?f xs \<noteq> []" using assms(1) by (metis in_set_conv_nth length_sort length_greater_0_conv less_nat_zero_code list.size(3))
  have least: "?f (hd l) \<le> ?f x" if "sorted (map ?f l)" "x \<in> set l" for l
    using that by (rule sorted_map_hd)
  have "?f (hd (sort_key ?f xs)) \<le> ?f x" by (rule least) (simp_all add: assms(1))
  then have "key (hd (sort_key ?f xs)) = k" using assms(2) by (simp split: if_splits)
  moreover have "hd (sort_key ?f xs) \<in> set xs" using ne hd_in_set set_sort by metis
  ultimately show ?thesis using assms(3) by blast
qed

text \<open>The channel's window shows everybody once: every participant has exactly one camera tile, every other
participant that shares has exactly one screen tile, there are no further tiles and no two share a key; pinning a
tile only moves it to the front; and a pin whose tile went away is as good as none.\<close>

theorem channel_tiles:
  assumes "distinct (map vp_session ps)" and "tiles = tiles_of s ps self"
  shows "distinct (map tl_key tiles)
    \<and> map tl_who (filter (\<lambda>x. tl_kind x = CameraTile) tiles) = ps
    \<and> map tl_who (filter (\<lambda>x. tl_kind x = ScreenTile) tiles) = filter (\<lambda>p. vp_sharing p \<and> vp_session p \<noteq> self) ps
    \<and> mset (ordered_tiles pin tiles) = mset tiles
    \<and> (\<forall>x \<in> set tiles. pin = Some (tl_key x) \<longrightarrow> hd (ordered_tiles pin tiles) = x)
    \<and> (\<forall>k. pin = Some k \<and> k \<notin> set (map tl_key tiles) \<longrightarrow> ordered_tiles pin tiles = tiles)"
proof -
  have keys: "distinct (map tl_key tiles)" using assms(1,2) by (simp add: distinct_tile_keys)
  have cams: "map tl_who (filter (\<lambda>x. tl_kind x = CameraTile) (tiles_of s ps self)) = ps" by (induction ps) (auto simp: tile_fields)
  have screens: "map tl_who (filter (\<lambda>x. tl_kind x = ScreenTile) (tiles_of s ps self)) = filter (\<lambda>p. vp_sharing p \<and> vp_session p \<noteq> self) ps"
    by (induction ps) (auto simp: tile_fields)
  have "hd (ordered_tiles pin tiles) = x" if "x \<in> set tiles" "pin = Some (tl_key x)" for x
  proof -
    have "tl_key x \<noteq> []" using that(1) by (auto simp: assms(2) set_tiles tile_fields)
    then have "effective_pin pin tiles = Some (tl_key x)" using that by (simp add: effective_pin_def)
    moreover have "hd (sort_key (\<lambda>y. if tl_key y = tl_key x then 0 else 1 :: nat) tiles) = x"
      using that(1) keys by (intro sort_key_front) (auto simp: distinct_map inj_on_def)
    ultimately show ?thesis by (simp add: ordered_tiles_def)
  qed
  then show ?thesis
    using keys cams screens by (simp add: assms(2) ordered_tiles_def effective_pin_def split: option.split)
qed

text \<open>Rooms never list a session twice.\<close>

lemma rooms_distinct:
  assumes "distinct (map vp_session (participants_of conv s))"
  shows "distinct (map vp_session (participants_of conv (set_participant conv' p s)))"
    and "distinct (map vp_session (participants_of conv (remove_participant conv' sess s)))"
  using assms
  by (auto simp: set_participant_def remove_participant_def participants_of_def Let_def update_conv' delete_conv' vtimer_def
      distinct_map_filter split: option.splits if_splits)

end
