(* ===== verification/Admin.thy ===== *)
theory Admin
  imports InviteFacts Http Attachments
begin

text \<open>
  \<open>ui/AdminPanel.tsx\<close> and \<open>ui/BotsDialog.tsx\<close>: the administrator's overview, users, invitations and settings,
  and a person's bots. A request is an endpoint of \<open>Http\<close> in the order it was made; its answer arrives as a
  separate step. The QR generator is a parameter: the SVG text of a link, or an error.
\<close>

section \<open>Types\<close>

record bot_view =
  bo_id :: string
  bo_username :: string
  bo_display_name :: string
  bo_webhook_url :: string
  bo_created_at :: int
  bo_sign_pub :: string
  bo_enc_pub :: string

record admin_stats =
  as_accounts :: int
  as_bots :: int
  as_conversations :: int
  as_messages :: int
  as_blobs :: int
  as_blob_bytes :: int
  as_devices :: int
  as_invites :: int
  as_unused_invites :: int
  as_online_devices :: int
  as_db_bytes :: int
  as_uptime_seconds :: int
  as_latest_version :: string
  as_latest_url :: string
  as_is_release :: bool
  as_version :: string
  as_go_version :: string
  as_turn_enabled :: bool

text \<open>\<open>AdminSettings\<close> has the fields of \<open>ServerSettings\<close>.\<close>

type_synonym admin_settings = server_settings

record admin_user =
  au_id :: string
  au_username :: string
  au_display_name :: string
  au_created_at :: int
  au_last_seen :: int
  au_devices :: int
  au_online :: bool
  au_is_admin :: bool
  au_disabled :: bool
  au_is_bot :: bool
  au_owner_username :: "string option"

record invite_view =
  in_code :: string
  in_note :: string
  in_created_at :: int
  in_used_by :: "string option"
  in_used_at :: "int option"
  in_expires_at :: "int option"

section \<open>Overview\<close>

text \<open>A moment in the reader's locale; \<open>local\<close> writes it. No moment is a dash.\<close>

definition admin_when :: "(int \<Rightarrow> string) \<Rightarrow> int \<Rightarrow> string" where
  "admin_when local ts = (if ts = 0 then ''--'' else local (ts * 1000))"

text \<open>The parts of a text between backticks, every second one being a command.\<close>

fun alternate :: "bool \<Rightarrow> 'a list \<Rightarrow> ('a \<times> bool) list" where
  "alternate b [] = []"
| "alternate b (x # xs) = (x, b) # alternate (\<not> b) xs"

definition with_command :: "string \<Rightarrow> (string \<times> bool) list" where
  "with_command t = alternate False (split_on CHR ''`'' t)"

text \<open>The ten tiles: label, value and a line under it. \<open>started\<close> is the day the server started; times are not negative.\<close>

definition overview_cells :: "dict \<Rightarrow> string \<Rightarrow> admin_stats \<Rightarrow> (string \<times> string \<times> string option) list" where
  "overview_cells dict started x =
     (let t = (\<lambda>k. translate dict k []); num = string_of_int;
          uptime = num (as_uptime_seconds x div 3600) @ ''h '' @ num ((as_uptime_seconds x mod 3600) div 60) @ ''m''
      in [(t ''stat_users'', num (as_accounts x), Some (t ''stat_bots'' @ '': '' @ num (as_bots x))),
          (t ''stat_conversations'', num (as_conversations x), None),
          (t ''stat_messages'', num (as_messages x), None),
          (t ''stat_attachments'', num (as_blobs x), Some (format_size (as_blob_bytes x))),
          (t ''stat_online'', num (as_online_devices x), Some (translate dict ''stat_of_devices'' [(''n'', num (as_devices x))])),
          (t ''stat_db'', format_size (as_db_bytes x), None),
          (t ''stat_uptime'', uptime, Some (translate dict ''stat_since'' [(''date'', started)])),
          (t ''stat_turn'', if as_turn_enabled x then t ''configured'' else t ''not_configured'', None),
          (t ''server'', as_version x, Some (as_go_version x)),
          (t ''stat_latest'', if as_latest_version x = [] then t ''not_checked_yet''
             else if as_latest_version x = as_version x then t ''up_to_date'' else as_latest_version x, None)])"

definition update_hint :: "dict \<Rightarrow> admin_stats \<Rightarrow> (string \<times> bool) list option" where
  "update_hint dict x =
     (if as_latest_version x \<noteq> [] \<and> as_latest_version x \<noteq> as_version x
      then Some (with_command (translate dict ''update_server_hint'' [(''version'', as_latest_version x)])) else None)"

text \<open>The backup is downloaded under the name the server gave it.\<close>

definition backup_download :: "dict \<Rightarrow> (bytes \<times> string option) result \<Rightarrow> string + bytes \<times> string" where
  "backup_download dict r =
     (case r of
        Inl e \<Rightarrow> Inl (describe_error dict e)
      | Inr (content, name) \<Rightarrow> Inr (content, case name of Some n \<Rightarrow> n | None \<Rightarrow> ''family-messenger-backup.db''))"

text \<open>What the tab shows: an error instead of everything else, a placeholder until the numbers are there.\<close>

datatype overview = OverviewError string | OverviewLoading string | OverviewTiles "(string \<times> string \<times> string option) list"

definition overview_shown :: "dict \<Rightarrow> string \<Rightarrow> string option \<Rightarrow> admin_stats option \<Rightarrow> overview" where
  "overview_shown dict started err stats =
     (case err of
        Some e \<Rightarrow> if e \<noteq> [] then OverviewError e
          else (case stats of None \<Rightarrow> OverviewLoading (translate dict ''loading'' []) | Some x \<Rightarrow> OverviewTiles (overview_cells dict started x))
      | None \<Rightarrow> (case stats of None \<Rightarrow> OverviewLoading (translate dict ''loading'' []) | Some x \<Rightarrow> OverviewTiles (overview_cells dict started x)))"

section \<open>Users\<close>

text \<open>\<open>us_acts\<close> holds, for each change under way, the query the list is loaded with after it: that of its drawing.\<close>

record users_tab =
  us_q :: string
  us_acts :: "string list"
  us_users :: "admin_user list"
  us_confirm :: "admin_user option"
  us_error :: "string option"
  us_requests :: "endpoint list"

datatype user_action = SwitchDisabled | SwitchAdmin | SignOutEverywhere | AskDelete

text \<open>What is offered for a user: nothing for oneself, no administration for a bot.\<close>

definition user_actions :: "string \<Rightarrow> admin_user \<Rightarrow> user_action list" where
  "user_actions me u =
     (if au_id u = me then []
      else [SwitchDisabled] @ (if au_is_bot u then [] else [SwitchAdmin]) @ [SignOutEverywhere, AskDelete])"

definition user_labels :: "dict \<Rightarrow> admin_user \<Rightarrow> user_action \<Rightarrow> string" where
  "user_labels dict u a =
     translate dict (case a of SwitchDisabled \<Rightarrow> if au_disabled u then ''enable'' else ''disable''
       | SwitchAdmin \<Rightarrow> if au_is_admin u then ''revoke_admin'' else ''make_admin''
       | SignOutEverywhere \<Rightarrow> ''sign_out_everywhere'' | AskDelete \<Rightarrow> ''delete'') []"

definition user_flags :: "dict \<Rightarrow> admin_user \<Rightarrow> string list" where
  "user_flags dict u =
     map (\<lambda>k. translate dict k [])
       ((if au_is_admin u then [''flag_admin''] else []) @ (if au_online u then [''flag_online''] else [])
        @ (if au_disabled u then [''flag_disabled''] else []) @ (if au_is_bot u then [''flag_bot''] else []))"

record user_row =
  ur_name :: string
  ur_flags :: "string list"
  ur_owner :: "string option"
  ur_created :: string
  ur_seen :: string
  ur_devices :: int
  ur_actions :: "(user_action \<times> string) list"

definition user_row :: "(int \<Rightarrow> string) \<Rightarrow> dict \<Rightarrow> string \<Rightarrow> admin_user \<Rightarrow> user_row" where
  "user_row local dict me u =
     \<lparr>ur_name = CHR ''@'' # au_username u, ur_flags = user_flags dict u,
      ur_owner = (case au_owner_username u of None \<Rightarrow> None
        | Some o' \<Rightarrow> if o' = [] then None else Some (translate dict ''owner_of'' [(''owner'', o')])),
      ur_created = admin_when local (au_created_at u), ur_seen = admin_when local (au_last_seen u), ur_devices = au_devices u,
      ur_actions = map (\<lambda>a. (a, user_labels dict u a)) (user_actions me u)\<rparr>"

definition load_users :: "string \<Rightarrow> users_tab \<Rightarrow> users_tab" where
  "load_users q s = s\<lparr>us_requests := us_requests s @ [EAdminUsers q]\<rparr>"

definition users_answer :: "dict \<Rightarrow> admin_user list result \<Rightarrow> users_tab \<Rightarrow> users_tab" where
  "users_answer dict r s =
     (case r of Inl e \<Rightarrow> s\<lparr>us_error := Some (describe_error dict e)\<rparr> | Inr us \<Rightarrow> s\<lparr>us_users := us\<rparr>)"

definition user_act :: "endpoint \<Rightarrow> users_tab \<Rightarrow> users_tab" where
  "user_act e s = s\<lparr>us_error := None, us_acts := us_acts s @ [us_q s], us_requests := us_requests s @ [e]\<rparr>"

text \<open>The change \<open>i\<close> of those under way is answered.\<close>

definition user_acted :: "dict \<Rightarrow> nat \<Rightarrow> unit result \<Rightarrow> users_tab \<Rightarrow> users_tab" where
  "user_acted dict i r s =
     (if length (us_acts s) \<le> i then s
      else
        let s1 = s\<lparr>us_acts := take i (us_acts s) @ drop (Suc i) (us_acts s)\<rparr>
        in case r of
             Inl e \<Rightarrow> s1\<lparr>us_error := Some (describe_error dict e)\<rparr>
           | Inr u \<Rightarrow> load_users (us_acts s ! i) s1)"

definition click_user :: "string \<Rightarrow> admin_user \<Rightarrow> user_action \<Rightarrow> users_tab \<Rightarrow> users_tab" where
  "click_user me u a s =
     (if u \<notin> set (us_users s) \<or> a \<notin> set (user_actions me u) then s
      else case a of
        SwitchDisabled \<Rightarrow> user_act (EAdminPatchUser (au_id u) [(''disabled'', JBool (\<not> au_disabled u))]) s
      | SwitchAdmin \<Rightarrow> user_act (EAdminPatchUser (au_id u) [(''is_admin'', JBool (\<not> au_is_admin u))]) s
      | SignOutEverywhere \<Rightarrow> user_act (EAdminLogoutUser (au_id u)) s
      | AskDelete \<Rightarrow> s\<lparr>us_confirm := Some u\<rparr>)"

definition confirm_user :: "bool \<Rightarrow> users_tab \<Rightarrow> users_tab" where
  "confirm_user yes s =
     (case us_confirm s of
        None \<Rightarrow> s
      | Some u \<Rightarrow> if yes then user_act (EAdminDeleteUser (au_id u)) (s\<lparr>us_confirm := None\<rparr>) else s\<lparr>us_confirm := None\<rparr>)"

datatype users_event =
    TypeUser string
  | SearchUsers
  | UsersAnswer "admin_user list result"
  | ClickUser admin_user user_action
  | ConfirmUser bool
  | UserActed nat "unit result"

fun users_do :: "dict \<Rightarrow> string \<Rightarrow> users_event \<Rightarrow> users_tab \<Rightarrow> users_tab" where
  "users_do dict me (TypeUser q) s = s\<lparr>us_q := q\<rparr>"
| "users_do dict me SearchUsers s = load_users (us_q s) s"
| "users_do dict me (UsersAnswer r) s = users_answer dict r s"
| "users_do dict me (ClickUser u a) s = click_user me u a s"
| "users_do dict me (ConfirmUser yes) s = confirm_user yes s"
| "users_do dict me (UserActed i r) s = user_acted dict i r s"

definition new_users :: users_tab where
  "new_users = load_users [] \<lparr>us_q = [], us_acts = [], us_users = [], us_confirm = None, us_error = None, us_requests = []\<rparr>"

section \<open>Invitations\<close>

text \<open>
  \<open>iv_jobs\<close> are the QR codes being drawn, each with its link and whether its effect is still the current one;
  \<open>iv_deps\<close> what the effect last ran for.
\<close>

record invites =
  iv_invites :: "invite_view list"
  iv_count :: int
  iv_note :: string
  iv_hours :: int
  iv_codes :: "string list"
  iv_error :: "string option"
  iv_show_qr :: bool
  iv_picked :: "string option"
  iv_qr :: "(string \<times> int) option"
  iv_jobs :: "(string \<times> bool) list"
  iv_deps :: "(bool \<times> string) option"
  iv_requests :: "endpoint list"

definition new_invites :: invites where
  "new_invites = \<lparr>iv_invites = [], iv_count = 1, iv_note = [], iv_hours = 0, iv_codes = [], iv_error = None, iv_show_qr = True,
     iv_picked = None, iv_qr = None, iv_jobs = [], iv_deps = None, iv_requests = [EAdminInvites]\<rparr>"

definition plate :: "invites \<Rightarrow> bool" where
  "plate s \<longleftrightarrow> iv_show_qr s \<and> iv_picked s \<noteq> None"

definition plate_link :: "string \<Rightarrow> invites \<Rightarrow> string" where
  "plate_link origin s = (case iv_picked s of None \<Rightarrow> [] | Some c \<Rightarrow> if c = [] then [] else invite_link c origin)"

definition qr_effect :: "string \<Rightarrow> invites \<Rightarrow> invites" where
  "qr_effect origin s =
     (if iv_deps s = Some (plate s, plate_link origin s) then s
      else
        let s1 = s\<lparr>iv_deps := Some (plate s, plate_link origin s), iv_jobs := map (\<lambda>(l, alive). (l, False)) (iv_jobs s)\<rparr>
        in if plate s then s1\<lparr>iv_jobs := iv_jobs s1 @ [(plate_link origin s, True)]\<rparr> else s1\<lparr>iv_qr := None\<rparr>)"

text \<open>\<open>/viewBox="0 0 (\d+)/\<close>: the number after the first occurrence that has one.\<close>

definition view_box_prefix :: string where
  "view_box_prefix = ''viewBox='' @ [CHR 0x22] @ ''0 0 ''"

definition digit :: "char \<Rightarrow> bool" where
  "digit c \<longleftrightarrow> 48 \<le> (of_char c :: nat) \<and> (of_char c :: nat) \<le> 57"

definition number_of_digits :: "string \<Rightarrow> int" where
  "number_of_digits ds = foldl (\<lambda>n c. 10 * n + (of_char c - 48)) 0 ds"

fun view_box :: "string \<Rightarrow> int option" where
  "view_box [] = None"
| "view_box (c # cs) =
     (if starts_with view_box_prefix (c # cs) \<and> takeWhile digit (drop (length view_box_prefix) (c # cs)) \<noteq> []
      then Some (number_of_digits (takeWhile digit (drop (length view_box_prefix) (c # cs))))
      else view_box cs)"

definition qr_answer :: "dict \<Rightarrow> (string \<Rightarrow> string result) \<Rightarrow> nat \<Rightarrow> invites \<Rightarrow> invites" where
  "qr_answer dict qr_svg i s =
     (let (link, alive) = iv_jobs s ! i; s1 = s\<lparr>iv_jobs := take i (iv_jobs s) @ drop (Suc i) (iv_jobs s)\<rparr> in
      if \<not> alive then s1
      else case qr_svg link of
        Inr svg \<Rightarrow> s1\<lparr>iv_qr := Some (svg, case view_box svg of Some n \<Rightarrow> n * 6 | None \<Rightarrow> 180)\<rparr>
      | Inl e \<Rightarrow> s1\<lparr>iv_qr := None, iv_error := Some (describe_error dict e)\<rparr>)"

definition create_invites :: "invites \<Rightarrow> invites" where
  "create_invites s = s\<lparr>iv_error := None, iv_picked := None,
     iv_requests := iv_requests s @ [EAdminCreateInvites (iv_count s) (iv_note s) (iv_hours s)]\<rparr>"

definition load_invites :: "invites \<Rightarrow> invites" where
  "load_invites s = s\<lparr>iv_requests := iv_requests s @ [EAdminInvites]\<rparr>"

definition fail_invites :: "dict \<Rightarrow> err \<Rightarrow> invites \<Rightarrow> invites" where
  "fail_invites dict e s = s\<lparr>iv_error := Some (describe_error dict e)\<rparr>"

text \<open>Codes that can be put on the plate: the new ones, and the invitations nobody used.\<close>

definition pickable :: "invites \<Rightarrow> string list" where
  "pickable s = (if iv_show_qr s then iv_codes s @ map in_code (filter (\<lambda>i. in_used_by i = None \<or> in_used_by i = Some []) (iv_invites s))
     else [])"

datatype invites_event =
    EditInvite int string int
  | CreateInvites
  | Created "string list result"
  | InvitesAnswer "invite_view list result"
  | ShowQr bool
  | PickCode string
  | DeleteInvite string
  | DeletedInvite "unit result"
  | QrDrawn nat

fun invites_handle :: "dict \<Rightarrow> (string \<Rightarrow> string result) \<Rightarrow> invites_event \<Rightarrow> invites \<Rightarrow> invites" where
  "invites_handle dict qr_svg (EditInvite n note hours) s = s\<lparr>iv_count := n, iv_note := note, iv_hours := hours\<rparr>"
| "invites_handle dict qr_svg CreateInvites s = create_invites s"
| "invites_handle dict qr_svg (Created r) s =
     (case r of Inl e \<Rightarrow> fail_invites dict e s | Inr cs \<Rightarrow> load_invites (s\<lparr>iv_codes := cs\<rparr>))"
| "invites_handle dict qr_svg (InvitesAnswer r) s =
     (case r of Inl e \<Rightarrow> fail_invites dict e s | Inr l \<Rightarrow> s\<lparr>iv_invites := l\<rparr>)"
| "invites_handle dict qr_svg (ShowQr on) s = (if on then s\<lparr>iv_show_qr := True\<rparr> else s\<lparr>iv_show_qr := False, iv_picked := None\<rparr>)"
| "invites_handle dict qr_svg (PickCode c) s = (if c \<in> set (pickable s) then s\<lparr>iv_picked := Some c\<rparr> else s)"
| "invites_handle dict qr_svg (DeleteInvite c) s =
     (if list_ex (\<lambda>i. in_code i = c \<and> (in_used_by i = None \<or> in_used_by i = Some [])) (iv_invites s)
      then (if iv_picked s = Some c then s\<lparr>iv_picked := None\<rparr> else s)\<lparr>iv_requests := iv_requests s @ [EAdminDeleteInvite c]\<rparr>
      else s)"
| "invites_handle dict qr_svg (DeletedInvite r) s = (case r of Inl e \<Rightarrow> fail_invites dict e s | Inr u \<Rightarrow> load_invites s)"
| "invites_handle dict qr_svg (QrDrawn i) s = (if i < length (iv_jobs s) then qr_answer dict qr_svg i s else s)"

text \<open>Every event is followed by a drawing and the effect.\<close>

inductive invites_step :: "dict \<Rightarrow> (string \<Rightarrow> string result) \<Rightarrow> string \<Rightarrow> invites \<Rightarrow> invites \<Rightarrow> bool" for dict qr_svg origin where
  act: "invites_step dict qr_svg origin s (qr_effect origin (invites_handle dict qr_svg ev s))"

definition expires_of :: "invites \<Rightarrow> int option" where
  "expires_of s =
     (case iv_picked s of
        None \<Rightarrow> None
      | Some c \<Rightarrow> (case List.find (\<lambda>i. in_code i = c) (iv_invites s) of None \<Rightarrow> None | Some i \<Rightarrow> in_expires_at i))"

text \<open>The plate with the code, its link and when it expires; the file of the downloaded picture; a row of the table.\<close>

record plate_view =
  pv_qr :: "(string \<times> int) option"
  pv_code :: string
  pv_link :: string
  pv_expires :: "string option"

definition plate_view :: "(int \<Rightarrow> string) \<Rightarrow> dict \<Rightarrow> string \<Rightarrow> invites \<Rightarrow> plate_view option" where
  "plate_view local dict origin s =
     (case iv_picked s of
        None \<Rightarrow> None
      | Some c \<Rightarrow>
          if \<not> plate s then None
          else Some \<lparr>pv_qr = iv_qr s, pv_code = c, pv_link = plate_link origin s,
            pv_expires = (case expires_of s of None \<Rightarrow> None
              | Some t \<Rightarrow> if t = 0 then None else Some (translate dict ''invite_expires_at'' [(''date'', admin_when local t)]))\<rparr>)"

definition download_png :: "dict \<Rightarrow> (string \<Rightarrow> string result) \<Rightarrow> string \<Rightarrow> invites \<Rightarrow> (string \<times> string) option \<times> invites" where
  "download_png dict qr_png origin s =
     (case iv_picked s of
        None \<Rightarrow> (None, s)
      | Some c \<Rightarrow>
          if c = [] then (None, s)
          else case qr_png (plate_link origin s) of
            Inr url \<Rightarrow> (Some (url, c @ ''.png''), s)
          | Inl e \<Rightarrow> (None, fail_invites dict e s))"

definition invite_row :: "(int \<Rightarrow> string) \<Rightarrow> dict \<Rightarrow> invites \<Rightarrow> invite_view \<Rightarrow> string \<times> string \<times> string \<times> string \<times> (bool option \<times> bool)" where
  "invite_row local dict s i =
     (let unused = (in_used_by i = None \<or> in_used_by i = Some []) in
      (in_code i, if in_note i = [] then ''--'' else in_note i,
       case in_used_by i of
         Some u \<Rightarrow> if u = [] then translate dict ''unused'' [] else CHR ''@'' # u
       | None \<Rightarrow> translate dict ''unused'' [],
       case in_expires_at i of
         Some t \<Rightarrow> if t = 0 then translate dict ''never'' [] else admin_when local t
       | None \<Rightarrow> translate dict ''never'' [],
       (if unused \<and> iv_show_qr s then Some (iv_picked s = Some (in_code i)) else None, unused)))"

section \<open>The server's settings\<close>

record settings_tab =
  tb_settings :: "admin_settings option"
  tb_error :: "string option"
  tb_toast :: "string option"
  tb_requests :: "endpoint list"
  tb_refreshes :: nat

definition new_settings_tab :: settings_tab where
  "new_settings_tab = \<lparr>tb_settings = None, tb_error = None, tb_toast = None, tb_requests = [EAdminSettings], tb_refreshes = 0\<rparr>"

definition settings_loaded :: "dict \<Rightarrow> admin_settings result \<Rightarrow> settings_tab \<Rightarrow> settings_tab" where
  "settings_loaded dict r s =
     (case r of Inl e \<Rightarrow> s\<lparr>tb_error := Some (describe_error dict e)\<rparr> | Inr x \<Rightarrow> s\<lparr>tb_settings := Some x\<rparr>)"

text \<open>The size is edited in whole megabytes; \<open>Math.round\<close> rounds half up.\<close>

definition shown_mb :: "admin_settings \<Rightarrow> int" where
  "shown_mb x = (2 * ss_max_attachment_bytes x + 1048576) div 2097152"

datatype settings_edit =
    SetRegistration registration
  | SetAnnouncement string
  | SetMaxMb int
  | SetRetentionDays int
  | SetMaxMembers int
  | SetAllowBots bool
  | SetDirectory bool

fun edit_settings :: "settings_edit \<Rightarrow> admin_settings \<Rightarrow> admin_settings" where
  "edit_settings (SetRegistration r) x = x\<lparr>ss_registration := r\<rparr>"
| "edit_settings (SetAnnouncement t) x = x\<lparr>ss_announcement := t\<rparr>"
| "edit_settings (SetMaxMb n) x = x\<lparr>ss_max_attachment_bytes := n * 1048576\<rparr>"
| "edit_settings (SetRetentionDays n) x = x\<lparr>ss_retention_days := n\<rparr>"
| "edit_settings (SetMaxMembers n) x = x\<lparr>ss_max_group_members := n\<rparr>"
| "edit_settings (SetAllowBots b) x = x\<lparr>ss_allow_bots := b\<rparr>"
| "edit_settings (SetDirectory b) x = x\<lparr>ss_user_directory := b\<rparr>"

fun registration_text :: "registration \<Rightarrow> string" where
  "registration_text Open = ''open''"
| "registration_text Invite = ''invite''"
| "registration_text Closed = ''closed''"

definition settings_json :: "admin_settings \<Rightarrow> json" where
  "settings_json x = JObj [(''registration'', JStr (registration_text (ss_registration x))),
     (''max_attachment_bytes'', JNum (ss_max_attachment_bytes x)), (''retention_days'', JNum (ss_retention_days x)),
     (''allow_bots'', JBool (ss_allow_bots x)), (''max_group_members'', JNum (ss_max_group_members x)),
     (''announcement'', JStr (ss_announcement x)), (''user_directory'', JBool (ss_user_directory x))]"

definition save_settings :: "settings_tab \<Rightarrow> settings_tab" where
  "save_settings s =
     (case tb_settings s of
        None \<Rightarrow> s
      | Some x \<Rightarrow> s\<lparr>tb_error := None, tb_requests := tb_requests s @ [EAdminSaveSettings (settings_json x)]\<rparr>)"

text \<open>\<open>void refreshMe()\<close> starts a task, which \<open>tb_refreshes\<close> counts.\<close>

definition settings_saved :: "dict \<Rightarrow> admin_settings result \<Rightarrow> settings_tab \<Rightarrow> settings_tab" where
  "settings_saved dict r s =
     (case r of
        Inl e \<Rightarrow> s\<lparr>tb_error := Some (describe_error dict e)\<rparr>
      | Inr x \<Rightarrow> s\<lparr>tb_settings := Some x, tb_toast := Some (translate dict ''settings_saved'' []), tb_refreshes := Suc (tb_refreshes s)\<rparr>)"

definition edit_tab :: "settings_edit \<Rightarrow> settings_tab \<Rightarrow> settings_tab" where
  "edit_tab e s = s\<lparr>tb_settings := map_option (edit_settings e) (tb_settings s)\<rparr>"

definition registration_modes :: "dict \<Rightarrow> admin_settings \<Rightarrow> (registration \<times> string \<times> bool) list" where
  "registration_modes dict x =
     map (\<lambda>(m, k). (m, translate dict k [], ss_registration x = m)) [(Open, ''reg_open''), (Invite, ''reg_invite''), (Closed, ''reg_closed'')]"

text \<open>The panel itself: one tab at a time.\<close>

datatype admin_tab = OverviewTab | UsersTab | InvitesTab | SettingsTab

definition admin_tabs :: "dict \<Rightarrow> admin_tab \<Rightarrow> (admin_tab \<times> string \<times> bool) list" where
  "admin_tabs dict tab =
     map (\<lambda>(x, k). (x, translate dict k [], tab = x))
       [(OverviewTab, ''tab_overview''), (UsersTab, ''tab_users''), (InvitesTab, ''tab_invites''), (SettingsTab, ''tab_settings'')]"

section \<open>Bots\<close>

record credentials =
  cd_username :: string
  cd_token :: string
  cd_secret :: string

record bots_dialog =
  bd_bots :: "bot_view list"
  bd_username :: string
  bd_display_name :: string
  bd_webhook :: string
  bd_creds :: "credentials option"
  bd_editing :: "bot_view option"
  bd_confirm :: "bot_view option"
  bd_error :: "string option"
  bd_busy :: bool
  bd_requests :: "endpoint list"

definition new_bots :: bots_dialog where
  "new_bots = \<lparr>bd_bots = [], bd_username = [], bd_display_name = [], bd_webhook = [], bd_creds = None, bd_editing = None,
     bd_confirm = None, bd_error = None, bd_busy = False, bd_requests = [EBots]\<rparr>"

definition load_bots :: "bots_dialog \<Rightarrow> bots_dialog" where
  "load_bots s = s\<lparr>bd_requests := bd_requests s @ [EBots]\<rparr>"

definition bots_answer :: "dict \<Rightarrow> bot_view list result \<Rightarrow> bots_dialog \<Rightarrow> bots_dialog" where
  "bots_answer dict r s = (case r of Inl e \<Rightarrow> s\<lparr>bd_error := Some (describe_error dict e)\<rparr> | Inr l \<Rightarrow> s\<lparr>bd_bots := l\<rparr>)"

text \<open>\<open>run\<close>: the beginning, with its request; and what is left when the request failed or the whole is done.\<close>

definition run_bots :: "endpoint \<Rightarrow> bots_dialog \<Rightarrow> bots_dialog" where
  "run_bots e s = s\<lparr>bd_busy := True, bd_error := None, bd_requests := bd_requests s @ [e]\<rparr>"

definition bots_failed :: "dict \<Rightarrow> err \<Rightarrow> bots_dialog \<Rightarrow> bots_dialog" where
  "bots_failed dict e s = s\<lparr>bd_error := Some (describe_error dict e), bd_busy := False\<rparr>"

text \<open>
  The operations up to their request. The list that follows a change is loaded before the operation is over:
  \<open>bots_loaded\<close> is its answer.
\<close>

definition create_bot :: "bots_dialog \<Rightarrow> bots_dialog" where
  "create_bot s = run_bots (ECreateBot (js_trim (bd_username s)) (js_trim (bd_display_name s)) (js_trim (bd_webhook s))) s"

definition bot_created :: "dict \<Rightarrow> (bot_view \<times> string \<times> string) result \<Rightarrow> bots_dialog \<Rightarrow> bots_dialog" where
  "bot_created dict r s =
     (case r of
        Inl e \<Rightarrow> bots_failed dict e s
      | Inr (b, token, secret) \<Rightarrow>
          load_bots (s\<lparr>bd_creds := Some \<lparr>cd_username = bo_username b, cd_token = token, cd_secret = secret\<rparr>,
            bd_username := [], bd_display_name := [], bd_webhook := []\<rparr>))"

definition bots_loaded :: "dict \<Rightarrow> bot_view list result \<Rightarrow> bots_dialog \<Rightarrow> bots_dialog" where
  "bots_loaded dict r s = (bots_answer dict r s)\<lparr>bd_busy := False\<rparr>"

definition rotate_bot :: "bot_view \<Rightarrow> bots_dialog \<Rightarrow> bots_dialog" where
  "rotate_bot b s = run_bots (ERotateBot (bo_id b)) s"

definition bot_rotated :: "dict \<Rightarrow> bot_view \<Rightarrow> (string \<times> string) result \<Rightarrow> bots_dialog \<Rightarrow> bots_dialog" where
  "bot_rotated dict b r s =
     (case r of
        Inl e \<Rightarrow> bots_failed dict e s
      | Inr (token, secret) \<Rightarrow> s\<lparr>bd_creds := Some \<lparr>cd_username = bo_username b, cd_token = token, cd_secret = secret\<rparr>, bd_busy := False\<rparr>)"

definition save_bot :: "bots_dialog \<Rightarrow> bots_dialog" where
  "save_bot s =
     (case bd_editing s of
        None \<Rightarrow> s
      | Some b \<Rightarrow>
          if bd_busy s \<or> bo_id b \<notin> bo_id ` set (bd_bots s) then s
          else run_bots (EUpdateBot (bo_id b) [(''display_name'', JStr (bo_display_name b)), (''webhook_url'', JStr (bo_webhook_url b))]) s)"

definition bot_saved :: "dict \<Rightarrow> unit result \<Rightarrow> bots_dialog \<Rightarrow> bots_dialog" where
  "bot_saved dict r s = (case r of Inl e \<Rightarrow> bots_failed dict e s | Inr u \<Rightarrow> load_bots (s\<lparr>bd_editing := None\<rparr>))"

definition confirm_delete_bot :: "bots_dialog \<Rightarrow> bots_dialog" where
  "confirm_delete_bot s =
     (case bd_confirm s of None \<Rightarrow> s | Some b \<Rightarrow> run_bots (EDeleteBot (bo_id b)) (s\<lparr>bd_confirm := None\<rparr>))"

definition bot_deleted :: "dict \<Rightarrow> unit result \<Rightarrow> bots_dialog \<Rightarrow> bots_dialog" where
  "bot_deleted dict r s = (case r of Inl e \<Rightarrow> bots_failed dict e s | Inr u \<Rightarrow> load_bots s)"

text \<open>What is shown: the new credentials, the bots, the one being edited with its fields, and the question before deleting.\<close>

definition cred_rows :: "dict \<Rightarrow> credentials \<Rightarrow> (string \<times> string) list" where
  "cred_rows dict c = [(translate dict ''token'' [], cd_token c), (translate dict ''webhook_secret'' [], cd_secret c)]"

datatype bot_row = EditRow string string bool | BotRow string string string

definition bot_row :: "dict \<Rightarrow> bots_dialog \<Rightarrow> bot_view \<Rightarrow> bot_row" where
  "bot_row dict s b =
     (case bd_editing s of
        Some x \<Rightarrow> if bo_id x = bo_id b then EditRow (bo_display_name x) (bo_webhook_url x) (\<not> bd_busy s)
          else BotRow (CHR ''@'' # bo_username b) (bo_display_name b)
            (if bo_webhook_url b = [] then translate dict ''webhook_none'' [] else bo_webhook_url b)
      | None \<Rightarrow> BotRow (CHR ''@'' # bo_username b) (bo_display_name b)
          (if bo_webhook_url b = [] then translate dict ''webhook_none'' [] else bo_webhook_url b))"

definition bots_allowed :: "server_settings option \<Rightarrow> bool" where
  "bots_allowed srv = (case srv of None \<Rightarrow> True | Some x \<Rightarrow> ss_allow_bots x)"

definition delete_bot_question :: "dict \<Rightarrow> bots_dialog \<Rightarrow> string option" where
  "delete_bot_question dict s = map_option (\<lambda>b. translate dict ''confirm_delete_bot'' [(''name'', bo_username b)]) (bd_confirm s)"

text \<open>Opening the chat closes the dialogs when it succeeds: the flag.\<close>

definition chat_with_bot :: "world \<Rightarrow> bot_view \<Rightarrow> bots_dialog \<times> app \<Rightarrow> bool \<times> bots_dialog \<times> app" where
  "chat_with_bot W b st =
     (let r = open_direct_with W (bo_id b) (snd st); d = (fst st)\<lparr>bd_error := None\<rparr> in
      case fst r of
        Inl e \<Rightarrow> (False, bots_failed (a_dict (snd r)) e d, snd r)
      | Inr i \<Rightarrow> (True, d\<lparr>bd_busy := False\<rparr>, snd r))"

end
