(* ===== verification/Entrance.thy ===== *)
theory Entrance
  imports Admin SessionFacts
begin

text \<open>
  \<open>ui/Login.tsx\<close>, where a person signs in or registers; what holds of the administrator's screens; and the way
  of an invitation from the administrator's panel, over a QR code, to the registration of the invited person.
\<close>

section \<open>The entrance\<close>

datatype login_mode = LoginMode | RegisterMode

record login_form =
  lf_mode :: login_mode
  lf_username :: string
  lf_password :: string
  lf_invite :: string
  lf_from_link :: bool
  lf_error :: "string option"
  lf_info :: "(registration \<times> string) option"

definition new_login :: login_form where
  "new_login = \<lparr>lf_mode = LoginMode, lf_username = [], lf_password = [], lf_invite = [], lf_from_link = False,
     lf_error = None, lf_info = None\<rparr>"

text \<open>
  The effect that reads the address of the page. The browser then drops the join route from the address: the
  flag says so.
\<close>

definition land :: "string \<Rightarrow> login_form \<Rightarrow> login_form \<times> bool" where
  "land href f =
     (case parse_invite_link href of
        None \<Rightarrow> (f, False)
      | Some p \<Rightarrow> (f\<lparr>lf_mode := RegisterMode, lf_invite := pi_code p, lf_from_link := True\<rparr>, True))"

datatype login_event = SetMode login_mode | TypeUsername string | TypePassword string | TypeInvite string | Info "(registration \<times> string) result"

fun login_edit :: "login_event \<Rightarrow> login_form \<Rightarrow> login_form" where
  "login_edit (SetMode m) f = f\<lparr>lf_mode := m\<rparr>"
| "login_edit (TypeUsername u) f = f\<lparr>lf_username := u\<rparr>"
| "login_edit (TypePassword p) f = f\<lparr>lf_password := p\<rparr>"
| "login_edit (TypeInvite c) f = f\<lparr>lf_invite := c, lf_from_link := False\<rparr>"
| "login_edit (Info r) f = (case r of Inl e \<Rightarrow> f | Inr i \<Rightarrow> f\<lparr>lf_info := Some i\<rparr>)"

definition registration_of :: "login_form \<Rightarrow> registration" where
  "registration_of f = (case lf_info f of None \<Rightarrow> Invite | Some (r, a) \<Rightarrow> r)"

text \<open>What the form asks the browser to check, and when its button is enabled.\<close>

definition form_valid :: "login_form \<Rightarrow> bool" where
  "form_valid f \<longleftrightarrow> 3 \<le> length (lf_username f) \<and> length (lf_username f) \<le> 32
     \<and> list_all (\<lambda>c. ascii_alnum (of_char c) \<or> c \<in> set ''._'') (lf_username f)
     \<and> (if lf_mode f = RegisterMode then MIN_PASSWORD_LENGTH else 1) \<le> length (lf_password f)
     \<and> (lf_mode f = RegisterMode \<and> registration_of f = Invite \<longrightarrow> lf_invite f \<noteq> [])"

definition can_enter :: "client \<Rightarrow> login_form \<Rightarrow> bool" where
  "can_enter s f \<longleftrightarrow> (cl_busy s = None \<or> cl_busy s = Some []) \<and> \<not> (lf_mode f = RegisterMode \<and> registration_of f = Closed)"

record login_view =
  lv_announcement :: "string option"
  lv_scanned :: bool
  lv_closed :: bool
  lv_invite :: bool
  lv_invite_required :: bool
  lv_warning :: bool

definition login_view :: "login_form \<Rightarrow> login_view" where
  "login_view f =
     (let reg = (lf_mode f = RegisterMode) in
      \<lparr>lv_announcement = (case lf_info f of None \<Rightarrow> None | Some (r, a) \<Rightarrow> if a = [] then None else Some a),
       lv_scanned = (reg \<and> lf_from_link f), lv_closed = (reg \<and> registration_of f = Closed),
       lv_invite = (reg \<and> registration_of f \<noteq> Open), lv_invite_required = (registration_of f = Invite), lv_warning = reg\<rparr>)"

definition enter :: "crypto \<Rightarrow> auth_world \<Rightarrow> login_form \<times> client \<Rightarrow> login_form \<times> client" where
  "enter C W st = (case st of (f, s) \<Rightarrow>
     let r = (if lf_mode f = LoginMode then login C W (js_trim (lf_username f)) (lf_password f) s
              else register C W (js_trim (lf_username f)) (lf_password f) (lf_invite f) s)
     in (f\<lparr>lf_error := (case fst r of Inl e \<Rightarrow> Some (describe_error (a_dict (cl_app (snd r))) e) | Inr u \<Rightarrow> None)\<rparr>, snd r))"

section \<open>Administration\<close>

text \<open>An administrator never acts on the own account: none of the requests names it.\<close>

fun acts_on :: "endpoint \<Rightarrow> string option" where
  "acts_on (EAdminPatchUser i b) = Some i"
| "acts_on (EAdminDeleteUser i) = Some i"
| "acts_on (EAdminLogoutUser i) = Some i"
| "acts_on _ = None"

definition users_inv :: "string \<Rightarrow> users_tab \<Rightarrow> bool" where
  "users_inv me s \<longleftrightarrow> Some me \<notin> acts_on ` set (us_requests s) \<and> (\<forall>u. us_confirm s = Some u \<longrightarrow> au_id u \<noteq> me)"

lemma users_do_inv: "users_inv me s \<Longrightarrow> users_inv me (users_do dict me ev s)"
  by (cases ev)
    (auto simp: users_inv_def load_users_def users_answer_def click_user_def user_actions_def user_act_def confirm_user_def
      user_acted_def Let_def split: sum.split user_action.splits if_splits option.split)

theorem own_account_safe: "Some me \<notin> acts_on ` set (us_requests (fold (users_do dict me) evs new_users))"
proof -
  have "users_inv me (fold (users_do dict me) evs s)" if "users_inv me s" for s
    using that by (induction evs arbitrary: s) (simp_all add: users_do_inv)
  moreover have "users_inv me new_users" by (simp add: users_inv_def new_users_def load_users_def)
  ultimately show ?thesis by (auto simp: users_inv_def)
qed

text \<open>Editing the size in megabytes shows what was typed; saving without touching it keeps the exact bytes.\<close>

lemma mb_shown: "shown_mb (edit_settings (SetMaxMb n) x) = n"
  by (simp add: shown_mb_def)

section \<open>The plate\<close>

text \<open>
  In terms of what the effect last ran for: only one generation counts, it is for that link, and a code on the
  plate is the one of that link unless that generation is still under way.
\<close>

definition qr_ok :: "(string \<Rightarrow> string result) \<Rightarrow> invites \<Rightarrow> bool" where
  "qr_ok qr_svg s \<longleftrightarrow> (iv_picked s \<noteq> None \<longrightarrow> iv_show_qr s)
     \<and> (case iv_deps s of
          None \<Rightarrow> iv_jobs s = [] \<and> iv_qr s = None
        | Some (p, l) \<Rightarrow> (\<forall>j \<in> set (iv_jobs s). snd j \<longrightarrow> p \<and> fst j = l) \<and> length (filter snd (iv_jobs s)) \<le> 1
            \<and> (\<forall>q. iv_qr s = Some q \<longrightarrow> p \<and> (filter snd (iv_jobs s) \<noteq> [] \<or> qr_svg l = Inr (fst q))))"

definition qr_inv :: "(string \<Rightarrow> string result) \<Rightarrow> string \<Rightarrow> invites \<Rightarrow> bool" where
  "qr_inv qr_svg origin s \<longleftrightarrow> qr_ok qr_svg s \<and> iv_deps s = Some (plate s, plate_link origin s)"

lemma qr_ok_core:
  "qr_ok f s \<Longrightarrow> iv_deps t = iv_deps s \<Longrightarrow> iv_jobs t = iv_jobs s \<Longrightarrow> iv_qr t = iv_qr s \<Longrightarrow>
     (iv_picked t \<noteq> None \<longrightarrow> iv_show_qr t) \<Longrightarrow> qr_ok f t"
  by (auto simp: qr_ok_def split: option.splits)

lemma qr_picks: "qr_ok f s \<Longrightarrow> iv_picked s = Some c \<Longrightarrow> iv_show_qr s"
  by (simp add: qr_ok_def)

lemma filter_remove_nth:
  "i < length l \<Longrightarrow> filter P l = filter P (take i l) @ (if P (l ! i) then [l ! i] else []) @ filter P (drop (Suc i) l)"
  by (subst id_take_nth_drop [of i l]) simp_all

lemma qr_ok_answer:
  assumes "qr_ok f s" and "i < length (iv_jobs s)"
  shows "qr_ok f (qr_answer dict f i s)"
proof -
  obtain l alive where j: "iv_jobs s ! i = (l, alive)" by (cases "iv_jobs s ! i")
  obtain p k where d: "iv_deps s = Some (p, k)" using assms by (cases "iv_deps s") (auto simp: qr_ok_def)
  have mem: "(l, alive) \<in> set (iv_jobs s)" using assms(2) j nth_mem by force
  let ?r = "take i (iv_jobs s) @ drop (Suc i) (iv_jobs s)"
  have sub: "set ?r \<subseteq> set (iv_jobs s)" by (auto dest: in_set_takeD in_set_dropD)
  have split: "filter snd (iv_jobs s) = filter snd (take i (iv_jobs s)) @ (if alive then [(l, alive)] else []) @ filter snd (drop (Suc i) (iv_jobs s))"
    using filter_remove_nth [OF assms(2), of snd] by (simp add: j)
  have one: "length (filter snd (iv_jobs s)) \<le> 1" using assms(1) d by (simp add: qr_ok_def)
  show ?thesis
  proof (cases alive)
    case True
    then have "filter snd ?r = []" using one unfolding split by (cases "filter snd (take i (iv_jobs s))") auto
    moreover have "p" "l = k" using assms(1) d mem True by (auto simp: qr_ok_def)
    ultimately show ?thesis
      using assms(1) d sub True by (auto simp: qr_answer_def j qr_ok_def Let_def filter_empty_conv split: sum.split)
  next
    case False
    then have "filter snd ?r = filter snd (iv_jobs s)" unfolding split by simp
    then show ?thesis
      using assms(1) d sub False by (auto simp: qr_answer_def j qr_ok_def Let_def simp del: filter_append)
  qed
qed

lemma qr_ok_handle: "qr_ok f s \<Longrightarrow> qr_ok f (invites_handle dict f ev s)"
proof (cases ev)
  case (QrDrawn i)
  then show "qr_ok f s \<Longrightarrow> ?thesis" by (simp add: qr_ok_answer)
qed (auto intro: qr_picks intro!: qr_ok_core [of f s] simp: create_invites_def load_invites_def fail_invites_def pickable_def
      split: sum.split)

lemma qr_effect_inv:
  assumes "qr_ok f s"
  shows "qr_inv f origin (qr_effect origin s)"
proof (cases "iv_deps s = Some (plate s, plate_link origin s)")
  case True
  with assms show ?thesis by (simp add: qr_effect_def qr_inv_def)
next
  case False
  have dead: "filter snd (map (\<lambda>(l, alive). (l, False)) js) = []" for js :: "(string \<times> bool) list" by (induction js) auto
  have "plate (s\<lparr>iv_deps := a, iv_jobs := b\<rparr>) = plate s" "plate_link origin (s\<lparr>iv_deps := a, iv_jobs := b\<rparr>) = plate_link origin s"
    "plate (s\<lparr>iv_qr := q, iv_deps := a, iv_jobs := b\<rparr>) = plate s"
    "plate_link origin (s\<lparr>iv_qr := q, iv_deps := a, iv_jobs := b\<rparr>) = plate_link origin s" for a b q
    by (simp_all add: plate_def plate_link_def)
  with False assms dead show ?thesis
    by (auto simp: qr_effect_def qr_inv_def qr_ok_def Let_def plate_def plate_link_def split: option.splits)
qed

lemma plate_settles:
  assumes "(invites_step dict f origin)\<^sup>*\<^sup>* (qr_effect origin new_invites) s"
  shows "qr_inv f origin s"
  using assms
proof induction
  case base
  show ?case by (rule qr_effect_inv) (simp add: qr_ok_def new_invites_def)
next
  case (step t u)
  from step.hyps(2) step.IH show ?case
    by cases (metis qr_effect_inv qr_ok_handle qr_inv_def)
qed

section \<open>The way of an invitation\<close>

fun registers :: "string \<Rightarrow> string \<Rightarrow> auth_request \<Rightarrow> bool" where
  "registers code name (QRegister b) = (rb_invite b = code \<and> rb_username b = name)"
| "registers code name q = False"

lemma register_asks:
  assumes "register C W username password invite s = (r, t)"
  shows "\<exists>new. cl_asked t = cl_asked s @ new \<and> length new \<le> 1 \<and> (r = Inr () \<longrightarrow> new \<noteq> [])
    \<and> list_all (registers (js_trim invite) username) new"
proof (cases "validate_password (a_dict (cl_app s)) password")
  case (Some m)
  then show ?thesis using assms by (auto simp: register_def throw_def)
next
  case None
  let ?i = "cl_draws s"
  show ?thesis
  proof (cases "generate_keys C (aw_seed W ?i) (aw_priv W ?i)")
    case (Inl e)
    then show ?thesis using assms None by (auto simp: register_def Let_def finally_idle_def)
  next
    case (Inr k)
    note K = this
    show ?thesis
    proof (cases "derive_keys C password (aw_salt W ?i) DEFAULT_KDF")
      case (Inl e)
      then show ?thesis using assms None K by (auto simp: register_def Let_def finally_idle_def)
    next
      case (Inr ks)
      then show ?thesis
        using assms None K
        by (cases ks) (auto simp: register_def Let_def finally_idle_def then_ok_ask establish_sel ret_def split: sum.splits)
    qed
  qed
qed

text \<open>C35: An invitation reaches the registration: whatever happened in the administrator's panel before, once the
QR code on the plate is drawn, a camera that reads it leads the invited person's browser to the registration form
with exactly the picked code filled in; and whatever name and password are typed there, the only request made is a
registration with that code and name, and it is made whenever registering succeeds.\<close>

theorem invitation_arrives:
  assumes "(invites_step dict qr_svg origin)\<^sup>*\<^sup>* (qr_effect origin new_invites) s" and "filter snd (iv_jobs s) = []"
    and "iv_qr s = Some (svg, px)" and "iv_picked s = Some code" and "CODE_RE (points_of code)" and "origin_ok origin"
    and camera: "\<And>link x. qr_svg link = Inr x \<Longrightarrow> scan x = link"
    and "enter C W ((fst (land (scan svg) new_login))\<lparr>lf_username := u, lf_password := p\<rparr>, c) = (g, c')"
  shows "lf_mode (fst (land (scan svg) new_login)) = RegisterMode \<and> lf_invite (fst (land (scan svg) new_login)) = code
    \<and> lf_from_link (fst (land (scan svg) new_login)) \<and> snd (land (scan svg) new_login)
    \<and> (\<exists>new. cl_asked c' = cl_asked c @ new \<and> length new \<le> 1 \<and> (lf_error g = None \<longrightarrow> new \<noteq> [])
         \<and> list_all (registers code (js_trim u)) new)"
proof -
  have "qr_inv qr_svg origin s" using assms(1) by (rule plate_settles)
  then have "qr_svg (plate_link origin s) = Inr svg" using assms(2,3) by (auto simp: qr_inv_def qr_ok_def)
  then have "scan svg = plate_link origin s" by (rule camera)
  moreover have "code \<noteq> []" using assms(5) by (auto simp: CODE_RE_def points_of_def)
  ultimately have "scan svg = invite_link code origin" using assms(4) by (simp add: plate_link_def)
  then have land: "land (scan svg) new_login = (new_login\<lparr>lf_mode := RegisterMode, lf_invite := code, lf_from_link := True\<rparr>, True)"
    using parse_link [OF assms(5,6)] by (simp add: land_def)
  obtain r t where reg: "register C W (js_trim u) p code c = (r, t)" by (cases "register C W (js_trim u) p code c")
  have "c' = t" "lf_error g = None \<longrightarrow> r = Inr ()"
    using assms(8) reg by (auto simp: enter_def land Let_def split: sum.splits)
  then show ?thesis
    using register_asks [OF reg] js_trim_code [OF assms(5)] by (auto simp: land)
qed

end
