(* ===== verification/ViewExamples.thy ===== *)
theory ViewExamples
  imports VoiceExamples Sidebar Members Overlays Entrance
begin

text \<open>
  Closed examples of the properties of the views: Alice writes to Bob, looks at her call and her channel, puts a
  group together and invites somebody.
\<close>

section \<open>The composer\<close>

definition her_view :: app where
  "her_view = her_app\<lparr>a_selected := Some chat\<rparr>"

lemma her_view_facts: "app_inv her_view" "a_session her_view = Some (session_for alice)" "shown_conv her_view = Some chat"
proof -
  show "app_inv her_view" by (rule app_inv_core [OF her_app_inv]) (simp_all add: her_view_def)
  have "chat \<noteq> []" by (simp add: chat_def)
  then show "a_session her_view = Some (session_for alice)" "shown_conv her_view = Some chat"
    by (simp_all add: her_view_def her_app_sel shown_conv_def selected_conversation_def the_chat_def)
qed

lemma draw_kept:
  assumes "app_inv s"
  shows "shown_conv (snd (draw W (c, s))) = shown_conv s"
    and "cp_conv c = Some (shown_conv s) \<Longrightarrow> cp_text (fst (draw W (c, s))) = cp_text c"
    and "cp_conv c = Some (shown_conv s) \<Longrightarrow> cp_editing (fst (draw W (c, s))) = cp_editing c"
proof -
  obtain c1 s1 where e: "conv_effect (c, s) = (c1, s1)" by (cases "conv_effect (c, s)")
  have "shown_conv (ensure_messages_loaded i s) = shown_conv s" for i
    by (simp add: shown_conv_def selected_conversation_def ensure_messages_loaded_def split: option.split)
  then have one: "shown_conv s1 = shown_conv s" "app_inv s1"
    using e assms app_inv_load by (auto simp: conv_effect_def Let_def split: if_splits option.splits)
  then show "shown_conv (snd (draw W (c, s))) = shown_conv s"
    using shown_conv_mark by (auto simp: draw_def e read_effect_def split: option.split)
  show "cp_conv c = Some (shown_conv s) \<Longrightarrow> cp_text (fst (draw W (c, s))) = cp_text c"
    "cp_conv c = Some (shown_conv s) \<Longrightarrow> cp_editing (fst (draw W (c, s))) = cp_editing c"
    by (simp_all add: draw_def conv_effect_def Let_def read_effect_def)
qed

lemma composer_asks_rightly_witness:
  "\<exists>c s c' s'. (composer_step her_world (session_for alice))\<^sup>*\<^sup>* (draw her_world (new_composer, her_view)) (c, s)
     \<and> cp_text c = ''hi'' \<and> submit her_world chat (c, s) = (c', s') \<and> cp_text c' = [] \<and> s' = snd (send_text her_world chat ''hi'' s)"
proof -
  let ?si = "session_for alice"
  obtain c0 s0 where d0: "draw her_world (new_composer, her_view) = (c0, s0)" by (cases "draw her_world (new_composer, her_view)")
  have i0: "composer_inv ?si (c0, s0)" using draw_inv [OF mid_new [OF her_view_facts(1,2)], of her_world] d0 by simp
  have v0: "shown_conv s0 = Some chat" using draw_kept(1) [OF her_view_facts(1), where c = new_composer and W = her_world] d0 her_view_facts(3) by simp
  let ?c1 = "c0\<lparr>cp_text := ''hi''\<rparr>"
  have typed: "composer_do her_world ?si (Input ''hi'') (c0, s0) = (?c1, s0)"
    using v0 by (auto simp: shown_conv_def)
  obtain c s where d: "draw her_world (?c1, s0) = (c, s)" by (cases "draw her_world (?c1, s0)")
  have "composer_step her_world ?si (c0, s0) (c, s)"
    using composer_step.act [of "Input ''hi''" ?si her_world "(c0, s0)"] typed d by simp
  then have run: "(composer_step her_world ?si)\<^sup>*\<^sup>* (draw her_world (new_composer, her_view)) (c, s)" by (simp add: d0 r_into_rtranclp)
  have inv0: "app_inv s0" "cp_conv c0 = Some (shown_conv s0)" using i0 by (simp_all add: composer_inv_def)
  have typed_in: "cp_text c = ''hi''" "cp_editing c = cp_editing c0" "shown_conv s = Some chat"
    using draw_kept [OF inv0(1), where c = ?c1 and W = her_world] d v0 inv0(2) by simp_all
  have "cp_editing c0 = None"
    using d0 her_view_facts(3) by (auto simp: draw_def conv_effect_def new_composer_def Let_def read_effect_def)
  moreover have "js_trim ''hi'' = ''hi''" by (simp add: js_trim_def js_space_def)
  moreover obtain c' s' where s: "submit her_world chat (c, s) = (c', s')" by (cases "submit her_world chat (c, s)")
  ultimately have "cp_text c' = []" "s' = snd (send_text her_world chat ''hi'' s)"
    using composer_asks_rightly [OF run her_view_facts(1,2) typed_in(3) s refl] typed_in(1,2) by simp_all
  with run typed_in(1) s show ?thesis by blast
qed

section \<open>The list\<close>

lemma deleted_chat_gone_witness:
  "let s' = snd (confirm_delete her_world 1 (session_for alice) the_chat (new_sidebar\<lparr>sd_confirming := Some the_chat\<rparr>, her_view))
   in chat \<notin> c_id ` set (visible_chats s') \<and> a_db s' = a_db her_view"
proof -
  let ?d = "new_sidebar\<lparr>sd_confirming := Some the_chat\<rparr>"
  obtain d' s' where e: "confirm_delete her_world 1 (session_for alice) the_chat (?d, her_view) = (d', s')"
    by (cases "confirm_delete her_world 1 (session_for alice) the_chat (?d, her_view)")
  have c: "conv_of her_view (c_id the_chat) = Some the_chat" "c_id the_chat = chat" "c_kind the_chat = Direct"
    by (simp_all add: her_view_def her_app_sel the_chat_def)
  have "sd_confirming d' = None" using e c(3) by (auto simp: confirm_delete_def ret_def Let_def)
  then show ?thesis
    using deleted_chat_gone [OF her_view_facts(1,2) c(1) _ e] e c(2,3) by simp
qed

section \<open>Names\<close>

definition a_person :: "string \<Rightarrow> directory_user" where
  "a_person n = \<lparr>du_id = bob, du_username = n, du_display_name = [], du_is_bot = False, du_online = None, du_last_seen = None\<rparr>"

lemma picked_names_witness:
  "split_names (pick_member (a_person ''bob'') ''eve, b'') = [''eve'', ''bob''] \<and> typing (pick_member (a_person ''bob'') ''eve, b'') = []"
proof -
  have "plain_name (du_username (a_person ''bob''))" by (simp add: plain_name_def a_person_def separator_def js_space_def)
  from picked_names [OF this refl, where members = "''eve, b''"]
  have "split_names (pick_member (a_person ''bob'') ''eve, b'') = done_names ''eve, b'' @ [''bob'']"
    "typing (pick_member (a_person ''bob'') ''eve, b'') = []" by (simp_all add: a_person_def)
  moreover have "done_names ''eve, b'' = [''eve'']" by code_simp
  ultimately show ?thesis by simp
qed

section \<open>Calls and channels\<close>

lemma call_window_sound_witness:
  "map_option cs_status (ph_call (press her_world BHangup dialled)) = Some Ended"
proof -
  obtain c where c: "ph_call dialled = Some c" "cs_status c = RingingOut" using dialled_sel(1) by blast
  show ?thesis using call_window_sound [OF dialled_reachable c(1)] c(2) by simp
qed

lemma channel_tiles_witness:
  "let ps = [seen_now phone, (seen_now ticket)\<lparr>vp_sharing := True\<rparr>]; tiles = tiles_of settled_in ps phone in
     map tl_who (filter (\<lambda>x. tl_kind x = ScreenTile) tiles) = [(seen_now ticket)\<lparr>vp_sharing := True\<rparr>]
       \<and> mset (ordered_tiles (Some (ticket @ '':screen'')) tiles) = mset tiles"
proof -
  let ?ps = "[seen_now phone, (seen_now ticket)\<lparr>vp_sharing := True\<rparr>]"
  have ne: "phone \<noteq> ticket" "ticket \<noteq> phone" by (simp_all add: phone_def ticket_def)
  then have "distinct (map vp_session ?ps)" by (simp add: seen_now_def)
  from channel_tiles [OF this refl, of settled_in phone "Some (ticket @ '':screen'')"] ne show ?thesis
    by (simp add: seen_now_def Let_def)
qed

section \<open>An invitation\<close>

definition picked_code :: "invites_event list" where
  "picked_code = [Created (Inr [''a2b-c'']), PickCode ''a2b-c'', QrDrawn 0]"

definition her_plate :: invites where
  "her_plate = foldl (\<lambda>s ev. qr_effect ''https://x.de:8443'' (invites_handle en Inr ev s))
     (qr_effect ''https://x.de:8443'' new_invites) picked_code"

lemma her_plate_reached: "(invites_step en Inr ''https://x.de:8443'')\<^sup>*\<^sup>* (qr_effect ''https://x.de:8443'' new_invites) her_plate"
proof -
  have "(invites_step d f o')\<^sup>*\<^sup>* s (foldl (\<lambda>s ev. qr_effect o' (invites_handle d f ev s)) s evs)" for d f o' s evs
    by (induction evs arbitrary: s) (auto intro: invites_step.act converse_rtranclp_into_rtranclp)
  then show ?thesis by (simp add: her_plate_def)
qed

lemma her_plate_sel:
  "iv_jobs her_plate = []" "iv_picked her_plate = Some ''a2b-c''" "\<exists>px. iv_qr her_plate = Some (invite_link ''a2b-c'' ''https://x.de:8443'', px)"
  by (simp_all add: her_plate_def picked_code_def new_invites_def qr_effect_def plate_def plate_link_def load_invites_def pickable_def
      qr_answer_def)

text \<open>Between the choice of another code and the drawing of its QR code the plate shows the other code with the old one.\<close>

lemma plate_lags:
  "\<exists>s px. (invites_step en Inr ''https://x.de:8443'')\<^sup>*\<^sup>* (qr_effect ''https://x.de:8443'' new_invites) s \<and> iv_picked s = Some ''b''
     \<and> iv_qr s = Some (invite_link ''a2b-c'' ''https://x.de:8443'', px)"
proof -
  let ?act = "\<lambda>ev s. qr_effect ''https://x.de:8443'' (invites_handle en Inr ev s)"
  let ?s = "?act (PickCode ''b'') (?act (Created (Inr [''b''])) her_plate)"
  have "(invites_step en Inr ''https://x.de:8443'')\<^sup>*\<^sup>* (qr_effect ''https://x.de:8443'' new_invites) ?s"
    by (rule rtranclp.rtrancl_into_rtrancl [OF rtranclp.rtrancl_into_rtrancl [OF her_plate_reached invites_step.act] invites_step.act])
  moreover have "iv_picked ?s = Some ''b''" "iv_qr ?s = iv_qr her_plate"
    by (simp_all add: her_plate_def picked_code_def new_invites_def qr_effect_def plate_def plate_link_def load_invites_def pickable_def
      qr_answer_def)
  ultimately show ?thesis using her_plate_sel(3) by metis
qed

lemma invitation_arrives_witness:
  "\<exists>svg px. iv_qr her_plate = Some (svg, px) \<and> lf_invite (fst (land svg new_login)) = ''a2b-c''
     \<and> lf_mode (fst (land svg new_login)) = RegisterMode"
proof -
  obtain px where q: "iv_qr her_plate = Some (invite_link ''a2b-c'' ''https://x.de:8443'', px)" using her_plate_sel(3) by blast
  let ?svg = "invite_link ''a2b-c'' ''https://x.de:8443''"
  have code: "CODE_RE (points_of ''a2b-c'')" by (simp add: CODE_RE_def points_of_def ascii_alnum_def)
  have origin: "origin_ok ''https://x.de:8443''"
    by (simp add: origin_ok_def has_scheme_def ascii_alnum_def starts_with_def js_space_def drop_join_def)
  obtain g c' where e: "enter demo_crypto (demo_auth demo_sess)
      ((fst (land (id ?svg) new_login))\<lparr>lf_username := ''u'', lf_password := demo_password\<rparr>, new_client) = (g, c')" by fastforce
  have jobs: "filter snd (iv_jobs her_plate) = []" by (simp add: her_plate_sel(1))
  have camera: "\<And>link x. Inr link = (Inr x :: string result) \<Longrightarrow> id x = link" by simp
  show ?thesis
    using invitation_arrives [where scan = id, OF her_plate_reached jobs q her_plate_sel(2) code origin camera e] q by simp
qed

end
