(* ===== verification/Locks.thy ===== *)
theory Locks
  imports Prelude
begin

text \<open>
  \<open>withLock\<close> of \<open>web/src/state/sync.ts\<close>, on which the model of that file relies: work on one conversation runs one
  after the other, in the order it was asked for, whether the work before it succeeded or failed. A job starts
  when the promise it waits for is settled, at any later moment; how long it runs is not known. A job must not
  ask for the lock of its own conversation and wait for it.
\<close>

section \<open>Jobs\<close>

datatype job_state = JobWaiting | JobRunning | JobSettled

record lock_job =
  lj_conv :: string
  lj_prev :: "nat option"
  lj_state :: job_state

text \<open>\<open>lk_tails\<close> is the map \<open>locks\<close>: the job whose end the next one of the conversation waits for.\<close>

record locks =
  lk_tails :: "nat jmap"
  lk_jobs :: "lock_job list"

definition no_locks :: locks where
  "no_locks = \<lparr>lk_tails = [], lk_jobs = []\<rparr>"

definition with_lock :: "string \<Rightarrow> locks \<Rightarrow> locks" where
  "with_lock conv s =
     s\<lparr>lk_jobs := lk_jobs s @ [\<lparr>lj_conv = conv, lj_prev = jget (lk_tails s) conv, lj_state = JobWaiting\<rparr>],
       lk_tails := jset conv (length (lk_jobs s)) (lk_tails s)\<rparr>"

text \<open>\<open>prev.then(fn, fn)\<close>: without a job before it the promise is settled from the start.\<close>

definition may_start :: "locks \<Rightarrow> nat \<Rightarrow> bool" where
  "may_start s i \<longleftrightarrow> i < length (lk_jobs s) \<and> lj_state (lk_jobs s ! i) = JobWaiting
     \<and> (case lj_prev (lk_jobs s ! i) of None \<Rightarrow> True | Some p \<Rightarrow> lj_state (lk_jobs s ! p) = JobSettled)"

definition set_job :: "nat \<Rightarrow> job_state \<Rightarrow> locks \<Rightarrow> locks" where
  "set_job i j s = s\<lparr>lk_jobs := (lk_jobs s)[i := (lk_jobs s ! i)\<lparr>lj_state := j\<rparr>]\<rparr>"

inductive lock_step :: "locks \<Rightarrow> locks \<Rightarrow> bool" where
  asked: "lock_step s (with_lock conv s)"
| started: "may_start s i \<Longrightarrow> lock_step s (set_job i JobRunning s)"
| settled: "i < length (lk_jobs s) \<Longrightarrow> lj_state (lk_jobs s ! i) = JobRunning \<Longrightarrow> lock_step s (set_job i JobSettled s)"

section \<open>Facts\<close>

text \<open>The last job of a conversation among the first \<open>n\<close>.\<close>

fun last_before :: "lock_job list \<Rightarrow> string \<Rightarrow> nat \<Rightarrow> nat option" where
  "last_before js conv 0 = None"
| "last_before js conv (Suc n) = (if lj_conv (js ! n) = conv then Some n else last_before js conv n)"

lemma last_before_None: "last_before js conv n = None \<Longrightarrow> i < n \<Longrightarrow> lj_conv (js ! i) \<noteq> conv"
  by (induction n) (auto simp: less_Suc_eq split: if_splits)

lemma last_before_Some:
  "last_before js conv n = Some p \<Longrightarrow> p < n \<and> lj_conv (js ! p) = conv \<and> (\<forall>i. p < i \<longrightarrow> i < n \<longrightarrow> lj_conv (js ! i) \<noteq> conv)"
  by (induction n) (auto simp: less_Suc_eq split: if_splits)

lemma last_before_cong: "(\<And>i. i < n \<Longrightarrow> lj_conv (js ! i) = lj_conv (ks ! i)) \<Longrightarrow> last_before js conv n = last_before ks conv n"
  by (induction n) auto

lemma last_before_app: "n \<le> length js \<Longrightarrow> last_before (js @ xs) conv n = last_before js conv n"
  by (rule last_before_cong) (simp add: nth_append)

text \<open>
  A job waits for the last one of its conversation before it, the tail is the last one, and a job that started
  found everything before it settled.
\<close>

definition serial :: "lock_job list \<Rightarrow> bool" where
  "serial js \<longleftrightarrow> (\<forall>j < length js. lj_state (js ! j) \<noteq> JobWaiting \<longrightarrow>
     (\<forall>i < j. lj_conv (js ! i) = lj_conv (js ! j) \<longrightarrow> lj_state (js ! i) = JobSettled))"

definition locks_inv :: "locks \<Rightarrow> bool" where
  "locks_inv s \<longleftrightarrow>
     (\<forall>conv. jget (lk_tails s) conv = last_before (lk_jobs s) conv (length (lk_jobs s)))
     \<and> (\<forall>j < length (lk_jobs s). lj_prev (lk_jobs s ! j) = last_before (lk_jobs s) (lj_conv (lk_jobs s ! j)) j)
     \<and> serial (lk_jobs s)"

lemma set_job_sel:
  assumes "i < length (lk_jobs s)"
  shows "length (lk_jobs (set_job i x s)) = length (lk_jobs s)" "lk_tails (set_job i x s) = lk_tails s"
    and "lj_conv (lk_jobs (set_job i x s) ! j) = lj_conv (lk_jobs s ! j)"
    and "lj_prev (lk_jobs (set_job i x s) ! j) = lj_prev (lk_jobs s ! j)"
    and "lj_state (lk_jobs (set_job i x s) ! j) = (if i = j then x else lj_state (lk_jobs s ! j))"
  using assms by (cases "i = j"; simp add: set_job_def)+

lemma set_job_inv:
  assumes "locks_inv s" and "i < length (lk_jobs s)" and "serial (lk_jobs (set_job i x s))"
  shows "locks_inv (set_job i x s)"
proof -
  have "last_before (lk_jobs (set_job i x s)) conv n = last_before (lk_jobs s) conv n" for conv n
    by (rule last_before_cong) (simp add: set_job_sel [OF assms(2)])
  then show ?thesis using assms by (simp add: locks_inv_def set_job_sel [OF assms(2)])
qed

lemma started_before:
  assumes "locks_inv s" and "may_start s j" and "i < j" and "lj_conv (lk_jobs s ! i) = lj_conv (lk_jobs s ! j)"
  shows "lj_state (lk_jobs s ! i) = JobSettled"
proof -
  have j: "j < length (lk_jobs s)" using assms(2) by (simp add: may_start_def)
  then have prev: "lj_prev (lk_jobs s ! j) = last_before (lk_jobs s) (lj_conv (lk_jobs s ! j)) j" "serial (lk_jobs s)"
    using assms(1) by (simp_all add: locks_inv_def)
  show ?thesis
  proof (cases "lj_prev (lk_jobs s ! j)")
    case None
    then show ?thesis using prev assms(3,4) last_before_None by metis
  next
    case (Some p)
    then have p: "p < j" "lj_conv (lk_jobs s ! p) = lj_conv (lk_jobs s ! j)" "\<not> p < i" "lj_state (lk_jobs s ! p) = JobSettled"
      using prev(1) last_before_Some [of "lk_jobs s" "lj_conv (lk_jobs s ! j)" j p] assms(2-4) by (auto simp: may_start_def)
    show ?thesis
    proof (cases "i = p")
      case False
      then have "i < p" using p(3) by simp
      moreover have "p < length (lk_jobs s)" "lj_state (lk_jobs s ! p) \<noteq> JobWaiting" using p j by auto
      ultimately show ?thesis using prev(2) p(2) assms(4) unfolding serial_def by metis
    qed (use p(4) in simp)
  qed
qed

lemma lock_step_inv:
  assumes "lock_step s t" and "locks_inv s"
  shows "locks_inv t"
  using assms(1)
proof cases
  case (asked conv)
  let ?js = "lk_jobs s @ [\<lparr>lj_conv = conv, lj_prev = jget (lk_tails s) conv, lj_state = JobWaiting\<rparr>]"
  have "serial ?js" using assms(2) by (auto simp: locks_inv_def serial_def nth_append less_Suc_eq)
  then show ?thesis
    using assms(2) by (auto simp: asked with_lock_def locks_inv_def nth_append less_Suc_eq last_before_app update_conv')
next
  case (started i)
  then have i: "i < length (lk_jobs s)" by (simp add: may_start_def)
  have "serial (lk_jobs (set_job i JobRunning s))"
    using assms(2) started_before [OF assms(2) started(2)] started(2)
    by (auto simp: serial_def set_job_sel [OF i] locks_inv_def may_start_def)
  then show ?thesis using set_job_inv [OF assms(2) i] started(1) by simp
next
  case (settled i)
  have "serial (lk_jobs (set_job i JobSettled s))"
    using assms(2) settled(3) by (auto simp: serial_def set_job_sel [OF settled(2)] locks_inv_def)
  then show ?thesis using set_job_inv [OF assms(2) settled(2)] settled(1) by simp
qed

lemma locks_reachable: "lock_step\<^sup>*\<^sup>* no_locks s \<Longrightarrow> locks_inv s"
proof (induction rule: rtranclp_induct)
  case base
  show ?case by (simp add: locks_inv_def no_locks_def serial_def)
qed (rule lock_step_inv)

lemma never_stuck:
  assumes "locks_inv s"
  shows "j < length (lk_jobs s) \<Longrightarrow> lj_state (lk_jobs s ! j) = JobWaiting \<Longrightarrow>
    \<exists>i \<le> j. lj_conv (lk_jobs s ! i) = lj_conv (lk_jobs s ! j) \<and> (lj_state (lk_jobs s ! i) = JobRunning \<or> may_start s i)"
proof (induction j rule: less_induct)
  case (less j)
  have prev: "lj_prev (lk_jobs s ! j) = last_before (lk_jobs s) (lj_conv (lk_jobs s ! j)) j"
    using assms less.prems by (simp add: locks_inv_def)
  show ?case
  proof (cases "may_start s j")
    case False
    then obtain p where p: "lj_prev (lk_jobs s ! j) = Some p" "lj_state (lk_jobs s ! p) \<noteq> JobSettled"
      using less.prems by (auto simp: may_start_def split: option.splits)
    then have l: "p < j" "lj_conv (lk_jobs s ! p) = lj_conv (lk_jobs s ! j)" using prev last_before_Some by metis+
    show ?thesis
    proof (cases "lj_state (lk_jobs s ! p)")
      case JobWaiting
      then obtain i where "i \<le> p" "lj_conv (lk_jobs s ! i) = lj_conv (lk_jobs s ! p)"
        "lj_state (lk_jobs s ! i) = JobRunning \<or> may_start s i"
        using less.IH [OF l(1)] l(1) less.prems(1) by auto
      then show ?thesis using l by (intro exI [of _ i]) auto
    qed (use l p(2) in \<open>auto intro!: exI [of _ p]\<close>)
  qed auto
qed

text \<open>C26: The lock of a conversation keeps its work apart: in every run a job starts only when everything that was
asked for before it in the same conversation is over, so at most one runs at a time and they run in order; and the
queue is never stuck: while a job waits, one of its conversation is running or may start, whatever the jobs of other
conversations do and whether those before it failed.\<close>

theorem with_lock_serial:
  assumes "lock_step\<^sup>*\<^sup>* no_locks s" and "j < length (lk_jobs s)"
  shows "(lj_state (lk_jobs s ! j) \<noteq> JobWaiting \<longrightarrow>
      (\<forall>i < j. lj_conv (lk_jobs s ! i) = lj_conv (lk_jobs s ! j) \<longrightarrow> lj_state (lk_jobs s ! i) = JobSettled))
    \<and> (lj_state (lk_jobs s ! j) = JobWaiting \<longrightarrow>
      (\<exists>i \<le> j. lj_conv (lk_jobs s ! i) = lj_conv (lk_jobs s ! j) \<and> (lj_state (lk_jobs s ! i) = JobRunning \<or> may_start s i)))"
  using locks_reachable [OF assms(1)] never_stuck [OF locks_reachable [OF assms(1)] assms(2)] assms(2)
  by (auto simp: locks_inv_def serial_def)

definition two_jobs :: locks where
  "two_jobs = set_job 0 JobSettled (set_job 0 JobRunning (with_lock ''a'' (with_lock ''a'' no_locks)))"

lemma two_jobs_reached: "lock_step\<^sup>*\<^sup>* no_locks two_jobs"
proof -
  let ?s = "with_lock ''a'' (with_lock ''a'' no_locks)"
  have "lock_step\<^sup>*\<^sup>* no_locks ?s" by (meson asked rtranclp.intros)
  moreover have "may_start ?s 0" by (simp add: may_start_def with_lock_def no_locks_def)
  then have "lock_step ?s (set_job 0 JobRunning ?s)" by (rule started)
  moreover have "lock_step (set_job 0 JobRunning ?s) two_jobs"
    unfolding two_jobs_def by (rule settled) (simp_all add: set_job_def with_lock_def no_locks_def)
  ultimately show ?thesis by (meson rtranclp.rtrancl_into_rtrancl)
qed

lemma with_lock_serial_witness:
  "\<exists>i \<le> 1. lj_conv (lk_jobs two_jobs ! i) = ''a'' \<and> (lj_state (lk_jobs two_jobs ! i) = JobRunning \<or> may_start two_jobs i)"
proof -
  have "1 < length (lk_jobs two_jobs)" "lj_conv (lk_jobs two_jobs ! 1) = ''a''" "lj_state (lk_jobs two_jobs ! 1) = JobWaiting"
    by (simp_all add: two_jobs_def set_job_def with_lock_def no_locks_def)
  then show ?thesis using with_lock_serial [OF two_jobs_reached] by metis
qed

end
