(* ===== verification/Opening.thy ===== *)
theory Opening
  imports Prelude
begin

text \<open>
  How \<open>web/src/store/db.ts\<close> opens the database: one connection for the whole client, a flag that tells the loading
  screen why nothing happens, and giving the connection up when another tab upgrades. Connections are objects of
  the browser, by identity; it handles requests to open one database in the order they were made, and reports to
  open connections only that a newer version is wanted or that they broke.
\<close>

section \<open>The schema\<close>

datatype store_name = MetaStore | ContactStore | ConversationStore | MessageStore

record schema =
  sc_stores :: "store_name list"
  sc_indexes :: "(store_name \<times> string) list"

definition DB_VERSION :: nat where "DB_VERSION = 2"

definition no_schema :: schema where
  "no_schema = \<lparr>sc_stores = [], sc_indexes = []\<rparr>"

definition upgrade :: "nat \<Rightarrow> schema \<Rightarrow> schema" where
  "upgrade old_version db =
     (let db = (if old_version < 1
            then db\<lparr>sc_stores := sc_stores db @ [MetaStore, ContactStore, ConversationStore, MessageStore],
                    sc_indexes := sc_indexes db @ [(MessageStore, ''byConv'')]\<rparr> else db);
          db = (if old_version < 2 then db\<lparr>sc_indexes := sc_indexes db @ [(MessageStore, ''byClient'')]\<rparr> else db)
      in db)"

section \<open>Connections\<close>

datatype connection = Pending | Opened | Failed | Gone

record db_opening =
  op_conns :: "connection list"
  op_dbp :: "nat option"
  op_blocked :: bool
  op_patience :: "nat list"
  op_closing :: "nat list"

definition not_opened :: db_opening where
  "not_opened = \<lparr>op_conns = [], op_dbp = None, op_blocked = False, op_patience = [], op_closing = []\<rparr>"

text \<open>
  The connection a caller is given. Every call sets a timer and clears it when the connection is settled, which for
  one that is settled already is before any timer can fire; \<open>op_patience\<close> lists the timers that run, by connection.
\<close>

definition connect_db :: "db_opening \<Rightarrow> nat \<times> db_opening" where
  "connect_db s =
     (case op_dbp s of
        Some i \<Rightarrow> (i, s)
      | None \<Rightarrow> let i = length (op_conns s) in (i, s\<lparr>op_conns := op_conns s @ [Pending], op_dbp := Some i\<rparr>))"

definition watch_db :: "nat \<Rightarrow> db_opening \<Rightarrow> db_opening" where
  "watch_db i s =
     (if op_conns s ! i = Pending then s\<lparr>op_patience := op_patience s @ [i]\<rparr>
      else if op_conns s ! i = Failed then s
      else s\<lparr>op_blocked := False\<rparr>)"

definition get_db :: "db_opening \<Rightarrow> nat \<times> db_opening" where
  "get_db s = (let (i, s1) = connect_db s in (i, watch_db i s1))"

definition open_settled :: "nat \<Rightarrow> bool \<Rightarrow> db_opening \<Rightarrow> db_opening" where
  "open_settled i fine s =
     (let s1 = s\<lparr>op_conns := (op_conns s)[i := if fine then Opened else Failed], op_patience := filter (\<lambda>j. j \<noteq> i) (op_patience s)\<rparr>
      in if fine then s1\<lparr>op_blocked := False\<rparr> else s1)"

definition out_of_patience :: "nat \<Rightarrow> db_opening \<Rightarrow> db_opening" where
  "out_of_patience i s = s\<lparr>op_patience := remove1 i (op_patience s), op_blocked := True\<rparr>"

definition on_blocked :: "db_opening \<Rightarrow> db_opening" where
  "on_blocked s = s\<lparr>op_blocked := True\<rparr>"

text \<open>\<open>blocking\<close>: the connection the client uses is given up now and closed once it is open.\<close>

definition on_blocking :: "db_opening \<Rightarrow> db_opening" where
  "on_blocking s = s\<lparr>op_dbp := None, op_closing := op_closing s @ (case op_dbp s of None \<Rightarrow> [] | Some i \<Rightarrow> [i])\<rparr>"

definition close_given_up :: "nat \<Rightarrow> db_opening \<Rightarrow> db_opening" where
  "close_given_up i s =
     s\<lparr>op_closing := filter (\<lambda>j. j \<noteq> i) (op_closing s),
       op_conns := (if op_conns s ! i = Opened then (op_conns s)[i := Gone] else op_conns s)\<rparr>"

definition on_terminated :: "nat \<Rightarrow> db_opening \<Rightarrow> db_opening" where
  "on_terminated i s = s\<lparr>op_conns := (op_conns s)[i := Gone], op_dbp := None\<rparr>"

text \<open>The request that is handled now: the first that is pending.\<close>

definition next_pending :: "db_opening \<Rightarrow> nat \<Rightarrow> bool" where
  "next_pending s i \<longleftrightarrow> i < length (op_conns s) \<and> op_conns s ! i = Pending \<and> (\<forall>j < i. op_conns s ! j \<noteq> Pending)"

inductive open_step :: "db_opening \<Rightarrow> db_opening \<Rightarrow> bool" where
  asked: "open_step s (snd (get_db s))"
| settled: "next_pending s i \<Longrightarrow> open_step s (open_settled i fine s)"
| blocked: "next_pending s i \<Longrightarrow> open_step s (on_blocked s)"
| impatient: "i \<in> set (op_patience s) \<Longrightarrow> open_step s (out_of_patience i s)"
| blocking: "i < length (op_conns s) \<Longrightarrow> op_conns s ! i = Opened \<Longrightarrow> open_step s (on_blocking s)"
| closed: "i \<in> set (op_closing s) \<Longrightarrow> op_conns s ! i \<noteq> Pending \<Longrightarrow> open_step s (close_given_up i s)"
| terminated: "i < length (op_conns s) \<Longrightarrow> op_conns s ! i = Opened \<Longrightarrow> open_step s (on_terminated i s)"

section \<open>Facts\<close>

text \<open>Every old version ends with the same schema.\<close>

lemma upgrade_complete:
  "upgrade 0 no_schema = \<lparr>sc_stores = [MetaStore, ContactStore, ConversationStore, MessageStore],
       sc_indexes = [(MessageStore, ''byConv''), (MessageStore, ''byClient'')]\<rparr>"
  "upgrade DB_VERSION db = db"
  by (simp_all add: upgrade_def no_schema_def DB_VERSION_def)

lemma upgrade_in_steps:
  "upgrade 1 (no_schema\<lparr>sc_stores := [MetaStore, ContactStore, ConversationStore, MessageStore],
       sc_indexes := [(MessageStore, ''byConv'')]\<rparr>) = upgrade 0 no_schema"
  by (simp add: upgrade_def no_schema_def)

text \<open>
  The connection in use is the newest one; timers run for pending connections only; the flag is down once the
  connection in use is open.
\<close>

definition current_ok :: "db_opening \<Rightarrow> bool" where
  "current_ok s \<longleftrightarrow>
     (case op_dbp s of
        None \<Rightarrow> True
      | Some k \<Rightarrow> Suc k = length (op_conns s) \<and> (op_conns s ! k \<noteq> Pending \<longrightarrow> Pending \<notin> set (op_conns s))
          \<and> (op_conns s ! k = Opened \<longrightarrow> \<not> op_blocked s))"

definition timers_pending :: "db_opening \<Rightarrow> bool" where
  "timers_pending s \<longleftrightarrow> (\<forall>i \<in> set (op_patience s). i < length (op_conns s) \<and> op_conns s ! i = Pending)"

definition open_inv :: "db_opening \<Rightarrow> bool" where
  "open_inv s \<longleftrightarrow> current_ok s \<and> timers_pending s \<and> (\<forall>i \<in> set (op_closing s). i < length (op_conns s))"

lemma open_inv_flag:
  assumes "open_inv s" and "i < length (op_conns s)" and "op_conns s ! i = Pending"
  shows "open_inv (s\<lparr>op_blocked := b\<rparr>)"
proof -
  have "Pending \<in> set (op_conns s)" using assms(2,3) nth_mem by metis
  with assms(1) show ?thesis by (auto simp: open_inv_def current_ok_def timers_pending_def split: option.split)
qed

lemma pending_update:
  assumes "i < length l" and "x \<noteq> Pending" and "\<And>j. j < length l \<Longrightarrow> j \<noteq> i \<Longrightarrow> l ! j \<noteq> Pending"
  shows "Pending \<notin> set (l[i := x])"
  using assms by (auto simp: in_set_conv_nth nth_list_update)

lemma open_inv_settled:
  assumes "open_inv s" and "next_pending s i"
  shows "open_inv (open_settled i fine s)"
proof -
  let ?x = "if fine then Opened else Failed"
  let ?t = "open_settled i fine s"
  have i: "i < length (op_conns s)" "op_conns s ! i = Pending" "\<And>j. j < i \<Longrightarrow> op_conns s ! j \<noteq> Pending"
    using assms(2) by (auto simp: next_pending_def)
  have t: "op_conns ?t = (op_conns s)[i := ?x]" "op_patience ?t = filter (\<lambda>j. j \<noteq> i) (op_patience s)" "op_dbp ?t = op_dbp s"
    "op_closing ?t = op_closing s" "op_blocked ?t = (if fine then False else op_blocked s)"
    by (simp_all add: open_settled_def Let_def)
  have "current_ok ?t"
  proof (cases "op_dbp s")
    case (Some k)
    then have k: "Suc k = length (op_conns s)" "op_conns s ! k \<noteq> Pending \<longrightarrow> Pending \<notin> set (op_conns s)"
      using assms(1) by (simp_all add: open_inv_def current_ok_def)
    have "Pending \<in> set (op_conns s)" using i(1,2) nth_mem by metis
    with k(2) have kp: "op_conns s ! k = Pending" by blast
    show ?thesis
    proof (cases "k = i")
      case True
      then have "Pending \<notin> set ((op_conns s)[i := ?x])"
        using i(1,3) k(1) by (intro pending_update) (auto simp: less_Suc_eq)
      then show ?thesis using True Some k(1) i(1) by (simp add: current_ok_def t)
    next
      case False
      then show ?thesis using Some k(1) kp i(1) by (simp add: current_ok_def t)
    qed
  qed (simp add: current_ok_def t)
  moreover have "timers_pending ?t"
    using assms(1) i(1) by (auto simp: open_inv_def timers_pending_def t nth_list_update)
  ultimately show ?thesis using assms(1) by (simp add: open_inv_def t)
qed

lemma open_inv_gone:
  assumes "open_inv s" and "i < length (op_conns s)" and "op_conns s ! i = Opened"
  shows "open_inv (s\<lparr>op_conns := (op_conns s)[i := Gone]\<rparr>)"
proof -
  have "set ((op_conns s)[i := Gone]) \<subseteq> insert Gone (set (op_conns s))" by (rule set_update_subset_insert)
  then have "current_ok (s\<lparr>op_conns := (op_conns s)[i := Gone]\<rparr>)"
    using assms by (auto simp: open_inv_def current_ok_def nth_list_update split: option.splits)
  moreover have "timers_pending (s\<lparr>op_conns := (op_conns s)[i := Gone]\<rparr>)"
    using assms by (force simp: open_inv_def timers_pending_def nth_list_update)
  ultimately show ?thesis using assms(1) by (simp add: open_inv_def)
qed

lemma open_inv_dropped: "open_inv s \<Longrightarrow> open_inv (s\<lparr>op_dbp := None\<rparr>)"
  by (simp add: open_inv_def current_ok_def timers_pending_def split: option.splits)

lemma open_inv_timer: "open_inv s \<Longrightarrow> open_inv (s\<lparr>op_patience := remove1 i (op_patience s)\<rparr>)"
  by (auto simp: open_inv_def current_ok_def timers_pending_def split: option.splits dest: notin_set_remove1 set_remove1_subset [THEN subsetD])

lemma open_inv_closing:
  "open_inv s \<Longrightarrow> \<forall>i \<in> set c. i < length (op_conns s) \<Longrightarrow> open_inv (s\<lparr>op_closing := c\<rparr>)"
  by (simp add: open_inv_def current_ok_def timers_pending_def split: option.splits)

lemma open_inv_connect: "open_inv s \<Longrightarrow> connect_db s = (i, t) \<Longrightarrow> open_inv t \<and> op_dbp t = Some i"
  by (auto simp: open_inv_def current_ok_def timers_pending_def connect_db_def Let_def nth_append less_SucI split: option.splits)

lemma open_inv_watch:
  assumes "open_inv s" and "op_dbp s = Some i"
  shows "open_inv (watch_db i s)"
proof -
  have "i < length (op_conns s)" using assms by (simp add: open_inv_def current_ok_def)
  then have "open_inv (s\<lparr>op_patience := op_patience s @ [i]\<rparr>)" if "op_conns s ! i = Pending"
    using assms that by (simp add: open_inv_def current_ok_def timers_pending_def)
  moreover have "open_inv (s\<lparr>op_blocked := False\<rparr>)"
    using assms by (simp add: open_inv_def current_ok_def timers_pending_def)
  ultimately show ?thesis using assms(1) by (simp add: watch_db_def)
qed

lemma open_inv_asked:
  assumes "open_inv s"
  shows "open_inv (snd (get_db s))"
proof -
  obtain i t where c: "connect_db s = (i, t)" by (cases "connect_db s")
  have "open_inv (watch_db i t)" using open_inv_connect [OF assms c] by (blast intro: open_inv_watch)
  then show ?thesis by (simp add: get_db_def c)
qed

lemma open_step_inv:
  assumes "open_step s t" and inv: "open_inv s"
  shows "open_inv t"
  using assms(1)
proof cases
  case asked
  then show ?thesis using inv by (simp add: open_inv_asked)
next
  case (settled i fine)
  then show ?thesis using inv by (simp add: open_inv_settled)
next
  case (blocked i)
  then show ?thesis using open_inv_flag [OF inv, of i] by (simp add: on_blocked_def next_pending_def)
next
  case (impatient i)
  then have "i < length (op_conns s)" "op_conns s ! i = Pending" using inv by (auto simp: open_inv_def timers_pending_def)
  with open_inv_flag [OF open_inv_timer [OF inv, of i], of i] show ?thesis
    by (simp add: impatient out_of_patience_def)
next
  case (blocking i)
  let ?c = "op_closing s @ (case op_dbp s of None \<Rightarrow> [] | Some i \<Rightarrow> [i])"
  have "\<forall>j \<in> set ?c. j < length (op_conns s)"
    using inv by (auto simp: open_inv_def current_ok_def split: option.splits)
  from open_inv_closing [OF open_inv_dropped [OF inv], of ?c] this show ?thesis by (simp add: blocking on_blocking_def)
next
  case (closed i)
  then have i: "i < length (op_conns s)" using inv by (simp add: open_inv_def)
  have c: "open_inv (s\<lparr>op_closing := filter (\<lambda>j. j \<noteq> i) (op_closing s)\<rparr>)"
    using inv by (intro open_inv_closing) (auto simp: open_inv_def)
  show ?thesis
    using open_inv_gone [OF c, of i] c i by (cases "op_conns s ! i = Opened") (simp_all add: closed close_given_up_def)
next
  case (terminated i)
  then show ?thesis using open_inv_dropped [OF open_inv_gone [OF inv]] by (simp add: on_terminated_def)
qed

text \<open>
  The loading screen never explains itself once the database is open: however opens, other tabs, timers and
  failures interleave, the flag is down while the connection in use is open.
\<close>

theorem blocked_truthful:
  assumes "open_step\<^sup>*\<^sup>* not_opened s" and "op_dbp s = Some i" and "op_conns s ! i = Opened"
  shows "\<not> op_blocked s"
proof -
  have "open_inv s"
    using assms(1)
  proof induction
    case base
    show ?case by (simp add: open_inv_def current_ok_def timers_pending_def not_opened_def)
  qed (rule open_step_inv)
  with assms(2,3) show ?thesis by (simp add: open_inv_def current_ok_def)
qed

text \<open>An open that failed is kept: every later access is given the same rejected promise, and no new attempt is made.\<close>

lemma failed_stays: "op_dbp s = Some i \<Longrightarrow> op_conns s ! i = Failed \<Longrightarrow> get_db s = (i, s)"
  by (simp add: get_db_def connect_db_def watch_db_def)

end
