(* ===== verification/Texts.thy ===== *)
theory Texts
  imports I18n
begin

text \<open>
  What \<open>t(key, params)\<close> of \<open>web/src/i18n/index.ts\<close> shows. A text is read as a template: plain characters and
  \<open>{name}\<close> holes. The chain of \<open>split\<close>/\<open>join\<close> replacements fills the holes as one pass would, and the two
  dictionaries have the same keys, with the same holes behind each key.
\<close>

section \<open>Templates\<close>

datatype piece = Plain char | Hole string

fun flat :: "piece \<Rightarrow> string" where
  "flat (Plain c) = [c]"
| "flat (Hole k) = CHR ''{'' # k @ ''}''"

definition flats :: "piece list \<Rightarrow> string" where
  "flats ps = concat (map flat ps)"

definition plain :: "string \<Rightarrow> bool" where
  "plain s \<longleftrightarrow> list_all (\<lambda>c. c \<noteq> CHR ''{'' \<and> c \<noteq> CHR ''}'') s"

fun proper :: "piece \<Rightarrow> bool" where
  "proper (Plain c) \<longleftrightarrow> plain [c]"
| "proper (Hole k) \<longleftrightarrow> plain k"

text \<open>Reading a text; no template when its braces do not pair up.\<close>

fun scan :: "string option \<Rightarrow> string \<Rightarrow> piece list option" where
  "scan None [] = Some []"
| "scan (Some k) [] = None"
| "scan None (c # cs) =
     (if c = CHR ''{'' then scan (Some []) cs
      else if c = CHR ''}'' then None
      else map_option ((#) (Plain c)) (scan None cs))"
| "scan (Some k) (c # cs) =
     (if c = CHR ''}'' then map_option ((#) (Hole k)) (scan None cs)
      else if c = CHR ''{'' then None
      else scan (Some (k @ [c])) cs)"

definition template :: "string \<Rightarrow> piece list option" where
  "template s = scan None s"

fun hole :: "piece \<Rightarrow> string list" where
  "hole (Plain c) = []"
| "hole (Hole k) = [k]"

definition holes :: "piece list \<Rightarrow> string list" where
  "holes ps = concat (map hole ps)"

text \<open>Filling in one pass: a hole without a parameter stays as it is written.\<close>

fun fill1 :: "(string \<times> string) list \<Rightarrow> piece \<Rightarrow> string" where
  "fill1 params (Plain c) = [c]"
| "fill1 params (Hole k) = (case map_of params k of Some v \<Rightarrow> v | None \<Rightarrow> flat (Hole k))"

definition fill :: "(string \<times> string) list \<Rightarrow> piece list \<Rightarrow> string" where
  "fill params ps = concat (map (fill1 params) ps)"

fun subst1 :: "string \<Rightarrow> string \<Rightarrow> piece \<Rightarrow> piece list" where
  "subst1 k v (Plain c) = [Plain c]"
| "subst1 k v (Hole h) = (if h = k then map Plain v else [Hole h])"

definition subst :: "string \<Rightarrow> string \<Rightarrow> piece list \<Rightarrow> piece list" where
  "subst k v ps = concat (map (subst1 k v) ps)"

lemma plain_simps [simp]:
  "plain []" "plain (c # s) \<longleftrightarrow> c \<noteq> CHR ''{'' \<and> c \<noteq> CHR ''}'' \<and> plain s"
  "plain (s @ t) \<longleftrightarrow> plain s \<and> plain t"
  by (auto simp: plain_def)

lemma flats_simps [simp]: "flats [] = []" "flats (p # ps) = flat p @ flats ps"
  "flats (ps @ qs) = flats ps @ flats qs"
  by (simp_all add: flats_def)

lemma subst_simps [simp]: "subst k v [] = []" "subst k v (p # ps) = subst1 k v p @ subst k v ps"
  by (simp_all add: subst_def)

lemma fill_simps [simp]: "fill params [] = []" "fill params (p # ps) = fill1 params p @ fill params ps"
  "fill params (ps @ qs) = fill params ps @ fill params qs"
  by (simp_all add: fill_def)

lemma flats_plain [simp]: "flats (map Plain s) = s"
  by (induction s) simp_all

lemma fill_plain [simp]: "fill params (map Plain s) = s"
  by (induction s) simp_all

text \<open>The template of a text writes out to the text again.\<close>

lemma scan_flats:
  "(case st of None \<Rightarrow> True | Some k \<Rightarrow> plain k) \<Longrightarrow> scan st s = Some ps
   \<Longrightarrow> flats ps = (case st of None \<Rightarrow> s | Some k \<Rightarrow> CHR ''{'' # k @ s) \<and> list_all proper ps"
  by (induction st s arbitrary: ps rule: scan.induct) (auto split: if_splits)

lemma template_flats: "template s = Some ps \<Longrightarrow> flats ps = s \<and> list_all proper ps"
  using scan_flats [of None s ps] by (simp add: template_def)

section \<open>Replacing is filling\<close>

lemma starts_with_simps [simp]: "starts_with [] s" "\<not> starts_with (c # p) []"
  "starts_with (c # p) (d # s) \<longleftrightarrow> c = d \<and> starts_with p s"
  by (auto simp: starts_with_def)

lemma starts_with_close: "plain k \<Longrightarrow> plain h \<Longrightarrow> starts_with (k @ ''}'') (h @ CHR ''}'' # s) \<longleftrightarrow> k = h"
proof (induction k arbitrary: h)
  case Nil
  then show ?case by (cases h) auto
next
  case (Cons c k)
  then show ?case by (cases h) auto
qed

lemma replace_all_plain:
  "plain h \<Longrightarrow> replace_all (CHR ''{'' # p) v (h @ s) = h @ replace_all (CHR ''{'' # p) v s"
  by (induction h) auto

lemma replace_all_flats:
  assumes "plain k"
  shows "list_all proper ps \<Longrightarrow> replace_all (''{'' @ k @ ''}'') v (flats ps) = flats (subst k v ps)"
proof (induction ps)
  case (Cons p ps)
  show ?case
  proof (cases p)
    case (Hole h)
    show ?thesis
    proof (cases "h = k")
      case True
      then show ?thesis using Cons Hole assms
        by (simp add: starts_with_close [of k k, simplified])
    next
      case False
      then show ?thesis using Cons Hole assms replace_all_plain [of "h @ []" "k @ ''}''" v]
        by (simp add: starts_with_close replace_all_plain)
    qed
  qed (use Cons in auto)
qed simp

lemma subst_proper: "plain v \<Longrightarrow> list_all proper ps \<Longrightarrow> list_all proper (subst k v ps)"
proof (induction ps)
  case (Cons p ps)
  have "list_all proper (map Plain v)" if "plain v" for v
    using that by (induction v) auto
  with Cons show ?case by (cases p) auto
qed simp

lemma fill_subst: "fill params (subst k v ps) = fill ((k, v) # params) ps"
proof (induction ps)
  case (Cons p ps)
  then show ?case by (cases p) auto
qed simp

definition plain_params :: "(string \<times> string) list \<Rightarrow> bool" where
  "plain_params params \<longleftrightarrow> list_all (\<lambda>(k, v). plain k \<and> plain v) params"

lemma fill_none: "fill [] ps = flats ps"
proof (induction ps)
  case (Cons p ps)
  then show ?case by (cases p) auto
qed simp

lemma replacements_fill:
  "plain_params params \<Longrightarrow> list_all proper ps
   \<Longrightarrow> fold (\<lambda>(k, v) s. replace_all (''{'' @ k @ ''}'') v s) params (flats ps) = fill params ps"
proof (induction params arbitrary: ps)
  case Nil
  then show ?case by (simp add: fill_none)
next
  case (Cons kv params)
  obtain k v where kv: "kv = (k, v)" by fastforce
  have "plain k" "plain v" and rest: "plain_params params"
    using Cons.prems by (simp_all add: plain_params_def kv)
  have "fold (\<lambda>(k, v) s. replace_all (''{'' @ k @ ''}'') v s) params (flats (subst k v ps)) = fill params (subst k v ps)"
    by (rule Cons.IH [OF rest subst_proper]) (use Cons.prems \<open>plain v\<close> in simp_all)
  then show ?case
    using replace_all_flats [OF \<open>plain k\<close> Cons.prems(2)] by (simp add: kv fill_subst)
qed

lemma fill_no_brace:
  "plain_params params \<Longrightarrow> list_all proper ps \<Longrightarrow> set (holes ps) \<subseteq> fst ` set params
   \<Longrightarrow> plain (fill params ps)"
proof (induction ps)
  case (Cons p ps)
  show ?case
  proof (cases p)
    case (Hole k)
    then have "k \<in> fst ` set params" using Cons.prems by (simp add: holes_def)
    then obtain v where v: "map_of params k = Some v" by (metis map_of_eq_None_iff not_Some_eq)
    then have "plain v"
      using map_of_SomeD [OF v] Cons.prems(1) by (auto simp: plain_params_def list_all_iff)
    then show ?thesis using Cons Hole v by (simp add: holes_def)
  qed (use Cons in \<open>simp add: holes_def\<close>)
qed (simp add: holes_def)

section \<open>The holes of a text\<close>

text \<open>\<open>scan\<close> keeping the holes only.\<close>

fun hole_names :: "string option \<Rightarrow> string \<Rightarrow> string list option" where
  "hole_names None [] = Some []"
| "hole_names (Some k) [] = None"
| "hole_names None (c # cs) =
     (if c = CHR ''{'' then hole_names (Some []) cs
      else if c = CHR ''}'' then None
      else hole_names None cs)"
| "hole_names (Some k) (c # cs) =
     (if c = CHR ''}'' then map_option ((#) k) (hole_names None cs)
      else if c = CHR ''{'' then None
      else hole_names (Some (k @ [c])) cs)"

definition holes_of :: "string \<Rightarrow> string list option" where
  "holes_of s = hole_names None s"

lemma hole_names_scan: "hole_names st s = map_option holes (scan st s)"
  by (induction st s rule: scan.induct) (auto simp: holes_def option.map_comp comp_def)

lemma holes_of_template: "holes_of s = map_option holes (template s)"
  by (simp add: holes_of_def template_def hole_names_scan)

definition plain_unit :: "nat \<Rightarrow> bool" where
  "plain_unit u \<longleftrightarrow> u < 65536 \<and> u \<noteq> 123 \<and> u \<noteq> 125"

lemma char_of_is: "n < 256 \<Longrightarrow> char_of (n :: nat) = c \<Longrightarrow> n = of_char c"
  by (metis mod_less of_char_of)

lemma plain_char_of: "n < 256 \<Longrightarrow> n \<noteq> 123 \<Longrightarrow> n \<noteq> 125 \<Longrightarrow> plain [char_of (n :: nat)]"
  using char_of_is [of n "CHR ''{''"] char_of_is [of n "CHR ''}''"] by auto

lemma plain_byte: "u < 128 \<Longrightarrow> plain [char_of (128 + u :: nat)]"
  by (rule plain_char_of) simp_all

lemma plain_tail: "plain [char_of (128 + u mod 64 :: nat)]"
  by (rule plain_byte, rule less_trans [of _ 64]) simp_all

lemma plain_unit_bytes:
  assumes "plain_unit u"
  shows "plain (unit_bytes u)"
proof -
  have "u div 4096 < 16" using assms by (simp add: plain_unit_def less_mult_imp_div_less)
  then have "plain [char_of (128 + (96 + u div 4096))]" by (intro plain_byte) simp
  then have "plain [char_of (224 + u div 4096)]" by (simp only: add.assoc [symmetric] numeral_plus_numeral add_num_simps)
  moreover have "plain [char_of (192 + u div 64)]" if "u < 2048"
  proof -
    have "plain [char_of (128 + (64 + u div 64))]"
      using that by (intro plain_byte) (simp add: less_mult_imp_div_less)
    then show ?thesis by (simp only: add.assoc [symmetric] numeral_plus_numeral add_num_simps)
  qed
  moreover have "plain [char_of u]" if "u < 128"
    using assms that by (intro plain_char_of) (simp_all add: plain_unit_def)
  ultimately show ?thesis using plain_tail [of u] plain_tail [of "u div 64"] by (simp add: unit_bytes_def)
qed

declare units.simps(2) [simp del]

lemma plain_units: "list_all plain_unit us \<Longrightarrow> plain (units us)"
  by (induction us) (simp_all add: units.simps plain_unit_bytes)

lemma hole_names_plain: "plain s \<Longrightarrow> hole_names None (s @ t) = hole_names None t"
  by (induction s) auto

lemma hole_names_units:
  "list_all plain_unit us \<Longrightarrow> hole_names None (units us @ t) = hole_names None t"
  "list_all plain_unit us \<Longrightarrow> hole_names None (units us) = Some []"
  using hole_names_plain [of "units us"] hole_names_plain [of "units us" "[]"] by (simp_all add: plain_units)

section \<open>The two dictionaries\<close>

text \<open>Two texts fit when both are templates with the same holes.\<close>

definition fits :: "string \<Rightarrow> string \<Rightarrow> bool" where
  "fits e r =
     (case (holes_of e, holes_of r) of
        (Some a, Some b) \<Rightarrow> list_all (\<lambda>h. h \<in> set b) a \<and> list_all (\<lambda>h. h \<in> set a) b
      | _ \<Rightarrow> False)"

definition same_texts :: "dict \<Rightarrow> dict \<Rightarrow> bool" where
  "same_texts d e \<longleftrightarrow> list_all2 (\<lambda>(k, s) (l, t). k = l \<and> fits s t) d e"

lemma same_texts_append: "same_texts d e \<Longrightarrow> same_texts d' e' \<Longrightarrow> same_texts (d @ d') (e @ e')"
  by (simp add: same_texts_def list_all2_appendI)

lemma same_texts_Nil: "same_texts [] []"
  by (simp add: same_texts_def)

lemma same_texts_Cons: "fits s t \<Longrightarrow> same_texts d e \<Longrightarrow> same_texts ((k, s) # d) ((k, t) # e)"
  by (simp add: same_texts_def)

lemma fits_same: "fits s s \<longleftrightarrow> holes_of s \<noteq> None"
  by (auto simp: fits_def list_all_iff split: option.splits)

lemmas read_holes = fits_def holes_of_def hole_names_units plain_unit_def

lemma same_common: "same_texts en_common ru_common"
  unfolding en_common_def ru_common_def
  by (intro same_texts_Cons same_texts_Nil) (simp_all add: read_holes)

lemma same_login: "same_texts en_login ru_login"
  unfolding en_login_def ru_login_def
  by (intro same_texts_Cons same_texts_Nil) (simp_all add: read_holes)

lemma same_sidebar: "same_texts en_sidebar ru_sidebar"
  unfolding en_sidebar_def ru_sidebar_def
  by (intro same_texts_Cons same_texts_Nil) (simp_all add: read_holes)

lemma same_new_conversation: "same_texts en_new_conversation ru_new_conversation"
  unfolding en_new_conversation_def ru_new_conversation_def
  by (intro same_texts_Cons same_texts_Nil) (simp_all add: read_holes)

lemma same_chat: "same_texts en_chat ru_chat"
  unfolding en_chat_def ru_chat_def
  by (intro same_texts_Cons same_texts_Nil) (simp_all add: read_holes)

lemma same_member_panel: "same_texts en_member_panel ru_member_panel"
  unfolding en_member_panel_def ru_member_panel_def
  by (intro same_texts_Cons same_texts_Nil) (simp_all add: read_holes)

lemma same_calls: "same_texts en_calls ru_calls"
  unfolding en_calls_def ru_calls_def
  by (intro same_texts_Cons same_texts_Nil) (simp_all add: read_holes)

lemma same_settings: "same_texts en_settings ru_settings"
  unfolding en_settings_def ru_settings_def
  by (intro same_texts_Cons same_texts_Nil) (simp_all add: read_holes)

lemma same_bots: "same_texts en_bots ru_bots"
  unfolding en_bots_def ru_bots_def
  by (intro same_texts_Cons same_texts_Nil) (simp_all add: read_holes)

lemma same_admin: "same_texts en_admin ru_admin"
  unfolding en_admin_def ru_admin_def
  by (intro same_texts_Cons same_texts_Nil) (simp_all add: read_holes)

lemma same_dictionaries: "same_texts en ru"
  unfolding en_def ru_def
  by (intro same_texts_append same_common same_login same_sidebar same_new_conversation same_chat
      same_member_panel same_calls same_settings same_bots same_admin)

lemma same_texts_lookup:
  "same_texts d e \<Longrightarrow> map_of d key = Some s \<Longrightarrow> \<exists>t. map_of e key = Some t \<and> fits s t"
  unfolding same_texts_def by (induction d e rule: list_all2_induct) (auto split: if_splits)

lemma fits_left: "fits s t \<Longrightarrow> fits s s"
  by (auto simp: fits_def list_all_iff split: option.splits)

lemma same_texts_left: "same_texts d e \<Longrightarrow> same_texts d d"
  unfolding same_texts_def by (induction d e rule: list_all2_induct) (auto intro: fits_left)

text \<open>Every registered dictionary has a fitting text for every English key.\<close>

lemma languages_same: "map_of languages code = Some dict \<Longrightarrow> same_texts en dict"
  using same_dictionaries same_texts_left [OF same_dictionaries]
  by (auto simp: languages_def split: if_splits)

lemma fitsD:
  "fits e r \<Longrightarrow> \<exists>a b. holes_of e = Some a \<and> template r = Some b \<and> set (holes b) = set a"
  by (auto simp: fits_def list_all_iff holes_of_template split: option.splits)

text \<open>C39: whatever language is registered and chosen, a text that the code asks for with the parameters of
the English text is found in that language's own dictionary, its holes are exactly the English ones, and
what \<open>t\<close> shows is that text with every hole filled by its parameter, in one pass: no key, no English
fallback and no brace of a placeholder reaches the screen. Parameter values with braces of their own are
outside the statement.\<close>

theorem translations_complete:
  assumes "map_of languages code = Some dict" and "map_of en key = Some e"
    and "set (the (holes_of e)) \<subseteq> fst ` set params" and "plain_params params"
  shows "\<exists>s ps. map_of dict key = Some s \<and> template s = Some ps \<and> set (holes ps) = set (the (holes_of e))
    \<and> translate dict key params = fill params ps \<and> plain (translate dict key params)"
proof -
  obtain s where s: "map_of dict key = Some s" "fits e s"
    using same_texts_lookup [OF languages_same [OF assms(1)] assms(2)] by blast
  then obtain hs ps where ps: "holes_of e = Some hs" "template s = Some ps" "set (holes ps) = set hs"
    using fitsD by blast
  have "flats ps = s" "list_all proper ps" using template_flats [OF ps(2)] by simp_all
  then have "translate dict key params = fill params ps"
    using replacements_fill [OF assms(4), of ps] s(1) by (simp add: translate_def)
  moreover have "plain (fill params ps)"
    using assms(3,4) ps \<open>list_all proper ps\<close> by (intro fill_no_brace) simp_all
  ultimately show ?thesis using s(1) ps by auto
qed

lemma translations_complete_witness:
  "\<exists>s ps. map_of ru ''password_min'' = Some s \<and> template s = Some ps \<and> set (holes ps) = {''n''}
    \<and> translate ru ''password_min'' [(''n'', ''8'')] = fill [(''n'', ''8'')] ps
    \<and> plain (translate ru ''password_min'' [(''n'', ''8'')])"
proof -
  have e: "map_of en ''password_min'' = Some ''at least {n} characters''"
    by (simp add: en_def en_common_def en_login_def)
  have h: "holes_of ''at least {n} characters'' = Some [''n'']" by (simp add: holes_of_def)
  show ?thesis
    using translations_complete [of "''ru''" ru, OF _ e, of "[(''n'', ''8'')]"] h
    by (simp add: languages_def plain_params_def)
qed

text \<open>A value that brings braces of its own is read as a placeholder by the parameters after it.\<close>

lemma braces_in_value:
  "translate en ''ev_removed'' [(''who'', ''{member}''), (''member'', ''bob'')] = ''bob removed bob''"
  by (simp add: translate_def en_def en_common_def en_login_def en_sidebar_def en_new_conversation_def
      en_chat_def starts_with_def)

end
