(* ===== verification/Together.thy ===== *)
theory Together
  imports Examples
begin

text \<open>
  Two clients together: what one sends, the server relays and the other applies. \<open>reaches\<close> says when a payload
  sent by the client with the state \<open>s\<close> gets through to the client with the state \<open>b\<close>; the properties follow it
  up to what the receiving person sees.
\<close>

section \<open>A payload on its way\<close>

text \<open>
  Both are set up with sound keys; the receiver is among those the sender seals for, under its right key, and knows the
  sender by its right signing key; ids are in lower case, as the server hands them out.
\<close>

definition reaches :: "world \<Rightarrow> world \<Rightarrow> app \<Rightarrow> app \<Rightarrow> string \<Rightarrow> payload \<Rightarrow> bool" where
  "reaches W W' s b conv_id p \<longleftrightarrow>
     good_world W \<and> w_read_payload W' (w_write_payload W p) = Inr (Some p) \<and> w_crypto W' = w_crypto W \<and> payload_t p \<noteq> None
     \<and> 0 \<le> a_now s \<and> a_now s < 2 ^ 53 \<and> to_lower_case conv_id = conv_id
     \<and> (\<exists>si k conv si' k' c c'. a_session s = Some si \<and> a_keys s = Some k \<and> keys_wf (w_crypto W) k \<and> conv_of s conv_id = Some conv
          \<and> distinct (sealing_members s conv (si_account_id si))
          \<and> (\<forall>i \<in> set (sealing_members s conv (si_account_id si)). to_lower_case i = i)
          \<and> si_account_id si' \<in> set (sealing_members s conv (si_account_id si))
          \<and> contact_of s (si_account_id si') = Some c' \<and> ct_enc_pub c' = enc_pub k'
          \<and> a_session b = Some si' \<and> a_keys b = Some k' \<and> keys_wf (w_crypto W) k'
          \<and> contact_of b (si_account_id si) = Some c \<and> ct_sign_pub c = sign_pub k)"

text \<open>The frame with which the server passes on an envelope of \<open>s\<close>: its place in the conversation is the server's choice.\<close>

definition relays :: "message_view \<Rightarrow> app \<Rightarrow> string \<Rightarrow> string \<Rightarrow> string \<Rightarrow> bool" where
  "relays view s conv_id env sig \<longleftrightarrow> m_env view = env \<and> m_sig view = sig \<and> m_conv_id view = conv_id
     \<and> a_session s \<noteq> None \<and> m_sender_account view = si_account_id (the (a_session s)) \<and> m_deleted_seq view = None"

definition received :: "message_view \<Rightarrow> payload \<Rightarrow> int \<Rightarrow> stored_message" where
  "received view p ts =
     \<lparr>sm_conv_id = m_conv_id view, sm_seq = m_seq view, sm_client_msg_id = m_client_msg_id view,
      sm_sender = m_sender_account view, sm_sender_device = m_sender_device view, sm_ts = ts,
      sm_server_ts = m_server_ts view, sm_payload = Some p, sm_error = None, sm_edited = False\<rparr>"

lemma arrives:
  assumes "reaches W W' s b conv_id p" and send: "send_payload W conv_id p flags track s = (Inr res, t)"
  shows "\<exists>env sig. a_requests t = a_requests s @ [RSend conv_id env sig]
    \<and> (\<forall>view. relays view s conv_id env sig \<longrightarrow>
         handle_incoming W' view True b = apply_stored (received view p (a_now s)) b
         \<and> handle_incoming W' view False b = deliver_signal view (Some p) b)"
proof -
  obtain si k conv si' k' c c' where s: "a_session s = Some si" "a_keys s = Some k" "keys_wf (w_crypto W) k"
      "conv_of s conv_id = Some conv" "distinct (sealing_members s conv (si_account_id si))"
      "\<forall>i \<in> set (sealing_members s conv (si_account_id si)). to_lower_case i = i"
      "si_account_id si' \<in> set (sealing_members s conv (si_account_id si))"
      "contact_of s (si_account_id si') = Some c'" "ct_enc_pub c' = enc_pub k'"
    and b: "a_session b = Some si'" "a_keys b = Some k'" "keys_wf (w_crypto W) k'"
      "contact_of b (si_account_id si) = Some c" "ct_sign_pub c = sign_pub k"
    using assms(1) unfolding reaches_def by blast
  obtain env sig where req: "a_requests t = a_requests s @ [RSend conv_id env sig]"
    and read: "\<And>view. m_env view = env \<Longrightarrow> m_sig view = sig \<Longrightarrow> m_sender_account view = si_account_id si \<Longrightarrow>
         m_conv_id view = conv_id \<Longrightarrow> read_view W' view si' k' (Some c) = (Some p, None, a_now s)"
    using sent_is_read [OF _ _ _ _ send s(1-4) _ _ s(5,6) _ s(7-9) b(3,5)] assms(1) unfolding reaches_def by blast
  have "handle_incoming W' view True b = apply_stored (received view p (a_now s)) b
      \<and> handle_incoming W' view False b = deliver_signal view (Some p) b" if "relays view s conv_id env sig" for view
    using that read [of view] s(1) b by (simp add: relays_def handle_incoming_def look_up_sender_def received_def)
  with req show ?thesis by blast
qed

lemma delivered:
  assumes "reaches W W' s b conv_id p" and "send_payload W conv_id p flags track s = (Inr res, t)"
  shows "\<exists>env sig. a_requests t = a_requests s @ [RSend conv_id env sig]
    \<and> (\<forall>view. relays view s conv_id env sig \<longrightarrow>
         handle_incoming W' view True b = apply_stored (received view p (a_now s)) b)"
  using arrives [OF assms] by blast

section \<open>Edits\<close>

text \<open>Rewriting a message in the database changes nothing that decides who can read the sender.\<close>

lemma set_body_frame:
  "a_session (set_message_body i q body ed s) = a_session s" "a_keys (set_message_body i q body ed s) = a_keys s"
  "a_contacts (set_message_body i q body ed s) = a_contacts s" "a_now (set_message_body i q body ed s) = a_now s"
  "a_requests (set_message_body i q body ed s) = a_requests s"
  by (auto simp: set_message_body_def rewrite_message_def persist_conversation_def Let_def
      split: option.split payload.split)

lemma set_body_conv:
  assumes "app_inv s"
  shows "conv_of (set_message_body i q body ed s) j = conv_of s j \<or>
    (\<exists>c lm. conv_of s j = Some c \<and> conv_of (set_message_body i q body ed s) j = Some (c\<lparr>c_last_message := lm\<rparr>))"
  using app_invD(6) [OF assms]
  by (auto simp: set_message_body_def rewrite_message_def persist_conversation_def set_messages_def on_db_def Let_def
      split: option.split payload.split)

lemma sealing_same:
  "a_contacts t = a_contacts s \<Longrightarrow> sealing_members t (c\<lparr>c_last_message := lm\<rparr>) me = sealing_members s c me"
  by (cases "c_roster c") (simp_all add: sealing_members_def is_bot_def)

lemma sealing_contacts: "a_contacts t = a_contacts s \<Longrightarrow> sealing_members t c me = sealing_members s c me"
  by (simp add: sealing_members_def is_bot_def)

lemma reaches_cong:
  assumes "reaches W W' s b conv_id p" and "a_session t = a_session s" and "a_keys t = a_keys s" and "a_contacts t = a_contacts s"
    and "a_now t = a_now s"
    and conv: "\<And>conv. conv_of s conv_id = Some conv \<Longrightarrow> \<exists>conv'. conv_of t conv_id = Some conv'
      \<and> (\<forall>me. sealing_members t conv' me = sealing_members s conv me)"
  shows "reaches W W' t b conv_id p"
proof -
  obtain si k v si' k' c c' where s: "a_session s = Some si" "a_keys s = Some k" "keys_wf (w_crypto W) k"
      "conv_of s conv_id = Some v" "distinct (sealing_members s v (si_account_id si))"
      "\<forall>i \<in> set (sealing_members s v (si_account_id si)). to_lower_case i = i"
      "si_account_id si' \<in> set (sealing_members s v (si_account_id si))"
      "contact_of s (si_account_id si') = Some c'" "ct_enc_pub c' = enc_pub k'"
      "a_session b = Some si'" "a_keys b = Some k'" "keys_wf (w_crypto W) k'"
      "contact_of b (si_account_id si) = Some c" "ct_sign_pub c = sign_pub k"
    using assms(1) unfolding reaches_def by blast
  obtain v' where v': "conv_of t conv_id = Some v'" "\<And>me. sealing_members t v' me = sealing_members s v me"
    using conv [OF s(4)] by blast
  have "\<exists>si k conv si' k' c c'. a_session t = Some si \<and> a_keys t = Some k \<and> keys_wf (w_crypto W) k \<and> conv_of t conv_id = Some conv
      \<and> distinct (sealing_members t conv (si_account_id si))
      \<and> (\<forall>i \<in> set (sealing_members t conv (si_account_id si)). to_lower_case i = i)
      \<and> si_account_id si' \<in> set (sealing_members t conv (si_account_id si))
      \<and> contact_of t (si_account_id si') = Some c' \<and> ct_enc_pub c' = enc_pub k'
      \<and> a_session b = Some si' \<and> a_keys b = Some k' \<and> keys_wf (w_crypto W) k'
      \<and> contact_of b (si_account_id si) = Some c \<and> ct_sign_pub c = sign_pub k"
    by (intro conjI exI [of _ si] exI [of _ k] exI [of _ v'] exI [of _ si'] exI [of _ k'] exI [of _ c] exI [of _ c'])
      (use s in \<open>simp_all add: assms(2-4) v'\<close>)
  then show ?thesis using assms(1) unfolding reaches_def assms(5) by blast
qed

lemma reaches_after_body:
  assumes "reaches W W' s b conv_id p" and "app_inv s"
  shows "reaches W W' (set_message_body i q body ed s) b conv_id p"
proof (rule reaches_cong [OF assms(1) set_body_frame(1-4)])
  fix conv assume "conv_of s conv_id = Some conv"
  then show "\<exists>conv'. conv_of (set_message_body i q body ed s) conv_id = Some conv'
      \<and> (\<forall>me. sealing_members (set_message_body i q body ed s) conv' me = sealing_members s conv me)"
    using set_body_conv [OF assms(2), of i q body ed conv_id]
      sealing_same [OF set_body_frame(3) [of i q body ed s]] sealing_contacts [OF set_body_frame(3) [of i q body ed s]]
    by (metis option.inject)
qed

lemma edit_text_done:
  assumes "edit_text W conv_id m body s = (Inr (), t)"
  shows "\<exists>prev reply res. sm_payload m = Some (Text prev reply) \<and> send_payload W conv_id
    (TextEdit (Some (sm_client_msg_id m)) (Some body)) 0 False (set_message_body conv_id (sm_seq m) body True s) = (Inr res, t)"
proof -
  obtain prev reply where p: "sm_payload m = Some (Text prev reply)"
    using assms by (auto simp: edit_text_def throw_def split: option.splits payload.splits)
  let ?r = "send_payload W conv_id (TextEdit (Some (sm_client_msg_id m)) (Some body)) 0 False (set_message_body conv_id (sm_seq m) body True s)"
  show ?thesis
    using assms p by (cases ?r; cases "fst ?r") (auto simp: edit_text_def throw_def attempt_def ret_def then_ok_def Let_def split: option.splits if_splits)
qed

text \<open>What an edit does to the stored copy it names.\<close>

definition rewritten :: "stored_message \<Rightarrow> string \<Rightarrow> stored_message" where
  "rewritten m body = m\<lparr>sm_payload := (case sm_payload m of Some (Text b reply) \<Rightarrow> Some (Text body reply) | p \<Rightarrow> p), sm_edited := True\<rparr>"

lemma apply_stored_edit:
  assumes "app_inv b" and "conv_of b conv_id = Some cb" and "\<not> is_expired b cb (sm_server_ts msg)" and "sm_conv_id msg = conv_id"
    and "sm_payload msg = Some (TextEdit (Some r) (Some body))"
    and "message_by_client_id conv_id (sm_sender msg) r (a_db b) = Some mb"
    and "sm_payload mb = Some (Text old reply)" and "sm_seq mb < sm_seq msg"
  shows "get_message conv_id (sm_seq mb) (a_db (snd (apply_stored msg b))) = Some (rewritten mb body)"
proof -
  have id: "c_id cb = conv_id" using app_invD(6) [OF assms(1,2)] .
  have db: "db_inv (a_db b)" using assms(1) by (rule app_invD)
  have mb: "sm_sender mb = sm_sender msg" "get_message conv_id (sm_seq mb) (a_db b) = Some mb"
    using message_by_client_id_Some [OF db assms(6)] by simp_all
  show ?thesis
    using assms(2-8) id mb
    by (simp add: apply_stored_def apply_edit_def get_message_same [OF same_messages_advance] set_body_messages [OF db] rewritten_def)
qed

text \<open>C2: An edit arrives. When editing one's own text succeeds, exactly one envelope was sent; the own copy has the
new text; and every recipient's client that gets this envelope from the server, after the message itself and before
it expired, rewrites its copy of that message - the one with the sender and the client's message id of the original - to
the new text, marked as edited and with nothing else changed.\<close>

theorem edit_reaches:
  assumes "reaches W W' s b conv_id (TextEdit (Some (sm_client_msg_id m)) (Some body))" and "app_inv s" and "app_inv b"
    and "edit_text W conv_id m body s = (Inr (), t)" and "get_message conv_id (sm_seq m) (a_db s) = Some m"
    and "conv_of b conv_id = Some cb"
    and "message_by_client_id conv_id (sm_sender m) (sm_client_msg_id m) (a_db b) = Some mb" and "sm_payload mb = Some (Text old reply)"
  shows "\<exists>env sig. a_requests t = a_requests s @ [RSend conv_id env sig]
    \<and> get_message conv_id (sm_seq m) (a_db t) = Some (rewritten m body)
    \<and> (\<forall>view. relays view s conv_id env sig \<and> sm_seq mb < m_seq view \<and> \<not> is_expired b cb (m_server_ts view) \<longrightarrow>
         get_message conv_id (sm_seq mb) (a_db (snd (handle_incoming W' view True b))) = Some (rewritten mb body))"
proof -
  let ?s = "set_message_body conv_id (sm_seq m) body True s" and ?p = "TextEdit (Some (sm_client_msg_id m)) (Some body)"
  obtain prev re res where p: "sm_payload m = Some (Text prev re)" and send: "send_payload W conv_id ?p 0 False ?s = (Inr res, t)"
    using edit_text_done [OF assms(4)] by blast
  obtain env sig where req: "a_requests t = a_requests s @ [RSend conv_id env sig]"
    and get: "\<And>view. relays view ?s conv_id env sig \<Longrightarrow> handle_incoming W' view True b = apply_stored (received view ?p (a_now ?s)) b"
    using delivered [OF reaches_after_body [OF assms(1,2)] send] by (auto simp: set_body_frame)
  have mine: "a_session s \<noteq> None" "si_account_id (the (a_session s)) = sm_sender m"
    using assms(4) by (auto simp: edit_text_def throw_def split: option.splits payload.splits if_splits)
  have "get_message conv_id (sm_seq m) (a_db t) = Some (rewritten m body)"
    using send_payload_messages [of ?s W conv_id ?p 0 False] send assms(5) p set_body_messages [OF app_invD(3) [OF assms(2)]]
    by (simp add: get_message_same rewritten_def)
  moreover have "get_message conv_id (sm_seq mb) (a_db (snd (handle_incoming W' view True b))) = Some (rewritten mb body)"
    if v: "relays view s conv_id env sig" "sm_seq mb < m_seq view" "\<not> is_expired b cb (m_server_ts view)" for view
  proof -
    have "relays view ?s conv_id env sig" using v(1) by (simp add: relays_def set_body_frame)
    then show ?thesis
      using v mine get [of view] assms(7,8)
      by (simp add: apply_stored_edit [OF assms(3,6), of _ "sm_client_msg_id m" body mb old reply] received_def relays_def)
  qed
  ultimately show ?thesis using req by blast
qed

lemma reaches_demo:
  assumes "payload_t p \<noteq> None"
  shows "reaches (the_world p) (the_world p) her_app his_app chat p"
  unfolding reaches_def
  by (intro conjI exI [of _ "session_for alice"] exI [of _ "keys_of 5"] exI [of _ the_chat] exI [of _ "session_for bob"]
      exI [of _ "keys_of 6"] exI [of _ "contact_for alice 5"] exI [of _ "contact_for bob 6"])
    (use assms in \<open>simp_all add: the_world_good her_app_sel his_app_sel names_are_lower keys_of_wf session_for_def the_recipients
       names_distinct contact_for_def, simp_all add: the_world_def keys_of_wf\<close>)

lemma hello_sel: "sm_seq hello = 2" "sm_client_msg_id hello = ticket" "sm_sender hello = alice"
  "sm_payload hello = Some (Text ''hello'' None)" "sm_conv_id hello = chat"
  by (simp_all add: hello_def)

lemma edit_reaches_witness:
  "\<exists>t env sig. edit_text (the_world (TextEdit (Some ticket) (Some ''bye''))) chat hello ''bye'' her_app = (Inr (), t)
    \<and> a_requests t = a_requests her_app @ [RSend chat env sig]
    \<and> get_message chat 2 (a_db (snd (handle_incoming (the_world (TextEdit (Some ticket) (Some ''bye''))) (frame_of env sig 3) True his_app)))
       = Some (rewritten hello ''bye'')"
proof -
  let ?p = "TextEdit (Some ticket) (Some ''bye'')" and ?s = "set_message_body chat 2 ''bye'' True her_app"
  let ?W = "the_world ?p"
  have conv: "conv_of ?s chat = Some the_chat"
    by (simp add: set_message_body_def rewrite_message_def set_messages_def on_db_def Let_def her_app_sel hello_sel the_chat_def)
  obtain res t where send: "send_payload ?W chat ?p 0 False ?s = (Inr res, t)"
    using sends_from [of ?s ?p 0 False] conv by (auto simp: set_body_frame her_app_sel)
  have run: "edit_text ?W chat hello ''bye'' her_app = (Inr (), t)"
    by (simp add: edit_text_def her_app_sel hello_sel session_for_def send ret_def Let_def)
  have found: "message_by_client_id chat alice ticket (a_db his_app) = Some hello"
    by (simp add: message_by_client_id_def his_app_def her_app_def get_all_def hello_def)
  obtain env sig where req: "a_requests t = a_requests her_app @ [RSend chat env sig]"
    and all: "\<forall>view. relays view her_app chat env sig \<and> sm_seq hello < m_seq view \<and> \<not> is_expired his_app the_chat (m_server_ts view)
      \<longrightarrow> get_message chat (sm_seq hello) (a_db (snd (handle_incoming ?W view True his_app))) = Some (rewritten hello ''bye'')"
    using edit_reaches [of ?W ?W her_app his_app chat hello "''bye''" t the_chat hello "''hello''" None]
    by (auto simp: reaches_demo her_app_inv his_app_inv run hello_sel her_app_sel his_app_sel found)
  have "relays (frame_of env sig 3) her_app chat env sig"
    by (simp add: relays_def frame_of_def her_app_sel session_for_def)
  then show ?thesis
    using run req all [rule_format, of "frame_of env sig 3"] by (auto simp: frame_sel hello_sel retention_off)
qed

section \<open>Members\<close>

text \<open>
  How a contact comes out of a signed list of members: somebody unknown is pinned under the listed keys; somebody known
  keeps the pinned keys and the mark of verification, and other keys are flagged.
\<close>

definition introduced :: "contact option \<Rightarrow> bytes \<times> bytes \<Rightarrow> contact option \<Rightarrow> bool" where
  "introduced old listed new \<longleftrightarrow>
     (case (old, new) of
        (None, Some c') \<Rightarrow> (ct_sign_pub c', ct_enc_pub c') = listed \<and> ct_pending_keys c' = None \<and> \<not> ct_verified c'
      | (Some c, Some c') \<Rightarrow> ct_sign_pub c' = ct_sign_pub c \<and> ct_enc_pub c' = ct_enc_pub c \<and> ct_verified c' = ct_verified c
          \<and> ct_pending_keys c' = (if (ct_sign_pub c, ct_enc_pub c) = listed then ct_pending_keys c else Some listed)
      | (_, None) \<Rightarrow> False)"

lemma introduced_observe:
  "contacts_inv s \<Longrightarrow> introduced (contact_of s i) (sp, ep) (contact_of (observe_keys i u sp ep None None s) i)"
  by (auto simp: introduced_def observe_keys_contact split: option.split)

lemma apply_roster_listed:
  assumes "contacts_inv s" and "distinct (map mi_id ms)" and "[] \<notin> mi_id ` set ms"
    and "\<forall>m \<in> set ms. member_info_keys m = Some (keys m)"
  shows "fst (apply_roster ms s) = map mi_id ms \<and> contacts_inv (snd (apply_roster ms s))
    \<and> (\<forall>m \<in> set ms. introduced (contact_of s (mi_id m)) (keys m) (contact_of (snd (apply_roster ms s)) (mi_id m)))
    \<and> (\<forall>i. i \<notin> mi_id ` set ms \<longrightarrow> contact_of (snd (apply_roster ms s)) i = contact_of s i)"
  using assms
proof (induction ms arbitrary: s)
  case Nil
  then show ?case by simp
next
  case (Cons m ms)
  obtain sp ep where k: "keys m = (sp, ep)" by fastforce
  let ?o = "observe_keys (mi_id m) (mi_username m) sp ep None None s"
  have o: "contacts_inv ?o" using Cons.prems(1) by (rule contacts_inv_observe)
  have IH: "fst (apply_roster ms ?o) = map mi_id ms" "contacts_inv (snd (apply_roster ms ?o))"
    "\<forall>n \<in> set ms. introduced (contact_of ?o (mi_id n)) (keys n) (contact_of (snd (apply_roster ms ?o)) (mi_id n))"
    "\<forall>i. i \<notin> mi_id ` set ms \<longrightarrow> contact_of (snd (apply_roster ms ?o)) i = contact_of ?o i"
    using Cons.IH [OF o] Cons.prems by simp_all
  have step: "apply_roster (m # ms) s = (mi_id m # fst (apply_roster ms ?o), snd (apply_roster ms ?o))"
    using Cons.prems(3,4) k by (auto simp: case_prod_beta Let_def)
  have other: "contact_of ?o i = contact_of s i" if "i \<noteq> mi_id m" for i
    using that by (simp add: observe_keys_contact [OF Cons.prems(1)])
  have new: "mi_id m \<notin> mi_id ` set ms" using Cons.prems(2) by simp
  have "introduced (contact_of s (mi_id n)) (keys n) (contact_of (snd (apply_roster ms ?o)) (mi_id n))" if "n \<in> set (m # ms)" for n
  proof (cases "mi_id n = mi_id m")
    case True
    then have "n = m" using that new by (metis image_eqI set_ConsD)
    then show ?thesis using IH(4) new k introduced_observe [OF Cons.prems(1), of "mi_id m" sp ep "mi_username m"] by simp
  next
    case False
    then show ?thesis using that IH(3) other [of "mi_id n"] by auto
  qed
  then show ?case using IH step other by (auto simp del: apply_roster.simps)
qed

text \<open>The list a client signs: the accounts under the keys it has pinned.\<close>

definition listed_keys :: "app \<Rightarrow> string \<Rightarrow> bytes \<times> bytes" where
  "listed_keys s i = (case contact_of s i of Some c \<Rightarrow> (ct_sign_pub c, ct_enc_pub c) | None \<Rightarrow> ([], []))"

lemma member_infos_listed:
  assumes "member_infos s ids = Inr ms"
    and "\<forall>i \<in> set ids. \<forall>c. contact_of s i = Some c \<longrightarrow> length (ct_sign_pub c) = 32 \<and> length (ct_enc_pub c) = 32"
  shows "map mi_id ms = ids \<and> (\<forall>m \<in> set ms. member_info_keys m = Some (listed_keys s (mi_id m)))"
  using assms
proof (induction ids arbitrary: ms)
  case (Cons i ids)
  obtain c ms' where c: "contact_of s i = Some c" and ms': "member_infos s ids = Inr ms'"
    and ms: "ms = \<lparr>mi_id = i, mi_username = ct_username c, mi_sign_pub = b64encode (ct_sign_pub c),
          mi_enc_pub = b64encode (ct_enc_pub c)\<rparr> # ms'"
    using Cons.prems(1) by (cases "member_infos s ids") (auto simp: member_info_def split: option.splits)
  have "map mi_id ms' = ids \<and> (\<forall>m \<in> set ms'. member_info_keys m = Some (listed_keys s (mi_id m)))"
    using Cons.IH [OF ms'] Cons.prems(2) by simp
  then show ?case
    using Cons.prems(2) c by (simp add: ms member_info_keys_def listed_keys_def b64decode_b64encode)
qed simp

text \<open>The payloads that carry a list of members.\<close>

definition carries :: "payload \<Rightarrow> member_info list \<Rightarrow> bool" where
  "carries p ms \<longleftrightarrow> (\<exists>k n. p = ConvCreate k n (Some ms)) \<or> (\<exists>m. p = MemberAdd (Some m) (Some ms)) \<or> (\<exists>i. p = MemberRemove i (Some ms))"

lemma finish_stored_roster:
  "fst (finish_stored (Some si) conv msg pv n s) = Inr ()
    \<and> (\<exists>c. conv_of (snd (finish_stored (Some si) conv msg pv n s)) (c_id n) = Some c
         \<and> c_roster c = c_roster n \<and> c_roster_seq c = c_roster_seq n)
    \<and> a_contacts (snd (finish_stored (Some si) conv msg pv n s)) = a_contacts s"
proof -
  define n1 where "n1 = (if pv \<noteq> [] \<and> (c_last_message conv = None \<or> c_synced_seq conv \<le> sm_seq msg)
                  then n\<lparr>c_last_message := Some \<lparr>lm_text = pv, lm_ts = sm_ts msg,
                              lm_sender = sm_sender msg, lm_seq = Some (sm_seq msg)\<rparr>,
                            c_updated_at := max (c_updated_at conv) (sm_server_ts msg)\<rparr>
                  else n)"
  define n2 where "n2 = (if sm_sender msg = si_account_id si \<and> c_read_seq n1 < sm_seq msg
     then n1\<lparr>c_read_seq := sm_seq msg\<rparr> else n1)"
  have n1: "c_id n1 = c_id n" "c_roster n1 = c_roster n" "c_roster_seq n1 = c_roster_seq n" by (simp_all add: n1_def)
  have n2: "c_id n2 = c_id n" "c_roster n2 = c_roster n" "c_roster_seq n2 = c_roster_seq n" by (simp_all add: n1 n2_def)
  let ?r = "finish_stored (Some si) conv msg pv n s"
  have "fst ?r = Inr ()" "conv_of (snd ?r) (c_id n) = Some n2" "a_contacts (snd ?r) = a_contacts s"
    unfolding finish_stored_def Let_def n1_def [symmetric] n2_def [symmetric] by (simp_all add: n2 n1 n2_def)
  then show ?thesis using n2 by blast
qed

lemma apply_stored_roster:
  assumes "app_inv b" and "a_session b = Some si" and "conv_of b conv_id = Some cb" and "\<not> is_expired b cb (sm_server_ts msg)"
    and "sm_conv_id msg = conv_id" and "sm_payload msg = Some p" and "carries p ms" and "c_roster_seq cb < sm_seq msg"
  shows "\<exists>c. fst (apply_stored msg b) = Inr () \<and> conv_of (snd (apply_stored msg b)) conv_id = Some c
    \<and> c_roster c = Some (fst (apply_roster ms (store_message msg b))) \<and> c_roster_seq c = sm_seq msg
    \<and> a_contacts (snd (apply_stored msg b)) = a_contacts (snd (apply_roster ms (store_message msg b)))"
proof -
  let ?s = "store_message msg b"
  let ?n = "cb\<lparr>c_synced_seq := max (c_synced_seq cb) (sm_seq msg), c_last_seq := max (c_last_seq cb) (sm_seq msg)\<rparr>"
  have id: "c_id cb = conv_id" using app_invD(6) [OF assms(1,3)] .
  obtain n t where ev: "apply_event (Some p) (sm_seq msg) ?n ?s = (Inr n, t)" and n: "c_id n = conv_id"
      "c_roster n = Some (fst (apply_roster ms ?s))" "c_roster_seq n = sm_seq msg" and t: "t = snd (apply_roster ms ?s)"
    using assms(7) id unfolding carries_def
    by (elim disjE exE) (auto simp: apply_event_def Let_def case_prod_beta ret_def split: option.splits)
  obtain pv where pv: "preview_of (a_dict t) (Some p) (sm_error msg) = Inr pv"
    using assms(7) unfolding carries_def by (elim disjE exE) simp_all
  have "apply_stored msg b = finish_stored (Some si) cb msg pv n t"
    using assms ev pv unfolding carries_def
    by (elim disjE exE) (simp_all add: apply_stored_def apply_stored_rest_def Let_def)
  then show ?thesis using finish_stored_roster [of si cb msg pv n t] n t by auto
qed

text \<open>C3: A signed list of members arrives. When a client announces the members of a conversation - creating it, adding
or removing somebody - every recipient's client that gets the envelope, newer than the list it has, takes over exactly
the announced members. Each of them is introduced to it under the keys the announcing client has pinned: somebody
unknown is pinned under these keys, unverified; somebody known keeps the pinned keys and the mark of verification, and
is flagged if these keys are others. Nobody else's keys are touched.\<close>

theorem members_reach:
  assumes "reaches W W' s b conv_id (mk ms)" and "member_infos s ids = Inr ms" and "carries (mk ms) ms"
    and "announce W conv_id mk ids s = (Inr res, t)" and "app_inv b" and "conv_of b conv_id = Some cb"
    and "distinct ids" and "[] \<notin> set ids"
    and "\<forall>i \<in> set ids. length (fst (listed_keys s i)) = 32 \<and> length (snd (listed_keys s i)) = 32"
  shows "\<exists>env sig. a_requests t = a_requests s @ [RSend conv_id env sig]
    \<and> (\<forall>view. relays view s conv_id env sig \<and> c_roster_seq cb < m_seq view \<and> \<not> is_expired b cb (m_server_ts view) \<longrightarrow>
         (let b' = snd (handle_incoming W' view True b) in
            map_option c_roster (conv_of b' conv_id) = Some (Some ids)
            \<and> (\<forall>i \<in> set ids. introduced (contact_of b i) (listed_keys s i) (contact_of b' i))
            \<and> (\<forall>i. i \<notin> set ids \<longrightarrow> contact_of b' i = contact_of b i)))"
proof -
  have "send_payload W conv_id (mk ms) 0 True s = (Inr res, t)"
    using assms(2,4) by (simp add: announce_def)
  then obtain env sig where req: "a_requests t = a_requests s @ [RSend conv_id env sig]"
    and get: "\<And>view. relays view s conv_id env sig \<Longrightarrow> handle_incoming W' view True b = apply_stored (received view (mk ms) (a_now s)) b"
    using delivered [OF assms(1)] by blast
  have "\<forall>i \<in> set ids. \<forall>c. contact_of s i = Some c \<longrightarrow> length (ct_sign_pub c) = 32 \<and> length (ct_enc_pub c) = 32"
    using assms(9) by (auto simp: listed_keys_def)
  then have ms: "map mi_id ms = ids" "\<forall>m \<in> set ms. member_info_keys m = Some (listed_keys s (mi_id m))"
    using member_infos_listed [OF assms(2)] by blast+
  obtain si where si: "a_session b = Some si" using assms(1) unfolding reaches_def by blast
  have "map_option c_roster (conv_of b' conv_id) = Some (Some ids)
      \<and> (\<forall>i \<in> set ids. introduced (contact_of b i) (listed_keys s i) (contact_of b' i))
      \<and> (\<forall>i. i \<notin> set ids \<longrightarrow> contact_of b' i = contact_of b i)"
    if v: "relays view s conv_id env sig" "c_roster_seq cb < m_seq view" "\<not> is_expired b cb (m_server_ts view)"
      and b': "b' = snd (handle_incoming W' view True b)" for view b'
  proof -
    let ?msg = "received view (mk ms) (a_now s)" let ?b = "store_message ?msg b"
    obtain c where c: "conv_of b' conv_id = Some c" "c_roster c = Some (fst (apply_roster ms ?b))"
        "a_contacts b' = a_contacts (snd (apply_roster ms ?b))"
      using apply_stored_roster [OF assms(5) si assms(6), of ?msg "mk ms" ms] v get [OF v(1)] assms(3) b'
      by (auto simp: received_def relays_def)
    have inv: "contacts_inv ?b" using app_invD(2) [OF assms(5)] by (simp add: contacts_inv_def)
    have ids: "distinct (map mi_id ms)" "[] \<notin> mi_id ` set ms" "mi_id ` set ms = set ids"
      using assms(7,8) ms(1) by (simp, metis set_map, metis set_map)
    have before: "contact_of ?b i = contact_of b i" and after: "contact_of b' i = contact_of (snd (apply_roster ms ?b)) i" for i
      using c(3) by simp_all
    note listed = apply_roster_listed [OF inv ids(1,2) ms(2), unfolded before ms(1) ids(3)]
    have "introduced (contact_of b i) (listed_keys s i) (contact_of b' i)" if "i \<in> set ids" for i
      using that listed unfolding after ids(3) [symmetric] by blast
    moreover have "contact_of b' i = contact_of b i" if "i \<notin> set ids" for i
      using that listed unfolding after by blast
    ultimately show ?thesis using c(1,2) listed by simp
  qed
  then have "\<forall>view. relays view s conv_id env sig \<and> c_roster_seq cb < m_seq view \<and> \<not> is_expired b cb (m_server_ts view) \<longrightarrow>
         (let b' = snd (handle_incoming W' view True b) in
            map_option c_roster (conv_of b' conv_id) = Some (Some ids)
            \<and> (\<forall>i \<in> set ids. introduced (contact_of b i) (listed_keys s i) (contact_of b' i))
            \<and> (\<forall>i. i \<notin> set ids \<longrightarrow> contact_of b' i = contact_of b i))"
    unfolding Let_def by blast
  with req show ?thesis by blast
qed

lemma demo_key_lengths: "length (sign_pub (keys_of x)) = 32" "length (enc_pub (keys_of x)) = 32"
  using crypto_lengths [OF demo_crypto_laws] by (simp_all add: keys_of_def)

lemma members_reach_witness:
  "\<exists>ms res t env sig. announce (the_world (MemberRemove ''zoe'' (Some ms))) chat (\<lambda>ms. MemberRemove ''zoe'' (Some ms)) [alice, bob] her_app
        = (Inr res, t)
    \<and> (let b' = snd (handle_incoming (the_world (MemberRemove ''zoe'' (Some ms))) (frame_of env sig 3) True his_app) in
         map_option c_roster (conv_of b' chat) = Some (Some [alice, bob])
         \<and> introduced (contact_of his_app alice) (listed_keys her_app alice) (contact_of b' alice))"
proof -
  let ?mk = "\<lambda>ms. MemberRemove ''zoe'' (Some ms)"
  let ?i = "\<lambda>i x. \<lparr>mi_id = i, mi_username = ''name'', mi_sign_pub = b64encode (sign_pub (keys_of x)), mi_enc_pub = b64encode (enc_pub (keys_of x))\<rparr>"
  let ?ms = "[?i alice 5, ?i bob 6]" let ?W = "the_world (?mk ?ms)"
  have infos: "member_infos her_app [alice, bob] = Inr ?ms"
    by (simp add: member_info_def her_app_sel contact_for_def)
  obtain res t where send: "send_payload ?W chat (?mk ?ms) 0 True her_app = (Inr res, t)"
    using sends_from [of her_app "?mk ?ms" 0 True] by (auto simp: her_app_sel)
  then have run: "announce ?W chat ?mk [alice, bob] her_app = (Inr res, t)" by (simp add: announce_def infos del: member_infos.simps)
  have reaches: "reaches ?W ?W her_app his_app chat (?mk ?ms)" by (simp add: reaches_demo)
  have carried: "carries (?mk ?ms) ?ms" by (simp add: carries_def)
  have apart: "distinct [alice, bob]" by (simp add: names_distinct)
  have named: "[] \<notin> set [alice, bob]" by (simp add: alice_def bob_def)
  have lengths: "\<forall>i \<in> set [alice, bob]. length (fst (listed_keys her_app i)) = 32 \<and> length (snd (listed_keys her_app i)) = 32"
    by (simp add: listed_keys_def her_app_sel contact_for_def demo_key_lengths)
  obtain env sig where all: "\<forall>view. relays view her_app chat env sig \<and> c_roster_seq the_chat < m_seq view \<and> \<not> is_expired his_app the_chat (m_server_ts view)
      \<longrightarrow> (let b' = snd (handle_incoming ?W view True his_app) in
            map_option c_roster (conv_of b' chat) = Some (Some [alice, bob])
            \<and> (\<forall>i \<in> set [alice, bob]. introduced (contact_of his_app i) (listed_keys her_app i) (contact_of b' i))
            \<and> (\<forall>i. i \<notin> set [alice, bob] \<longrightarrow> contact_of b' i = contact_of his_app i))"
    using members_reach [of ?W ?W her_app his_app chat ?mk ?ms "[alice, bob]" res t the_chat, OF reaches infos carried run
        his_app_inv his_app_sel(3) apart named lengths] by blast
  have "relays (frame_of env sig 3) her_app chat env sig"
    by (simp add: relays_def frame_of_def her_app_sel session_for_def)
  then show ?thesis
    using run all [rule_format, of "frame_of env sig 3"] 
    by (intro exI [of _ ?ms] exI [of _ res] exI [of _ t] exI [of _ env] exI [of _ sig]) (simp add: frame_sel the_chat_sel retention_off Let_def)
qed

end
