(* ===== verification/Calling.thy ===== *)
theory Calling
  imports Together CallExamples
begin

text \<open>
  Two phones together: what one hands to \<open>sendPayload\<close>, the other's handler gets. A call rings, is answered and
  connects, and hanging up on one side ends it on both.
\<close>

section \<open>A signal on its way\<close>

text \<open>
  A frame marked as ephemeral: \<open>handleIncoming\<close> hands its signal to \<open>handleCallSignal\<close>, as its last step. (The
  signals of voice channels, which go to \<open>handleVoiceSignal\<close> instead, leave the phone alone.)
\<close>

definition hear :: "world \<Rightarrow> message_view \<Rightarrow> phone \<Rightarrow> phone" where
  "hear W view s =
     (let a = snd (handle_incoming W view False (ph_app s))
      in fold (\<lambda>(sender, device, conv, p). handle_call_signal W sender device conv p)
           (drop (length (a_signals (ph_app s))) (a_signals a)) (s\<lparr>ph_app := a\<rparr>))"

definition told :: "string \<times> string \<times> string \<times> payload \<Rightarrow> phone \<Rightarrow> phone" where
  "told sg s = s\<lparr>ph_app := (ph_app s)\<lparr>a_signals := a_signals (ph_app s) @ [sg]\<rparr>\<rparr>"

lemma call_signal_named: "\<exists>t. payload_t (Call sig) = Some t \<and> starts_with ''call.'' t"
  by (cases sig) (simp_all add: starts_with_def)

lemma hear_signal:
  assumes "handle_incoming W view False (ph_app b) = deliver_signal view (Some (Call sig)) (ph_app b)"
    and "a_session (ph_app b) = Some si" and "m_sender_account view \<noteq> si_account_id si"
  shows "hear W view b = on_call_signal W (m_sender_account view) (m_conv_id view) sig
    (told (m_sender_account view, m_sender_device view, m_conv_id view, Call sig) b)"
proof -
  obtain t where "payload_t (Call sig) = Some t" "starts_with ''call.'' t" using call_signal_named by blast
  then show ?thesis
    using assms(2,3) by (simp add: hear_def assms(1) deliver_signal_def handle_call_signal_def told_def ret_def Let_def)
qed

text \<open>What \<open>sendSignal\<close> sends reaches the handler of every recipient.\<close>

lemma signal_arrives:
  assumes "reaches W W' (ph_app s) (ph_app b) conv (Call sig)" and "a_session (ph_app s) = Some sa"
    and "a_session (ph_app b) = Some sb" and "si_account_id sa \<noteq> si_account_id sb"
    and "fst (send_payload W conv (Call sig) (FLAG_EPHEMERAL OR FLAG_URGENT) True (ph_app s)) = Inr res"
  shows "\<exists>env sg. a_requests (ph_app (send_signal W conv sig s)) = a_requests (ph_app s) @ [RSend conv env sg]
    \<and> (\<forall>view. relays view (ph_app s) conv env sg \<longrightarrow>
         hear W' view b = on_call_signal W' (si_account_id sa) conv sig
           (told (si_account_id sa, m_sender_device view, conv, Call sig) b))"
proof -
  obtain t where "send_payload W conv (Call sig) (FLAG_EPHEMERAL OR FLAG_URGENT) True (ph_app s) = (Inr res, t)"
    using assms(5) by (metis prod.collapse)
  then obtain env sg where req: "a_requests t = a_requests (ph_app s) @ [RSend conv env sg]"
    and get: "\<And>view. relays view (ph_app s) conv env sg \<Longrightarrow>
       handle_incoming W' view False (ph_app b) = deliver_signal view (Some (Call sig)) (ph_app b)"
    and t: "t = snd (send_payload W conv (Call sig) (FLAG_EPHEMERAL OR FLAG_URGENT) True (ph_app s))"
    using arrives [OF assms(1)] by (metis snd_conv)
  have "hear W' view b = on_call_signal W' (si_account_id sa) conv sig
        (told (si_account_id sa, m_sender_device view, conv, Call sig) b)" if "relays view (ph_app s) conv env sg" for view
    using hear_signal [OF get [OF that] assms(3)] that assms(2,4) by (simp add: relays_def)
  then show ?thesis using req by (auto simp: send_signal_def t)
qed

section \<open>Hanging up\<close>

lemma told_sel:
  "ph_call (told x b) = ph_call b" "ph_media (told x b) = ph_media b" "ph_pc (told x b) = ph_pc b" "held (told x b) = held b"
  "call_is i (told x b) = call_is i b" "call_in st (told x b) = call_in st b"
  by (simp_all add: told_def held_def call_is_def call_in_def)

text \<open>C18: Hanging up ends the call on both sides. When a call that runs on two phones is hung up on one of them and the
signal could be sent, exactly one envelope goes out; the phone's call has ended; and on the other phone, when it gets this
envelope from the server, the call has ended too - as a missed one, if it was still ringing in - with the microphone,
camera and screen that it held stopped and its connection closed.\<close>

theorem hangup_ends_both:
  assumes "ph_call a = Some c" and "cs_status c \<noteq> Ended" and "ph_call b = Some d" and "cs_status d \<noteq> Ended" and "cs_id d = cs_id c"
    and "reaches W W' (ph_app a) (ph_app b) (cs_conv_id c) (Call (CallHangup (cs_id c)))"
    and "a_session (ph_app a) = Some sa" and "a_session (ph_app b) = Some sb" and "si_account_id sa \<noteq> si_account_id sb"
    and "call_inv b" and "fst (send_payload W (cs_conv_id c) (Call (CallHangup (cs_id c))) (FLAG_EPHEMERAL OR FLAG_URGENT) True (ph_app a)) = Inr res"
  shows "\<exists>env sg. a_requests (ph_app (perform W Hangup a)) = a_requests (ph_app a) @ [RSend (cs_conv_id c) env sg]
    \<and> abs_call (perform W Hangup a) = Some (cs_id c, Ended)
    \<and> (\<forall>view. relays view (ph_app a) (cs_conv_id c) env sg \<longrightarrow>
         (let b' = hear W' view b in
            abs_call b' = Some (cs_id c, Ended)
            \<and> map_option cs_end_reason (ph_call b') = Some (Some (if cs_status d = RingingIn then Missed else CallEnded))
            \<and> md_live (ph_media b') = filter (\<lambda>x. x \<notin> set (held b)) (md_live (ph_media b))
            \<and> ph_pc b' = None \<and> (\<forall>p. ph_pc b = Some p \<longrightarrow> peer_closed p (ph_media b'))))"
proof -
  let ?sig = "CallHangup (cs_id c)"
  obtain env sg where req: "a_requests (ph_app (send_signal W (cs_conv_id c) ?sig a)) = a_requests (ph_app a) @ [RSend (cs_conv_id c) env sg]"
    and get: "\<And>view. relays view (ph_app a) (cs_conv_id c) env sg \<Longrightarrow> hear W' view b
       = on_call_signal W' (si_account_id sa) (cs_conv_id c) ?sig
           (told (si_account_id sa, m_sender_device view, cs_conv_id c, Call ?sig) b)"
    using signal_arrives [OF assms(6-9,11)] by blast
  let ?r = "if cs_status d = RingingIn then Missed else CallEnded"
  have heard: "hear W' view b = end_call ?r False (told (si_account_id sa, m_sender_device view, cs_conv_id c, Call ?sig) b)"
    if "relays view (ph_app a) (cs_conv_id c) env sg" for view
    using get [OF that] assms(3,5) by (simp add: told_sel call_is_def call_in_def)
  have b': "let b' = end_call ?r False (told x b) in
        abs_call b' = Some (cs_id c, Ended) \<and> map_option cs_end_reason (ph_call b') = Some (Some ?r)
        \<and> md_live (ph_media b') = filter (\<lambda>x. x \<notin> set (held b)) (md_live (ph_media b))
        \<and> ph_pc b' = None \<and> (\<forall>p. ph_pc b = Some p \<longrightarrow> peer_closed p (ph_media b'))" for x
    using assms(3-5,10)
    by (auto simp: Let_def end_call_sel abs_call_def told_sel release_live call_inv_def intro!: release_closed)
  have "a_requests (ph_app (perform W Hangup a)) = a_requests (ph_app a) @ [RSend (cs_conv_id c) env sg]"
    "abs_call (perform W Hangup a) = Some (cs_id c, Ended)"
    using req assms(1,2) by (simp_all add: hangup_def end_call_sel abs_call_def send_signal_def)
  with b' heard show ?thesis by (intro exI [of _ env] exI [of _ sg]) simp
qed

text \<open>Alice has dialled Bob, whose phone rings.\<close>

definition ringing_at_bob :: phone where
  "ringing_at_bob = perform her_world (Signal alice phone chat (Call (CallOffer ticket [] (Some False) None))) (new_phone his_app)"

lemma ringing_at_bob_sel:
  "ph_app ringing_at_bob = his_app"
  "\<exists>d. ph_call ringing_at_bob = Some d \<and> cs_id d = ticket \<and> cs_status d = RingingIn"
  by (simp_all add: ringing_at_bob_def handle_call_signal_def his_app_sel session_for_def names_distinct new_phone_def on_offer_def
      call_is_def live_call_def fresh_state_def new_stream_def set_ring_def start_timer_def Let_def)

lemma ringing_at_bob_inv: "call_inv ringing_at_bob"
proof -
  have "call_step her_world (new_phone his_app) ringing_at_bob"
    unfolding ringing_at_bob_def by (rule call_step.step) simp
  then show ?thesis using call_inv_reachable by (blast intro: r_into_rtranclp)
qed

lemma dialled_app: "a_session (ph_app dialled) = Some (session_for alice)" "a_keys (ph_app dialled) = Some (keys_of 5)"
  "conv_of (ph_app dialled) chat = Some the_chat" "a_contacts (ph_app dialled) = a_contacts her_app" "a_now (ph_app dialled) = 1000000"
  by (simp_all add: dialled_def her_phone_def new_phone_def start_call_def live_call_def her_app_sel other_member_def
      the_chat_def session_for_def names_distinct fresh_state_def new_stream_def wait_def her_world_def the_world_def
      Let_def bob_nonempty)

lemma hangup_ends_both_witness:
  "\<exists>env sg. abs_call (perform (the_world (Call (CallHangup ticket))) Hangup dialled) = Some (ticket, Ended)
    \<and> abs_call (hear (the_world (Call (CallHangup ticket))) (frame_of env sg 0) ringing_at_bob) = Some (ticket, Ended)"
proof -
  let ?p = "Call (CallHangup ticket)" let ?W = "the_world ?p"
  obtain c where c: "ph_call dialled = Some c" "cs_id c = ticket" "cs_conv_id c = chat" "cs_status c = RingingOut"
    using dialled_sel(1) by blast
  obtain d where d: "ph_call ringing_at_bob = Some d" "cs_id d = ticket" "cs_status d = RingingIn"
    using ringing_at_bob_sel(2) by blast
  have reach: "reaches ?W ?W (ph_app dialled) his_app chat ?p"
    by (rule reaches_cong [OF reaches_demo])
      (simp_all add: dialled_app her_app_sel sealing_contacts [OF dialled_app(4)])
  obtain res t where sent: "send_payload ?W chat ?p (FLAG_EPHEMERAL OR FLAG_URGENT) True (ph_app dialled) = (Inr res, t)"
    using sends_from [OF dialled_app] by blast
  have live: "cs_status c \<noteq> Ended" "cs_status d \<noteq> Ended" "cs_id d = cs_id c" using c d by simp_all
  have apart: "si_account_id (session_for alice) \<noteq> si_account_id (session_for bob)" by (simp add: session_for_def names_distinct)
  have bob: "a_session (ph_app ringing_at_bob) = Some (session_for bob)" by (simp add: ringing_at_bob_sel(1) his_app_sel)
  have sent': "fst (send_payload ?W chat ?p (FLAG_EPHEMERAL OR FLAG_URGENT) True (ph_app dialled)) = Inr res" by (simp add: sent)
  note both = hangup_ends_both [OF c(1) live(1) d(1) live(2,3), of ?W ?W "session_for alice" "session_for bob" res,
      unfolded c(2,3) ringing_at_bob_sel(1), OF reach dialled_app(1) bob [unfolded ringing_at_bob_sel(1)] apart ringing_at_bob_inv sent']
  obtain env sg where "abs_call (perform ?W Hangup dialled) = Some (ticket, Ended)"
    "\<And>view. relays view (ph_app dialled) chat env sg \<Longrightarrow> abs_call (hear ?W view ringing_at_bob) = Some (ticket, Ended)"
    using both unfolding Let_def by blast
  moreover have "relays (frame_of env sg 0) (ph_app dialled) chat env sg"
    by (simp add: relays_def frame_of_def dialled_app(1) session_for_def)
  ultimately show ?thesis by blast
qed

section \<open>A call gets through\<close>

text \<open>Ready for a call; in a call at a stage of its set-up, with the task that waits, the signals sent and the live
tracks; and the connection of the call with its descriptions.\<close>

definition ready :: "phone \<Rightarrow> bool" where
  "ready s \<longleftrightarrow> \<not> live_call s \<and> \<not> ph_in_voice s \<and> ph_tasks s = [] \<and> ph_camera s = None \<and> ph_screen s = None \<and> ph_queued s = []"

definition at_stage :: "session_info \<Rightarrow> call_status \<Rightarrow> string \<Rightarrow> string \<Rightarrow> task list \<Rightarrow> (string \<times> payload) list \<Rightarrow> nat list \<Rightarrow> phone \<Rightarrow> bool" where
  "at_stage me st conv i ts sent live s \<longleftrightarrow>
     (\<exists>c. ph_call s = Some c \<and> cs_id c = i \<and> cs_conv_id c = conv \<and> cs_status c = st \<and> \<not> cs_video c \<and> \<not> cs_remote_video c)
     \<and> ph_camera s = None \<and> ph_screen s = None \<and> ph_queued s = [] \<and> ph_tasks s = ts \<and> ph_sent s = sent
     \<and> md_live (ph_media s) = live \<and> a_session (ph_app s) = Some me"

definition linked :: "nat \<Rightarrow> string option \<Rightarrow> string option \<Rightarrow> phone \<Rightarrow> bool" where
  "linked p here there s \<longleftrightarrow> ph_pc s = Some p \<and> of_call p s
     \<and> pe_local (md_peers (ph_media s) ! p) = here \<and> pe_remote (md_peers (ph_media s) ! p) = there"

lemmas call_defs = at_stage_def linked_def of_call_def peer_closed_def on_media_def on_peer_def wait_def update_call_def Let_def

lemma dialling:
  assumes "ready s" and "a_session (ph_app s) = Some si" and "conv_of (ph_app s) conv = Some v" and "c_kind v = Direct"
    and "other_member v (si_account_id si) = Some peer" and "peer \<noteq> []"
  shows "at_stage si RingingOut conv (w_uuid W (a_draws (ph_app s)))
    [TIce (Starting conv (w_uuid W (a_draws (ph_app s))) False)] (ph_sent s) (md_live (ph_media s)) (perform W (Start conv False) s)"
  using assms by (simp add: start_call_def ready_def fresh_state_def new_stream_def call_defs)

lemma connecting:
  assumes "at_stage me st conv i [TIce pu] sent live s"
  shows "enabled (Resume 0 (GotTurn res)) s \<and> (\<exists>p. at_stage me st conv i [TMic pu p] sent live (perform W (Resume 0 (GotTurn res)) s)
    \<and> linked p None None (perform W (Resume 0 (GotTurn res)) s))
    \<and> ph_pending_offer (perform W (Resume 0 (GotTurn res)) s) = ph_pending_offer s"
  using assms by (auto simp: create_connection_def new_stream_def new_peer_def call_defs)

lemma slots_stage:
  assumes "at_stage me st conv i ts sent live s" and "linked p here there s"
  shows "\<exists>t. ensure_video_slots p s = (Inr (), t) \<and> at_stage me st conv i ts sent live t \<and> linked p here there t"
  using assms
  by (auto simp: ensure_video_slots_def slot_streams_def attach_def first_video_def ret_def call_defs)

lemma wait_stage: "at_stage me st conv i [] sent live s \<Longrightarrow> at_stage me st conv i [tk] sent live (wait tk s)"
  "linked p here there (wait tk s) = linked p here there s"
  by (simp_all add: at_stage_def wait_def linked_def of_call_def)

lemma without_task: "at_stage me st conv i [tk] sent live s \<Longrightarrow> at_stage me st conv i [] sent live (s\<lparr>ph_tasks := []\<rparr>)"
  "linked p here there (s\<lparr>ph_tasks := []\<rparr>) = linked p here there s"
  by (simp_all add: at_stage_def linked_def of_call_def)

lemma mic_stage:
  assumes "at_stage me st conv i [] sent live s" and "linked p None None s"
  shows "\<exists>t. resume W (TMic pu p) (GotStream [m] []) s = peer_created pu p t
    \<and> at_stage me st conv i [] sent (live @ [m]) t \<and> linked p None None t \<and> ph_pending_offer t = ph_pending_offer s"
  using assms
  by (auto simp: granted_def capture_def mic_granted_def add_audio_tracks_def call_defs)

lemma perform_first:
  assumes "at_stage me st conv i [tk] sent live s"
  shows "perform W (Resume 0 out) s = resume W tk out (s\<lparr>ph_tasks := []\<rparr>)"
    "enabled (Resume 0 out) s = (case task_peer tk of None \<Rightarrow> True | Some p \<Rightarrow> \<not> peer_closed p (ph_media s))"
  using assms by (simp_all add: at_stage_def)

lemma send_session: "a_session (snd (send_payload W conv p flags track s)) = a_session s"
  by (simp add: send_payload_def attempt_def http_send_def throw_def request_def Let_def split: option.split sum.split prod.split)

lemma said:
  assumes "at_stage me st conv i [] sent live s"
  shows "at_stage me st conv i [] (sent @ [(to, Call sig)]) live (send_signal W to sig s)"
    "linked p here there (send_signal W to sig s) = linked p here there s"
  using assms by (simp_all add: at_stage_def linked_def of_call_def send_signal_def send_session)

lemma timers_stage:
  assumes "at_stage me st conv i ts sent live s"
  shows "at_stage me st conv i ts sent live (set_ring tm s)" "at_stage me st conv i ts sent live (set_retry tm s)"
    "at_stage me st conv i ts sent live (stop_retry s)" "at_stage me st conv i ts sent live (clear_ring s)"
  using assms
  by (simp_all add: at_stage_def set_ring_def set_retry_def stop_retry_def clear_ring_def start_timer_def clear_id_def Let_def)

lemma timers_linked:
  "linked p here there (set_ring tm s) = linked p here there s" "linked p here there (set_retry tm s) = linked p here there s"
  "linked p here there (stop_retry s) = linked p here there s" "linked p here there (clear_ring s) = linked p here there s"
  by (simp_all add: linked_def of_call_def set_ring_def set_retry_def stop_retry_def clear_ring_def start_timer_def clear_id_def Let_def)

lemma described_stage:
  assumes "at_stage me st conv i [] sent live s" and "linked p here there s"
  shows "at_stage me st conv i [] sent live (set_local p (Some sdp) s)" "linked p (Some sdp) there (set_local p (Some sdp) s)"
    "at_stage me st conv i [] sent live (set_remote p sdp trs s)" "linked p here (Some sdp) (set_remote p sdp trs s)"
  using assms by (simp_all add: set_local_def set_remote_def sdp_text_def call_defs)

lemma linked_open: "linked p here there s \<Longrightarrow> \<not> peer_closed p (ph_media s)"
  by (simp add: linked_def of_call_def)

lemma our_video_stage: "at_stage me st conv i ts sent live s \<Longrightarrow> our_video s = False"
  by (auto simp: at_stage_def our_video_def)

text \<open>The steps of the caller.\<close>

lemma caller_mic:
  assumes "at_stage me st conv i [TMic (Starting conv i False) p] sent live s" and "linked p None None s"
  shows "\<exists>t. happens W (Resume 0 (GotStream [m] []) # evs) s = happens W evs t
    \<and> at_stage me st conv i [TOffer conv i p] sent (live @ [m]) t \<and> linked p None None t"
proof -
  obtain u where u: "resume W (TMic (Starting conv i False) p) (GotStream [m] []) (s\<lparr>ph_tasks := []\<rparr>) = begin_offer conv i p u"
      "at_stage me st conv i [] sent (live @ [m]) u" "linked p None None u"
    using mic_stage [OF without_task(1) [OF assms(1)], of p W "Starting conv i False" m] assms(2) without_task(2) by auto
  obtain v where "ensure_video_slots p u = (Inr (), v)" "at_stage me st conv i [] sent (live @ [m]) v" "linked p None None v"
    using slots_stage [OF u(2,3)] by blast
  then show ?thesis
    using perform_first [OF assms(1)] u(1)
    by (auto simp: begin_offer_def wait_stage simp del: perform.simps resume.simps enabled.simps)
qed

lemma caller_offer:
  assumes "at_stage me st conv i [TOffer conv i p] sent live s" and "linked p None None s"
  shows "\<exists>t. happens W (Resume 0 (GotSdp (Some sdp)) # Resume 0 Resolved # Resume 0 out # evs) s = happens W evs t
    \<and> at_stage me st conv i [] (sent @ [(conv, Call (CallOffer i sdp (Some False) None))]) live t \<and> linked p (Some sdp) None t"
proof -
  let ?a = "wait (TLocalOffer conv i p (Some sdp)) (s\<lparr>ph_tasks := []\<rparr>)"
  have a: "at_stage me st conv i [TLocalOffer conv i p (Some sdp)] sent live ?a" "linked p None None ?a"
    using wait_stage(1) [OF without_task(1) [OF assms(1)]] assms(2) by (simp_all add: wait_stage(2) without_task(2))
  let ?l = "set_local p (Some sdp) (?a\<lparr>ph_tasks := []\<rparr>)"
  have l: "at_stage me st conv i [] sent live ?l" "linked p (Some sdp) None ?l"
    using described_stage [OF without_task(1) [OF a(1)], of p None None sdp] a(2) by (simp_all add: without_task(2))
  let ?b = "wait (TOfferSent conv i p) (send_signal W conv (CallOffer i sdp (Some False) None) ?l)"
  have b: "at_stage me st conv i [TOfferSent conv i p] (sent @ [(conv, Call (CallOffer i sdp (Some False) None))]) live ?b"
      "linked p (Some sdp) None ?b"
    using wait_stage(1) [OF said(1) [OF l(1)]] l(2) by (simp_all add: wait_stage(2) said(2) [OF l(1)])
  let ?t = "set_retry (RetryOffer conv i p) (stop_retry (set_ring (RingOut conv i) (?b\<lparr>ph_tasks := []\<rparr>)))"
  have "happens W (Resume 0 (GotSdp (Some sdp)) # Resume 0 Resolved # Resume 0 out # evs) s = happens W evs ?t"
    using perform_first [OF assms(1)] perform_first [OF a(1)] perform_first [OF b(1)] linked_open [OF assms(2)] linked_open [OF a(2)]
      our_video_stage [OF without_task(1) [OF a(1)]]
    by (simp add: described_def settled_def sdp_text_def del: perform.simps enabled.simps)
  then show ?thesis
    using timers_stage [OF without_task(1) [OF b(1)]] b(2) by (intro exI [of _ ?t]) (simp add: timers_stage timers_linked without_task(2))
qed

text \<open>Dialling, up to the offer that was sent.\<close>

lemma caller_rings:
  assumes "ready s" and "a_session (ph_app s) = Some me" and "conv_of (ph_app s) conv = Some v" and "c_kind v = Direct"
    and "other_member v (si_account_id me) = Some peer" and "peer \<noteq> []" and "i = w_uuid W (a_draws (ph_app s))"
  shows "\<exists>t p. happens W [Start conv False, Resume 0 (GotTurn res), Resume 0 (GotStream [m] []), Resume 0 (GotSdp (Some sdp)),
        Resume 0 Resolved, Resume 0 out] s = Some t
    \<and> at_stage me RingingOut conv i [] (ph_sent s @ [(conv, Call (CallOffer i sdp (Some False) None))])
        (md_live (ph_media s) @ [m]) t \<and> linked p (Some sdp) None t"
proof -
  let ?a = "perform W (Start conv False) s" let ?b = "perform W (Resume 0 (GotTurn res)) ?a"
  have a: "at_stage me RingingOut conv i [TIce (Starting conv i False)] (ph_sent s) (md_live (ph_media s)) ?a"
    using dialling [OF assms(1-6)] assms(7) by simp
  obtain p where b: "enabled (Resume 0 (GotTurn res)) ?a" "linked p None None ?b"
      "at_stage me RingingOut conv i [TMic (Starting conv i False) p] (ph_sent s) (md_live (ph_media s)) ?b"
    using connecting [OF a] by blast
  obtain t where "happens W [Resume 0 (GotStream [m] []), Resume 0 (GotSdp (Some sdp)), Resume 0 Resolved, Resume 0 out] ?b = Some t"
      "at_stage me RingingOut conv i [] (ph_sent s @ [(conv, Call (CallOffer i sdp (Some False) None))])
        (md_live (ph_media s) @ [m]) t" "linked p (Some sdp) None t"
    using caller_mic [OF b(3,2), of W m "[Resume 0 (GotSdp (Some sdp)), Resume 0 Resolved, Resume 0 out]"]
      caller_offer [of me RingingOut conv i p _ _ _ W sdp out "[]"] by (metis happens.simps(1))
  then show ?thesis using b(1) by (intro exI [of _ t] exI [of _ p]) (simp del: perform.simps)
qed

text \<open>The steps of the phone that is called.\<close>

lemma callee_rings:
  assumes "ready s" and "a_session (ph_app s) = Some me" and "sender \<noteq> si_account_id me" and "\<not> call_is i s"
  shows "at_stage me RingingIn conv i [] (ph_sent s) (md_live (ph_media s))
      (perform W (Signal sender device conv (Call (CallOffer i sdp (Some False) None))) s)"
    "ph_pending_offer (perform W (Signal sender device conv (Call (CallOffer i sdp (Some False) None))) s) = Some sdp"
  using assms
  by (simp_all add: handle_call_signal_def on_offer_def ready_def fresh_state_def new_stream_def set_ring_def start_timer_def call_defs)

lemma callee_accepts:
  assumes "at_stage me RingingIn conv i [] sent live s" and "ph_pending_offer s = Some sdp"
  shows "at_stage me CallConnecting conv i [TIce (Answering conv i False)] sent live (perform W Accept s)"
    "ph_pending_offer (perform W Accept s) = Some sdp"
  using assms by (auto simp: accept_call_def clear_ring_def clear_id_def call_defs)

lemma callee_mic:
  assumes "at_stage me st conv i [TMic (Answering conv i False) p] sent live s" and "linked p None None s"
    and "ph_pending_offer s = Some sdp"
  shows "\<exists>t. happens W (Resume 0 (GotStream [m] []) # evs) s = happens W evs t
    \<and> at_stage me st conv i [TRemoteOffer conv i False p sdp] sent (live @ [m]) t \<and> linked p None None t"
proof -
  obtain u where u: "resume W (TMic (Answering conv i False) p) (GotStream [m] []) (s\<lparr>ph_tasks := []\<rparr>) = peer_created (Answering conv i False) p u"
      "at_stage me st conv i [] sent (live @ [m]) u" "linked p None None u" "ph_pending_offer u = Some sdp"
    using mic_stage [OF without_task(1) [OF assms(1)], of p W "Answering conv i False" m] assms(2,3) without_task(2) by auto
  then show ?thesis
    using perform_first [OF assms(1)] linked_open [OF u(3)]
    by (auto simp: wait_stage simp del: perform.simps resume.simps enabled.simps)
qed

lemma queue_stage:
  assumes "at_stage me st conv i ts sent live s"
  shows "at_stage me st conv i ts sent live (s\<lparr>ph_queued := []\<rparr>)" "linked p here there (s\<lparr>ph_queued := []\<rparr>) = linked p here there s"
    "linked p here there s \<Longrightarrow> flush_queued_ice k s = flush_rest [] k (s\<lparr>ph_queued := []\<rparr>)"
  using assms by (simp_all add: at_stage_def linked_def of_call_def flush_queued_ice_def)

lemma callee_answers:
  assumes "at_stage me st conv i [TRemoteOffer conv i False p sdp] sent live s" and "linked p None None s"
  shows "\<exists>t. happens W (Resume 0 (GotRemote trs) # Resume 0 (GotSdp (Some ans)) # Resume 0 Resolved # Resume 0 out # evs) s = happens W evs t
    \<and> at_stage me st conv i [] (sent @ [(conv, Call (CallAnswer i ans (Some False) None))]) live t \<and> linked p (Some ans) (Some sdp) t"
proof -
  let ?r = "set_remote p sdp trs (s\<lparr>ph_tasks := []\<rparr>)"
  have r: "at_stage me st conv i [] sent live ?r" "linked p None (Some sdp) ?r"
    using described_stage(3,4) [OF without_task(1) [OF assms(1)], of p None None sdp trs] assms(2) by (simp_all add: without_task(2))
  obtain v where v: "ensure_video_slots p ?r = (Inr (), v)" "at_stage me st conv i [] sent live v" "linked p None (Some sdp) v"
    using slots_stage [OF r] by blast
  let ?a = "wait (TAnswer conv i p) v"
  have a: "at_stage me st conv i [TAnswer conv i p] sent live ?a" "linked p None (Some sdp) ?a"
    using wait_stage(1) [OF v(2)] v(3) by (simp_all add: wait_stage(2))
  let ?b = "wait (TLocalAnswer conv i p (Some ans)) (?a\<lparr>ph_tasks := []\<rparr>)"
  have b: "at_stage me st conv i [TLocalAnswer conv i p (Some ans)] sent live ?b" "linked p None (Some sdp) ?b"
    using wait_stage(1) [OF without_task(1) [OF a(1)]] a(2) by (simp_all add: wait_stage(2) without_task(2))
  let ?l = "set_local p (Some ans) (?b\<lparr>ph_tasks := []\<rparr>)"
  have l: "at_stage me st conv i [] sent live ?l" "linked p (Some ans) (Some sdp) ?l"
    using described_stage(1,2) [OF without_task(1) [OF b(1)], of p None "Some sdp" ans] b(2) by (simp_all add: without_task(2))
  let ?c = "wait (TAnswerSent conv i p) (send_signal W conv (CallAnswer i ans (Some False) None) ?l)"
  have c: "at_stage me st conv i [TAnswerSent conv i p] (sent @ [(conv, Call (CallAnswer i ans (Some False) None))]) live ?c"
      "linked p (Some ans) (Some sdp) ?c"
    using wait_stage(1) [OF said(1) [OF l(1)]] l(2) by (simp_all add: wait_stage(2) said(2) [OF l(1)])
  note d = without_task(1) [OF c(1)]
  let ?t = "set_retry (RetryAnswer conv i p) (stop_retry (?c\<lparr>ph_tasks := [], ph_queued := []\<rparr>))"
  have dl: "linked p (Some ans) (Some sdp) (?c\<lparr>ph_tasks := []\<rparr>)" using c(2) by (simp only: without_task(2))
  have flush: "flush_queued_ice (ThenRepeatAnswer conv i p) (?c\<lparr>ph_tasks := []\<rparr>) = ?t"
    using queue_stage(3) [OF d dl] by (simp add: flush_rest_def)
  have "happens W (Resume 0 (GotRemote trs) # Resume 0 (GotSdp (Some ans)) # Resume 0 Resolved # Resume 0 out # evs) s = happens W evs ?t"
    using perform_first [OF assms(1)] perform_first [OF a(1)] perform_first [OF b(1)] perform_first [OF c(1)]
      linked_open [OF assms(2)] linked_open [OF a(2)] linked_open [OF b(2)] our_video_stage [OF without_task(1) [OF b(1)]] flush v(1)
    by (simp add: described_def settled_def sdp_text_def begin_answer_def del: perform.simps enabled.simps)
  then show ?thesis
    using timers_stage [OF queue_stage(1) [OF d]] dl
    by (intro exI [of _ ?t]) (simp add: timers_stage timers_linked queue_stage(2) [OF d])
qed

text \<open>The connection comes up.\<close>

lemma connection_up:
  assumes "at_stage me CallConnecting conv i [] sent live s" and "linked p here there s"
  shows "enabled (Connection p PConnected) s \<and> at_stage me Active conv i [] sent live (perform W (Connection p PConnected) s)
    \<and> linked p here there (perform W (Connection p PConnected) s)"
  using assms by (auto simp: on_connection_def call_in_def call_defs)

lemma caller_answered:
  assumes "at_stage me RingingOut conv i [] sent live s" and "linked p (Some offer) None s" and "sender \<noteq> si_account_id me"
  shows "\<exists>t. happens W [Signal sender device to (Call (CallAnswer i ans (Some False) None)), Resume 0 Resolved] s = Some t
    \<and> at_stage me CallConnecting conv i [] sent live t \<and> linked p (Some offer) (Some ans) t"
proof -
  let ?a = "perform W (Signal sender device to (Call (CallAnswer i ans (Some False) None))) s"
  have a: "at_stage me CallConnecting conv i [TRemoteAnswer p ans] sent live ?a" "linked p (Some offer) None ?a"
    using assms
    by (auto simp: handle_call_signal_def on_answer_def call_is_def call_in_def stop_retry_def clear_ring_def clear_id_def call_defs)
  let ?r = "set_remote p ans [] (?a\<lparr>ph_tasks := []\<rparr>)"
  have r: "at_stage me CallConnecting conv i [] sent live ?r" "linked p (Some offer) (Some ans) ?r"
    using described_stage(3,4) [OF without_task(1) [OF a(1)], of p "Some offer" None ans "[]"] a(2) by (simp_all only: without_task(2))
  have flush: "flush_queued_ice ThenConnected ?r = ?r\<lparr>ph_queued := []\<rparr>"
    using queue_stage(3) [OF r] by (simp add: flush_rest_def)
  have "happens W [Signal sender device to (Call (CallAnswer i ans (Some False) None)), Resume 0 Resolved] s = Some (?r\<lparr>ph_queued := []\<rparr>)"
    using perform_first [OF a(1)] linked_open [OF a(2)] flush by (simp add: settled_def del: perform.simps)
  then show ?thesis using queue_stage [OF r(1)] r(2) by blast
qed

abbreviation first_offer :: "string \<Rightarrow> string \<Rightarrow> payload" where
  "first_offer i sdp \<equiv> Call (CallOffer i sdp (Some False) None)"

abbreviation first_answer :: "string \<Rightarrow> string \<Rightarrow> payload" where
  "first_answer i sdp \<equiv> Call (CallAnswer i sdp (Some False) None)"

lemma stage_sel:
  assumes "at_stage me st conv i ts sent live s"
  shows "abs_call s = Some (i, st)" "ph_sent s = sent" "md_live (ph_media s) = live"
  using assms by (auto simp: at_stage_def abs_call_def)

lemma happens_append: "happens W (evs @ evs') s = (case happens W evs s of None \<Rightarrow> None | Some t \<Rightarrow> happens W evs' t)"
  by (induction evs arbitrary: s) simp_all

text \<open>C17: A call gets through. When a person dials in a direct chat and the microphone is granted, an offer with the
browser's description is sent; when the called phone, not in a call, gets it and its person accepts and grants the
microphone, an answer is sent; and when the first phone gets that and the connections come up, the call is active on
both, each connection has its own description and the other's, and what was opened is exactly the two microphones. This
holds whatever the server said about relays.\<close>

theorem call_gets_through:
  assumes "ready a" and "ready b" and "a_session (ph_app a) = Some sa" and "a_session (ph_app b) = Some sb"
    and "conv_of (ph_app a) conv = Some v" and "c_kind v = Direct" and "other_member v (si_account_id sa) = Some (si_account_id sb)"
    and "si_account_id sb \<noteq> []" and "si_account_id sa \<noteq> si_account_id sb" and "i = w_uuid W (a_draws (ph_app a))" and "\<not> call_is i b"
  shows "\<exists>a1 a2 b1 b2 p q.
    happens W [Start conv False, Resume 0 (GotTurn turn), Resume 0 (GotStream [m] []), Resume 0 (GotSdp (Some offer)),
        Resume 0 Resolved, Resume 0 Resolved] a = Some a1
    \<and> ph_sent a1 = ph_sent a @ [(conv, first_offer i offer)]
    \<and> happens W' [Signal (si_account_id sa) device conv (first_offer i offer), Accept, Resume 0 (GotTurn turn'),
        Resume 0 (GotStream [n] []), Resume 0 (GotRemote trs), Resume 0 (GotSdp (Some ans)), Resume 0 Resolved,
        Resume 0 Resolved] b = Some b1
    \<and> ph_sent b1 = ph_sent b @ [(conv, first_answer i ans)]
    \<and> happens W [Signal (si_account_id sb) device' conv (first_answer i ans), Resume 0 Resolved, Connection p PConnected] a1 = Some a2
    \<and> happens W' [Connection q PConnected] b1 = Some b2
    \<and> abs_call a2 = Some (i, Active) \<and> abs_call b2 = Some (i, Active)
    \<and> linked p (Some offer) (Some ans) a2 \<and> linked q (Some ans) (Some offer) b2
    \<and> md_live (ph_media a2) = md_live (ph_media a) @ [m] \<and> md_live (ph_media b2) = md_live (ph_media b) @ [n]"
proof -
  obtain a1 p where a1: "happens W [Start conv False, Resume 0 (GotTurn turn), Resume 0 (GotStream [m] []), Resume 0 (GotSdp (Some offer)),
        Resume 0 Resolved, Resume 0 Resolved] a = Some a1"
      "at_stage sa RingingOut conv i [] (ph_sent a @ [(conv, first_offer i offer)]) (md_live (ph_media a) @ [m]) a1"
      "linked p (Some offer) None a1"
    using caller_rings [OF assms(1,3,5-8,10)] by blast
  let ?r = "perform W' (Signal (si_account_id sa) device conv (first_offer i offer)) b"
  let ?c = "perform W' Accept ?r" let ?d = "perform W' (Resume 0 (GotTurn turn')) ?c"
  have r: "at_stage sb RingingIn conv i [] (ph_sent b) (md_live (ph_media b)) ?r" "ph_pending_offer ?r = Some offer"
    using callee_rings [OF assms(2,4) assms(9) assms(11)] by blast+
  note c = callee_accepts [OF r]
  obtain q where d: "enabled (Resume 0 (GotTurn turn')) ?c" "linked q None None ?d" "ph_pending_offer ?d = Some offer"
      "at_stage sb CallConnecting conv i [TMic (Answering conv i False) q] (ph_sent b) (md_live (ph_media b)) ?d"
    using connecting [OF c(1)] c(2) by fastforce
  obtain u where u: "happens W' (Resume 0 (GotStream [n] []) # evs) ?d = happens W' evs u"
      "at_stage sb CallConnecting conv i [TRemoteOffer conv i False q offer] (ph_sent b) (md_live (ph_media b) @ [n]) u" "linked q None None u"
      if "evs = [Resume 0 (GotRemote trs), Resume 0 (GotSdp (Some ans)), Resume 0 Resolved, Resume 0 Resolved]" for evs
    using callee_mic [OF d(4,2,3)] by blast
  obtain b1 where b1: "happens W' [Resume 0 (GotRemote trs), Resume 0 (GotSdp (Some ans)), Resume 0 Resolved, Resume 0 Resolved] u = Some b1"
      "at_stage sb CallConnecting conv i [] (ph_sent b @ [(conv, first_answer i ans)]) (md_live (ph_media b) @ [n]) b1"
      "linked q (Some ans) (Some offer) b1"
    using callee_answers [OF u(2,3) [OF refl], of W' trs ans Resolved "[]"] by auto
  have answered: "happens W' [Signal (si_account_id sa) device conv (first_offer i offer), Accept, Resume 0 (GotTurn turn'),
        Resume 0 (GotStream [n] []), Resume 0 (GotRemote trs), Resume 0 (GotSdp (Some ans)), Resume 0 Resolved,
        Resume 0 Resolved] b = Some b1"
    using u(1) [OF refl] b1(1) d(1) by (simp del: perform.simps)
  obtain a' where a': "happens W [Signal (si_account_id sb) device' conv (first_answer i ans), Resume 0 Resolved] a1 = Some a'"
      "at_stage sa CallConnecting conv i [] (ph_sent a @ [(conv, first_offer i offer)]) (md_live (ph_media a) @ [m]) a'"
      "linked p (Some offer) (Some ans) a'"
    using caller_answered [OF a1(2,3) assms(9) [symmetric]] by blast
  note up = connection_up [OF a'(2,3), of W] connection_up [OF b1(2,3), of W']
  have "happens W [Signal (si_account_id sb) device' conv (first_answer i ans), Resume 0 Resolved, Connection p PConnected] a1
      = Some (perform W (Connection p PConnected) a')"
    using happens_append [of W "[Signal (si_account_id sb) device' conv (first_answer i ans), Resume 0 Resolved]" "[Connection p PConnected]" a1]
      a'(1) up by (simp del: perform.simps enabled.simps)
  moreover have "happens W' [Connection q PConnected] b1 = Some (perform W' (Connection q PConnected) b1)"
    using up by (simp del: perform.simps enabled.simps)
  ultimately show ?thesis
    using a1(1) stage_sel(2) [OF a1(2)] answered stage_sel(2) [OF b1(2)] up
      stage_sel(1,3) [OF up(1) [THEN conjunct2, THEN conjunct1]] stage_sel(1,3) [OF up(2) [THEN conjunct2, THEN conjunct1]]
    by (intro exI conjI) (assumption | simp del: happens.simps perform.simps enabled.simps)+
qed

lemma new_phone_ready: "ready (new_phone a)" "ph_app (new_phone a) = a" "\<not> call_is i (new_phone a)"
  by (simp_all add: ready_def new_phone_def live_call_def call_is_def)

lemma call_gets_through_witness:
  "\<exists>a b. (call_step her_world)\<^sup>*\<^sup>* (new_phone her_app) a \<and> (call_step her_world)\<^sup>*\<^sup>* (new_phone his_app) b
    \<and> abs_call a = Some (ticket, Active) \<and> abs_call b = Some (ticket, Active)"
proof -
  have apps: "a_session (ph_app (new_phone her_app)) = Some (session_for alice)" "a_session (ph_app (new_phone his_app)) = Some (session_for bob)"
    "conv_of (ph_app (new_phone her_app)) chat = Some the_chat"
    by (simp_all add: new_phone_ready(2) her_app_sel his_app_sel)
  have direct: "c_kind the_chat = Direct" "other_member the_chat (si_account_id (session_for alice)) = Some (si_account_id (session_for bob))"
    "si_account_id (session_for bob) \<noteq> []" "si_account_id (session_for alice) \<noteq> si_account_id (session_for bob)"
    by (simp_all add: the_chat_def other_member_def session_for_def names_distinct bob_nonempty)
  have named: "ticket = w_uuid her_world (a_draws (ph_app (new_phone her_app)))" by (simp add: her_world_def the_world_def)
  show ?thesis
    using call_gets_through [OF new_phone_ready(1,1) apps direct named new_phone_ready(3), where W' = her_world]
      happens_reachable by (meson rtranclp_trans)
qed

end
