(* ===== verification/Screens.thy ===== *)
theory Screens
  imports Admin InviteFacts
begin

text \<open>
  What a dialog puts on the screen, as a list of items in the order of its markup, each control with the event
  it makes; and \<open>ui/BotsDialog.tsx\<close> driven by its own screen: a press is possible only where the control is
  drawn and enabled, and the answers of the server arrive in any order. Style, icons and titles are left out.
\<close>

section \<open>Items\<close>

text \<open>
  A click beside a card is \<open>Backdrop\<close>. The button of a form is \<open>Submit\<close>: its last flag says whether the browser
  lets the form through (\<open>required\<close>, \<open>minLength\<close>, \<open>maxLength\<close>, \<open>pattern\<close>). A field, a field for
  whole numbers, a list of choices (code and name) and a box carry the event of their new value.
\<close>

datatype 'e item =
    Backdrop 'e
  | Line string
  | Link string string
  | Button string bool 'e
  | Submit string bool bool 'e
  | Field string string "string \<Rightarrow> 'e"
  | Spin string int "int \<Rightarrow> 'e"
  | Choice string "(string \<times> string) list" string "string \<Rightarrow> 'e"
  | Box string bool bool "bool \<Rightarrow> 'e"

fun offers :: "'e item \<Rightarrow> 'e \<Rightarrow> bool" where
  "offers (Backdrop x) e \<longleftrightarrow> e = x"
| "offers (Line s) e \<longleftrightarrow> False"
| "offers (Link s u) e \<longleftrightarrow> False"
| "offers (Button s on x) e \<longleftrightarrow> on \<and> e = x"
| "offers (Submit s on valid x) e \<longleftrightarrow> on \<and> valid \<and> e = x"
| "offers (Field l v f) e \<longleftrightarrow> (\<exists>s. e = f s)"
| "offers (Spin l v f) e \<longleftrightarrow> (\<exists>n. e = f n)"
| "offers (Choice l os v f) e \<longleftrightarrow> (\<exists>x \<in> fst ` set os. e = f x)"
| "offers (Box l v on f) e \<longleftrightarrow> on \<and> (e = f True \<or> e = f False)"

definition offered :: "'e \<Rightarrow> 'e item list \<Rightarrow> bool" where
  "offered e screen \<longleftrightarrow> (\<exists>i \<in> set screen. offers i e)"

lemma offered_simps [simp]:
  "offered e [] \<longleftrightarrow> False" "offered e (i # is) \<longleftrightarrow> offers i e \<or> offered e is"
  "offered e (is @ js) \<longleftrightarrow> offered e is \<or> offered e js"
  by (auto simp: offered_def)

lemma offered_concat: "offered e (concat (map f xs)) \<longleftrightarrow> (\<exists>x \<in> set xs. offered e (f x))"
  by (induction xs) auto

lemma offered_if: "offered e (if b then is else js) \<longleftrightarrow> (if b then offered e is else offered e js)"
  by simp

text \<open>A text that may be missing; the question of a confirmation with its two buttons.\<close>

definition error_line :: "string option \<Rightarrow> 'e item list" where
  "error_line err = (case err of None \<Rightarrow> [] | Some m \<Rightarrow> if m = [] then [] else [Line m])"

definition confirm_dialog :: "dict \<Rightarrow> string \<Rightarrow> string \<Rightarrow> 'e \<Rightarrow> 'e \<Rightarrow> 'e item list" where
  "confirm_dialog dict question label on_cancel on_confirm =
     [Backdrop on_cancel, Line question, Button (translate dict ''cancel'' []) True on_cancel, Button label True on_confirm]"

lemma offered_error_line [simp]: "\<not> offered e (error_line err)"
  by (simp add: error_line_def split: option.split)

lemma offered_confirm [simp]: "offered e (confirm_dialog dict q l x y) \<longleftrightarrow> e = x \<or> e = y"
  by (auto simp: confirm_dialog_def)

section \<open>The screen of the bots\<close>

datatype bots_press =
    CloseBots
  | CopyCred string
  | CloseCreds
  | EditBotName string
  | EditBotHook string
  | CancelEdit
  | SaveEdit
  | ChatBot bot_view
  | RenameBot bot_view
  | RotateBot bot_view
  | AskDeleteBot bot_view
  | TypeBotUsername string
  | TypeBotName string
  | TypeBotHook string
  | CreateBot
  | CancelDeleteBot
  | DeleteBot

definition BOT_API_DOCS :: string where
  "BOT_API_DOCS = ''https://github.com/william-aqn/family-messenger-e2e/blob/main/docs/BOTS.md''"

definition cred_row :: "dict \<Rightarrow> string \<times> string \<Rightarrow> bots_press item list" where
  "cred_row dict lv = [Line (fst lv), Line (snd lv), Button (translate dict ''copy'' []) True (CopyCred (snd lv))]"

definition creds_block :: "dict \<Rightarrow> bots_dialog \<Rightarrow> bots_press item list" where
  "creds_block dict s =
     (case bd_creds s of
        None \<Rightarrow> []
      | Some c \<Rightarrow>
          [Line (translate dict ''bot_credentials'' [] @ '' @'' @ cd_username c), Line (translate dict ''bot_credentials_hint'' [])]
          @ concat (map (cred_row dict) (cred_rows dict c)) @ [Button (translate dict ''close'' []) True CloseCreds])"

definition bot_items :: "dict \<Rightarrow> bots_dialog \<Rightarrow> bot_view \<Rightarrow> bots_press item list" where
  "bot_items dict s b =
     (case bot_row dict s b of
        EditRow name hook free \<Rightarrow>
          [Field (translate dict ''bot_display_name'' []) name EditBotName, Field ''https://example.com/hook'' hook EditBotHook,
           Button (translate dict ''cancel'' []) True CancelEdit, Submit (translate dict ''save'' []) free True SaveEdit]
      | BotRow at_name name hook \<Rightarrow>
          [Line at_name, Line name, Line (translate dict ''webhook_url'' [] @ '': '' @ hook),
           Button (translate dict ''chat_with_bot'' []) True (ChatBot b), Button (translate dict ''rename'' []) True (RenameBot b),
           Button (translate dict ''rotate_credentials'' []) True (RotateBot b),
           Button (translate dict ''delete_bot'' []) True (AskDeleteBot b)])"

text \<open>\<open>required minLength={4} maxLength={32} pattern="[A-Za-z0-9._]*bot"\<close>.\<close>

definition bot_username_valid :: "string \<Rightarrow> bool" where
  "bot_username_valid u \<longleftrightarrow> 4 \<le> length u \<and> length u \<le> 32 \<and> drop (length u - 3) u = ''bot''
     \<and> list_all (\<lambda>c. ascii_alnum (of_char c) \<or> c \<in> set ''._'') (take (length u - 3) u)"

definition create_form :: "dict \<Rightarrow> bool \<Rightarrow> bots_dialog \<Rightarrow> bots_press item list" where
  "create_form dict allowed s =
     (if allowed then
        [Line (translate dict ''create_bot'' []), Field (translate dict ''bot_username'' []) (bd_username s) TypeBotUsername,
         Field (translate dict ''bot_display_name'' []) (bd_display_name s) TypeBotName,
         Field (translate dict ''webhook_url'' []) (bd_webhook s) TypeBotHook, Line (translate dict ''webhook_hint'' []),
         Submit (translate dict ''create_bot'' []) (\<not> bd_busy s) (bot_username_valid (bd_username s)) CreateBot]
      else [Line (translate dict ''bots_disabled'' [])])
     @ [Link (translate dict ''bot_api_docs'' []) BOT_API_DOCS, Button (translate dict ''back'' []) True CloseBots]"

definition delete_bot_dialog :: "dict \<Rightarrow> bots_dialog \<Rightarrow> bots_press item list" where
  "delete_bot_dialog dict s =
     (case delete_bot_question dict s of
        None \<Rightarrow> []
      | Some q \<Rightarrow> confirm_dialog dict q (translate dict ''delete'' []) CancelDeleteBot DeleteBot)"

definition bots_screen :: "dict \<Rightarrow> bool \<Rightarrow> bots_dialog \<Rightarrow> bots_press item list" where
  "bots_screen dict allowed s =
     [Backdrop CloseBots, Line (translate dict ''my_bots'' []), Button (translate dict ''close'' []) True CloseBots,
      Line (translate dict ''bots_intro'' [])]
     @ creds_block dict s @ concat (map (bot_items dict s) (bd_bots s))
     @ (if bd_bots s = [] then [Line (translate dict ''no_bots'' [])] else [])
     @ error_line (bd_error s) @ create_form dict allowed s @ delete_bot_dialog dict s"

section \<open>Driving the dialog\<close>

text \<open>
  What waits for an answer: the first load, and each \<open>run\<close> at the request it is at. \<open>LoadAfter\<close> is the load inside
  a \<open>run\<close>.
\<close>

datatype bots_task = FirstLoad | LoadAfter | CreateTask | SaveTask | RotateTask bot_view | DeleteTask | ChatTask bot_view

record bots_window =
  bw_dialog :: bots_dialog
  bw_tasks :: "bots_task list"
  bw_copied :: "string list"
  bw_open :: bool

definition new_bots_window :: bots_window where
  "new_bots_window = \<lparr>bw_dialog = new_bots, bw_tasks = [FirstLoad], bw_copied = [], bw_open = True\<rparr>"

definition begin_run :: "bots_task \<Rightarrow> bots_dialog \<Rightarrow> bots_window \<Rightarrow> bots_window" where
  "begin_run t d w = w\<lparr>bw_dialog := d, bw_tasks := bw_tasks w @ [t]\<rparr>"

abbreviation in_dialog :: "(bots_dialog \<Rightarrow> bots_dialog) \<Rightarrow> bots_window \<Rightarrow> bots_window" where
  "in_dialog f w \<equiv> w\<lparr>bw_dialog := f (bw_dialog w)\<rparr>"

fun press_bots :: "bots_press \<Rightarrow> bots_window \<Rightarrow> bots_window" where
  "press_bots CloseBots w = w\<lparr>bw_open := False\<rparr>"
| "press_bots (CopyCred v) w = w\<lparr>bw_copied := bw_copied w @ [v]\<rparr>"
| "press_bots CloseCreds w = in_dialog (\<lambda>s. s\<lparr>bd_creds := None\<rparr>) w"
| "press_bots (EditBotName v) w = in_dialog (\<lambda>s. s\<lparr>bd_editing := map_option (\<lambda>b. b\<lparr>bo_display_name := v\<rparr>) (bd_editing s)\<rparr>) w"
| "press_bots (EditBotHook v) w = in_dialog (\<lambda>s. s\<lparr>bd_editing := map_option (\<lambda>b. b\<lparr>bo_webhook_url := v\<rparr>) (bd_editing s)\<rparr>) w"
| "press_bots CancelEdit w = in_dialog (\<lambda>s. s\<lparr>bd_editing := None\<rparr>) w"
| "press_bots SaveEdit w = begin_run SaveTask (save_bot (bw_dialog w)) w"
| "press_bots (ChatBot b) w = begin_run (ChatTask b) ((bw_dialog w)\<lparr>bd_busy := True, bd_error := None\<rparr>) w"
| "press_bots (RenameBot b) w = in_dialog (\<lambda>s. s\<lparr>bd_editing := Some b\<rparr>) w"
| "press_bots (RotateBot b) w = begin_run (RotateTask b) (rotate_bot b (bw_dialog w)) w"
| "press_bots (AskDeleteBot b) w = in_dialog (\<lambda>s. s\<lparr>bd_confirm := Some b\<rparr>) w"
| "press_bots (TypeBotUsername v) w = in_dialog (\<lambda>s. s\<lparr>bd_username := v\<rparr>) w"
| "press_bots (TypeBotName v) w = in_dialog (\<lambda>s. s\<lparr>bd_display_name := v\<rparr>) w"
| "press_bots (TypeBotHook v) w = in_dialog (\<lambda>s. s\<lparr>bd_webhook := v\<rparr>) w"
| "press_bots CreateBot w = begin_run CreateTask (create_bot (bw_dialog w)) w"
| "press_bots CancelDeleteBot w = in_dialog (\<lambda>s. s\<lparr>bd_confirm := None\<rparr>) w"
| "press_bots DeleteBot w = begin_run DeleteTask (confirm_delete_bot (bw_dialog w)) w"

text \<open>The answer to the task \<open>i\<close>: what the server may say to each of them.\<close>

datatype bots_reply =
    BotList "bot_view list result"
  | NewBot "(bot_view \<times> string \<times> string) result"
  | NewSecrets "(string \<times> string) result"
  | Plainly "unit result"

definition failed :: "'a result \<Rightarrow> bool" where
  "failed r \<longleftrightarrow> (case r of Inl e \<Rightarrow> True | Inr x \<Rightarrow> False)"

text \<open>The window after the task \<open>i\<close>: the dialog, and the load that follows unless the request failed.\<close>

definition next_load :: "nat \<Rightarrow> bool \<Rightarrow> bots_dialog \<Rightarrow> bots_window \<Rightarrow> bots_window" where
  "next_load i again d w =
     w\<lparr>bw_dialog := d, bw_tasks := take i (bw_tasks w) @ drop (Suc i) (bw_tasks w) @ (if again then [LoadAfter] else [])\<rparr>"

fun answer_bots :: "dict \<Rightarrow> nat \<Rightarrow> bots_task \<Rightarrow> bots_reply \<Rightarrow> bots_window \<Rightarrow> bots_window option" where
  "answer_bots dict i FirstLoad (BotList r) w = Some (next_load i False (bots_answer dict r (bw_dialog w)) w)"
| "answer_bots dict i LoadAfter (BotList r) w = Some (next_load i False (bots_loaded dict r (bw_dialog w)) w)"
| "answer_bots dict i CreateTask (NewBot r) w = Some (next_load i (\<not> failed r) (bot_created dict r (bw_dialog w)) w)"
| "answer_bots dict i SaveTask (Plainly r) w = Some (next_load i (\<not> failed r) (bot_saved dict r (bw_dialog w)) w)"
| "answer_bots dict i (RotateTask b) (NewSecrets r) w = Some (next_load i False (bot_rotated dict b r (bw_dialog w)) w)"
| "answer_bots dict i DeleteTask (Plainly r) w = Some (next_load i (\<not> failed r) (bot_deleted dict r (bw_dialog w)) w)"
| "answer_bots dict i (ChatTask b) (Plainly r) w =
     Some (case r of
             Inl e \<Rightarrow> next_load i False (bots_failed dict e (bw_dialog w)) w
           | Inr u \<Rightarrow> next_load i False ((bw_dialog w)\<lparr>bd_busy := False\<rparr>) w\<lparr>bw_open := False\<rparr>)"
| "answer_bots dict i t r w = None"

text \<open>A closed dialog is gone: nothing happens in it any more.\<close>

inductive bots_step :: "dict \<Rightarrow> bool \<Rightarrow> bots_window \<Rightarrow> bots_window \<Rightarrow> bool" for dict allowed where
  press: "bw_open w \<Longrightarrow> offered p (bots_screen dict allowed (bw_dialog w)) \<Longrightarrow> bots_step dict allowed w (press_bots p w)"
| answer: "bw_open w \<Longrightarrow> i < length (bw_tasks w) \<Longrightarrow> answer_bots dict i (bw_tasks w ! i) r w = Some w'
    \<Longrightarrow> bots_step dict allowed w w'"

section \<open>Facts\<close>

inductive_cases bots_stepE: "bots_step dict allowed w w'"

text \<open>Where each control is offered.\<close>

lemma offered_bot_items:
  "offered p (bot_items dict s b) \<longleftrightarrow>
     (if \<exists>x. bd_editing s = Some x \<and> bo_id x = bo_id b
      then (\<exists>v. p = EditBotName v) \<or> (\<exists>v. p = EditBotHook v) \<or> p = CancelEdit \<or> (p = SaveEdit \<and> \<not> bd_busy s)
      else p \<in> {ChatBot b, RenameBot b, RotateBot b, AskDeleteBot b})"
  by (auto simp: bot_items_def bot_row_def split: option.split)

lemma offered_creds:
  "offered p (creds_block dict s) \<longleftrightarrow>
     (\<exists>c. bd_creds s = Some c \<and> (p \<in> {CopyCred (cd_token c), CopyCred (cd_secret c), CloseCreds}))"
  by (auto simp: creds_block_def cred_rows_def cred_row_def split: option.split)

lemma offered_create_form:
  "offered p (create_form dict allowed s) \<longleftrightarrow> p = CloseBots \<or> allowed \<and>
     ((\<exists>v. p = TypeBotUsername v) \<or> (\<exists>v. p = TypeBotName v) \<or> (\<exists>v. p = TypeBotHook v)
      \<or> (p = CreateBot \<and> \<not> bd_busy s \<and> bot_username_valid (bd_username s)))"
  by (auto simp: create_form_def)

lemma offered_delete_bot:
  "offered p (delete_bot_dialog dict s) \<longleftrightarrow> bd_confirm s \<noteq> None \<and> p \<in> {CancelDeleteBot, DeleteBot}"
  by (auto simp: delete_bot_dialog_def delete_bot_question_def split: option.split)

lemma offered_bots_screen:
  "offered p (bots_screen dict allowed s) \<longleftrightarrow> p = CloseBots \<or> offered p (creds_block dict s)
     \<or> (\<exists>b \<in> set (bd_bots s). offered p (bot_items dict s b)) \<or> offered p (create_form dict allowed s)
     \<or> offered p (delete_bot_dialog dict s)"
  by (auto simp: bots_screen_def offered_concat)

lemmas offered_bots = offered_bots_screen offered_bot_items offered_creds offered_create_form offered_delete_bot

lemmas bots_ops = create_bot_def rotate_bot_def save_bot_def confirm_delete_bot_def run_bots_def load_bots_def bots_failed_def
  bot_created_def bot_rotated_def bot_saved_def bot_deleted_def bots_loaded_def bots_answer_def begin_run_def next_load_def

text \<open>The button is busy only while a \<open>run\<close> waits for an answer.\<close>

definition bots_inv :: "bots_window \<Rightarrow> bool" where
  "bots_inv w \<longleftrightarrow> (bd_busy (bw_dialog w) \<longrightarrow> filter (\<lambda>t. t \<noteq> FirstLoad) (bw_tasks w) \<noteq> [])"

lemma press_bots_inv: "bots_inv w \<Longrightarrow> bots_inv (press_bots p w)"
  by (cases p) (auto simp: bots_inv_def bots_ops split: option.split)

lemma remaining_tasks:
  assumes "i < length ts" and "\<not> P (ts ! i)"
  shows "filter P (take i ts @ drop (Suc i) ts) = filter P ts"
  using arg_cong [OF id_take_nth_drop [OF assms(1)], of "filter P"] assms(2) by simp

lemma first_load_inv:
  assumes "bots_inv w" and "i < length (bw_tasks w)" and "bw_tasks w ! i = FirstLoad" and "bd_busy d = bd_busy (bw_dialog w)"
  shows "bots_inv (next_load i False d w)"
  using assms remaining_tasks [of i "bw_tasks w" "\<lambda>t. t \<noteq> FirstLoad"]
  by (simp add: bots_inv_def next_load_def del: filter_append)

lemma answer_bots_inv:
  assumes "bots_inv w" and "i < length (bw_tasks w)" and "answer_bots dict i (bw_tasks w ! i) r w = Some w'"
  shows "bots_inv w'"
proof (cases "bw_tasks w ! i")
  case FirstLoad
  then obtain l where "w' = next_load i False (bots_answer dict l (bw_dialog w)) w" using assms(3) by (cases r) auto
  then show ?thesis using first_load_inv [OF assms(1,2) FirstLoad] by (simp add: bots_answer_def split: sum.split)
qed (use assms in \<open>cases r; auto simp: bots_inv_def bots_ops failed_def split: sum.splits\<close>)+

lemma bots_inv_reachable: "(bots_step dict allowed)\<^sup>*\<^sup>* new_bots_window w \<Longrightarrow> bots_inv w"
proof (induction rule: rtranclp_induct)
  case base
  show ?case by (simp add: bots_inv_def new_bots_window_def new_bots_def)
next
  case (step w w')
  then show ?case by (auto elim!: bots_stepE intro: press_bots_inv answer_bots_inv)
qed

lemma bots_never_stuck:
  "(bots_step dict allowed)\<^sup>*\<^sup>* new_bots_window w \<Longrightarrow> bw_tasks w = [] \<Longrightarrow> \<not> bd_busy (bw_dialog w)"
  using bots_inv_reachable by (fastforce simp: bots_inv_def)

text \<open>The requests a step makes, and what was on the screen when a request is made.\<close>

definition asked :: "bots_window \<Rightarrow> bots_window \<Rightarrow> endpoint list" where
  "asked w w' = drop (length (bd_requests (bw_dialog w))) (bd_requests (bw_dialog w'))"

fun meant :: "dict \<Rightarrow> bool \<Rightarrow> bots_dialog \<Rightarrow> endpoint \<Rightarrow> bool" where
  "meant dict allowed s EBots \<longleftrightarrow> True"
| "meant dict allowed s (ECreateBot u n h) \<longleftrightarrow> allowed \<and> \<not> bd_busy s \<and> u = bd_username s \<and> bot_username_valid u
     \<and> n = js_trim (bd_display_name s) \<and> h = js_trim (bd_webhook s)"
| "meant dict allowed s (EUpdateBot i body) \<longleftrightarrow> \<not> bd_busy s \<and> (\<exists>b x. b \<in> set (bd_bots s) \<and> bd_editing s = Some x \<and> i = bo_id b
     \<and> bot_row dict s b = EditRow (bo_display_name x) (bo_webhook_url x) True
     \<and> body = [(''display_name'', JStr (bo_display_name x)), (''webhook_url'', JStr (bo_webhook_url x))])"
| "meant dict allowed s (ERotateBot i) \<longleftrightarrow> (\<exists>b \<in> set (bd_bots s). i = bo_id b)"
| "meant dict allowed s (EDeleteBot i) \<longleftrightarrow> (\<exists>b. bd_confirm s = Some b \<and> i = bo_id b
     \<and> Line (translate dict ''confirm_delete_bot'' [(''name'', bo_username b)]) \<in> set (bots_screen dict allowed s))"
| "meant dict allowed s _ \<longleftrightarrow> False"

lemma js_trim_plain: "list_all (\<lambda>c. \<not> js_space c) s \<Longrightarrow> js_trim s = s"
  by (rule js_trim_id) (auto simp: list_all_iff)

text \<open>A name the form lets through has no space to trim.\<close>

lemma bot_username_trimmed:
  assumes "bot_username_valid u"
  shows "js_trim u = u"
proof (rule js_trim_plain)
  have "js_space c \<Longrightarrow> \<not> (ascii_alnum (of_char c) \<or> c \<in> set ''._'')" for c
    by (auto simp: js_space_def ascii_alnum_def)
  then have "list_all (\<lambda>c. \<not> js_space c) (take (length u - 3) u)"
    using assms unfolding bot_username_valid_def by (blast intro: list.pred_mono_strong)
  moreover have "list_all (\<lambda>c. \<not> js_space c) (drop (length u - 3) u)"
    using assms by (simp add: bot_username_valid_def js_space_def)
  ultimately show "list_all (\<lambda>c. \<not> js_space c) u"
    by (metis append_take_drop_id list_all_append)
qed

lemma confirm_line:
  "bd_confirm s = Some b \<Longrightarrow>
     Line (translate dict ''confirm_delete_bot'' [(''name'', bo_username b)]) \<in> set (bots_screen dict allowed s)"
  by (simp add: bots_screen_def delete_bot_dialog_def delete_bot_question_def confirm_dialog_def)

lemma press_meant:
  "offered p (bots_screen dict allowed (bw_dialog w)) \<Longrightarrow> list_all (meant dict allowed (bw_dialog w)) (asked w (press_bots p w))"
  by (cases p)
    (auto simp: asked_def bots_ops offered_bots bot_username_trimmed confirm_line bot_row_def split: option.splits if_splits)

lemma answer_meant:
  "answer_bots dict i t r w = Some w' \<Longrightarrow> list_all (meant dict allowed (bw_dialog w)) (asked w w')"
  by (cases t; cases r) (auto simp: asked_def bots_ops split: sum.splits)

theorem bots_requests_meant:
  assumes "bots_step dict allowed w w'"
  shows "list_all (meant dict allowed (bw_dialog w)) (asked w w')"
  using assms by (cases rule: bots_step.cases) (auto intro: press_meant answer_meant)

section \<open>Overlapping operations\<close>

text \<open>
  \<open>run\<close> keeps one flag and one form for all operations. While the change of one bot is being saved, another bot's
  form can be opened and filled in; the answer to the first closes it, and what was typed is gone.
\<close>

lemma press_step:
  "bw_open w \<Longrightarrow> offered p (bots_screen dict allowed (bw_dialog w)) \<Longrightarrow> bots_step dict allowed w (press_bots p w)"
  by (rule bots_step.press)

lemma steps3: "r a b \<Longrightarrow> r b c \<Longrightarrow> r c d \<Longrightarrow> r\<^sup>*\<^sup>* a d"
  by (blast intro: converse_rtranclp_into_rtranclp)

theorem save_closes_other_edit:
  assumes "bw_open w" and "a \<in> set (bd_bots (bw_dialog w))" and "b \<in> set (bd_bots (bw_dialog w))" and "bo_id b \<noteq> bo_id a"
    and "bd_editing (bw_dialog w) = Some x" and "bo_id x = bo_id a" and "\<not> bd_busy (bw_dialog w)"
  shows "\<exists>w' w''. (bots_step dict allowed)\<^sup>*\<^sup>* w w' \<and> bd_editing (bw_dialog w') = Some (b\<lparr>bo_display_name := v\<rparr>)
    \<and> bots_step dict allowed w' w'' \<and> bd_editing (bw_dialog w'') = None
    \<and> bd_requests (bw_dialog w'') = bd_requests (bw_dialog w)
        @ [EUpdateBot (bo_id a) [(''display_name'', JStr (bo_display_name x)), (''webhook_url'', JStr (bo_webhook_url x))], EBots]"
proof -
  define w1 where "w1 = press_bots SaveEdit w"
  define w2 where "w2 = press_bots (RenameBot b) w1"
  define w3 where "w3 = press_bots (EditBotName v) w2"
  have w1: "bw_open w1" "bw_tasks w1 = bw_tasks w @ [SaveTask]"
    "bw_dialog w1 = run_bots (EUpdateBot (bo_id a) [(''display_name'', JStr (bo_display_name x)), (''webhook_url'', JStr (bo_webhook_url x))]) (bw_dialog w)"
    using assms by (auto simp: w1_def begin_run_def save_bot_def)
  have w2: "bw_open w2" "bw_tasks w2 = bw_tasks w @ [SaveTask]" "bw_dialog w2 = (bw_dialog w1)\<lparr>bd_editing := Some b\<rparr>"
    using w1 by (simp_all add: w2_def)
  have w3: "bw_open w3" "bw_tasks w3 = bw_tasks w @ [SaveTask]"
    "bw_dialog w3 = (bw_dialog w1)\<lparr>bd_editing := Some (b\<lparr>bo_display_name := v\<rparr>)\<rparr>"
    using w2 by (simp_all add: w3_def)
  have "bots_step dict allowed w w1"
    unfolding w1_def using assms by (intro press_step) (auto simp: offered_bots)
  moreover have "bots_step dict allowed w1 w2"
    unfolding w2_def using assms w1 by (intro press_step) (auto simp: offered_bots run_bots_def intro!: bexI [of _ b])
  moreover have "bots_step dict allowed w2 w3"
    unfolding w3_def using assms w1 w2 by (intro press_step) (auto simp: offered_bots run_bots_def intro!: bexI [of _ b])
  ultimately have "(bots_step dict allowed)\<^sup>*\<^sup>* w w3" by (rule steps3)
  moreover define w4 where "w4 = next_load (length (bw_tasks w)) True (bot_saved dict (Inr ()) (bw_dialog w3)) w3"
  moreover have "bots_step dict allowed w3 w4"
    unfolding w4_def using w3 by (intro bots_step.answer [of _ "length (bw_tasks w)" _ "Plainly (Inr ())"]) (simp_all add: failed_def)
  moreover have "bd_editing (bw_dialog w3) = Some (b\<lparr>bo_display_name := v\<rparr>)" "bd_editing (bw_dialog w4) = None"
    "bd_requests (bw_dialog w4) = bd_requests (bw_dialog w)
       @ [EUpdateBot (bo_id a) [(''display_name'', JStr (bo_display_name x)), (''webhook_url'', JStr (bo_webhook_url x))], EBots]"
    by (simp_all add: w4_def w3 w1 next_load_def bot_saved_def load_bots_def run_bots_def)
  ultimately show ?thesis by blast
qed

text \<open>
  The end of one operation also clears the flag of another: with a bot being created, new credentials for an
  old one re-enable the button, and the same bot is asked for again.
\<close>

theorem created_twice:
  assumes "bw_open w" and "b \<in> set (bd_bots (bw_dialog w))" and "bd_editing (bw_dialog w) = None"
    and "\<not> bd_busy (bw_dialog w)" and "bot_username_valid (bd_username (bw_dialog w))"
  shows "\<exists>w' c. (bots_step dict True)\<^sup>*\<^sup>* w w' \<and> asked w w' = [c, ERotateBot (bo_id b), c] \<and>
    (\<exists>n h. c = ECreateBot (bd_username (bw_dialog w)) n h)"
proof -
  let ?d = "bw_dialog w" and ?c = "ECreateBot (js_trim (bd_username (bw_dialog w))) (js_trim (bd_display_name (bw_dialog w))) (js_trim (bd_webhook (bw_dialog w)))"
  define w1 where "w1 = press_bots CreateBot w"
  define w2 where "w2 = press_bots (RotateBot b) w1"
  define w3 where "w3 = next_load (Suc (length (bw_tasks w))) False (bot_rotated dict b (Inr ([], [])) (bw_dialog w2)) w2"
  define w4 where "w4 = press_bots CreateBot w3"
  have s1: "bots_step dict True w w1"
    unfolding w1_def using assms by (intro press_step) (auto simp: offered_bots)
  have s2: "bots_step dict True w1 w2"
    unfolding w2_def w1_def using assms by (intro press_step) (auto simp: offered_bots bots_ops intro!: bexI [of _ b])
  have s3: "bots_step dict True w2 w3"
    unfolding w3_def w2_def w1_def using assms
    by (intro bots_step.answer [of _ "Suc (length (bw_tasks w))" _ "NewSecrets (Inr ([], []))"])
      (simp_all add: begin_run_def nth_append)
  have s4: "bots_step dict True w3 w4"
    unfolding w4_def using assms
    by (intro press_step) (auto simp: w3_def w2_def w1_def offered_bots bots_ops)
  have "(bots_step dict True)\<^sup>*\<^sup>* w w4" by (rule rtranclp_trans [OF steps3 [of "bots_step dict True", OF s1 s2 s3]]) (rule r_into_rtranclp, rule s4)
  moreover have "asked w w4 = [?c, ERotateBot (bo_id b), ?c]"
    by (simp add: asked_def w4_def w3_def w2_def w1_def bots_ops)
  ultimately show ?thesis unfolding bot_username_trimmed [OF assms(5)] by blast
qed

end
