(* ===== verification/Panels.thy ===== *)
theory Panels
  imports Screens Settings Entrance
begin

text \<open>
  The screens of \<open>ui/AdminPanel.tsx\<close>, \<open>ui/Settings.tsx\<close> and \<open>ui/Login.tsx\<close> in terms of the items of \<open>Screens\<close>, with
  the events that the theories of these dialogs handle; and that a control is on the screen exactly when its
  handler would do something.
\<close>

section \<open>The administrator's panel\<close>

text \<open>The overview: nothing but the error or the placeholder; else the hint of an update, the tiles and the backup.\<close>

datatype overview_press = DownloadBackup

definition overview_screen :: "dict \<Rightarrow> string \<Rightarrow> string option \<Rightarrow> admin_stats option \<Rightarrow> overview_press item list" where
  "overview_screen dict started err stats =
     (case overview_shown dict started err stats of
        OverviewError e \<Rightarrow> [Line e]
      | OverviewLoading l \<Rightarrow> [Line l]
      | OverviewTiles cells \<Rightarrow>
          (case stats of
             None \<Rightarrow> []
           | Some x \<Rightarrow>
               (case update_hint dict x of
                  None \<Rightarrow> []
                | Some parts \<Rightarrow> map (\<lambda>(p, command). Line p) parts @ [Link (translate dict ''release_page'' []) (as_latest_url x)]))
          @ concat (map (\<lambda>(label, value, sub). [Line label, Line value]
                @ (case sub of None \<Rightarrow> [] | Some s \<Rightarrow> if s = [] then [] else [Line s])) cells)
          @ [Button (translate dict ''download_backup'' []) True DownloadBackup, Line (translate dict ''backup_hint'' [])])"

text \<open>The users: the search is a form of one field, sent with the return key.\<close>

definition user_items :: "(int \<Rightarrow> string) \<Rightarrow> dict \<Rightarrow> string \<Rightarrow> admin_user \<Rightarrow> users_event item list" where
  "user_items local dict me u =
     (let r = user_row local dict me u in
      [Line (ur_name r)] @ map Line (ur_flags r) @ (case ur_owner r of None \<Rightarrow> [] | Some x \<Rightarrow> [Line x])
      @ [Line (ur_created r), Line (ur_seen r), Line (string_of_int (ur_devices r))]
      @ map (\<lambda>(a, label). Button label True (ClickUser u a)) (ur_actions r))"

definition users_screen :: "(int \<Rightarrow> string) \<Rightarrow> dict \<Rightarrow> string \<Rightarrow> users_tab \<Rightarrow> users_event item list" where
  "users_screen local dict me s =
     [Field (translate dict ''search_users'' []) (us_q s) TypeUser, Submit (translate dict ''search_users'' []) True True SearchUsers]
     @ map (\<lambda>k. Line (translate dict k [])) [''col_user'', ''col_created'', ''col_last_seen'', ''col_devices'', ''col_actions'']
     @ concat (map (user_items local dict me) (us_users s)) @ error_line (us_error s)
     @ (case us_confirm s of
          None \<Rightarrow> []
        | Some u \<Rightarrow> confirm_dialog dict (translate dict ''confirm_delete_user'' [(''user'', au_username u)]) (translate dict ''delete'' [])
            (ConfirmUser False) (ConfirmUser True))"

text \<open>The invitations. \<open>min\<close> and \<open>max\<close> of the number fields are what the browser checks before the form is sent.\<close>

datatype invites_press = Do invites_event | CopyText string | DownloadPng

definition invite_numbers_valid :: "invites \<Rightarrow> bool" where
  "invite_numbers_valid s \<longleftrightarrow> 1 \<le> iv_count s \<and> iv_count s \<le> 100 \<and> 0 \<le> iv_hours s"

definition code_items :: "dict \<Rightarrow> bool \<Rightarrow> string \<Rightarrow> invites_press item list" where
  "code_items dict show_qr c =
     [Line c] @ (if show_qr then [Button (translate dict ''show_qr_for_invites'' []) True (Do (PickCode c))] else [])
     @ [Button (translate dict ''copy'' []) True (CopyText c)]"

definition plate_items :: "(int \<Rightarrow> string) \<Rightarrow> dict \<Rightarrow> string \<Rightarrow> invites \<Rightarrow> invites_press item list" where
  "plate_items local dict origin s =
     (case plate_view local dict origin s of
        None \<Rightarrow> []
      | Some v \<Rightarrow>
          [Line (pv_code v), Line (pv_link v)] @ (case pv_expires v of None \<Rightarrow> [] | Some x \<Rightarrow> [Line x])
          @ [Button (translate dict ''copy_link'' []) True (CopyText (pv_link v)), Button (translate dict ''download_png'' []) True DownloadPng])"

definition invite_items :: "(int \<Rightarrow> string) \<Rightarrow> dict \<Rightarrow> invites \<Rightarrow> invite_view \<Rightarrow> invites_press item list" where
  "invite_items local dict s i =
     (case invite_row local dict s i of (code, note, used, expires, qr, unused) \<Rightarrow>
        [Line code, Line note, Line used, Line expires]
        @ (case qr of None \<Rightarrow> [] | Some active \<Rightarrow> [Button ''QR'' True (Do (PickCode code))])
        @ (if unused then [Button (translate dict ''delete'' []) True (Do (DeleteInvite code))] else []))"

definition invites_screen :: "(int \<Rightarrow> string) \<Rightarrow> dict \<Rightarrow> string \<Rightarrow> invites \<Rightarrow> invites_press item list" where
  "invites_screen local dict origin s =
     [Spin (translate dict ''invite_count'' []) (iv_count s) (\<lambda>n. Do (EditInvite n (iv_note s) (iv_hours s))),
      Field (translate dict ''invite_note'' []) (iv_note s) (\<lambda>v. Do (EditInvite (iv_count s) v (iv_hours s))),
      Spin (translate dict ''invite_expires_hours'' []) (iv_hours s) (\<lambda>n. Do (EditInvite (iv_count s) (iv_note s) n)),
      Submit (translate dict ''create_invites'' []) True (invite_numbers_valid s) (Do CreateInvites),
      Box (translate dict ''show_qr_for_invites'' []) (iv_show_qr s) True (\<lambda>on. Do (ShowQr on))]
     @ (if iv_codes s = [] then [] else [Line (translate dict ''new_codes'' [])] @ concat (map (code_items dict (iv_show_qr s)) (iv_codes s)))
     @ (if iv_codes s = [] \<and> \<not> plate s then [] else [Line (translate dict ''invite_share_hint'' [])])
     @ plate_items local dict origin s
     @ map (\<lambda>k. Line (translate dict k [])) [''col_code'', ''invite_note'', ''col_used_by'', ''col_expires'']
     @ concat (map (invite_items local dict s) (iv_invites s)) @ error_line (iv_error s)"

text \<open>The server's settings. The size is edited, and checked, in the megabytes that are shown.\<close>

datatype tab_press = Edit settings_edit | SaveSettings

definition settings_numbers_valid :: "admin_settings \<Rightarrow> bool" where
  "settings_numbers_valid x \<longleftrightarrow> 0 \<le> shown_mb x \<and> 0 \<le> ss_retention_days x \<and> ss_retention_days x \<le> 3650
     \<and> 2 \<le> ss_max_group_members x \<and> ss_max_group_members x \<le> 100"

definition settings_form :: "dict \<Rightarrow> admin_settings \<Rightarrow> tab_press item list" where
  "settings_form dict x =
     [Line (translate dict ''registration_mode'' [])]
     @ map (\<lambda>(m, label, current). Button label True (Edit (SetRegistration m))) (registration_modes dict x)
     @ [Field (translate dict ''announcement'' []) (ss_announcement x) (\<lambda>v. Edit (SetAnnouncement v)),
        Spin (translate dict ''max_attachment_mb'' []) (shown_mb x) (\<lambda>n. Edit (SetMaxMb n)),
        Spin (translate dict ''retention_days'' []) (ss_retention_days x) (\<lambda>n. Edit (SetRetentionDays n)),
        Spin (translate dict ''max_group_members'' []) (ss_max_group_members x) (\<lambda>n. Edit (SetMaxMembers n)),
        Box (translate dict ''allow_bots'' []) (ss_allow_bots x) True (\<lambda>b. Edit (SetAllowBots b)),
        Box (translate dict ''user_directory'' []) (ss_user_directory x) True (\<lambda>b. Edit (SetDirectory b))]"

definition settings_screen :: "dict \<Rightarrow> settings_tab \<Rightarrow> tab_press item list" where
  "settings_screen dict s =
     (case tb_settings s of
        None \<Rightarrow> (if tb_error s = None \<or> tb_error s = Some [] then [Line (translate dict ''loading'' [])] else error_line (tb_error s))
      | Some x \<Rightarrow>
          settings_form dict x @ error_line (tb_error s)
          @ [Submit (translate dict ''save'' []) True (settings_numbers_valid x) SaveSettings])"

fun press_tab :: "tab_press \<Rightarrow> settings_tab \<Rightarrow> settings_tab" where
  "press_tab (Edit e) s = edit_tab e s"
| "press_tab SaveSettings s = save_settings s"

text \<open>The panel: its tabs over the one that is chosen.\<close>

datatype panel_press = ClosePanel | ShowTab admin_tab

definition panel_frame :: "dict \<Rightarrow> admin_tab \<Rightarrow> panel_press item list" where
  "panel_frame dict tab =
     [Backdrop ClosePanel, Line (translate dict ''admin_panel'' []), Button (translate dict ''close'' []) True ClosePanel]
     @ map (\<lambda>(x, label, active). Button label True (ShowTab x)) (admin_tabs dict tab)"

section \<open>Facts of the panel\<close>

text \<open>What can be pressed is what the handler acts on, and the other way round.\<close>

lemma offered_map_line [simp]: "\<not> offered e (map Line xs)" "\<not> offered e (map (\<lambda>k. Line (f k)) ks)"
  by (auto simp: offered_def)

lemma offered_option_line [simp]: "\<not> offered e (case x of None \<Rightarrow> [] | Some y \<Rightarrow> [Line (f y)])"
  by (simp split: option.split)

lemma offered_map_button [simp]:
  "offered e (map (\<lambda>x. Button (l x) True (f x)) xs) \<longleftrightarrow> (\<exists>x \<in> set xs. e = f x)"
  by (auto simp: offered_def)

lemma offered_user_items:
  "offered e (user_items local dict me u) \<longleftrightarrow> (\<exists>a \<in> set (user_actions me u). e = ClickUser u a)"
  by (auto simp: user_items_def Let_def user_row_def comp_def)

lemma offered_users:
  "offered (ClickUser u a) (users_screen local dict me s) \<longleftrightarrow> u \<in> set (us_users s) \<and> a \<in> set (user_actions me u)"
  "offered (ConfirmUser b) (users_screen local dict me s) \<longleftrightarrow> us_confirm s \<noteq> None"
  by (auto simp: users_screen_def offered_concat offered_user_items split: option.split)

lemma offered_code_items:
  "offered (Do e) (code_items dict q c) \<longleftrightarrow> q \<and> e = PickCode c"
  by (auto simp: code_items_def)

lemma offered_plate_items: "\<not> offered (Do e) (plate_items local dict origin s)"
  by (auto simp: plate_items_def split: option.split)

lemma offered_invite_items:
  "offered (Do e) (invite_items local dict s i) \<longleftrightarrow> (in_used_by i = None \<or> in_used_by i = Some [])
     \<and> (iv_show_qr s \<and> e = PickCode (in_code i) \<or> e = DeleteInvite (in_code i))"
  by (auto simp: invite_items_def invite_row_def Let_def split: option.splits)

lemma offered_invites:
  "offered (Do (PickCode c)) (invites_screen local dict origin s) \<longleftrightarrow> c \<in> set (pickable s)"
  "offered (Do (DeleteInvite c)) (invites_screen local dict origin s) \<longleftrightarrow>
     (\<exists>i \<in> set (iv_invites s). in_code i = c \<and> (in_used_by i = None \<or> in_used_by i = Some []))"
  "offered (Do CreateInvites) (invites_screen local dict origin s) \<longleftrightarrow> invite_numbers_valid s"
  by (auto simp: invites_screen_def offered_concat offered_code_items offered_plate_items offered_invite_items pickable_def)

text \<open>A click on the panel's screens is never ignored by the handler, and a form that is sent has its numbers in range.\<close>

lemma users_press_acts:
  assumes "offered (ClickUser u a) (users_screen local dict me s)"
  shows "us_requests (click_user me u a s) = us_requests s @ (case a of
      SwitchDisabled \<Rightarrow> [EAdminPatchUser (au_id u) [(''disabled'', JBool (\<not> au_disabled u))]]
    | SwitchAdmin \<Rightarrow> [EAdminPatchUser (au_id u) [(''is_admin'', JBool (\<not> au_is_admin u))]]
    | SignOutEverywhere \<Rightarrow> [EAdminLogoutUser (au_id u)]
    | AskDelete \<Rightarrow> [])"
    and "us_confirm (click_user me u a s) = (if a = AskDelete then Some u else us_confirm s)"
  using assms by (auto simp: offered_users click_user_def user_act_def split: user_action.split)

lemma invites_press_acts:
  assumes "offered (Do e) (invites_screen local dict origin s)" and "e = PickCode c \<or> e = DeleteInvite c"
  shows "invites_handle d f e s = (if e = PickCode c then s\<lparr>iv_picked := Some c\<rparr>
    else (if iv_picked s = Some c then s\<lparr>iv_picked := None\<rparr> else s)\<lparr>iv_requests := iv_requests s @ [EAdminDeleteInvite c]\<rparr>)"
  using assms by (auto simp: offered_invites list_ex_iff)

lemma offered_settings_form: "\<not> offered SaveSettings (settings_form dict x)"
  by (auto simp: settings_form_def registration_modes_def)

lemma settings_in_range:
  assumes "offered SaveSettings (settings_screen dict s)"
  shows "\<exists>x. tb_settings s = Some x \<and> tb_requests (press_tab SaveSettings s) = tb_requests s @ [EAdminSaveSettings (settings_json x)]
    \<and> ss_retention_days x \<in> {0..3650} \<and> ss_max_group_members x \<in> {2..100} \<and> 0 \<le> shown_mb x"
  using assms
  by (auto simp: settings_screen_def offered_settings_form settings_numbers_valid_def save_settings_def split: option.splits if_splits)

text \<open>What is typed while the settings are being saved is replaced by the answer.\<close>

lemma edit_while_saving_lost:
  "tb_settings (settings_saved dict (Inr x) (edit_tab e (save_settings s))) = Some x"
  by (simp add: settings_saved_def)

text \<open>An answer to an older search of the users replaces that of a newer one.\<close>

lemma older_search_shown:
  "us_users (users_answer dict (Inr old) (users_answer dict (Inr new) (load_users q' (load_users q s)))) = old"
  by (simp add: users_answer_def load_users_def)

section \<open>The settings\<close>

datatype settings_sub = BotsSub | AdminSub

datatype settings_press =
    CloseSettings
  | CopyNumber string
  | ChooseLanguage string
  | ChooseScale real
  | SetFlag visibility_patch
  | SignOutDevice string
  | AskNotifications
  | OpenSub settings_sub
  | TypeNext string
  | TypeRepeat string
  | SetSignOutOthers bool
  | ChangePassword
  | SignOut

record settings_window =
  sw_settings :: settings
  sw_client :: client
  sw_look :: appearance
  sw_permission :: permission
  sw_lang :: "string \<times> string option"
  sw_asking :: nat
  sw_sub :: "settings_sub option"
  sw_open :: bool
  sw_copied :: "string list"

definition language_names :: "(string \<times> string) list" where
  "language_names = [(''en'', ''English''), (''ru'', units [1056, 1091, 1089, 1089, 1082, 1080, 1081])]"

definition flag_items :: "dict \<Rightarrow> settings \<Rightarrow> settings_press item list" where
  "flag_items dict s =
     map (\<lambda>((on, known), key, patch). Box (translate dict key []) on known (\<lambda>b. SetFlag (patch b)))
       (zip (visibility_boxes s) [(''find_me_in_search'', FindMe), (''show_online'', ShowOnline), (''allow_group_add'', AllowGroup)])"

definition device_items :: "dict \<Rightarrow> settings \<Rightarrow> settings_press item list" where
  "device_items dict s =
     concat (map (\<lambda>((i, d), name, label, other). [Line name, if other then Button label True (SignOutDevice i) else Line label])
       (zip (st_devices s) (device_rows dict s)))"

definition notification_items :: "dict \<Rightarrow> permission \<Rightarrow> settings_press item list" where
  "notification_items dict perm =
     [Line (translate dict ''notifications'' [])]
     @ (if perm = Granted then [Line (translate dict ''enabled'' [])]
        else (if perm = Denied then [Line (translate dict ''notifications_blocked'' [])] else [])
          @ [Button (translate dict ''enable_notifications'' []) (perm \<noteq> Denied) AskNotifications])"

text \<open>The form of the password: \<open>minLength\<close> speaks of what was typed, and the button waits for both fields.\<close>

definition busy_text :: "client \<Rightarrow> string \<Rightarrow> string" where
  "busy_text c label = (case cl_busy c of None \<Rightarrow> label | Some m \<Rightarrow> if m = [] then label else m)"

definition password_items :: "dict \<Rightarrow> settings \<Rightarrow> client \<Rightarrow> settings_press item list" where
  "password_items dict s c =
     [Line (translate dict ''change_password'' []), Field (translate dict ''new_password'' []) (st_next s) TypeNext,
      Field (translate dict ''repeat_password'' []) (st_repeat s) TypeRepeat,
      Box (translate dict ''sign_out_other_devices'' []) (st_sign_out_others s) True SetSignOutOthers,
      Line (translate dict ''password_change_warning'' []),
      Submit (busy_text c (translate dict ''change_password'' [])) (can_submit_password c s)
        (st_next s = [] \<or> MIN_PASSWORD_LENGTH \<le> length (st_next s)) ChangePassword]
     @ error_line (st_error s)"

text \<open>The whole modal: \<open>clock\<close> is the moment in the sample bubble, \<open>v\<close> the view of \<open>Settings\<close>.\<close>

definition settings_modal :: "dict \<Rightarrow> string \<Rightarrow> string \<Rightarrow> settings_view \<Rightarrow> session_info \<Rightarrow> settings_window \<Rightarrow> settings_press item list" where
  "settings_modal dict clock version v si w =
     [Backdrop CloseSettings, Line (translate dict ''settings'' []), Button (translate dict ''close'' []) True CloseSettings,
      Line (CHR ''@'' # si_username si), Line (translate dict ''your_safety_number'' []), Line (translate dict ''safety_number_hint'' []),
      Line (sv_fingerprint v), Button (translate dict ''copy'' []) True (CopyNumber (sv_fingerprint v)),
      Choice (translate dict ''language'' []) language_names (fst (sw_lang w)) ChooseLanguage,
      Line (translate dict ''ui_scale'' []), Line (sv_scale v)]
     @ map (\<lambda>x. Button (translate dict ''ui_scale_sample'' []) True (ChooseScale x)) ui_scales
     @ [Line (translate dict ''ui_scale_preview'' []), Line clock, Line (translate dict ''visibility'' [])]
     @ flag_items dict (sw_settings w) @ [Line (translate dict ''find_me_in_search_hint'' []), Line (translate dict ''devices'' [])]
     @ device_items dict (sw_settings w) @ notification_items dict (sv_notifications v)
     @ (if sv_bots v then [Button (translate dict ''my_bots'' []) True (OpenSub BotsSub)] else [])
     @ (if sv_admin v then [Button (translate dict ''admin_panel'' []) True (OpenSub AdminSub)] else [])
     @ password_items dict (sw_settings w) (sw_client w)
     @ [Line (translate dict ''server'' [] @ '' '' @ version), Button (translate dict ''sign_out'' []) True SignOut,
        Button (translate dict ''close'' []) True CloseSettings]"

fun press_settings :: "crypto \<Rightarrow> auth_world \<Rightarrow> settings_press \<Rightarrow> settings_window \<Rightarrow> settings_window" where
  "press_settings C W CloseSettings w = w\<lparr>sw_open := False\<rparr>"
| "press_settings C W (CopyNumber x) w = w\<lparr>sw_copied := sw_copied w @ [x]\<rparr>"
| "press_settings C W (ChooseLanguage x) w = w\<lparr>sw_lang := set_lang x (sw_lang w)\<rparr>"
| "press_settings C W (ChooseScale x) w = w\<lparr>sw_look := set_ui_scale x (sw_look w)\<rparr>"
| "press_settings C W (SetFlag p) w = w\<lparr>sw_settings := set_visibility p (sw_settings w)\<rparr>"
| "press_settings C W (SignOutDevice i) w = w\<lparr>sw_settings := sign_out_device i (sw_settings w)\<rparr>"
| "press_settings C W AskNotifications w = w\<lparr>sw_asking := Suc (sw_asking w)\<rparr>"
| "press_settings C W (OpenSub x) w = w\<lparr>sw_sub := Some x\<rparr>"
| "press_settings C W (TypeNext x) w = w\<lparr>sw_settings := (sw_settings w)\<lparr>st_next := x\<rparr>\<rparr>"
| "press_settings C W (TypeRepeat x) w = w\<lparr>sw_settings := (sw_settings w)\<lparr>st_repeat := x\<rparr>\<rparr>"
| "press_settings C W (SetSignOutOthers b) w = w\<lparr>sw_settings := (sw_settings w)\<lparr>st_sign_out_others := b\<rparr>\<rparr>"
| "press_settings C W ChangePassword w =
     (let r = submit_password C W (sw_settings w, sw_client w) in w\<lparr>sw_settings := fst r, sw_client := snd r\<rparr>)"
| "press_settings C W SignOut w = w\<lparr>sw_client := snd (logout W (sw_client w))\<rparr>"

section \<open>Facts of the settings\<close>

lemma offered_map_buttons [simp]: "offered e (map (\<lambda>x. Button l True (f x)) xs) \<longleftrightarrow> (\<exists>x \<in> set xs. e = f x)"
  by (auto simp: offered_def)

lemma offered_flags:
  "offered e (flag_items dict s) \<longleftrightarrow> st_visibility s \<noteq> None \<and> (\<exists>b. e = SetFlag (FindMe b) \<or> e = SetFlag (ShowOnline b) \<or> e = SetFlag (AllowGroup b))"
  by (cases "st_visibility s") (auto simp: flag_items_def visibility_boxes_def numeral_3_eq_3 ex_bool_eq)

lemma zip_map_self: "zip xs (map f xs) = map (\<lambda>x. (x, f x)) xs"
  by (induction xs) simp_all

lemma offered_devices:
  "offered e (device_items dict s) \<longleftrightarrow> (\<exists>i name. (i, name, False) \<in> set (st_devices s) \<and> e = SignOutDevice i)"
proof -
  have "device_items dict s = concat (map (\<lambda>(i, name, current). [Line name,
      if \<not> current then Button (translate dict (if current then ''this_device'' else ''sign_out_device'') []) True (SignOutDevice i)
      else Line (translate dict (if current then ''this_device'' else ''sign_out_device'') [])]) (st_devices s))"
    unfolding device_items_def device_rows_def zip_map_self by (auto simp: comp_def intro!: arg_cong [of _ _ concat] map_cong)
  then show ?thesis by (force simp: offered_concat split: if_splits)
qed

lemma offered_notifications: "offered e (notification_items dict perm) \<longleftrightarrow> perm = Default \<and> e = AskNotifications"
  by (cases perm) (auto simp: notification_items_def)

lemma offered_password:
  "offered e (password_items dict s c) \<longleftrightarrow> (\<exists>v. e = TypeNext v) \<or> (\<exists>v. e = TypeRepeat v) \<or> (\<exists>b. e = SetSignOutOthers b)
     \<or> (e = ChangePassword \<and> can_submit_password c s \<and> MIN_PASSWORD_LENGTH \<le> length (st_next s))"
  by (auto simp: password_items_def ex_bool_eq can_submit_password_def)

lemmas offered_settings = settings_modal_def offered_if offered_flags offered_devices offered_notifications offered_password

text \<open>
  Which of the controls is there when, and what it then does: only another device can be signed out, only an
  administrator opens the panel, a flag can be changed once it is known, and the choices of language and size are
  taken.
\<close>

theorem settings_offers:
  shows "offered (SignOutDevice i) (settings_modal dict clock version v si w) \<longleftrightarrow>
      (\<exists>name. (i, name, False) \<in> set (st_devices (sw_settings w)))"
    and "offered ChangePassword (settings_modal dict clock version v si w) \<longleftrightarrow>
      can_submit_password (sw_client w) (sw_settings w) \<and> MIN_PASSWORD_LENGTH \<le> length (st_next (sw_settings w))"
    and "offered (OpenSub AdminSub) (settings_modal dict clock version v si w) \<longleftrightarrow> sv_admin v"
    and "offered (OpenSub BotsSub) (settings_modal dict clock version v si w) \<longleftrightarrow> sv_bots v"
    and "offered (SetFlag p) (settings_modal dict clock version v si w) \<longleftrightarrow> st_visibility (sw_settings w) \<noteq> None"
    and "offered AskNotifications (settings_modal dict clock version v si w) \<longleftrightarrow> sv_notifications v = Default"
  by (cases p; auto simp: offered_settings sign_out_device_def list_ex_iff)+

lemma settings_choices:
  "offered (ChooseLanguage x) (settings_modal dict clock version v si w) \<Longrightarrow>
     sw_lang (press_settings C W (ChooseLanguage x) w) = (x, Some x)"
  "offered (ChooseScale r) (settings_modal dict clock version v si w) \<Longrightarrow>
     ap_scale (sw_look (press_settings C W (ChooseScale r) w)) = r"
  by (auto simp: offered_settings language_names_def set_lang_def languages_def set_ui_scale_def apply_scale_def
      apply_narrow_def Let_def split: option.split if_splits)

section \<open>The entrance\<close>

datatype login_press = LoginEdit login_event | LoginLanguage string | Enter

definition login_screen :: "dict \<Rightarrow> string \<Rightarrow> string \<Rightarrow> client \<Rightarrow> login_form \<Rightarrow> login_press item list" where
  "login_screen dict code version c f =
     (let v = login_view f; reg = (lf_mode f = RegisterMode) in
      [Line (translate dict ''app_name'' []), Line version, Line (translate dict ''app_name'' []), Line (translate dict ''tagline'' []),
       Choice (translate dict ''language'' []) language_names code LoginLanguage]
      @ error_line (lv_announcement v)
      @ [Button (translate dict ''tab_sign_in'' []) True (LoginEdit (SetMode LoginMode)),
         Button (translate dict ''tab_create_account'' []) True (LoginEdit (SetMode RegisterMode))]
      @ (if lv_scanned v then [Line (translate dict ''invite_scanned'' [])] else [])
      @ [Field (translate dict ''username'' []) (lf_username f) (\<lambda>u. LoginEdit (TypeUsername u)),
         Field (translate dict ''password'' []) (lf_password f) (\<lambda>p. LoginEdit (TypePassword p))]
      @ (if reg then [Line (translate dict ''password_min'' [(''n'', string_of_int (int MIN_PASSWORD_LENGTH))])] else [])
      @ (if lv_closed v then [Line (translate dict ''registration_closed'' [])] else [])
      @ (if lv_invite v then
           [Line (translate dict ''invite_hint'' [])] @ (if lf_from_link f then [Line (translate dict ''from_qr'' [])] else [])
           @ [Field (translate dict ''invite_code'' []) (lf_invite f) (\<lambda>x. LoginEdit (TypeInvite x))] else [])
      @ (if lv_warning v then [Line (translate dict ''password_warning'' [])] else [])
      @ error_line (lf_error f)
      @ [Submit (busy_text c (translate dict (if reg then ''tab_create_account'' else ''tab_sign_in'') [])) (can_enter c f) (form_valid f) Enter])"

lemma offered_login:
  "offered Enter (login_screen dict code version c f) \<longleftrightarrow> can_enter c f \<and> form_valid f"
  "offered (LoginEdit (TypeInvite x)) (login_screen dict code version c f) \<longleftrightarrow> lf_mode f = RegisterMode \<and> registration_of f \<noteq> Open"
  by (auto simp: login_screen_def Let_def login_view_def)

text \<open>
  What can be sent from the entrance needs no trimming, and a registration has a long enough password and an
  invitation where the server wants one; nothing is registered at a server that is closed.
\<close>

lemma login_sends_checked:
  assumes "offered Enter (login_screen dict code version c f)"
  shows "js_trim (lf_username f) = lf_username f"
    and "lf_mode f = RegisterMode \<Longrightarrow> MIN_PASSWORD_LENGTH \<le> length (lf_password f) \<and> registration_of f \<noteq> Closed
      \<and> (registration_of f = Invite \<longrightarrow> lf_invite f \<noteq> [])"
proof -
  have v: "can_enter c f" "form_valid f" using assms by (simp_all add: offered_login)
  have "js_space x \<Longrightarrow> \<not> (ascii_alnum (of_char x) \<or> x \<in> set ''._'')" for x
    by (auto simp: js_space_def ascii_alnum_def)
  then show "js_trim (lf_username f) = lf_username f"
    using v(2) unfolding form_valid_def by (blast intro: js_trim_plain list.pred_mono_strong)
  show "lf_mode f = RegisterMode \<Longrightarrow> MIN_PASSWORD_LENGTH \<le> length (lf_password f) \<and> registration_of f \<noteq> Closed
      \<and> (registration_of f = Invite \<longrightarrow> lf_invite f \<noteq> [])"
    using v by (auto simp: form_valid_def can_enter_def)
qed

end
