(* ===== verification/Column.thy ===== *)
theory Column
  imports Sidebar Members Panels
begin

text \<open>
  The left column driven by its own screen: \<open>ui/Sidebar.tsx\<close> with the dialog for a new group
  (\<open>ui/NewConversation.tsx\<close>) and the question before a chat is deleted, whose answers arrive later; and the screen
  of \<open>ui/MemberPanel.tsx\<close>. What lies under a dialog cannot be reached and is left out of the screen.
\<close>

section \<open>The panel of members on the screen\<close>

text \<open>\<open>Number\<close> of a whole number's text.\<close>

definition digits_value :: "string \<Rightarrow> nat" where
  "digits_value s = foldl (\<lambda>a c. 10 * a + (of_char c - 48)) 0 s"

definition js_number :: "string \<Rightarrow> int" where
  "js_number s = (case s of [] \<Rightarrow> 0 | c # cs \<Rightarrow> if c = CHR ''-'' then - int (digits_value cs) else int (digits_value s))"

lemma digits_value_digits: "digits_value (digits_of n) = n"
proof (induction n rule: digits_of.induct)
  case (1 n)
  show ?case
  proof (cases "n < 10")
    case True
    then show ?thesis by (simp add: digits_of.simps [of n] digits_value_def)
  next
    case False
    then show ?thesis using 1 by (simp add: digits_of.simps [of n] digits_value_def)
  qed
qed

lemma digits_no_minus: "hd (digits_of n) \<noteq> CHR ''-''"
proof (induction n rule: digits_of.induct)
  case (1 n)
  have "char_of (48 + k) \<noteq> CHR ''-''" if "k < 10" for k :: nat
  proof
    assume "char_of (48 + k) = CHR ''-''"
    then have "of_char (char_of (48 + k) :: char) = (45 :: nat)" by simp
    then show False using that by simp
  qed
  then show ?case using 1 by (simp add: digits_of.simps [of n] digits_of_nonempty)
qed

lemma number_of_text: "js_number (string_of_int i) = i"
proof -
  obtain c cs where d: "digits_of (nat i) = c # cs" using digits_of_nonempty by (cases "digits_of (nat i)") auto
  then have "c \<noteq> CHR ''-''" using digits_no_minus [of "nat i"] by simp
  then show ?thesis
    using d digits_value_digits [of "nat i"] by (simp add: js_number_def string_of_int_def digits_value_digits)
qed

datatype member_press =
    CloseMembers
  | TypeNewMember string
  | TypeNewName string
  | Act panel_action

definition tag_line :: "dict \<Rightarrow> member_tag \<Rightarrow> string" where
  "tag_line dict x = translate dict (case x of TagBot \<Rightarrow> ''bot'' | TagVerified \<Rightarrow> ''verified'' | TagNotInRoster \<Rightarrow> ''not_in_roster''
     | TagKeysChanged \<Rightarrow> ''keys_changed'') []"

definition member_items :: "dict \<Rightarrow> member_row \<Rightarrow> member_press item list" where
  "member_items dict r =
     Line (mr_name r) # map (\<lambda>x. Line (tag_line dict x)) (mr_tags r)
     @ (if mr_removable r then [Button (translate dict ''remove'' []) True (Act (PRemove (mr_id r)))] else [])
     @ (if mr_acceptable r
        then [Line (translate dict ''new_keys'' [] @ '' '' @ mr_fingerprint r),
              Button (translate dict ''accept_new_keys'' []) True (Act (PAccept (mr_id r)))]
        else [Line (mr_fingerprint r)])
     @ (case mr_mark r of None \<Rightarrow> []
        | Some on \<Rightarrow> [Box (translate dict ''i_verified'' []) on True (\<lambda>b. Act (PVerify (mr_id r) b))])"

definition timer_items :: "dict \<Rightarrow> conversation \<Rightarrow> member_press item list" where
  "timer_items dict conv =
     Line (translate dict ''disappearing_messages'' [])
     # (if can_set_retention conv
        then [Choice [] (map (\<lambda>n. (string_of_int n, retention_label dict n)) (retention_options conv))
                (string_of_int (c_retention_seconds conv)) (\<lambda>v. Act (PRetention (js_number v)))]
        else [Line (retention_label dict (c_retention_seconds conv)), Line (translate dict ''retention_owner_only'' [])])"

definition group_controls :: "dict \<Rightarrow> conversation \<Rightarrow> member_panel \<Rightarrow> member_press item list" where
  "group_controls dict conv p =
     (if c_kind conv \<noteq> Group then []
      else (if c_role conv = Owner
            then [Field (translate dict ''username_to_add'' []) (mp_new_member p) TypeNewMember,
                  Submit (translate dict ''add'' []) (js_trim (mp_new_member p) \<noteq> []) True (Act PAdd)] else [])
        @ [Field (translate dict ''group_name_field'' []) (mp_new_name p) TypeNewName,
           Submit (translate dict ''rename'' []) (js_trim (mp_new_name p) \<noteq> [] \<and> js_trim (mp_new_name p) \<noteq> c_name conv) True (Act PRename),
           Button (translate dict ''leave_group'' []) True (Act PLeave)])"

definition member_screen :: "crypto \<Rightarrow> app \<Rightarrow> session_info \<Rightarrow> account_keys \<Rightarrow> conversation \<Rightarrow> member_panel \<Rightarrow> member_press item list" where
  "member_screen C s si k conv p =
     (let dict = a_dict s; title = translate dict (if c_kind conv = Group then ''members'' else ''security'') []; own = own_row C dict si k in
      [Line title, Button (translate dict ''close'' []) True CloseMembers, Line title, Line (translate dict ''safety_hint'' []),
       Line (fst own), Line (snd own)]
      @ concat (map (member_items dict) (member_rows C s si conv)) @ timer_items dict conv @ group_controls dict conv p
      @ error_line (mp_error p))"

text \<open>The panel's screen offers exactly the actions the handlers take.\<close>

lemma offered_member_items:
  "Screens.offered (Act a) (member_items dict r) \<longleftrightarrow>
     (mr_removable r \<and> a = PRemove (mr_id r)) \<or> (mr_acceptable r \<and> a = PAccept (mr_id r))
     \<or> (mr_mark r \<noteq> None \<and> (\<exists>b. a = PVerify (mr_id r) b))"
  by (auto simp: member_items_def split: option.split)

lemma offered_timer:
  "Screens.offered (Act a) (timer_items dict conv) \<longleftrightarrow> can_set_retention conv \<and> (\<exists>n \<in> set (retention_options conv). a = PRetention n)"
  by (auto simp: timer_items_def number_of_text)

lemma offered_group:
  "Screens.offered (Act a) (group_controls dict conv p) \<longleftrightarrow> c_kind conv = Group \<and>
     (c_role conv = Owner \<and> js_trim (mp_new_member p) \<noteq> [] \<and> a = PAdd \<or> a = PLeave
      \<or> js_trim (mp_new_name p) \<noteq> [] \<and> js_trim (mp_new_name p) \<noteq> c_name conv \<and> a = PRename)"
  by (auto simp: group_controls_def)

lemma bex_rows:
  "(\<exists>r \<in> set (concat (map (\<lambda>i. case f i of None \<Rightarrow> [] | Some c \<Rightarrow> [h i c]) (filter (\<lambda>i. i \<noteq> m) xs))). P r)
     \<longleftrightarrow> (\<exists>i \<in> set xs. i \<noteq> m \<and> (\<exists>c. f i = Some c \<and> P (h i c)))"
  by (induction xs) (auto split: option.split)

lemma offered_row:
  "Screens.offered (Act a) (member_items dict (member_row C s conv i c)) \<longleftrightarrow>
     (c_kind conv = Group \<and> c_role conv = Owner \<and> a = PRemove i \<or> ct_pending_keys c \<noteq> None \<and> a = PAccept i
      \<or> \<not> ct_is_bot c \<and> (\<exists>b. a = PVerify i b))"
  by (cases "ct_is_bot c") (simp_all add: offered_member_items member_row_def)

theorem members_offers:
  "Screens.offered (Act a) (member_screen C s si k conv p) \<longleftrightarrow> Members.offered s si conv p a"
proof -
  have rows: "(\<exists>r \<in> set (member_rows C s si conv). Screens.offered (Act a) (member_items (a_dict s) r))
     \<longleftrightarrow> (\<exists>i \<in> set (c_server_members conv). i \<noteq> si_account_id si \<and> (\<exists>c. contact_of s i = Some c \<and>
         (c_kind conv = Group \<and> c_role conv = Owner \<and> a = PRemove i \<or> ct_pending_keys c \<noteq> None \<and> a = PAccept i
          \<or> \<not> ct_is_bot c \<and> (\<exists>b. a = PVerify i b))))"
    unfolding member_rows_def bex_rows offered_row ..
  have "Screens.offered (Act a) (member_screen C s si k conv p) \<longleftrightarrow>
     (\<exists>r \<in> set (member_rows C s si conv). Screens.offered (Act a) (member_items (a_dict s) r))
     \<or> Screens.offered (Act a) (timer_items (a_dict s) conv) \<or> Screens.offered (Act a) (group_controls (a_dict s) conv p)"
    unfolding member_screen_def Let_def by (simp add: offered_concat)
  then show ?thesis
    unfolding rows offered_timer offered_group Members.offered_def Let_def
    by (cases a) (auto split: option.splits if_splits)
qed

section \<open>The column on the screen\<close>

text \<open>
  A row can be chosen, and a right click opens its menu. The next click anywhere puts the menu away. A dialog gets a
  number when it is put up; an answer changes the variables of a dialog only if it is still the same one, but it calls
  \<open>onClose\<close> in any case, which closes whatever dialog of this kind is open then.
\<close>

datatype column_press =
    OpenNew
  | OpenSettings
  | SelectChat string
  | OpenMenu conversation "int \<times> int"
  | MenuDo chat_action
  | CloseDialog
  | TypeGroupName string
  | TypeGroupMembers string
  | PickMember directory_user
  | CreateGroup
  | CancelDelete
  | ConfirmDelete

datatype column_job = Creating nat string "string list" | Deleting nat conversation

record column =
  cl_side :: sidebar
  cl_group :: new_group
  cl_app :: app
  cl_jobs :: "column_job list"
  cl_dialogs :: nat

definition fresh_group :: new_group where
  "fresh_group = \<lparr>ng_name = [], ng_members = [], ng_error = None, ng_busy = False, ng_directory = None, ng_open = True\<rparr>"

definition new_column :: "app \<Rightarrow> column" where
  "new_column a = \<lparr>cl_side = new_sidebar, cl_group = fresh_group, cl_app = a, cl_jobs = [], cl_dialogs = 0\<rparr>"

text \<open>The dialog for a new group; the browser lets its form through when there is a name.\<close>

definition group_screen :: "dict \<Rightarrow> new_group \<Rightarrow> column_press item list" where
  "group_screen dict g =
     (let (users, rest) = suggestions dict (ng_directory g) (typing (ng_members g)) (chosen (ng_members g)) in
      [Backdrop CloseDialog, Line (translate dict ''new_group'' []), Button (translate dict ''close'' []) True CloseDialog,
       Line (translate dict ''dm_from_search_hint'' []),
       Field (translate dict ''group_name'' []) (ng_name g) TypeGroupName,
       Field (translate dict ''members'' [] @ '' '' @ translate dict ''members_hint'' []) (ng_members g) TypeGroupMembers]
      @ map (\<lambda>u. Button (du_username u) True (PickMember u)) users @ (case rest of None \<Rightarrow> [] | Some s \<Rightarrow> [Line s])
      @ error_line (ng_error g)
      @ [Button (translate dict ''cancel'' []) True CloseDialog,
         Submit (translate dict (if ng_busy g then ''creating'' else ''create'') []) (\<not> ng_busy g) (ng_name g \<noteq> []) CreateGroup])"

definition delete_screen :: "dict \<Rightarrow> sidebar \<Rightarrow> conversation \<Rightarrow> column_press item list" where
  "delete_screen dict d conv =
     [Backdrop CancelDelete, Line (delete_question dict conv), Button (translate dict ''cancel'' []) (\<not> sd_busy d) CancelDelete,
      Button (translate dict ''delete_chat'' []) (\<not> sd_busy d) ConfirmDelete]"

definition row_items :: "app \<Rightarrow> session_info \<Rightarrow> string option \<Rightarrow> int \<times> int \<Rightarrow> list_item \<Rightarrow> column_press item list" where
  "row_items s si menu pos x =
     (case x of
        NoChats l \<Rightarrow> [Line l]
      | Heading l \<Rightarrow> [Line l]
      | Row c \<Rightarrow> let r = conv_row s si menu c in
          [Button (cr_title r) True (SelectChat (c_id c)), Button (cr_preview r) True (OpenMenu c pos)]
          @ (case cr_badge r of None \<Rightarrow> [] | Some n \<Rightarrow> [Line (string_of_int n)]))"

definition menu_items :: "app \<Rightarrow> sidebar \<Rightarrow> column_press item list" where
  "menu_items s d =
     (case sd_menu d of
        None \<Rightarrow> []
      | Some (c, xy) \<Rightarrow> map (\<lambda>(a, label, on). Button label on (MenuDo a)) (chat_menu s c))"

text \<open>The pointer is at \<open>pos\<close>. The results of a search replace the list (\<open>Sidebar.search_results\<close>).\<close>

definition column_screen :: "session_info \<Rightarrow> connection_status \<Rightarrow> bool \<Rightarrow> int \<times> int \<Rightarrow> column \<Rightarrow> column_press item list" where
  "column_screen si st results pos w =
     (let d = cl_side w; s = cl_app w; dict = a_dict s in
      case (sd_dialog d, sd_confirming d) of
        (Some NewDialog, _) \<Rightarrow> group_screen dict (cl_group w)
      | (Some SettingsDialog, _) \<Rightarrow> [Backdrop CloseDialog]
      | (None, Some conv) \<Rightarrow> delete_screen dict d conv
      | (None, None) \<Rightarrow>
          [Line (fst (presence s si st)), Line (snd (presence s si st)), Button (translate dict ''new_group'' []) True OpenNew,
           Button (translate dict ''settings'' []) True OpenSettings]
          @ (if results then [] else concat (map (row_items s si (map_option (c_id \<circ> fst) (sd_menu d)) pos) (chat_list s)))
          @ menu_items s d)"

text \<open>The field above the list: the text, the cross that clears it, and the kinds of results.\<close>

definition search_field :: "dict \<Rightarrow> search \<Rightarrow> box_event item list" where
  "search_field dict s =
     Field (translate dict ''search_placeholder'' []) (se_query s) TypeSearch
     # (if se_query s \<noteq> [] then [Button (translate dict ''search_clear'' []) True ClearSearch] else [])
     @ map (\<lambda>(f, label, active). Button label True (ChooseFilter f)) (search_chips dict s)"

section \<open>Pressing\<close>

abbreviation in_side :: "(sidebar \<Rightarrow> sidebar) \<Rightarrow> column \<Rightarrow> column" where
  "in_side f w \<equiv> w\<lparr>cl_side := f (cl_side w)\<rparr>"

abbreviation in_group :: "(new_group \<Rightarrow> new_group) \<Rightarrow> column \<Rightarrow> column" where
  "in_group f w \<equiv> w\<lparr>cl_group := f (cl_group w)\<rparr>"

definition on_side :: "(sidebar \<times> app \<Rightarrow> sidebar \<times> app) \<Rightarrow> column \<Rightarrow> column" where
  "on_side f w = (let (d, a) = f (cl_side w, cl_app w) in w\<lparr>cl_side := d, cl_app := a\<rparr>)"

text \<open>A new dialog with variables of its own.\<close>

definition put_up :: "column \<Rightarrow> column" where
  "put_up w = w\<lparr>cl_group := fresh_group, cl_side := (cl_side w)\<lparr>sd_busy := False\<rparr>, cl_dialogs := Suc (cl_dialogs w)\<rparr>"

definition menu_away :: "column \<Rightarrow> column" where
  "menu_away w = in_side (\<lambda>d. d\<lparr>sd_menu := None\<rparr>) w"

fun press_column :: "world \<Rightarrow> nat \<Rightarrow> session_info \<Rightarrow> column_press \<Rightarrow> column \<Rightarrow> column" where
  "press_column W fuel si OpenNew w = put_up (menu_away (in_side (\<lambda>d. d\<lparr>sd_dialog := Some NewDialog\<rparr>) w))"
| "press_column W fuel si OpenSettings w = menu_away (in_side (\<lambda>d. d\<lparr>sd_dialog := Some SettingsDialog\<rparr>) w)"
| "press_column W fuel si (SelectChat i) w = menu_away (w\<lparr>cl_app := (cl_app w)\<lparr>a_selected := Some i\<rparr>\<rparr>)"
| "press_column W fuel si (OpenMenu c xy) w = in_side (\<lambda>d. d\<lparr>sd_menu := Some (c, fst xy, snd xy)\<rparr>) w"
| "press_column W fuel si (MenuDo a) w =
     (let w' = on_side (run_action W a) w in if a = AskDeleteChat then put_up w' else w')"
| "press_column W fuel si CloseDialog w = in_side (\<lambda>d. d\<lparr>sd_dialog := None\<rparr>) w"
| "press_column W fuel si (TypeGroupName v) w = in_group (\<lambda>g. g\<lparr>ng_name := v\<rparr>) w"
| "press_column W fuel si (TypeGroupMembers v) w = in_group (\<lambda>g. g\<lparr>ng_members := v\<rparr>) w"
| "press_column W fuel si (PickMember u) w = in_group (\<lambda>g. g\<lparr>ng_members := pick_member u (ng_members g)\<rparr>) w"
| "press_column W fuel si CreateGroup w =
     (in_group (\<lambda>g. g\<lparr>ng_error := None, ng_busy := True\<rparr>) w)
       \<lparr>cl_jobs := cl_jobs w @ [Creating (cl_dialogs w) (ng_name (cl_group w)) (split_names (ng_members (cl_group w)))]\<rparr>"
| "press_column W fuel si CancelDelete w = in_side (\<lambda>d. d\<lparr>sd_confirming := None\<rparr>) w"
| "press_column W fuel si ConfirmDelete w =
     (case sd_confirming (cl_side w) of
        None \<Rightarrow> w
      | Some conv \<Rightarrow>
          if c_kind conv = Group
          then (in_side (\<lambda>d. d\<lparr>sd_busy := True\<rparr>) w)\<lparr>cl_jobs := cl_jobs w @ [Deleting (cl_dialogs w) conv]\<rparr>
          else on_side (confirm_delete W fuel si conv) w)"

text \<open>The operation of a dialog has run.\<close>

fun job_dialog :: "column_job \<Rightarrow> nat" where
  "job_dialog (Creating n name members) = n"
| "job_dialog (Deleting n conv) = n"

fun finish_job :: "world \<Rightarrow> nat \<Rightarrow> session_info \<Rightarrow> column_job \<Rightarrow> column \<Rightarrow> column" where
  "finish_job W fuel si (Creating n name members) w =
     (let r = create_group W name members (cl_app w);
          same = (n = cl_dialogs w);
          w = w\<lparr>cl_app := snd r\<rparr>
      in case fst r of
           Inr i \<Rightarrow> in_side (\<lambda>d. d\<lparr>sd_dialog := None\<rparr>) (if same then in_group (\<lambda>g. g\<lparr>ng_busy := False\<rparr>) w else w)
         | Inl e \<Rightarrow> if same then in_group (\<lambda>g. g\<lparr>ng_error := Some (describe_error (a_dict (snd r)) e), ng_busy := False\<rparr>) w else w)"
| "finish_job W fuel si (Deleting n conv) w =
     (let busy = sd_busy (cl_side w); w = on_side (confirm_delete W fuel si conv) w
      in if n = cl_dialogs w then w else in_side (\<lambda>d. d\<lparr>sd_busy := busy\<rparr>) w)"

definition without_job :: "nat \<Rightarrow> column \<Rightarrow> column" where
  "without_job i w = w\<lparr>cl_jobs := take i (cl_jobs w) @ drop (Suc i) (cl_jobs w)\<rparr>"

text \<open>Besides the presses and the answers: the directory answers, a key or a resize puts the menu away, and the rest
of the client changes its state.\<close>

inductive column_step :: "world \<Rightarrow> nat \<Rightarrow> session_info \<Rightarrow> column \<Rightarrow> column \<Rightarrow> bool" for W fuel si where
  press: "Screens.offered p (column_screen si st results pos w) \<Longrightarrow> column_step W fuel si w (press_column W fuel si p w)"
| finish: "i < length (cl_jobs w) \<Longrightarrow> column_step W fuel si w (finish_job W fuel si (cl_jobs w ! i) (without_job i w))"
| directory: "column_step W fuel si w (in_group (directory_answer (cl_app w) r) w)"
| away: "column_step W fuel si w (menu_away w)"
| elsewhere: "column_step W fuel si w (w\<lparr>cl_app := a\<rparr>)"

section \<open>Facts of the column\<close>

inductive_cases column_stepE: "column_step W fuel si w w'"

lemma offered_group_screen:
  "Screens.offered CreateGroup (group_screen dict g) \<longleftrightarrow> \<not> ng_busy g \<and> ng_name g \<noteq> []"
  "\<not> Screens.offered ConfirmDelete (group_screen dict g)" "Screens.offered CloseDialog (group_screen dict g)"
  by (auto simp: group_screen_def split: prod.split option.split)

lemma offered_delete_screen:
  "Screens.offered p (delete_screen dict d conv) \<longleftrightarrow> p = CancelDelete \<or> \<not> sd_busy d \<and> p = ConfirmDelete"
  by (auto simp: delete_screen_def)

lemma offered_rows:
  "\<not> Screens.offered CreateGroup (row_items s si menu pos x)" "\<not> Screens.offered ConfirmDelete (row_items s si menu pos x)"
  by (auto simp: row_items_def Let_def split: list_item.split option.split)

lemma offered_menu:
  "\<not> Screens.offered CreateGroup (menu_items s d)" "\<not> Screens.offered ConfirmDelete (menu_items s d)"
  by (auto simp: menu_items_def chat_menu_def Let_def split: option.split)

text \<open>A group is created only by its dialog's button, a chat deleted only by the question's.\<close>

lemma offered_column:
  "Screens.offered CreateGroup (column_screen si st results pos w) \<longleftrightarrow>
     sd_dialog (cl_side w) = Some NewDialog \<and> \<not> ng_busy (cl_group w) \<and> ng_name (cl_group w) \<noteq> []"
  "Screens.offered ConfirmDelete (column_screen si st results pos w) \<longleftrightarrow>
     sd_dialog (cl_side w) = None \<and> sd_confirming (cl_side w) \<noteq> None \<and> \<not> sd_busy (cl_side w)"
  by (auto simp: column_screen_def Let_def offered_group_screen offered_delete_screen offered_rows offered_menu offered_concat
      split: option.split side_dialog.split)

lemma on_side_sel:
  "cl_jobs (on_side f w) = cl_jobs w" "cl_group (on_side f w) = cl_group w" "cl_dialogs (on_side f w) = cl_dialogs w"
  "cl_side (on_side f w) = fst (f (cl_side w, cl_app w))" "cl_app (on_side f w) = snd (f (cl_side w, cl_app w))"
  by (simp_all add: on_side_def case_prod_beta Let_def)

lemma put_up_sel:
  "cl_jobs (put_up w) = cl_jobs w" "ng_busy (cl_group (put_up w)) = False" "sd_busy (cl_side (put_up w)) = False"
  "cl_dialogs (put_up w) = Suc (cl_dialogs w)" "sd_dialog (cl_side (put_up w)) = sd_dialog (cl_side w)"
  "sd_confirming (cl_side (put_up w)) = sd_confirming (cl_side w)"
  by (simp_all add: put_up_def fresh_group_def)

lemma run_action_busy: "sd_busy (fst (run_action W a (d, s))) = sd_busy d"
  by (auto simp: run_action_def split: option.split chat_action.split)

lemma confirm_delete_busy: "\<not> sd_busy (fst (confirm_delete W fuel si conv (d, s)))"
  by (simp add: confirm_delete_def Let_def split: sum.split)

lemma finish_jobs: "cl_jobs (finish_job W fuel si j w) = cl_jobs w" "cl_dialogs (finish_job W fuel si j w) = cl_dialogs w"
  by (cases j; simp add: on_side_sel Let_def split: sum.split)+

text \<open>
  What is asked for is what was shown: a group is created with the name and the members of the dialog that is open,
  which has a name and waits for nothing; a group is left when its question is open.
\<close>

theorem column_jobs_meant:
  assumes "column_step W fuel si w w'" and "j \<in> set (cl_jobs w')" and "j \<notin> set (cl_jobs w)"
  shows "(sd_dialog (cl_side w) = Some NewDialog \<and> \<not> ng_busy (cl_group w) \<and> ng_name (cl_group w) \<noteq> []
       \<and> j = Creating (cl_dialogs w) (ng_name (cl_group w)) (split_names (ng_members (cl_group w))))
    \<or> (\<exists>conv. sd_dialog (cl_side w) = None \<and> sd_confirming (cl_side w) = Some conv \<and> c_kind conv = Group
       \<and> \<not> sd_busy (cl_side w) \<and> j = Deleting (cl_dialogs w) conv)"
  using assms(1)
proof (cases rule: column_step.cases)
  case (press p st results pos)
  then show ?thesis
    using assms(2,3)
    by (cases p) (auto simp: offered_column on_side_sel put_up_sel menu_away_def Let_def split: option.splits if_splits)
next
  case (finish i)
  then show ?thesis
    using assms(2,3) by (auto simp: finish_jobs without_job_def dest: in_set_takeD in_set_dropD)
qed (use assms(2,3) in \<open>auto simp: menu_away_def\<close>)

text \<open>A dialog is busy only while its own operation runs.\<close>

definition column_inv :: "column \<Rightarrow> bool" where
  "column_inv w \<longleftrightarrow>
     (ng_busy (cl_group w) \<longrightarrow> (\<exists>n ms. Creating (cl_dialogs w) n ms \<in> set (cl_jobs w)))
     \<and> (sd_busy (cl_side w) \<longrightarrow> (\<exists>conv. Deleting (cl_dialogs w) conv \<in> set (cl_jobs w)))"

lemma press_column_inv:
  assumes "column_inv w"
  shows "column_inv (press_column W fuel si p w)"
  using assms
  by (cases p) (auto simp: column_inv_def on_side_sel put_up_sel menu_away_def run_action_busy confirm_delete_busy Let_def
      split: option.split)

lemma kept_job:
  assumes "i < length xs" and "x \<in> set xs" and "x \<noteq> xs ! i"
  shows "x \<in> set (take i xs @ drop (Suc i) xs)"
  using assms id_take_nth_drop [OF assms(1)] by (metis Un_iff set_ConsD set_append)

lemma finish_inv:
  assumes "column_inv w" and "i < length (cl_jobs w)"
  shows "column_inv (finish_job W fuel si (cl_jobs w ! i) (without_job i w))"
proof (cases "cl_jobs w ! i")
  case (Creating n name ms)
  then show ?thesis
    using assms kept_job [OF assms(2)]
    by (simp add: column_inv_def without_job_def Let_def split: sum.split) (metis column_job.distinct(1) column_job.inject(1))
next
  case (Deleting n conv)
  then show ?thesis
    using assms kept_job [OF assms(2)]
    by (simp add: column_inv_def without_job_def on_side_sel confirm_delete_busy Let_def) (metis column_job.distinct(1) column_job.inject(2))
qed

lemma column_inv_reachable: "(column_step W fuel si)\<^sup>*\<^sup>* (new_column a) w \<Longrightarrow> column_inv w"
proof (induction rule: rtranclp_induct)
  case base
  show ?case by (simp add: column_inv_def new_column_def fresh_group_def new_sidebar_def)
next
  case (step w w')
  then show ?case
    by (auto elim!: column_stepE intro: press_column_inv finish_inv)
      (auto simp: column_inv_def menu_away_def directory_answer_def split: sum.split)
qed

theorem column_never_stuck:
  "(column_step W fuel si)\<^sup>*\<^sup>* (new_column a) w \<Longrightarrow> cl_jobs w = [] \<Longrightarrow> \<not> ng_busy (cl_group w) \<and> \<not> sd_busy (cl_side w)"
  using column_inv_reachable by (fastforce simp: column_inv_def)

text \<open>
  A group that is created late closes the settings: while the server is asked, the dialog can be put away and the
  settings opened; the answer closes whatever dialog is open.
\<close>

theorem late_group_closes_settings:
  assumes "sd_dialog (cl_side w) = Some NewDialog" and "sd_confirming (cl_side w) = None" and "\<not> ng_busy (cl_group w)"
    and "ng_name (cl_group w) \<noteq> []"
    and "fst (create_group W (ng_name (cl_group w)) (split_names (ng_members (cl_group w))) (cl_app w)) = Inr i"
  shows "\<exists>w' w''. (column_step W fuel si)\<^sup>*\<^sup>* w w' \<and> sd_dialog (cl_side w') = Some SettingsDialog
    \<and> column_step W fuel si w' w'' \<and> sd_dialog (cl_side w'') = None"
proof -
  define w1 where "w1 = press_column W fuel si CreateGroup w"
  define w2 where "w2 = press_column W fuel si CloseDialog w1"
  define w3 where "w3 = press_column W fuel si OpenSettings w2"
  let ?n = "length (cl_jobs w)"
  have 1: "column_step W fuel si w w1"
    unfolding w1_def using assms by (intro column_step.press) (simp add: offered_column)
  have 2: "column_step W fuel si w1 w2"
    unfolding w2_def by (rule column_step.press) (simp add: column_screen_def w1_def assms(1) offered_group_screen Let_def)
  have 3: "column_step W fuel si w2 w3"
    unfolding w3_def by (rule column_step.press) (simp add: column_screen_def w2_def w1_def assms(2) Let_def)
  have w3: "sd_dialog (cl_side w3) = Some SettingsDialog" "?n < length (cl_jobs w3)" "cl_app w3 = cl_app w"
    "cl_jobs w3 ! ?n = Creating (cl_dialogs w) (ng_name (cl_group w)) (split_names (ng_members (cl_group w)))"
    by (simp_all add: w3_def w2_def w1_def menu_away_def)
  let ?w = "finish_job W fuel si (cl_jobs w3 ! ?n) (without_job ?n w3)"
  have "column_step W fuel si w3 ?w" using w3(2) by (rule column_step.finish)
  moreover have "sd_dialog (cl_side ?w) = None"
    using assms(5) by (simp add: w3(3,4) without_job_def Let_def)
  ultimately show ?thesis using steps3 [of "column_step W fuel si", OF 1 2 3] w3(1) by blast
qed

end
