(* ===== verification/Spec2Isabelle.thy ===== *)
theory Spec2Isabelle
  imports Examples AccountFacts Files InviteFacts SearchFacts Http SessionFacts MoreExamples VoiceExamples Settings ViewExamples
    Locks Opening Texts Calling Column
begin

text \<open>
  A verification development for the web client of family-messenger-e2e, an end-to-end encrypted messenger:
  the TypeScript under \<open>src/web/src\<close>. The client holds the keys; the server only relays and stores
  envelopes, so the model lets it answer anything, and what the client may still rely on is what is proved.

  The program. \<open>crypto/\<close> turns bytes into envelopes: keys, their password protection, signing, sealing to
  recipients, files, fingerprints. \<open>store/db.ts\<close> is the database in the browser. \<open>api/http.ts\<close> and
  \<open>api/ws.ts\<close> talk to the server. \<open>state/\<close> is the client's logic on a set of signals (\<open>model.ts\<close>):
  \<open>session.ts\<close> logs in and out; \<open>messaging.ts\<close> sends; \<open>sync.ts\<close> receives, pins keys, follows the
  signed roster, stores, edits, deletes and purges; \<open>calls.ts\<close> and \<open>voice.ts\<close> run calls over ephemeral
  messages; \<open>search.ts\<close>, \<open>invite.ts\<close>, \<open>attachments.ts\<close>, \<open>chatPrefs.ts\<close>, \<open>appearance.ts\<close> are smaller parts.
  \<open>ui/\<close> draws the signals, keeps the variables of its dialogs and calls the operations.

  Theories and what they model.
  \<^item> \<open>Prelude\<close>: bytes, results of code that throws, the JavaScript Map, and the interfaces: \<open>codec\<close> and
    \<open>fixed_codec\<close> (encoders with decoders), \<open>keyed_store\<close> (maps and object stores), \<open>frame\<close> (what every step
    keeps), each interpreted where it is provided.
  \<^item> \<open>Bytes\<close>, \<open>Ids\<close>, \<open>Primitives\<close>, \<open>Seal\<close>, \<open>Account\<close>, \<open>Files\<close>, \<open>Envelope\<close>: the files of \<open>crypto/\<close> byte
    for byte. The packages they call (noble, hash-wasm) are a record of functions; \<open>crypto_laws\<close> states their
    documented behaviour. \<open>EnvelopeFacts\<close> and \<open>AccountFacts\<close> show that parsing and printing, sealing and
    opening are inverse, which inputs are accepted, and that what opens was made with the keys it claims.
  \<^item> \<open>English\<close>, \<open>Russian\<close>, \<open>I18n\<close>, \<open>Texts\<close>: the two tables of texts and the translation; replacing placeholders
    one by one fills the text's template, and no text, hole or key differs between the languages. \<open>Types\<close>: the
    wire and stored types.
  \<^item> \<open>Db\<close>, \<open>Model\<close>, \<open>Trust\<close>, \<open>ChatPrefs\<close>: the database, the signals as one record \<open>app\<close> and the world around
    them as one record \<open>world\<close>; pinning of keys (\<open>observeKeys\<close>) and its user actions; pinned, muted and hidden
    chats.
  \<^item> \<open>Sync\<close>, \<open>SyncFacts\<close>, \<open>Delivery\<close>: \<open>state/sync.ts\<close>, one definition per function; every operation keeps the
    invariant of the state, moves cursors forward only and never changes pinned keys; what is stored was signed;
    deletion and purging remove; the page loop ends.
  \<^item> \<open>Locks\<close>: \<open>withLock\<close>, which keeps the work on a conversation apart; \<open>Opening\<close>: how \<open>db.ts\<close> opens the database,
    what it tells the loading screen, and its schema.
  \<^item> \<open>Messaging\<close>, \<open>MessagingFacts\<close>: \<open>state/messaging.ts\<close>; what is sent arrives, and to whom it is sealed.
  \<^item> \<open>Http\<close>: \<open>api/http.ts\<close>, every endpoint as the request it makes, and the transport. \<open>Ws\<close>, \<open>WsFacts\<close>:
    \<open>api/ws.ts\<close> with sockets, timers and intervals as objects, as a step relation; there is one live socket and
    the client always comes back.
  \<^item> \<open>Session\<close>, \<open>SessionFacts\<close>: \<open>state/session.ts\<close>; what a login reveals, what a logout forgets.
  \<^item> \<open>Search\<close>, \<open>SearchFacts\<close>, \<open>Invite\<close>, \<open>InviteFacts\<close>, \<open>Attachments\<close>: the smaller parts.
  \<^item> \<open>Media\<close>, \<open>Calls\<close>, \<open>CallsFacts\<close>: \<open>state/calls.ts\<close>. The record \<open>phone\<close> holds the module's variables, its
    timers and the tasks that wait for a promise; \<open>perform\<close> is every event that can happen and \<open>call_step\<close> the
    step relation. The steps refine the automaton \<open>lifecycle\<close>; the shown state is true; only the person opens a
    device; hanging up releases everything, except that a set-up that was overtaken goes on.
  \<^item> \<open>Voice\<close>, \<open>VoiceFacts\<close>: \<open>state/voice.ts\<close> around the phone: \<open>voice_step\<close> contains the phone's events. The
    open connections of the mesh are exactly those of the known peers, and of a pair exactly one side offers.
  \<^item> \<open>Composer\<close>, \<open>ComposerFacts\<close>: \<open>ui/ChatView.tsx\<close>. The variables of the component are a record, its handlers
    functions, its effects run after every event (\<open>draw\<close>); \<open>composer_step\<close> mixes them with the rest of the client.
    An edit is always one of the person's own text in the conversation that is shown; which payloads break the
    drawing is \<open>bubble_throws\<close>.
  \<^item> \<open>Sidebar\<close>: \<open>Sidebar.tsx\<close>, \<open>Search.tsx\<close>, \<open>App.tsx\<close>; rows, the menu, deleting a chat, the search box, the screen.
    \<open>Members\<close>: \<open>MemberPanel.tsx\<close>, \<open>NewConversation.tsx\<close>; accepting takes the keys whose number is shown, and a
    picked name becomes one member. \<open>Overlays\<close>: \<open>CallOverlay.tsx\<close>, \<open>VoiceOverlay.tsx\<close>, \<open>fullscreen.ts\<close>; the buttons
    of a call work and the tiles of a channel show everybody once.
  \<^item> \<open>Appearance\<close>, \<open>Settings\<close>: \<open>appearance.ts\<close>, \<open>Settings.tsx\<close>. \<open>Admin\<close>, \<open>Entrance\<close>: \<open>AdminPanel.tsx\<close>,
    \<open>BotsDialog.tsx\<close>, \<open>Login.tsx\<close>; an administrator never acts on the own account, and an invitation goes from the
    panel over its QR code to the registration.
  \<^item> \<open>Screens\<close>, \<open>Panels\<close>: what the bots dialog, the administrator's panel, the settings and the entrance put on
    the screen, as lists of texts and controls with the events they make. The bots dialog is driven by its own screen
    (\<open>bots_step\<close>): what it asks of the server is what was shown, and its flag never stays; for the others a control
    is there exactly when its handler does something, and forms go out only with their values in range.
    \<open>Column\<close>: the same for the left column with its dialogs (\<open>column_step\<close>) and for the panel of members.
  \<^item> \<open>Together\<close>, \<open>Calling\<close>: two clients and the server between them. An edit rewrites every recipient's copy, a
    signed list of members is taken over with the sender's pinned keys, a call that is dialled and accepted becomes
    active on both phones, and hanging up on one of them ends it on both.
  \<^item> \<open>Examples\<close>, \<open>MoreExamples\<close>, \<open>CallExamples\<close>, \<open>VoiceExamples\<close>, \<open>ViewExamples\<close>: closed instances of the
    properties.

  Asynchrony. An operation that awaits the network or the database is one step where other operations cannot
  interfere: \<open>sync.ts\<close> takes a lock per conversation (\<open>with_lock_serial\<close>). Where they can, the operation is split: \<open>apply_stored\<close>
  and \<open>apply_stored_rest\<close>, the runs of a search, the tasks of calls and voice channels, the handlers of the
  socket, the answers the dialogs wait for. Waits for promises that are already settled are not split, and a
  handler of the chat view that awaits one operation of \<open>messaging.ts\<close> is one step.

  Bounds and fuel. Only \<open>backfill\<close> may run for ever, when a server's pages do not advance; its model has one
  round per missing message and one more, and \<open>backfill_ends\<close> shows that this is enough for a server whose
  pages advance. Every other loop is structural. Bytes are 8-bit words; lengths, cursors and times are integers,
  which stay below 2^53 where the code's numbers have to.

  Text. A character is a UTF-16 code unit below 256; the texts of the dictionaries are held as UTF-8 bytes. Where
  the code itself shows an ellipsis or a long dash it is three dots or two hyphens. Moments in the reader's locale
  are an argument.

  Not modelled. Style sheets, titles, focus and scrolling, and markup beyond the items of a screen; the table of icons and \<open>main.tsx\<close>. The Go server and the Flutter app
  are other programs. IndexedDB, WebRTC, canvas, clipboard, notifications and the QR generator are the browser's or a
  library's: their effects appear as far as the code relies on them.
\<close>

end
